(* ===== verification/Prelude.thy ===== *)
theory Prelude
  imports Main "HOL-Library.Char_ord" "HOL-Library.List_Lexorder"
begin

text \<open>
  Shared vocabulary of the development.

  A Python \<open>str\<close> is modelled by its UTF-8 encoding, a \<open>string\<close> of bytes. The
  encoding is injective and keeps the order of code points, so equality, concatenation,
  prefixes, dictionary keys and \<open>ORDER BY\<close> on text columns are the same on both sides.
  Where the code counts or cuts characters (\<open>len(s)\<close>, \<open>s[:n]\<close>, \<open>s.strip()\<close>) the
  model first groups the bytes into characters (\<open>py_chars\<close>).

  Database tables are lists of rows in insertion order, keyed by a selector; \<open>find_row\<close>,
  \<open>update_rows\<close> and \<open>first_by\<close> are the queries the SQL of the repositories is
  translated into. The locale \<open>keyed_rows\<close> collects the laws of lookups and updates by key.
\<close>

named_theorems str_simps "facts that evaluate Python string operations"
named_theorems row_simps "facts about tables as lists of rows"

section \<open>Python strings\<close>

definition is_cont :: "char \<Rightarrow> bool" where
  "is_cont c \<longleftrightarrow> 128 \<le> (of_char c :: nat) \<and> (of_char c :: nat) < 192"

function py_chars :: "string \<Rightarrow> string list" where
  "py_chars [] = []"
| "py_chars (c # cs) = (c # takeWhile is_cont cs) # py_chars (dropWhile is_cont cs)"
  by pat_completeness auto
termination
  by (relation "measure length") (auto simp: le_imp_less_Suc length_dropWhile_le)

definition py_len :: "string \<Rightarrow> nat" where
  "py_len s = length (py_chars s)"

definition py_take :: "nat \<Rightarrow> string \<Rightarrow> string" where
  "py_take n s = concat (take n (py_chars s))"

text \<open>
  The characters \<open>str.isspace\<close> accepts, as UTF-8: the ASCII separators, U+0085, U+00A0,
  U+1680, U+2000 to U+200A, U+2028, U+2029, U+202F, U+205F and U+3000.
\<close>

definition is_ws :: "string \<Rightarrow> bool" where
  "is_ws ch = (case map (of_char :: char \<Rightarrow> nat) ch of
      [b] \<Rightarrow> b = 32 \<or> (9 \<le> b \<and> b \<le> 13) \<or> (28 \<le> b \<and> b \<le> 31)
    | [b, c] \<Rightarrow> b = 194 \<and> (c = 133 \<or> c = 160)
    | [b, c, d] \<Rightarrow>
        (b = 225 \<and> c = 154 \<and> d = 128)
        \<or> (b = 226 \<and> c = 128 \<and> ((128 \<le> d \<and> d \<le> 138) \<or> d = 168 \<or> d = 169 \<or> d = 175))
        \<or> (b = 226 \<and> c = 129 \<and> d = 159)
        \<or> (b = 227 \<and> c = 128 \<and> d = 128)
    | _ \<Rightarrow> False)"

definition py_strip :: "string \<Rightarrow> string" where
  "py_strip s = concat (rev (dropWhile is_ws (rev (dropWhile is_ws (py_chars s)))))"

text \<open>\<open>s.split()\<close> with no argument: the maximal runs of non-space characters.\<close>

fun words_of :: "string list \<Rightarrow> string \<Rightarrow> string list" where
  "words_of [] acc = (if acc = [] then [] else [acc])"
| "words_of (ch # chs) acc =
     (if is_ws ch then (if acc = [] then [] else [acc]) @ words_of chs []
      else words_of chs (acc @ ch))"

definition py_split :: "string \<Rightarrow> string list" where
  "py_split s = words_of (py_chars s) []"

fun py_join :: "string \<Rightarrow> string list \<Rightarrow> string" where
  "py_join sep [] = []"
| "py_join sep [x] = x"
| "py_join sep (x # y # xs) = x @ sep @ py_join sep (y # xs)"

text \<open>\<open>s.split(c)\<close> for a one-character ASCII separator: never the empty list.\<close>

fun split_on :: "char \<Rightarrow> string \<Rightarrow> string list" where
  "split_on c [] = [[]]"
| "split_on c (x # xs) =
     (if x = c then [] # split_on c xs
      else (case split_on c xs of [] \<Rightarrow> [[x]] | p # ps \<Rightarrow> (x # p) # ps))"

definition starts_with :: "string \<Rightarrow> string \<Rightarrow> bool" where
  "starts_with p s \<longleftrightarrow> take (length p) s = p"

definition remove_prefix :: "string \<Rightarrow> string \<Rightarrow> string" where
  "remove_prefix p s = (if starts_with p s then drop (length p) s else s)"

text \<open>Decimal rendering of an integer, as f-strings do.\<close>

function nat_digits :: "nat \<Rightarrow> string" where
  "nat_digits n =
     (if n < 10 then [char_of (48 + n)] else nat_digits (n div 10) @ [char_of (48 + n mod 10)])"
  by pat_completeness auto
termination
  by (relation "measure id") auto

declare nat_digits.simps [simp del]

definition str_of_nat :: "nat \<Rightarrow> string" where
  "str_of_nat n = nat_digits n"

definition str_of_int :: "int \<Rightarrow> string" where
  "str_of_int i = (if i < 0 then ''-'' @ nat_digits (nat (- i)) else nat_digits (nat i))"

text \<open>Truthiness of an optional string: \<open>None\<close> and the empty string are false.\<close>

definition truthy :: "string option \<Rightarrow> bool" where
  "truthy s = (case s of None \<Rightarrow> False | Some t \<Rightarrow> t \<noteq> [])"

lemma truthy_simps [simp]: "truthy None = False" "truthy (Some t) = (t \<noteq> [])"
  by (simp_all add: truthy_def)

lemma concat_py_chars [simp]: "concat (py_chars s) = s"
  by (induction s rule: py_chars.induct) auto

lemma while_prefix:
  assumes "ys = [] \<or> \<not> P (hd ys)"
  shows "takeWhile P (takeWhile P xs @ ys) = takeWhile P xs"
    and "dropWhile P (takeWhile P xs @ ys) = ys"
proof -
  have ys: "takeWhile P ys = []" "dropWhile P ys = ys" using assms by (cases ys; simp)+
  show "takeWhile P (takeWhile P xs @ ys) = takeWhile P xs" by (induction xs) (simp_all add: ys)
  show "dropWhile P (takeWhile P xs @ ys) = ys" by (induction xs) (simp_all add: ys)
qed

lemma py_chars_cons_char:
  "ys = [] \<or> \<not> is_cont (hd ys) \<Longrightarrow>
   py_chars ((c # takeWhile is_cont cs) @ ys) = (c # takeWhile is_cont cs) # py_chars ys"
  by (simp add: while_prefix)

lemma hd_concat_take:
  "s = [] \<or> \<not> is_cont (hd s) \<Longrightarrow>
   concat (take m (py_chars s)) = [] \<or> \<not> is_cont (hd (concat (take m (py_chars s))))"
  by (cases s; cases m) auto

lemma py_chars_append_take: "py_chars (concat (take n (py_chars s))) = take n (py_chars s)"
proof (induction s arbitrary: n rule: py_chars.induct)
  case 1
  then show ?case by simp
next
  case (2 c cs)
  have "dropWhile is_cont cs = [] \<or> \<not> is_cont (hd (dropWhile is_cont cs))"
    using hd_dropWhile by blast
  note hd = hd_concat_take [OF this]
  show ?case
  proof (cases n)
    case (Suc m)
    have "concat (take n (py_chars (c # cs)))
        = (c # takeWhile is_cont cs) @ concat (take m (py_chars (dropWhile is_cont cs)))"
      by (simp only: Suc py_chars.simps take_Suc_Cons concat.simps)
    then show ?thesis
      by (simp only: py_chars_cons_char [OF hd] "2.IH" Suc py_chars.simps take_Suc_Cons)
  qed simp
qed

lemma py_len_take: "py_len (py_take n s) = min n (py_len s)"
  by (simp add: py_len_def py_take_def py_chars_append_take min.commute)

lemma py_len_take_le [simp]: "py_len (py_take n s) \<le> n"
  by (simp add: py_len_take)

lemma py_take_all: "py_len s \<le> n \<Longrightarrow> py_take n s = s"
  by (simp add: py_len_def py_take_def)

lemma py_take_take: "py_take n (py_take n s) = py_take n s"
  by (simp add: py_take_def py_chars_append_take)

lemma py_len_Nil [simp]: "py_len [] = 0"
  by (simp add: py_len_def)

lemma py_len_eq_0 [simp]: "py_len s = 0 \<longleftrightarrow> s = []"
  by (cases s) (simp_all add: py_len_def)

lemma py_chars_ascii: "\<forall>c\<in>set s. \<not> is_cont c \<Longrightarrow> py_chars s = map (\<lambda>c. [c]) s"
proof (induction s)
  case Nil
  then show ?case by simp
next
  case (Cons c cs)
  then have "takeWhile is_cont cs = []" "dropWhile is_cont cs = cs"
    by (cases cs; simp)+
  with Cons show ?case by simp
qed

lemma py_len_ascii: "\<forall>c\<in>set s. \<not> is_cont c \<Longrightarrow> py_len s = length s"
  by (simp add: py_len_def py_chars_ascii)

text \<open>Characters of a decoded string, and what stripping keeps.\<close>

definition char_list :: "string list \<Rightarrow> bool" where
  "char_list cs \<longleftrightarrow> (\<forall>ch\<in>set cs. ch \<noteq> [] \<and> list_all is_cont (tl ch)) \<and> (\<forall>ch\<in>set (tl cs). \<not> is_cont (hd ch))"

lemma char_list_Cons:
  "char_list (ch # cs) \<longleftrightarrow> ch \<noteq> [] \<and> list_all is_cont (tl ch) \<and> char_list cs
     \<and> (cs = [] \<or> \<not> is_cont (hd (hd cs)))"
  by (cases cs) (auto simp: char_list_def)

lemma takeWhile_conts:
  "list_all P xs \<Longrightarrow> ys = [] \<or> \<not> P (hd ys) \<Longrightarrow> takeWhile P (xs @ ys) = xs \<and> dropWhile P (xs @ ys) = ys"
  by (induction xs) (cases ys; simp)+

lemma py_chars_concat: "char_list cs \<Longrightarrow> py_chars (concat cs) = cs"
proof (induction cs)
  case Nil
  then show ?case by simp
next
  case (Cons ch cs)
  then have c: "ch \<noteq> []" "list_all is_cont (tl ch)" "char_list cs" "cs = [] \<or> \<not> is_cont (hd (hd cs))"
    by (simp_all add: char_list_Cons)
  then obtain b bs where ch: "ch = b # bs" "list_all is_cont bs" by (cases ch) auto
  have "concat cs = [] \<or> \<not> is_cont (hd (concat cs))"
    using c(3,4) by (cases cs) (auto simp: char_list_Cons)
  from takeWhile_conts [OF ch(2) this] Cons.IH [OF c(3)] show ?case by (simp add: ch(1))
qed

lemma py_chars_start: "t = [] \<or> \<not> P (hd t) \<Longrightarrow> py_chars t = [] \<or> \<not> P (hd (hd (py_chars t)))"
  by (cases t) auto

lemma char_list_py_chars: "char_list (py_chars s)"
proof (induction s rule: py_chars.induct)
  case 1
  then show ?case by (simp add: char_list_def)
next
  case (2 c cs)
  have "dropWhile is_cont cs = [] \<or> \<not> is_cont (hd (dropWhile is_cont cs))"
    using hd_dropWhile by blast
  then have "py_chars (dropWhile is_cont cs) = [] \<or> \<not> is_cont (hd (hd (py_chars (dropWhile is_cont cs))))"
    by (rule py_chars_start)
  moreover have "list_all is_cont (takeWhile is_cont cs)"
    by (simp add: list_all_iff) (metis set_takeWhileD)
  ultimately show ?case using 2
    by (simp only: py_chars.simps char_list_Cons list.sel list.distinct simp_thms)
qed

lemma char_list_sub:
  assumes "char_list (xs @ ys @ zs)"
  shows "char_list ys"
proof -
  have "set ys \<subseteq> set (xs @ ys @ zs)" by auto
  moreover have "set (tl ys) \<subseteq> set (tl (xs @ ys @ zs))"
    by (cases xs; cases ys) auto
  ultimately show ?thesis using assms unfolding char_list_def by blast
qed

lemma py_chars_strip:
  "py_chars (py_strip s) = rev (dropWhile is_ws (rev (dropWhile is_ws (py_chars s))))"
proof -
  let ?a = "dropWhile is_ws (py_chars s)"
  let ?b = "rev (dropWhile is_ws (rev ?a))"
  have "py_chars s = takeWhile is_ws (py_chars s) @ ?a" by simp
  moreover have "?a = ?b @ rev (takeWhile is_ws (rev ?a))"
    by (metis rev_append rev_rev_ident takeWhile_dropWhile_id)
  ultimately have "py_chars s = takeWhile is_ws (py_chars s) @ ?b @ rev (takeWhile is_ws (rev ?a))"
    by simp
  then have "char_list ?b" using char_list_py_chars [of s] by (metis char_list_sub)
  then show ?thesis unfolding py_strip_def by (rule py_chars_concat)
qed

lemma dropWhile_twice: "dropWhile P (dropWhile P xs) = dropWhile P xs"
  by (induction xs) auto

lemma py_strip_idem [simp]: "py_strip (py_strip s) = py_strip s"
proof -
  let ?a = "dropWhile is_ws (py_chars s)"
  let ?b = "rev (dropWhile is_ws (rev ?a))"
  have "dropWhile is_ws ?b = ?b"
  proof (cases ?b)
    case Nil
    then show ?thesis by (simp only: dropWhile.simps)
  next
    case (Cons x xs)
    have a: "?a = ?b @ rev (takeWhile is_ws (rev ?a))"
      by (metis rev_append rev_rev_ident takeWhile_dropWhile_id)
    have a': "?a = x # (xs @ rev (takeWhile is_ws (rev ?a)))"
      using a unfolding Cons append_Cons .
    have "?a \<noteq> []" by (subst a') (rule list.distinct(2))
    from hd_dropWhile [OF this] have "\<not> is_ws (hd ?a)" .
    moreover have "hd ?a = x" using arg_cong [OF a', of hd] by (simp only: list.sel)
    ultimately have "\<not> is_ws x" by simp
    then show ?thesis unfolding Cons by (simp only: dropWhile.simps if_False)
  qed
  moreover have "dropWhile is_ws (rev ?b) = rev ?b"
    by (simp only: rev_rev_ident dropWhile_twice)
  ultimately show ?thesis
    unfolding py_strip_def [of "py_strip s"] py_chars_strip by (simp add: py_strip_def)
qed

lemma split_on_not_Nil [simp]: "split_on c s \<noteq> []"
  by (induction s) (auto split: list.splits)

lemma split_on_absent: "c \<notin> set s \<Longrightarrow> split_on c s = [s]"
  by (induction s) auto

lemma split_on_cons: "c \<notin> set s \<Longrightarrow> split_on c (s @ c # t) = s # split_on c t"
  by (induction s) auto

lemma starts_with_append [simp]: "starts_with p (p @ s)"
  by (simp add: starts_with_def)

lemma starts_with_iff: "starts_with p s \<longleftrightarrow> (\<exists>t. s = p @ t)"
  unfolding starts_with_def by (metis append_eq_conv_conj append_take_drop_id)

lemma remove_prefix_append [simp]: "remove_prefix p (p @ s) = s"
  by (simp add: remove_prefix_def)

lemmas [str_simps] = py_len_take py_take_take split_on_absent split_on_cons

section \<open>Tables\<close>

text \<open>The row with a given key: \<open>session.get(Row, key)\<close>.\<close>

fun find_row :: "('r \<Rightarrow> 'k) \<Rightarrow> 'k \<Rightarrow> 'r list \<Rightarrow> 'r option" where
  "find_row key k [] = None"
| "find_row key k (r # rs) = (if key r = k then Some r else find_row key k rs)"

text \<open>An \<open>UPDATE ... WHERE key = k\<close>, and the flush of one modified row object.\<close>

definition update_rows :: "('r \<Rightarrow> 'k) \<Rightarrow> 'k \<Rightarrow> ('r \<Rightarrow> 'r) \<Rightarrow> 'r list \<Rightarrow> 'r list" where
  "update_rows key k f rs = map (\<lambda>r. if key r = k then f r else r) rs"

text \<open>
  \<open>ORDER BY rank LIMIT 1\<close>: the first row of least rank. The ranks the repositories use end
  in the primary key, so the row is unique.
\<close>

fun first_by :: "('r \<Rightarrow> 'o::linorder) \<Rightarrow> 'r list \<Rightarrow> 'r option" where
  "first_by rank [] = None"
| "first_by rank (r # rs) =
     (case first_by rank rs of
        None \<Rightarrow> Some r
      | Some b \<Rightarrow> if rank b < rank r then Some b else Some r)"

abbreviation keys_distinct :: "('r \<Rightarrow> 'k) \<Rightarrow> 'r list \<Rightarrow> bool" where
  "keys_distinct key rs \<equiv> distinct (map key rs)"

lemma find_row_Some: "find_row key k rs = Some r \<Longrightarrow> r \<in> set rs \<and> key r = k"
  by (induction rs) (auto split: if_splits)

lemma find_row_None: "find_row key k rs = None \<longleftrightarrow> k \<notin> key ` set rs"
  by (induction rs) auto

lemma find_row_distinct:
  "keys_distinct key rs \<Longrightarrow> r \<in> set rs \<Longrightarrow> find_row key (key r) rs = Some r"
  by (induction rs) (auto simp: image_iff)

lemma find_row_append:
  "find_row key k (rs @ ss) = (case find_row key k rs of None \<Rightarrow> find_row key k ss | Some r \<Rightarrow> Some r)"
  by (induction rs) auto

lemma map_key_update [row_simps]:
  "(\<And>r. key (f r) = key r) \<Longrightarrow> map key (update_rows key k f rs) = map key rs"
  by (induction rs) (auto simp: update_rows_def)

lemma find_row_update [row_simps]:
  "(\<And>r. key (f r) = key r) \<Longrightarrow>
   find_row key j (update_rows key k f rs)
     = (if j = k then map_option f (find_row key k rs) else find_row key j rs)"
proof (induction rs)
  case Nil
  then show ?case by (simp add: update_rows_def)
next
  case (Cons a rs)
  then show ?case by (cases "key a = k"; cases "key a = j") (auto simp: update_rows_def)
qed

lemma update_rows_mem_iff:
  "r \<in> set (update_rows key k f rs) \<longleftrightarrow>
   (\<exists>r'\<in>set rs. r = (if key r' = k then f r' else r'))"
  unfolding update_rows_def by (simp only: set_map image_iff)

lemma length_update_rows [simp]: "length (update_rows key k f rs) = length rs"
  by (simp add: update_rows_def)

lemma first_by_None [simp]: "first_by rank rs = None \<longleftrightarrow> rs = []"
  by (cases rs) (auto split: option.splits)

lemma first_by_mem: "first_by rank rs = Some r \<Longrightarrow> r \<in> set rs"
  by (induction rs arbitrary: r) (auto split: option.splits if_splits)

lemma first_by_least: "first_by rank rs = Some r \<Longrightarrow> s \<in> set rs \<Longrightarrow> rank r \<le> rank s"
proof (induction rs arbitrary: r s)
  case Nil
  then show ?case by simp
next
  case (Cons a rs)
  show ?case
  proof (cases "first_by rank rs")
    case None
    with Cons.prems show ?thesis by simp
  next
    case (Some b)
    then have b: "t \<in> set rs \<Longrightarrow> rank b \<le> rank t" for t by (rule Cons.IH)
    show ?thesis
    proof (cases "rank b < rank a")
      case True
      with Cons.prems Some have "r = b" "s = a \<or> s \<in> set rs" by simp_all
      with True b show ?thesis by (metis less_imp_le)
    next
      case False
      with Cons.prems Some have "r = a" "s = a \<or> s \<in> set rs" by simp_all
      with False b show ?thesis by (metis leI order_trans order_refl)
    qed
  qed
qed

text \<open>The laws of a table addressed by its primary key.\<close>

locale keyed_rows =
  fixes key :: "'r \<Rightarrow> 'k"
    and put :: "'r \<Rightarrow> 'r list \<Rightarrow> 'r list"
  assumes put_key: "map key (put r rs) = map key rs"
    and find_put_same: "find_row key (key r) rs \<noteq> None \<Longrightarrow> find_row key (key r) (put r rs) = Some r"
    and find_put_other: "k \<noteq> key r \<Longrightarrow> find_row key k (put r rs) = find_row key k rs"
begin

lemma put_distinct: "keys_distinct key rs \<Longrightarrow> keys_distinct key (put r rs)"
  by (simp add: put_key)

lemma put_dom: "find_row key k (put r rs) = None \<longleftrightarrow> find_row key k rs = None"
  using put_key [of r rs] by (metis find_row_None list.set_map)

lemma find_put:
  "find_row key (key r) rs \<noteq> None \<Longrightarrow>
   find_row key k (put r rs) = (if k = key r then Some r else find_row key k rs)"
  by (simp add: find_put_same find_put_other)

end

text \<open>Flushing a modified row object replaces the row with its key.\<close>

definition put_row :: "('r \<Rightarrow> 'k) \<Rightarrow> 'r \<Rightarrow> 'r list \<Rightarrow> 'r list" where
  "put_row key r rs = update_rows key (key r) (\<lambda>_. r) rs"

lemma map_key_put_row [row_simps]: "map key (put_row key r rs) = map key rs"
  by (induction rs) (auto simp: put_row_def update_rows_def)

lemma find_put_row [row_simps]:
  "find_row key k (put_row key r rs)
     = (if k = key r then map_option (\<lambda>_. r) (find_row key k rs) else find_row key k rs)"
  by (induction rs) (auto simp: put_row_def update_rows_def)

lemma put_row_mem: "s \<in> set (put_row key r rs) \<Longrightarrow> s = r \<or> (s \<in> set rs \<and> key s \<noteq> key r)"
  by (auto simp: put_row_def update_rows_def)

lemma length_put_row [simp]: "length (put_row key r rs) = length rs"
  by (simp add: put_row_def)

interpretation rows: keyed_rows key "put_row key" for key
  by unfold_locales (auto simp: row_simps)

section \<open>Instants\<close>

text \<open>
  A \<open>datetime\<close> carries its wall-clock time in microseconds and, when it is aware, its
  offset from UTC. \<open>to_utc\<close> is the \<open>_utc\<close> helper of the services: a naive value is
  taken as UTC, an aware one is converted. \<open>sqlite_bind\<close> is what a \<open>DateTime\<close> column
  stores: SQLite has no time zones, so the driver writes the wall-clock time.
\<close>

datatype py_datetime = Naive int | Aware int int

definition to_utc :: "py_datetime \<Rightarrow> int" where
  "to_utc d = (case d of Naive t \<Rightarrow> t | Aware t off \<Rightarrow> t - off)"

definition sqlite_bind :: "py_datetime \<Rightarrow> int" where
  "sqlite_bind d = (case d of Naive t \<Rightarrow> t | Aware t off \<Rightarrow> t)"

definition utc_dt :: "int \<Rightarrow> py_datetime" where
  "utc_dt i = Aware i 0"

definition seconds :: "int \<Rightarrow> int" where
  "seconds n = n * 1000000"

lemma to_utc_utc_dt [simp]: "to_utc (utc_dt i) = i"
  by (simp add: to_utc_def utc_dt_def)

lemma sqlite_bind_utc_dt [simp]: "sqlite_bind (utc_dt i) = i"
  by (simp add: sqlite_bind_def utc_dt_def)

lemma seconds_pos [simp]: "0 < seconds n \<longleftrightarrow> 0 < n" "0 \<le> seconds n \<longleftrightarrow> 0 \<le> n"
  by (simp_all add: seconds_def)

section \<open>Status machines\<close>

text \<open>
  The registries guard every status change with a table of allowed targets. A status with an
  empty row of the table is final: no sequence of guarded changes leaves it.
\<close>

definition moves :: "('s \<Rightarrow> 's list) \<Rightarrow> ('s \<times> 's) set" where
  "moves allowed = {(s, t). t \<in> set (allowed s)}"

locale status_machine =
  fixes allowed :: "'s \<Rightarrow> 's list" and final :: "'s \<Rightarrow> bool"
  assumes final_allowed: "final s \<Longrightarrow> allowed s = []"
begin

lemma final_no_move: "final s \<Longrightarrow> (s, t) \<notin> moves allowed"
  by (simp add: moves_def final_allowed)

lemma final_stays: "(s, t) \<in> (moves allowed)\<^sup>* \<Longrightarrow> final s \<Longrightarrow> t = s"
  by (induction rule: converse_rtrancl_induct) (auto simp: final_no_move)

end

section \<open>JSON documents\<close>

text \<open>The values \<open>json.loads\<close> returns; numbers are the integers the code stores.\<close>

datatype json =
    JNull
  | JBool bool
  | JInt int
  | JStr string
  | JList "json list"
  | JObj "(string \<times> json) list"

definition jopt :: "('a \<Rightarrow> json) \<Rightarrow> 'a option \<Rightarrow> json" where
  "jopt f x = (case x of None \<Rightarrow> JNull | Some v \<Rightarrow> f v)"

abbreviation jstr_opt :: "string option \<Rightarrow> json" where
  "jstr_opt \<equiv> jopt JStr"

text \<open>\<open>dict.update\<close> of a dictionary in insertion order.\<close>

fun dict_set :: "string \<Rightarrow> 'v \<Rightarrow> (string \<times> 'v) list \<Rightarrow> (string \<times> 'v) list" where
  "dict_set k v [] = [(k, v)]"
| "dict_set k v ((j, u) # d) = (if j = k then (k, v) # d else (j, u) # dict_set k v d)"

definition dict_pop :: "string \<Rightarrow> (string \<times> 'v) list \<Rightarrow> (string \<times> 'v) list" where
  "dict_pop k d = filter (\<lambda>(j, _). j \<noteq> k) d"

definition dict_update :: "(string \<times> 'v) list \<Rightarrow> (string \<times> 'v) list \<Rightarrow> (string \<times> 'v) list" where
  "dict_update d e = fold (\<lambda>(k, v) acc. dict_set k v acc) e d"

lemma map_of_dict_set [simp]: "map_of (dict_set k v d) = (map_of d)(k \<mapsto> v)"
  by (induction d) (auto simp: fun_eq_iff)

lemma map_of_dict_pop [simp]: "map_of (dict_pop k d) = (map_of d)(k := None)"
  by (induction d) (auto simp: dict_pop_def fun_eq_iff)

text \<open>\<open>dict.fromkeys(xs)\<close>: the distinct elements in order of first occurrence.\<close>

fun ordered_unique :: "'a list \<Rightarrow> 'a list" where
  "ordered_unique [] = []"
| "ordered_unique (x # xs) = x # filter (\<lambda>y. y \<noteq> x) (ordered_unique xs)"

lemma set_ordered_unique [simp]: "set (ordered_unique xs) = set xs"
  by (induction xs) auto

lemma distinct_ordered_unique [simp]: "distinct (ordered_unique xs)"
  by (induction xs) auto

end
