(* ===== verification/Errors.thy ===== *)
theory Errors
  imports Prelude
begin

text \<open>
  The exceptions of the modelled code as values, and the error monad \<open>py_error + 'a\<close> in
  which pure validation runs. \<open>catches_value_error\<close> is Python's \<open>except ValueError\<close>:
  pydantic's \<open>ValidationError\<close> and the conflicts the services raise are subclasses of
  \<open>ValueError\<close>; the registries' own errors are subclasses of \<open>RuntimeError\<close> and pass
  through such a handler.
\<close>

text \<open>\<open>OpenClawTransportError\<close>, raised by an executor or notifier.\<close>

record transport_error =
  te_code :: string
  te_message :: string
  te_retryable :: bool
  te_uncertain_side_effect :: bool
  te_status_code :: "int option"

datatype py_error =
    ValueError string
  | ValidationError
  | AsyncRunNotFound string
  | TaskNotFound string
  | TaskProjectNotFound string
  | InvalidTaskTransition string
  | TaskCompletionRequiresResult
  | ProjectNotFound string
  | ProjectConflict string
  | InvalidProjectTransition string
  | ApprovalConflict string
  | AsyncTaskIdempotencyConflict string
  | PlanPersistenceConflict string
  | PlanningTruthError string
  | TransportError transport_error
  | RuntimeError string
  | ProjectContextNotFound string
  | TaskContextNotFound string
  | TaskProjectMismatch string string string
  | ProjectResolutionFailed
  | WorkflowPreparationFailed string
  | SemanticIntentResolutionError
  | ContextBudgetExceeded int int
  | IntegrityError
  | KeyError string
  | AttributeError
  | AssertionError
  | TypeError
  | IndexError
  | HTTPException int string

fun catches_value_error :: "py_error \<Rightarrow> bool" where
  "catches_value_error (ValueError _) = True"
| "catches_value_error ValidationError = True"
| "catches_value_error (ApprovalConflict _) = True"
| "catches_value_error (AsyncTaskIdempotencyConflict _) = True"
| "catches_value_error (PlanPersistenceConflict _) = True"
| "catches_value_error (PlanningTruthError _) = True"
| "catches_value_error (ContextBudgetExceeded _ _) = True"
| "catches_value_error _ = False"

type_synonym 'a res = "py_error + 'a"

definition bindE :: "'a res \<Rightarrow> ('a \<Rightarrow> 'b res) \<Rightarrow> 'b res" where
  "bindE m f = (case m of Inl e \<Rightarrow> Inl e | Inr a \<Rightarrow> f a)"

definition ensureE :: "bool \<Rightarrow> py_error \<Rightarrow> unit res" where
  "ensureE b e = (if b then Inr () else Inl e)"

fun mapE :: "('a \<Rightarrow> 'b res) \<Rightarrow> 'a list \<Rightarrow> 'b list res" where
  "mapE f [] = Inr []"
| "mapE f (x # xs) = bindE (f x) (\<lambda>y. bindE (mapE f xs) (\<lambda>ys. Inr (y # ys)))"

lemma bindE_simps [simp]:
  "bindE (Inl e) f = Inl e" "bindE (Inr a) f = f a"
  by (simp_all add: bindE_def)

lemma bindE_Inr_iff: "bindE m f = Inr b \<longleftrightarrow> (\<exists>a. m = Inr a \<and> f a = Inr b)"
  by (cases m) auto

lemma bindE_InrE: "bindE m f = Inr b \<Longrightarrow> (\<And>a. m = Inr a \<Longrightarrow> f a = Inr b \<Longrightarrow> R) \<Longrightarrow> R"
  by (cases m) auto

lemma bindE_Inl_iff: "bindE m f = Inl e \<longleftrightarrow> m = Inl e \<or> (\<exists>a. m = Inr a \<and> f a = Inl e)"
  by (cases m) auto

lemma ensureE_Inr_iff [simp]: "ensureE b e = Inr u \<longleftrightarrow> b"
  by (cases u) (simp add: ensureE_def)

lemma ensureE_True [simp]: "ensureE True e = Inr ()"
  and ensureE_False [simp]: "ensureE False e = Inl e"
  by (simp_all add: ensureE_def)

lemma mapE_Inr_iff: "mapE f xs = Inr ys \<longleftrightarrow> list_all2 (\<lambda>x y. f x = Inr y) xs ys"
proof (induction xs arbitrary: ys)
  case Nil
  then show ?case by auto
next
  case (Cons x xs)
  then show ?case by (cases ys) (auto simp: bindE_Inr_iff)
qed

lemma mapE_Inr: "(\<And>x. x \<in> set xs \<Longrightarrow> f x = Inr (g x)) \<Longrightarrow> mapE f xs = Inr (map g xs)"
  by (induction xs) auto

section \<open>Reading a validated model from a JSON object\<close>

text \<open>
  The readers a pydantic model applies to the fields of a document: a missing field takes its
  default, \<open>None\<close> is allowed for optional fields only, and a value of the wrong JSON type is a
  validation error.
\<close>

definition field_str :: "(string \<times> json) list \<Rightarrow> string \<Rightarrow> string option \<Rightarrow> string res" where
  "field_str d k dflt = (case map_of d k of
      None \<Rightarrow> (case dflt of None \<Rightarrow> Inl ValidationError | Some s \<Rightarrow> Inr s)
    | Some (JStr s) \<Rightarrow> Inr s
    | Some _ \<Rightarrow> Inl ValidationError)"

definition field_str_opt :: "(string \<times> json) list \<Rightarrow> string \<Rightarrow> string option res" where
  "field_str_opt d k = (case map_of d k of
      None \<Rightarrow> Inr None
    | Some JNull \<Rightarrow> Inr None
    | Some (JStr s) \<Rightarrow> Inr (Some s)
    | Some _ \<Rightarrow> Inl ValidationError)"

definition field_int :: "(string \<times> json) list \<Rightarrow> string \<Rightarrow> int \<Rightarrow> int res" where
  "field_int d k dflt = (case map_of d k of
      None \<Rightarrow> Inr dflt
    | Some (JInt i) \<Rightarrow> Inr i
    | Some _ \<Rightarrow> Inl ValidationError)"

definition field_bool :: "(string \<times> json) list \<Rightarrow> string \<Rightarrow> bool \<Rightarrow> bool res" where
  "field_bool d k dflt = (case map_of d k of
      None \<Rightarrow> Inr dflt
    | Some (JBool b) \<Rightarrow> Inr b
    | Some _ \<Rightarrow> Inl ValidationError)"

definition str_item :: "json \<Rightarrow> string res" where
  "str_item j = (case j of JStr s \<Rightarrow> Inr s | _ \<Rightarrow> Inl ValidationError)"

definition field_strs :: "(string \<times> json) list \<Rightarrow> string \<Rightarrow> string list res" where
  "field_strs d k = (case map_of d k of
      None \<Rightarrow> Inr []
    | Some (JList js) \<Rightarrow> mapE str_item js
    | Some _ \<Rightarrow> Inl ValidationError)"

text \<open>A \<open>StrEnum\<close> field: the value names a member.\<close>

definition enum_member :: "('e \<times> string) list \<Rightarrow> string \<Rightarrow> 'e res" where
  "enum_member tab s = (case find (\<lambda>(e, v). v = s) tab of
      None \<Rightarrow> Inl ValidationError
    | Some (e, v) \<Rightarrow> Inr e)"

definition len_between :: "nat \<Rightarrow> nat \<Rightarrow> string \<Rightarrow> bool" where
  "len_between lo hi s \<longleftrightarrow> lo \<le> py_len s \<and> py_len s \<le> hi"

definition len_opt :: "nat \<Rightarrow> string option \<Rightarrow> bool" where
  "len_opt hi s \<longleftrightarrow> (case s of None \<Rightarrow> True | Some t \<Rightarrow> py_len t \<le> hi)"

lemma mapE_str_item [simp]: "mapE str_item (map JStr xs) = Inr xs"
  by (induction xs) (simp_all add: str_item_def)

lemmas field_defs = field_str_def field_str_opt_def field_int_def field_bool_def field_strs_def

end
