(* ===== verification/TaskModels.thy ===== *)
theory TaskModels
  imports Errors
begin

text \<open>
  The Task Registry's data (\<open>app/tasks/models.py\<close>, the \<open>tasks\<close> table of
  \<open>app/db/models.py\<close>) and its status machine (\<open>TASK_TRANSITIONS\<close> of
  \<open>app/tasks/service.py\<close>), with the Project Registry's status machine beside it.
\<close>

datatype task_status =
    TReceived | TClarifying | TPlanning | TWaitingApproval | TQueued | TRunning
  | TVerifying | TCompleted | TFailed | TCancelled | TBlocked

fun task_status_value :: "task_status \<Rightarrow> string" where
  "task_status_value TReceived = ''received''"
| "task_status_value TClarifying = ''clarifying''"
| "task_status_value TPlanning = ''planning''"
| "task_status_value TWaitingApproval = ''waiting_approval''"
| "task_status_value TQueued = ''queued''"
| "task_status_value TRunning = ''running''"
| "task_status_value TVerifying = ''verifying''"
| "task_status_value TCompleted = ''completed''"
| "task_status_value TFailed = ''failed''"
| "task_status_value TCancelled = ''cancelled''"
| "task_status_value TBlocked = ''blocked''"

datatype task_priority = PLow | PNormal | PHigh | PCritical

fun task_priority_value :: "task_priority \<Rightarrow> string" where
  "task_priority_value PLow = ''low''"
| "task_priority_value PNormal = ''normal''"
| "task_priority_value PHigh = ''high''"
| "task_priority_value PCritical = ''critical''"

definition task_priorities :: "(task_priority \<times> string) list" where
  "task_priorities = map (\<lambda>p. (p, task_priority_value p)) [PLow, PNormal, PHigh, PCritical]"

fun task_transitions :: "task_status \<Rightarrow> task_status list" where
  "task_transitions TReceived = [TClarifying, TPlanning, TBlocked, TCancelled]"
| "task_transitions TClarifying = [TPlanning, TBlocked, TCancelled]"
| "task_transitions TPlanning = [TWaitingApproval, TQueued, TBlocked, TCancelled]"
| "task_transitions TWaitingApproval = [TPlanning, TQueued, TBlocked, TCancelled]"
| "task_transitions TQueued = [TRunning, TBlocked, TCancelled]"
| "task_transitions TRunning = [TVerifying, TFailed, TBlocked, TCancelled]"
| "task_transitions TVerifying = [TRunning, TCompleted, TFailed, TBlocked, TCancelled]"
| "task_transitions TBlocked = [TClarifying, TPlanning, TQueued, TRunning, TCancelled]"
| "task_transitions TFailed = [TPlanning, TQueued, TCancelled]"
| "task_transitions TCompleted = []"
| "task_transitions TCancelled = []"

definition task_final :: "task_status \<Rightarrow> bool" where
  "task_final s \<longleftrightarrow> s = TCompleted \<or> s = TCancelled"

interpretation task_machine: status_machine task_transitions task_final
  by unfold_locales (auto simp: task_final_def)

text \<open>A validated \<open>TaskCreate\<close>.\<close>

record task_create =
  tc_project_id :: string
  tc_title :: string
  tc_description :: string
  tc_priority :: task_priority
  tc_risk_level :: int
  tc_requested_by :: string
  tc_source_channel :: string
  tc_approval_required :: bool
  tc_deadline :: "py_datetime option"

text \<open>
  Construction of a \<open>TaskCreate\<close>: the length and range constraints, then the validators that
  strip and refuse blank text.
\<close>

definition strip_required_text :: "string \<Rightarrow> string res" where
  "strip_required_text s =
     (let n = py_strip s in if n = [] then Inl ValidationError else Inr n)"

definition task_create_validate :: "task_create \<Rightarrow> task_create res" where
  "task_create_validate d =
     bindE (ensureE (len_between 1 64 (tc_project_id d) \<and> len_between 1 255 (tc_title d)
              \<and> py_len (tc_description d) \<le> 20000 \<and> 0 \<le> tc_risk_level d \<and> tc_risk_level d \<le> 4
              \<and> len_between 1 128 (tc_requested_by d) \<and> len_between 1 64 (tc_source_channel d))
            ValidationError) (\<lambda>_.
     bindE (strip_required_text (tc_project_id d)) (\<lambda>pid.
     bindE (strip_required_text (tc_title d)) (\<lambda>title.
     bindE (strip_required_text (tc_requested_by d)) (\<lambda>by.
     bindE (strip_required_text (tc_source_channel d)) (\<lambda>ch.
     Inr (d\<lparr>tc_project_id := pid, tc_title := title, tc_requested_by := by,
             tc_source_channel := ch, tc_description := py_strip (tc_description d)\<rparr>))))))"

text \<open>A row of the \<open>tasks\<close> table.\<close>

record task_row =
  t_id :: string
  t_project_id :: string
  t_title :: string
  t_description :: string
  t_status :: task_status
  t_priority :: task_priority
  t_risk_level :: int
  t_requested_by :: string
  t_source_channel :: string
  t_approval_required :: bool
  t_current_step_id :: "string option"
  t_result_summary :: "string option"
  t_deadline :: "int option"
  t_created_at :: int
  t_updated_at :: int
  t_version :: int

section \<open>Projects\<close>

datatype project_status =
    PjIdea | PjPlanned | PjActive | PjBlocked | PjPaused | PjCompleted | PjArchived

fun project_status_value :: "project_status \<Rightarrow> string" where
  "project_status_value PjIdea = ''idea''"
| "project_status_value PjPlanned = ''planned''"
| "project_status_value PjActive = ''active''"
| "project_status_value PjBlocked = ''blocked''"
| "project_status_value PjPaused = ''paused''"
| "project_status_value PjCompleted = ''completed''"
| "project_status_value PjArchived = ''archived''"

fun project_transitions :: "project_status \<Rightarrow> project_status list" where
  "project_transitions PjIdea = [PjPlanned, PjArchived]"
| "project_transitions PjPlanned = [PjActive, PjPaused, PjArchived]"
| "project_transitions PjActive = [PjBlocked, PjPaused, PjCompleted, PjArchived]"
| "project_transitions PjBlocked = [PjActive, PjPaused, PjArchived]"
| "project_transitions PjPaused = [PjActive, PjArchived]"
| "project_transitions PjCompleted = [PjArchived]"
| "project_transitions PjArchived = []"

definition project_final :: "project_status \<Rightarrow> bool" where
  "project_final s \<longleftrightarrow> s = PjArchived"

interpretation project_machine: status_machine project_transitions project_final
  by unfold_locales (simp add: project_final_def)

text \<open>
  A row of the \<open>projects\<close> table. \<open>pj_constraints\<close> holds the stored JSON list with each
  value already turned into text, which is how the planner reads it (\<open>str(value)\<close>).
\<close>

record project_row =
  pj_id :: string
  pj_name :: string
  pj_slug :: string
  pj_status :: project_status
  pj_priority :: task_priority
  pj_path_windows :: "string option"
  pj_path_wsl :: "string option"
  pj_repo_url :: "string option"
  pj_current_phase :: "string option"
  pj_owner :: string
  pj_summary :: "string option"
  pj_next_action :: "string option"
  pj_constraints :: "string list"
  pj_last_activity_at :: "int option"
  pj_created_at :: int
  pj_updated_at :: int
  pj_version :: int

end
