(* ===== verification/AsyncModels.thy ===== *)
theory AsyncModels
  imports TaskModels
begin

text \<open>
  The asynchronous task runner's data: \<open>app/async_tasks/models.py\<close>, the capability names
  of \<open>app/capabilities/models.py\<close> and the \<open>async_task_runs\<close> table of
  \<open>app/db/models.py\<close>. \<open>async_run_transitions\<close> is the guard of every guarded status
  change of a run; the repository also has operations that bypass it (see AsyncRepository).
\<close>

datatype run_status =
    RPending | RClaimed | RRunning | RRetryWait | RVerifying
  | RCompleted | RFailed | RBlocked | RCancelled

fun run_status_value :: "run_status \<Rightarrow> string" where
  "run_status_value RPending = ''pending''"
| "run_status_value RClaimed = ''claimed''"
| "run_status_value RRunning = ''running''"
| "run_status_value RRetryWait = ''retry_wait''"
| "run_status_value RVerifying = ''verifying''"
| "run_status_value RCompleted = ''completed''"
| "run_status_value RFailed = ''failed''"
| "run_status_value RBlocked = ''blocked''"
| "run_status_value RCancelled = ''cancelled''"

datatype task_mode = MQuick | MBuild

fun task_mode_value :: "task_mode \<Rightarrow> string" where
  "task_mode_value MQuick = ''quick''"
| "task_mode_value MBuild = ''build''"

definition task_modes :: "(task_mode \<times> string) list" where
  "task_modes = map (\<lambda>m. (m, task_mode_value m)) [MQuick, MBuild]"

datatype notification_status = NPending | NSent | NFailed | NNotRequired

fun notification_status_value :: "notification_status \<Rightarrow> string" where
  "notification_status_value NPending = ''pending''"
| "notification_status_value NSent = ''sent''"
| "notification_status_value NFailed = ''failed''"
| "notification_status_value NNotRequired = ''not_required''"

fun async_run_transitions :: "run_status \<Rightarrow> run_status list" where
  "async_run_transitions RPending = [RClaimed, RCancelled]"
| "async_run_transitions RClaimed = [RRunning, RPending, RBlocked]"
| "async_run_transitions RRunning = [RVerifying, RRetryWait, RFailed, RBlocked]"
| "async_run_transitions RRetryWait = [RClaimed, RCancelled]"
| "async_run_transitions RVerifying = [RCompleted, RFailed, RBlocked]"
| "async_run_transitions RCompleted = []"
| "async_run_transitions RFailed = []"
| "async_run_transitions RBlocked = [RPending]"
| "async_run_transitions RCancelled = []"

definition run_final :: "run_status \<Rightarrow> bool" where
  "run_final s \<longleftrightarrow> s = RCompleted \<or> s = RFailed \<or> s = RCancelled"

interpretation run_machine: status_machine async_run_transitions run_final
  by unfold_locales (auto simp: run_final_def)

text \<open>The statuses after which no worker holds the run (the set the repository tests).\<close>

definition run_terminal :: "run_status \<Rightarrow> bool" where
  "run_terminal s \<longleftrightarrow> s = RCompleted \<or> s = RFailed \<or> s = RBlocked \<or> s = RCancelled"

datatype capability_kind =
    ConversationalResponse | MemorySearch | ProjectRead | TaskRead | CoreStatusRead
  | WebSearchRead | Planning | VisualPromptCompose | VisualAnalysis | VisualImageGenerate
  | FileOperation | CodeOperation | ExternalCommunication | SystemOperation | UnknownWorkflow

fun capability_value :: "capability_kind \<Rightarrow> string" where
  "capability_value ConversationalResponse = ''conversational_response''"
| "capability_value MemorySearch = ''memory_search''"
| "capability_value ProjectRead = ''project_read''"
| "capability_value TaskRead = ''task_read''"
| "capability_value CoreStatusRead = ''core_status_read''"
| "capability_value WebSearchRead = ''web_search_read''"
| "capability_value Planning = ''planning''"
| "capability_value VisualPromptCompose = ''visual_prompt_compose''"
| "capability_value VisualAnalysis = ''visual_analysis''"
| "capability_value VisualImageGenerate = ''visual_image_generate''"
| "capability_value FileOperation = ''file_operation''"
| "capability_value CodeOperation = ''code_operation''"
| "capability_value ExternalCommunication = ''external_communication''"
| "capability_value SystemOperation = ''system_operation''"
| "capability_value UnknownWorkflow = ''unknown_workflow''"

definition capability_kinds :: "(capability_kind \<times> string) list" where
  "capability_kinds = map (\<lambda>c. (c, capability_value c))
     [ConversationalResponse, MemorySearch, ProjectRead, TaskRead, CoreStatusRead,
      WebSearchRead, Planning, VisualPromptCompose, VisualAnalysis, VisualImageGenerate,
      FileOperation, CodeOperation, ExternalCommunication, SystemOperation, UnknownWorkflow]"

section \<open>Requests\<close>

record async_create =
  ac_project_id :: string
  ac_title :: string
  ac_goal :: string
  ac_mode :: task_mode
  ac_priority :: task_priority
  ac_risk_level :: int
  ac_approval_required :: bool
  ac_workspace :: "string option"
  ac_requested_by :: string
  ac_source_channel :: string
  ac_source_chat_id :: "string option"
  ac_source_session_id :: "string option"
  ac_source_message_id :: "string option"
  ac_reference_image :: "string option"
  ac_correlation_id :: "string option"
  ac_idempotency_key :: "string option"
  ac_deadline :: "py_datetime option"
  ac_constraints :: "string list"
  ac_prior_evidence :: "string list"
  ac_capability :: "capability_kind option"
  ac_governed_coding :: "(string \<times> json) list option"

text \<open>
  The serializers the request model relies on: pydantic's rendering of a datetime and its
  reading (\<open>iso\<close>, \<open>parse_iso\<close>), the standard library's \<open>datetime.isoformat\<close>, and the check of managed media references of
  \<open>app/image_reference.py\<close> (\<open>reference\<close>: the normalized reference, or None where it raises).
\<close>

record codecs =
  iso :: "py_datetime \<Rightarrow> string"
  parse_iso :: "string \<Rightarrow> py_datetime option"
  isoformat :: "py_datetime \<Rightarrow> string"
  reference :: "string \<Rightarrow> string option"

text \<open>
  Construction of an \<open>AsyncTaskCreate\<close> from field values: constraints, blank-text
  validators, reference image, and the idempotency key a Telegram task needs.
\<close>

definition async_create_validate :: "codecs \<Rightarrow> async_create \<Rightarrow> async_create res" where
  "async_create_validate C r =
     bindE (ensureE (len_between 1 64 (ac_project_id r) \<and> len_between 1 255 (ac_title r)
              \<and> len_between 1 20000 (ac_goal r) \<and> 0 \<le> ac_risk_level r \<and> ac_risk_level r \<le> 4
              \<and> len_opt 1024 (ac_workspace r) \<and> len_between 1 128 (ac_requested_by r)
              \<and> len_between 1 64 (ac_source_channel r) \<and> len_opt 128 (ac_source_chat_id r)
              \<and> len_opt 128 (ac_source_session_id r) \<and> len_opt 128 (ac_source_message_id r)
              \<and> len_opt 2048 (ac_reference_image r) \<and> len_opt 128 (ac_correlation_id r)
              \<and> len_opt 255 (ac_idempotency_key r)) ValidationError) (\<lambda>_.
     bindE (strip_required_text (ac_project_id r)) (\<lambda>pid.
     bindE (strip_required_text (ac_title r)) (\<lambda>title.
     bindE (strip_required_text (ac_goal r)) (\<lambda>goal.
     bindE (strip_required_text (ac_requested_by r)) (\<lambda>by.
     bindE (strip_required_text (ac_source_channel r)) (\<lambda>ch.
     bindE (case ac_reference_image r of None \<Rightarrow> Inr None
            | Some v \<Rightarrow> (case reference C v of None \<Rightarrow> Inl ValidationError | Some n \<Rightarrow> Inr (Some n))) (\<lambda>img.
     bindE (ensureE (\<not> (ch = ''telegram'' \<and> \<not> truthy (ac_idempotency_key r))) ValidationError) (\<lambda>_.
     Inr (r\<lparr>ac_project_id := pid, ac_title := title, ac_goal := goal, ac_requested_by := by,
             ac_source_channel := ch, ac_reference_image := img\<rparr>)))))))))"

text \<open>\<open>request.model_dump(mode="json")\<close>: the fields in the order the class declares them.\<close>

definition async_create_json :: "codecs \<Rightarrow> async_create \<Rightarrow> (string \<times> json) list" where
  "async_create_json C r =
    [(''project_id'', JStr (ac_project_id r)), (''title'', JStr (ac_title r)),
     (''goal'', JStr (ac_goal r)), (''mode'', JStr (task_mode_value (ac_mode r))),
     (''priority'', JStr (task_priority_value (ac_priority r))),
     (''risk_level'', JInt (ac_risk_level r)),
     (''approval_required'', JBool (ac_approval_required r)),
     (''workspace'', jstr_opt (ac_workspace r)), (''requested_by'', JStr (ac_requested_by r)),
     (''source_channel'', JStr (ac_source_channel r)),
     (''source_chat_id'', jstr_opt (ac_source_chat_id r)),
     (''source_session_id'', jstr_opt (ac_source_session_id r)),
     (''source_message_id'', jstr_opt (ac_source_message_id r)),
     (''reference_image'', jstr_opt (ac_reference_image r)),
     (''correlation_id'', jstr_opt (ac_correlation_id r)),
     (''idempotency_key'', jstr_opt (ac_idempotency_key r)),
     (''deadline'', jopt (\<lambda>d. JStr (iso C d)) (ac_deadline r)),
     (''constraints'', JList (map JStr (ac_constraints r))),
     (''prior_evidence'', JList (map JStr (ac_prior_evidence r))),
     (''capability'', jopt (\<lambda>c. JStr (capability_value c)) (ac_capability r)),
     (''governed_coding'', jopt JObj (ac_governed_coding r))]"

definition field_deadline :: "codecs \<Rightarrow> (string \<times> json) list \<Rightarrow> string \<Rightarrow> py_datetime option res" where
  "field_deadline C d k = (case map_of d k of
      None \<Rightarrow> Inr None
    | Some JNull \<Rightarrow> Inr None
    | Some (JStr s) \<Rightarrow> (case parse_iso C s of None \<Rightarrow> Inl ValidationError | Some t \<Rightarrow> Inr (Some t))
    | Some _ \<Rightarrow> Inl ValidationError)"

definition field_capability :: "(string \<times> json) list \<Rightarrow> string \<Rightarrow> capability_kind option res" where
  "field_capability d k = (case map_of d k of
      None \<Rightarrow> Inr None
    | Some JNull \<Rightarrow> Inr None
    | Some (JStr s) \<Rightarrow> bindE (enum_member capability_kinds s) (\<lambda>c. Inr (Some c))
    | Some _ \<Rightarrow> Inl ValidationError)"

definition field_dict_opt :: "(string \<times> json) list \<Rightarrow> string \<Rightarrow> (string \<times> json) list option res" where
  "field_dict_opt d k = (case map_of d k of
      None \<Rightarrow> Inr None
    | Some JNull \<Rightarrow> Inr None
    | Some (JObj kvs) \<Rightarrow> Inr (Some kvs)
    | Some _ \<Rightarrow> Inl ValidationError)"

text \<open>\<open>AsyncTaskCreate.model_validate\<close> of a JSON document; unknown fields are ignored.\<close>

definition async_create_of_json :: "codecs \<Rightarrow> json \<Rightarrow> async_create res" where
  "async_create_of_json C j = (case j of JObj d \<Rightarrow>
     bindE (field_str d ''project_id'' None) (\<lambda>pid.
     bindE (field_str d ''title'' None) (\<lambda>title.
     bindE (field_str d ''goal'' None) (\<lambda>goal.
     bindE (bindE (field_str d ''mode'' (Some ''build'')) (enum_member task_modes)) (\<lambda>mode.
     bindE (bindE (field_str d ''priority'' (Some ''normal'')) (enum_member task_priorities)) (\<lambda>prio.
     bindE (field_int d ''risk_level'' 0) (\<lambda>risk.
     bindE (field_bool d ''approval_required'' False) (\<lambda>appr.
     bindE (field_str_opt d ''workspace'') (\<lambda>ws.
     bindE (field_str d ''requested_by'' (Some ''user'')) (\<lambda>by.
     bindE (field_str d ''source_channel'' (Some ''api'')) (\<lambda>ch.
     bindE (field_str_opt d ''source_chat_id'') (\<lambda>chat.
     bindE (field_str_opt d ''source_session_id'') (\<lambda>sess.
     bindE (field_str_opt d ''source_message_id'') (\<lambda>msg.
     bindE (field_str_opt d ''reference_image'') (\<lambda>img.
     bindE (field_str_opt d ''correlation_id'') (\<lambda>corr.
     bindE (field_str_opt d ''idempotency_key'') (\<lambda>key.
     bindE (field_deadline C d ''deadline'') (\<lambda>dl.
     bindE (field_strs d ''constraints'') (\<lambda>cons.
     bindE (field_strs d ''prior_evidence'') (\<lambda>ev.
     bindE (field_capability d ''capability'') (\<lambda>cap.
     bindE (field_dict_opt d ''governed_coding'') (\<lambda>gov.
     async_create_validate C
       \<lparr>ac_project_id = pid, ac_title = title, ac_goal = goal, ac_mode = mode,
        ac_priority = prio, ac_risk_level = risk, ac_approval_required = appr,
        ac_workspace = ws, ac_requested_by = by, ac_source_channel = ch,
        ac_source_chat_id = chat, ac_source_session_id = sess, ac_source_message_id = msg,
        ac_reference_image = img, ac_correlation_id = corr, ac_idempotency_key = key,
        ac_deadline = dl, ac_constraints = cons, ac_prior_evidence = ev,
        ac_capability = cap, ac_governed_coding = gov\<rparr>)))))))))))))))))))))
   | _ \<Rightarrow> Inl ValidationError)"

section \<open>Rows\<close>

record run_row =
  r_id :: string
  r_task_id :: string
  r_status :: run_status
  r_mode :: task_mode
  r_goal :: string
  r_workspace :: "string option"
  r_request_json :: string
  r_checkpoint_json :: "string option"
  r_result_json :: "string option"
  r_attempt :: int
  r_max_attempts :: int
  r_run_after :: int
  r_lease_owner :: "string option"
  r_lease_expires_at :: "int option"
  r_idempotency_key :: string
  r_external_run_id :: "string option"
  r_last_error_code :: "string option"
  r_last_error_message :: "string option"
  r_source_chat_id :: "string option"
  r_source_session_id :: "string option"
  r_notification_status :: notification_status
  r_notification_attempts :: int
  r_created_at :: int
  r_updated_at :: int
  r_version :: int

text \<open>\<open>AsyncExecutionCheckpoint.model_dump_json()\<close>, before encoding.\<close>

record checkpoint =
  ck_stage :: string
  ck_message :: string
  ck_external_run_id :: "string option"
  ck_uncertain_side_effect :: bool
  ck_updated_at :: int

definition checkpoint_doc :: "codecs \<Rightarrow> checkpoint \<Rightarrow> json" where
  "checkpoint_doc C c = JObj
    [(''stage'', JStr (ck_stage c)), (''message'', JStr (ck_message c)),
     (''external_run_id'', jstr_opt (ck_external_run_id c)),
     (''uncertain_side_effect'', JBool (ck_uncertain_side_effect c)),
     (''updated_at'', JStr (iso C (utc_dt (ck_updated_at c))))]"

record async_accepted =
  aa_task_id :: string
  aa_run_id :: string
  aa_status :: run_status
  aa_replayed :: bool

section \<open>Round trip of a request\<close>

lemma enum_mode [simp]: "enum_member task_modes (task_mode_value m) = Inr m"
  by (cases m) (simp_all add: enum_member_def task_modes_def)

lemma enum_priority [simp]: "enum_member task_priorities (task_priority_value p) = Inr p"
  by (cases p) (simp_all add: enum_member_def task_priorities_def)

lemma enum_capability [simp]: "enum_member capability_kinds (capability_value c) = Inr c"
  by (cases c) (simp_all add: enum_member_def capability_kinds_def)

lemma jopt_str_cases [simp]:
  "(case jstr_opt x of JNull \<Rightarrow> Inr None | JStr s \<Rightarrow> Inr (Some s) | _ \<Rightarrow> Inl ValidationError) = Inr x"
  by (cases x) (simp_all add: jopt_def)

lemma async_create_json_round_trip:
  assumes "\<And>d. parse_iso C (iso C d) = Some d"
  shows "async_create_of_json C (JObj (async_create_json C r)) = async_create_validate C r"
proof -
  have dl: "field_deadline C (async_create_json C r) ''deadline'' = Inr (ac_deadline r)"
    by (cases "ac_deadline r") (simp_all add: field_deadline_def async_create_json_def jopt_def assms)
  have cap: "field_capability (async_create_json C r) ''capability'' = Inr (ac_capability r)"
    by (cases "ac_capability r") (simp_all add: field_capability_def async_create_json_def jopt_def)
  have gov: "field_dict_opt (async_create_json C r) ''governed_coding'' = Inr (ac_governed_coding r)"
    by (cases "ac_governed_coding r") (simp_all add: field_dict_opt_def async_create_json_def jopt_def)
  show ?thesis
    unfolding async_create_of_json_def
    by (simp add: dl cap gov) (simp add: async_create_json_def field_defs, cases r, simp)
qed

end
