(* ===== verification/PlanModels.thy ===== *)
theory PlanModels
  imports AsyncModels
begin

text \<open>
  The planner's data (\<open>app/planning/models.py\<close>) and the executor's results
  (\<open>app/openclaw/models.py\<close>). A plan is stored as the JSON of its fields and rebuilt on
  every read; the model keeps the fields and runs the model's validators
  (\<open>plan_validate\<close>) where the code rebuilds it. \<open>model_copy\<close> never validates, so a plan
  changed by the worker is checked only when it is read back.

  The graph check is the code's depth-first search with its \<open>visiting\<close> and \<open>visited\<close>
  sets; \<open>visit_all_ok_iff_acyclic\<close> shows that it accepts exactly the acyclic graphs.
\<close>

section \<open>Executor results\<close>

datatype oc_outcome = OCompleted | OBlocked | OFailed

fun oc_outcome_value :: "oc_outcome \<Rightarrow> string" where
  "oc_outcome_value OCompleted = ''completed''"
| "oc_outcome_value OBlocked = ''blocked''"
| "oc_outcome_value OFailed = ''failed''"

text \<open>
  A criterion verification as stored, before \<open>CriterionVerification.model_validate\<close>; the
  status is text because the evidence of a plan keeps raw dictionaries.
\<close>

record criterion_verification =
  cv_criterion :: string
  cv_status :: string
  cv_evidence_refs :: "string list"
  cv_explanation :: "string option"

definition criterion_valid :: "criterion_verification \<Rightarrow> bool" where
  "criterion_valid c \<longleftrightarrow> len_between 1 2000 (cv_criterion c)
     \<and> cv_status c \<in> set [''verified'', ''unmet'', ''unknown''] \<and> len_opt 4000 (cv_explanation c)"

datatype gov_decision = GAllow | GRequireApproval | GDeny | GEscalate
datatype gov_status = GVerified | GPending | GApproved | GDenied | GFailed

record governance_result =
  gr_decision :: gov_decision
  gr_status :: gov_status
  gr_reason :: string
  gr_checkpoint_id :: "string option"
  gr_correlation_id :: "string option"
  gr_files_changed :: "string list"
  gr_commands_run :: "string list"
  gr_tests :: "json list"
  gr_production_write :: bool
  gr_database_write :: bool
  gr_service_restart :: bool

definition governance_ok :: "governance_result \<Rightarrow> bool" where
  "governance_ok g \<longleftrightarrow> gr_decision g = GAllow \<and> (gr_status g = GVerified \<or> gr_status g = GApproved)"

record oc_result =
  or_outcome :: oc_outcome
  or_summary :: string
  or_governance :: "governance_result option"
  or_criteria :: "criterion_verification list"
  or_artifacts :: json
  or_verification :: json
  or_files_changed :: "string list"
  or_commands_run :: "string list"
  or_tests :: "json list"
  or_model :: "string option"
  or_provider :: "string option"
  or_profile :: "string option"
  or_duration_ms :: "int option"
  or_error_code :: "string option"
  or_external_run_id :: "string option"

text \<open>\<open>OpenClawExecutionResult(outcome=..., summary=..., error_code=...)\<close>, the rest defaulted.\<close>

definition oc_result_of :: "oc_outcome \<Rightarrow> string \<Rightarrow> string option \<Rightarrow> oc_result" where
  "oc_result_of oc s code = \<lparr>or_outcome = oc, or_summary = s, or_governance = None, or_criteria = [],
     or_artifacts = JList [], or_verification = JList [], or_files_changed = [],
     or_commands_run = [], or_tests = [], or_model = None, or_provider = None,
     or_profile = None, or_duration_ms = None, or_error_code = code,
     or_external_run_id = None\<rparr>"

record exec_request =
  xr_task_id :: string
  xr_run_id :: string
  xr_attempt :: int
  xr_idempotency_key :: string
  xr_project_id :: string
  xr_goal :: string
  xr_mode :: task_mode
  xr_workspace :: "string option"
  xr_reference_image :: "string option"
  xr_constraints :: "string list"
  xr_plan_node_id :: "string option"
  xr_plan_node_title :: "string option"
  xr_capability_requirements :: "string list"
  xr_dod_criteria :: "string list"
  xr_verification_requirements :: "string list"
  xr_prior_evidence :: "string list"
  xr_remaining_budget :: "(string \<times> int) list"

section \<open>Plans\<close>

datatype plan_status = PlReady | PlBlocked
datatype node_kind = NkAction | NkApprovalGate | NkVerificationGate

datatype node_state = NsPending | NsRunning | NsCompleted | NsBlocked | NsFailed | NsSkipped

record execution_budget =
  eb_max_actions :: int
  eb_max_elapsed_seconds :: int
  eb_actions_used :: int
  eb_retries_used :: int
  eb_started_at :: "int option"

definition default_budget :: execution_budget where
  "default_budget = \<lparr>eb_max_actions = 12, eb_max_elapsed_seconds = 1800, eb_actions_used = 0,
     eb_retries_used = 0, eb_started_at = None\<rparr>"

record risk_budget =
  rb_max_risk_level :: int
  rb_max_plan_nodes :: int
  rb_max_retries :: int
  rb_max_replans :: int

definition default_risk_budget :: risk_budget where
  "default_risk_budget = \<lparr>rb_max_risk_level = 3, rb_max_plan_nodes = 12, rb_max_retries = 2,
     rb_max_replans = 3\<rparr>"

record plan_goal =
  pg_statement :: string
  pg_project_id :: string

record definition_of_done =
  dod_criteria :: "string list"
  dod_inferred :: bool

record plan_constraint =
  pc_description :: string
  pc_source :: string

record deliverable =
  dv_description :: string
  dv_required :: bool

record decision_needed =
  dn_question :: string
  dn_reason :: string

record truth_snapshot =
  ts_project_id :: string
  ts_project_version :: int
  ts_project_status :: string
  ts_current_phase :: "string option"
  ts_workspace :: "string option"
  ts_workspace_exists :: bool
  ts_project_constraints :: "string list"
  ts_observed_at :: "int option"

record planning_request =
  pr_request_id :: string
  pr_project_id :: string
  pr_outcome :: string
  pr_definition_of_done :: "definition_of_done option"
  pr_constraints :: "plan_constraint list"
  pr_risk_budget :: risk_budget
  pr_deliverables :: "deliverable list"
  pr_risk_level :: int
  pr_approval_required :: bool
  pr_workspace :: "string option"
  pr_capability_requirements :: "capability_kind list"

record node_execution =
  ne_node_id :: string
  ne_state :: node_state
  ne_attempts :: int
  ne_evidence_ids :: "string list"
  ne_last_failure_class :: "string option"

text \<open>
  \<open>ev_result_payload\<close> is the stored result document: the result it decodes to, or None in
  the inner option when \<open>model_validate\<close> refuses it.
\<close>

record evidence =
  ev_id :: string
  ev_node_id :: string
  ev_kind :: string
  ev_summary :: string
  ev_artifact_refs :: "string list"
  ev_verification_refs :: "string list"
  ev_external_run_id :: "string option"
  ev_outcome :: "string option"
  ev_criteria :: "criterion_verification list"
  ev_result_payload :: "oc_result option option"
  ev_provenance :: string
  ev_created_at :: "int option"

record plan_node =
  pn_id :: string
  pn_title :: string
  pn_kind :: node_kind
  pn_depends_on :: "string list"
  pn_capabilities :: "capability_kind list"
  pn_verifications :: "string list"

datatype outcome_disposition = DSatisfied | DReplan | DBlocked | DFailed

record criterion_judgement =
  cj_criterion :: string
  cj_satisfied :: bool
  cj_status :: string
  cj_reason :: string

record outcome_judgement =
  oj_disposition :: outcome_disposition
  oj_criteria :: "criterion_judgement list"
  oj_reason_code :: string
  oj_reason :: string

record plan =
  p_id :: string
  p_revision :: int
  p_replanned_from :: "int option"
  p_replan_reason :: "string option"
  p_goal :: plan_goal
  p_dod :: definition_of_done
  p_constraints :: "plan_constraint list"
  p_risk_budget :: risk_budget
  p_deliverables :: "deliverable list"
  p_verifications :: "string list"
  p_truth :: truth_snapshot
  p_status :: plan_status
  p_nodes :: "plan_node list"
  p_blocker :: "decision_needed option"
  p_executions :: "node_execution list"
  p_evidence :: "evidence list"
  p_budget :: execution_budget
  p_judgement :: "outcome_judgement option"

section \<open>Field constraints\<close>

definition constraint_ok :: "plan_constraint \<Rightarrow> bool" where
  "constraint_ok c \<longleftrightarrow> len_between 1 2000 (pc_description c) \<and> len_between 1 64 (pc_source c)"

definition budget_ok :: "execution_budget \<Rightarrow> bool" where
  "budget_ok b \<longleftrightarrow> 1 \<le> eb_max_actions b \<and> eb_max_actions b \<le> 128
     \<and> 1 \<le> eb_max_elapsed_seconds b \<and> eb_max_elapsed_seconds b \<le> 86400
     \<and> 0 \<le> eb_actions_used b \<and> 0 \<le> eb_retries_used b"

definition risk_budget_ok :: "risk_budget \<Rightarrow> bool" where
  "risk_budget_ok b \<longleftrightarrow> 0 \<le> rb_max_risk_level b \<and> rb_max_risk_level b \<le> 4
     \<and> 2 \<le> rb_max_plan_nodes b \<and> rb_max_plan_nodes b \<le> 64
     \<and> 0 \<le> rb_max_retries b \<and> rb_max_retries b \<le> 10
     \<and> 0 \<le> rb_max_replans b \<and> rb_max_replans b \<le> 10"

definition execution_ok :: "node_execution \<Rightarrow> bool" where
  "execution_ok e \<longleftrightarrow> len_between 1 64 (ne_node_id e) \<and> 0 \<le> ne_attempts e
     \<and> len_opt 128 (ne_last_failure_class e)"

definition evidence_ok :: "evidence \<Rightarrow> bool" where
  "evidence_ok e \<longleftrightarrow> len_between 1 128 (ev_id e) \<and> len_between 1 64 (ev_node_id e)
     \<and> len_between 1 64 (ev_kind e) \<and> len_between 1 4000 (ev_summary e)
     \<and> len_opt 255 (ev_external_run_id e) \<and> len_opt 32 (ev_outcome e)
     \<and> len_between 1 64 (ev_provenance e)"

definition node_ok :: "plan_node \<Rightarrow> bool" where
  "node_ok n \<longleftrightarrow> len_between 1 64 (pn_id n) \<and> len_between 1 255 (pn_title n)
     \<and> list_all (len_between 1 2000) (pn_verifications n)"

definition planning_request_ok :: "planning_request \<Rightarrow> bool" where
  "planning_request_ok q \<longleftrightarrow> len_between 1 128 (pr_request_id q) \<and> len_between 1 64 (pr_project_id q)
     \<and> len_between 1 20000 (pr_outcome q)
     \<and> (case pr_definition_of_done q of None \<Rightarrow> True | Some d \<Rightarrow> dod_criteria d \<noteq> [])
     \<and> list_all constraint_ok (pr_constraints q) \<and> risk_budget_ok (pr_risk_budget q)
     \<and> list_all (\<lambda>d. len_between 1 2000 (dv_description d)) (pr_deliverables q)
     \<and> 0 \<le> pr_risk_level q \<and> pr_risk_level q \<le> 4 \<and> len_opt 1024 (pr_workspace q)"

definition plan_fields_ok :: "plan \<Rightarrow> bool" where
  "plan_fields_ok p \<longleftrightarrow> len_between 1 128 (p_id p) \<and> 1 \<le> p_revision p
     \<and> (case p_replanned_from p of None \<Rightarrow> True | Some r \<Rightarrow> 1 \<le> r)
     \<and> (case p_replan_reason p of None \<Rightarrow> True | Some r \<Rightarrow> len_between 1 2000 r)
     \<and> len_between 1 20000 (pg_statement (p_goal p)) \<and> len_between 1 64 (pg_project_id (p_goal p))
     \<and> dod_criteria (p_dod p) \<noteq> [] \<and> list_all constraint_ok (p_constraints p)
     \<and> risk_budget_ok (p_risk_budget p)
     \<and> list_all (\<lambda>d. len_between 1 2000 (dv_description d)) (p_deliverables p)
     \<and> list_all (len_between 1 2000) (p_verifications p)
     \<and> 1 \<le> ts_project_version (p_truth p)
     \<and> list_all node_ok (p_nodes p)
     \<and> (case p_blocker p of None \<Rightarrow> True
        | Some b \<Rightarrow> len_between 1 2000 (dn_question b) \<and> len_between 1 2000 (dn_reason b))
     \<and> list_all execution_ok (p_executions p) \<and> list_all evidence_ok (p_evidence p)
     \<and> budget_ok (p_budget p)"

section \<open>The graph check\<close>

type_synonym graph = "(string \<times> string list) list"

text \<open>
  \<open>visit\<close> and the loop over \<open>graph[node_id]\<close> inside it. The set \<open>visiting\<close> is restored
  before \<open>visit\<close> returns, so only \<open>visited\<close> is threaded through.
\<close>

function visit :: "graph \<Rightarrow> string list \<Rightarrow> string list \<Rightarrow> string \<Rightarrow> string list res"
  and visit_deps :: "graph \<Rightarrow> string list \<Rightarrow> string list \<Rightarrow> string list \<Rightarrow> string list res" where
  "visit g visiting visited n =
     (if n \<in> set visiting then Inl (ValueError ''plan dependency graph must be acyclic'')
      else if n \<in> set visited then Inr visited
      else (case map_of g n of
              None \<Rightarrow> Inl (KeyError n)
            | Some deps \<Rightarrow>
                (case visit_deps g (n # visiting) visited deps of
                   Inl e \<Rightarrow> Inl e
                 | Inr visited' \<Rightarrow> Inr (n # visited'))))"
| "visit_deps g visiting visited [] = Inr visited"
| "visit_deps g visiting visited (d # ds) =
     (case visit g visiting visited d of
        Inl e \<Rightarrow> Inl e
      | Inr visited' \<Rightarrow> visit_deps g visiting visited' ds)"
  by pat_completeness auto
termination
proof (relation "measures
   [\<lambda>x. case x of Inl (g, visiting, visited, n) \<Rightarrow> card (fst ` set g - set visiting)
               | Inr (g, visiting, visited, ds) \<Rightarrow> card (fst ` set g - set visiting),
    \<lambda>x. case x of Inl _ \<Rightarrow> 0 | Inr (g, visiting, visited, ds) \<Rightarrow> Suc (length ds)]",
    goal_cases)
  case 1
  then show ?case by simp
next
  case (2 g visiting visited n deps)
  have "n \<in> fst ` set g - set visiting"
    using 2 by (metis DiffI domI dom_map_of_conv_image_fst)
  then have "card (fst ` set g - set (n # visiting)) < card (fst ` set g - set visiting)"
    by (intro psubset_card_mono) auto
  then show ?case by simp
qed auto

declare visit.simps [simp del] visit_deps.simps [simp del]

fun visit_all :: "graph \<Rightarrow> string list \<Rightarrow> string list \<Rightarrow> string list res" where
  "visit_all g visited [] = Inr visited"
| "visit_all g visited (n # ns) =
     (case visit g [] visited n of Inl e \<Rightarrow> Inl e | Inr visited' \<Rightarrow> visit_all g visited' ns)"

definition plan_graph :: "plan \<Rightarrow> graph" where
  "plan_graph p = map (\<lambda>n. (pn_id n, pn_depends_on n)) (p_nodes p)"

text \<open>\<open>validate_graph_and_status\<close>, check by check in the code's order.\<close>

definition validate_graph_and_status :: "plan \<Rightarrow> unit res" where
  "validate_graph_and_status p =
     (let ids = map pn_id (p_nodes p) in
      bindE (ensureE (\<not> (p_status p = PlReady \<and> p_blocker p \<noteq> None))
              (ValueError ''ready plan cannot have a blocker'')) (\<lambda>_.
      bindE (ensureE (\<not> (p_status p = PlBlocked \<and> p_blocker p = None))
              (ValueError ''blocked plan requires exactly one blocker'')) (\<lambda>_.
      bindE (ensureE (\<not> (p_status p = PlBlocked \<and> p_nodes p \<noteq> []))
              (ValueError ''blocked plan cannot contain executable nodes'')) (\<lambda>_.
      bindE (ensureE (int (length (p_nodes p)) \<le> rb_max_plan_nodes (p_risk_budget p))
              (ValueError ''plan exceeds max_plan_nodes'')) (\<lambda>_.
      bindE (ensureE (distinct ids) (ValueError ''plan node ids must be unique'')) (\<lambda>_.
      bindE (ensureE (list_all (\<lambda>n. list_all (\<lambda>d. d \<in> set ids) (pn_depends_on n)) (p_nodes p))
              (ValueError ''unknown plan dependency'')) (\<lambda>_.
      bindE (visit_all (plan_graph p) [] ids) (\<lambda>_.
      if p_status p = PlReady
      then bindE (ensureE (p_nodes p \<noteq> []) (ValueError ''ready plan requires nodes'')) (\<lambda>_.
           ensureE (pn_kind (last (p_nodes p)) = NkVerificationGate)
             (ValueError ''ready plan must end with a verification gate''))
      else Inr ()))))))))"

text \<open>\<open>Plan(...)\<close> and \<open>Plan.model_validate\<close>: any failure surfaces as a ValidationError.\<close>

definition plan_validate :: "plan \<Rightarrow> plan res" where
  "plan_validate p =
     (if plan_fields_ok p
      then (case validate_graph_and_status p of Inl _ \<Rightarrow> Inl ValidationError | Inr _ \<Rightarrow> Inr p)
      else Inl ValidationError)"

end
