(* ===== verification/World.thy ===== *)
theory World
  imports PlanModels
begin

text \<open>
  The state the services act on and the monad they run in.

  The database is a record of tables; the audit log is a file beside it, so it is not rolled
  back with a session. Sources of nondeterminism are streams read by position: the wall clock,
  \<open>uuid4\<close>, the answers of the executor and of the notifier. What is not under \<open>src/\<close>
  (hashing, JSON text as \<open>json.dumps\<close> and as \<open>model_dump_json\<close> write it, pydantic's datetime text, the file system, the executor behind the HTTP
  boundary, and the keyring of the settings) is a field of \<open>env\<close>, so a theorem about \<open>E\<close> holds for every such environment.

  \<open>'a M\<close> is a computation that may raise: the effects before the exception stay in the
  state, and \<open>sessionM\<close> (\<open>with session_factory() as session\<close>) puts the tables back when
  its body raises.
\<close>

named_theorems keep "rules that show an operation preserves a property of the world"
named_theorems run_simps "execution of the monad's operations"

section \<open>Rows not owned by one registry\<close>

datatype approval_status = ApPending | ApApproved | ApDenied

record approval_row =
  ap_id :: string
  ap_workflow_id :: string
  ap_task_id :: string
  ap_action :: string
  ap_action_hash :: string
  ap_risk_level :: int
  ap_scope :: string
  ap_reason :: string
  ap_preview :: "(string \<times> json) list"
  ap_status :: approval_status
  ap_nonce :: string
  ap_expires_at :: int
  ap_requested_at :: int
  ap_resolved_at :: "int option"
  ap_resolved_by :: "string option"

text \<open>\<open>wf_plan_payload\<close> is None for the empty default document.\<close>

record workflow_row =
  wf_id :: string
  wf_task_id :: string
  wf_status :: string
  wf_plan_payload :: "plan option"

record db =
  db_projects :: "project_row list"
  db_tasks :: "task_row list"
  db_runs :: "run_row list"
  db_workflows :: "workflow_row list"
  db_approvals :: "approval_row list"

record world =
  w_db :: db
  w_audit :: "json list"
  w_ticks :: nat
  w_fresh :: nat
  w_calls :: nat
  w_exec_log :: "exec_request list"
  w_sent_log :: "run_row list"

record env =
  e_codecs :: codecs
  e_clock :: "nat \<Rightarrow> py_datetime"
  e_uuid :: "nat \<Rightarrow> string"
  e_sha256 :: "string \<Rightarrow> string"
  e_hmac :: "string \<Rightarrow> string \<Rightarrow> string"
  e_redact_text :: "string \<Rightarrow> string"
  e_sensitive_key :: "string \<Rightarrow> bool"
  e_dumps :: "json \<Rightarrow> string"
  e_loads :: "string \<Rightarrow> json option"
  e_model_text :: "json \<Rightarrow> string"
  e_path_exists :: "string \<Rightarrow> bool"
  e_executor :: "nat \<Rightarrow> exec_request \<Rightarrow> oc_result res"
  e_notifier :: "nat \<Rightarrow> run_row \<Rightarrow> unit res"
  e_audit :: bool
  e_key_id :: string
  e_keys :: "(string \<times> string) list"

section \<open>The monad\<close>

type_synonym 'a M = "world \<Rightarrow> 'a res \<times> world"

definition retM :: "'a \<Rightarrow> 'a M" where
  "retM a = (\<lambda>w. (Inr a, w))"

definition raiseM :: "py_error \<Rightarrow> 'a M" where
  "raiseM e = (\<lambda>w. (Inl e, w))"

definition bindM :: "'a M \<Rightarrow> ('a \<Rightarrow> 'b M) \<Rightarrow> 'b M" where
  "bindM m f = (\<lambda>w. case m w of (Inl e, w') \<Rightarrow> (Inl e, w') | (Inr a, w') \<Rightarrow> f a w')"

definition liftE :: "'a res \<Rightarrow> 'a M" where
  "liftE r = (\<lambda>w. (r, w))"

definition getM :: "(world \<Rightarrow> 'a) \<Rightarrow> 'a M" where
  "getM f = (\<lambda>w. (Inr (f w), w))"

definition modM :: "(world \<Rightarrow> world) \<Rightarrow> unit M" where
  "modM f = (\<lambda>w. (Inr (), f w))"

definition guardM :: "bool \<Rightarrow> py_error \<Rightarrow> unit M" where
  "guardM b e = (if b then retM () else raiseM e)"

definition catchM :: "'a M \<Rightarrow> (py_error \<Rightarrow> 'a M) \<Rightarrow> 'a M" where
  "catchM m h = (\<lambda>w. case m w of (Inl e, w') \<Rightarrow> h e w' | (Inr a, w') \<Rightarrow> (Inr a, w'))"

definition sessionM :: "'a M \<Rightarrow> 'a M" where
  "sessionM m = (\<lambda>w. case m w of
      (Inl e, w') \<Rightarrow> (Inl e, w'\<lparr>w_db := w_db w\<rparr>)
    | (Inr a, w') \<Rightarrow> (Inr a, w'))"

definition whenM :: "bool \<Rightarrow> unit M \<Rightarrow> unit M" where
  "whenM b m = (if b then m else retM ())"

text \<open>\<open>datetime.now(UTC)\<close> and \<open>uuid4().hex\<close>.\<close>

definition nowM :: "env \<Rightarrow> int M" where
  "nowM E = (\<lambda>w. (Inr (to_utc (e_clock E (w_ticks w))), w\<lparr>w_ticks := Suc (w_ticks w)\<rparr>))"

definition uuidM :: "env \<Rightarrow> string M" where
  "uuidM E = (\<lambda>w. (Inr (e_uuid E (w_fresh w)), w\<lparr>w_fresh := Suc (w_fresh w)\<rparr>))"

lemma bindM_assoc: "bindM (bindM m f) g = bindM m (\<lambda>a. bindM (f a) g)"
  by (auto simp: bindM_def fun_eq_iff split: prod.splits sum.splits)

lemma bindM_run:
  "bindM m f w = (case m w of (Inl e, w') \<Rightarrow> (Inl e, w') | (Inr a, w') \<Rightarrow> f a w')"
  by (simp add: bindM_def)

lemma prim_runs [run_simps]:
  "retM a w = (Inr a, w)" "raiseM e w = (Inl e, w)" "liftE r w = (r, w)"
  "getM f w = (Inr (f w), w)" "modM g w = (Inr (), g w)"
  "guardM b e w = (if b then Inr () else Inl e, w)"
  by (simp_all add: retM_def raiseM_def liftE_def getM_def modM_def guardM_def)

lemma whenM_run [run_simps]: "whenM b m w = (if b then m w else (Inr (), w))"
  by (simp add: whenM_def retM_def)

lemmas [run_simps] = bindM_run

lemma bindM_ok: "m w = (Inr a, w') \<Longrightarrow> bindM m f w = f a w'"
  by (simp add: bindM_run)

lemma bindM_err: "m w = (Inl e, w') \<Longrightarrow> bindM m f w = (Inl e, w')"
  by (simp add: bindM_run)

lemma bindM_InrE:
  assumes "bindM m f w = (Inr b, w'')"
  obtains a w' where "m w = (Inr a, w')" "f a w' = (Inr b, w'')"
  using assms by (auto simp: bindM_run split: prod.splits sum.splits)

lemma sessionM_Inr: "sessionM m w = (Inr a, w') \<longleftrightarrow> m w = (Inr a, w')"
  by (auto simp: sessionM_def split: prod.splits sum.splits)

lemma sessionM_Inl: "sessionM m w = (Inl e, w') \<Longrightarrow> w_db w' = w_db w"
  by (auto simp: sessionM_def split: prod.splits sum.splits)

text \<open>
  Inversion of successful runs: \<open>elim!: runE\<close> takes a run of a sequence of operations apart
  into the runs of its parts.
\<close>

lemma retM_runE: "retM a w = (Inr b, w') \<Longrightarrow> (b = a \<Longrightarrow> w' = w \<Longrightarrow> R) \<Longrightarrow> R"
  by (clarsimp simp: retM_def)

lemma raiseM_runE: "raiseM e w = (Inr b, w') \<Longrightarrow> R"
  by (simp add: raiseM_def)

lemma guardM_runE: "guardM b e w = (Inr u, w') \<Longrightarrow> (b \<Longrightarrow> w' = w \<Longrightarrow> R) \<Longrightarrow> R"
  by (simp add: guardM_def retM_def raiseM_def split: if_splits)

lemma getM_runE:
  assumes "getM f w = (Inr b, w')" "b = f w \<Longrightarrow> w' = w \<Longrightarrow> R"
  shows R
proof -
  have "b = f w \<and> w' = w" using assms(1) unfolding getM_def by blast
  then show R using assms(2) by blast
qed

lemma liftE_runE: "liftE r w = (Inr b, w') \<Longrightarrow> (r = Inr b \<Longrightarrow> w' = w \<Longrightarrow> R) \<Longrightarrow> R"
  by (clarsimp simp: liftE_def)

lemma modM_runE: "modM f w = (Inr u, w') \<Longrightarrow> (w' = f w \<Longrightarrow> R) \<Longrightarrow> R"
  by (clarsimp simp: modM_def)

lemma nowM_runE: "nowM E w = (Inr t, w') \<Longrightarrow>
    (t = to_utc (e_clock E (w_ticks w)) \<Longrightarrow> w' = w\<lparr>w_ticks := Suc (w_ticks w)\<rparr> \<Longrightarrow> R) \<Longrightarrow> R"
  by (clarsimp simp: nowM_def)

lemma uuidM_runE: "uuidM E w = (Inr u, w') \<Longrightarrow>
    (u = e_uuid E (w_fresh w) \<Longrightarrow> w' = w\<lparr>w_fresh := Suc (w_fresh w)\<rparr> \<Longrightarrow> R) \<Longrightarrow> R"
  by (clarsimp simp: uuidM_def)

lemmas runE = bindM_InrE retM_runE raiseM_runE guardM_runE getM_runE liftE_runE modM_runE
  nowM_runE uuidM_runE

text \<open>The same for runs of either outcome.\<close>

lemma bindM_anyE:
  assumes "bindM m f w = (x, w'')"
  obtains (err) e where "m w = (Inl e, w'')" "x = Inl e"
    | (ok) a w' where "m w = (Inr a, w')" "f a w' = (x, w'')"
  using assms by (auto simp: bindM_run split: prod.splits sum.splits)

lemma retM_anyE: "retM a w = (x, w') \<Longrightarrow> (x = Inr a \<Longrightarrow> w' = w \<Longrightarrow> R) \<Longrightarrow> R"
  by (clarsimp simp: retM_def)

lemma raiseM_anyE: "raiseM e w = (x, w') \<Longrightarrow> (x = Inl e \<Longrightarrow> w' = w \<Longrightarrow> R) \<Longrightarrow> R"
  by (clarsimp simp: raiseM_def)

lemma guardM_anyE:
  "guardM b e w = (x, w') \<Longrightarrow> (b \<Longrightarrow> x = Inr () \<Longrightarrow> w' = w \<Longrightarrow> R)
   \<Longrightarrow> (\<not> b \<Longrightarrow> x = Inl e \<Longrightarrow> w' = w \<Longrightarrow> R) \<Longrightarrow> R"
  by (simp add: guardM_def retM_def raiseM_def split: if_splits)

lemma getM_anyE:
  assumes "getM f w = (x, w')" "x = Inr (f w) \<Longrightarrow> w' = w \<Longrightarrow> R"
  shows R
  using assms(1) [unfolded getM_def] assms(2) by blast

lemma liftE_anyE: "liftE r w = (x, w') \<Longrightarrow> (x = r \<Longrightarrow> w' = w \<Longrightarrow> R) \<Longrightarrow> R"
  by (clarsimp simp: liftE_def)

lemma modM_anyE: "modM f w = (x, w') \<Longrightarrow> (x = Inr () \<Longrightarrow> w' = f w \<Longrightarrow> R) \<Longrightarrow> R"
  by (clarsimp simp: modM_def)

lemma nowM_anyE: "nowM E w = (x, w') \<Longrightarrow> (w_db w' = w_db w \<Longrightarrow> R) \<Longrightarrow> R"
  by (clarsimp simp: nowM_def)

lemma uuidM_anyE: "uuidM E w = (x, w') \<Longrightarrow> (w_db w' = w_db w \<Longrightarrow> R) \<Longrightarrow> R"
  by (clarsimp simp: uuidM_def)

lemmas anyE = bindM_anyE retM_anyE raiseM_anyE guardM_anyE getM_anyE liftE_anyE modM_anyE
  nowM_anyE uuidM_anyE

section \<open>Effects on the tables\<close>

text \<open>
  \<open>within R m\<close>: whatever \<open>m\<close> returns or raises, the tables it leaves are reached from the
  tables it found by steps of \<open>R\<close>. Reading the clock or appending to the log is no step, and
  a session that is rolled back is none either. \<open>quiet m\<close>: neither the executor nor the
  notifier is called.
\<close>

definition within :: "(db \<Rightarrow> db \<Rightarrow> bool) \<Rightarrow> 'a M \<Rightarrow> bool" where
  "within R m \<longleftrightarrow> (\<forall>w. R\<^sup>*\<^sup>* (w_db w) (w_db (snd (m w))))"

definition quiet :: "'a M \<Rightarrow> bool" where
  "quiet m \<longleftrightarrow> (\<forall>w. w_calls (snd (m w)) = w_calls w \<and> w_exec_log (snd (m w)) = w_exec_log w
     \<and> w_sent_log (snd (m w)) = w_sent_log w)"

lemma withinD: "within R m \<Longrightarrow> m w = (x, w') \<Longrightarrow> R\<^sup>*\<^sup>* (w_db w) (w_db w')"
  unfolding within_def by (metis snd_conv)

lemma withinI: "(\<And>w x w'. m w = (x, w') \<Longrightarrow> R\<^sup>*\<^sup>* (w_db w) (w_db w')) \<Longrightarrow> within R m"
  unfolding within_def by (metis prod.collapse)

lemma quietD: "quiet m \<Longrightarrow> m w = (x, w') \<Longrightarrow> w_calls w' = w_calls w \<and> w_exec_log w' = w_exec_log w
    \<and> w_sent_log w' = w_sent_log w"
  unfolding quiet_def by (metis snd_conv)

lemma within_invariant:
  assumes "within R m" "m w = (x, w')" "\<And>d d'. R d d' \<Longrightarrow> P d \<Longrightarrow> P d'" "P (w_db w)"
  shows "P (w_db w')"
proof -
  from assms(1,2) have "R\<^sup>*\<^sup>* (w_db w) (w_db w')" by (rule withinD)
  then show ?thesis by (induction rule: rtranclp_induct) (use assms in blast)+
qed

lemma within_mono: "within R m \<Longrightarrow> (\<And>d d'. R d d' \<Longrightarrow> S d d') \<Longrightarrow> within S m"
  unfolding within_def by (metis mono_rtranclp)

lemma keep_prims [keep]:
  "within R (retM a)" "within R (raiseM e)" "within R (liftE r)" "within R (getM f)"
  "within R (guardM b e)" "within R (nowM E)" "within R (uuidM E)"
  by (simp_all add: within_def run_simps nowM_def uuidM_def)

lemma keep_bind [keep]:
  "within R m \<Longrightarrow> (\<And>a. within R (f a)) \<Longrightarrow> within R (bindM m f)"
  by (rule withinI, erule bindM_anyE) (metis rtranclp_trans withinD)+

lemma keep_catch [keep]:
  assumes "within R m" "\<And>e. within R (h e)"
  shows "within R (catchM m h)"
proof (rule withinI)
  fix w x w' assume r: "catchM m h w = (x, w')"
  obtain y w1 where m: "m w = (y, w1)" by fastforce
  from assms(1) m have a: "R\<^sup>*\<^sup>* (w_db w) (w_db w1)" by (rule withinD)
  show "R\<^sup>*\<^sup>* (w_db w) (w_db w')"
  proof (cases y)
    case (Inl e)
    with r m have "h e w1 = (x, w')" by (simp add: catchM_def)
    with assms(2) have "R\<^sup>*\<^sup>* (w_db w1) (w_db w')" by (rule withinD)
    with a show ?thesis by (rule rtranclp_trans)
  next
    case (Inr b)
    with r m a show ?thesis by (simp add: catchM_def)
  qed
qed

lemma keep_session [keep]: "within R m \<Longrightarrow> within R (sessionM m)"
  unfolding within_def sessionM_def by (auto split: prod.splits sum.splits) (metis snd_conv)

lemma keep_when [keep]: "within R m \<Longrightarrow> within R (whenM b m)"
  by (simp add: whenM_def keep_prims)

lemma keep_if [keep]:
  "(b \<Longrightarrow> within R m) \<Longrightarrow> (\<not> b \<Longrightarrow> within R n) \<Longrightarrow> within R (if b then m else n)"
  by simp

lemma keep_option [keep]:
  "(x = None \<Longrightarrow> within R m) \<Longrightarrow> (\<And>a. x = Some a \<Longrightarrow> within R (f a)) \<Longrightarrow>
   within R (case x of None \<Rightarrow> m | Some a \<Rightarrow> f a)"
  by (cases x) simp_all

lemma keep_let [keep]: "(\<And>y. y = x \<Longrightarrow> within R (f y)) \<Longrightarrow> within R (Let x f)"
  by simp

lemma keep_prod [keep]:
  "(\<And>a b. x = (a, b) \<Longrightarrow> within R (f a b)) \<Longrightarrow> within R (case x of (a, b) \<Rightarrow> f a b)"
  by (cases x) simp

text \<open>A guard and a read, where what they establish is needed by the write behind them.\<close>

lemma guarded_run:
  assumes "b \<Longrightarrow> R\<^sup>*\<^sup>* (w_db w) (w_db (snd (f () w)))"
  shows "R\<^sup>*\<^sup>* (w_db w) (w_db (snd (bindM (guardM b e) f w)))"
  using assms by (cases b) (simp_all add: run_simps)

lemma within_guard: "(b \<Longrightarrow> within R (f ())) \<Longrightarrow> within R (bindM (guardM b e) f)"
  by (cases b) (simp_all add: within_def run_simps)

lemma within_getM:
  assumes "\<And>w. R\<^sup>*\<^sup>* (w_db w) (w_db (snd (f (g w) w)))"
  shows "within R (bindM (getM g) f)"
  using assms by (simp add: within_def run_simps)

lemma keep_skip: "within R m \<Longrightarrow> R\<^sup>*\<^sup>* (w_db w) (w_db (snd (m w)))"
  by (simp add: within_def)

text \<open>The same rules at a fixed state, where the row the operation found is known.\<close>

lemma within_getM_option:
  assumes "\<And>w. g w = None \<Longrightarrow> R\<^sup>*\<^sup>* (w_db w) (w_db (snd (m w)))"
    "\<And>w r. g w = Some r \<Longrightarrow> R\<^sup>*\<^sup>* (w_db w) (w_db (snd (f r w)))"
  shows "within R (bindM (getM g) (\<lambda>x. case x of None \<Rightarrow> m | Some r \<Rightarrow> f r))"
  unfolding within_def
proof
  fix w
  show "R\<^sup>*\<^sup>* (w_db w) (w_db (snd (bindM (getM g) (\<lambda>x. case x of None \<Rightarrow> m | Some r \<Rightarrow> f r) w)))"
    by (cases "g w") (simp_all add: run_simps assms)
qed

lemma step_getM_Some:
  "g w = Some r \<Longrightarrow> R\<^sup>*\<^sup>* (w_db w) (w_db (snd (f r w))) \<Longrightarrow>
   R\<^sup>*\<^sup>* (w_db w) (w_db (snd (bindM (getM g) (\<lambda>x. case x of None \<Rightarrow> m | Some r \<Rightarrow> f r) w)))"
  by (simp add: run_simps)

lemma step_if:
  "(b \<Longrightarrow> R\<^sup>*\<^sup>* (w_db w) (w_db (snd (m w)))) \<Longrightarrow> (\<not> b \<Longrightarrow> R\<^sup>*\<^sup>* (w_db w) (w_db (snd (n w)))) \<Longrightarrow>
   R\<^sup>*\<^sup>* (w_db w) (w_db (snd ((if b then m else n) w)))"
  by simp

lemma step_done: "R\<^sup>*\<^sup>* (w_db w) (w_db (snd (retM a w)))" "R\<^sup>*\<^sup>* (w_db w) (w_db (snd (raiseM e w)))"
  by (simp_all add: run_simps)

named_theorems hush "rules that show an operation calls neither executor nor notifier"

lemma hush_prims [hush]:
  "quiet (retM a)" "quiet (raiseM e)" "quiet (liftE r)" "quiet (getM f)"
  "quiet (guardM b e)" "quiet (nowM E)" "quiet (uuidM E)"
  by (simp_all add: quiet_def run_simps nowM_def uuidM_def)

lemma hush_bind [hush]: "quiet m \<Longrightarrow> (\<And>a. quiet (f a)) \<Longrightarrow> quiet (bindM m f)"
  unfolding quiet_def by (auto simp: bindM_run split: prod.splits sum.splits) (metis snd_conv)+

lemma hush_catch [hush]: "quiet m \<Longrightarrow> (\<And>e. quiet (h e)) \<Longrightarrow> quiet (catchM m h)"
  unfolding quiet_def by (auto simp: catchM_def split: prod.splits sum.splits) (metis snd_conv)+

lemma hush_session [hush]: "quiet m \<Longrightarrow> quiet (sessionM m)"
  unfolding quiet_def sessionM_def by (auto split: prod.splits sum.splits) (metis snd_conv)+

lemma hush_when [hush]: "quiet m \<Longrightarrow> quiet (whenM b m)"
  by (simp add: whenM_def hush_prims)

lemma hush_if [hush]: "quiet m \<Longrightarrow> quiet n \<Longrightarrow> quiet (if b then m else n)"
  by simp

lemma hush_option [hush]:
  "quiet m \<Longrightarrow> (\<And>a. quiet (f a)) \<Longrightarrow> quiet (case x of None \<Rightarrow> m | Some a \<Rightarrow> f a)"
  by (cases x) simp_all

lemma hush_let [hush]: "quiet (f x) \<Longrightarrow> quiet (Let x f)"
  by simp

lemma hush_prod [hush]: "(\<And>a b. quiet (f a b)) \<Longrightarrow> quiet (case x of (a, b) \<Rightarrow> f a b)"
  by (cases x) simp

section \<open>Redaction\<close>

text \<open>
  \<open>SecretRedactor.redact\<close> on documents: the values of sensitive keys are replaced, strings
  go through the text patterns, everything else is kept.
\<close>

fun redact_json :: "env \<Rightarrow> json \<Rightarrow> json" where
  "redact_json E (JStr s) = JStr (e_redact_text E s)"
| "redact_json E (JObj kvs) =
     JObj (map (\<lambda>(k, v). (k, if e_sensitive_key E k then JStr ''[REDACTED]'' else redact_json E v)) kvs)"
| "redact_json E (JList vs) = JList (map (redact_json E) vs)"
| "redact_json E (JInt i) = JInt i"
| "redact_json E (JBool b) = JBool b"
| "redact_json E JNull = JNull"

definition redact_obj :: "env \<Rightarrow> (string \<times> json) list \<Rightarrow> (string \<times> json) list" where
  "redact_obj E kvs =
     map (\<lambda>(k, v). (k, if e_sensitive_key E k then JStr ''[REDACTED]'' else redact_json E v)) kvs"

lemma redact_json_obj: "redact_json E (JObj kvs) = JObj (redact_obj E kvs)"
  by (simp add: redact_obj_def)

lemma map_of_redact_obj:
  "map_of (redact_obj E kvs) k =
     map_option (\<lambda>v. if e_sensitive_key E k then JStr ''[REDACTED]'' else redact_json E v) (map_of kvs k)"
  by (induction kvs) (auto simp: redact_obj_def)

section \<open>The audit log\<close>

text \<open>
  \<open>AuditWriter.write(AuditEvent(...))\<close>: the event is validated, redacted and appended.
\<close>

definition audit_write ::
  "env \<Rightarrow> string \<Rightarrow> string option \<Rightarrow> string option \<Rightarrow> string option \<Rightarrow> (string \<times> json) list \<Rightarrow> unit M" where
  "audit_write E event_type actor task_id project_id payload =
     bindM (guardM (len_between 1 128 event_type \<and> len_opt 128 actor \<and> len_opt 128 task_id
              \<and> len_opt 128 project_id) ValidationError) (\<lambda>_.
     bindM (uuidM E) (\<lambda>u.
     bindM (nowM E) (\<lambda>now.
     modM (\<lambda>w. w\<lparr>w_audit := w_audit w @
       [redact_json E (JObj
         [(''event_id'', JStr (''aud_'' @ u)), (''event_type'', JStr event_type),
          (''actor'', jstr_opt actor), (''request_id'', JNull), (''workflow_id'', JNull),
          (''task_id'', jstr_opt task_id), (''project_id'', jstr_opt project_id),
          (''payload'', JObj payload),
          (''created_at'', JStr (iso (e_codecs E) (utc_dt now)))])]\<rparr>))))"

lemma keep_audit [keep]: "within R (audit_write E ty a t p pl)"
  unfolding audit_write_def by (intro keep) (simp add: within_def run_simps)

lemma hush_audit [hush]: "quiet (audit_write E ty a t p pl)"
  unfolding audit_write_def by (intro hush) (simp add: quiet_def run_simps)

lemma audit_write_db [simp]: "w_db (snd (audit_write E ty a t p pl w)) = w_db w"
  by (simp add: audit_write_def run_simps uuidM_def nowM_def)

section \<open>Row access\<close>

definition mod_db :: "(db \<Rightarrow> db) \<Rightarrow> unit M" where
  "mod_db f = modM (\<lambda>w. w\<lparr>w_db := f (w_db w)\<rparr>)"

definition put_run :: "run_row \<Rightarrow> unit M" where
  "put_run r = mod_db (\<lambda>d. d\<lparr>db_runs := put_row r_id r (db_runs d)\<rparr>)"

definition put_task :: "task_row \<Rightarrow> unit M" where
  "put_task t = mod_db (\<lambda>d. d\<lparr>db_tasks := put_row t_id t (db_tasks d)\<rparr>)"

definition put_workflow :: "workflow_row \<Rightarrow> unit M" where
  "put_workflow r = mod_db (\<lambda>d. d\<lparr>db_workflows := put_row wf_id r (db_workflows d)\<rparr>)"

definition find_run :: "string \<Rightarrow> world \<Rightarrow> run_row option" where
  "find_run i w = find_row r_id i (db_runs (w_db w))"

definition find_task :: "string \<Rightarrow> world \<Rightarrow> task_row option" where
  "find_task i w = find_row t_id i (db_tasks (w_db w))"

definition find_workflow :: "string \<Rightarrow> world \<Rightarrow> workflow_row option" where
  "find_workflow i w = find_row wf_id i (db_workflows (w_db w))"

definition find_approval :: "string \<Rightarrow> world \<Rightarrow> approval_row option" where
  "find_approval i w = find_row ap_id i (db_approvals (w_db w))"

definition find_project :: "string \<Rightarrow> world \<Rightarrow> project_row option" where
  "find_project i w = find_row pj_id i (db_projects (w_db w))"

lemmas find_defs = find_run_def find_task_def find_workflow_def find_approval_def find_project_def

lemma put_runs [run_simps]:
  "mod_db f w = (Inr (), w\<lparr>w_db := f (w_db w)\<rparr>)"
  by (simp add: mod_db_def run_simps)

lemma mod_db_runE: "mod_db f w = (Inr u, w') \<Longrightarrow> (w' = w\<lparr>w_db := f (w_db w)\<rparr> \<Longrightarrow> R) \<Longrightarrow> R"
  by (clarsimp simp: put_runs)

lemma audit_write_runE:
  "audit_write E ty a t p pl w = (Inr u, w') \<Longrightarrow> (w_db w' = w_db w \<Longrightarrow> R) \<Longrightarrow> R"
  by (metis audit_write_db snd_conv)

lemma audit_write_Inl:
  "audit_write E ty a t p pl w = (Inl e, w') \<Longrightarrow> e = ValidationError \<and> w' = w"
  by (auto simp: audit_write_def run_simps uuidM_def nowM_def split: if_splits)

lemma keep_mod_db: "(\<And>d. R d (f d)) \<Longrightarrow> within R (mod_db f)"
  by (simp add: within_def run_simps r_into_rtranclp)

lemma hush_mod_db [hush]: "quiet (mod_db f)"
  by (simp add: quiet_def put_runs)

lemma hush_puts [hush]: "quiet (put_run r)" "quiet (put_task t)" "quiet (put_workflow f)"
  by (simp_all add: put_run_def put_task_def put_workflow_def hush_mod_db)

lemma mod_db_anyE: "mod_db f w = (x, w') \<Longrightarrow> (x = Inr () \<Longrightarrow> w_db w' = f (w_db w) \<Longrightarrow> R) \<Longrightarrow> R"
  by (clarsimp simp: put_runs)

lemma audit_write_anyE: "audit_write E ty a t p pl w = (x, w') \<Longrightarrow> (w_db w' = w_db w \<Longrightarrow> R) \<Longrightarrow> R"
  by (metis audit_write_db snd_conv)

section \<open>Calls that leave the process\<close>

text \<open>
  \<open>executor.execute\<close> and \<open>notifier.send_final\<close>: the answer is the next one of the stream, and
  the request is logged. An exception the answer stands for is a value here; the callers decide
  what they catch.
\<close>

definition executeM :: "env \<Rightarrow> exec_request \<Rightarrow> oc_result res M" where
  "executeM E x = (\<lambda>w. (Inr (e_executor E (w_calls w) x),
     w\<lparr>w_calls := Suc (w_calls w), w_exec_log := w_exec_log w @ [x]\<rparr>))"

definition send_finalM :: "env \<Rightarrow> run_row \<Rightarrow> unit res M" where
  "send_finalM E r = (\<lambda>w. (Inr (e_notifier E (w_calls w) r),
     w\<lparr>w_calls := Suc (w_calls w), w_sent_log := w_sent_log w @ [r]\<rparr>))"

lemma keep_calls [keep]: "within R (executeM E x)" "within R (send_finalM E r)"
  by (simp_all add: within_def executeM_def send_finalM_def)

end
