(* ===== verification/TaskService.thy ===== *)
theory TaskService
  imports World
begin

text \<open>
  The Task Registry: \<open>app/tasks/repository.py\<close> and \<open>app/tasks/service.py\<close>. Every status
  change goes through \<open>task_transition\<close>, which consults \<open>task_transitions\<close>, refuses to
  complete a task without a result and writes one audit event.
\<close>

section \<open>Repository\<close>

definition project_exists :: "string \<Rightarrow> bool M" where
  "project_exists pid = getM (\<lambda>w. find_project pid w \<noteq> None)"

text \<open>The constraints of the table: primary key and project.\<close>

definition insert_task_ok :: "task_row \<Rightarrow> db \<Rightarrow> bool" where
  "insert_task_ok t db \<longleftrightarrow> find_row t_id (t_id t) (db_tasks db) = None
     \<and> find_row pj_id (t_project_id t) (db_projects db) \<noteq> None"

definition insert_task :: "task_row \<Rightarrow> unit M" where
  "insert_task t =
     bindM (getM (\<lambda>w. insert_task_ok t (w_db w))) (\<lambda>ok.
     bindM (guardM ok IntegrityError) (\<lambda>_.
     mod_db (\<lambda>db. db\<lparr>db_tasks := db_tasks db @ [t]\<rparr>)))"

definition new_task_row :: "task_create \<Rightarrow> string \<Rightarrow> int \<Rightarrow> int \<Rightarrow> task_row" where
  "new_task_row d i created updated =
     \<lparr>t_id = i, t_project_id = tc_project_id d, t_title = tc_title d,
      t_description = tc_description d, t_status = TReceived,
      t_priority = tc_priority d, t_risk_level = tc_risk_level d,
      t_requested_by = tc_requested_by d, t_source_channel = tc_source_channel d,
      t_approval_required = tc_approval_required d, t_current_step_id = None,
      t_result_summary = None, t_deadline = map_option sqlite_bind (tc_deadline d),
      t_created_at = created, t_updated_at = updated, t_version = 1\<rparr>"

text \<open>
  \<open>TaskRepository.create\<close>: the deadline is bound as given, so the column keeps its
  wall-clock time.
\<close>

definition task_insert :: "env \<Rightarrow> task_create \<Rightarrow> task_row M" where
  "task_insert E d =
     bindM (uuidM E) (\<lambda>u.
     bindM (nowM E) (\<lambda>created.
     bindM (nowM E) (\<lambda>updated.
     let row = new_task_row d (''task_'' @ u) created updated
     in bindM (insert_task row) (\<lambda>_. retM row))))"

text \<open>\<open>ORDER BY created_at, id\<close> with optional filters, then LIMIT and OFFSET.\<close>

definition list_task_rows ::
  "string option \<Rightarrow> task_status option \<Rightarrow> nat \<Rightarrow> nat \<Rightarrow> db \<Rightarrow> task_row list" where
  "list_task_rows pid st limit offset db =
     take limit (drop offset (sort_key t_created_at (sort_key t_id
       (filter (\<lambda>t. (case pid of None \<Rightarrow> True | Some p \<Rightarrow> t_project_id t = p)
                  \<and> (case st of None \<Rightarrow> True | Some s \<Rightarrow> t_status t = s)) (db_tasks db)))))"

section \<open>Service\<close>

definition require_task :: "string \<Rightarrow> task_row M" where
  "require_task i =
     bindM (getM (find_task i)) (\<lambda>r.
     case r of None \<Rightarrow> raiseM (TaskNotFound (''Task not found: '' @ i)) | Some t \<Rightarrow> retM t)"

definition task_get :: "string \<Rightarrow> task_row M" where
  "task_get i = require_task i"

definition task_create_op :: "env \<Rightarrow> task_create \<Rightarrow> task_row M" where
  "task_create_op E d =
     bindM (project_exists (tc_project_id d)) (\<lambda>ok.
     bindM (guardM ok (TaskProjectNotFound (''Task project not found: '' @ tc_project_id d))) (\<lambda>_.
     bindM (task_insert E d) (\<lambda>t.
     bindM (audit_write E ''task.created'' (Some (tc_requested_by d)) (Some (t_id t)) (Some (t_project_id t))
       [(''approval_required'', JBool (t_approval_required t)),
        (''priority'', JStr (task_priority_value (t_priority t))),
        (''project_id'', JStr (t_project_id t)), (''risk_level'', JInt (t_risk_level t)),
        (''status'', JStr (task_status_value (t_status t))), (''task_id'', JStr (t_id t)),
        (''version'', JInt (t_version t))]) (\<lambda>_.
     retM t))))"

definition task_list ::
  "string option \<Rightarrow> task_status option \<Rightarrow> int \<Rightarrow> int \<Rightarrow> task_row list M" where
  "task_list pid st limit offset =
     bindM (guardM (1 \<le> limit \<and> limit \<le> 500) (ValueError ''limit must be between 1 and 500'')) (\<lambda>_.
     bindM (guardM (0 \<le> offset) (ValueError ''offset cannot be negative'')) (\<lambda>_.
     getM (\<lambda>w. list_task_rows pid st (nat limit) (nat offset) (w_db w))))"

definition normalize_optional_text :: "string option \<Rightarrow> string option" where
  "normalize_optional_text v = (case v of None \<Rightarrow> None
     | Some s \<Rightarrow> (let n = py_strip s in if n = [] then None else Some n))"

definition content_fingerprint :: "env \<Rightarrow> string \<Rightarrow> json" where
  "content_fingerprint E s = JObj [(''sha256'', JStr (e_sha256 E s)), (''chars'', JInt (int (py_len s))),
     (''utf8_bytes'', JInt (int (length s)))]"

definition bad_transition :: "task_status \<Rightarrow> task_status \<Rightarrow> string" where
  "bad_transition s t = ''Invalid task transition: '' @ task_status_value s @ '' -> '' @ task_status_value t"

definition task_changed ::
  "task_status \<Rightarrow> string option \<Rightarrow> string option \<Rightarrow> int \<Rightarrow> task_row \<Rightarrow> task_row" where
  "task_changed target result step now row =
     row\<lparr>t_status := target, t_version := t_version row + 1, t_updated_at := now,
         t_result_summary := (if result \<noteq> None then result else t_result_summary row),
         t_current_step_id := (if step \<noteq> None then normalize_optional_text step
                               else t_current_step_id row)\<rparr>"

definition task_transition ::
  "env \<Rightarrow> string \<Rightarrow> task_status \<Rightarrow> string option \<Rightarrow> string option \<Rightarrow> task_row M" where
  "task_transition E i target result_summary step =
     bindM (require_task i) (\<lambda>row.
     bindM (guardM (target \<in> set (task_transitions (t_status row)))
              (InvalidTaskTransition (bad_transition (t_status row) target))) (\<lambda>_.
     let result = normalize_optional_text result_summary in
     bindM (guardM (\<not> (target = TCompleted \<and> result = None)) TaskCompletionRequiresResult) (\<lambda>_.
     bindM (nowM E) (\<lambda>now.
     let row' = task_changed target result step now row in
     bindM (put_task row') (\<lambda>_.
     bindM (audit_write E ''task.status_changed'' (Some ''system'') (Some (t_id row')) (Some (t_project_id row'))
       [(''from_status'', JStr (task_status_value (t_status row))),
        (''project_id'', JStr (t_project_id row')),
        (''result_summary_fingerprint'', jopt (content_fingerprint E) (t_result_summary row')),
        (''task_id'', JStr (t_id row')), (''to_status'', JStr (task_status_value (t_status row'))),
        (''version'', JInt (t_version row'))]) (\<lambda>_.
     retM row'))))))"

definition task_cancel :: "env \<Rightarrow> string \<Rightarrow> string option \<Rightarrow> task_row M" where
  "task_cancel E i reason =
     bindM (task_get i) (\<lambda>t.
     if t_status t = TCancelled then retM t else task_transition E i TCancelled reason None)"

section \<open>Facts\<close>

lemma find_task_put_task:
  "find_task i (w\<lparr>w_db := (w_db w)\<lparr>db_tasks := put_row t_id t (db_tasks (w_db w))\<rparr>\<rparr>)
     = (if i = t_id t then map_option (\<lambda>_. t) (find_task i w) else find_task i w)"
  by (simp add: find_task_def row_simps)

lemma require_task_run: "require_task i w =
    ((case find_task i w of None \<Rightarrow> Inl (TaskNotFound (''Task not found: '' @ i)) | Some t \<Rightarrow> Inr t), w)"
  by (simp add: require_task_def run_simps split: option.splits)

lemma find_task_id: "find_task i w = Some t \<Longrightarrow> t_id t = i"
  by (auto simp: find_task_def dest: find_row_Some)

lemma task_changed_simps [simp]:
  "t_status (task_changed s r st n t) = s" "t_version (task_changed s r st n t) = t_version t + 1"
  "t_id (task_changed s r st n t) = t_id t"
  "t_project_id (task_changed s r st n t) = t_project_id t"
  "t_deadline (task_changed s r st n t) = t_deadline t"
  "t_priority (task_changed s r st n t) = t_priority t"
  "t_result_summary (task_changed s r st n t) = (if r \<noteq> None then r else t_result_summary t)"
  by (simp_all add: task_changed_def)

lemma require_task_runE:
  assumes "require_task i w = (Inr t, w')" "find_task i w = Some t \<Longrightarrow> w' = w \<Longrightarrow> R"
  shows R
proof -
  have "find_task i w = Some t \<and> w' = w"
    using assms(1) unfolding require_task_run by (cases "find_task i w") auto
  then show R using assms(2) by blast
qed

lemmas task_runE = runE mod_db_runE audit_write_runE require_task_runE

lemma task_transition_Inr:
  assumes "task_transition E i target rs step w = (Inr t', w')"
  obtains t where "find_task i w = Some t" "target \<in> set (task_transitions (t_status t))"
    "t_status t' = target" "t_version t' = t_version t + 1" "t_id t' = i"
    "t_project_id t' = t_project_id t"
    "target = TCompleted \<Longrightarrow> t_result_summary t' \<noteq> None"
    "w_db w' = (w_db w)\<lparr>db_tasks := put_row t_id t' (db_tasks (w_db w))\<rparr>"
  using assms unfolding task_transition_def put_task_def Let_def
  by (elim task_runE) (auto dest: find_task_id intro: that)

lemma task_transition_rejects:
  assumes "find_task i w = Some t" "target \<notin> set (task_transitions (t_status t))"
  shows "task_transition E i target rs step w =
    (Inl (InvalidTaskTransition (bad_transition (t_status t) target)), w)"
  using assms by (simp add: task_transition_def run_simps require_task_run)

section \<open>The task table as a transition system\<close>

inductive task_step :: "task_row \<Rightarrow> task_row \<Rightarrow> bool" where
  change: "target \<in> set (task_transitions (t_status t)) \<Longrightarrow> (target = TCompleted \<longrightarrow> result \<noteq> None) \<Longrightarrow>
    task_step t (task_changed target result step now t)"

inductive task_table :: "db \<Rightarrow> db \<Rightarrow> bool" where
  written: "t \<in> set (db_tasks d) \<Longrightarrow> task_step t t' \<Longrightarrow>
    task_table d (d\<lparr>db_tasks := put_row t_id t' (db_tasks d)\<rparr>)"
| inserted: "insert_task_ok (new_task_row c i created updated) d \<Longrightarrow>
    task_table d (d\<lparr>db_tasks := db_tasks d @ [new_task_row c i created updated]\<rparr>)"

inductive_cases task_stepE: "task_step t t'"

text \<open>
  A task is completed only with a result, its version counts its changes, and identifiers are
  unique.
\<close>

definition task_ok :: "task_row \<Rightarrow> bool" where
  "task_ok t \<longleftrightarrow> 1 \<le> t_version t \<and> (t_status t = TCompleted \<longrightarrow> t_result_summary t \<noteq> None)
     \<and> (t_status t = TReceived \<longrightarrow> t_version t = 1)"

definition tasks_ok :: "db \<Rightarrow> bool" where
  "tasks_ok d \<longleftrightarrow> keys_distinct t_id (db_tasks d) \<and> (\<forall>t\<in>set (db_tasks d). task_ok t)"

lemma task_step_move: "task_step t t' \<Longrightarrow> (t_status t, t_status t') \<in> moves task_transitions
    \<and> t_version t' = t_version t + 1 \<and> t_id t' = t_id t \<and> t_project_id t' = t_project_id t"
  by (auto elim!: task_stepE simp: moves_def)

lemma received_not_target: "TReceived \<notin> set (task_transitions s)"
  by (cases s) simp_all

lemma task_step_ok: "task_step t t' \<Longrightarrow> task_ok t \<Longrightarrow> task_ok t'"
  by (auto elim!: task_stepE simp: task_ok_def received_not_target)

lemma tasks_ok_step:
  assumes "task_table d d'" "tasks_ok d"
  shows "tasks_ok d'"
  using assms(1)
proof cases
  case (written t t')
  then show ?thesis using assms(2) task_step_ok [OF written(3)]
    by (auto simp: tasks_ok_def row_simps dest: put_row_mem)
next
  case (inserted c i created updated)
  then show ?thesis using assms(2)
    by (auto simp: tasks_ok_def insert_task_ok_def find_row_None task_ok_def new_task_row_def)
qed

lemma task_table_keeps_tasks:
  "task_table d d' \<Longrightarrow> find_row t_id i (db_tasks d) \<noteq> None \<Longrightarrow> find_row t_id i (db_tasks d') \<noteq> None"
  by (erule task_table.cases) (auto simp: row_simps find_row_append split: option.splits)

lemma insert_task_refines: "within task_table (insert_task (new_task_row c i created updated))"
  unfolding insert_task_def
  by (intro within_getM guarded_run) (auto simp: put_runs intro!: r_into_rtranclp task_table.inserted)

lemma task_create_refines: "within task_table (task_create_op E d)"
  unfolding task_create_op_def task_insert_def project_exists_def
  by (intro keep) (simp add: insert_task_refines)

lemma within_require_task:
  assumes "\<And>w t. find_task i w = Some t \<Longrightarrow> R\<^sup>*\<^sup>* (w_db w) (w_db (snd (f t w)))"
  shows "within R (bindM (require_task i) f)"
  unfolding within_def
proof
  fix w
  show "R\<^sup>*\<^sup>* (w_db w) (w_db (snd (bindM (require_task i) f w)))"
    by (cases "find_task i w") (simp_all add: bindM_run require_task_run assms)
qed

lemma put_task_step:
  assumes "t \<in> set (db_tasks (w_db w))" "task_step t t'" "\<And>R. within R (f ())"
  shows "task_table\<^sup>*\<^sup>* (w_db w) (w_db (snd (bindM (put_task t') f w)))"
proof -
  let ?d = "(w_db w)\<lparr>db_tasks := put_row t_id t' (db_tasks (w_db w))\<rparr>"
  have "task_table (w_db w) ?d"
    using assms(1,2) by (rule task_table.written)
  moreover have "task_table\<^sup>*\<^sup>* (w_db (w\<lparr>w_db := ?d\<rparr>)) (w_db (snd (f () (w\<lparr>w_db := ?d\<rparr>))))"
    using assms(3) [of "task_table"] unfolding within_def by (rule spec)
  ultimately show ?thesis by (simp add: put_task_def put_runs bindM_run)
qed

lemma find_task_mem: "find_task i w = Some t \<Longrightarrow> t \<in> set (db_tasks (w_db w))"
  by (auto simp: find_task_def dest: find_row_Some)

lemma step_nowM:
  "(\<And>t n. R\<^sup>*\<^sup>* (w_db (w\<lparr>w_ticks := n\<rparr>)) (w_db (snd (f t (w\<lparr>w_ticks := n\<rparr>))))) \<Longrightarrow>
   R\<^sup>*\<^sup>* (w_db w) (w_db (snd (bindM (nowM E) f w)))"
  by (simp add: bindM_run nowM_def)

lemma task_transition_refines: "within task_table (task_transition E i target rs step)"
  unfolding task_transition_def Let_def
  by (intro within_require_task guarded_run step_nowM put_task_step keep)
     (auto intro!: task_step.change dest: find_task_mem)

lemma task_get_refines: "within R (task_get i)"
  by (simp add: task_get_def within_def require_task_run)

lemma task_cancel_refines: "within task_table (task_cancel E i reason)"
  unfolding task_cancel_def by (intro keep task_get_refines task_transition_refines)

lemma hush_task_ops [hush]:
  "quiet (require_task i)" "quiet (task_get i)" "quiet (task_create_op E d)"
  "quiet (task_transition E i target rs step)" "quiet (task_cancel E i reason)"
  unfolding task_get_def task_create_op_def task_insert_def project_exists_def insert_task_def
    task_transition_def task_cancel_def require_task_def put_task_def
  by (intro hush)+

end
