(* ===== verification/Privacy.thy ===== *)
theory Privacy
  imports World
begin

text \<open>
  \<open>app/privacy/minimization.py\<close>: the pseudonymous idempotency keys of channel messages, the
  minimized payload kept with a run, and the keyed fingerprint of a request's identity that an
  idempotent replay is checked against. \<open>json.dumps(..., sort_keys=True)\<close> is \<open>e_dumps\<close>;
  SHA-256 and HMAC are \<open>e_sha256\<close> and \<open>e_hmac\<close>.
\<close>

definition nul :: char where
  "nul = CHR 0x00"

definition channel_idempotency_key :: "env \<Rightarrow> string \<Rightarrow> string \<Rightarrow> string \<Rightarrow> string" where
  "channel_idempotency_key E channel chat msg = channel @ '':'' @ e_sha256 E (chat @ [nul] @ msg)"

definition telegram_idempotency_key :: "env \<Rightarrow> string \<Rightarrow> string \<Rightarrow> string" where
  "telegram_idempotency_key E chat msg = ''telegram:'' @ e_sha256 E (chat @ [nul] @ msg)"

definition legacy_telegram_idempotency_key :: "env \<Rightarrow> string \<Rightarrow> string \<Rightarrow> string" where
  "legacy_telegram_idempotency_key E chat msg =
     (let candidate = ''telegram:'' @ chat @ '':'' @ msg in
      if py_len candidate \<le> 255 then candidate else ''telegram:'' @ e_sha256 E candidate)"

definition is_hex :: "char \<Rightarrow> bool" where
  "is_hex c \<longleftrightarrow> c \<in> set ''0123456789abcdef''"

text \<open>The test both the service and the repository apply to a provided Telegram key.\<close>

definition is_pseudonymous_key :: "string \<Rightarrow> bool" where
  "is_pseudonymous_key key \<longleftrightarrow>
     (let suffix = remove_prefix ''telegram:'' key in
      starts_with ''telegram:'' key \<and> py_len suffix = 64 \<and> list_all is_hex suffix)"

definition canonicalize_telegram_idempotency_key ::
  "env \<Rightarrow> string \<Rightarrow> string option \<Rightarrow> string option \<Rightarrow> string" where
  "canonicalize_telegram_idempotency_key E provided chat msg =
     (if truthy chat \<and> truthy msg then telegram_idempotency_key E (the chat) (the msg)
      else if is_pseudonymous_key provided then provided
      else ''telegram:'' @ e_sha256 E provided)"

definition routing_fields :: "string list" where
  "routing_fields = [''source_chat_id'', ''source_session_id'', ''source_message_id'']"

text \<open>Assigning None to the routing fields a payload has.\<close>

definition minimize_async_request_payload :: "(string \<times> json) list \<Rightarrow> (string \<times> json) list" where
  "minimize_async_request_payload d =
     map (\<lambda>(k, v). (k, if k \<in> set routing_fields then JNull else v)) d"

definition json_truthy :: "json \<Rightarrow> bool" where
  "json_truthy j = (case j of JNull \<Rightarrow> False | JBool b \<Rightarrow> b | JInt i \<Rightarrow> i \<noteq> 0 | JStr s \<Rightarrow> s \<noteq> []
     | JList xs \<Rightarrow> xs \<noteq> [] | JObj d \<Rightarrow> d \<noteq> [])"

definition normalize_async_request_identity_payload ::
  "(string \<times> json) list \<Rightarrow> (string \<times> json) list" where
  "normalize_async_request_identity_payload d =
     (let m = dict_pop ''_semantic_identity_fingerprint'' (dict_pop ''_semantic_identity_sha256''
                (dict_pop ''correlation_id'' (dict_pop ''idempotency_key''
                  (minimize_async_request_payload d))));
          m2 = (if map_of m ''reference_image'' = None then m @ [(''reference_image'', JNull)] else m)
      in (if (case map_of m2 ''prior_evidence'' of None \<Rightarrow> False | Some v \<Rightarrow> json_truthy v) then m2
          else dict_pop ''prior_evidence'' m2))"

definition identity_hmac_digest :: "env \<Rightarrow> (string \<times> json) list \<Rightarrow> string \<Rightarrow> string" where
  "identity_hmac_digest E d secret =
     e_hmac E secret (''anh-duong:async-request-identity:v1'' @ [nul]
       @ e_dumps E (JObj (normalize_async_request_identity_payload d)))"

definition async_request_identity_fingerprint ::
  "env \<Rightarrow> (string \<times> json) list \<Rightarrow> string \<Rightarrow> string \<Rightarrow> string res" where
  "async_request_identity_fingerprint E d secret key_id =
     (if key_id = [] \<or> CHR '':'' \<in> set key_id
      then Inl (ValueError ''async identity HMAC key_id is invalid'')
      else Inr (''hmac-sha256-v1:'' @ key_id @ '':'' @ identity_hmac_digest E d secret))"

text \<open>\<open>fp.rsplit(":", 1)[1]\<close>: the text after the last colon.\<close>

definition after_last_colon :: "string \<Rightarrow> string" where
  "after_last_colon s = last (split_on CHR '':'' s)"

text \<open>\<open>any(...)\<close> over the retained keys: an error in one of them propagates.\<close>

fun any_retained_key ::
  "env \<Rightarrow> (string \<times> json) list \<Rightarrow> string \<Rightarrow> (string \<times> string) list \<Rightarrow> bool res" where
  "any_retained_key E d fp [] = Inr False"
| "any_retained_key E d fp ((kid, secret) # ks) =
     bindE (async_request_identity_fingerprint E d secret kid) (\<lambda>full.
     if fp = ''hmac-sha256-v1:'' @ after_last_colon full then Inr True
     else any_retained_key E d fp ks)"

definition verify_async_request_identity_fingerprint ::
  "env \<Rightarrow> (string \<times> json) list \<Rightarrow> string \<Rightarrow> bool res" where
  "verify_async_request_identity_fingerprint E d fp =
     (case split_on CHR '':'' fp of
        [v, kid, dig] \<Rightarrow>
          (if v = ''hmac-sha256-v1''
           then (case map_of (e_keys E) kid of
                   None \<Rightarrow> Inr False
                 | Some secret \<Rightarrow>
                     bindE (async_request_identity_fingerprint E d secret kid) (\<lambda>expected.
                     Inr (fp = expected)))
           else Inr False)
      | [v, dig] \<Rightarrow>
          (if v = ''hmac-sha256-v1'' then any_retained_key E d fp (e_keys E) else Inr False)
      | _ \<Rightarrow> Inr False)"

definition legacy_async_request_identity_sha256 :: "env \<Rightarrow> (string \<times> json) list \<Rightarrow> string" where
  "legacy_async_request_identity_sha256 E d =
     e_sha256 E (e_dumps E (JObj (normalize_async_request_identity_payload d)))"

section \<open>The keyring\<close>

text \<open>
  \<open>resolve_async_identity_hmac_keyring\<close> over the settings: the active key identifier and
  secret and the retained keys. ASCII lower case is enough: the placeholders are ASCII.
\<close>

definition ascii_lower :: "string \<Rightarrow> string" where
  "ascii_lower s = map (\<lambda>c. if 65 \<le> (of_char c :: nat) \<and> (of_char c :: nat) \<le> 90
                          then char_of ((of_char c :: nat) + 32) else c) s"

definition placeholders :: "string list" where
  "placeholders = [''change-me'', ''changeme'', ''default'', ''secret'']"

definition hmac_key_bad :: "string \<Rightarrow> string \<Rightarrow> bool" where
  "hmac_key_bad key_id secret \<longleftrightarrow> key_id = [] \<or> CHR '':'' \<in> set key_id \<or> secret = []
     \<or> py_len secret < 32 \<or> ascii_lower (py_strip secret) \<in> set placeholders"

definition resolve_async_identity_hmac_keyring ::
  "string \<Rightarrow> string \<Rightarrow> (string \<times> string) list \<Rightarrow> (string \<times> (string \<times> string) list) option" where
  "resolve_async_identity_hmac_keyring active_id active_secret previous =
     (if hmac_key_bad active_id active_secret then None
      else (let keys = dict_set active_id active_secret previous in
            if list_ex (\<lambda>(k, s). hmac_key_bad k s) keys then None else Some (active_id, keys)))"

section \<open>Facts\<close>

lemma hex_no_colon: "list_all is_hex s \<Longrightarrow> CHR '':'' \<notin> set s"
proof -
  have "\<not> is_hex CHR '':''" by (simp add: is_hex_def)
  then show "list_all is_hex s \<Longrightarrow> CHR '':'' \<notin> set s" by (auto simp only: list_all_iff)
qed

lemma map_of_map_val: "map_of (map (\<lambda>(k, v). (k, f k v)) d) k = map_option (f k) (map_of d k)"
  by (induction d) auto

lemma map_of_minimize:
  "map_of (minimize_async_request_payload d) k =
     map_option (\<lambda>v. if k \<in> set routing_fields then JNull else v) (map_of d k)"
  by (simp add: minimize_async_request_payload_def map_of_map_val)

lemma minimize_idem:
  "minimize_async_request_payload (minimize_async_request_payload d) = minimize_async_request_payload d"
  by (auto simp: minimize_async_request_payload_def)

lemma minimize_dict_pop:
  "minimize_async_request_payload (dict_pop k d) = dict_pop k (minimize_async_request_payload d)"
  by (induction d) (auto simp: minimize_async_request_payload_def dict_pop_def)

lemma dict_pop_idem: "dict_pop k (dict_pop k d) = dict_pop k d"
  by (simp add: dict_pop_def filter_filter conj_ac)

lemma dict_pop_comm: "dict_pop k (dict_pop j d) = dict_pop j (dict_pop k d)"
  by (simp add: dict_pop_def filter_filter conj_ac)

text \<open>A fingerprint under a key of the ring verifies.\<close>

lemma split_on_fingerprint:
  assumes "CHR '':'' \<notin> set kid" "CHR '':'' \<notin> set dig"
  shows "split_on CHR '':'' (''hmac-sha256-v1:'' @ kid @ '':'' @ dig) = [''hmac-sha256-v1'', kid, dig]"
proof -
  have a: "split_on CHR '':'' (''hmac-sha256-v1'' @ CHR '':'' # (kid @ CHR '':'' # dig))
      = ''hmac-sha256-v1'' # split_on CHR '':'' (kid @ CHR '':'' # dig)"
    by (rule split_on_cons) simp
  have "split_on CHR '':'' (kid @ CHR '':'' # dig) = [kid, dig]"
    using assms by (simp add: split_on_cons split_on_absent)
  with a show ?thesis by simp
qed

lemma verify_own_fingerprint:
  assumes "async_request_identity_fingerprint E d secret kid = Inr fp"
    "map_of (e_keys E) kid = Some secret" "\<And>s m. CHR '':'' \<notin> set (e_hmac E s m)"
  shows "verify_async_request_identity_fingerprint E d' fp
     = Inr (identity_hmac_digest E d secret = identity_hmac_digest E d' secret)"
proof -
  have fp: "CHR '':'' \<notin> set kid" "kid \<noteq> []"
    "fp = ''hmac-sha256-v1:'' @ kid @ '':'' @ identity_hmac_digest E d secret"
    using assms(1) by (auto simp: async_request_identity_fingerprint_def split: if_splits)
  have "CHR '':'' \<notin> set (identity_hmac_digest E d secret)"
    by (simp add: identity_hmac_digest_def assms(3))
  from split_on_fingerprint [OF fp(1) this] fp assms(2) show ?thesis
    by (simp add: verify_async_request_identity_fingerprint_def async_request_identity_fingerprint_def)
qed

end
