(* ===== verification/AsyncRepository.thy ===== *)
theory AsyncRepository
  imports Privacy "HOL-Library.Product_Lexorder"
begin

text \<open>
  \<open>app/async_tasks/repository.py\<close> and \<open>app/async_tasks/audit.py\<close>: the table of async runs.
  Every operation loads the row, checks its guards, writes the columns (a pure function of the
  row, kept as a definition of its own) and appends one audit event. \<open>claim_next\<close> and
  \<open>claim_next_notification\<close> are single \<open>UPDATE ... RETURNING\<close> statements over the least
  candidate row.

  SQLAlchemy's identity map is not modelled: the sessions run with \<open>autoflush=False\<close>, but each
  operation flushes before it returns, so a later read sees the flushed row.
\<close>

section \<open>Audit events of a run\<close>

definition run_project_id :: "env \<Rightarrow> string \<Rightarrow> string option" where
  "run_project_id E request_json =
     (case e_loads E request_json of
        Some (JObj d) \<Rightarrow> (case map_of d ''project_id'' of Some (JStr p) \<Rightarrow> Some p | _ \<Rightarrow> None)
      | _ \<Rightarrow> None)"

definition write_async_run_event ::
  "env \<Rightarrow> string \<Rightarrow> run_row \<Rightarrow> string option \<Rightarrow> (string \<times> json) list \<Rightarrow> unit M" where
  "write_async_run_event E event_type run actor payload =
     (if \<not> e_audit E then retM ()
      else audit_write E event_type actor (Some (r_task_id run)) (run_project_id E (r_request_json run))
        (dict_update
          [(''run_id'', JStr (r_id run)), (''status'', JStr (run_status_value (r_status run))),
           (''attempt'', JInt (r_attempt run)), (''version'', JInt (r_version run)),
           (''idempotency_key_sha256'', JStr (e_sha256 E (r_idempotency_key run)))] payload))"

section \<open>Reading\<close>

definition require_run :: "string \<Rightarrow> run_row M" where
  "require_run i =
     bindM (getM (find_run i)) (\<lambda>r.
     case r of None \<Rightarrow> raiseM (AsyncRunNotFound (''Async run not found: '' @ i)) | Some x \<Rightarrow> retM x)"

definition run_get :: "string \<Rightarrow> run_row M" where
  "run_get i = require_run i"

definition run_by_key :: "string \<Rightarrow> db \<Rightarrow> run_row option" where
  "run_by_key key db = find_row r_idempotency_key key (db_runs db)"

definition run_by_task :: "string \<Rightarrow> db \<Rightarrow> run_row option" where
  "run_by_task tid db = find_row r_task_id tid (db_runs db)"

text \<open>\<open>ORDER BY a, id\<close>: stable sorting by the last key first.\<close>

definition list_run_rows :: "run_status option \<Rightarrow> string option \<Rightarrow> nat \<Rightarrow> nat \<Rightarrow> db \<Rightarrow> run_row list" where
  "list_run_rows st tid limit offset db =
     take limit (drop offset (sort_key r_created_at (sort_key r_id
       (filter (\<lambda>r. (case st of None \<Rightarrow> True | Some s \<Rightarrow> r_status r = s)
                  \<and> (case tid of None \<Rightarrow> True | Some t \<Rightarrow> r_task_id r = t)) (db_runs db)))))"

definition list_runs :: "run_status option \<Rightarrow> string option \<Rightarrow> int \<Rightarrow> int \<Rightarrow> run_row list M" where
  "list_runs st tid limit offset =
     bindM (guardM (1 \<le> limit \<and> limit \<le> 500) (ValueError ''limit must be between 1 and 500'')) (\<lambda>_.
     bindM (guardM (0 \<le> offset) (ValueError ''offset cannot be negative'')) (\<lambda>_.
     getM (\<lambda>w. list_run_rows st tid (nat limit) (nat offset) (w_db w))))"

definition stale_lease :: "int \<Rightarrow> run_row \<Rightarrow> bool" where
  "stale_lease now r \<longleftrightarrow> r_status r \<in> {RClaimed, RRunning, RVerifying}
     \<and> (case r_lease_expires_at r of None \<Rightarrow> False | Some t \<Rightarrow> t < now)"

definition lease_key :: "run_row \<Rightarrow> int" where
  "lease_key r = (case r_lease_expires_at r of None \<Rightarrow> 0 | Some t \<Rightarrow> t)"

definition list_stale_leases :: "py_datetime \<Rightarrow> db \<Rightarrow> run_row list" where
  "list_stale_leases now db =
     sort_key lease_key (sort_key r_id (filter (stale_lease (to_utc now)) (db_runs db)))"

definition list_legacy_approval_blocked_runs :: "int \<Rightarrow> run_row list M" where
  "list_legacy_approval_blocked_runs limit =
     bindM (guardM (1 \<le> limit \<and> limit \<le> 500) (ValueError ''limit must be between 1 and 500'')) (\<lambda>_.
     getM (\<lambda>w. take (nat limit) (sort_key r_updated_at (sort_key r_id
       (filter (\<lambda>r. r_status r = RBlocked \<and> r_last_error_code r = Some ''approval_required'')
         (db_runs (w_db w)))))))"

text \<open>
  \<open>list_pending_telegram_approvals\<close>: unexpired pending approvals joined to the waiting runs of
  one chat and session, newest first.
\<close>

definition pending_telegram_approval :: "int \<Rightarrow> string \<Rightarrow> string \<Rightarrow> db \<Rightarrow> approval_row \<Rightarrow> bool" where
  "pending_telegram_approval now chat sess db a \<longleftrightarrow>
     ap_status a = ApPending \<and> now < ap_expires_at a \<and>
     (case find_row r_id (ap_workflow_id a) (db_runs db) of
        None \<Rightarrow> False
      | Some r \<Rightarrow> r_source_chat_id r = Some chat \<and> r_source_session_id r = Some sess
          \<and> r_status r \<in> {RPending, RBlocked})"

definition list_pending_telegram_approvals ::
  "env \<Rightarrow> string \<Rightarrow> string \<Rightarrow> int \<Rightarrow> approval_row list M" where
  "list_pending_telegram_approvals E chat sess limit =
     bindM (guardM (chat \<noteq> [] \<and> sess \<noteq> [])
              (ValueError ''Telegram approval scope requires chat and session.'')) (\<lambda>_.
     bindM (guardM (1 \<le> limit \<and> limit \<le> 2)
              (ValueError ''approval lookup limit must be between 1 and 2'')) (\<lambda>_.
     bindM (nowM E) (\<lambda>now.
     getM (\<lambda>w. take (nat limit) (rev (sort_key ap_requested_at (sort_key ap_id
       (filter (pending_telegram_approval now chat sess (w_db w)) (db_approvals (w_db w))))))))))"

section \<open>Enqueue\<close>

definition enqueue_lookup_keys :: "env \<Rightarrow> async_create \<Rightarrow> string \<Rightarrow> string \<times> string list" where
  "enqueue_lookup_keys E req provided =
     (if ac_source_channel req = ''telegram''
      then (let norm = canonicalize_telegram_idempotency_key E provided
                         (ac_source_chat_id req) (ac_source_message_id req)
            in (norm, ordered_unique ([norm, provided]
                 @ (if truthy (ac_source_chat_id req) \<and> truthy (ac_source_message_id req)
                    then [legacy_telegram_idempotency_key E (the (ac_source_chat_id req))
                            (the (ac_source_message_id req))] else []))))
      else (provided, [provided]))"

text \<open>The first existing run under one of the keys.\<close>

fun first_run_by_keys :: "string list \<Rightarrow> db \<Rightarrow> run_row option" where
  "first_run_by_keys [] db = None"
| "first_run_by_keys (k # ks) db =
     (case run_by_key k db of Some r \<Rightarrow> Some r | None \<Rightarrow> first_run_by_keys ks db)"

definition enqueue_payload ::
  "env \<Rightarrow> (string \<times> json) list \<Rightarrow> string \<Rightarrow> string \<Rightarrow> (string \<times> json) list" where
  "enqueue_payload E raw norm fp =
     dict_set ''_semantic_identity_fingerprint'' (JStr fp)
       (redact_obj E (dict_set ''idempotency_key'' (JStr norm) (minimize_async_request_payload raw)))"

definition enqueue_row ::
  "env \<Rightarrow> string \<Rightarrow> string \<Rightarrow> async_create \<Rightarrow> string \<Rightarrow> string \<Rightarrow> int \<Rightarrow> run_status
   \<Rightarrow> string option \<Rightarrow> string option \<Rightarrow> run_row" where
  "enqueue_row E rid tid req norm payload_text ts st code msg =
     \<lparr>r_id = rid, r_task_id = tid, r_status = st, r_mode = ac_mode req,
      r_goal = e_redact_text E (ac_goal req), r_workspace = ac_workspace req,
      r_request_json = payload_text, r_checkpoint_json = None, r_result_json = None,
      r_attempt = 0, r_max_attempts = 3, r_run_after = ts,
      r_lease_owner = None, r_lease_expires_at = None,
      r_idempotency_key = norm, r_external_run_id = None,
      r_last_error_code = map_option (py_take 128) code,
      r_last_error_message = map_option (\<lambda>m. py_take 4000 (e_redact_text E m)) msg,
      r_source_chat_id = ac_source_chat_id req, r_source_session_id = ac_source_session_id req,
      r_notification_status =
        (if truthy (ac_source_chat_id req) \<and> run_terminal st then NPending else NNotRequired),
      r_notification_attempts = 0, r_created_at = ts, r_updated_at = ts, r_version = 1\<rparr>"

text \<open>The constraints of the table: primary key, the two unique columns, the foreign key.\<close>

definition insert_run_ok :: "run_row \<Rightarrow> db \<Rightarrow> bool" where
  "insert_run_ok row db \<longleftrightarrow>
     find_row r_id (r_id row) (db_runs db) = None
     \<and> run_by_task (r_task_id row) db = None
     \<and> run_by_key (r_idempotency_key row) db = None
     \<and> find_row t_id (r_task_id row) (db_tasks db) \<noteq> None"

definition insert_run :: "run_row \<Rightarrow> unit M" where
  "insert_run row =
     bindM (getM (\<lambda>w. insert_run_ok row (w_db w))) (\<lambda>ok.
     bindM (guardM ok IntegrityError) (\<lambda>_.
     mod_db (\<lambda>db. db\<lparr>db_runs := db_runs db @ [row]\<rparr>)))"

definition active_secret :: "env \<Rightarrow> string res" where
  "active_secret E = (case map_of (e_keys E) (e_key_id E) of
      None \<Rightarrow> Inl (KeyError (e_key_id E)) | Some s \<Rightarrow> Inr s)"

definition enqueue_new ::
  "env \<Rightarrow> string \<Rightarrow> async_create \<Rightarrow> string \<Rightarrow> py_datetime option \<Rightarrow> run_status
   \<Rightarrow> string option \<Rightarrow> string option \<Rightarrow> run_row M" where
  "enqueue_new E tid req norm now st code msg =
     bindM (case now of None \<Rightarrow> nowM E | Some t \<Rightarrow> retM (to_utc t)) (\<lambda>ts.
     bindM (liftE (active_secret E)) (\<lambda>secret.
     bindM (liftE (async_request_identity_fingerprint E (async_create_json (e_codecs E) req)
              secret (e_key_id E))) (\<lambda>fp.
     bindM (uuidM E) (\<lambda>u.
     let row = enqueue_row E (''run_'' @ u) tid req norm
                 (e_dumps E (JObj (enqueue_payload E (async_create_json (e_codecs E) req) norm fp)))
                 ts st code msg in
     bindM (insert_run row) (\<lambda>_.
     bindM (write_async_run_event E ''async_run.created'' row (Some (ac_requested_by req))
              [(''mode'', JStr (task_mode_value (r_mode row)))]) (\<lambda>_.
     bindM (whenM (st = RBlocked)
              (write_async_run_event E ''async_run.blocked'' row (Some (ac_requested_by req))
                [(''reason'', JStr (case code of None \<Rightarrow> ''policy_gate''
                                    | Some c \<Rightarrow> if c = [] then ''policy_gate'' else c))])) (\<lambda>_.
     retM row)))))))"

definition run_enqueue ::
  "env \<Rightarrow> string \<Rightarrow> async_create \<Rightarrow> string \<Rightarrow> py_datetime option \<Rightarrow> run_status
   \<Rightarrow> string option \<Rightarrow> string option \<Rightarrow> run_row M" where
  "run_enqueue E tid req key now st code msg =
     (let provided = py_strip key in
      bindM (guardM (provided \<noteq> []) (ValueError ''idempotency_key cannot be blank'')) (\<lambda>_.
      let (norm, lookup) = enqueue_lookup_keys E req provided in
      bindM (getM (\<lambda>w. first_run_by_keys lookup (w_db w))) (\<lambda>existing.
      case existing of Some r \<Rightarrow> retM r
      | None \<Rightarrow> enqueue_new E tid req norm now st code msg)))"

section \<open>Claiming\<close>

text \<open>The ordering of \<open>claim_next\<close>; a NULL deadline is ranked by \<open>deadline_rank\<close>.\<close>

definition overdue :: "int \<Rightarrow> task_row \<Rightarrow> bool" where
  "overdue now t = (case t_deadline t of None \<Rightarrow> False | Some d \<Rightarrow> d \<le> now)"

fun priority_rank :: "task_priority \<Rightarrow> int" where
  "priority_rank PHigh = 0"
| "priority_rank PNormal = 1"
| "priority_rank PLow = 2"
| "priority_rank PCritical = 3"

definition claim_rank :: "int \<Rightarrow> run_row \<times> task_row \<Rightarrow> int \<times> int \<times> int \<times> int \<times> int \<times> int \<times> string" where
  "claim_rank now = (\<lambda>(r, t).
     (if t_priority t = PCritical then 0 else 1, if overdue now t then 0 else 1,
      priority_rank (t_priority t), if t_deadline t = None then 1 else 0,
      case t_deadline t of None \<Rightarrow> 0 | Some d \<Rightarrow> d, r_created_at r, r_id r))"

definition claimable :: "int \<Rightarrow> run_row \<Rightarrow> bool" where
  "claimable now r \<longleftrightarrow> (r_status r = RPending \<or> r_status r = RRetryWait) \<and> r_run_after r \<le> now
     \<and> (case r_lease_expires_at r of None \<Rightarrow> True | Some t \<Rightarrow> t < now)"

text \<open>The join with the task table.\<close>

fun join_tasks :: "task_row list \<Rightarrow> run_row list \<Rightarrow> (run_row \<times> task_row) list" where
  "join_tasks ts [] = []"
| "join_tasks ts (r # rs) = (case find_row t_id (r_task_id r) ts of
      None \<Rightarrow> join_tasks ts rs | Some t \<Rightarrow> (r, t) # join_tasks ts rs)"

definition claim_candidates :: "int \<Rightarrow> db \<Rightarrow> (run_row \<times> task_row) list" where
  "claim_candidates now db = filter (\<lambda>(r, t). claimable now r) (join_tasks (db_tasks db) (db_runs db))"

definition claim_candidate :: "int \<Rightarrow> db \<Rightarrow> run_row option" where
  "claim_candidate now db = map_option fst (first_by (claim_rank now) (claim_candidates now db))"

definition claimed_row :: "string \<Rightarrow> int \<Rightarrow> int \<Rightarrow> run_row \<Rightarrow> run_row" where
  "claimed_row wid ts expires r =
     r\<lparr>r_status := RClaimed, r_lease_owner := Some wid, r_lease_expires_at := Some expires,
       r_attempt := r_attempt r + 1, r_version := r_version r + 1, r_updated_at := ts\<rparr>"

definition claim_next :: "env \<Rightarrow> string \<Rightarrow> py_datetime \<Rightarrow> int \<Rightarrow> run_row option M" where
  "claim_next E wid now lease_seconds =
     bindM (guardM (0 < lease_seconds) (ValueError ''lease_seconds must be positive'')) (\<lambda>_.
     let ts = to_utc now; expires = ts + seconds lease_seconds in
     bindM (getM (\<lambda>w. claim_candidate ts (w_db w))) (\<lambda>cand.
     case cand of None \<Rightarrow> retM None
     | Some r \<Rightarrow>
        let r' = claimed_row wid ts expires r in
        bindM (put_run r') (\<lambda>_.
        bindM (write_async_run_event E ''async_run.claimed'' r' (Some wid)
                 [(''lease_expires_at'',
                   jopt (\<lambda>t. JStr (isoformat (e_codecs E) (utc_dt t))) (r_lease_expires_at r'))]) (\<lambda>_.
        retM (Some r')))))"

definition lease_row :: "int \<Rightarrow> int \<Rightarrow> run_row \<Rightarrow> run_row" where
  "lease_row ts expires r =
     r\<lparr>r_lease_expires_at := Some expires, r_updated_at := ts, r_version := r_version r + 1\<rparr>"

definition renew_lease :: "env \<Rightarrow> string \<Rightarrow> string \<Rightarrow> py_datetime \<Rightarrow> int \<Rightarrow> run_row M" where
  "renew_lease E i wid now lease_seconds =
     bindM (guardM (0 < lease_seconds) (ValueError ''lease_seconds must be positive'')) (\<lambda>_.
     bindM (require_run i) (\<lambda>r.
     bindM (guardM (r_lease_owner r = Some wid) (ValueError ''lease owner mismatch'')) (\<lambda>_.
     let r' = lease_row (to_utc now) (to_utc now + seconds lease_seconds) r in
     bindM (put_run r') (\<lambda>_. retM r'))))"

section \<open>Status changes\<close>

record run_patch =
  tp_checkpoint :: "string option"
  tp_result :: "string option"
  tp_code :: "string option"
  tp_message :: "string option"
  tp_external :: "string option"

definition no_patch :: run_patch where
  "no_patch = \<lparr>tp_checkpoint = None, tp_result = None, tp_code = None, tp_message = None,
               tp_external = None\<rparr>"

text \<open>The columns \<open>transition\<close> writes; an argument that is None leaves its column alone.\<close>

definition moved_row :: "env \<Rightarrow> run_status \<Rightarrow> int \<Rightarrow> run_patch \<Rightarrow> run_row \<Rightarrow> run_row" where
  "moved_row E target ts p r =
     r\<lparr>r_status := target, r_updated_at := ts, r_version := r_version r + 1,
       r_checkpoint_json := (case tp_checkpoint p of None \<Rightarrow> r_checkpoint_json r
                             | Some c \<Rightarrow> Some (e_redact_text E c)),
       r_result_json := (case tp_result p of None \<Rightarrow> r_result_json r
                         | Some c \<Rightarrow> Some (e_redact_text E c)),
       r_last_error_code := (case tp_code p of None \<Rightarrow> r_last_error_code r
                             | Some c \<Rightarrow> Some (py_take 128 c)),
       r_last_error_message := (case tp_message p of None \<Rightarrow> r_last_error_message r
                                | Some m \<Rightarrow> Some (py_take 4000 (e_redact_text E m))),
       r_external_run_id := (case tp_external p of None \<Rightarrow> r_external_run_id r
                             | Some x \<Rightarrow> Some (py_take 255 x)),
       r_lease_owner := (if run_terminal target then None else r_lease_owner r),
       r_lease_expires_at := (if run_terminal target then None else r_lease_expires_at r)\<rparr>"

fun terminal_event :: "run_status \<Rightarrow> string option" where
  "terminal_event RCompleted = Some ''async_run.completed''"
| "terminal_event RFailed = Some ''async_run.failed''"
| "terminal_event RBlocked = Some ''async_run.blocked''"
| "terminal_event RCancelled = Some ''async_run.cancelled''"
| "terminal_event _ = None"

definition error_payload :: "string option \<Rightarrow> string option \<Rightarrow> (string \<times> json) list" where
  "error_payload code msg = [(''error_code'', jstr_opt code), (''error_message'', jstr_opt msg)]"

definition bad_run_transition :: "run_status \<Rightarrow> run_status \<Rightarrow> string" where
  "bad_run_transition s t =
     ''Invalid async run transition: '' @ run_status_value s @ '' -> '' @ run_status_value t"

definition run_transition ::
  "env \<Rightarrow> string \<Rightarrow> run_status \<Rightarrow> py_datetime \<Rightarrow> run_patch \<Rightarrow> run_row M" where
  "run_transition E i target now p =
     bindM (require_run i) (\<lambda>r.
     bindM (guardM (target \<in> set (async_run_transitions (r_status r)))
              (ValueError (bad_run_transition (r_status r) target))) (\<lambda>_.
     let r' = moved_row E target (to_utc now) p r in
     bindM (put_run r') (\<lambda>_.
     bindM (case terminal_event target of None \<Rightarrow> retM ()
            | Some ev \<Rightarrow> write_async_run_event E ev r' None (error_payload (tp_code p) (tp_message p))) (\<lambda>_.
     retM r'))))"

definition retry_row :: "env \<Rightarrow> int \<Rightarrow> int \<Rightarrow> string \<Rightarrow> string \<Rightarrow> run_row \<Rightarrow> run_row" where
  "retry_row E ts delay code msg r =
     r\<lparr>r_status := RRetryWait, r_run_after := ts + seconds delay,
       r_lease_owner := None, r_lease_expires_at := None,
       r_last_error_code := Some (py_take 128 code),
       r_last_error_message := Some (py_take 4000 (e_redact_text E msg)),
       r_updated_at := ts, r_version := r_version r + 1\<rparr>"

definition schedule_retry ::
  "env \<Rightarrow> string \<Rightarrow> py_datetime \<Rightarrow> int \<Rightarrow> string \<Rightarrow> string \<Rightarrow> run_row M" where
  "schedule_retry E i now delay code msg =
     bindM (require_run i) (\<lambda>r.
     bindM (guardM (RRetryWait \<in> set (async_run_transitions (r_status r)))
              (ValueError ''Current run status cannot schedule retry'')) (\<lambda>_.
     bindM (guardM (0 \<le> delay) (ValueError ''delay_seconds cannot be negative'')) (\<lambda>_.
     let r' = retry_row E (to_utc now) delay code msg r in
     bindM (put_run r') (\<lambda>_.
     bindM (write_async_run_event E ''async_run.retry_scheduled'' r' None
              [(''delay_seconds'', JInt delay), (''error_code'', JStr code),
               (''error_message'', JStr msg),
               (''run_after'', JStr (isoformat (e_codecs E) (utc_dt (r_run_after r'))))]) (\<lambda>_.
     retM r')))))"

definition reset_row :: "int \<Rightarrow> run_row \<Rightarrow> run_row" where
  "reset_row ts r =
     r\<lparr>r_status := RPending, r_attempt := 0, r_run_after := ts,
       r_lease_owner := None, r_lease_expires_at := None,
       r_checkpoint_json := None, r_result_json := None, r_external_run_id := None,
       r_last_error_code := None, r_last_error_message := None,
       r_notification_status := NNotRequired, r_notification_attempts := 0,
       r_updated_at := ts, r_version := r_version r + 1\<rparr>"

definition manual_retry :: "string \<Rightarrow> py_datetime \<Rightarrow> run_row M" where
  "manual_retry i now =
     bindM (require_run i) (\<lambda>r.
     bindM (guardM (r_status r = RFailed \<or> r_status r = RBlocked)
              (ValueError ''Only failed or blocked runs may be retried'')) (\<lambda>_.
     let r' = reset_row (to_utc now) r in
     bindM (put_run r') (\<lambda>_. retM r')))"

definition cancelled_row :: "int \<Rightarrow> run_row \<Rightarrow> run_row" where
  "cancelled_row ts r =
     r\<lparr>r_status := RCancelled, r_lease_owner := None, r_lease_expires_at := None,
       r_updated_at := ts, r_version := r_version r + 1\<rparr>"

definition cannot_cancel :: "run_status \<Rightarrow> string" where
  "cannot_cancel s = run_status_value s @ '' runs cannot be cancelled safely''"

text \<open>
  The conditional \<open>UPDATE\<close> of \<open>cancel\<close> and the re-read behind it. The statement runs in the
  transaction that read the row, so its guard is the one checked before; the branch in which no
  row is updated is kept as the code has it.
\<close>

definition run_cancel :: "env \<Rightarrow> string \<Rightarrow> py_datetime \<Rightarrow> run_row M" where
  "run_cancel E i now =
     bindM (require_run i) (\<lambda>r.
     if r_status r = RCancelled then retM r
     else bindM (guardM (r_status r = RPending \<or> r_status r = RRetryWait)
                   (ValueError (cannot_cancel (r_status r)))) (\<lambda>_.
       bindM (getM (find_run i)) (\<lambda>cur.
       case cur of
         Some c \<Rightarrow>
           (if r_status c = RPending \<or> r_status c = RRetryWait
            then (let r' = cancelled_row (to_utc now) c in
                  bindM (put_run r') (\<lambda>_.
                  bindM (write_async_run_event E ''async_run.cancelled'' r' None []) (\<lambda>_.
                  retM r')))
            else if r_status c = RCancelled then retM c
            else raiseM (ValueError (cannot_cancel (r_status c))))
       | None \<Rightarrow> run_get i)))"

definition recovered_row :: "env \<Rightarrow> bool \<Rightarrow> int \<Rightarrow> string \<Rightarrow> run_row \<Rightarrow> run_row" where
  "recovered_row E safe ts reason r =
     r\<lparr>r_status := (if safe then RPending else RBlocked), r_run_after := ts,
       r_lease_owner := None, r_lease_expires_at := None,
       r_last_error_code := Some (if safe then ''stale_run_requeued'' else ''stale_run_blocked''),
       r_last_error_message := Some (py_take 4000 (e_redact_text E reason)),
       r_updated_at := ts, r_version := r_version r + 1\<rparr>"

definition recover_stale :: "env \<Rightarrow> string \<Rightarrow> bool \<Rightarrow> py_datetime \<Rightarrow> string \<Rightarrow> run_row M" where
  "recover_stale E i safe now reason =
     bindM (require_run i) (\<lambda>r.
     bindM (guardM (r_status r \<in> {RClaimed, RRunning, RVerifying})
              (ValueError ''Only active stale runs can be recovered'')) (\<lambda>_.
     let r' = recovered_row E safe (to_utc now) reason r in
     bindM (put_run r') (\<lambda>_.
     bindM (write_async_run_event E ''async_run.recovered'' r' None
              [(''action'', JStr (if safe then ''requeued'' else ''blocked'')),
               (''reason'', JStr reason)]) (\<lambda>_.
     bindM (whenM (\<not> safe)
              (write_async_run_event E ''async_run.blocked'' r' None
                 (error_payload (r_last_error_code r') (Some reason) @ [(''recovery'', JBool True)]))) (\<lambda>_.
     retM r')))))"

section \<open>Notifications\<close>

definition notified_row :: "notification_status \<Rightarrow> bool \<Rightarrow> int \<Rightarrow> run_row \<Rightarrow> run_row" where
  "notified_row st inc ts r =
     r\<lparr>r_notification_status := st,
       r_notification_attempts := r_notification_attempts r + (if inc then 1 else 0),
       r_updated_at := ts, r_version := r_version r + 1\<rparr>"

definition notification_event ::
  "notification_status \<Rightarrow> string option \<Rightarrow> string option \<Rightarrow> string option" where
  "notification_event st code msg =
     (if st = NSent then Some ''async_notification.sent''
      else if st = NFailed \<or> code \<noteq> None \<or> msg \<noteq> None then Some ''async_notification.failed''
      else None)"

definition mark_notification ::
  "env \<Rightarrow> string \<Rightarrow> notification_status \<Rightarrow> py_datetime \<Rightarrow> bool \<Rightarrow> string option \<Rightarrow> string option
   \<Rightarrow> run_row M" where
  "mark_notification E i st now inc code msg =
     bindM (require_run i) (\<lambda>r.
     let r' = notified_row st inc (to_utc now) r in
     bindM (put_run r') (\<lambda>_.
     bindM (case notification_event st code msg of None \<Rightarrow> retM ()
            | Some ev \<Rightarrow> write_async_run_event E ev r' None
                ([(''notification_attempts'', JInt (r_notification_attempts r'))]
                 @ error_payload code msg @ [(''retry_scheduled'', JBool (st = NPending))])) (\<lambda>_.
     retM r')))"

definition notifiable :: "int \<Rightarrow> run_row \<Rightarrow> bool" where
  "notifiable max_attempts r \<longleftrightarrow>
     r_notification_status r = NPending \<and> r_notification_attempts r < max_attempts
     \<and> r_source_chat_id r \<noteq> None \<and> run_terminal (r_status r)"

definition notification_candidate :: "int \<Rightarrow> db \<Rightarrow> run_row option" where
  "notification_candidate max_attempts db =
     first_by (\<lambda>r. (r_updated_at r, r_id r)) (filter (notifiable max_attempts) (db_runs db))"

definition attempted_row :: "int \<Rightarrow> run_row \<Rightarrow> run_row" where
  "attempted_row ts r =
     r\<lparr>r_notification_attempts := r_notification_attempts r + 1, r_updated_at := ts,
       r_version := r_version r + 1\<rparr>"

definition claim_next_notification :: "py_datetime \<Rightarrow> int \<Rightarrow> run_row option M" where
  "claim_next_notification now max_attempts =
     bindM (guardM (0 < max_attempts) (ValueError ''max_attempts must be positive'')) (\<lambda>_.
     bindM (getM (\<lambda>w. notification_candidate max_attempts (w_db w))) (\<lambda>cand.
     case cand of None \<Rightarrow> retM None
     | Some r \<Rightarrow> (let r' = attempted_row (to_utc now) r in
                   bindM (put_run r') (\<lambda>_. retM (Some r')))))"

section \<open>The run table as a transition system\<close>

text \<open>
  What one operation may do to one row, and to the table. The operations above refine this
  relation (\<open>within (run_table E)\<close>), so an invariant of the table is proved by cases on it.
\<close>

inductive run_step :: "env \<Rightarrow> run_row \<Rightarrow> run_row \<Rightarrow> bool" for E where
  claim: "claimable ts r \<Longrightarrow> ts < expires \<Longrightarrow> run_step E r (claimed_row wid ts expires r)"
| renew: "r_lease_owner r = Some wid \<Longrightarrow> ts < expires \<Longrightarrow> run_step E r (lease_row ts expires r)"
| move: "target \<in> set (async_run_transitions (r_status r)) \<Longrightarrow>
    run_step E r (moved_row E target ts p r)"
| retry: "RRetryWait \<in> set (async_run_transitions (r_status r)) \<Longrightarrow> 0 \<le> delay \<Longrightarrow>
    run_step E r (retry_row E ts delay code msg r)"
| reset: "r_status r = RFailed \<or> r_status r = RBlocked \<Longrightarrow> run_step E r (reset_row ts r)"
| cancel: "r_status r = RPending \<or> r_status r = RRetryWait \<Longrightarrow> run_step E r (cancelled_row ts r)"
| recover: "r_status r \<in> {RClaimed, RRunning, RVerifying} \<Longrightarrow>
    run_step E r (recovered_row E safe ts reason r)"
| notify: "run_step E r (notified_row st inc ts r)"
| attempt: "notifiable k r \<Longrightarrow> run_step E r (attempted_row ts r)"

inductive run_table :: "env \<Rightarrow> db \<Rightarrow> db \<Rightarrow> bool" for E where
  written: "r \<in> set (db_runs d) \<Longrightarrow> run_step E r r' \<Longrightarrow>
    run_table E d (d\<lparr>db_runs := put_row r_id r' (db_runs d)\<rparr>)"
| inserted: "insert_run_ok (enqueue_row E rid tid req norm text ts st code msg) d \<Longrightarrow>
    run_table E d (d\<lparr>db_runs := db_runs d @ [enqueue_row E rid tid req norm text ts st code msg]\<rparr>)"

lemmas row_defs = claimed_row_def lease_row_def moved_row_def retry_row_def reset_row_def
  cancelled_row_def recovered_row_def notified_row_def attempted_row_def

lemma run_step_keys:
  assumes "run_step E r r'"
  shows "r_id r' = r_id r \<and> r_task_id r' = r_task_id r \<and> r_idempotency_key r' = r_idempotency_key r
    \<and> r_created_at r' = r_created_at r \<and> r_goal r' = r_goal r \<and> r_mode r' = r_mode r
    \<and> r_request_json r' = r_request_json r \<and> r_max_attempts r' = r_max_attempts r
    \<and> r_source_chat_id r' = r_source_chat_id r"
  using assms by cases (simp_all add: row_defs)

lemma run_step_version: "run_step E r r' \<Longrightarrow> r_version r' = r_version r + 1"
  by (erule run_step.cases) (simp_all add: row_defs)

section \<open>The operations refine the table\<close>

lemma keep_run_event [keep]: "within R (write_async_run_event E ev r a p)"
  unfolding write_async_run_event_def by (intro keep)

lemma hush_run_event [hush]: "quiet (write_async_run_event E ev r a p)"
  unfolding write_async_run_event_def by (intro hush)

lemma run_event_db: "write_async_run_event E ev r a p w = (x, w') \<Longrightarrow> w_db w' = w_db w"
  by (auto simp: write_async_run_event_def run_simps elim: audit_write_anyE split: if_splits)

lemma run_event_anyE:
  "write_async_run_event E ev r a p w = (x, w') \<Longrightarrow> (w_db w' = w_db w \<Longrightarrow> R) \<Longrightarrow> R"
  by (blast dest: run_event_db)

lemma require_run_run: "require_run i w =
    ((case find_run i w of None \<Rightarrow> Inl (AsyncRunNotFound (''Async run not found: '' @ i))
      | Some r \<Rightarrow> Inr r), w)"
  by (simp add: require_run_def run_simps split: option.splits)

lemma find_run_id: "find_run i w = Some r \<Longrightarrow> r_id r = i"
  by (auto simp: find_run_def dest: find_row_Some)

text \<open>A run of \<open>require_run\<close> leaves the state and returns the row.\<close>

lemma require_run_anyE:
  assumes "require_run i w = (x, w')"
    "\<And>r. find_run i w = Some r \<Longrightarrow> x = Inr r \<Longrightarrow> w' = w \<Longrightarrow> R"
    "find_run i w = None \<Longrightarrow> x = Inl (AsyncRunNotFound (''Async run not found: '' @ i)) \<Longrightarrow> w' = w \<Longrightarrow> R"
  shows R
proof (cases "find_run i w")
  case None
  with assms(1) have "x = Inl (AsyncRunNotFound (''Async run not found: '' @ i)) \<and> w' = w"
    by (simp add: require_run_run)
  with None assms(3) show ?thesis by blast
next
  case (Some r)
  with assms(1) have "x = Inr r \<and> w' = w" by (simp add: require_run_run)
  with Some assms(2) show ?thesis by blast
qed

text \<open>The continuation of a guarded write: load the row, check the guard, write.\<close>

lemma within_require_run:
  assumes "\<And>w r. find_run i w = Some r \<Longrightarrow> R\<^sup>*\<^sup>* (w_db w) (w_db (snd (f r w)))"
  shows "within R (bindM (require_run i) f)"
proof (unfold within_def, rule allI)
  fix w
  show "R\<^sup>*\<^sup>* (w_db w) (w_db (snd (bindM (require_run i) f w)))"
    by (cases "find_run i w") (simp_all add: bindM_run require_run_run assms)
qed

lemma put_run_mem_step:
  assumes "r \<in> set (db_runs (w_db w))" "run_step E r r'" "\<And>R. within R (f ())"
  shows "(run_table E)\<^sup>*\<^sup>* (w_db w) (w_db (snd (bindM (put_run r') f w)))"
proof -
  let ?d = "(w_db w)\<lparr>db_runs := put_row r_id r' (db_runs (w_db w))\<rparr>"
  have "run_table E (w_db w) ?d"
    using assms(1,2) by (rule run_table.written)
  moreover have "(run_table E)\<^sup>*\<^sup>* (w_db (w\<lparr>w_db := ?d\<rparr>)) (w_db (snd (f () (w\<lparr>w_db := ?d\<rparr>))))"
    using assms(3) [of "run_table E"] unfolding within_def by (rule spec)
  ultimately show ?thesis
    by (simp add: put_run_def put_runs bindM_run)
qed

lemma find_run_mem: "find_run i w = Some r \<Longrightarrow> r \<in> set (db_runs (w_db w))"
  by (auto simp: find_run_def dest: find_row_Some)

lemma put_run_step:
  assumes "find_run i w = Some r" "run_step E r r'" "\<And>R. within R (f ())"
  shows "(run_table E)\<^sup>*\<^sup>* (w_db w) (w_db (snd (bindM (put_run r') f w)))"
  using find_run_mem [OF assms(1)] assms(2,3) by (rule put_run_mem_step)

lemma keep_run_get [keep]: "within R (run_get i)" "within R (require_run i)"
  by (simp_all add: run_get_def within_def require_run_run)

lemma hush_run_get [hush]: "quiet (run_get i)" "quiet (require_run i)"
  by (simp_all add: run_get_def quiet_def require_run_run)

named_theorems run_ops "the run operations refine the run table"

lemma renew_lease_refines [run_ops]: "within (run_table E) (renew_lease E i wid now ls)"
  unfolding renew_lease_def Let_def
  by (intro within_guard within_require_run guarded_run put_run_step keep)
     (auto intro!: run_step.renew)

lemma run_transition_refines [run_ops]: "within (run_table E) (run_transition E i st now p)"
  unfolding run_transition_def Let_def
  by (intro within_require_run guarded_run put_run_step keep)
     (auto intro!: run_step.move)

lemma schedule_retry_refines [run_ops]: "within (run_table E) (schedule_retry E i now delay code msg)"
  unfolding schedule_retry_def Let_def
  by (intro within_require_run guarded_run put_run_step keep)
     (auto intro!: run_step.retry)

lemma manual_retry_refines [run_ops]: "within (run_table E) (manual_retry i now)"
  unfolding manual_retry_def Let_def
  by (intro within_require_run guarded_run put_run_step keep) (auto intro!: run_step.reset)

lemma recover_stale_refines [run_ops]: "within (run_table E) (recover_stale E i safe now reason)"
  unfolding recover_stale_def Let_def
  by (intro within_require_run guarded_run put_run_step keep) (auto intro!: run_step.recover)

lemma mark_notification_refines [run_ops]:
  "within (run_table E) (mark_notification E i st now inc code msg)"
  unfolding mark_notification_def Let_def
  by (intro within_require_run guarded_run put_run_step keep) (auto intro!: run_step.notify)

lemma join_tasks_mem: "(r, t) \<in> set (join_tasks ts rs) \<Longrightarrow> r \<in> set rs \<and> find_row t_id (r_task_id r) ts = Some t"
  by (induction rs) (auto split: option.splits)

lemma join_tasks_iff:
  "(r, t) \<in> set (join_tasks ts rs) \<longleftrightarrow> r \<in> set rs \<and> find_row t_id (r_task_id r) ts = Some t"
  by (induction rs) (auto split: option.splits)

lemma claim_candidate_Some:
  assumes "claim_candidate ts d = Some r"
  obtains t where "r \<in> set (db_runs d)" "claimable ts r"
    "find_row t_id (r_task_id r) (db_tasks d) = Some t"
    "\<And>r' t'. r' \<in> set (db_runs d) \<Longrightarrow> claimable ts r' \<Longrightarrow>
       find_row t_id (r_task_id r') (db_tasks d) = Some t' \<Longrightarrow> claim_rank ts (r, t) \<le> claim_rank ts (r', t')"
proof -
  from assms obtain t where f: "first_by (claim_rank ts) (claim_candidates ts d) = Some (r, t)"
    by (auto simp: claim_candidate_def)
  then have "(r, t) \<in> set (claim_candidates ts d)" by (rule first_by_mem)
  moreover have "claim_rank ts (r, t) \<le> claim_rank ts p" if "p \<in> set (claim_candidates ts d)" for p
    using f that by (rule first_by_least)
  ultimately show ?thesis
    by (intro that) (auto simp: claim_candidates_def join_tasks_iff)
qed

lemma claim_candidate_None:
  "claim_candidate ts d = None \<longleftrightarrow>
   (\<forall>r\<in>set (db_runs d). claimable ts r \<longrightarrow> find_row t_id (r_task_id r) (db_tasks d) = None)"
proof -
  have "claim_candidate ts d = None \<longleftrightarrow> (\<forall>(r, t)\<in>set (join_tasks (db_tasks d) (db_runs d)). \<not> claimable ts r)"
    by (auto simp: claim_candidate_def claim_candidates_def filter_empty_conv)
  also have "\<dots> \<longleftrightarrow> (\<forall>r t. r \<in> set (db_runs d) \<longrightarrow> find_row t_id (r_task_id r) (db_tasks d) = Some t \<longrightarrow> \<not> claimable ts r)"
    by (auto simp: join_tasks_iff)
  also have "\<dots> \<longleftrightarrow> (\<forall>r\<in>set (db_runs d). claimable ts r \<longrightarrow> find_row t_id (r_task_id r) (db_tasks d) = None)"
    by (metis not_None_eq option.distinct(1))
  finally show ?thesis .
qed

lemma claim_next_refines [run_ops]: "within (run_table E) (claim_next E wid now ls)"
  unfolding claim_next_def Let_def
proof (intro within_guard within_getM_option step_done)
  fix w :: world and r assume "0 < ls" "claim_candidate (to_utc now) (w_db w) = Some r"
  moreover from this(2) obtain t where r: "r \<in> set (db_runs (w_db w))" "claimable (to_utc now) r"
    by (rule claim_candidate_Some)
  let ?r = "claimed_row wid (to_utc now) (to_utc now + seconds ls) r"
  have "run_step E r ?r" using r(2) \<open>0 < ls\<close> by (intro run_step.claim) simp_all
  with r(1) show "(run_table E)\<^sup>*\<^sup>* (w_db w) (w_db (snd (bindM (put_run ?r)
      (\<lambda>_. bindM (write_async_run_event E ''async_run.claimed'' ?r (Some wid)
        [(''lease_expires_at'', jopt (\<lambda>t. JStr (isoformat (e_codecs E) (utc_dt t))) (r_lease_expires_at ?r))])
      (\<lambda>_. retM (Some ?r))) w)))"
    by (intro put_run_mem_step keep)
qed

lemma claim_next_notification_refines [run_ops]: "within (run_table E) (claim_next_notification now k)"
  unfolding claim_next_notification_def Let_def
proof (intro within_guard within_getM_option step_done)
  fix w :: world and r assume "notification_candidate k (w_db w) = Some r"
  then have r: "r \<in> set (db_runs (w_db w))" "notifiable k r"
    unfolding notification_candidate_def by (auto dest: first_by_mem)
  show "(run_table E)\<^sup>*\<^sup>* (w_db w) (w_db (snd (bindM (put_run (attempted_row (to_utc now) r))
      (\<lambda>_. retM (Some (attempted_row (to_utc now) r))) w)))"
    using r(1) run_step.attempt [OF r(2)] by (intro put_run_mem_step keep)
qed

lemma run_cancel_refines [run_ops]: "within (run_table E) (run_cancel E i now)"
  unfolding run_cancel_def Let_def
  by (intro within_require_run step_if guarded_run step_done; (rule step_getM_Some, assumption)?;
      intro step_if put_run_step step_done keep; (rule run_step.cancel, assumption)?)

lemma insert_run_refines:
  "within (run_table E) (insert_run (enqueue_row E rid tid req norm text ts st code msg))"
  unfolding insert_run_def
  by (intro within_getM guarded_run) (auto simp: put_runs intro!: r_into_rtranclp run_table.inserted)

lemma run_enqueue_refines [run_ops]: "within (run_table E) (run_enqueue E tid req key now st code msg)"
  unfolding run_enqueue_def enqueue_new_def by (intro keep) (simp add: insert_run_refines)

lemma hush_run_ops [hush]:
  "quiet (claim_next E wid now ls)" "quiet (renew_lease E i wid now ls)"
  "quiet (run_transition E i st now p)" "quiet (schedule_retry E i now delay code msg)"
  "quiet (manual_retry i now)" "quiet (run_cancel E i now)"
  "quiet (recover_stale E i safe now reason)"
  "quiet (mark_notification E i nst now inc ecode emsg)"
  "quiet (claim_next_notification now k)"
  "quiet (run_enqueue E tid req key tnow st ecode emsg)"
  unfolding claim_next_def renew_lease_def run_transition_def schedule_retry_def manual_retry_def
    run_cancel_def recover_stale_def mark_notification_def claim_next_notification_def
    run_enqueue_def enqueue_new_def insert_run_def
  by (intro hush)+

section \<open>Invariants of the table\<close>

text \<open>
  Of one row: the columns stay within their widths, counters are not negative, and a run in
  a terminal status carries no lease. Of the table: the primary key, the two unique columns and the
  foreign key.
\<close>

definition run_ok :: "run_row \<Rightarrow> bool" where
  "run_ok r \<longleftrightarrow>
     (run_terminal (r_status r) \<longrightarrow> r_lease_owner r = None)
     \<and> (r_lease_owner r = None \<longleftrightarrow> r_lease_expires_at r = None)
     \<and> 0 \<le> r_attempt r \<and> 1 \<le> r_version r \<and> 0 \<le> r_notification_attempts r
     \<and> len_opt 128 (r_last_error_code r) \<and> len_opt 4000 (r_last_error_message r)
     \<and> len_opt 255 (r_external_run_id r)"

definition runs_ok :: "db \<Rightarrow> bool" where
  "runs_ok d \<longleftrightarrow> keys_distinct r_id (db_runs d) \<and> keys_distinct r_task_id (db_runs d)
     \<and> keys_distinct r_idempotency_key (db_runs d)
     \<and> (\<forall>r\<in>set (db_runs d). run_ok r \<and> find_row t_id (r_task_id r) (db_tasks d) \<noteq> None)"

lemma run_terminal_simps [simp]:
  "run_terminal RCompleted" "run_terminal RFailed" "run_terminal RBlocked" "run_terminal RCancelled"
  "\<not> run_terminal RPending" "\<not> run_terminal RClaimed" "\<not> run_terminal RRunning"
  "\<not> run_terminal RRetryWait" "\<not> run_terminal RVerifying"
  by (simp_all add: run_terminal_def)

lemma len_opt_simps [simp]: "len_opt n None" "len_opt n (Some s) \<longleftrightarrow> py_len s \<le> n"
  by (simp_all add: len_opt_def)

lemma recovery_code_len: "py_len ''stale_run_requeued'' \<le> 128" "py_len ''stale_run_blocked'' \<le> 128"
  by (simp_all add: py_len_def is_cont_def)

lemma run_step_ok:
  assumes "run_step E r r'" "run_ok r"
  shows "run_ok r'"
  using assms
  by cases (auto simp: run_ok_def row_defs recovery_code_len split: option.splits)

lemma enqueue_row_ok: "run_ok (enqueue_row E rid tid req norm text ts st code msg)"
  by (cases code; cases msg) (simp_all add: run_ok_def enqueue_row_def)

lemma map_put_row_same:
  assumes "keys_distinct key rs" "r \<in> set rs" "key r' = key r" "g r' = g r"
  shows "map g (put_row key r' rs) = map g rs"
  using assms unfolding put_row_def update_rows_def
  by (auto simp: distinct_map inj_on_def)

lemma runs_ok_step:
  assumes "run_table E d d'" "runs_ok d"
  shows "runs_ok d'"
  using assms(1)
proof cases
  case (written r r')
  have k: "r_id r' = r_id r" "r_task_id r' = r_task_id r" "r_idempotency_key r' = r_idempotency_key r"
    using written(3) by (simp_all add: run_step_keys)
  have d: "keys_distinct r_id (db_runs d)" using assms(2) by (simp add: runs_ok_def)
  have cols: "map r_id (put_row r_id r' (db_runs d)) = map r_id (db_runs d)"
    "map r_task_id (put_row r_id r' (db_runs d)) = map r_task_id (db_runs d)"
    "map r_idempotency_key (put_row r_id r' (db_runs d)) = map r_idempotency_key (db_runs d)"
    using d written(2) k by (simp_all add: map_put_row_same)
  have "run_ok x \<and> find_row t_id (r_task_id x) (db_tasks d) \<noteq> None"
    if "x \<in> set (put_row r_id r' (db_runs d))" for x
    using put_row_mem [OF that] assms(2) written(2) k(2) run_step_ok [OF written(3)]
    by (auto simp: runs_ok_def)
  then show ?thesis using assms(2) cols by (simp add: runs_ok_def written(1))
next
  case (inserted rid tid req norm body ts st code msg)
  then show ?thesis using assms(2) enqueue_row_ok
    by (auto simp: runs_ok_def insert_run_ok_def run_by_task_def run_by_key_def find_row_None)
qed

section \<open>What a successful operation did\<close>

lemma run_event_runE:
  "write_async_run_event E ev r a p w = (Inr u, w') \<Longrightarrow> (w_db w' = w_db w \<Longrightarrow> R) \<Longrightarrow> R"
  by (blast dest: run_event_db)

lemma require_run_runE:
  assumes "require_run i w = (Inr r, w')" "find_run i w = Some r \<Longrightarrow> w' = w \<Longrightarrow> R"
  shows R
proof -
  have "find_run i w = Some r \<and> w' = w"
    using assms(1) unfolding require_run_run by (cases "find_run i w") auto
  then show R using assms(2) by blast
qed

lemma put_run_runE:
  "put_run r w = (Inr u, w') \<Longrightarrow>
   (w_db w' = (w_db w)\<lparr>db_runs := put_row r_id r (db_runs (w_db w))\<rparr> \<Longrightarrow> R) \<Longrightarrow> R"
  by (clarsimp simp: put_run_def put_runs)

lemma opt_event_runE:
  "(case x of None \<Rightarrow> retM () | Some ev \<Rightarrow> write_async_run_event E ev r a p) w = (Inr u, w') \<Longrightarrow>
   (w_db w' = w_db w \<Longrightarrow> R) \<Longrightarrow> R"
  by (cases x) (auto elim: run_event_runE retM_runE)

lemma when_event_runE:
  "whenM b (write_async_run_event E ev r a p) w = (Inr u, w') \<Longrightarrow> (w_db w' = w_db w \<Longrightarrow> R) \<Longrightarrow> R"
  by (cases b) (auto simp: whenM_def elim: run_event_runE retM_runE)

lemmas run_runE = runE require_run_runE put_run_runE run_event_runE opt_event_runE when_event_runE

text \<open>\<open>wrote r r' w w'\<close>: the operation found \<open>r\<close> and left \<open>r'\<close> in its place, and nothing else.\<close>

definition wrote :: "run_row \<Rightarrow> run_row \<Rightarrow> world \<Rightarrow> world \<Rightarrow> bool" where
  "wrote r r' w w' \<longleftrightarrow> find_run (r_id r) w = Some r \<and> r_id r' = r_id r
     \<and> w_db w' = (w_db w)\<lparr>db_runs := put_row r_id r' (db_runs (w_db w))\<rparr>"

lemma wrote_find: "wrote r r' w w' \<Longrightarrow> find_run i w' = (if i = r_id r then Some r' else find_run i w)"
  by (simp add: wrote_def find_run_def row_simps)

lemma row_ids [simp]:
  "r_id (claimed_row wid ts ex r) = r_id r" "r_id (lease_row ts ex r) = r_id r"
  "r_id (moved_row E st ts p r) = r_id r" "r_id (retry_row E ts dl code msg r) = r_id r"
  "r_id (reset_row ts r) = r_id r" "r_id (cancelled_row ts r) = r_id r"
  "r_id (recovered_row E safe ts msg r) = r_id r" "r_id (notified_row nst inc ts r) = r_id r"
  "r_id (attempted_row ts r) = r_id r"
  by (simp_all add: row_defs)

lemma row_statuses [simp]:
  "r_status (claimed_row wid ts ex r) = RClaimed" "r_status (lease_row ts ex r) = r_status r"
  "r_status (moved_row E st ts p r) = st" "r_status (retry_row E ts dl code msg r) = RRetryWait"
  "r_status (reset_row ts r) = RPending" "r_status (cancelled_row ts r) = RCancelled"
  "r_status (recovered_row E safe ts msg r) = (if safe then RPending else RBlocked)"
  "r_status (notified_row nst inc ts r) = r_status r" "r_status (attempted_row ts r) = r_status r"
  by (simp_all add: row_defs)

lemma run_transition_Inr:
  assumes "run_transition E i st now p w = (Inr r', w')"
  obtains r where "find_run i w = Some r" "st \<in> set (async_run_transitions (r_status r))"
    "r' = moved_row E st (to_utc now) p r" "wrote r r' w w'"
  using assms unfolding run_transition_def Let_def
  by (elim run_runE) (auto simp: wrote_def dest: find_run_id intro: that)

lemma renew_lease_Inr:
  assumes "renew_lease E i wid now ls w = (Inr r', w')"
  obtains r where "find_run i w = Some r" "r_lease_owner r = Some wid" "0 < ls"
    "r' = lease_row (to_utc now) (to_utc now + seconds ls) r" "wrote r r' w w'"
  using assms unfolding renew_lease_def Let_def
  by (elim run_runE) (auto simp: wrote_def dest: find_run_id intro: that)

lemma schedule_retry_Inr:
  assumes "schedule_retry E i now dl code msg w = (Inr r', w')"
  obtains r where "find_run i w = Some r" "r_status r = RRunning" "0 \<le> dl"
    "r' = retry_row E (to_utc now) dl code msg r" "wrote r r' w w'"
proof -
  have "RRetryWait \<in> set (async_run_transitions s) \<Longrightarrow> s = RRunning" for s by (cases s) auto
  with assms that show ?thesis unfolding schedule_retry_def Let_def
    by (elim run_runE) (auto simp: wrote_def dest: find_run_id)
qed

lemma manual_retry_Inr:
  assumes "manual_retry i now w = (Inr r', w')"
  obtains r where "find_run i w = Some r" "r_status r = RFailed \<or> r_status r = RBlocked"
    "r' = reset_row (to_utc now) r" "wrote r r' w w'"
  using assms unfolding manual_retry_def Let_def
  by (elim run_runE) (auto simp: wrote_def dest: find_run_id intro: that)

lemma recover_stale_Inr:
  assumes "recover_stale E i safe now reason w = (Inr r', w')"
  obtains r where "find_run i w = Some r" "r_status r \<in> {RClaimed, RRunning, RVerifying}"
    "r' = recovered_row E safe (to_utc now) reason r" "wrote r r' w w'"
  using assms unfolding recover_stale_def Let_def
  by (elim run_runE) (auto simp: wrote_def dest: find_run_id intro: that)

lemma mark_notification_Inr:
  assumes "mark_notification E i st now inc code msg w = (Inr r', w')"
  obtains r where "find_run i w = Some r" "r' = notified_row st inc (to_utc now) r" "wrote r r' w w'"
  using assms unfolding mark_notification_def Let_def
  by (elim run_runE) (auto simp: wrote_def dest: find_run_id intro: that)

lemma run_cancel_run:
  "run_cancel E i now w =
    (case find_run i w of
       None \<Rightarrow> (Inl (AsyncRunNotFound (''Async run not found: '' @ i)), w)
     | Some r \<Rightarrow>
         if r_status r = RCancelled then (Inr r, w)
         else if r_status r = RPending \<or> r_status r = RRetryWait
         then bindM (put_run (cancelled_row (to_utc now) r)) (\<lambda>_.
              bindM (write_async_run_event E ''async_run.cancelled'' (cancelled_row (to_utc now) r) None [])
                (\<lambda>_. retM (cancelled_row (to_utc now) r))) w
         else (Inl (ValueError (cannot_cancel (r_status r))), w))"
proof (cases "find_run i w")
  case None
  then have "require_run i w = (Inl (AsyncRunNotFound (''Async run not found: '' @ i)), w)"
    by (simp add: require_run_run)
  with None show ?thesis unfolding run_cancel_def by (simp add: bindM_err)
next
  case (Some r)
  then have "require_run i w = (Inr r, w)" by (simp add: require_run_run)
  note start = bindM_ok [where m = "require_run i" and w = w, OF this]
  have "getM (find_run i) w = (Inr (Some r), w)" using Some by (simp add: getM_def)
  note get = bindM_ok [where m = "getM (find_run i)" and w = w, OF this]
  have guard: "bindM (guardM True e) f w = f () w" "bindM (guardM False e) f w = (Inl e, w)"
    for e and f :: "unit \<Rightarrow> run_row M"
    by (simp_all add: guardM_def bindM_run prim_runs)
  consider "r_status r = RCancelled" | "r_status r \<noteq> RCancelled" "r_status r = RPending \<or> r_status r = RRetryWait"
    | "r_status r \<noteq> RCancelled" "\<not> (r_status r = RPending \<or> r_status r = RRetryWait)" by blast
  then show ?thesis
    unfolding run_cancel_def start Some option.case Let_def
    by cases (simp_all only: simp_thms if_True if_False guard get prim_runs option.case)
qed

lemma run_cancel_Inr:
  assumes "run_cancel E i now w = (Inr r', w')"
  obtains (idle) "find_run i w = Some r'" "r_status r' = RCancelled" "w' = w"
    | (done_now) r where "find_run i w = Some r" "r_status r = RPending \<or> r_status r = RRetryWait"
        "r' = cancelled_row (to_utc now) r" "wrote r r' w w'"
proof (cases "find_run i w")
  case None
  from assms show ?thesis by (simp only: run_cancel_run None option.case prod.inject sum.distinct simp_thms)
next
  case (Some r)
  note run = assms [unfolded run_cancel_run Some option.case]
  consider "r_status r = RCancelled" | "r_status r \<noteq> RCancelled" "r_status r = RPending \<or> r_status r = RRetryWait"
    | "r_status r \<noteq> RCancelled" "\<not> (r_status r = RPending \<or> r_status r = RRetryWait)" by blast
  then show ?thesis
  proof cases
    case 1
    with run have "r' = r \<and> w' = w" by (simp only: simp_thms if_True prod.inject sum.inject)
    with 1 Some idle show ?thesis by blast
  next
    case 2
    from run have "bindM (put_run (cancelled_row (to_utc now) r)) (\<lambda>_.
        bindM (write_async_run_event E ''async_run.cancelled'' (cancelled_row (to_utc now) r) None [])
          (\<lambda>_. retM (cancelled_row (to_utc now) r))) w = (Inr r', w')"
      by (simp only: 2 if_True if_False)
    then have "r' = cancelled_row (to_utc now) r \<and> wrote r r' w w'"
      using Some by (elim run_runE) (auto simp: wrote_def dest: find_run_id)
    with Some 2 done_now show ?thesis by blast
  next
    case 3
    with run show ?thesis by (simp only: if_False prod.inject sum.distinct simp_thms)
  qed
qed

lemma claim_next_Inr:
  assumes "claim_next E wid now ls w = (Inr x, w')"
  obtains (none) "x = None" "w' = w" "claim_candidate (to_utc now) (w_db w) = None"
    | (some) r where "x = Some (claimed_row wid (to_utc now) (to_utc now + seconds ls) r)"
        "claim_candidate (to_utc now) (w_db w) = Some r" "0 < ls" "r \<in> set (db_runs (w_db w))"
        "w_db w' = (w_db w)\<lparr>db_runs := put_row r_id
           (claimed_row wid (to_utc now) (to_utc now + seconds ls) r) (db_runs (w_db w))\<rparr>"
proof (cases "claim_candidate (to_utc now) (w_db w)")
  case None
  with assms have "x = None \<and> w' = w" unfolding claim_next_def Let_def
    by (elim run_runE) (simp_all, elim run_runE, simp)
  with None none show ?thesis by blast
next
  case (Some r)
  then obtain t where m: "r \<in> set (db_runs (w_db w))" by (rule claim_candidate_Some)
  let ?r = "claimed_row wid (to_utc now) (to_utc now + seconds ls) r"
  from assms Some have "0 < ls \<and> x = Some ?r \<and>
      w_db w' = (w_db w)\<lparr>db_runs := put_row r_id ?r (db_runs (w_db w))\<rparr>"
    unfolding claim_next_def Let_def by (elim run_runE) (simp_all, elim run_runE, simp)
  with Some some m show ?thesis by blast
qed

text \<open>\<open>find_run\<close> after a write of a row of the table whose keys are distinct.\<close>

lemma wrote_mem:
  assumes "runs_ok (w_db w)" "r \<in> set (db_runs (w_db w))" "r_id r' = r_id r"
    "w_db w' = (w_db w)\<lparr>db_runs := put_row r_id r' (db_runs (w_db w))\<rparr>"
  shows "wrote r r' w w'"
  using assms by (simp add: wrote_def find_run_def runs_ok_def find_row_distinct)

lemma claim_next_wrote:
  assumes "claim_next E wid now ls w = (Inr (Some r'), w')" "runs_ok (w_db w)"
  obtains r where "claim_candidate (to_utc now) (w_db w) = Some r"
    "r' = claimed_row wid (to_utc now) (to_utc now + seconds ls) r" "wrote r r' w w'"
proof (rule claim_next_Inr [OF assms(1)])
  fix r assume a: "claim_candidate (to_utc now) (w_db w) = Some r" "r \<in> set (db_runs (w_db w))"
    "w_db w' = (w_db w)\<lparr>db_runs := put_row r_id
           (claimed_row wid (to_utc now) (to_utc now + seconds ls) r) (db_runs (w_db w))\<rparr>"
    and x: "Some r' = Some (claimed_row wid (to_utc now) (to_utc now + seconds ls) r)"
  from x have r': "r' = claimed_row wid (to_utc now) (to_utc now + seconds ls) r" by (rule option.inject [THEN iffD1])
  from a(3) have "wrote r r' w w'" unfolding r' by (intro wrote_mem [OF assms(2) a(2)]) simp_all
  with a(1) r' that show ?thesis by blast
qed simp

text \<open>Two claims in a row never hand out the same run.\<close>

lemma claims_disjoint:
  assumes "claim_next E wid now ls w = (Inr (Some r1), w1)" "runs_ok (w_db w)"
    "claim_next E wid' now' ls' w1 = (Inr (Some r2), w2)"
  shows "r_id r1 \<noteq> r_id r2"
proof -
  from assms(1,2) obtain r where r: "r1 = claimed_row wid (to_utc now) (to_utc now + seconds ls) r"
    "wrote r r1 w w1" by (rule claim_next_wrote)
  from withinD [OF claim_next_refines assms(1)] assms(2) have "runs_ok (w_db w1)"
    by (induction rule: rtranclp_induct) (auto intro: runs_ok_step)
  with assms(3) obtain s where s: "claim_candidate (to_utc now') (w_db w1) = Some s"
    "r2 = claimed_row wid' (to_utc now') (to_utc now' + seconds ls') s" "wrote s r2 w1 w2"
    by (rule claim_next_wrote)
  from s(1) have "claimable (to_utc now') s" by (rule claim_candidate_Some)
  then have "r_status s \<noteq> RClaimed" unfolding claimable_def by (elim conjE disjE) simp_all
  moreover have "find_run (r_id s) w1 = Some s" using s(3) unfolding wrote_def by blast
  moreover have "find_run (r_id r1) w1 = Some r1"
    using wrote_find [OF r(2), of "r_id r1"] r by (simp only: row_ids if_True refl)
  moreover have "r_status r1 = RClaimed" using r(1) by simp
  moreover have "r_id r2 = r_id s" using s(2) by simp
  ultimately show ?thesis by (metis option.inject)
qed

end
