(* ===== verification/Approvals.thy ===== *)
theory Approvals
  imports World
begin

text \<open>
  \<open>app/approvals/service.py\<close>: one-time approvals. A row is pending until \<open>resolve\<close> matches
  its workflow, task, action hash and expiry in a single conditional \<open>UPDATE\<close>; the identifier
  and the nonce come from \<open>secrets.token_hex\<close>.
\<close>

definition action_hash :: "env \<Rightarrow> string \<Rightarrow> string" where
  "action_hash E action = e_sha256 E action"

definition approval_row_of ::
  "env \<Rightarrow> string \<Rightarrow> string \<Rightarrow> int \<Rightarrow> string \<Rightarrow> string \<Rightarrow> string \<Rightarrow> int \<Rightarrow> string
   \<Rightarrow> (string \<times> json) list \<Rightarrow> string \<Rightarrow> int \<Rightarrow> approval_row" where
  "approval_row_of E i nonce now wid tid action risk reason preview scope ttl =
     \<lparr>ap_id = i, ap_workflow_id = wid, ap_task_id = tid, ap_action = action,
      ap_action_hash = action_hash E action, ap_risk_level = risk, ap_scope = scope,
      ap_reason = reason, ap_preview = preview, ap_status = ApPending, ap_nonce = nonce,
      ap_expires_at = now + seconds ttl, ap_requested_at = now,
      ap_resolved_at = None, ap_resolved_by = None\<rparr>"

definition insert_approval_ok :: "approval_row \<Rightarrow> db \<Rightarrow> bool" where
  "insert_approval_ok a db \<longleftrightarrow> find_row ap_id (ap_id a) (db_approvals db) = None
     \<and> find_row wf_id (ap_workflow_id a) (db_workflows db) \<noteq> None
     \<and> find_row t_id (ap_task_id a) (db_tasks db) \<noteq> None"

definition insert_approval :: "approval_row \<Rightarrow> unit M" where
  "insert_approval a =
     bindM (getM (\<lambda>w. insert_approval_ok a (w_db w))) (\<lambda>ok.
     bindM (guardM ok IntegrityError) (\<lambda>_.
     mod_db (\<lambda>db. db\<lparr>db_approvals := db_approvals db @ [a]\<rparr>)))"

definition approval_create ::
  "env \<Rightarrow> string \<Rightarrow> string \<Rightarrow> string \<Rightarrow> int \<Rightarrow> string \<Rightarrow> (string \<times> json) list \<Rightarrow> string \<Rightarrow> int
   \<Rightarrow> approval_row M" where
  "approval_create E wid tid action risk reason preview scope ttl =
     bindM (guardM (0 < ttl) (ValueError ''ttl_seconds must be positive'')) (\<lambda>_.
     bindM (nowM E) (\<lambda>now.
     bindM (uuidM E) (\<lambda>i.
     bindM (uuidM E) (\<lambda>nonce.
     let a = approval_row_of E i nonce now wid tid action risk reason preview scope ttl in
     bindM (insert_approval a) (\<lambda>_. retM a)))))"

text \<open>The \<open>WHERE\<close> clause of \<open>resolve\<close>.\<close>

definition resolvable :: "string \<Rightarrow> string \<Rightarrow> string \<Rightarrow> int \<Rightarrow> approval_row \<Rightarrow> bool" where
  "resolvable wid tid hash now a \<longleftrightarrow>
     ap_workflow_id a = wid \<and> ap_task_id a = tid \<and> ap_action_hash a = hash
     \<and> ap_status a = ApPending \<and> now < ap_expires_at a"

definition resolved_row :: "bool \<Rightarrow> int \<Rightarrow> string \<Rightarrow> approval_row \<Rightarrow> approval_row" where
  "resolved_row approved now by a =
     a\<lparr>ap_status := (if approved then ApApproved else ApDenied), ap_resolved_at := Some now,
       ap_resolved_by := Some by\<rparr>"

definition put_approval :: "approval_row \<Rightarrow> unit M" where
  "put_approval a = mod_db (\<lambda>d. d\<lparr>db_approvals := put_row ap_id a (db_approvals d)\<rparr>)"

definition approval_resolve ::
  "env \<Rightarrow> string \<Rightarrow> string \<Rightarrow> string \<Rightarrow> string \<Rightarrow> string \<Rightarrow> bool \<Rightarrow> approval_row M" where
  "approval_resolve E i wid tid action by approved =
     bindM (nowM E) (\<lambda>now.
     bindM (getM (find_approval i)) (\<lambda>found.
     case found of
       None \<Rightarrow> raiseM (ApprovalConflict ''Approval identity, action, status, or expiry mismatch'')
     | Some a \<Rightarrow>
         bindM (guardM (resolvable wid tid (action_hash E action) now a)
           (ApprovalConflict ''Approval identity, action, status, or expiry mismatch'')) (\<lambda>_.
         let a' = resolved_row approved now by a in
         bindM (put_approval a') (\<lambda>_. retM a'))))"

section \<open>The approval table as a transition system\<close>

inductive approval_step :: "approval_row \<Rightarrow> approval_row \<Rightarrow> bool" where
  resolve: "ap_status a = ApPending \<Longrightarrow> now < ap_expires_at a \<Longrightarrow>
    approval_step a (resolved_row approved now by a)"

inductive approval_table :: "env \<Rightarrow> db \<Rightarrow> db \<Rightarrow> bool" for E where
  resolved: "a \<in> set (db_approvals d) \<Longrightarrow> approval_step a a' \<Longrightarrow>
    approval_table E d (d\<lparr>db_approvals := put_row ap_id a' (db_approvals d)\<rparr>)"
| created: "0 < ttl \<Longrightarrow>
    insert_approval_ok (approval_row_of E i nonce now wid tid action risk reason preview scope ttl) d \<Longrightarrow>
    approval_table E d (d\<lparr>db_approvals := db_approvals d
      @ [approval_row_of E i nonce now wid tid action risk reason preview scope ttl]\<rparr>)"

inductive_cases approval_stepE: "approval_step a a'"

lemma approval_step_final: "ap_status a \<noteq> ApPending \<Longrightarrow> \<not> approval_step a a'"
  by (auto elim: approval_stepE)

lemma approval_step_keys:
  "approval_step a a' \<Longrightarrow> ap_id a' = ap_id a \<and> ap_workflow_id a' = ap_workflow_id a
     \<and> ap_task_id a' = ap_task_id a \<and> ap_action_hash a' = ap_action_hash a
     \<and> ap_expires_at a' = ap_expires_at a"
  by (auto elim!: approval_stepE simp: resolved_row_def)

text \<open>
  An approval that was resolved carries its resolution, and was resolved before it expired.
\<close>

definition approval_ok :: "approval_row \<Rightarrow> bool" where
  "approval_ok a \<longleftrightarrow> (ap_status a = ApPending \<longleftrightarrow> ap_resolved_at a = None)
     \<and> (ap_resolved_at a = None \<longleftrightarrow> ap_resolved_by a = None)
     \<and> (case ap_resolved_at a of None \<Rightarrow> True | Some t \<Rightarrow> t < ap_expires_at a)
     \<and> ap_requested_at a < ap_expires_at a"

definition approvals_ok :: "db \<Rightarrow> bool" where
  "approvals_ok d \<longleftrightarrow> keys_distinct ap_id (db_approvals d) \<and> (\<forall>a\<in>set (db_approvals d). approval_ok a)"

lemma approval_step_ok: "approval_step a a' \<Longrightarrow> approval_ok a \<Longrightarrow> approval_ok a'"
  by (auto elim!: approval_stepE simp: resolved_row_def approval_ok_def split: if_splits)

lemma approvals_ok_step:
  assumes "approval_table E d d'" "approvals_ok d"
  shows "approvals_ok d'"
  using assms(1)
proof cases
  case (resolved a a')
  then show ?thesis
    using assms(2) approval_step_ok [OF resolved(3)]
    by (auto simp: approvals_ok_def row_simps dest: put_row_mem)
next
  case (created ttl i nonce now wid tid action risk reason preview scope)
  then show ?thesis
    using assms(2)
    by (auto simp: approvals_ok_def insert_approval_ok_def find_row_None approval_ok_def approval_row_of_def)
qed

section \<open>The operations refine the table\<close>

lemma insert_approval_refines:
  "0 < ttl \<Longrightarrow> within (approval_table E)
     (insert_approval (approval_row_of E i nonce now wid tid action risk reason preview scope ttl))"
  unfolding insert_approval_def
  by (intro within_getM guarded_run) (auto simp: put_runs intro!: r_into_rtranclp approval_table.created)

lemma approval_create_refines:
  "within (approval_table E) (approval_create E wid tid action risk reason preview scope ttl)"
  unfolding approval_create_def Let_def
  by (intro within_guard keep insert_approval_refines)

lemma put_approval_step:
  assumes "find_approval i w = Some a" "approval_step a a'" "\<And>R. within R (f ())"
  shows "(approval_table E)\<^sup>*\<^sup>* (w_db w) (w_db (snd (bindM (put_approval a') f w)))"
proof -
  let ?d = "(w_db w)\<lparr>db_approvals := put_row ap_id a' (db_approvals (w_db w))\<rparr>"
  have "approval_table E (w_db w) ?d"
    using assms(1,2) by (auto simp: find_approval_def dest: find_row_Some intro: approval_table.resolved)
  moreover have "(approval_table E)\<^sup>*\<^sup>* (w_db (w\<lparr>w_db := ?d\<rparr>)) (w_db (snd (f () (w\<lparr>w_db := ?d\<rparr>))))"
    using assms(3) [of "approval_table E"] unfolding within_def by (rule spec)
  ultimately show ?thesis by (simp add: put_approval_def put_runs bindM_run)
qed

lemma approval_resolve_refines:
  "within (approval_table E) (approval_resolve E i wid tid action by approved)"
  unfolding approval_resolve_def Let_def
proof (rule keep_bind [OF keep_prims(6)], intro within_getM_option step_done guarded_run)
  fix now a and w :: world
  assume a: "find_approval i w = Some a" and r: "resolvable wid tid (action_hash E action) now a"
  from r have "approval_step a (resolved_row approved now by a)"
    by (intro approval_step.resolve) (simp_all add: resolvable_def)
  then show "(approval_table E)\<^sup>*\<^sup>* (w_db w) (w_db (snd (bindM (put_approval (resolved_row approved now by a))
      (\<lambda>_. retM (resolved_row approved now by a)) w)))"
    using a by (intro put_approval_step keep)
qed

lemma hush_approvals [hush]:
  "quiet (approval_create E wid tid action risk reason preview scope ttl)"
  "quiet (approval_resolve E i wid tid action by approved)"
  unfolding approval_create_def approval_resolve_def insert_approval_def put_approval_def
  by (intro hush)+

section \<open>What a resolution did\<close>

lemma put_approval_runE:
  "put_approval a w = (Inr u, w') \<Longrightarrow>
   (w_db w' = (w_db w)\<lparr>db_approvals := put_row ap_id a (db_approvals (w_db w))\<rparr> \<Longrightarrow> R) \<Longrightarrow> R"
  by (clarsimp simp: put_approval_def put_runs)

lemma find_approval_id: "find_approval i w = Some a \<Longrightarrow> ap_id a = i"
  by (auto simp: find_approval_def dest: find_row_Some)

lemma approval_resolve_Inr:
  assumes "approval_resolve E i wid tid action by approved w = (Inr a', w')"
  obtains a now where "find_approval i w = Some a" "resolvable wid tid (action_hash E action) now a"
    "now = to_utc (e_clock E (w_ticks w))" "a' = resolved_row approved now by a"
    "w_db w' = (w_db w)\<lparr>db_approvals := put_row ap_id a' (db_approvals (w_db w))\<rparr>"
proof (cases "find_approval i w")
  case None
  moreover have "find_approval i (w\<lparr>w_ticks := n\<rparr>) = find_approval i w" for n
    by (simp add: find_approval_def)
  ultimately show ?thesis using assms
    by (simp add: approval_resolve_def bindM_run nowM_def prim_runs)
next
  case (Some a)
  have f: "find_approval i (w\<lparr>w_ticks := n\<rparr>) = Some a" for n
    using Some by (simp add: find_approval_def)
  from assms show ?thesis
    unfolding approval_resolve_def Let_def
    by (elim runE put_approval_runE) (simp add: f, elim runE put_approval_runE, rule that [OF Some], auto)
qed

text \<open>A resolved approval is never resolved again.\<close>

lemma resolved_once:
  assumes "approval_resolve E i wid tid action by approved w = (Inr a', w')"
  shows "approval_resolve E i wid' tid' action' by' approved' w'
    = (Inl (ApprovalConflict ''Approval identity, action, status, or expiry mismatch''),
       w'\<lparr>w_ticks := Suc (w_ticks w')\<rparr>)"
proof -
  obtain a now where a: "find_approval i w = Some a" "a' = resolved_row approved now by a"
    "w_db w' = (w_db w)\<lparr>db_approvals := put_row ap_id a' (db_approvals (w_db w))\<rparr>"
    using assms by (rule approval_resolve_Inr)
  have "ap_id a' = i" using a by (simp add: resolved_row_def find_approval_id)
  then have "find_approval i (w'\<lparr>w_ticks := n\<rparr>) = Some a'" for n
    using a by (simp add: find_approval_def row_simps)
  moreover have "\<not> resolvable wd td h n a'" for wd td h n
    by (simp add: a(2) resolved_row_def resolvable_def)
  ultimately show ?thesis
    by (simp add: approval_resolve_def bindM_run nowM_def prim_runs)
qed

end
