(* ===== verification/Policy.thy ===== *)
theory Policy
  imports AsyncModels
begin

text \<open>
  The deterministic policy: \<open>app/policy/path_scope.py\<close>, \<open>app/policy/models.py\<close>,
  \<open>app/policy/engine.py\<close> and the gate of \<open>app/async_tasks/policy.py\<close>.

  A \<open>pathlib\<close> path is its root text and its parts. \<open>expanduser\<close> and
  \<open>resolve(strict=False)\<close> depend on the environment and the file system: they are fields of
  \<open>fs\<close> and may raise (\<open>RuntimeError\<close>: unknown home directory, symlink loop).
\<close>

section \<open>Paths\<close>

record path =
  p_root :: string
  p_parts :: "string list"

text \<open>\<open>Path(text)\<close>: empty and \<open>.\<close> parts vanish; exactly two leading slashes are kept.\<close>

definition path_of :: "string \<Rightarrow> path" where
  "path_of s =
     \<lparr>p_root = (if starts_with ''//'' s \<and> \<not> starts_with ''///'' s then ''//''
                else if starts_with ''/'' s then ''/'' else []),
      p_parts = filter (\<lambda>p. p \<noteq> [] \<and> p \<noteq> ''.'') (split_on CHR ''/'' s)\<rparr>"

definition path_str :: "path \<Rightarrow> string" where
  "path_str p = (if p_root p = [] \<and> p_parts p = [] then ''.''
                 else p_root p @ py_join ''/'' (p_parts p))"

definition is_absolute :: "path \<Rightarrow> bool" where
  "is_absolute p \<longleftrightarrow> p_root p \<noteq> []"

definition path_join :: "path \<Rightarrow> path \<Rightarrow> path" where
  "path_join a b = (if is_absolute b then b else a\<lparr>p_parts := p_parts a @ p_parts b\<rparr>)"

definition is_relative_to :: "path \<Rightarrow> path \<Rightarrow> bool" where
  "is_relative_to p r \<longleftrightarrow> p_root p = p_root r \<and> take (length (p_parts r)) (p_parts p) = p_parts r"

record fs =
  fs_expanduser :: "path \<Rightarrow> path res"
  fs_resolve :: "path \<Rightarrow> path res"

definition is_ascii_letter :: "char \<Rightarrow> bool" where
  "is_ascii_letter c \<longleftrightarrow> (65 \<le> (of_char c :: nat) \<and> (of_char c :: nat) \<le> 90)
     \<or> (97 \<le> (of_char c :: nat) \<and> (of_char c :: nat) \<le> 122)"

definition windows_absolute :: "string \<Rightarrow> bool" where
  "windows_absolute s = (case s of
      c # d # e # _ \<Rightarrow> is_ascii_letter c \<and> d = CHR '':'' \<and> (e = CHR 0x5C \<or> e = CHR ''/'')
    | _ \<Rightarrow> False)"

section \<open>Workspace scope\<close>

record path_scope_result =
  ps_allowed :: bool
  ps_rule :: string
  ps_reason :: string
  ps_path :: "path option"

definition refuse_path :: "string \<Rightarrow> string \<Rightarrow> path option \<Rightarrow> path_scope_result" where
  "refuse_path rule reason p = \<lparr>ps_allowed = False, ps_rule = rule, ps_reason = reason, ps_path = p\<rparr>"

text \<open>\<open>WorkspacePathPolicy.__init__\<close>: the normalized roots.\<close>

definition normalize_root :: "fs \<Rightarrow> path \<Rightarrow> path res" where
  "normalize_root F r =
     bindE (ensureE (\<not> windows_absolute (path_str r))
       (ValueError ''allowed roots must use WSL paths such as /mnt/f/AIOS'')) (\<lambda>_.
     bindE (fs_expanduser F r) (\<lambda>e.
     bindE (ensureE (is_absolute e) (ValueError ''allowed roots must be absolute'')) (\<lambda>_.
     fs_resolve F e)))"

definition workspace_path_policy :: "fs \<Rightarrow> path list \<Rightarrow> path list res" where
  "workspace_path_policy F roots =
     bindE (ensureE (roots \<noteq> []) (ValueError ''at least one allowed root is required'')) (\<lambda>_.
     mapE (normalize_root F) roots)"

definition under_allowed_root :: "path list \<Rightarrow> path \<Rightarrow> bool" where
  "under_allowed_root roots p \<longleftrightarrow> list_ex (is_relative_to p) roots"

text \<open>\<open>_normalize_workspace\<close> returns a refusal, no workspace, or the normalized workspace.\<close>

definition normalize_workspace ::
  "fs \<Rightarrow> path list \<Rightarrow> path option \<Rightarrow> (path_scope_result + path option) res" where
  "normalize_workspace F roots ws = (case ws of
      None \<Rightarrow> Inr (Inr None)
    | Some w \<Rightarrow>
        if windows_absolute (path_str w)
        then Inr (Inl (refuse_path ''path.windows_workspace_format''
               ''Workspace root must use an absolute WSL path.'' None))
        else bindE (fs_expanduser F w) (\<lambda>e.
          if \<not> is_absolute e
          then Inr (Inl (refuse_path ''path.relative_workspace'' ''Workspace root must be absolute.'' None))
          else bindE (fs_resolve F e) (\<lambda>n.
            if \<not> under_allowed_root roots n
            then Inr (Inl (refuse_path ''path.workspace_outside_allowlist''
                   ''Workspace root is outside configured allowed roots.'' (Some n)))
            else Inr (Inr (Some n)))))"

definition scope_decision :: "path list \<Rightarrow> path option \<Rightarrow> path \<Rightarrow> path_scope_result" where
  "scope_decision roots ws target =
     (if (case ws of None \<Rightarrow> False | Some w \<Rightarrow> \<not> is_relative_to target w)
      then refuse_path ''path.outside_workspace''
             ''Target path resolves outside the selected workspace.'' (Some target)
      else if \<not> under_allowed_root roots target
      then refuse_path ''path.outside_allowlist''
             ''Target path resolves outside configured allowed roots.'' (Some target)
      else \<lparr>ps_allowed = True, ps_rule = ''path.allowed'',
            ps_reason = ''Target path is inside the configured workspace scope.'',
            ps_path = Some target\<rparr>)"

definition path_check :: "fs \<Rightarrow> path list \<Rightarrow> path \<Rightarrow> path option \<Rightarrow> path_scope_result res" where
  "path_check F roots target workspace =
     (if windows_absolute (path_str target)
      then Inr (refuse_path ''path.windows_format''
             ''Use an absolute WSL path such as /mnt/f/AIOS/project.'' None)
      else bindE (normalize_workspace F roots workspace) (\<lambda>nw.
        case nw of Inl refusal \<Rightarrow> Inr refusal
        | Inr ws \<Rightarrow>
            bindE (fs_expanduser F target) (\<lambda>e.
            case (if is_absolute e then Some e
                  else map_option (\<lambda>w. path_join w e) ws) of
              None \<Rightarrow> Inr (refuse_path ''path.relative_without_workspace''
                       ''Relative target path requires an absolute workspace root.'' None)
            | Some candidate \<Rightarrow>
                bindE (fs_resolve F candidate) (\<lambda>t. Inr (scope_decision roots ws t)))))"

lemma refuse_path_simps [simp]:
  "ps_allowed (refuse_path rule reason p) = False" "ps_path (refuse_path rule reason p) = p"
  "ps_rule (refuse_path rule reason p) = rule" "ps_reason (refuse_path rule reason p) = reason"
  by (simp_all add: refuse_path_def)

lemma under_allowed_root_iff: "under_allowed_root roots p \<longleftrightarrow> (\<exists>r\<in>set roots. is_relative_to p r)"
  by (auto simp: under_allowed_root_def list_ex_iff)

lemma scope_decision_allowed:
  "ps_allowed (scope_decision roots ws t) \<longleftrightarrow>
     (\<forall>w. ws = Some w \<longrightarrow> is_relative_to t w) \<and> under_allowed_root roots t"
  by (auto simp: scope_decision_def split: option.splits)

lemma scope_decision_path: "ps_path (scope_decision roots ws t) = Some t"
  by (simp add: scope_decision_def)

lemma normalize_workspace_refusal:
  "normalize_workspace F roots ws = Inr (Inl r) \<Longrightarrow> \<not> ps_allowed r"
  by (auto simp: normalize_workspace_def bindE_Inr_iff split: option.splits if_splits)

lemma normalize_workspace_inside:
  "normalize_workspace F roots ws = Inr (Inr (Some w)) \<Longrightarrow> under_allowed_root roots w \<and> ws \<noteq> None"
  by (auto simp: normalize_workspace_def bindE_Inr_iff split: option.splits if_splits)

lemma normalize_workspace_none:
  "normalize_workspace F roots ws = Inr (Inr None) \<Longrightarrow> ws = None"
  by (auto simp: normalize_workspace_def bindE_Inr_iff split: option.splits if_splits)

lemma path_check_cases:
  assumes "path_check F roots target workspace = Inr res"
  obtains (refused) "\<not> ps_allowed res"
    | (decided) ws t where "normalize_workspace F roots workspace = Inr (Inr ws)"
        "res = scope_decision roots ws t"
proof (cases "windows_absolute (path_str target)")
  case True
  with assms refused show ?thesis by (auto simp: path_check_def)
next
  case False
  with assms obtain nw where nw: "normalize_workspace F roots workspace = Inr nw"
    and k: "(case nw of Inl refusal \<Rightarrow> Inr refusal
        | Inr ws \<Rightarrow> bindE (fs_expanduser F target) (\<lambda>e.
            case (if is_absolute e then Some e else map_option (\<lambda>w. path_join w e) ws) of
              None \<Rightarrow> Inr (refuse_path ''path.relative_without_workspace''
                       ''Relative target path requires an absolute workspace root.'' None)
            | Some candidate \<Rightarrow> bindE (fs_resolve F candidate) (\<lambda>t. Inr (scope_decision roots ws t))))
      = Inr res"
    unfolding path_check_def by (auto simp: bindE_Inr_iff)
  show ?thesis
  proof (cases nw)
    case (Inl r)
    with nw k refused show ?thesis by (auto dest: normalize_workspace_refusal)
  next
    case (Inr ws)
    with k obtain e where "(case (if is_absolute e then Some e else map_option (\<lambda>w. path_join w e) ws) of
        None \<Rightarrow> Inr (refuse_path ''path.relative_without_workspace''
                 ''Relative target path requires an absolute workspace root.'' None)
      | Some candidate \<Rightarrow> bindE (fs_resolve F candidate) (\<lambda>t. Inr (scope_decision roots ws t))) = Inr res"
      by (auto simp: bindE_Inr_iff)
    then consider "res = refuse_path ''path.relative_without_workspace''
                 ''Relative target path requires an absolute workspace root.'' None"
      | t where "res = scope_decision roots ws t"
      by (cases "if is_absolute e then Some e else map_option (\<lambda>w. path_join w e) ws")
         (auto simp: bindE_Inr_iff)
    then show ?thesis using refused decided nw Inr by cases auto
  qed
qed

text \<open>An allowed target is inside a configured root and inside the workspace, which is inside one too.\<close>

lemma path_check_allowed:
  assumes "path_check F roots target workspace = Inr res" "ps_allowed res"
  obtains t where "ps_path res = Some t" "under_allowed_root roots t"
    "workspace = None \<or> (\<exists>w. normalize_workspace F roots workspace = Inr (Inr (Some w))
       \<and> is_relative_to t w \<and> under_allowed_root roots w)"
  using assms(1)
proof (cases rule: path_check_cases)
  case refused
  with assms(2) show ?thesis by simp
next
  case (decided ws t)
  with assms(2) have t: "\<forall>w. ws = Some w \<longrightarrow> is_relative_to t w" "under_allowed_root roots t"
    by (simp_all add: scope_decision_allowed)
  show ?thesis
  proof (rule that)
    show "ps_path res = Some t" using decided(2) by (simp add: scope_decision_path)
    show "under_allowed_root roots t" by (rule t(2))
    show "workspace = None \<or> (\<exists>w. normalize_workspace F roots workspace = Inr (Inr (Some w))
       \<and> is_relative_to t w \<and> under_allowed_root roots w)"
      using t(1) decided(1) normalize_workspace_none normalize_workspace_inside by (cases ws) blast+
  qed
qed

section \<open>Risk levels and actions\<close>

datatype risk_level = ReadOnly | SafeWrite | Sensitive | HighRisk | Forbidden

fun risk_num :: "risk_level \<Rightarrow> int" where
  "risk_num ReadOnly = 0"
| "risk_num SafeWrite = 1"
| "risk_num Sensitive = 2"
| "risk_num HighRisk = 3"
| "risk_num Forbidden = 4"

lemma risk_num_inj: "risk_num a = risk_num b \<longleftrightarrow> a = b"
  by (cases a; cases b) simp_all

instantiation risk_level :: linorder
begin

definition less_eq_risk_level :: "risk_level \<Rightarrow> risk_level \<Rightarrow> bool" where
  "less_eq_risk_level a b \<longleftrightarrow> risk_num a \<le> risk_num b"

definition less_risk_level :: "risk_level \<Rightarrow> risk_level \<Rightarrow> bool" where
  "less_risk_level a b \<longleftrightarrow> risk_num a < risk_num b"

instance
  by standard (auto simp: less_eq_risk_level_def less_risk_level_def risk_num_inj)

end

lemma risk_bounds [simp]: "ReadOnly \<le> r" "r \<le> Forbidden" "Forbidden \<le> r \<longleftrightarrow> r = Forbidden"
  "r \<le> ReadOnly \<longleftrightarrow> r = ReadOnly"
  by (cases r; simp add: less_eq_risk_level_def)+

record policy_action =
  pa_name :: string
  pa_declared :: "risk_level option"
  pa_target :: "path option"
  pa_workspace :: "path option"
  pa_destructive :: bool
  pa_modifies_runtime :: bool
  pa_installs_dependencies :: bool
  pa_changes_schema :: bool
  pa_uses_quota :: bool
  pa_external_side_effect :: bool
  pa_sends_data_externally :: bool
  pa_incurs_cost :: bool
  pa_changes_permissions :: bool
  pa_deploys_or_publishes :: bool
  pa_bypasses_security :: bool
  pa_disables_audit :: bool
  pa_requests_self_approval :: bool
  pa_requests_privilege_escalation :: bool
  pa_exposes_secrets :: bool

datatype decision_kind = Allow | RequireApproval | Deny | Escalate

datatype approval_scope = SingleAction | WorkflowScope | SessionScope

record policy_decision =
  pd_kind :: decision_kind
  pd_risk :: risk_level
  pd_rule :: string
  pd_reason :: string
  pd_scope :: "approval_scope option"
  pd_path :: "path option"

definition action_risk_catalog :: "(string \<times> risk_level) list" where
  "action_risk_catalog =
    [(''read_file'', ReadOnly), (''read_log'', ReadOnly), (''view_status'', ReadOnly),
     (''web_search_read'', ReadOnly), (''compose_visual_prompt'', ReadOnly),
     (''generate_visual_image'', ReadOnly), (''summarize_document'', ReadOnly),
     (''analyze_repository'', ReadOnly), (''search_memory'', ReadOnly),
     (''create_file'', SafeWrite), (''edit_file_with_backup'', SafeWrite),
     (''create_plan'', SafeWrite), (''create_draft'', SafeWrite), (''run_tests'', SafeWrite),
     (''create_local_branch'', SafeWrite),
     (''commit_git'', Sensitive), (''restart_service'', Sensitive),
     (''modify_runtime_config'', Sensitive), (''install_package'', Sensitive),
     (''overwrite_critical_file'', Sensitive), (''alter_database_schema'', Sensitive),
     (''quota_api_call'', Sensitive),
     (''delete_data'', HighRisk), (''push_git'', HighRisk), (''merge_git'', HighRisk),
     (''deploy'', HighRisk), (''publish'', HighRisk), (''send_email'', HighRisk),
     (''send_external_data'', HighRisk), (''incur_cost'', HighRisk),
     (''change_permissions'', HighRisk),
     (''bypass_auth'', Forbidden), (''disable_audit'', Forbidden), (''self_approve'', Forbidden),
     (''exfiltrate_secret'', Forbidden), (''elevate_privileges'', Forbidden),
     (''arbitrary_shell'', Forbidden)]"

definition path_required_actions :: "string list" where
  "path_required_actions =
    [''read_file'', ''read_log'', ''summarize_document'', ''analyze_repository'', ''create_file'',
     ''edit_file_with_backup'', ''run_tests'', ''create_local_branch'', ''overwrite_critical_file'',
     ''delete_data'']"

definition flag_risk :: "policy_action \<Rightarrow> risk_level" where
  "flag_risk a =
     (if pa_bypasses_security a \<or> pa_disables_audit a \<or> pa_requests_self_approval a
         \<or> pa_requests_privilege_escalation a \<or> pa_exposes_secrets a then Forbidden
      else if pa_destructive a \<or> pa_external_side_effect a \<or> pa_sends_data_externally a
         \<or> pa_incurs_cost a \<or> pa_changes_permissions a \<or> pa_deploys_or_publishes a then HighRisk
      else if pa_modifies_runtime a \<or> pa_installs_dependencies a \<or> pa_changes_schema a
         \<or> pa_uses_quota a then Sensitive
      else ReadOnly)"

definition decide :: "decision_kind \<Rightarrow> risk_level \<Rightarrow> string \<Rightarrow> string \<Rightarrow> approval_scope option
    \<Rightarrow> path option \<Rightarrow> policy_decision" where
  "decide k r rule reason sc p = \<lparr>pd_kind = k, pd_risk = r, pd_rule = rule, pd_reason = reason,
     pd_scope = sc, pd_path = p\<rparr>"

definition evaluate_path ::
  "fs \<Rightarrow> path list \<Rightarrow> policy_action \<Rightarrow> risk_level \<Rightarrow> (policy_decision option \<times> path option) res" where
  "evaluate_path F roots a catalog =
     (if pa_name a \<in> set path_required_actions \<and> pa_target a = None
      then Inr (Some (decide Escalate catalog ''path.required''
              (''Action '' @ [CHR 0x27] @ pa_name a @ [CHR 0x27] @ '' requires a target path before policy can decide.'')
              None None), None)
      else (case pa_target a of None \<Rightarrow> Inr (None, None)
        | Some t \<Rightarrow> bindE (path_check F roots t (pa_workspace a)) (\<lambda>r.
            if \<not> ps_allowed r
            then Inr (Some (decide Deny Forbidden (ps_rule r) (ps_reason r) None (ps_path r)), ps_path r)
            else Inr (None, ps_path r))))"

definition risk_decision :: "risk_level \<Rightarrow> path option \<Rightarrow> policy_decision" where
  "risk_decision eff p =
     (if eff = HighRisk
      then decide RequireApproval eff ''risk.high.require_explicit_approval''
             ''High-risk action requires explicit, one-time user approval.'' (Some SingleAction) p
      else if eff = Sensitive
      then decide RequireApproval eff ''risk.sensitive.require_approval''
             ''Sensitive action requires one-time user approval.'' (Some SingleAction) p
      else if eff = SafeWrite
      then decide Allow eff ''risk.safe_write.allow''
             ''Safe write is allowed inside the approved workspace.'' None p
      else decide Allow ReadOnly ''risk.read_only.allow''
             ''Read-only action is allowed by policy.'' None p)"

definition declared_risk :: "policy_action \<Rightarrow> risk_level" where
  "declared_risk a = (case pa_declared a of None \<Rightarrow> ReadOnly | Some r \<Rightarrow> r)"

definition policy_evaluate :: "fs \<Rightarrow> path list \<Rightarrow> policy_action \<Rightarrow> policy_decision res" where
  "policy_evaluate F roots a =
     (let flag = flag_risk a; catalog = map_of action_risk_catalog (pa_name a) in
      if flag = Forbidden \<or> catalog = Some Forbidden \<or> pa_declared a = Some Forbidden
      then Inr (decide Deny Forbidden ''risk.forbidden.deny''
             ''Forbidden actions cannot be approved or executed.'' None None)
      else (case catalog of
        None \<Rightarrow> Inr (decide Escalate (max (declared_risk a) flag) ''action.unknown''
            (''Action '' @ [CHR 0x27] @ pa_name a @ [CHR 0x27] @ '' is not registered in Policy catalog v1.0.'')
            None None)
      | Some c \<Rightarrow>
          (let eff = max (max c (declared_risk a)) flag in
           bindE (evaluate_path F roots a c) (\<lambda>(d, p).
           case d of Some pd \<Rightarrow> Inr pd | None \<Rightarrow> Inr (risk_decision eff p)))))"

section \<open>The asynchronous gate\<close>

record async_decision =
  ad_allowed :: bool
  ad_reason_code :: string
  ad_message :: string

definition async_decide :: "bool \<Rightarrow> string \<Rightarrow> string \<Rightarrow> async_decision" where
  "async_decide ok code msg = \<lparr>ad_allowed = ok, ad_reason_code = code, ad_message = msg\<rparr>"

definition async_policy_evaluate :: "fs \<Rightarrow> path list \<Rightarrow> async_create \<Rightarrow> async_decision res" where
  "async_policy_evaluate F roots req =
     (if 4 \<le> ac_risk_level req
      then Inr (async_decide False ''forbidden'' ''Risk level 4 actions are forbidden.'')
      else if ac_mode req = MBuild \<and> ac_workspace req = None
      then Inr (async_decide False ''workspace_required'' ''Build mode requires an explicit workspace.'')
      else bindE (case ac_workspace req of None \<Rightarrow> Inr None
                  | Some ws \<Rightarrow> bindE (path_check F roots (path_of ws) None) (\<lambda>r.
                      Inr (if ps_allowed r then None else Some (ps_reason r)))) (\<lambda>denied.
        case denied of Some reason \<Rightarrow> Inr (async_decide False ''workspace_denied'' reason)
        | None \<Rightarrow>
            if ac_approval_required req \<or> 2 \<le> ac_risk_level req
            then Inr (async_decide True ''allowed_with_step_gates''
              ''Request is accepted for step-level execution: safe steps may run, approval-gated steps must stop.'')
            else Inr (async_decide True ''allowed'' ''Request is allowed for asynchronous execution.'')))"

section \<open>Properties\<close>

lemma decide_simps [simp]:
  "pd_kind (decide k r rule reason sc p) = k" "pd_risk (decide k r rule reason sc p) = r"
  "pd_scope (decide k r rule reason sc p) = sc" "pd_path (decide k r rule reason sc p) = p"
  by (simp_all add: decide_def)

lemma risk_decision_kind:
  "pd_kind (risk_decision eff p) = (if eff = HighRisk \<or> eff = Sensitive then RequireApproval else Allow)"
  "eff \<noteq> Forbidden \<Longrightarrow> pd_risk (risk_decision eff p) = eff"
  "pd_path (risk_decision eff p) = p"
  "pd_scope (risk_decision eff p) = (if eff = HighRisk \<or> eff = Sensitive then Some SingleAction else None)"
  by (cases eff; simp add: risk_decision_def)+

lemma evaluate_path_ok:
  assumes "evaluate_path F roots a c = Inr (None, p)"
  shows "(pa_target a = None \<and> pa_name a \<notin> set path_required_actions \<and> p = None)
    \<or> (\<exists>t r q. pa_target a = Some t \<and> path_check F roots t (pa_workspace a) = Inr r
         \<and> ps_allowed r \<and> ps_path r = Some q \<and> p = Some q \<and> under_allowed_root roots q)"
  using assms
  by (auto simp: evaluate_path_def bindE_Inr_iff split: if_splits option.splits
      elim!: path_check_allowed)

lemma evaluate_path_stop:
  "evaluate_path F roots a c = Inr (Some d, p) \<Longrightarrow>
   (pd_kind d = Escalate \<and> pd_risk d = c) \<or> (pd_kind d = Deny \<and> pd_risk d = Forbidden)"
  by (auto simp: evaluate_path_def bindE_Inr_iff split: if_splits option.splits)

lemma policy_evaluate_cases:
  assumes "policy_evaluate F roots a = Inr d"
  obtains (forbidden) "flag_risk a = Forbidden \<or> map_of action_risk_catalog (pa_name a) = Some Forbidden
      \<or> pa_declared a = Some Forbidden" "pd_kind d = Deny" "pd_risk d = Forbidden"
    | (unknown) "map_of action_risk_catalog (pa_name a) = None" "pd_kind d = Escalate"
    | (stopped) c p where "map_of action_risk_catalog (pa_name a) = Some c"
        "evaluate_path F roots a c = Inr (Some d, p)" "flag_risk a \<noteq> Forbidden" "c \<noteq> Forbidden"
    | (decided) c p where "map_of action_risk_catalog (pa_name a) = Some c"
        "evaluate_path F roots a c = Inr (None, p)"
        "d = risk_decision (max (max c (declared_risk a)) (flag_risk a)) p"
        "flag_risk a \<noteq> Forbidden" "c \<noteq> Forbidden" "declared_risk a \<noteq> Forbidden"
proof (cases "flag_risk a = Forbidden \<or> map_of action_risk_catalog (pa_name a) = Some Forbidden
      \<or> pa_declared a = Some Forbidden")
  case True
  with assms forbidden show ?thesis by (auto simp: policy_evaluate_def)
next
  case nf: False
  show ?thesis
  proof (cases "map_of action_risk_catalog (pa_name a)")
    case None
    with assms nf unknown show ?thesis by (auto simp: policy_evaluate_def Let_def)
  next
    case (Some c)
    with assms nf obtain x p where e: "evaluate_path F roots a c = Inr (x, p)"
      and d: "(case x of Some pd \<Rightarrow> Inr pd
        | None \<Rightarrow> Inr (risk_decision (max (max c (declared_risk a)) (flag_risk a)) p))
        = (Inr d :: policy_decision res)"
      by (auto simp: policy_evaluate_def Let_def bindE_Inr_iff)
    have "declared_risk a \<noteq> Forbidden" using nf by (auto simp: declared_risk_def split: option.splits)
    with d e nf Some stopped decided show ?thesis by (cases x) auto
  qed
qed

text \<open>C12. An allowed path check: the resolved target lies under a configured root and, when a
  workspace was given, inside that workspace, which itself lies under a configured root. A
  traversal to a sibling project is therefore refused whatever the file system resolves.\<close>

theorem path_scope_contained:
  assumes "path_check F roots target workspace = Inr res" "ps_allowed res"
  shows "\<exists>t. ps_path res = Some t \<and> (\<exists>r\<in>set roots. is_relative_to t r) \<and>
    (case workspace of None \<Rightarrow> True
     | Some ws \<Rightarrow> \<exists>w. normalize_workspace F roots workspace = Inr (Inr (Some w)) \<and> is_relative_to t w
         \<and> (\<exists>r\<in>set roots. is_relative_to w r))"
  using assms
  by (rule path_check_allowed) (auto simp: under_allowed_root_iff split: option.splits)

definition demo_fs :: fs where
  "demo_fs = \<lparr>fs_expanduser = Inr, fs_resolve = Inr\<rparr>"

theorem path_scope_contained_witness:
  "\<exists>t. ps_path (scope_decision [path_of ''/mnt/f/AIOS''] (Some (path_of ''/mnt/f/AIOS/p''))
      (path_of ''/mnt/f/AIOS/p/a'')) = Some t \<and> (\<exists>r\<in>set [path_of ''/mnt/f/AIOS'']. is_relative_to t r)"
proof -
  have "path_check demo_fs [path_of ''/mnt/f/AIOS''] (path_of ''/mnt/f/AIOS/p/a'')
      (Some (path_of ''/mnt/f/AIOS/p'')) =
    Inr (scope_decision [path_of ''/mnt/f/AIOS''] (Some (path_of ''/mnt/f/AIOS/p''))
      (path_of ''/mnt/f/AIOS/p/a''))" by code_simp
  moreover have "ps_allowed (scope_decision [path_of ''/mnt/f/AIOS''] (Some (path_of ''/mnt/f/AIOS/p''))
      (path_of ''/mnt/f/AIOS/p/a''))" by code_simp
  ultimately show ?thesis by (auto dest: path_scope_contained)
qed

text \<open>A forbidden action is denied with the forbidden risk level, whatever makes it so: a
  flag, the catalog entry of its name, or its declared level. No path or file system error can
  turn the denial into anything else.\<close>

theorem policy_forbidden_denied:
  assumes "flag_risk a = Forbidden \<or> map_of action_risk_catalog (pa_name a) = Some Forbidden
    \<or> pa_declared a = Some Forbidden"
  shows "\<exists>d. policy_evaluate F roots a = Inr d \<and> pd_kind d = Deny \<and> pd_risk d = Forbidden
    \<and> pd_scope d = None"
  using assms by (simp add: policy_evaluate_def)

definition demo_action :: policy_action where
  "demo_action = \<lparr>pa_name = ''read_file'', pa_declared = None,
     pa_target = Some (path_of ''/mnt/f/AIOS/a''), pa_workspace = None,
     pa_destructive = False, pa_modifies_runtime = False, pa_installs_dependencies = False,
     pa_changes_schema = False, pa_uses_quota = False, pa_external_side_effect = False,
     pa_sends_data_externally = False, pa_incurs_cost = False, pa_changes_permissions = False,
     pa_deploys_or_publishes = False, pa_bypasses_security = False, pa_disables_audit = False,
     pa_requests_self_approval = False, pa_requests_privilege_escalation = False,
     pa_exposes_secrets = False\<rparr>"

theorem policy_forbidden_denied_witness:
  "\<exists>d. policy_evaluate demo_fs [] (demo_action\<lparr>pa_name := ''arbitrary_shell''\<rparr>) = Inr d
     \<and> pd_kind d = Deny \<and> pd_risk d = Forbidden \<and> pd_scope d = None"
  by (rule policy_forbidden_denied) (simp add: demo_action_def action_risk_catalog_def)

text \<open>C11. Soundness of ALLOW: the action is in the catalog, and its catalog risk, its declared
  risk and the risk of its flags are all at most SAFE\_WRITE (so no destructive, external,
  costly, permission, publishing, runtime, schema or quota flag is set); its target, required
  for file actions, lies under a configured root. The reported risk is the maximum of the
  three.\<close>

theorem policy_allow_sound:
  assumes "policy_evaluate F roots a = Inr d" "pd_kind d = Allow"
  shows "\<exists>c. map_of action_risk_catalog (pa_name a) = Some c
    \<and> pd_risk d = max (max c (declared_risk a)) (flag_risk a) \<and> pd_risk d \<le> SafeWrite
    \<and> (pa_name a \<in> set path_required_actions \<longrightarrow> pa_target a \<noteq> None)
    \<and> (pa_target a \<noteq> None \<longrightarrow> (\<exists>t r. pd_path d = Some t \<and> r \<in> set roots \<and> is_relative_to t r))"
  using assms(1)
proof (cases rule: policy_evaluate_cases)
  case (decided c p)
  let ?e = "max (max c (declared_risk a)) (flag_risk a)"
  have nf: "?e \<noteq> Forbidden" using decided(4-6) by (auto simp: max_def)
  moreover from decided(3) assms(2) have "?e \<noteq> HighRisk" "?e \<noteq> Sensitive"
    by (auto simp: risk_decision_kind)
  ultimately have "?e \<le> SafeWrite" by (cases ?e) (simp_all add: less_eq_risk_level_def)
  then show ?thesis
    using decided(1,3) nf evaluate_path_ok [OF decided(2)]
    by (auto simp: risk_decision_kind under_allowed_root_iff)
next
  case (stopped c p)
  from evaluate_path_stop [OF stopped(2)] assms(2) show ?thesis by auto
qed (use assms(2) in auto)

theorem policy_allow_sound_witness:
  "\<exists>c. map_of action_risk_catalog (pa_name demo_action) = Some c
    \<and> pd_risk (risk_decision ReadOnly (Some (path_of ''/mnt/f/AIOS/a''))) \<le> SafeWrite"
proof -
  have "policy_evaluate demo_fs [path_of ''/mnt/f/AIOS''] demo_action
      = Inr (risk_decision ReadOnly (Some (path_of ''/mnt/f/AIOS/a'')))" by code_simp
  moreover have "pd_kind (risk_decision ReadOnly (Some (path_of ''/mnt/f/AIOS/a''))) = Allow"
    by (simp add: risk_decision_kind)
  ultimately show ?thesis by (auto dest: policy_allow_sound)
qed

end
