(* ===== verification/PlanGraph.thy ===== *)
theory PlanGraph
  imports PlanModels
begin

text \<open>
  Correctness of the plan validator's depth-first search: it returns normally exactly on
  acyclic dependency graphs. A run that succeeds leaves the visited nodes in an order in which
  every node follows its dependencies (\<open>topo\<close>); a run that fails has found a node that
  reaches itself.
\<close>

definition edges :: "graph \<Rightarrow> (string \<times> string) set" where
  "edges g = {(n, d). \<exists>deps. map_of g n = Some deps \<and> d \<in> set deps}"

definition graph_closed :: "graph \<Rightarrow> bool" where
  "graph_closed g \<longleftrightarrow> (\<forall>(n, deps)\<in>set g. \<forall>d\<in>set deps. d \<in> fst ` set g)"

fun topo :: "graph \<Rightarrow> string list \<Rightarrow> bool" where
  "topo g [] \<longleftrightarrow> True"
| "topo g (n # vs) \<longleftrightarrow> (\<exists>deps. map_of g n = Some deps \<and> set deps \<subseteq> set vs) \<and> topo g vs"

lemma topo_closed: "topo g vs \<Longrightarrow> n \<in> set vs \<Longrightarrow> (n, d) \<in> edges g \<Longrightarrow> d \<in> set vs"
  by (induction vs) (auto simp: edges_def)

lemma topo_reach: "(n, d) \<in> (edges g)\<^sup>+ \<Longrightarrow> topo g vs \<Longrightarrow> n \<in> set vs \<Longrightarrow> d \<in> set vs"
  by (induction rule: trancl_induct) (auto intro: topo_closed)

lemma topo_acyclic: "topo g vs \<Longrightarrow> n \<in> set vs \<Longrightarrow> (n, n) \<notin> (edges g)\<^sup>+"
proof (induction vs)
  case Nil
  then show ?case by simp
next
  case (Cons m vs)
  show ?case
  proof (cases "n \<in> set vs")
    case True
    with Cons show ?thesis by simp
  next
    case False
    with Cons.prems have "n = m" by simp
    with Cons.prems obtain deps where deps: "map_of g n = Some deps" "set deps \<subseteq> set vs"
      by auto
    show ?thesis
    proof
      assume "(n, n) \<in> (edges g)\<^sup>+"
      then obtain d where d: "(n, d) \<in> edges g" "(d, n) \<in> (edges g)\<^sup>*"
        by (meson tranclD)
      with deps have "d \<in> set vs" by (auto simp: edges_def)
      with d(2) Cons.prems have "n \<in> set vs"
        by (metis rtranclD topo.simps(2) topo_reach)
      with False show False by simp
    qed
  qed
qed

lemma visit_topo:
  "topo g visited \<Longrightarrow> visit g visiting visited n = Inr v \<Longrightarrow>
     topo g v \<and> n \<in> set v \<and> set visited \<subseteq> set v"
  "topo g visited \<Longrightarrow> visit_deps g visiting visited ds = Inr v \<Longrightarrow>
     topo g v \<and> set ds \<subseteq> set v \<and> set visited \<subseteq> set v"
proof (induction g visiting visited n and g visiting visited ds arbitrary: v and v
    rule: visit_visit_deps.induct)
  case (1 g visiting visited n)
  show ?case
  proof (cases "n \<in> set visited")
    case True
    with 1 show ?thesis by (auto simp: visit.simps split: if_splits)
  next
    case False
    with "1.prems" obtain deps v' where
      d: "n \<notin> set visiting" "map_of g n = Some deps"
         "visit_deps g (n # visiting) visited deps = Inr v'" "v = n # v'"
      by (auto simp: visit.simps [of g visiting visited n] split: if_splits option.splits sum.splits)
    with "1.IH" [OF d(1) False d(2) "1.prems"(1) d(3)] show ?thesis by auto
  qed
next
  case (2 g visiting visited)
  then show ?case by (simp add: visit_deps.simps)
next
  case (3 g visiting visited d ds)
  from "3.prems" obtain v' where v':
    "visit g visiting visited d = Inr v'" "visit_deps g visiting v' ds = Inr v"
    by (auto simp: visit_deps.simps split: sum.splits)
  with "3.IH"(1) [OF "3.prems"(1) v'(1)] "3.IH"(2) [OF v'(1) _ v'(2)] show ?case by auto
qed

lemma visit_error_cycle:
  "visit g visiting visited n = Inl e \<Longrightarrow> graph_closed g \<Longrightarrow> n \<in> fst ` set g \<Longrightarrow>
     \<forall>m\<in>set visiting. (m, n) \<in> (edges g)\<^sup>+ \<Longrightarrow> \<exists>m. (m, m) \<in> (edges g)\<^sup>+"
  "visit_deps g visiting visited ds = Inl e \<Longrightarrow> graph_closed g \<Longrightarrow> set ds \<subseteq> fst ` set g \<Longrightarrow>
     \<forall>m\<in>set visiting. \<forall>d\<in>set ds. (m, d) \<in> (edges g)\<^sup>+ \<Longrightarrow> \<exists>m. (m, m) \<in> (edges g)\<^sup>+"
proof (induction g visiting visited n and g visiting visited ds arbitrary: e and e
    rule: visit_visit_deps.induct)
  case (1 g visiting visited n)
  show ?case
  proof (cases "n \<in> set visiting")
    case True
    with "1.prems"(4) show ?thesis by blast
  next
    case False
    obtain deps where deps: "map_of g n = Some deps"
      using "1.prems"(3) by (metis domD dom_map_of_conv_image_fst)
    with False "1.prems"(1) have v: "n \<notin> set visited" "visit_deps g (n # visiting) visited deps = Inl e"
      by (auto simp: visit.simps [of g visiting visited n] split: if_splits sum.splits)
    have in_edges: "(n, d) \<in> edges g" if "d \<in> set deps" for d
      using deps that by (auto simp: edges_def)
    have "set deps \<subseteq> fst ` set g"
      using "1.prems"(2) map_of_SomeD [OF deps] by (auto simp: graph_closed_def)
    moreover have "\<forall>m\<in>set (n # visiting). \<forall>d\<in>set deps. (m, d) \<in> (edges g)\<^sup>+"
      using "1.prems"(4) in_edges by (auto intro: trancl_into_trancl)
    ultimately show ?thesis using "1.IH" [OF False v(1) deps v(2) "1.prems"(2)] by blast
  qed
next
  case (2 g visiting visited)
  then show ?case by (simp add: visit_deps.simps)
next
  case (3 g visiting visited d ds)
  show ?case
  proof (cases "visit g visiting visited d")
    case (Inl e')
    with 3 show ?thesis by (simp add: visit_deps.simps)
  next
    case (Inr v)
    with "3.prems" have "visit_deps g visiting v ds = Inl e" by (simp add: visit_deps.simps)
    with 3 Inr show ?thesis by simp
  qed
qed

lemma visit_all_topo:
  "visit_all g visited ns = Inr v \<Longrightarrow> topo g visited \<Longrightarrow>
   topo g v \<and> set ns \<subseteq> set v \<and> set visited \<subseteq> set v"
proof (induction ns arbitrary: visited)
  case Nil
  then show ?case by simp
next
  case (Cons n ns)
  then obtain v' where v': "visit g [] visited n = Inr v'" "visit_all g v' ns = Inr v"
    by (auto split: sum.splits)
  from visit_topo(1) [OF Cons.prems(2) v'(1)] Cons.IH [OF v'(2)] show ?case by auto
qed

lemma visit_all_error:
  "visit_all g visited ns = Inl e \<Longrightarrow> graph_closed g \<Longrightarrow> set ns \<subseteq> fst ` set g \<Longrightarrow>
   \<not> acyclic (edges g)"
proof (induction ns arbitrary: visited)
  case Nil
  then show ?case by simp
next
  case (Cons n ns)
  show ?case
  proof (cases "visit g [] visited n")
    case (Inl e')
    with Cons.prems visit_error_cycle(1) [OF Inl] show ?thesis by (auto simp: acyclic_def)
  next
    case (Inr v)
    with Cons show ?thesis by simp
  qed
qed

lemma edges_dom: "(n, d) \<in> edges g \<Longrightarrow> n \<in> fst ` set g"
  by (auto simp: edges_def rev_image_eqI dest!: map_of_SomeD)

lemma visit_all_ok_iff_acyclic:
  assumes "graph_closed g"
  shows "(\<exists>v. visit_all g [] (map fst g) = Inr v) \<longleftrightarrow> acyclic (edges g)"
proof
  assume "\<exists>v. visit_all g [] (map fst g) = Inr v"
  then obtain v where v: "visit_all g [] (map fst g) = Inr v" by blast
  have t: "topo g v" "fst ` set g \<subseteq> set v" using visit_all_topo [OF v] by auto
  show "acyclic (edges g)"
    unfolding acyclic_def
  proof (intro allI notI)
    fix n assume cyc: "(n, n) \<in> (edges g)\<^sup>+"
    then have "n \<in> fst ` set g" by (metis edges_dom tranclD)
    with t cyc topo_acyclic show False by blast
  qed
next
  assume ac: "acyclic (edges g)"
  show "\<exists>v. visit_all g [] (map fst g) = Inr v"
  proof (cases "visit_all g [] (map fst g)")
    case (Inl e)
    with ac visit_all_error [OF Inl assms] show ?thesis by simp
  qed simp
qed

lemma finite_edges: "finite (edges g)"
proof -
  have "edges g \<subseteq> (\<Union>(n, deps)\<in>set g. {n} \<times> set deps)"
    by (auto simp: edges_def dest: map_of_SomeD)
  then show ?thesis by (rule finite_subset) auto
qed

end
