(* ===== verification/Planning.thy ===== *)
theory Planning
  imports PlanGraph World
begin

text \<open>
  Making and keeping plans: \<open>app/planning/truth.py\<close>, \<open>app/planning/planner.py\<close> and
  \<open>app/planning/repository.py\<close>.
\<close>

section \<open>Planning truth\<close>

definition or_else :: "string option \<Rightarrow> string option \<Rightarrow> string option" where
  "or_else a b = (if truthy a then a else b)"

definition truth_of :: "env \<Rightarrow> project_row \<Rightarrow> string option \<Rightarrow> int \<Rightarrow> truth_snapshot" where
  "truth_of E row workspace now =
     (let ws = or_else (or_else workspace (pj_path_wsl row)) (pj_path_windows row) in
      \<lparr>ts_project_id = pj_id row, ts_project_version = pj_version row,
       ts_project_status = project_status_value (pj_status row),
       ts_current_phase = pj_current_phase row, ts_workspace = ws,
       ts_workspace_exists = (case ws of None \<Rightarrow> False | Some p \<Rightarrow> e_path_exists E p),
       ts_project_constraints = pj_constraints row, ts_observed_at = Some now\<rparr>)"

definition truth_inspect :: "env \<Rightarrow> string \<Rightarrow> string option \<Rightarrow> truth_snapshot M" where
  "truth_inspect E project_id workspace =
     bindM (getM (find_project project_id)) (\<lambda>row.
     case row of None \<Rightarrow> raiseM (PlanningTruthError (''Project not found: '' @ project_id))
     | Some r \<Rightarrow>
         bindM (nowM E) (\<lambda>now.
         bindM (guardM (1 \<le> pj_version r) ValidationError) (\<lambda>_.
         retM (truth_of E r workspace now))))"

section \<open>The planner\<close>

definition definition_of_done_for :: "planning_request \<Rightarrow> definition_of_done" where
  "definition_of_done_for q =
     (case pr_definition_of_done q of Some d \<Rightarrow> d
      | None \<Rightarrow>
         (let required = map dv_description (filter dv_required (pr_deliverables q)) in
          if required \<noteq> []
          then \<lparr>dod_criteria = map (\<lambda>i. ''Deliverable completed and verified: '' @ i) required,
                dod_inferred = True\<rparr>
          else \<lparr>dod_criteria = [''Outcome achieved and verified: '' @ py_strip (pr_outcome q)],
                dod_inferred = True\<rparr>))"

text \<open>
  \<open>str.lower\<close> on one character, for the comparison with \<open>ambiguous_goals\<close>: ASCII, and the
  characters whose lower case occurs in a phrase of the list. The remaining characters have a
  lower case that occurs in none, so keeping them as they are gives the same answer.
\<close>

definition lower_char :: "string \<Rightarrow> string" where
  "lower_char ch = (case map (of_char :: char \<Rightarrow> nat) ch of
      [b] \<Rightarrow> if 65 \<le> b \<and> b \<le> 90 then [char_of (b + 32)] else ch
    | [b, c] \<Rightarrow> if b = 0xC3 \<and> c = 0x80 then [CHR 0xC3, CHR 0xA0]
              else if b = 0xC4 \<and> c = 0x90 then [CHR 0xC4, CHR 0x91]
              else if b = 0xC4 \<and> c = 0xB0 then [CHR 0x69, CHR 0xCC, CHR 0x87] else ch
    | [b, c, d] \<Rightarrow> if b = 0xE1 \<and> c = 0xBA \<and> d = 0xA2 then [CHR 0xE1, CHR 0xBA, CHR 0xA3]
              else if b = 0xE1 \<and> c = 0xBB \<and> d = 0x86 then [CHR 0xE1, CHR 0xBB, CHR 0x87]
              else if b = 0xE1 \<and> c = 0xBB \<and> d = 0xAC then [CHR 0xE1, CHR 0xBB, CHR 0xAD] else ch
    | _ \<Rightarrow> ch)"

definition goal_lower :: "string \<Rightarrow> string" where
  "goal_lower s = concat (map lower_char (py_chars s))"

definition ambiguous_goals :: "string list" where
  "ambiguous_goals = [''do it'', ''fix it'', ''improve'',
     ''l'' @ [CHR 0xC3, CHR 0xA0] @ ''m '' @ [CHR 0xC4, CHR 0x91] @ ''i'',
     ''s'' @ [CHR 0xE1, CHR 0xBB, CHR 0xAD] @ ''a '' @ [CHR 0xC4, CHR 0x91] @ ''i'',
     ''c'' @ [CHR 0xE1, CHR 0xBA, CHR 0xA3] @ ''i thi'' @ [CHR 0xE1, CHR 0xBB, CHR 0x87] @ ''n'']"

definition normalized_goal :: "string \<Rightarrow> string" where
  "normalized_goal s = py_join '' '' (py_split (goal_lower s))"

definition plan_blocker :: "planning_request \<Rightarrow> decision_needed option" where
  "plan_blocker q =
     (if normalized_goal (pr_outcome q) \<in> set ambiguous_goals \<and> pr_deliverables q = []
      then Some \<lparr>dn_question = ''What concrete outcome should be achieved?'',
                 dn_reason = ''Goal is too ambiguous to derive a verifiable plan.''\<rparr>
      else if rb_max_risk_level (pr_risk_budget q) < pr_risk_level q
      then Some \<lparr>dn_question = ''Should the risk budget be raised or the goal reduced?'',
                 dn_reason = ''Risk level '' @ str_of_int (pr_risk_level q) @ '' exceeds budget ''
                   @ str_of_int (rb_max_risk_level (pr_risk_budget q)) @ ''.''\<rparr>
      else None)"

definition approval_node :: plan_node where
  "approval_node = \<lparr>pn_id = ''approval'', pn_title = ''Owner approval'', pn_kind = NkApprovalGate,
     pn_depends_on = [], pn_capabilities = [], pn_verifications = []\<rparr>"

definition execute_node :: "string list \<Rightarrow> capability_kind list \<Rightarrow> plan_node" where
  "execute_node deps caps = \<lparr>pn_id = ''execute'', pn_title = ''Execute minimum plan'',
     pn_kind = NkAction, pn_depends_on = deps, pn_capabilities = caps, pn_verifications = []\<rparr>"

definition verify_node :: "string list \<Rightarrow> plan_node" where
  "verify_node vs = \<lparr>pn_id = ''verify'', pn_title = ''Verify definition of done'',
     pn_kind = NkVerificationGate, pn_depends_on = [''execute''], pn_capabilities = [],
     pn_verifications = vs\<rparr>"

definition plan_nodes_for :: "planning_request \<Rightarrow> string list \<Rightarrow> plan_node list" where
  "plan_nodes_for q vs =
     (if pr_approval_required q
      then [approval_node, execute_node [''approval''] (pr_capability_requirements q), verify_node vs]
      else [execute_node [] (pr_capability_requirements q), verify_node vs])"

definition plan_of_request :: "planning_request \<Rightarrow> truth_snapshot \<Rightarrow> plan" where
  "plan_of_request q truth =
     (let dod = definition_of_done_for q;
          vs = map (\<lambda>c. ''Verify DoD: '' @ c) (dod_criteria dod);
          blocker = plan_blocker q in
      \<lparr>p_id = ''plan:'' @ pr_request_id q, p_revision = 1, p_replanned_from = None,
       p_replan_reason = None,
       p_goal = \<lparr>pg_statement = py_strip (pr_outcome q), pg_project_id = pr_project_id q\<rparr>,
       p_dod = dod,
       p_constraints = pr_constraints q
         @ map (\<lambda>v. \<lparr>pc_description = v, pc_source = ''project''\<rparr>) (ts_project_constraints truth),
       p_risk_budget = pr_risk_budget q, p_deliverables = pr_deliverables q,
       p_verifications = vs, p_truth = truth,
       p_status = (if blocker = None then PlReady else PlBlocked),
       p_nodes = (if blocker = None then plan_nodes_for q vs else []),
       p_blocker = blocker, p_executions = [], p_evidence = [], p_budget = default_budget,
       p_judgement = None\<rparr>)"

text \<open>
  \<open>GoalPlanner.plan\<close>. Every part of the plan is a validated model, and so is the plan: the
  call fails with a ValidationError exactly when \<open>plan_validate\<close> refuses the result.
\<close>

definition planner_plan :: "env \<Rightarrow> planning_request \<Rightarrow> plan M" where
  "planner_plan E q =
     bindM (truth_inspect E (pr_project_id q) (pr_workspace q)) (\<lambda>truth.
     liftE (plan_validate (plan_of_request q truth)))"

section \<open>The plan store\<close>

definition plan_row_status :: "plan \<Rightarrow> string" where
  "plan_row_status p = (if p_status p = PlBlocked then ''blocked'' else ''pending'')"

definition plan_save :: "string \<Rightarrow> string \<Rightarrow> plan \<Rightarrow> workflow_row M" where
  "plan_save wid tid p =
     bindM (getM (find_workflow wid)) (\<lambda>found.
     case found of
       None \<Rightarrow>
         let row = \<lparr>wf_id = wid, wf_task_id = tid, wf_status = plan_row_status p,
                    wf_plan_payload = Some p\<rparr> in
         bindM (getM (find_task tid)) (\<lambda>t.
         bindM (guardM (t \<noteq> None) IntegrityError) (\<lambda>_.
         bindM (mod_db (\<lambda>d. d\<lparr>db_workflows := db_workflows d @ [row]\<rparr>)) (\<lambda>_. retM row)))
     | Some row \<Rightarrow>
         bindM (guardM (wf_task_id row = tid)
                  (PlanPersistenceConflict ''Workflow task identity mismatch'')) (\<lambda>_.
         let row' = row\<lparr>wf_plan_payload := Some p, wf_status := plan_row_status p\<rparr> in
         bindM (put_workflow row') (\<lambda>_. retM row')))"

definition plan_load :: "string \<Rightarrow> plan option M" where
  "plan_load wid =
     bindM (getM (find_workflow wid)) (\<lambda>found.
     case found of None \<Rightarrow> retM None
     | Some row \<Rightarrow> (case wf_plan_payload row of None \<Rightarrow> retM None
         | Some p \<Rightarrow> bindM (liftE (plan_validate p)) (\<lambda>q. retM (Some q))))"

text \<open>The workflow table: one row per run, never moved to another task.\<close>

inductive workflow_table :: "db \<Rightarrow> db \<Rightarrow> bool" where
  created: "find_row wf_id wid (db_workflows d) = None \<Longrightarrow> find_row t_id tid (db_tasks d) \<noteq> None \<Longrightarrow>
    workflow_table d (d\<lparr>db_workflows := db_workflows d @
      [\<lparr>wf_id = wid, wf_task_id = tid, wf_status = plan_row_status p, wf_plan_payload = Some p\<rparr>]\<rparr>)"
| saved: "row \<in> set (db_workflows d) \<Longrightarrow>
    workflow_table d (d\<lparr>db_workflows := put_row wf_id
      (row\<lparr>wf_plan_payload := Some p, wf_status := plan_row_status p\<rparr>) (db_workflows d)\<rparr>)"

lemma plan_save_refines: "within workflow_table (plan_save wid tid p)"
  unfolding plan_save_def
proof (intro within_getM_option)
  fix w :: world
  assume none: "find_workflow wid w = None"
  show "workflow_table\<^sup>*\<^sup>* (w_db w) (w_db (snd ((let row = \<lparr>wf_id = wid, wf_task_id = tid,
      wf_status = plan_row_status p, wf_plan_payload = Some p\<rparr> in
    bindM (getM (find_task tid)) (\<lambda>t. bindM (guardM (t \<noteq> None) IntegrityError) (\<lambda>_.
    bindM (mod_db (\<lambda>d. d\<lparr>db_workflows := db_workflows d @ [row]\<rparr>)) (\<lambda>_. retM row)))) w)))"
    using none workflow_table.created [of wid "w_db w" tid p]
    by (simp add: Let_def run_simps put_runs find_workflow_def find_task_def r_into_rtranclp)
next
  fix w :: world and row
  assume "find_workflow wid w = Some row"
  then have "row \<in> set (db_workflows (w_db w))"
    by (auto simp: find_workflow_def dest: find_row_Some)
  from workflow_table.saved [OF this, of p]
  show "workflow_table\<^sup>*\<^sup>* (w_db w) (w_db (snd (bindM (guardM (wf_task_id row = tid)
      (PlanPersistenceConflict ''Workflow task identity mismatch''))
    (\<lambda>_. let row' = row\<lparr>wf_plan_payload := Some p, wf_status := plan_row_status p\<rparr>
         in bindM (put_workflow row') (\<lambda>_. retM row')) w)))"
    by (simp add: Let_def run_simps put_runs put_workflow_def r_into_rtranclp)
qed

lemma keep_plan_reads [keep]: "within R (plan_load wid)" "within R (truth_inspect E pid ws)"
    "within R (planner_plan E q)"
  unfolding planner_plan_def plan_load_def truth_inspect_def by (intro keep)+

lemma hush_plan_ops [hush]: "quiet (plan_load wid)" "quiet (plan_save wid tid p)"
    "quiet (truth_inspect E pid ws)" "quiet (planner_plan E q)"
  unfolding planner_plan_def plan_load_def truth_inspect_def plan_save_def by (intro hush)+

text \<open>A plan that validates is read back as it was written.\<close>

lemma plan_save_load:
  assumes "plan_save wid tid p w = (Inr row, w')" "plan_validate p = Inr p"
  shows "plan_load wid w' = (Inr (Some p), w')"
proof (cases "find_workflow wid w")
  case None
  with assms(1) have "w_db w' = (w_db w)\<lparr>db_workflows := db_workflows (w_db w) @
      [\<lparr>wf_id = wid, wf_task_id = tid, wf_status = plan_row_status p, wf_plan_payload = Some p\<rparr>]\<rparr>"
    by (auto simp: plan_save_def Let_def run_simps put_runs split: if_splits)
  with None have "find_workflow wid w' = Some \<lparr>wf_id = wid, wf_task_id = tid,
      wf_status = plan_row_status p, wf_plan_payload = Some p\<rparr>"
    by (simp add: find_workflow_def find_row_append)
  with assms(2) show ?thesis by (simp add: plan_load_def run_simps)
next
  case (Some r)
  then have id: "wf_id r = wid" by (auto simp: find_workflow_def dest: find_row_Some)
  from Some assms(1) have "w_db w' = (w_db w)\<lparr>db_workflows := put_row wf_id
      (r\<lparr>wf_plan_payload := Some p, wf_status := plan_row_status p\<rparr>) (db_workflows (w_db w))\<rparr>"
    by (auto simp: plan_save_def Let_def run_simps put_runs put_workflow_def split: if_splits)
  with Some id have "find_workflow wid w' = Some (r\<lparr>wf_plan_payload := Some p, wf_status := plan_row_status p\<rparr>)"
    by (simp add: find_workflow_def row_simps)
  with assms(2) show ?thesis by (simp add: plan_load_def run_simps)
qed

end
