(* ===== verification/Judging.thy ===== *)
theory Judging
  imports Planning
begin

text \<open>
  Judging an execution and choosing what to do next: \<open>app/planning/outcome.py\<close>,
  \<open>app/planning/failure.py\<close>, \<open>app/planning/scheduler.py\<close> and
  \<open>app/planning/replanner.py\<close>.
\<close>

section \<open>Outcome judgement\<close>

definition normalize_text :: "string \<Rightarrow> string" where
  "normalize_text s = py_join '' '' (py_split s)"

text \<open>The dictionary of reported criteria: a later report of the same criterion wins.\<close>

definition by_criterion :: "criterion_verification list \<Rightarrow> (string \<times> criterion_verification) list" where
  "by_criterion cs = fold (\<lambda>c d. dict_set (normalize_text (cv_criterion c)) c d) cs []"

definition has_evidence :: "criterion_verification \<Rightarrow> bool" where
  "has_evidence c \<longleftrightarrow> cv_status c = ''verified'' \<and> list_ex (\<lambda>r. py_strip r \<noteq> []) (cv_evidence_refs c)"

definition judge_criterion :: "(string \<times> criterion_verification) list \<Rightarrow> string \<Rightarrow> criterion_judgement" where
  "judge_criterion d criterion =
     (case map_of d (normalize_text criterion) of
        None \<Rightarrow> \<lparr>cj_criterion = criterion, cj_satisfied = False, cj_status = ''unknown'',
                 cj_reason = ''No criterion evidence was returned.''\<rparr>
      | Some c \<Rightarrow>
          if has_evidence c
          then \<lparr>cj_criterion = criterion, cj_satisfied = True, cj_status = ''verified'',
                cj_reason = ''Verified by explicit evidence references.''\<rparr>
          else \<lparr>cj_criterion = criterion, cj_satisfied = False, cj_status = cv_status c,
                cj_reason = (if truthy (cv_explanation c) then the (cv_explanation c)
                  else if cv_status c = ''verified'' then ''Verified status lacked evidence references.''
                  else ''Criterion is not verified.'')\<rparr>)"

definition judgement :: "outcome_disposition \<Rightarrow> criterion_judgement list \<Rightarrow> string \<Rightarrow> string \<Rightarrow> outcome_judgement" where
  "judgement d cs code reason =
     \<lparr>oj_disposition = d, oj_criteria = cs, oj_reason_code = code, oj_reason = reason\<rparr>"

text \<open>
  \<open>saw_unmet\<close> is set by a reported criterion that is unmet and not verified by evidence, which
  is a judgement with the status \<open>unmet\<close>.
\<close>

definition judge_criteria :: "plan \<Rightarrow> oc_result \<Rightarrow> outcome_judgement" where
  "judge_criteria p r =
     (let checks = map (judge_criterion (by_criterion (or_criteria r))) (dod_criteria (p_dod p)) in
      if checks \<noteq> [] \<and> list_all cj_satisfied checks
      then judgement DSatisfied checks ''dod_satisfied''
             ''All definition-of-done criteria are verified by evidence.''
      else judgement DReplan checks
             (if list_ex (\<lambda>c. cj_status c = ''unmet'') checks then ''dod_unmet''
              else ''dod_evidence_missing'')
             ''Definition of done is not fully verified by evidence.'')"

definition outcome_judge :: "plan \<Rightarrow> oc_result \<Rightarrow> outcome_judgement" where
  "outcome_judge p r =
     (if or_outcome r = OBlocked then judgement DBlocked [] ''execution_blocked'' (or_summary r)
      else if or_outcome r = OFailed then judgement DFailed [] ''execution_failed'' (or_summary r)
      else (case or_governance r of
        None \<Rightarrow> judge_criteria p r
      | Some g \<Rightarrow>
          if \<not> governance_ok g
          then judgement DBlocked []
            (if gr_decision g = GRequireApproval then ''approval_required'' else ''governance_failure'')
            (gr_reason g)
          else judge_criteria p r))"

section \<open>Failure classes\<close>

datatype failure_class =
    RetryableTransport | UncertainSideEffect | PolicyBlocked | ApprovalNeeded | GovernanceFailure
  | DodEvidenceMissing | DodUnmetRecoverable | ExecutionFailed | BudgetExhausted | UnknownFailure

fun failure_value :: "failure_class \<Rightarrow> string" where
  "failure_value RetryableTransport = ''retryable_transport''"
| "failure_value UncertainSideEffect = ''uncertain_side_effect''"
| "failure_value PolicyBlocked = ''policy_blocked''"
| "failure_value ApprovalNeeded = ''approval_required''"
| "failure_value GovernanceFailure = ''governance_failure''"
| "failure_value DodEvidenceMissing = ''dod_evidence_missing''"
| "failure_value DodUnmetRecoverable = ''dod_unmet_recoverable''"
| "failure_value ExecutionFailed = ''execution_failed''"
| "failure_value BudgetExhausted = ''budget_exhausted''"
| "failure_value UnknownFailure = ''unknown''"

text \<open>The arguments of \<open>classify\<close>, all optional.\<close>

record failure_facts =
  ff_result :: "oc_result option"
  ff_judgement :: "outcome_judgement option"
  ff_transport :: "transport_error option"
  ff_policy_blocked :: bool
  ff_approval_required :: bool
  ff_budget_exhausted :: bool

definition no_facts :: failure_facts where
  "no_facts = \<lparr>ff_result = None, ff_judgement = None, ff_transport = None,
     ff_policy_blocked = False, ff_approval_required = False, ff_budget_exhausted = False\<rparr>"

definition ungoverned :: "oc_result option \<Rightarrow> bool" where
  "ungoverned r \<longleftrightarrow> (case r of None \<Rightarrow> False | Some x \<Rightarrow>
     (case or_governance x of None \<Rightarrow> False | Some g \<Rightarrow> \<not> governance_ok g))"

definition classify_failure :: "failure_facts \<Rightarrow> failure_class" where
  "classify_failure f =
     (if ff_budget_exhausted f then BudgetExhausted
      else if ff_policy_blocked f then PolicyBlocked
      else if ff_approval_required f then ApprovalNeeded
      else (case ff_transport f of
        Some e \<Rightarrow> (if te_uncertain_side_effect e then UncertainSideEffect
                   else if te_retryable e then RetryableTransport else ExecutionFailed)
      | None \<Rightarrow>
          if ungoverned (ff_result f) then GovernanceFailure
          else (case ff_judgement f of
            Some j \<Rightarrow> (if oj_reason_code j = ''dod_evidence_missing'' then DodEvidenceMissing
                       else if oj_reason_code j = ''dod_unmet'' then DodUnmetRecoverable
                       else if oj_reason_code j = ''execution_failed'' then ExecutionFailed
                       else UnknownFailure)
          | None \<Rightarrow> (case ff_result f of
                Some r \<Rightarrow> if or_outcome r = OFailed then ExecutionFailed else UnknownFailure
              | None \<Rightarrow> UnknownFailure))))"

definition allows_semantic_replan :: "failure_class \<Rightarrow> bool" where
  "allows_semantic_replan c \<longleftrightarrow> c = DodEvidenceMissing \<or> c = DodUnmetRecoverable"

section \<open>The scheduler\<close>

definition state_for :: "plan \<Rightarrow> string \<Rightarrow> node_state" where
  "state_for p n = (case find_row ne_node_id n (p_executions p) of None \<Rightarrow> NsPending | Some e \<Rightarrow> ne_state e)"

definition node_ready :: "plan \<Rightarrow> plan_node \<Rightarrow> bool" where
  "node_ready p n \<longleftrightarrow> state_for p (pn_id n) = NsPending
     \<and> list_all (\<lambda>d. state_for p d = NsCompleted) (pn_depends_on n)"

definition ready_nodes :: "plan \<Rightarrow> plan_node list" where
  "ready_nodes p = filter (node_ready p) (p_nodes p)"

section \<open>The replanner\<close>

datatype replan_disposition = RdKeep | RdRevised | RdBlocked

record replan_decision =
  rd_disposition :: replan_disposition
  rd_plan :: plan
  rd_reason :: string

definition replan :: "replan_disposition \<Rightarrow> plan \<Rightarrow> string \<Rightarrow> replan_decision" where
  "replan d p r = \<lparr>rd_disposition = d, rd_plan = p, rd_reason = r\<rparr>"

definition material_changes :: "truth_snapshot \<Rightarrow> truth_snapshot \<Rightarrow> string list" where
  "material_changes a b =
     (if ts_project_version a \<noteq> ts_project_version b then [''project_version''] else [])
     @ (if ts_project_status a \<noteq> ts_project_status b then [''project_status''] else [])
     @ (if ts_current_phase a \<noteq> ts_current_phase b then [''current_phase''] else [])
     @ (if ts_workspace a \<noteq> ts_workspace b then [''workspace''] else [])
     @ (if ts_workspace_exists a \<noteq> ts_workspace_exists b then [''workspace_exists''] else [])
     @ (if ts_project_constraints a \<noteq> ts_project_constraints b then [''project_constraints''] else [])"

definition project_constraint :: "string \<Rightarrow> plan_constraint res" where
  "project_constraint v = (let c = \<lparr>pc_description = v, pc_source = ''project''\<rparr> in
     if constraint_ok c then Inr c else Inl ValidationError)"

definition reconcile :: "plan \<Rightarrow> truth_snapshot \<Rightarrow> bool \<Rightarrow> replan_decision res" where
  "reconcile p fresh started =
     (if p_status p = PlBlocked then Inr (replan RdBlocked p ''Plan is already blocked.'')
      else if ts_project_id fresh \<noteq> ts_project_id (p_truth p)
      then Inr (replan RdBlocked p ''Planning truth project identity changed.'')
      else if ts_project_status fresh \<noteq> ''active''
      then Inr (replan RdBlocked p
             (''Project status is not executable: '' @ ts_project_status fresh @ ''.''))
      else if (ts_workspace (p_truth p) \<noteq> None \<or> ts_workspace fresh \<noteq> None)
              \<and> \<not> ts_workspace_exists fresh
      then Inr (replan RdBlocked p ''Planned workspace is no longer available.'')
      else
        (let changed = material_changes (p_truth p) fresh in
         if changed = [] then Inr (replan RdKeep p ''Planning truth is unchanged.'')
         else if started
         then Inr (replan RdBlocked p
                (''Planning truth changed after execution started; ''
                 @ ''review is required before semantic replanning.''))
         else if rb_max_replans (p_risk_budget p) \<le> p_revision p - 1
         then Inr (replan RdBlocked p ''Automatic replan budget is exhausted.'')
         else
           (let reason = ''Planning truth changed: '' @ py_join '', '' changed in
            bindE (mapE project_constraint (ts_project_constraints fresh)) (\<lambda>pcs.
            Inr (replan RdRevised
              (p\<lparr>p_revision := p_revision p + 1, p_replanned_from := Some (p_revision p),
                 p_replan_reason := Some reason, p_truth := fresh,
                 p_constraints := filter (\<lambda>c. pc_source c \<noteq> ''project'') (p_constraints p) @ pcs\<rparr>)
              reason)))))"

text \<open>The node executions after a corrective revision: completed work is kept.\<close>

definition revised_execution :: "plan \<Rightarrow> failure_class \<Rightarrow> node_execution \<Rightarrow> node_execution" where
  "revised_execution p fc e =
     (if ne_state e = NsCompleted then e
      else (case find_row pn_id (ne_node_id e) (rev (p_nodes p)) of
        None \<Rightarrow> e
      | Some n \<Rightarrow> if pn_kind n = NkAction
                  then e\<lparr>ne_state := NsPending, ne_last_failure_class := Some (failure_value fc)\<rparr>
                  else e))"

definition corrective_constraint :: "failure_class \<Rightarrow> evidence \<Rightarrow> plan_constraint" where
  "corrective_constraint fc ev =
     \<lparr>pc_description = py_take 2000 (''Corrective evidence ('' @ failure_value fc @ ''): '' @ ev_summary ev),
      pc_source = ''replan''\<rparr>"

definition reconcile_after_evidence :: "plan \<Rightarrow> failure_class \<Rightarrow> evidence \<Rightarrow> replan_decision" where
  "reconcile_after_evidence p fc ev =
     (if p_status p = PlBlocked then replan RdBlocked p ''Plan is already blocked.''
      else if \<not> allows_semantic_replan fc
      then replan RdBlocked p
             (''Failure class is not safe for semantic replan: '' @ failure_value fc @ ''.'')
      else if rb_max_replans (p_risk_budget p) \<le> p_revision p - 1
      then replan RdBlocked p ''Automatic replan budget is exhausted.''
      else
        (let reason = ''Evidence-driven replan after '' @ failure_value fc @ '': '' @ ev_summary ev;
             corrective = corrective_constraint fc ev in
         replan RdRevised
           (p\<lparr>p_revision := p_revision p + 1, p_replanned_from := Some (p_revision p),
              p_replan_reason := Some reason,
              p_constraints := (if corrective \<in> set (p_constraints p) then p_constraints p
                                else p_constraints p @ [corrective]),
              p_executions := map (revised_execution p fc) (p_executions p),
              p_evidence := (if list_all (\<lambda>i. ev_id i \<noteq> ev_id ev) (p_evidence p)
                             then p_evidence p @ [ev] else p_evidence p),
              p_judgement := None\<rparr>)
           reason))"

section \<open>Facts\<close>

lemma replan_simps [simp]:
  "rd_disposition (replan d p r) = d" "rd_plan (replan d p r) = p" "rd_reason (replan d p r) = r"
  by (simp_all add: replan_def)

lemma judgement_simps [simp]:
  "oj_disposition (judgement d cs c r) = d" "oj_criteria (judgement d cs c r) = cs"
  "oj_reason_code (judgement d cs c r) = c" "oj_reason (judgement d cs c r) = r"
  by (simp_all add: judgement_def)

lemma judge_criterion_satisfied:
  "cj_satisfied (judge_criterion d k) \<longleftrightarrow>
     (\<exists>c. map_of d (normalize_text k) = Some c \<and> has_evidence c)"
  by (auto simp: judge_criterion_def split: option.splits)

text \<open>The dictionary keeps the last report of each normalized criterion.\<close>

lemma map_of_by_criterion:
  "map_of (by_criterion cs) k = find_row (\<lambda>c. normalize_text (cv_criterion c)) k (rev cs)"
proof (induction cs rule: rev_induct)
  case Nil
  then show ?case by (simp add: by_criterion_def)
next
  case (snoc c cs)
  then show ?case by (simp add: by_criterion_def)
qed

lemma outcome_satisfied_iff:
  "oj_disposition (outcome_judge p r) = DSatisfied \<longleftrightarrow>
     or_outcome r = OCompleted \<and> (case or_governance r of None \<Rightarrow> True | Some g \<Rightarrow> governance_ok g)
     \<and> dod_criteria (p_dod p) \<noteq> []
     \<and> (\<forall>k\<in>set (dod_criteria (p_dod p)). \<exists>c.
          find_row (\<lambda>c. normalize_text (cv_criterion c)) (normalize_text k) (rev (or_criteria r)) = Some c
          \<and> cv_status c = ''verified'' \<and> (\<exists>ref\<in>set (cv_evidence_refs c). py_strip ref \<noteq> []))"
proof -
  have crit: "oj_disposition (judge_criteria p r) = DSatisfied \<longleftrightarrow> dod_criteria (p_dod p) \<noteq> []
     \<and> (\<forall>k\<in>set (dod_criteria (p_dod p)). \<exists>c.
          find_row (\<lambda>c. normalize_text (cv_criterion c)) (normalize_text k) (rev (or_criteria r)) = Some c
          \<and> cv_status c = ''verified'' \<and> (\<exists>ref\<in>set (cv_evidence_refs c). py_strip ref \<noteq> []))"
    by (simp add: judge_criteria_def Let_def list_all_iff judge_criterion_satisfied map_of_by_criterion
        has_evidence_def list_ex_iff)
  show ?thesis
    unfolding outcome_judge_def crit [symmetric]
    by (cases "or_outcome r"; cases "or_governance r") simp_all
qed

lemma revised_execution_id [simp]: "ne_node_id (revised_execution p fc e) = ne_node_id e"
  by (simp add: revised_execution_def split: option.splits)

lemma find_row_map:
  "(\<And>x. key (f x) = key x) \<Longrightarrow> find_row key k (map f xs) = map_option f (find_row key k xs)"
  by (induction xs) auto

text \<open>The graph of a plan that validates.\<close>

lemma plan_validate_graph:
  assumes "plan_validate p = Inr q"
  shows "q = p" "distinct (map pn_id (p_nodes p))" "graph_closed (plan_graph p)"
    "acyclic (edges (plan_graph p))"
    "p_status p = PlReady \<Longrightarrow> p_nodes p \<noteq> [] \<and> pn_kind (last (p_nodes p)) = NkVerificationGate"
    "int (length (p_nodes p)) \<le> rb_max_plan_nodes (p_risk_budget p)"
proof -
  from assms obtain u where v: "validate_graph_and_status p = Inr u" and q: "q = p"
    by (auto simp: plan_validate_def split: if_splits sum.splits)
  from v have d: "distinct (map pn_id (p_nodes p))"
    and len: "int (length (p_nodes p)) \<le> rb_max_plan_nodes (p_risk_budget p)"
    and known: "\<forall>n\<in>set (p_nodes p). set (pn_depends_on n) \<subseteq> pn_id ` set (p_nodes p)"
    and all: "\<exists>v. visit_all (plan_graph p) [] (map pn_id (p_nodes p)) = Inr v"
    and last: "p_status p = PlReady \<Longrightarrow> p_nodes p \<noteq> [] \<and> pn_kind (last (p_nodes p)) = NkVerificationGate"
    by (auto simp: validate_graph_and_status_def Let_def bindE_Inr_iff list_all_iff subset_iff
        split: if_splits)
  from known have c: "graph_closed (plan_graph p)"
    by (auto simp: graph_closed_def plan_graph_def image_image)
  have "map fst (plan_graph p) = map pn_id (p_nodes p)" by (simp add: plan_graph_def)
  with all c have "acyclic (edges (plan_graph p))"
    by (metis visit_all_ok_iff_acyclic)
  with q d c len last show "q = p" "distinct (map pn_id (p_nodes p))" "graph_closed (plan_graph p)"
    "acyclic (edges (plan_graph p))"
    "p_status p = PlReady \<Longrightarrow> p_nodes p \<noteq> [] \<and> pn_kind (last (p_nodes p)) = NkVerificationGate"
    "int (length (p_nodes p)) \<le> rb_max_plan_nodes (p_risk_budget p)" by simp_all
qed

lemma plan_graph_edge:
  assumes "distinct (map pn_id (p_nodes p))" "n \<in> set (p_nodes p)"
  shows "(pn_id n, d) \<in> edges (plan_graph p) \<longleftrightarrow> d \<in> set (pn_depends_on n)"
proof -
  have "distinct (map fst (plan_graph p))" using assms(1) by (simp add: plan_graph_def comp_def)
  moreover have "(pn_id n, pn_depends_on n) \<in> set (plan_graph p)"
    using assms(2) by (simp add: plan_graph_def)
  ultimately have "map_of (plan_graph p) (pn_id n) = Some (pn_depends_on n)"
    by (rule map_of_is_SomeI)
  then show ?thesis by (simp add: edges_def)
qed

text \<open>Work is always found: a node all of whose dependencies are done, while any is left.\<close>

lemma ready_nodes_progress:
  assumes "plan_validate p = Inr p"
    "\<forall>n\<in>set (p_nodes p). state_for p (pn_id n) \<in> {NsPending, NsCompleted}"
    "\<exists>n\<in>set (p_nodes p). state_for p (pn_id n) \<noteq> NsCompleted"
  shows "ready_nodes p \<noteq> []"
proof -
  note v = plan_validate_graph [OF assms(1)]
  define g where "g = plan_graph p"
  define left where "left = pn_id ` {n \<in> set (p_nodes p). state_for p (pn_id n) \<noteq> NsCompleted}"
  have wf: "wf ((edges g)\<inverse>)"
    using v(4) finite_edges [of g] unfolding g_def by (intro finite_acyclic_wf_converse)
  obtain m where "m \<in> left" using assms(3) unfolding left_def by blast
  with wf obtain i where i: "i \<in> left" "\<And>d. (d, i) \<in> (edges g)\<inverse> \<Longrightarrow> d \<notin> left"
    by (rule wfE_min) (rule that)
  from i(1) obtain n where n: "n \<in> set (p_nodes p)" "i = pn_id n" "state_for p (pn_id n) \<noteq> NsCompleted"
    unfolding left_def by blast
  have "state_for p d = NsCompleted" if d: "d \<in> set (pn_depends_on n)" for d
  proof -
    have "(d, i) \<in> (edges g)\<inverse>" unfolding g_def n(2) using d n(1) v(2) by (simp add: plan_graph_edge)
    then have "d \<notin> left" by (rule i(2))
    moreover have "d \<in> fst ` set (plan_graph p)"
      using v(3) n(1) d unfolding graph_closed_def plan_graph_def by force
    then have "d \<in> pn_id ` set (p_nodes p)" by (simp add: plan_graph_def image_image)
    ultimately show ?thesis unfolding left_def by blast
  qed
  moreover have "state_for p (pn_id n) = NsPending" using assms(2) n(1,3) by blast
  ultimately have "node_ready p n" by (simp add: node_ready_def list_all_iff)
  then have "n \<in> set (ready_nodes p)" unfolding ready_nodes_def using n(1) by simp
  then show ?thesis by (metis empty_iff empty_set)
qed

lemma project_constraints_made:
  "mapE project_constraint vs = Inr pcs \<Longrightarrow> pcs = map (\<lambda>v. \<lparr>pc_description = v, pc_source = ''project''\<rparr>) vs"
  by (induction vs arbitrary: pcs)
     (auto simp: bindE_Inr_iff project_constraint_def Let_def split: if_splits)

text \<open>The early returns of \<open>reconcile\<close>, and what is left behind them.\<close>

lemma reconcile_cases:
  assumes "reconcile p fresh started = Inr d"
  obtains (same) reason where "d = replan RdBlocked p reason \<or> d = replan RdKeep p reason"
    | (revised) pcs reason where "p_status p \<noteq> PlBlocked" "\<not> started" "ts_project_status fresh = ''active''"
        "ts_project_id fresh = ts_project_id (p_truth p)"
        "ts_workspace fresh \<noteq> None \<longrightarrow> ts_workspace_exists fresh"
        "p_revision p - 1 < rb_max_replans (p_risk_budget p)"
        "mapE project_constraint (ts_project_constraints fresh) = Inr pcs"
        "d = replan RdRevised
          (p\<lparr>p_revision := p_revision p + 1, p_replanned_from := Some (p_revision p),
             p_replan_reason := Some reason, p_truth := fresh,
             p_constraints := filter (\<lambda>c. pc_source c \<noteq> ''project'') (p_constraints p) @ pcs\<rparr>) reason"
proof -
  consider "p_status p = PlBlocked"
    | "p_status p \<noteq> PlBlocked" "ts_project_id fresh \<noteq> ts_project_id (p_truth p)"
    | "p_status p \<noteq> PlBlocked" "ts_project_id fresh = ts_project_id (p_truth p)"
      "ts_project_status fresh \<noteq> ''active''"
    | (on) "p_status p \<noteq> PlBlocked" "ts_project_id fresh = ts_project_id (p_truth p)"
      "ts_project_status fresh = ''active''" by blast
  then show ?thesis
  proof cases
    case on
    let ?gone = "(ts_workspace (p_truth p) \<noteq> None \<or> ts_workspace fresh \<noteq> None) \<and> \<not> ts_workspace_exists fresh"
    consider "?gone" | "\<not> ?gone" "material_changes (p_truth p) fresh = []"
      | "\<not> ?gone" "material_changes (p_truth p) fresh \<noteq> []" "started"
      | "\<not> ?gone" "material_changes (p_truth p) fresh \<noteq> []" "\<not> started"
        "rb_max_replans (p_risk_budget p) \<le> p_revision p - 1"
      | (rest) "\<not> ?gone" "material_changes (p_truth p) fresh \<noteq> []" "\<not> started"
        "\<not> rb_max_replans (p_risk_budget p) \<le> p_revision p - 1" by blast
    then show ?thesis
    proof cases
      case rest
      define why where "why = ''Planning truth changed: '' @ py_join '', '' (material_changes (p_truth p) fresh)"
      have eq: "reconcile p fresh started = bindE (mapE project_constraint (ts_project_constraints fresh)) (\<lambda>pcs.
          Inr (replan RdRevised
          (p\<lparr>p_revision := p_revision p + 1, p_replanned_from := Some (p_revision p),
             p_replan_reason := Some why, p_truth := fresh,
             p_constraints := filter (\<lambda>c. pc_source c \<noteq> ''project'') (p_constraints p) @ pcs\<rparr>) why))"
        unfolding reconcile_def Let_def why_def
        by (simp only: on rest if_False simp_thms)
      obtain pcs where pcs: "mapE project_constraint (ts_project_constraints fresh) = Inr pcs"
        and d: "d = replan RdRevised
          (p\<lparr>p_revision := p_revision p + 1, p_replanned_from := Some (p_revision p),
             p_replan_reason := Some why, p_truth := fresh,
             p_constraints := filter (\<lambda>c. pc_source c \<noteq> ''project'') (p_constraints p) @ pcs\<rparr>) why"
        by (rule bindE_InrE [OF assms [unfolded eq]], rule that, assumption) (rule sym, simp only: sum.inject)
      have ws: "ts_workspace fresh \<noteq> None \<longrightarrow> ts_workspace_exists fresh" using rest(1) by blast
      have rb: "p_revision p - 1 < rb_max_replans (p_risk_budget p)" using rest(4) by simp
      show ?thesis by (rule revised [OF on(1) rest(3) on(3) on(2) ws rb pcs d])
    qed (use assms same in \<open>simp_all only: reconcile_def Let_def on if_True if_False simp_thms sum.inject, blast+\<close>)
  qed (use assms same in \<open>simp_all only: reconcile_def if_True if_False simp_thms sum.inject, blast+\<close>)
qed

lemma after_evidence_revised_iff:
  "rd_disposition (reconcile_after_evidence p fc ev) = RdRevised \<longleftrightarrow>
     p_status p \<noteq> PlBlocked \<and> allows_semantic_replan fc
     \<and> p_revision p - 1 < rb_max_replans (p_risk_budget p)"
  by (auto simp: reconcile_after_evidence_def Let_def)

lemma after_evidence_plan:
  "rd_disposition (reconcile_after_evidence p fc ev) = RdRevised \<Longrightarrow>
   rd_plan (reconcile_after_evidence p fc ev) =
     p\<lparr>p_revision := p_revision p + 1, p_replanned_from := Some (p_revision p),
       p_replan_reason := Some (rd_reason (reconcile_after_evidence p fc ev)),
       p_constraints := (if corrective_constraint fc ev \<in> set (p_constraints p) then p_constraints p
                         else p_constraints p @ [corrective_constraint fc ev]),
       p_executions := map (revised_execution p fc) (p_executions p),
       p_evidence := (if list_all (\<lambda>i. ev_id i \<noteq> ev_id ev) (p_evidence p)
                      then p_evidence p @ [ev] else p_evidence p),
       p_judgement := None\<rparr>"
  unfolding after_evidence_revised_iff by (simp add: reconcile_after_evidence_def Let_def)

lemma after_evidence_blocked:
  "rd_disposition (reconcile_after_evidence p fc ev) \<noteq> RdRevised \<Longrightarrow>
   rd_disposition (reconcile_after_evidence p fc ev) = RdBlocked
   \<and> rd_plan (reconcile_after_evidence p fc ev) = p"
  unfolding after_evidence_revised_iff by (auto simp: reconcile_after_evidence_def Let_def)

lemma state_for_revised:
  assumes "rd_disposition (reconcile_after_evidence p fc ev) = RdRevised"
  shows "state_for (rd_plan (reconcile_after_evidence p fc ev)) n =
    (case find_row ne_node_id n (p_executions p) of None \<Rightarrow> NsPending
     | Some e \<Rightarrow> ne_state (revised_execution p fc e))"
  by (simp add: state_for_def after_evidence_plan [OF assms] find_row_map split: option.splits)

section \<open>Properties\<close>

text \<open>C21. The scheduler makes progress: on a plan that validates, while every node is pending or
  completed and some node is not completed, at least one node is ready. The proof takes a
  minimal unfinished node of the acyclic dependency graph.\<close>

theorem scheduler_progress:
  assumes "plan_validate p = Inr p"
    "\<forall>n\<in>set (p_nodes p). state_for p (pn_id n) \<in> {NsPending, NsCompleted}"
    "\<exists>n\<in>set (p_nodes p). state_for p (pn_id n) \<noteq> NsCompleted"
  shows "ready_nodes p \<noteq> [] \<and>
    (\<forall>n\<in>set (ready_nodes p). state_for p (pn_id n) = NsPending
       \<and> (\<forall>d\<in>set (pn_depends_on n). state_for p d = NsCompleted))"
  using ready_nodes_progress [OF assms]
  by (auto simp: ready_nodes_def node_ready_def list_all_iff)

definition demo_truth :: truth_snapshot where
  "demo_truth = \<lparr>ts_project_id = ''p'', ts_project_version = 1, ts_project_status = ''active'',
     ts_current_phase = None, ts_workspace = None, ts_workspace_exists = False,
     ts_project_constraints = [], ts_observed_at = None\<rparr>"

definition demo_request :: planning_request where
  "demo_request = \<lparr>pr_request_id = ''r'', pr_project_id = ''p'', pr_outcome = ''ship'',
     pr_definition_of_done = None, pr_constraints = [], pr_risk_budget = default_risk_budget,
     pr_deliverables = [], pr_risk_level = 0, pr_approval_required = False, pr_workspace = None,
     pr_capability_requirements = [Planning]\<rparr>"

definition demo_plan :: plan where
  "demo_plan = plan_of_request demo_request demo_truth"

lemma demo_plan_valid: "plan_validate demo_plan = Inr demo_plan"
  unfolding demo_plan_def by code_simp

theorem scheduler_progress_witness: "ready_nodes demo_plan \<noteq> []"
proof -
  have "\<forall>n\<in>set (p_nodes demo_plan). state_for demo_plan (pn_id n) \<in> {NsPending, NsCompleted}"
    "\<exists>n\<in>set (p_nodes demo_plan). state_for demo_plan (pn_id n) \<noteq> NsCompleted"
    unfolding demo_plan_def by code_simp+
  from scheduler_progress [OF demo_plan_valid this] show ?thesis ..
qed

text \<open>C10. A corrective revision after an execution: it happens exactly when the plan is not
  blocked, the failure class allows semantic replanning and the replan budget is not used up;
  otherwise the plan is returned unchanged and the decision is to block. A revision increments
  the revision within \<open>max_replans + 1\<close>, keeps the nodes, the goal, the definition of done, the
  truth and all earlier evidence and constraints, and never reopens a completed node.\<close>

theorem corrective_revision:
  "let d = reconcile_after_evidence p fc ev; q = rd_plan d in
     (if p_status p \<noteq> PlBlocked \<and> allows_semantic_replan fc
         \<and> p_revision p - 1 < rb_max_replans (p_risk_budget p)
      then rd_disposition d = RdRevised \<and> p_revision q = p_revision p + 1
         \<and> p_revision q \<le> rb_max_replans (p_risk_budget q) + 1
         \<and> p_replanned_from q = Some (p_revision p)
         \<and> p_nodes q = p_nodes p \<and> p_goal q = p_goal p \<and> p_dod q = p_dod p \<and> p_truth q = p_truth p
         \<and> set (p_evidence p) \<subseteq> set (p_evidence q) \<and> set (p_constraints p) \<subseteq> set (p_constraints q)
         \<and> corrective_constraint fc ev \<in> set (p_constraints q)
         \<and> (\<forall>n. state_for q n = NsCompleted \<longleftrightarrow> state_for p n = NsCompleted)
      else rd_disposition d = RdBlocked \<and> q = p)"
proof (cases "rd_disposition (reconcile_after_evidence p fc ev) = RdRevised")
  case True
  note c = True [unfolded after_evidence_revised_iff]
  have "state_for (rd_plan (reconcile_after_evidence p fc ev)) n = NsCompleted
      \<longleftrightarrow> state_for p n = NsCompleted" for n
    unfolding state_for_revised [OF True]
    by (auto simp: state_for_def revised_execution_def split: option.splits)
  with c True show ?thesis
    by (simp add: Let_def after_evidence_plan) (auto simp: subset_iff)
next
  case False
  with after_evidence_blocked [OF False] show ?thesis
    unfolding after_evidence_revised_iff Let_def by (simp only: if_False simp_thms)
qed

text \<open>Planning truth: a plan is revised for changed truth only before execution, for an active
  project of the same identity whose workspace exists, and within the replan budget; the revision
  records the fresh truth and replaces exactly the project constraints. In every other case the
  plan comes back unchanged.\<close>

theorem truth_revision:
  assumes "reconcile p fresh started = Inr d"
  shows "if rd_disposition d = RdRevised
    then \<not> started \<and> p_status p = PlReady \<and> ts_project_status fresh = ''active''
      \<and> ts_project_id fresh = ts_project_id (p_truth p)
      \<and> (ts_workspace fresh \<noteq> None \<longrightarrow> ts_workspace_exists fresh)
      \<and> p_truth (rd_plan d) = fresh \<and> p_revision (rd_plan d) = p_revision p + 1
      \<and> p_revision (rd_plan d) \<le> rb_max_replans (p_risk_budget (rd_plan d)) + 1
      \<and> p_nodes (rd_plan d) = p_nodes p \<and> p_executions (rd_plan d) = p_executions p
      \<and> filter (\<lambda>c. pc_source c \<noteq> ''project'') (p_constraints (rd_plan d))
         = filter (\<lambda>c. pc_source c \<noteq> ''project'') (p_constraints p)
      \<and> map pc_description (filter (\<lambda>c. pc_source c = ''project'') (p_constraints (rd_plan d)))
         = ts_project_constraints fresh
    else rd_plan d = p"
  using assms
proof (cases rule: reconcile_cases)
  case (revised pcs reason)
  have pcs: "filter (\<lambda>c. pc_source c \<noteq> ''project'') pcs = []"
    "filter (\<lambda>c. pc_source c = ''project'') pcs = pcs"
    "map pc_description pcs = ts_project_constraints fresh"
    unfolding project_constraints_made [OF revised(7)]
    by (simp_all add: filter_empty_conv filter_id_conv comp_def)
  have "p_status p = PlReady" using revised(1) by (cases "p_status p") simp_all
  then show ?thesis using revised(2-6) pcs unfolding revised(8) by (simp add: filter_filter)
qed auto

theorem truth_revision_witness:
  "p_truth (rd_plan (replan RdRevised
      (demo_plan\<lparr>p_revision := 2, p_replanned_from := Some 1,
         p_replan_reason := Some ''Planning truth changed: current_phase'',
         p_truth := demo_truth\<lparr>ts_current_phase := Some ''beta''\<rparr>, p_constraints := []\<rparr>)
      ''Planning truth changed: current_phase'')) = demo_truth\<lparr>ts_current_phase := Some ''beta''\<rparr>"
proof -
  have "reconcile demo_plan (demo_truth\<lparr>ts_current_phase := Some ''beta''\<rparr>) False = Inr (replan RdRevised
      (demo_plan\<lparr>p_revision := 2, p_replanned_from := Some 1,
         p_replan_reason := Some ''Planning truth changed: current_phase'',
         p_truth := demo_truth\<lparr>ts_current_phase := Some ''beta''\<rparr>, p_constraints := []\<rparr>)
      ''Planning truth changed: current_phase'')"
    unfolding demo_plan_def by code_simp
  from truth_revision [OF this] show ?thesis by simp
qed

end
