(* ===== verification/AsyncService.thy ===== *)
theory AsyncService
  imports TaskService AsyncRepository Approvals Policy Judging
begin

text \<open>
  \<open>app/async_tasks/service.py\<close>: accepting a request (idempotent replay, policy, planning, the
  task, its run, its plan and its approval) and resolving approvals. A service runs inside one
  database session; \<open>sessionM\<close> around a call is the session of the API.

  The settings the service is built with are the record \<open>service\<close>: the workspace roots and
  the file system behind them, the owner's Telegram identifier, and the capability the router of
  \<open>app/capabilities/router.py\<close> finds for a goal, which is not modelled.
\<close>

record service =
  sv_fs :: fs
  sv_roots :: "path list"
  sv_owner :: "string option"
  sv_route :: "string \<Rightarrow> capability_kind"

section \<open>Comparing stored requests\<close>

text \<open>Python dictionaries compare without regard to order; canonical documents sort their keys.\<close>

fun json_canon :: "json \<Rightarrow> json" where
  "json_canon (JObj kvs) = JObj (sort_key fst (map (\<lambda>(k, v). (k, json_canon v)) kvs))"
| "json_canon (JList vs) = JList (map json_canon vs)"
| "json_canon j = j"

definition dict_canon :: "(string \<times> json) list \<Rightarrow> (string \<times> json) list" where
  "dict_canon d = sort_key fst (map (\<lambda>(k, v). (k, json_canon v)) d)"

text \<open>\<open>str(value)\<close> of a stored value; the code stores text under the keys it is applied to.\<close>

fun json_str :: "env \<Rightarrow> json \<Rightarrow> string" where
  "json_str E (JStr s) = s"
| "json_str E (JInt i) = str_of_int i"
| "json_str E (JBool b) = (if b then ''True'' else ''False'')"
| "json_str E JNull = ''None''"
| "json_str E j = e_dumps E j"

definition dict_get :: "string \<Rightarrow> (string \<times> json) list \<Rightarrow> json" where
  "dict_get k d = (case map_of d k of None \<Rightarrow> JNull | Some v \<Rightarrow> v)"

section \<open>Idempotency keys\<close>

text \<open>The key a request is stored under and the legacy key it may have been stored under.\<close>

definition service_keys :: "env \<Rightarrow> async_create \<Rightarrow> string \<Rightarrow> string \<times> string option" where
  "service_keys E req provided =
     (if ac_source_channel req = ''telegram''
      then (if truthy (ac_source_chat_id req) \<and> truthy (ac_source_message_id req)
            then (telegram_idempotency_key E (the (ac_source_chat_id req)) (the (ac_source_message_id req)),
                  Some (legacy_telegram_idempotency_key E (the (ac_source_chat_id req))
                          (the (ac_source_message_id req))))
            else if is_pseudonymous_key provided then (provided, None)
            else (''telegram:'' @ e_sha256 E provided, Some provided))
      else (provided, None))"

definition find_replayed :: "string \<Rightarrow> string option \<Rightarrow> string \<Rightarrow> db \<Rightarrow> run_row option" where
  "find_replayed key legacy provided db =
     (let a = run_by_key key db;
          b = (if a = None \<and> truthy legacy \<and> legacy \<noteq> Some key then run_by_key (the legacy) db else a)
      in if b = None \<and> provided \<noteq> key \<and> Some provided \<noteq> legacy then run_by_key provided db else b)"

definition mismatch :: "py_error" where
  "mismatch = AsyncTaskIdempotencyConflict ''idempotency replay payload mismatch''"

text \<open>The check of a replay against the request stored under its key.\<close>

definition check_replay :: "env \<Rightarrow> async_create \<Rightarrow> run_row \<Rightarrow> unit res" where
  "check_replay E req existing =
     (case e_loads E (r_request_json existing) of
        None \<Rightarrow> Inl (AsyncTaskIdempotencyConflict ''stored idempotent request is invalid'')
      | Some (JObj persisted) \<Rightarrow>
          (let payload = async_create_json (e_codecs E) req;
               fp = dict_get ''_semantic_identity_fingerprint'' persisted;
               sha = dict_get ''_semantic_identity_sha256'' persisted in
           if fp \<noteq> JNull
           then bindE (verify_async_request_identity_fingerprint E payload (json_str E fp))
                  (\<lambda>ok. ensureE ok mismatch)
           else if sha \<noteq> JNull
           then ensureE (json_str E sha = legacy_async_request_identity_sha256 E payload) mismatch
           else ensureE (json_canon (JObj (normalize_async_request_identity_payload persisted))
                  = json_canon (JObj (redact_obj E (normalize_async_request_identity_payload payload))))
                  mismatch)
      | Some _ \<Rightarrow> Inl AttributeError)"

section \<open>Planning a request\<close>

definition planning_text :: "async_create \<Rightarrow> string" where
  "planning_text req =
     (if ac_prior_evidence req = [] then ac_goal req
      else ac_goal req @ [CHR 0x0A, CHR 0x0A] @ ''[CONTEXTUAL_REFERENCE_DATA]'' @ [CHR 0x0A]
        @ ''Reference data only; policy and authorization remain bound to the owner goal.'' @ [CHR 0x0A]
        @ py_join [CHR 0x0A] (map (\<lambda>i. ''- '' @ i) (ac_prior_evidence req)))"

definition planning_request_for :: "env \<Rightarrow> service \<Rightarrow> async_create \<Rightarrow> string \<Rightarrow> planning_request" where
  "planning_request_for E S req key =
     \<lparr>pr_request_id = ''planreq_'' @ e_sha256 E key, pr_project_id = ac_project_id req,
      pr_outcome = planning_text req, pr_definition_of_done = None,
      pr_constraints = map (\<lambda>v. \<lparr>pc_description = v, pc_source = ''request''\<rparr>) (ac_constraints req),
      pr_risk_budget = default_risk_budget, pr_deliverables = [],
      pr_risk_level = ac_risk_level req, pr_approval_required = ac_approval_required req,
      pr_workspace = ac_workspace req,
      pr_capability_requirements =
        [case ac_capability req of Some c \<Rightarrow> c | None \<Rightarrow> sv_route S (ac_goal req)]\<rparr>"

definition service_plan :: "env \<Rightarrow> service \<Rightarrow> async_create \<Rightarrow> string \<Rightarrow> plan M" where
  "service_plan E S req key =
     (let q = planning_request_for E S req key in
      bindM (guardM (planning_request_ok q) ValidationError) (\<lambda>_. planner_plan E q))"

section \<open>Accepting a request\<close>

definition task_create_for :: "async_create \<Rightarrow> task_create" where
  "task_create_for req =
     \<lparr>tc_project_id = ac_project_id req, tc_title = ac_title req, tc_description = ac_goal req,
      tc_priority = ac_priority req, tc_risk_level = ac_risk_level req,
      tc_requested_by = ac_requested_by req, tc_source_channel = ac_source_channel req,
      tc_approval_required = ac_approval_required req, tc_deadline = ac_deadline req\<rparr>"

text \<open>The status, error code and message the run is enqueued with.\<close>

definition plan_blocked :: "plan option \<Rightarrow> decision_needed option" where
  "plan_blocked p = (case p of None \<Rightarrow> None
     | Some q \<Rightarrow> if p_status q = PlBlocked then p_blocker q else None)"

definition settle_task ::
  "env \<Rightarrow> string \<Rightarrow> async_decision \<Rightarrow> plan option \<Rightarrow> (run_status \<times> string option \<times> string option) M" where
  "settle_task E tid decision plan =
     (if \<not> ad_allowed decision
      then bindM (task_transition E tid TBlocked
                    (Some (ad_reason_code decision @ '': '' @ ad_message decision)) None) (\<lambda>_.
           retM (RBlocked, Some (ad_reason_code decision), Some (ad_message decision)))
      else if (case plan of None \<Rightarrow> False | Some p \<Rightarrow> p_status p = PlBlocked)
      then bindM (task_transition E tid TPlanning None None) (\<lambda>_.
           case plan_blocked plan of
             None \<Rightarrow> raiseM AssertionError
           | Some b \<Rightarrow>
             bindM (task_transition E tid TBlocked (Some (dn_reason b)) None) (\<lambda>_.
             retM (RBlocked, Some ''planning_blocked'', Some (dn_reason b @ '' '' @ dn_question b))))
      else bindM (task_transition E tid TPlanning None None) (\<lambda>_.
           bindM (task_transition E tid TQueued None None) (\<lambda>_.
           retM (RPending, None, None))))"

definition plan_if_allowed ::
  "env \<Rightarrow> service \<Rightarrow> async_create \<Rightarrow> string \<Rightarrow> async_decision \<Rightarrow> plan option M" where
  "plan_if_allowed E S req key decision =
     (if ad_allowed decision
      then bindM (service_plan E S req key) (\<lambda>p. retM (Some p)) else retM None)"

definition store_plan :: "run_row \<Rightarrow> task_row \<Rightarrow> plan option \<Rightarrow> unit M" where
  "store_plan run task plan =
     (case plan of None \<Rightarrow> retM ()
      | Some p \<Rightarrow> bindM (plan_save (r_id run) (t_id task) p) (\<lambda>_. retM ()))"

definition request_approval ::
  "env \<Rightarrow> async_create \<Rightarrow> async_decision \<Rightarrow> run_row \<Rightarrow> task_row \<Rightarrow> run_status \<Rightarrow> unit M" where
  "request_approval E req decision run task st =
     (if ac_approval_required req \<and> st = RPending
      then bindM (approval_create E (r_id run) (t_id task) (ac_goal req) (ac_risk_level req)
             (ad_message decision)
             [(''title'', JStr (ac_title req)), (''goal'', JStr (ac_goal req))]
             ''single_action'' 900) (\<lambda>_. retM ())
      else retM ())"

definition accept_new :: "env \<Rightarrow> service \<Rightarrow> async_create \<Rightarrow> string \<Rightarrow> async_accepted M" where
  "accept_new E S req key =
     bindM (liftE (async_policy_evaluate (sv_fs S) (sv_roots S) req)) (\<lambda>decision.
     bindM (liftE (task_create_validate (task_create_for req))) (\<lambda>tc.
     bindM (task_create_op E tc) (\<lambda>task.
     bindM (plan_if_allowed E S req key decision) (\<lambda>plan.
     bindM (settle_task E (t_id task) decision plan) (\<lambda>(st, code, msg).
     bindM (run_enqueue E (t_id task) req key None st code msg) (\<lambda>run.
     bindM (store_plan run task plan) (\<lambda>_.
     bindM (request_approval E req decision run task st) (\<lambda>_.
     retM \<lparr>aa_task_id = t_id task, aa_run_id = r_id run, aa_status = r_status run,
           aa_replayed = False\<rparr>))))))))"

definition provided_key :: "env \<Rightarrow> async_create \<Rightarrow> string M" where
  "provided_key E req = (case ac_idempotency_key req of
      Some k \<Rightarrow> retM (py_strip k)
    | None \<Rightarrow> bindM (uuidM E) (\<lambda>u. retM (''api:'' @ u)))"

definition service_create :: "env \<Rightarrow> service \<Rightarrow> async_create \<Rightarrow> async_accepted M" where
  "service_create E S req =
     bindM (provided_key E req) (\<lambda>provided.
     let (key, legacy) = service_keys E req provided in
     bindM (getM (\<lambda>w. find_replayed key legacy provided (w_db w))) (\<lambda>existing.
     case existing of
       Some r \<Rightarrow>
         bindM (liftE (check_replay E req r)) (\<lambda>_.
         retM \<lparr>aa_task_id = r_task_id r, aa_run_id = r_id r, aa_status = r_status r,
               aa_replayed = True\<rparr>)
     | None \<Rightarrow>
         accept_new E S (if ac_idempotency_key req \<noteq> Some key
                         then req\<lparr>ac_idempotency_key := Some key\<rparr> else req) key))"

section \<open>Resolving approvals\<close>

definition require_owner_approval_actor ::
  "env \<Rightarrow> service \<Rightarrow> string \<Rightarrow> string \<Rightarrow> bool \<Rightarrow> unit res" where
  "require_owner_approval_actor E S request_json resolved_by approved =
     (case sv_owner S of
        None \<Rightarrow> Inr ()
      | Some owner \<Rightarrow>
          if \<not> approved then Inr ()
          else bindE (case e_loads E request_json of
                 None \<Rightarrow> Inr JNull
               | Some (JObj d) \<Rightarrow> Inr (dict_get ''source_channel'' d)
               | Some _ \<Rightarrow> Inl AttributeError) (\<lambda>channel.
            if channel \<noteq> JStr ''telegram'' then Inr ()
            else ensureE (resolved_by = owner \<or> resolved_by = ''telegram:'' @ owner)
              (ValueError ''Only the configured Telegram owner can approve this action.'')))"

text \<open>What an approval releases: a blocked run goes back to pending, its task is queued.\<close>

definition resume_run :: "env \<Rightarrow> run_row \<Rightarrow> approval_row \<Rightarrow> unit M" where
  "resume_run E run a =
     bindM (whenM (r_status run = RBlocked)
       (bindM (nowM E) (\<lambda>now.
        bindM (run_transition E (ap_workflow_id a) RPending (utc_dt now) no_patch) (\<lambda>_. retM ())))) (\<lambda>_.
     bindM (task_get (ap_task_id a)) (\<lambda>task.
     whenM (t_status task \<noteq> TQueued)
       (bindM (task_transition E (ap_task_id a) TQueued None None) (\<lambda>_. retM ()))))"

definition resolve_approval ::
  "env \<Rightarrow> service \<Rightarrow> string \<Rightarrow> string \<Rightarrow> bool \<Rightarrow> string \<Rightarrow> approval_row M" where
  "resolve_approval E S aid resolved_by approved action =
     bindM (getM (find_approval aid)) (\<lambda>found.
     case found of
       None \<Rightarrow> raiseM (ValueError ''Approval not found.'')
     | Some a \<Rightarrow>
         bindM (run_get (ap_workflow_id a)) (\<lambda>run.
         bindM (liftE (require_owner_approval_actor E S (r_request_json run) resolved_by approved)) (\<lambda>_.
         bindM (guardM (\<not> (approved \<and> r_status run \<notin> {RPending, RBlocked}))
                  (ValueError ''Approval can only resume a pending or blocked run.'')) (\<lambda>_.
         bindM (approval_resolve E aid (ap_workflow_id a) (ap_task_id a) action resolved_by approved) (\<lambda>res.
         bindM (whenM approved (resume_run E run a)) (\<lambda>_.
         retM res))))))"

definition resolve_latest_approval ::
  "env \<Rightarrow> service \<Rightarrow> string \<Rightarrow> string \<Rightarrow> string \<Rightarrow> bool \<Rightarrow> run_row M" where
  "resolve_latest_approval E S chat sess resolved_by approved =
     bindM (list_pending_telegram_approvals E chat sess 2) (\<lambda>matches.
     case matches of
       [] \<Rightarrow> raiseM (ValueError ''No pending approval matches this Telegram session.'')
     | [a] \<Rightarrow>
         bindM (resolve_approval E S (ap_id a) resolved_by approved (ap_action a)) (\<lambda>_.
         run_get (ap_workflow_id a))
     | _ \<Rightarrow> raiseM (ValueError
         (''Multiple pending approvals match this Telegram session; '' @ ''explicit approval ID required.'')))"

section \<open>The services refine the tables\<close>

text \<open>
  The step relation of the whole database: every operation of the services and of the worker is
  a sequence of these steps.
\<close>

inductive system_step :: "env \<Rightarrow> db \<Rightarrow> db \<Rightarrow> bool" for E where
  run: "run_table E d d' \<Longrightarrow> system_step E d d'"
| task: "task_table d d' \<Longrightarrow> system_step E d d'"
| approval: "approval_table E d d' \<Longrightarrow> system_step E d d'"
| workflow: "workflow_table d d' \<Longrightarrow> system_step E d d'"

named_theorems sys "operations refine the system"

lemma sys_run: "within (run_table E) m \<Longrightarrow> within (system_step E) m"
  by (erule within_mono) (rule system_step.run)

lemma sys_task: "within task_table m \<Longrightarrow> within (system_step E) m"
  by (erule within_mono) (rule system_step.task)

lemma sys_approval: "within (approval_table E) m \<Longrightarrow> within (system_step E) m"
  by (erule within_mono) (rule system_step.approval)

lemma sys_workflow: "within workflow_table m \<Longrightarrow> within (system_step E) m"
  by (erule within_mono) (rule system_step.workflow)

lemmas [sys] = run_ops [THEN sys_run] task_create_refines [THEN sys_task]
  task_transition_refines [THEN sys_task] task_cancel_refines [THEN sys_task] task_get_refines
  approval_create_refines [THEN sys_approval] approval_resolve_refines [THEN sys_approval]
  plan_save_refines [THEN sys_workflow]

lemma keep_list_approvals [keep]: "within R (list_pending_telegram_approvals E chat sess n)"
  unfolding list_pending_telegram_approvals_def by (intro keep)

lemma keep_list3 [keep]:
  "within R m \<Longrightarrow> (\<And>x. within R (f x)) \<Longrightarrow> (\<And>x y ys. within R (g x y ys)) \<Longrightarrow>
   within R (case xs of [] \<Rightarrow> m | [x] \<Rightarrow> f x | x # y # ys \<Rightarrow> g x y ys)"
  by (cases xs rule: list.exhaust [case_product list.exhaust]) (simp_all split: list.splits)

lemma settle_task_refines [sys]: "within (system_step E) (settle_task E tid dec plan)"
  unfolding settle_task_def by (intro keep sys)

lemma service_plan_reads [keep]: "within R (service_plan E S req key)"
  unfolding service_plan_def by (intro keep)

lemma plan_if_allowed_reads [keep]: "within R (plan_if_allowed E S req key dec)"
  unfolding plan_if_allowed_def by (intro keep)

lemma store_plan_refines: "within workflow_table (store_plan run task plan)"
  unfolding store_plan_def by (intro keep plan_save_refines)

lemma request_approval_refines: "within (approval_table E) (request_approval E req dec run task st)"
  unfolding request_approval_def by (intro keep approval_create_refines)

lemmas [sys] = store_plan_refines [THEN sys_workflow] request_approval_refines [THEN sys_approval]

lemma accept_new_refines [sys]: "within (system_step E) (accept_new E S req key)"
  unfolding accept_new_def by (intro keep sys)

lemma service_create_refines [sys]: "within (system_step E) (service_create E S req)"
  unfolding service_create_def provided_key_def by (intro keep sys)

lemma resolve_approval_refines [sys]: "within (system_step E) (resolve_approval E S aid by ok action)"
  unfolding resolve_approval_def resume_run_def by (intro keep sys)

lemma resolve_latest_refines [sys]:
  "within (system_step E) (resolve_latest_approval E S chat sess by ok)"
  unfolding resolve_latest_approval_def by (intro keep sys)

section \<open>The invariant of the database\<close>

definition workflows_ok :: "db \<Rightarrow> bool" where
  "workflows_ok d \<longleftrightarrow> keys_distinct wf_id (db_workflows d)"

definition db_ok :: "db \<Rightarrow> bool" where
  "db_ok d \<longleftrightarrow> runs_ok d \<and> tasks_ok d \<and> approvals_ok d \<and> workflows_ok d"

text \<open>Each component's steps leave the other components' tables alone.\<close>

lemma run_table_frame: "run_table E d d' \<Longrightarrow>
    db_tasks d' = db_tasks d \<and> db_approvals d' = db_approvals d \<and> db_workflows d' = db_workflows d
    \<and> db_projects d' = db_projects d"
  by (erule run_table.cases) simp_all

lemma task_table_frame: "task_table d d' \<Longrightarrow>
    db_runs d' = db_runs d \<and> db_approvals d' = db_approvals d \<and> db_workflows d' = db_workflows d
    \<and> db_projects d' = db_projects d"
  by (erule task_table.cases) simp_all

lemma approval_table_frame: "approval_table E d d' \<Longrightarrow>
    db_runs d' = db_runs d \<and> db_tasks d' = db_tasks d \<and> db_workflows d' = db_workflows d
    \<and> db_projects d' = db_projects d"
  by (erule approval_table.cases) simp_all

lemma workflow_table_frame: "workflow_table d d' \<Longrightarrow>
    db_runs d' = db_runs d \<and> db_tasks d' = db_tasks d \<and> db_approvals d' = db_approvals d
    \<and> db_projects d' = db_projects d"
  by (erule workflow_table.cases) simp_all

lemma workflows_ok_step: "workflow_table d d' \<Longrightarrow> workflows_ok d \<Longrightarrow> workflows_ok d'"
  by (erule workflow_table.cases) (auto simp: workflows_ok_def row_simps find_row_None)

lemma db_ok_step:
  assumes "system_step E d d'" "db_ok d"
  shows "db_ok d'"
  using assms(1)
proof cases
  case run
  then show ?thesis using assms(2) run_table_frame [OF run] runs_ok_step [OF run]
    by (simp add: db_ok_def tasks_ok_def approvals_ok_def workflows_ok_def)
next
  case task
  then show ?thesis using assms(2) task_table_frame [OF task] tasks_ok_step [OF task] task_table_keeps_tasks [OF task]
    by (simp add: db_ok_def runs_ok_def approvals_ok_def workflows_ok_def)
next
  case approval
  then show ?thesis using assms(2) approval_table_frame [OF approval] approvals_ok_step [OF approval]
    by (simp add: db_ok_def tasks_ok_def runs_ok_def workflows_ok_def)
next
  case workflow
  then show ?thesis using assms(2) workflow_table_frame [OF workflow] workflows_ok_step [OF workflow]
    by (simp add: db_ok_def tasks_ok_def runs_ok_def approvals_ok_def)
qed

lemma db_ok_steps: "(system_step E)\<^sup>*\<^sup>* d d' \<Longrightarrow> db_ok d \<Longrightarrow> db_ok d'"
  by (induction rule: rtranclp_induct) (auto intro: db_ok_step)

lemma db_ok_run: "within (system_step E) m \<Longrightarrow> m w = (x, w') \<Longrightarrow> db_ok (w_db w) \<Longrightarrow> db_ok (w_db w')"
  by (blast dest: withinD db_ok_steps)

text \<open>What a step may do to a run: nothing, or one of the repository's row changes.\<close>

lemma system_step_run:
  assumes "system_step E d d'" "db_ok d" "find_row r_id i (db_runs d) = Some r"
  obtains r' where "find_row r_id i (db_runs d') = Some r'" "r' = r \<or> run_step E r r'"
  using assms(1)
proof cases
  case run
  from run show ?thesis
  proof cases
    case (written s s')
    have k: "r_id s' = r_id s" using written(3) by (simp add: run_step_keys)
    have s: "find_row r_id (r_id s) (db_runs d) = Some s"
      using written(2) assms(2) by (simp add: db_ok_def runs_ok_def find_row_distinct)
    show ?thesis
    proof (cases "i = r_id s")
      case True
      with s assms(3) have "s = r" by simp
      with written True k s show ?thesis by (intro that [of s']) (simp_all add: row_simps)
    next
      case False
      with written k assms(3) show ?thesis by (intro that [of r]) (simp_all add: row_simps)
    qed
  next
    case (inserted rid tid req norm body ts st code msg)
    with assms(3) show ?thesis by (intro that [of r]) (simp_all add: find_row_append)
  qed
next
  case task
  with assms(3) show ?thesis by (intro that [of r]) (simp_all add: task_table_frame)
next
  case approval
  then have "db_runs d' = db_runs d" by (blast dest: approval_table_frame)
  with assms(3) show ?thesis by (intro that [of r]) simp_all
next
  case workflow
  with assms(3) show ?thesis by (intro that [of r]) (simp_all add: workflow_table_frame)
qed

text \<open>A completed or cancelled run keeps its status for ever, and versions never decrease.\<close>

lemma run_step_settled:
  "run_step E r r' \<Longrightarrow> r_status r = RCompleted \<or> r_status r = RCancelled \<Longrightarrow> r_status r' = r_status r"
  by (erule run_step.cases) (auto simp: claimable_def)

lemma system_steps_run:
  assumes "(system_step E)\<^sup>*\<^sup>* d d'" "db_ok d" "find_row r_id i (db_runs d) = Some r"
  shows "\<exists>r'. find_row r_id i (db_runs d') = Some r' \<and> r_version r \<le> r_version r'
    \<and> r_task_id r' = r_task_id r \<and> r_idempotency_key r' = r_idempotency_key r
    \<and> r_request_json r' = r_request_json r \<and> r_goal r' = r_goal r
    \<and> (r_status r = RCompleted \<or> r_status r = RCancelled \<longrightarrow> r_status r' = r_status r)"
  using assms(1)
proof (induction rule: rtranclp_induct)
  case base
  with assms(3) show ?case by simp
next
  case (step e e')
  then obtain s where s: "find_row r_id i (db_runs e) = Some s" "r_version r \<le> r_version s"
    "r_task_id s = r_task_id r" "r_idempotency_key s = r_idempotency_key r"
    "r_request_json s = r_request_json r" "r_goal s = r_goal r"
    "r_status r = RCompleted \<or> r_status r = RCancelled \<longrightarrow> r_status s = r_status r" by blast
  have "db_ok e" using step(1) assms(2) by (rule db_ok_steps)
  with step(2) s(1) obtain s' where s': "find_row r_id i (db_runs e') = Some s'" "s' = s \<or> run_step E s s'"
    using system_step_run by blast
  from s'(2) show ?case
  proof
    assume "s' = s" with s s'(1) show ?thesis by auto
  next
    assume st: "run_step E s s'"
    with run_step_keys [OF st] run_step_version [OF st] run_step_settled [OF st] s s'(1)
    show ?thesis by auto
  qed
qed

section \<open>What a resolution establishes\<close>

lemma option_runE:
  "(case x of None \<Rightarrow> raiseM e | Some a \<Rightarrow> f a) w = (Inr b, w') \<Longrightarrow>
   (\<And>a. x = Some a \<Longrightarrow> f a w = (Inr b, w') \<Longrightarrow> R) \<Longrightarrow> R"
  by (cases x) (auto elim: raiseM_runE)

lemma whenM_runE:
  "whenM b m w = (Inr u, w') \<Longrightarrow> (b \<Longrightarrow> m w = (Inr u, w') \<Longrightarrow> R) \<Longrightarrow>
   (\<not> b \<Longrightarrow> w' = w \<Longrightarrow> R) \<Longrightarrow> R"
  by (auto simp: whenM_run split: if_splits)

lemma run_get_runE:
  "run_get i w = (Inr r, w') \<Longrightarrow> (find_run i w = Some r \<Longrightarrow> w' = w \<Longrightarrow> R) \<Longrightarrow> R"
  unfolding run_get_def by (erule require_run_runE)

lemma task_get_runE:
  "task_get i w = (Inr t, w') \<Longrightarrow> (find_task i w = Some t \<Longrightarrow> w' = w \<Longrightarrow> R) \<Longrightarrow> R"
  unfolding task_get_def by (erule require_task_runE)

lemma resolve_approval_runs:
  assumes "resolve_approval E S aid by ok action w = (Inr a', w')"
  obtains a r w1 where "find_approval aid w = Some a" "find_run (ap_workflow_id a) w = Some r"
    "require_owner_approval_actor E S (r_request_json r) by ok = Inr ()"
    "\<not> (ok \<and> r_status r \<notin> {RPending, RBlocked})"
    "approval_resolve E aid (ap_workflow_id a) (ap_task_id a) action by ok w = (Inr a', w1)"
    "whenM ok (resume_run E r a) w1 = (Inr (), w')"
  using assms unfolding resolve_approval_def
  by (elim runE option_runE run_get_runE) (simp add: that)

lemma task_writes_keep_runs: "task_transition E tid st rs step w = (Inr t, w') \<Longrightarrow> find_run i w' = find_run i w"
  by (erule task_transition_Inr) (simp add: find_run_def)

text \<open>What resuming does to the run and the task.\<close>

lemma resume_run_result:
  assumes "resume_run E r a w = (Inr (), w')" "find_run (ap_workflow_id a) w = Some r"
    "r_status r = RPending \<or> r_status r = RBlocked"
  shows "(\<exists>r'. find_run (ap_workflow_id a) w' = Some r' \<and> r_status r' = RPending)
    \<and> (\<exists>t. find_task (ap_task_id a) w' = Some t \<and> t_status t = TQueued)
    \<and> db_approvals (w_db w') = db_approvals (w_db w)"
proof -
  from assms(1) obtain u w1 t where
    m: "whenM (r_status r = RBlocked) (bindM (nowM E) (\<lambda>now.
        bindM (run_transition E (ap_workflow_id a) RPending (utc_dt now) no_patch) (\<lambda>_. retM ()))) w = (Inr u, w1)"
    and t: "find_task (ap_task_id a) w1 = Some t"
    and q: "whenM (t_status t \<noteq> TQueued) (bindM (task_transition E (ap_task_id a) TQueued None None)
        (\<lambda>_. retM ())) w1 = (Inr (), w')"
    unfolding resume_run_def by (elim runE task_get_runE) (simp add: that)
  have w1: "\<exists>r'. find_run (ap_workflow_id a) w1 = Some r' \<and> r_status r' = RPending"
    "db_approvals (w_db w1) = db_approvals (w_db w)"
  proof -
    consider "r_status r = RBlocked" | "r_status r \<noteq> RBlocked" "w1 = w"
      using m by (auto elim: whenM_runE)
    then have "(\<exists>r'. find_run (ap_workflow_id a) w1 = Some r' \<and> r_status r' = RPending)
      \<and> db_approvals (w_db w1) = db_approvals (w_db w)"
    proof cases
      case 1
      with m have "bindM (nowM E) (\<lambda>now. bindM (run_transition E (ap_workflow_id a) RPending
          (utc_dt now) no_patch) (\<lambda>_. retM ())) w = (Inr u, w1)" by (simp add: whenM_run)
      then obtain w0 now r' where w0: "w_db w0 = w_db w"
        and tr: "run_transition E (ap_workflow_id a) RPending (utc_dt now) no_patch w0 = (Inr r', w1)"
        by (elim runE) (clarsimp, erule that [rotated], simp)
      from tr obtain s where s: "find_run (ap_workflow_id a) w0 = Some s"
        "r' = moved_row E RPending (to_utc (utc_dt now)) no_patch s" "wrote s r' w0 w1"
        by (rule run_transition_Inr)
      have "find_run (ap_workflow_id a) w1 = Some r'"
        using wrote_find [OF s(3), of "ap_workflow_id a"] find_run_id [OF s(1)] by simp
      moreover have "r_status r' = RPending" using s(2) by simp
      moreover have "db_approvals (w_db w1) = db_approvals (w_db w)"
        using s(3) w0 by (simp add: wrote_def)
      ultimately show ?thesis by blast
    next
      case 2
      with assms(2,3) show ?thesis by auto
    qed
    then show "\<exists>r'. find_run (ap_workflow_id a) w1 = Some r' \<and> r_status r' = RPending"
      "db_approvals (w_db w1) = db_approvals (w_db w)" by blast+
  qed
  show ?thesis
  proof (cases "t_status t = TQueued")
    case True
    with q have "w' = w1" by (auto elim: whenM_runE)
    with w1 t True show ?thesis by blast
  next
    case False
    with q obtain t' where tr: "task_transition E (ap_task_id a) TQueued None None w1 = (Inr t', w')"
      by (auto elim!: whenM_runE runE)
    from tr obtain t0 where t0: "find_task (ap_task_id a) w1 = Some t0" "t_status t' = TQueued"
      "t_id t' = ap_task_id a" "w_db w' = (w_db w1)\<lparr>db_tasks := put_row t_id t' (db_tasks (w_db w1))\<rparr>"
      by (rule task_transition_Inr)
    then have "find_task (ap_task_id a) w' = Some t'"
      by (simp add: find_task_def row_simps)
    moreover have "find_run (ap_workflow_id a) w' = find_run (ap_workflow_id a) w1"
      using t0(4) by (simp add: find_run_def)
    ultimately show ?thesis using w1 t0(2,4) by simp
  qed
qed

section \<open>Idempotent acceptance\<close>

text \<open>Sorting the keys of a document changes no lookup.\<close>

lemma map_of_filter: "map_of (filter (\<lambda>p. fst p = k) d) k = map_of d k"
  by (induction d) auto

lemma map_of_sort_key: "map_of (sort_key fst d) k = map_of d k"
  by (metis map_of_filter sort_key_stable)

lemma map_of_dict_canon: "map_of (dict_canon d) k = map_option json_canon (map_of d k)"
  by (simp add: dict_canon_def map_of_sort_key map_of_map_val)

lemma within_same:
  assumes "within R m" "m w = (x, w')" "\<And>d d'. R d d' \<Longrightarrow> f d' = f d"
  shows "f (w_db w') = f (w_db w)"
proof -
  from assms(1,2) have "R\<^sup>*\<^sup>* (w_db w) (w_db w')" by (rule withinD)
  then show ?thesis by (induction rule: rtranclp_induct) (simp_all add: assms(3))
qed

lemma settle_task_tasks: "within task_table (settle_task E tid dec plan)"
  unfolding settle_task_def by (intro keep task_transition_refines)

lemma first_run_by_keys_None: "first_run_by_keys ks d = None \<longleftrightarrow> (\<forall>k\<in>set ks. run_by_key k d = None)"
  by (induction ks) (auto split: option.splits)

text \<open>The digests the keys are built from are lower-case hexadecimal.\<close>

definition sha_hex :: "env \<Rightarrow> bool" where
  "sha_hex E \<longleftrightarrow> (\<forall>s. length (e_sha256 E s) = 64 \<and> list_all is_hex (e_sha256 E s))"

lemma hex_ascii: "is_hex c \<Longrightarrow> \<not> is_cont c"
  by (auto simp: is_hex_def is_cont_def)

lemma telegram_sha_pseudonymous:
  assumes "sha_hex E"
  shows "is_pseudonymous_key (''telegram:'' @ e_sha256 E s)"
proof -
  have h: "length (e_sha256 E s) = 64" "list_all is_hex (e_sha256 E s)"
    using assms by (simp_all add: sha_hex_def)
  then have "py_len (e_sha256 E s) = 64"
    by (subst py_len_ascii) (auto simp only: list_all_iff hex_ascii)
  with h(2) show ?thesis unfolding is_pseudonymous_key_def Let_def
    by (simp only: remove_prefix_append starts_with_append simp_thms)
qed

lemma dropWhile_keep: "xs \<noteq> [] \<Longrightarrow> \<not> P (hd xs) \<Longrightarrow> dropWhile P xs = xs"
  by (cases xs) simp_all

lemma py_strip_keep:
  assumes "py_chars s \<noteq> []" "\<not> is_ws (hd (py_chars s))" "\<not> is_ws (last (py_chars s))"
  shows "py_strip s = s"
  using assms by (simp add: py_strip_def dropWhile_keep hd_rev)

lemma hex_strip:
  assumes "list_all is_hex h" "h \<noteq> []" "\<forall>c\<in>set (a # p). \<not> is_cont c" "\<not> is_ws [a]"
  shows "py_strip ((a # p) @ h) = (a # p) @ h"
proof -
  have "\<forall>c\<in>set h. \<not> is_cont c" using assms(1) by (auto simp only: list_all_iff hex_ascii)
  then have all: "\<forall>c\<in>set ((a # p) @ h). \<not> is_cont c" using assms(3) by (simp only: set_append ball_Un simp_thms)
  have chars: "py_chars ((a # p) @ h) = map (\<lambda>c. [c]) ((a # p) @ h)" by (rule py_chars_ascii [OF all])
  have "is_hex (last h)" using assms(1,2) by (metis last_in_set list_all_iff)
  moreover have "\<forall>c\<in>set ''0123456789abcdef''. \<not> is_ws [c]" by (simp add: is_ws_def)
  ultimately have "\<not> is_ws [last h]" unfolding is_hex_def by blast
  then show ?thesis
    using assms(2,4) by (intro py_strip_keep; unfold chars) (simp_all add: last_map)
qed

lemma telegram_sha_strip:
  assumes "sha_hex E"
  shows "py_strip (''telegram:'' @ e_sha256 E s) = ''telegram:'' @ e_sha256 E s"
proof (rule hex_strip)
  have "length (e_sha256 E s) = 64" using assms by (simp add: sha_hex_def)
  then show "e_sha256 E s \<noteq> []" by (cases "e_sha256 E s") simp_all
qed (use assms in \<open>simp_all add: sha_hex_def is_cont_def is_ws_def\<close>)

text \<open>Generated identifiers (\<open>uuid4().hex\<close>) are lower-case hexadecimal, so a generated key has no blanks.\<close>

definition uuid_hex :: "env \<Rightarrow> bool" where
  "uuid_hex E \<longleftrightarrow> (\<forall>n. e_uuid E n \<noteq> [] \<and> list_all is_hex (e_uuid E n))"

lemma provided_stripped:
  assumes "uuid_hex E"
  obtains prov w0 where "provided_key E req w = (Inr prov, w0)" "py_strip prov = prov"
proof (cases "ac_idempotency_key req")
  case None
  have "py_strip (''api:'' @ e_uuid E (w_fresh w)) = ''api:'' @ e_uuid E (w_fresh w)"
    by (rule hex_strip) (use assms in \<open>simp_all add: uuid_hex_def is_cont_def is_ws_def\<close>)
  then show ?thesis using that None by (simp add: provided_key_def bindM_run uuidM_def retM_def)
next
  case (Some k)
  then show ?thesis using that by (simp add: provided_key_def retM_def)
qed

text \<open>The service's key is its own canonical form, so the repository stores the run under it.\<close>

lemma enqueue_keys_of_service:
  assumes "service_keys E req provided = (key, legacy)" "sha_hex E" "py_strip provided = provided"
    "ac_source_channel r = ac_source_channel req" "ac_source_chat_id r = ac_source_chat_id req"
    "ac_source_message_id r = ac_source_message_id req"
  shows "\<exists>ks. enqueue_lookup_keys E r key = (key, ks) \<and> py_strip key = key
    \<and> set ks \<subseteq> {key} \<union> (case legacy of None \<Rightarrow> {} | Some l \<Rightarrow> if l = [] then {} else {l})"
  using assms(1) telegram_sha_pseudonymous [OF assms(2)] telegram_sha_strip [OF assms(2)] assms(3-)
  by (auto simp: service_keys_def enqueue_lookup_keys_def Let_def telegram_idempotency_key_def
      canonicalize_telegram_idempotency_key_def legacy_telegram_idempotency_key_def split: if_splits)

lemma find_replayed_None:
  assumes "find_replayed key legacy provided d = None"
  shows "run_by_key key d = None" "legacy = Some l \<Longrightarrow> truthy legacy \<Longrightarrow> run_by_key l d = None"
  using assms by (auto simp: find_replayed_def Let_def split: if_splits)

text \<open>Changing the stored idempotency key does not change the identity of a request.\<close>

lemma normalize_ignores_key:
  "normalize_async_request_identity_payload (async_create_json C (req\<lparr>ac_idempotency_key := k\<rparr>))
   = normalize_async_request_identity_payload (async_create_json C req)"
proof -
  have "dict_pop ''idempotency_key'' (minimize_async_request_payload (async_create_json C (req\<lparr>ac_idempotency_key := k\<rparr>)))
      = dict_pop ''idempotency_key'' (minimize_async_request_payload (async_create_json C req))"
    by (simp add: async_create_json_def minimize_async_request_payload_def dict_pop_def)
  then show ?thesis unfolding normalize_async_request_identity_payload_def by (simp only:)
qed

lemma digest_ignores_key:
  "identity_hmac_digest E (async_create_json C (req\<lparr>ac_idempotency_key := k\<rparr>)) secret
   = identity_hmac_digest E (async_create_json C req) secret"
  by (simp add: identity_hmac_digest_def normalize_ignores_key)

lemma insert_run_runE:
  "insert_run row w = (Inr u, w') \<Longrightarrow>
   (insert_run_ok row (w_db w) \<Longrightarrow> w_db w' = (w_db w)\<lparr>db_runs := db_runs (w_db w) @ [row]\<rparr> \<Longrightarrow> R) \<Longrightarrow> R"
  by (auto simp: insert_run_def run_simps put_runs split: if_splits)

lemma enqueue_new_Inr:
  assumes "enqueue_new E tid req norm None st code msg w = (Inr run, w')"
  obtains rid ts secret fp where "active_secret E = Inr secret"
    "async_request_identity_fingerprint E (async_create_json (e_codecs E) req) secret (e_key_id E) = Inr fp"
    "run = enqueue_row E rid tid req norm
       (e_dumps E (JObj (enqueue_payload E (async_create_json (e_codecs E) req) norm fp))) ts st code msg"
    "insert_run_ok run (w_db w)" "w_db w' = (w_db w)\<lparr>db_runs := db_runs (w_db w) @ [run]\<rparr>"
  using assms unfolding enqueue_new_def Let_def
  by (elim run_runE insert_run_runE) (clarsimp, elim run_runE insert_run_runE, auto intro: that)

lemma run_enqueue_Inr:
  assumes "run_enqueue E tid req key None st code msg w = (Inr run, w')"
    "enqueue_lookup_keys E req (py_strip key) = (norm, ks)" "first_run_by_keys ks (w_db w) = None"
  shows "enqueue_new E tid req norm None st code msg w = (Inr run, w')"
proof -
  have g: "getM (\<lambda>w. first_run_by_keys ks (w_db w)) w = (Inr None, w)"
    using assms(3) by (simp add: getM_def)
  show ?thesis
    using assms(1) unfolding run_enqueue_def assms(2) Let_def prod.case
    by (elim runE) (simp add: assms(3))
qed

lemma prod_runE:
  "(case x of (a, b) \<Rightarrow> f a b) w = r \<Longrightarrow> (\<And>a b. x = (a, b) \<Longrightarrow> f a b w = r \<Longrightarrow> R) \<Longrightarrow> R"
  by (cases x) simp

text \<open>The run an acceptance leaves behind.\<close>

lemma accept_new_Inr:
  assumes "accept_new E S req key w = (Inr acc, w')" "enqueue_lookup_keys E req key = (key, ks)"
    "py_strip key = key" "\<forall>k\<in>set ks. run_by_key k (w_db w) = None"
  obtains run rid tid ts secret fp st code msg where "active_secret E = Inr secret"
    "async_request_identity_fingerprint E (async_create_json (e_codecs E) req) secret (e_key_id E) = Inr fp"
    "run = enqueue_row E rid tid req key
       (e_dumps E (JObj (enqueue_payload E (async_create_json (e_codecs E) req) key fp))) ts st code msg"
    "run_by_key key (w_db w') = Some run"
    "acc = \<lparr>aa_task_id = r_task_id run, aa_run_id = r_id run, aa_status = r_status run, aa_replayed = False\<rparr>"
proof -
  from assms(1) obtain dec tc task w1 w2 pl w3 st code msg run w4 u w5 v where
    c: "task_create_op E tc w = (Inr task, w1)"
    and p: "plan_if_allowed E S req key dec w1 = (Inr pl, w2)"
    and s: "settle_task E (t_id task) dec pl w2 = (Inr (st, code, msg), w3)"
    and q: "run_enqueue E (t_id task) req key None st code msg w3 = (Inr run, w4)"
    and sv: "store_plan run task pl w4 = (Inr u, w5)"
    and ap: "request_approval E req dec run task st w5 = (Inr v, w')"
    and acc: "acc = \<lparr>aa_task_id = t_id task, aa_run_id = r_id run, aa_status = r_status run, aa_replayed = False\<rparr>"
    unfolding accept_new_def by (elim runE prod_runE; hypsubst) (rule that; (assumption | rule refl))
  have "db_runs (w_db w1) = db_runs (w_db w)"
    by (rule within_same [OF task_create_refines c]) (simp add: task_table_frame)
  moreover have "db_runs (w_db w2) = db_runs (w_db w1)"
    by (rule within_same [OF plan_if_allowed_reads [where R = "\<lambda>_ _. False"] p]) simp
  moreover have "db_runs (w_db w3) = db_runs (w_db w2)"
    by (rule within_same [OF settle_task_tasks s]) (simp add: task_table_frame)
  ultimately have runs: "db_runs (w_db w3) = db_runs (w_db w)" by simp
  then have none: "first_run_by_keys ks (w_db w3) = None"
    using assms(4) by (simp add: first_run_by_keys_None run_by_key_def)
  have "enqueue_new E (t_id task) req key None st code msg w3 = (Inr run, w4)"
    by (rule run_enqueue_Inr [OF q _ none]) (simp only: assms(2,3))
  then obtain rid ts secret fp where e: "active_secret E = Inr secret"
    "async_request_identity_fingerprint E (async_create_json (e_codecs E) req) secret (e_key_id E) = Inr fp"
    "run = enqueue_row E rid (t_id task) req key
       (e_dumps E (JObj (enqueue_payload E (async_create_json (e_codecs E) req) key fp))) ts st code msg"
    "insert_run_ok run (w_db w3)" "w_db w4 = (w_db w3)\<lparr>db_runs := db_runs (w_db w3) @ [run]\<rparr>"
    by (rule enqueue_new_Inr)
  have k: "r_idempotency_key run = key" "r_task_id run = t_id task" using e(3) by (simp_all add: enqueue_row_def)
  have "run_by_key key (w_db w3) = None" using e(4) k by (simp add: insert_run_ok_def)
  then have r4: "run_by_key key (w_db w4) = Some run"
    using e(5) k by (simp add: run_by_key_def find_row_append)
  have "db_runs (w_db w5) = db_runs (w_db w4)"
    by (rule within_same [OF store_plan_refines sv]) (simp add: workflow_table_frame)
  moreover have "db_runs (w_db w') = db_runs (w_db w5)"
    by (rule within_same [OF request_approval_refines ap]) (blast dest: approval_table_frame)
  ultimately have "run_by_key key (w_db w') = Some run" using r4 by (simp add: run_by_key_def)
  with that [OF e(1,2,3)] acc k show ?thesis by simp
qed

text \<open>A stored request passes the replay check exactly against requests of the same identity.\<close>

lemma check_replay_stored:
  assumes "active_secret E = Inr secret"
    "async_request_identity_fingerprint E (async_create_json (e_codecs E) (req\<lparr>ac_idempotency_key := k\<rparr>))
       secret (e_key_id E) = Inr fp"
    "r_request_json run = e_dumps E (JObj (enqueue_payload E
       (async_create_json (e_codecs E) (req\<lparr>ac_idempotency_key := k\<rparr>)) norm fp))"
    "\<And>j. e_loads E (e_dumps E j) = Some (json_canon j)" "\<And>s m. CHR '':'' \<notin> set (e_hmac E s m)"
  shows "check_replay E req2 run =
    (if identity_hmac_digest E (async_create_json (e_codecs E) req) secret
        = identity_hmac_digest E (async_create_json (e_codecs E) req2) secret then Inr () else Inl mismatch)"
proof -
  have key: "map_of (e_keys E) (e_key_id E) = Some secret"
    using assms(1) by (auto simp: active_secret_def split: option.splits)
  have "dict_get ''_semantic_identity_fingerprint'' (dict_canon (enqueue_payload E
       (async_create_json (e_codecs E) (req\<lparr>ac_idempotency_key := k\<rparr>)) norm fp)) = JStr fp"
    by (simp add: dict_get_def enqueue_payload_def map_of_dict_canon)
  moreover have "json_canon (JObj d) = JObj (dict_canon d)" for d by (simp add: dict_canon_def)
  ultimately show ?thesis using verify_own_fingerprint [OF assms(2) key assms(5)]
    by (simp add: check_replay_def assms(3,4) Let_def digest_ignores_key del: json_canon.simps)
qed

lemma provided_given: "ac_idempotency_key req = Some k \<Longrightarrow> provided_key E req w = (Inr (py_strip k), w)"
  by (simp add: provided_key_def retM_def)

lemma service_create_at:
  assumes "provided_key E req w = (Inr prov, w0)" "service_keys E req prov = (key, legacy)"
  shows "service_create E S req w = (case find_replayed key legacy prov (w_db w0) of
      Some r \<Rightarrow> bindM (liftE (check_replay E req r)) (\<lambda>_.
         retM \<lparr>aa_task_id = r_task_id r, aa_run_id = r_id r, aa_status = r_status r, aa_replayed = True\<rparr>) w0
    | None \<Rightarrow> accept_new E S (req\<lparr>ac_idempotency_key := Some key\<rparr>) key w0)"
proof -
  have req': "(if ac_idempotency_key req \<noteq> Some key then req\<lparr>ac_idempotency_key := Some key\<rparr> else req)
      = req\<lparr>ac_idempotency_key := Some key\<rparr>" by simp
  show ?thesis
    unfolding service_create_def req' bindM_run [of "provided_key E req"] assms Let_def prod.case sum.case
    by (cases "find_replayed key legacy prov (w_db w0)") (simp_all add: bindM_run getM_def)
qed

lemma service_create_keyed:
  assumes "ac_idempotency_key req = Some k" "service_keys E req (py_strip k) = (key, legacy)"
  shows "service_create E S req w = (case find_replayed key legacy (py_strip k) (w_db w) of
      Some r \<Rightarrow> bindM (liftE (check_replay E req r)) (\<lambda>_.
         retM \<lparr>aa_task_id = r_task_id r, aa_run_id = r_id r, aa_status = r_status r, aa_replayed = True\<rparr>) w
    | None \<Rightarrow> accept_new E S (req\<lparr>ac_idempotency_key := Some key\<rparr>) key w)"
  by (rule service_create_at [OF provided_given [OF assms(1)] assms(2)])

text \<open>
  What a request that was not a replay left behind, whether its key was given or generated, and
  that its key finds nothing but it.
\<close>

lemma service_create_recorded:
  assumes "service_create E S req w = (Inr acc, w')" "\<not> aa_replayed acc"
    "provided_key E req w = (Inr prov, w0)" "py_strip prov = prov" "sha_hex E"
  obtains key legacy run rid tid ts secret fp st code msg where "service_keys E req prov = (key, legacy)"
    "active_secret E = Inr secret"
    "async_request_identity_fingerprint E (async_create_json (e_codecs E) (req\<lparr>ac_idempotency_key := Some key\<rparr>))
       secret (e_key_id E) = Inr fp"
    "run = enqueue_row E rid tid (req\<lparr>ac_idempotency_key := Some key\<rparr>) key (e_dumps E (JObj (enqueue_payload E
       (async_create_json (e_codecs E) (req\<lparr>ac_idempotency_key := Some key\<rparr>)) key fp))) ts st code msg"
    "run_by_key key (w_db w') = Some run" "find_replayed key legacy prov (w_db w0) = None"
    "acc = \<lparr>aa_task_id = r_task_id run, aa_run_id = r_id run, aa_status = r_status run, aa_replayed = False\<rparr>"
proof -
  obtain key legacy where keys: "service_keys E req prov = (key, legacy)" by fastforce
  define req' where "req' = req\<lparr>ac_idempotency_key := Some key\<rparr>"
  note create = service_create_at [OF assms(3) keys, of S, folded req'_def]
  have none: "find_replayed key legacy prov (w_db w0) = None"
  proof (rule ccontr)
    assume "find_replayed key legacy prov (w_db w0) \<noteq> None"
    then obtain r where "find_replayed key legacy prov (w_db w0) = Some r" by blast
    with assms(1,2) show False by (auto simp: create elim!: runE)
  qed
  with assms(1) have acc: "accept_new E S req' key w0 = (Inr acc, w')" by (simp add: create)
  obtain ks where ks: "enqueue_lookup_keys E req' key = (key, ks)" "py_strip key = key"
    "set ks \<subseteq> {key} \<union> (case legacy of None \<Rightarrow> {} | Some l \<Rightarrow> if l = [] then {} else {l})"
    using enqueue_keys_of_service [OF keys assms(5,4), of req'] by (auto simp: req'_def)
  have nokeys: "\<forall>x\<in>set ks. run_by_key x (w_db w0) = None"
    using ks(3) find_replayed_None [OF none] by (cases legacy) (auto split: if_splits)
  show ?thesis
    using acc ks(1,2) nokeys
    by (rule accept_new_Inr) (rule that [OF keys], (simp_all add: none req'_def))
qed

text \<open>
  A later request under the same key returns the same task and run if it is the same request,
  and is refused otherwise; nothing changes.
\<close>

lemma service_create_replay:
  assumes "service_create E S req w = (Inr acc, w')" "\<not> aa_replayed acc"
    "ac_idempotency_key req = Some k" "py_strip k \<noteq> []" "sha_hex E"
    "\<And>j. e_loads E (e_dumps E j) = Some (json_canon j)" "\<And>s m. CHR '':'' \<notin> set (e_hmac E s m)"
    "active_secret E = Inr secret"
    "ac_idempotency_key req2 = Some k" "service_keys E req2 (py_strip k) = service_keys E req (py_strip k)"
  shows "service_create E S req2 w' =
    (if identity_hmac_digest E (async_create_json (e_codecs E) req) secret
        = identity_hmac_digest E (async_create_json (e_codecs E) req2) secret
     then (Inr (acc\<lparr>aa_replayed := True\<rparr>), w') else (Inl mismatch, w'))"
proof (rule service_create_recorded [OF assms(1,2) provided_given [OF assms(3)] py_strip_idem assms(5)])
  fix key legacy run rid tid ts secret' fp st code msg
  assume keys: "service_keys E req (py_strip k) = (key, legacy)"
    and r: "active_secret E = Inr secret'"
    "async_request_identity_fingerprint E (async_create_json (e_codecs E) (req\<lparr>ac_idempotency_key := Some key\<rparr>))
       secret' (e_key_id E) = Inr fp"
    "run = enqueue_row E rid tid (req\<lparr>ac_idempotency_key := Some key\<rparr>) key (e_dumps E (JObj (enqueue_payload E
       (async_create_json (e_codecs E) (req\<lparr>ac_idempotency_key := Some key\<rparr>)) key fp))) ts st code msg"
    "run_by_key key (w_db w') = Some run"
    "acc = \<lparr>aa_task_id = r_task_id run, aa_run_id = r_id run, aa_status = r_status run, aa_replayed = False\<rparr>"
  have keys2: "service_keys E req2 (py_strip k) = (key, legacy)" using keys assms(10) by simp
  have "find_replayed key legacy (py_strip k) (w_db w') = Some run"
    by (simp add: find_replayed_def Let_def r(4))
  moreover have "check_replay E req2 run =
      (if identity_hmac_digest E (async_create_json (e_codecs E) req) secret
          = identity_hmac_digest E (async_create_json (e_codecs E) req2) secret then Inr () else Inl mismatch)"
    using check_replay_stored [OF r(1) r(2) _ assms(6,7)] r(1) assms(8) by (simp add: r(3) enqueue_row_def)
  ultimately show ?thesis
    by (simp add: service_create_keyed [OF assms(9) keys2] r(5) bindM_run liftE_def retM_def)
qed

end
