(* ===== verification/AsyncApi.thy ===== *)
theory AsyncApi
  imports AsyncService
begin

text \<open>
  \<open>app/api/async_tasks.py\<close>: the endpoints of the internal API. An \<open>HTTPException\<close> is a value of
  the error type, so it leaves the session without a commit like every other exception; the
  validation of the payloads by FastAPI has happened when an endpoint runs.

  The application state is the record \<open>api\<close>: the two flags of the runtime, the configured
  token, the service settings, and the text pydantic gives a \<open>ValidationError\<close>.
\<close>

record api =
  api_service :: service
  api_accepting :: bool
  api_ready :: bool
  api_token :: "string option"
  api_validation_text :: string

definition error_text :: "api \<Rightarrow> py_error \<Rightarrow> string" where
  "error_text A e = (case e of
      ValueError s \<Rightarrow> s | ApprovalConflict s \<Rightarrow> s | AsyncTaskIdempotencyConflict s \<Rightarrow> s
    | PlanPersistenceConflict s \<Rightarrow> s | PlanningTruthError s \<Rightarrow> s | AsyncRunNotFound s \<Rightarrow> s
    | ValidationError \<Rightarrow> api_validation_text A | _ \<Rightarrow> [])"

section \<open>Authentication\<close>

text \<open>\<open>str.partition(" ")\<close>: head, whether the separator was found, and tail.\<close>

definition partition_space :: "string \<Rightarrow> string \<times> bool \<times> string" where
  "partition_space s =
     (let h = takeWhile (\<lambda>c. c \<noteq> CHR '' '') s; t = drop (length h) s in (h, t \<noteq> [], tl t))"

text \<open>\<open>compare_digest\<close> takes ASCII text only.\<close>

definition is_ascii :: "string \<Rightarrow> bool" where
  "is_ascii s \<longleftrightarrow> list_all (\<lambda>c. (of_char c :: nat) < 128) s"

definition compare_digest :: "string \<Rightarrow> string \<Rightarrow> bool res" where
  "compare_digest a b = (if is_ascii a \<and> is_ascii b then Inr (a = b) else Inl TypeError)"

definition invalid_token :: py_error where
  "invalid_token = HTTPException 401 ''Invalid bearer token.''"

definition require_internal_bearer :: "api \<Rightarrow> string option \<Rightarrow> unit res" where
  "require_internal_bearer A authorization =
     (if \<not> truthy (api_token A)
      then Inl (HTTPException 503 ''Internal API authentication is not configured.'')
      else (case partition_space (case authorization of None \<Rightarrow> [] | Some a \<Rightarrow> a) of
        (scheme, separator, provided) \<Rightarrow>
          if separator \<and> ascii_lower scheme = ''bearer'' \<and> provided \<noteq> []
          then bindE (compare_digest provided (the (api_token A))) (\<lambda>same. ensureE same invalid_token)
          else Inl invalid_token))"

lemma partition_space_iff:
  "partition_space s = (h, True, t) \<longleftrightarrow> CHR '' '' \<notin> set h \<and> s = h @ CHR '' '' # t"
proof
  assume p: "partition_space s = (h, True, t)"
  let ?k = "takeWhile (\<lambda>c. c \<noteq> CHR '' '') s"
  have d: "drop (length ?k) s = dropWhile (\<lambda>c. c \<noteq> CHR '' '') s" by (simp add: dropWhile_eq_drop)
  from p have h: "h = ?k" and ne: "drop (length ?k) s \<noteq> []" and t: "t = tl (drop (length ?k) s)"
    unfolding partition_space_def Let_def by blast+
  note ne = ne [unfolded d] and t = t [unfolded d]
  have "hd (dropWhile (\<lambda>c. c \<noteq> CHR '' '') s) = CHR '' ''" using hd_dropWhile [OF ne] by simp
  with ne t have "dropWhile (\<lambda>c. c \<noteq> CHR '' '') s = CHR '' '' # t" by (metis list.collapse)
  moreover have "CHR '' '' \<notin> set h" using h by (auto dest: set_takeWhileD)
  ultimately show "CHR '' '' \<notin> set h \<and> s = h @ CHR '' '' # t"
    using takeWhile_dropWhile_id [of "\<lambda>c. c \<noteq> CHR '' ''" s] h by simp
next
  assume s: "CHR '' '' \<notin> set h \<and> s = h @ CHR '' '' # t"
  then have "takeWhile (\<lambda>c. c \<noteq> CHR '' '') h = h" by (auto simp: takeWhile_eq_all_conv)
  then have "takeWhile (\<lambda>c. c \<noteq> CHR '' '') s = h" using s by (simp add: takeWhile_append)
  then show "partition_space s = (h, True, t)" using s by (simp add: partition_space_def Let_def)
qed

lemma bearer_iff:
  "require_internal_bearer A auth = Inr u \<longleftrightarrow> (\<exists>tok scheme. api_token A = Some tok \<and> tok \<noteq> [] \<and> is_ascii tok
      \<and> CHR '' '' \<notin> set scheme \<and> auth = Some (scheme @ '' '' @ tok) \<and> ascii_lower scheme = ''bearer'')"
proof -
  let ?text = "case auth of None \<Rightarrow> [] | Some a \<Rightarrow> a"
  have header: "CHR '' '' \<notin> set scheme \<and> auth = Some (scheme @ '' '' @ tok) \<longleftrightarrow> partition_space ?text = (scheme, True, tok)"
    for scheme tok by (cases auth) (auto simp: partition_space_iff)
  have "require_internal_bearer A auth = Inr u \<longleftrightarrow> (\<exists>tok scheme. api_token A = Some tok \<and> tok \<noteq> [] \<and> is_ascii tok
      \<and> partition_space ?text = (scheme, True, tok) \<and> ascii_lower scheme = ''bearer'')"
    by (cases "partition_space ?text"; cases "api_token A")
      (auto simp: require_internal_bearer_def compare_digest_def bindE_def split: if_splits)
  then show ?thesis unfolding header [symmetric] by blast
qed

section \<open>Endpoints\<close>

text \<open>\<open>except ValueError\<close> as a conflict, and the lookups' \<open>except AsyncRunNotFound\<close>.\<close>

definition conflictM :: "api \<Rightarrow> (py_error \<Rightarrow> bool) \<Rightarrow> 'a M \<Rightarrow> 'a M" where
  "conflictM A caught m =
     catchM m (\<lambda>e. raiseM (if caught e then HTTPException 409 (error_text A e) else e))"

definition not_foundM :: "api \<Rightarrow> 'a M \<Rightarrow> 'a M" where
  "not_foundM A m = catchM m (\<lambda>e. raiseM (case e of
      AsyncRunNotFound s \<Rightarrow> HTTPException 404 s | _ \<Rightarrow> e))"

definition is_replay_conflict :: "py_error \<Rightarrow> bool" where
  "is_replay_conflict e = (case e of AsyncTaskIdempotencyConflict _ \<Rightarrow> True | _ \<Rightarrow> False)"

definition create_async_task ::
  "env \<Rightarrow> api \<Rightarrow> string option \<Rightarrow> async_create \<Rightarrow> async_accepted M" where
  "create_async_task E A auth payload =
     bindM (liftE (require_internal_bearer A auth)) (\<lambda>_.
     bindM (guardM (api_accepting A \<and> api_ready A)
              (HTTPException 503 ''Async task runtime is not accepting new tasks.'')) (\<lambda>_.
     sessionM (conflictM A is_replay_conflict (service_create E (api_service A) payload))))"

text \<open>The run is read again after the commit.\<close>

definition resolve_async_approval ::
  "env \<Rightarrow> api \<Rightarrow> string option \<Rightarrow> string \<Rightarrow> string \<Rightarrow> bool \<Rightarrow> string \<Rightarrow> run_row M" where
  "resolve_async_approval E A auth aid resolved_by approved action =
     bindM (liftE (require_internal_bearer A auth)) (\<lambda>_.
     conflictM A catches_value_error
      (bindM (sessionM (resolve_approval E (api_service A) aid resolved_by approved action)) (\<lambda>_.
       bindM (getM (find_approval aid)) (\<lambda>a.
       case a of None \<Rightarrow> raiseM AssertionError | Some x \<Rightarrow> run_get (ap_workflow_id x)))))"

definition resolve_latest_async_approval ::
  "env \<Rightarrow> api \<Rightarrow> string option \<Rightarrow> string \<Rightarrow> string \<Rightarrow> string \<Rightarrow> bool \<Rightarrow> run_row M" where
  "resolve_latest_async_approval E A auth chat sess resolved_by approved =
     bindM (liftE (require_internal_bearer A auth)) (\<lambda>_.
     sessionM (conflictM A catches_value_error
       (resolve_latest_approval E (api_service A) chat sess resolved_by approved)))"

definition get_async_task :: "api \<Rightarrow> string option \<Rightarrow> string \<Rightarrow> run_row M" where
  "get_async_task A auth rid =
     bindM (liftE (require_internal_bearer A auth)) (\<lambda>_. not_foundM A (run_get rid))"

definition list_async_tasks ::
  "api \<Rightarrow> string option \<Rightarrow> run_status option \<Rightarrow> string option \<Rightarrow> int \<Rightarrow> int \<Rightarrow> run_row list M" where
  "list_async_tasks A auth st tid limit offset =
     bindM (liftE (require_internal_bearer A auth)) (\<lambda>_. list_runs st tid limit offset)"

text \<open>Retrying: the policy once more, then the run and its task in one transaction.\<close>

definition retry_async_task :: "env \<Rightarrow> api \<Rightarrow> string option \<Rightarrow> string \<Rightarrow> run_row M" where
  "retry_async_task E A auth rid =
     bindM (liftE (require_internal_bearer A auth)) (\<lambda>_.
     bindM (nowM E) (\<lambda>now.
     sessionM
      (bindM (not_foundM A (run_get rid)) (\<lambda>run.
       bindM (case e_loads E (r_request_json run) of None \<Rightarrow> raiseM ValidationError
              | Some j \<Rightarrow> liftE (async_create_of_json (e_codecs E) j)) (\<lambda>payload.
       bindM (liftE (async_policy_evaluate (sv_fs (api_service A)) (sv_roots (api_service A)) payload)) (\<lambda>decision.
       bindM (guardM (ad_allowed decision) (HTTPException 409 (ad_message decision))) (\<lambda>_.
       conflictM A catches_value_error
        (bindM (manual_retry rid (utc_dt now)) (\<lambda>retried.
         bindM (task_transition E (r_task_id run) TQueued None None) (\<lambda>_.
         retM retried))))))))))"

definition cancel_async_task :: "env \<Rightarrow> api \<Rightarrow> string option \<Rightarrow> string \<Rightarrow> run_row M" where
  "cancel_async_task E A auth rid =
     bindM (liftE (require_internal_bearer A auth)) (\<lambda>_.
     bindM (nowM E) (\<lambda>now.
     sessionM
      (bindM (not_foundM A (run_get rid)) (\<lambda>run.
       bindM (guardM (r_status run \<noteq> RCompleted)
                (HTTPException 409 ''Completed runs cannot be cancelled.'')) (\<lambda>_.
       conflictM A catches_value_error
        (bindM (run_cancel E rid (utc_dt now)) (\<lambda>cancelled.
         bindM (whenM (r_status run \<noteq> RCancelled)
           (bindM (task_cancel E (r_task_id run) (Some ''Cancelled through internal API.'')) (\<lambda>_. retM ()))) (\<lambda>_.
         if truthy (r_source_chat_id cancelled)
         then bindM (mark_notification E rid NPending (utc_dt now) False None None) (\<lambda>_. run_get rid)
         else retM cancelled))))))))"

section \<open>The endpoints refine the system\<close>

lemma keep_handlers [keep]:
  "within R m \<Longrightarrow> within R (conflictM A c m)" "within R m \<Longrightarrow> within R (not_foundM A m)"
  unfolding conflictM_def not_foundM_def by (intro keep; assumption)+

lemma api_refines [sys]:
  "within (system_step E) (create_async_task E A auth payload)"
  "within (system_step E) (resolve_async_approval E A auth aid by ok action)"
  "within (system_step E) (resolve_latest_async_approval E A auth chat sess by ok)"
  "within (system_step E) (retry_async_task E A auth rid)"
  "within (system_step E) (cancel_async_task E A auth rid)"
  unfolding create_async_task_def resolve_async_approval_def resolve_latest_async_approval_def
    retry_async_task_def cancel_async_task_def
  by (intro keep sys)+

end
