(* ===== verification/WorkerPlan.thy ===== *)
theory WorkerPlan
  imports AsyncService
begin

text \<open>
  The pure part of \<open>app/async_tasks/worker.py\<close>: the plan updates (\<open>model_copy\<close>), the
  execution request, the results read from a plan's evidence, and the result of the read-only
  core status workflow. \<open>Worker\<close> holds the operations that load, store and execute.

  The worker's settings are the record \<open>worker\<close>. What \<open>app/safety_intent.py\<close> decides about a
  goal (is it a read-only status request, does it ask for a database check) is a field of it, as
  are the answers of the status probe and of \<open>PRAGMA quick_check\<close>.
\<close>

record worker =
  wk_service :: service
  wk_id :: string
  wk_lease_seconds :: int
  wk_core_status :: "string \<Rightarrow> bool"
  wk_quick_check :: "string \<Rightarrow> bool"
  wk_probe :: "nat \<Rightarrow> (string \<times> json) list"
  wk_db_check :: "nat \<Rightarrow> json"

section \<open>Documents\<close>

definition governance_doc :: "governance_result \<Rightarrow> json" where
  "governance_doc g = JObj
    [(''decision'', JStr (case gr_decision g of GAllow \<Rightarrow> ''allow'' | GRequireApproval \<Rightarrow> ''require_approval''
        | GDeny \<Rightarrow> ''deny'' | GEscalate \<Rightarrow> ''escalate'')),
     (''status'', JStr (case gr_status g of GVerified \<Rightarrow> ''verified'' | GPending \<Rightarrow> ''pending''
        | GApproved \<Rightarrow> ''approved'' | GDenied \<Rightarrow> ''denied'' | GFailed \<Rightarrow> ''failed'')),
     (''reason'', JStr (gr_reason g)), (''checkpoint_id'', jstr_opt (gr_checkpoint_id g)),
     (''correlation_id'', jstr_opt (gr_correlation_id g)),
     (''files_changed'', JList (map JStr (gr_files_changed g))),
     (''commands_run'', JList (map JStr (gr_commands_run g))), (''tests'', JList (gr_tests g)),
     (''production_write'', JBool (gr_production_write g)),
     (''database_write'', JBool (gr_database_write g)),
     (''service_restart'', JBool (gr_service_restart g))]"

definition criterion_doc :: "criterion_verification \<Rightarrow> json" where
  "criterion_doc c = JObj
    [(''criterion'', JStr (cv_criterion c)), (''status'', JStr (cv_status c)),
     (''evidence_refs'', JList (map JStr (cv_evidence_refs c))),
     (''explanation'', jstr_opt (cv_explanation c))]"

definition result_doc :: "oc_result \<Rightarrow> json" where
  "result_doc r = JObj
    [(''outcome'', JStr (oc_outcome_value (or_outcome r))), (''summary'', JStr (or_summary r)),
     (''governance_result'', jopt governance_doc (or_governance r)),
     (''criterion_verification'', JList (map criterion_doc (or_criteria r))),
     (''artifacts'', or_artifacts r), (''verification'', or_verification r),
     (''files_changed'', JList (map JStr (or_files_changed r))),
     (''commands_run'', JList (map JStr (or_commands_run r))), (''tests'', JList (or_tests r)),
     (''model'', jstr_opt (or_model r)), (''provider'', jstr_opt (or_provider r)),
     (''profile'', jstr_opt (or_profile r)), (''duration_ms'', jopt JInt (or_duration_ms r)),
     (''error_code'', jstr_opt (or_error_code r)),
     (''external_run_id'', jstr_opt (or_external_run_id r))]"

section \<open>Node executions\<close>

definition node_execution :: "plan \<Rightarrow> string \<Rightarrow> node_execution" where
  "node_execution p n = (case find_row ne_node_id n (p_executions p) of Some e \<Rightarrow> e
     | None \<Rightarrow> \<lparr>ne_node_id = n, ne_state = NsPending, ne_attempts = 0, ne_evidence_ids = [],
                ne_last_failure_class = None\<rparr>)"

text \<open>\<open>_replace_execution\<close>: in place, or appended when the node has no execution yet.\<close>

definition replace_execution :: "plan \<Rightarrow> node_execution \<Rightarrow> node_execution list" where
  "replace_execution p e =
     (let es = map (\<lambda>x. if ne_node_id x = ne_node_id e then e else x) (p_executions p) in
      if list_ex (\<lambda>x. ne_node_id x = ne_node_id e) (p_executions p) then es else es @ [e])"

definition set_node_state :: "plan \<Rightarrow> string \<Rightarrow> node_state \<Rightarrow> plan" where
  "set_node_state p n s =
     p\<lparr>p_executions := replace_execution p ((node_execution p n)\<lparr>ne_state := s\<rparr>)\<rparr>"

definition fail_node :: "plan \<Rightarrow> string \<Rightarrow> node_state \<Rightarrow> string option \<Rightarrow> plan" where
  "fail_node p n s cls =
     p\<lparr>p_executions := replace_execution p
        ((node_execution p n)\<lparr>ne_state := s, ne_last_failure_class := cls\<rparr>)\<rparr>"

definition last_action_node_id :: "plan \<Rightarrow> string" where
  "last_action_node_id p =
     (case filter (\<lambda>n. pn_kind n = NkAction) (rev (p_nodes p)) of
        n # _ \<Rightarrow> pn_id n | [] \<Rightarrow> pn_id (last (p_nodes p)))"

definition blocked_judgement :: "string \<Rightarrow> string \<Rightarrow> outcome_judgement" where
  "blocked_judgement code reason = judgement DBlocked [] code reason"

section \<open>Execution requests\<close>

definition step_constraints :: "string list" where
  "step_constraints = [''complete_safe_steps_before_approval_gate'',
     ''hard_gate_publish_send_external_destructive_secret_cost'']"

definition execution_constraints :: "async_create \<Rightarrow> string list" where
  "execution_constraints req =
     (if \<not> ac_approval_required req \<and> ''owner_request_authorized_current_goal'' \<in> set (ac_constraints req)
      then ac_constraints req
      else if ac_approval_required req \<or> 2 \<le> ac_risk_level req
      then ordered_unique (ac_constraints req @ step_constraints)
      else ac_constraints req)"

text \<open>Construction of an \<open>OpenClawExecutionRequest\<close>.\<close>

definition exec_request_validate :: "codecs \<Rightarrow> exec_request \<Rightarrow> exec_request res" where
  "exec_request_validate C x =
     bindE (ensureE (1 \<le> xr_attempt x \<and> len_opt 2048 (xr_reference_image x)
              \<and> len_opt 64 (xr_plan_node_id x) \<and> len_opt 255 (xr_plan_node_title x)) ValidationError) (\<lambda>_.
     case xr_reference_image x of None \<Rightarrow> Inr x
     | Some v \<Rightarrow> (case reference C v of None \<Rightarrow> Inl ValidationError
         | Some n \<Rightarrow> Inr (x\<lparr>xr_reference_image := Some n\<rparr>)))"

definition plain_request :: "async_create \<Rightarrow> run_row \<Rightarrow> exec_request" where
  "plain_request req run =
     \<lparr>xr_task_id = r_task_id run, xr_run_id = r_id run, xr_attempt = r_attempt run,
      xr_idempotency_key = r_id run @ '':'' @ str_of_int (r_attempt run),
      xr_project_id = ac_project_id req, xr_goal = ac_goal req, xr_mode = ac_mode req,
      xr_workspace = ac_workspace req, xr_reference_image = ac_reference_image req,
      xr_constraints = execution_constraints req, xr_plan_node_id = None,
      xr_plan_node_title = None, xr_capability_requirements = [], xr_dod_criteria = [],
      xr_verification_requirements = [], xr_prior_evidence = ac_prior_evidence req,
      xr_remaining_budget = []\<rparr>"

text \<open>The plan while its node runs: one more attempt, one more action, the clock started.\<close>

definition running_plan :: "plan \<Rightarrow> plan_node \<Rightarrow> int \<Rightarrow> plan" where
  "running_plan p n started =
     (let cur = node_execution p (pn_id n); b = p_budget p in
      p\<lparr>p_executions := replace_execution p (cur\<lparr>ne_state := NsRunning, ne_attempts := ne_attempts cur + 1\<rparr>),
        p_budget := b\<lparr>eb_actions_used := eb_actions_used b + 1, eb_started_at := Some started\<rparr>\<rparr>)"

definition node_request :: "async_create \<Rightarrow> run_row \<Rightarrow> string \<Rightarrow> plan \<Rightarrow> plan_node \<Rightarrow> exec_request" where
  "node_request req run tid q n =
     \<lparr>xr_task_id = tid, xr_run_id = r_id run, xr_attempt = r_attempt run,
      xr_idempotency_key = r_id run @ '':'' @ str_of_int (r_attempt run) @ '':r'' @ str_of_int (p_revision q)
        @ '':'' @ pn_id n @ '':a'' @ str_of_int (ne_attempts (node_execution q (pn_id n))),
      xr_project_id = ac_project_id req, xr_goal = ac_goal req, xr_mode = ac_mode req,
      xr_workspace = ac_workspace req, xr_reference_image = ac_reference_image req,
      xr_constraints = ordered_unique (execution_constraints req @ map pc_description (p_constraints q)),
      xr_plan_node_id = Some (pn_id n), xr_plan_node_title = Some (pn_title n),
      xr_capability_requirements = map capability_value (pn_capabilities n),
      xr_dod_criteria = dod_criteria (p_dod q), xr_verification_requirements = p_verifications q,
      xr_prior_evidence = ordered_unique (ac_prior_evidence req
        @ map (\<lambda>e. ev_id e @ '': '' @ ev_summary e) (p_evidence q)),
      xr_remaining_budget =
        [(''actions'', max (eb_max_actions (p_budget q) - eb_actions_used (p_budget q)) 0),
         (''replans'', max (rb_max_replans (p_risk_budget q) - (p_revision q - 1)) 0)]\<rparr>"

section \<open>Recording a result\<close>

fun outcome_state :: "oc_outcome \<Rightarrow> node_state" where
  "outcome_state OCompleted = NsCompleted"
| "outcome_state OBlocked = NsBlocked"
| "outcome_state OFailed = NsFailed"

definition result_evidence :: "plan \<Rightarrow> string \<Rightarrow> oc_result \<Rightarrow> string \<Rightarrow> int \<Rightarrow> evidence" where
  "result_evidence p n r provenance now =
     \<lparr>ev_id = ''ev:'' @ n @ '':r'' @ str_of_int (p_revision p) @ '':a''
        @ str_of_int (ne_attempts (node_execution p n)),
      ev_node_id = n, ev_kind = ''result'', ev_summary = or_summary r,
      ev_artifact_refs = or_files_changed r,
      ev_verification_refs = concat (map cv_evidence_refs (or_criteria r)),
      ev_external_run_id = or_external_run_id r,
      ev_outcome = Some (oc_outcome_value (or_outcome r)),
      ev_criteria = or_criteria r, ev_result_payload = Some (Some r),
      ev_provenance = provenance, ev_created_at = Some now\<rparr>"

definition add_evidence :: "plan \<Rightarrow> evidence \<Rightarrow> evidence list" where
  "add_evidence p ev = (if list_all (\<lambda>i. ev_id i \<noteq> ev_id ev) (p_evidence p)
                        then p_evidence p @ [ev] else p_evidence p)"

definition recorded_plan :: "plan \<Rightarrow> string \<Rightarrow> oc_result \<Rightarrow> evidence \<Rightarrow> plan" where
  "recorded_plan p n r ev =
     (let cur = node_execution p n in
      p\<lparr>p_executions := replace_execution p
           (cur\<lparr>ne_state := outcome_state (or_outcome r), ne_evidence_ids := ne_evidence_ids cur @ [ev_id ev],
                ne_last_failure_class := (if or_outcome r = OCompleted then None else or_error_code r)\<rparr>),
        p_evidence := add_evidence p ev\<rparr>)"

definition transport_state :: "transport_error \<Rightarrow> node_state" where
  "transport_state e = (if te_retryable e \<and> \<not> te_uncertain_side_effect e then NsPending
     else if te_uncertain_side_effect e then NsBlocked else NsFailed)"

definition transport_plan :: "plan \<Rightarrow> string \<Rightarrow> transport_error \<Rightarrow> plan" where
  "transport_plan p n e =
     (let b = p_budget p in
      (fail_node p n (transport_state e) (Some (te_code e)))\<lparr>p_budget :=
        b\<lparr>eb_retries_used := eb_retries_used b + (if transport_state e = NsPending then 1 else 0)\<rparr>\<rparr>)"

text \<open>\<open>_result_from_plan_evidence\<close>: all criteria reported so far, on the latest stored result.\<close>

definition latest_payload :: "plan \<Rightarrow> oc_result option option" where
  "latest_payload p = fold (\<lambda>e acc. if ev_result_payload e \<noteq> None then ev_result_payload e else acc)
     (p_evidence p) None"

definition result_from_evidence :: "plan \<Rightarrow> oc_result res" where
  "result_from_evidence p =
     (let items = concat (map ev_criteria (p_evidence p)) in
      bindE (ensureE (list_all criterion_valid items) ValidationError) (\<lambda>_.
      case latest_payload p of
        Some None \<Rightarrow> Inl ValidationError
      | Some (Some r) \<Rightarrow> Inr (r\<lparr>or_criteria := items\<rparr>)
      | None \<Rightarrow>
          (let summary = (if p_evidence p = [] then ''No durable execution evidence is available.''
                          else ev_summary (last (p_evidence p))) in
           Inr ((oc_result_of OCompleted summary None)\<lparr>
             or_artifacts := JObj [(''evidence_ids'', JList (map (\<lambda>e. JStr (ev_id e)) (p_evidence p)))],
             or_verification := JObj [(''method'', JStr ''core_outcome_judge''),
               (''evidence_count'', JInt (int (length (p_evidence p))))],
             or_criteria := items\<rparr>))))"

text \<open>\<open>_plan_with_explicit_unmet_final_action_failure\<close>: reopen the last action if its own report is unmet.\<close>

definition unmet_final_action :: "plan \<Rightarrow> outcome_judgement \<Rightarrow> bool" where
  "unmet_final_action p j \<longleftrightarrow>
     (let x = node_execution p (last_action_node_id p);
          unmet = map (\<lambda>c. normalize_text (cj_criterion c))
                    (filter (\<lambda>c. \<not> cj_satisfied c \<and> cj_status c = ''unmet'') (oj_criteria j)) in
      oj_disposition j = DReplan \<and> oj_reason_code j = ''dod_unmet'' \<and> ne_state x = NsCompleted
      \<and> ne_evidence_ids x \<noteq> []
      \<and> (case find_row ev_id (last (ne_evidence_ids x)) (p_evidence p) of
           None \<Rightarrow> False
         | Some e \<Rightarrow> ev_kind e = ''result''
             \<and> list_ex (\<lambda>c. cv_status c = ''unmet'' \<and> normalize_text (cv_criterion c) \<in> set unmet)
                 (ev_criteria e)))"

definition plan_with_unmet_failure :: "plan \<Rightarrow> outcome_judgement \<Rightarrow> plan" where
  "plan_with_unmet_failure p j =
     (if unmet_final_action p j
      then (fail_node p (last_action_node_id p) NsFailed (Some (failure_value DodUnmetRecoverable)))
             \<lparr>p_judgement := Some j\<rparr>
      else p)"

text \<open>The action a judgement sends back, the evidence of its failure and the plan that records it.\<close>

definition replan_action :: "plan \<Rightarrow> plan_node option" where
  "replan_action p =
     (case filter (\<lambda>n. ne_state (node_execution p (pn_id n)) \<in> {NsPending, NsFailed})
             (rev (filter (\<lambda>n. pn_kind n = NkAction) (p_nodes p))) of
        n # _ \<Rightarrow> Some n | [] \<Rightarrow> None)"

definition dod_evidence :: "plan \<Rightarrow> string \<Rightarrow> string \<Rightarrow> int \<Rightarrow> evidence" where
  "dod_evidence p n reason now =
     \<lparr>ev_id = ''ev:'' @ n @ '':r'' @ str_of_int (p_revision p) @ '':dod'', ev_node_id = n, ev_kind = ''dod'',
      ev_summary = reason, ev_artifact_refs = [], ev_verification_refs = [],
      ev_external_run_id = None, ev_outcome = Some ''failed'', ev_criteria = [],
      ev_result_payload = None, ev_provenance = ''core_outcome_judge'', ev_created_at = Some now\<rparr>"

definition dod_failed_plan :: "plan \<Rightarrow> string \<Rightarrow> failure_class \<Rightarrow> evidence \<Rightarrow> outcome_judgement \<Rightarrow> plan" where
  "dod_failed_plan p n fc ev j =
     (let cur = node_execution p n in
      p\<lparr>p_executions := replace_execution p
           (cur\<lparr>ne_state := NsFailed, ne_last_failure_class := Some (failure_value fc),
                ne_evidence_ids := ne_evidence_ids cur @ [ev_id ev]\<rparr>),
        p_evidence := p_evidence p @ [ev], p_judgement := Some j\<rparr>)"

section \<open>Approval gates\<close>

definition approval_prompt :: "string \<Rightarrow> string" where
  "approval_prompt goal =
     ''Anh x'' @ [CHR 0xC3, CHR 0xA1] @ ''c nh'' @ [CHR 0xE1, CHR 0xBA, CHR 0xAD] @ ''n cho em ''
       @ [CHR 0xC4, CHR 0x91, CHR 0xC6, CHR 0xB0, CHR 0xE1, CHR 0xBB, CHR 0xA3] @ ''c duy''
       @ [CHR 0xE1, CHR 0xBB, CHR 0x87] @ ''t b''
       @ [CHR 0xC6, CHR 0xB0, CHR 0xE1, CHR 0xBB, CHR 0x9B] @ ''c n'' @ [CHR 0xC3, CHR 0xA0]
       @ ''y ch'' @ [CHR 0xE1, CHR 0xBB, CHR 0xA9] @ ''? H'' @ [CHR 0xC3, CHR 0xA0] @ ''nh ''
       @ [CHR 0xC4, CHR 0x91, CHR 0xE1, CHR 0xBB, CHR 0x99] @ ''ng: ''
      @ goal @
      ''. '' @ [CHR 0xE1, CHR 0xBA, CHR 0xA2] @ ''nh h''
       @ [CHR 0xC6, CHR 0xB0, CHR 0xE1, CHR 0xBB, CHR 0x9F] @ ''ng: t'' @ [CHR 0xC3, CHR 0xA1]
       @ ''c v'' @ [CHR 0xE1, CHR 0xBB, CHR 0xA5] @ '' s'' @ [CHR 0xE1, CHR 0xBA, CHR 0xBD]
       @ '' ti'' @ [CHR 0xE1, CHR 0xBA, CHR 0xBF] @ ''p t'' @ [CHR 0xE1, CHR 0xBB, CHR 0xA5]
       @ ''c '' @ [CHR 0xC4, CHR 0x91, CHR 0xC3, CHR 0xBA] @ ''ng b''
       @ [CHR 0xC6, CHR 0xB0, CHR 0xE1, CHR 0xBB, CHR 0x9B] @ ''c '' @ [CHR 0xC4, CHR 0x91]
       @ ''ang ch'' @ [CHR 0xE1, CHR 0xBB, CHR 0x9D] @ ''; n'' @ [CHR 0xE1, CHR 0xBA, CHR 0xBF]
       @ ''u kh'' @ [CHR 0xC3, CHR 0xB4] @ ''ng duy'' @ [CHR 0xE1, CHR 0xBB, CHR 0x87] @ ''t th''
       @ [CHR 0xC3, CHR 0xAC] @ '' em s'' @ [CHR 0xE1, CHR 0xBA, CHR 0xBD] @ '' gi''
       @ [CHR 0xE1, CHR 0xBB, CHR 0xAF] @ '' tr'' @ [CHR 0xE1, CHR 0xBA, CHR 0xA1] @ ''ng th''
       @ [CHR 0xC3, CHR 0xA1] @ ''i d'' @ [CHR 0xE1, CHR 0xBB, CHR 0xAB] @ ''ng.''"

text \<open>The latest approval of a run (\<open>ORDER BY requested_at DESC LIMIT 1\<close>).\<close>

definition latest_approval :: "string \<Rightarrow> string \<Rightarrow> db \<Rightarrow> approval_row option" where
  "latest_approval rid tid db = first_by (\<lambda>a. - ap_requested_at a)
     (filter (\<lambda>a. ap_workflow_id a = rid \<and> ap_task_id a = tid) (db_approvals db))"

section \<open>The core status workflow\<close>

definition as_dict :: "json \<Rightarrow> (string \<times> json) list option" where
  "as_dict j = (case j of JObj d \<Rightarrow> Some d | _ \<Rightarrow> None)"

definition get_default :: "string \<Rightarrow> (string \<times> json) list \<Rightarrow> json" where
  "get_default k d = (case map_of d k of None \<Rightarrow> JObj [] | Some v \<Rightarrow> v)"

definition probe_ok :: "json \<Rightarrow> string \<Rightarrow> bool" where
  "probe_ok j status = (case as_dict j of None \<Rightarrow> False
     | Some d \<Rightarrow> dict_get ''http_status'' d = JInt 200 \<and> dict_get ''status'' d = JStr status)"

definition sanitize_quick_check :: "json \<Rightarrow> string" where
  "sanitize_quick_check j = (if j = JStr ''ok'' then ''ok''
     else if j = JNull \<or> j = JStr ''unavailable'' then ''unavailable'' else ''failed'')"

definition status_text :: "env \<Rightarrow> json \<Rightarrow> string res" where
  "status_text E j = (case as_dict j of None \<Rightarrow> Inl AttributeError
     | Some d \<Rightarrow> Inr (json_str E (dict_get ''status'' d)))"

text \<open>The database answer that is reported: the probe's own, or the \<open>PRAGMA\<close>'s.\<close>

definition database_report :: "(string \<times> json) list \<Rightarrow> json \<Rightarrow> bool \<Rightarrow> json" where
  "database_report statuses db_check quick =
     (let database = get_default ''database'' statuses in
      if \<not> quick then database
      else JObj [(''quick_check'', JStr (sanitize_quick_check
             (case as_dict database of
                Some d \<Rightarrow> (case map_of d ''quick_check'' of Some v \<Rightarrow> v | None \<Rightarrow> db_check)
              | None \<Rightarrow> db_check)))])"

definition core_criterion :: "bool \<Rightarrow> bool \<Rightarrow> string \<Rightarrow> string \<Rightarrow> criterion_verification" where
  "core_criterion ok quick failure criterion =
     (if ok
      then \<lparr>cv_criterion = criterion, cv_status = ''verified'',
            cv_evidence_refs = [''core:asgi:/health'', ''core:asgi:/ready'']
              @ (if quick then [''core:db:quick_check''] else []),
            cv_explanation = Some (''Core-owned in-process ASGI health/ready probes passed''
              @ (if quick then '' and database quick_check returned ok.'' else ''.''))\<rparr>
      else \<lparr>cv_criterion = criterion, cv_status = ''unmet'', cv_evidence_refs = [],
            cv_explanation = Some failure\<rparr>)"

definition core_status_result ::
  "env \<Rightarrow> (string \<times> json) list \<Rightarrow> json \<Rightarrow> bool \<Rightarrow> string list \<Rightarrow> oc_result res" where
  "core_status_result E statuses db_check quick criteria =
     (let health = get_default ''health'' statuses; ready = get_default ''ready'' statuses;
          service = get_default ''service'' statuses;
          database = database_report statuses db_check quick;
          health_ok = probe_ok health ''ok''; ready_ok = probe_ok ready ''ready'';
          db_text = (case as_dict database of None \<Rightarrow> JNull | Some d \<Rightarrow> dict_get ''quick_check'' d);
          database_ok = (db_text = JStr ''ok'');
          ok = health_ok \<and> ready_ok \<and> (quick \<longrightarrow> database_ok);
          failed = (if \<not> health_ok then [''/health''] else []) @ (if \<not> ready_ok then [''/ready''] else [])
            @ (if quick \<and> \<not> database_ok then [''database quick_check''] else []);
          failure = ''Read-only verification failed: '' @ py_join '', '' failed @ '' did not pass.'';
          service_status = (case as_dict service of
              Some d \<Rightarrow> if json_truthy (dict_get ''status'' d) then json_str E (dict_get ''status'' d)
                        else if health_ok then ''running'' else ''unavailable''
            | None \<Rightarrow> if health_ok then ''running'' else ''unavailable'') in
      bindE (status_text E health) (\<lambda>ht.
      bindE (status_text E ready) (\<lambda>rt.
      bindE (ensureE (list_all (len_between 1 2000) criteria) ValidationError) (\<lambda>_.
      Inr ((oc_result_of (if ok then OCompleted else OBlocked)
        ((if ok then [CHR 0xC4, CHR 0x90, CHR 0xC3, CHR 0xA3] @ '' ki'' @ [CHR 0xE1, CHR 0xBB, CHR 0x83]
       @ ''m tra read-only: ''
          else ''Ki'' @ [CHR 0xE1, CHR 0xBB, CHR 0x83] @ ''m tra read-only ch'' @ [CHR 0xC6, CHR 0xB0]
       @ ''a '' @ [CHR 0xC4, CHR 0x91, CHR 0xE1, CHR 0xBA, CHR 0xA1] @ ''t: '')
         @ ''Core service='' @ service_status @ '', /health='' @ ht @ '', /ready='' @ rt
         @ (if quick then '', quick_check='' @ json_str E db_text else []) @ ''.'')
        (if quick \<and> \<not> database_ok then Some ''database_quick_check_failed'' else None))\<lparr>
          or_artifacts := JObj [(''service'', service), (''health'', health), (''ready'', ready),
            (''database'', database), (''changes_made'', JStr ''none''), (''file_changes'', JStr ''none''),
            (''config_changes'', JStr ''none''), (''service_restarts'', JStr ''none'')],
          or_verification := JObj [(''method'', JStr ''core_internal_asgi_get''),
            (''constraints_respected'', JList (map JStr [''no_file_changes'', ''no_config_changes'',
               ''no_service_restart'', ''no_model_provider_change'']))],
          or_profile := Some ''CE-2'',
          or_criteria := map (core_criterion ok quick failure) criteria\<rparr>)))))"

end
