(* ===== verification/Worker.thy ===== *)
theory Worker
  imports WorkerPlan
begin

text \<open>
  \<open>app/async_tasks/worker.py\<close>: one cycle of the worker. Each \<open>with session_factory()\<close> block is a
  \<open>sessionM\<close>; the executor is called between sessions. The loop of \<open>_execute_planned_run\<close> has the
  code's bound of 256 rounds as its fuel; running out of it blocks the run.
\<close>

section \<open>Results and transport errors\<close>

definition mark_terminal_notification :: "env \<Rightarrow> string \<Rightarrow> string option \<Rightarrow> int \<Rightarrow> unit M" where
  "mark_terminal_notification E rid chat now =
     bindM (mark_notification E rid (if truthy chat then NPending else NNotRequired) (utc_dt now)
              False None None) (\<lambda>_. retM ())"

definition parse_request :: "env \<Rightarrow> run_row \<Rightarrow> async_create M" where
  "parse_request E run = (case e_loads E (r_request_json run) of
      None \<Rightarrow> raiseM ValidationError
    | Some j \<Rightarrow> liftE (async_create_of_json (e_codecs E) j))"

definition governance_valid :: "oc_result \<Rightarrow> bool" where
  "governance_valid r = (case or_governance r of None \<Rightarrow> False | Some g \<Rightarrow> governance_ok g)"

text \<open>A completed result of a governed request without verified governance fails closed.\<close>

definition closed_result :: "bool \<Rightarrow> oc_result \<Rightarrow> oc_result" where
  "closed_result governed r =
     (if governed \<and> or_outcome r = OCompleted \<and> \<not> governance_valid r
      then r\<lparr>or_outcome := OFailed,
             or_summary := ''Governance result missing or not verified; run failed closed.'',
             or_error_code := Some ''governance_result_invalid''\<rparr>
      else r)"

fun outcome_run_status :: "oc_outcome \<Rightarrow> run_status" where
  "outcome_run_status OCompleted = RCompleted"
| "outcome_run_status OBlocked = RBlocked"
| "outcome_run_status OFailed = RFailed"

fun outcome_task_status :: "oc_outcome \<Rightarrow> task_status" where
  "outcome_task_status OCompleted = TCompleted"
| "outcome_task_status OBlocked = TBlocked"
| "outcome_task_status OFailed = TFailed"

definition result_text :: "env \<Rightarrow> oc_result \<Rightarrow> string" where
  "result_text E r = e_model_text E (result_doc r)"

definition persist_result :: "env \<Rightarrow> string \<Rightarrow> string \<Rightarrow> oc_result \<Rightarrow> unit M" where
  "persist_result E rid tid result =
     bindM (nowM E) (\<lambda>now.
     sessionM
      (bindM (run_get rid) (\<lambda>cur.
       if r_status cur = RCancelled then retM ()
       else
        bindM (parse_request E cur) (\<lambda>req.
        bindM (run_transition E rid RVerifying (utc_dt now)
                 (no_patch\<lparr>tp_result := Some (result_text E result),
                           tp_external := or_external_run_id result\<rparr>)) (\<lambda>_.
        bindM (task_transition E tid TVerifying None None) (\<lambda>_.
        let r = closed_result (ac_governed_coding req \<noteq> None) result in
        bindM (run_transition E rid (outcome_run_status (or_outcome r)) (utc_dt now)
                 \<lparr>tp_checkpoint = None, tp_result = Some (result_text E r), tp_code = or_error_code r,
                  tp_message = (if or_outcome r \<noteq> OCompleted then Some (or_summary r) else None),
                  tp_external = or_external_run_id r\<rparr>) (\<lambda>terminal.
        bindM (task_transition E tid (outcome_task_status (or_outcome r)) (Some (or_summary r)) None) (\<lambda>_.
        mark_terminal_notification E rid (r_source_chat_id terminal) now))))))))"

definition block_planned_run :: "env \<Rightarrow> string \<Rightarrow> string \<Rightarrow> string \<Rightarrow> string \<Rightarrow> unit M" where
  "block_planned_run E rid tid code reason =
     persist_result E rid tid (oc_result_of OBlocked reason (Some code))"

definition retry_delay :: "int \<Rightarrow> int" where
  "retry_delay attempt = (if attempt = 1 then 5 else 30)"

definition safe_error_message :: "transport_error \<Rightarrow> string" where
  "safe_error_message e = (if te_code e = ''invalid_response_contract''
     then ''OpenClaw returned an invalid execution result contract.'' else te_message e)"

definition retriable :: "transport_error \<Rightarrow> run_row \<Rightarrow> bool" where
  "retriable e run \<longleftrightarrow> te_retryable e \<and> \<not> te_uncertain_side_effect e
     \<and> r_attempt run < r_max_attempts run"

definition handle_transport_error :: "env \<Rightarrow> string \<Rightarrow> string \<Rightarrow> transport_error \<Rightarrow> unit M" where
  "handle_transport_error E rid tid e =
     bindM (nowM E) (\<lambda>now.
     sessionM
      (bindM (run_get rid) (\<lambda>run.
       if r_status run = RCancelled then retM ()
       else if retriable e run
       then bindM (schedule_retry E rid (utc_dt now) (retry_delay (r_attempt run)) (te_code e)
                     (safe_error_message e)) (\<lambda>_. retM ())
       else
        bindM (run_transition E rid (if te_uncertain_side_effect e then RBlocked else RFailed) (utc_dt now)
          \<lparr>tp_checkpoint = Some (e_model_text E (checkpoint_doc (e_codecs E)
              \<lparr>ck_stage = ''terminal'', ck_message = safe_error_message e, ck_external_run_id = None,
               ck_uncertain_side_effect = te_uncertain_side_effect e, ck_updated_at = now\<rparr>)),
           tp_result = None, tp_code = Some (te_code e), tp_message = Some (safe_error_message e),
           tp_external = None\<rparr>) (\<lambda>terminal.
        bindM (task_transition E tid (if te_uncertain_side_effect e then TBlocked else TFailed)
                 (Some (safe_error_message e)) None) (\<lambda>_.
        mark_terminal_notification E rid (r_source_chat_id terminal) now)))))"

section \<open>Plan bookkeeping\<close>

definition save_plan :: "string \<Rightarrow> string \<Rightarrow> plan \<Rightarrow> unit M" where
  "save_plan rid tid p = sessionM (bindM (plan_save rid tid p) (\<lambda>_. retM ()))"

definition require_plan :: "string \<Rightarrow> plan M" where
  "require_plan rid = bindM (plan_load rid) (\<lambda>p.
     case p of None \<Rightarrow> raiseM AssertionError | Some q \<Rightarrow> retM q)"

definition elapsed_exhausted :: "plan \<Rightarrow> int \<Rightarrow> bool" where
  "elapsed_exhausted p now = (case eb_started_at (p_budget p) of None \<Rightarrow> False
     | Some t \<Rightarrow> seconds (eb_max_elapsed_seconds (p_budget p)) \<le> now - t)"

definition actions_exhausted :: "plan \<Rightarrow> bool" where
  "actions_exhausted p \<longleftrightarrow> eb_max_actions (p_budget p) \<le> eb_actions_used (p_budget p)"

text \<open>The clock is read only when the plan's own clock runs.\<close>

definition check_elapsed :: "env \<Rightarrow> plan \<Rightarrow> bool M" where
  "check_elapsed E p = (case eb_started_at (p_budget p) of None \<Rightarrow> retM False
     | Some _ \<Rightarrow> bindM (nowM E) (\<lambda>now. retM (elapsed_exhausted p now)))"

definition block_with_judgement :: "env \<Rightarrow> string \<Rightarrow> string \<Rightarrow> plan \<Rightarrow> string \<Rightarrow> unit M" where
  "block_with_judgement E rid tid p reason =
     bindM (save_plan rid tid (p\<lparr>p_judgement := Some (blocked_judgement ''budget_exhausted'' reason)\<rparr>)) (\<lambda>_.
     block_planned_run E rid tid ''budget_exhausted'' reason)"

text \<open>Record the node as running and build its request.\<close>

definition start_planned_action ::
  "env \<Rightarrow> string \<Rightarrow> string \<Rightarrow> async_create \<Rightarrow> plan \<Rightarrow> plan_node \<Rightarrow> exec_request option M" where
  "start_planned_action E rid tid req p n =
     bindM (case eb_started_at (p_budget p) of Some t \<Rightarrow> retM t | None \<Rightarrow> nowM E) (\<lambda>started.
     let q = running_plan p n started in
     bindM (sessionM
       (bindM (run_get rid) (\<lambda>run.
        bindM (plan_save rid tid q) (\<lambda>_. retM run)))) (\<lambda>run.
     bindM (liftE (exec_request_validate (e_codecs E) (node_request req run tid q n))) (\<lambda>x.
     retM (Some x))))"

definition prepare_planned_action ::
  "env \<Rightarrow> string \<Rightarrow> string \<Rightarrow> async_create \<Rightarrow> plan \<Rightarrow> plan_node \<Rightarrow> exec_request option M" where
  "prepare_planned_action E rid tid req p n =
     bindM (check_elapsed E p) (\<lambda>late.
     if late
     then bindM (block_with_judgement E rid tid p ''Wall-clock execution budget is exhausted.'') (\<lambda>_. retM None)
     else if actions_exhausted p
     then bindM (block_with_judgement E rid tid p ''Action execution budget is exhausted.'') (\<lambda>_. retM None)
     else start_planned_action E rid tid req p n)"

definition record_action_result ::
  "env \<Rightarrow> string \<Rightarrow> string \<Rightarrow> string \<Rightarrow> oc_result \<Rightarrow> string \<Rightarrow> bool M" where
  "record_action_result E rid tid n r provenance =
     bindM (sessionM
      (bindM (require_plan rid) (\<lambda>p.
       bindM (nowM E) (\<lambda>now.
       let ev = result_evidence p n r provenance now in
       bindM (guardM (evidence_ok ev) ValidationError) (\<lambda>_.
       bindM (plan_save rid tid (recorded_plan p n r ev)) (\<lambda>_. retM ())))))) (\<lambda>_.
     retM (or_outcome r \<noteq> OCompleted))"

definition mark_budget_exhausted :: "string \<Rightarrow> string \<Rightarrow> string \<Rightarrow> string \<Rightarrow> unit M" where
  "mark_budget_exhausted rid tid n reason =
     sessionM
      (bindM (plan_load rid) (\<lambda>found.
       case found of None \<Rightarrow> retM ()
       | Some p \<Rightarrow>
          bindM (plan_save rid tid
            ((fail_node p n NsFailed (Some ''budget_exhausted''))
              \<lparr>p_judgement := Some (blocked_judgement ''budget_exhausted'' reason)\<rparr>)) (\<lambda>_. retM ())))"

definition record_transport_failure :: "string \<Rightarrow> string \<Rightarrow> string \<Rightarrow> transport_error \<Rightarrow> unit M" where
  "record_transport_failure rid tid n e =
     sessionM
      (bindM (plan_load rid) (\<lambda>found.
       case found of None \<Rightarrow> retM ()
       | Some p \<Rightarrow> bindM (plan_save rid tid (transport_plan p n e)) (\<lambda>_. retM ())))"

definition retry_budget_exhausted :: "string \<Rightarrow> transport_error \<Rightarrow> bool M" where
  "retry_budget_exhausted rid e =
     (if \<not> te_retryable e \<or> te_uncertain_side_effect e then retM False
      else sessionM
        (bindM (plan_load rid) (\<lambda>found.
         bindM (run_get rid) (\<lambda>run.
         case found of None \<Rightarrow> retM False
         | Some p \<Rightarrow> retM (r_attempt run < r_max_attempts run
              \<and> rb_max_retries (p_risk_budget p) \<le> eb_retries_used (p_budget p))))))"

definition uncertain_reason :: string where
  "uncertain_reason =
     ''A previously running plan node has no durable result; side effect is uncertain.''"

definition mark_uncertain_side_effect :: "env \<Rightarrow> string \<Rightarrow> string \<Rightarrow> string \<Rightarrow> unit M" where
  "mark_uncertain_side_effect E rid tid n =
     bindM (sessionM
      (bindM (require_plan rid) (\<lambda>p.
       bindM (plan_save rid tid
         ((fail_node p n NsBlocked (Some ''uncertain_side_effect''))
           \<lparr>p_judgement := Some (blocked_judgement ''uncertain_side_effect'' uncertain_reason)\<rparr>)) (\<lambda>_.
       retM ())))) (\<lambda>_.
     block_planned_run E rid tid ''uncertain_side_effect'' uncertain_reason)"

section \<open>Resuming a plan that has ended\<close>

text \<open>The stored results of the ended node, latest first, that are not completions.\<close>

fun stored_failure :: "plan \<Rightarrow> string list \<Rightarrow> oc_result option" where
  "stored_failure p [] = None"
| "stored_failure p (i # is) =
     (case find_row ev_id i (rev (p_evidence p)) of
        Some e \<Rightarrow> (case ev_result_payload e of
            Some (Some r) \<Rightarrow> if or_outcome r \<noteq> OCompleted then Some r else stored_failure p is
          | _ \<Rightarrow> stored_failure p is)
      | None \<Rightarrow> stored_failure p is)"

definition ended_execution :: "plan \<Rightarrow> node_execution option" where
  "ended_execution p = (case filter (\<lambda>e. ne_state e = NsBlocked \<or> ne_state e = NsFailed) (p_executions p) of
     e # _ \<Rightarrow> Some e | [] \<Rightarrow> None)"

definition all_nodes_completed :: "plan \<Rightarrow> bool" where
  "all_nodes_completed p \<longleftrightarrow>
     list_all (\<lambda>n. ne_state (node_execution p (pn_id n)) = NsCompleted) (p_nodes p)"

definition judged_satisfied :: "plan \<Rightarrow> bool" where
  "judged_satisfied p = (case p_judgement p of None \<Rightarrow> False | Some j \<Rightarrow> oj_disposition j = DSatisfied)"

definition resume_terminal_state :: "env \<Rightarrow> string \<Rightarrow> string \<Rightarrow> plan \<Rightarrow> bool M" where
  "resume_terminal_state E rid tid p =
     (if all_nodes_completed p \<and> judged_satisfied p
      then bindM (liftE (result_from_evidence p)) (\<lambda>r.
           bindM (persist_result E rid tid r) (\<lambda>_. retM True))
      else (case ended_execution p of
          None \<Rightarrow> retM False
        | Some e \<Rightarrow>
           (case stored_failure p (rev (ne_evidence_ids e)) of
              Some r \<Rightarrow> bindM (persist_result E rid tid r) (\<lambda>_. retM True)
            | None \<Rightarrow>
               if ne_state e = NsBlocked
               then bindM (block_planned_run E rid tid ''uncertain_side_effect''
                      (''A durable blocked plan node has no terminal result; ''
                       @ ''side effect status is uncertain.'')) (\<lambda>_. retM True)
               else bindM (persist_result E rid tid
                      (oc_result_of OFailed ''A durably failed plan node resumed at its terminal state.''
                        (Some (if truthy (ne_last_failure_class e) then the (ne_last_failure_class e)
                               else ''execution_failed'')))) (\<lambda>_. retM True))))"

section \<open>Gates\<close>

text \<open>\<open>True\<close> is the code's \<open>"continue"\<close>, \<open>False\<close> its \<open>"terminal"\<close>.\<close>

definition evaluate_approval_gate ::
  "env \<Rightarrow> string \<Rightarrow> string \<Rightarrow> async_create \<Rightarrow> plan \<Rightarrow> plan_node \<Rightarrow> bool M" where
  "evaluate_approval_gate E rid tid req p n =
     bindM (getM (\<lambda>w. latest_approval rid tid (w_db w))) (\<lambda>found.
     case found of
       None \<Rightarrow> bindM (block_planned_run E rid tid ''approval_required'' (approval_prompt (ac_goal req)))
                 (\<lambda>_. retM False)
     | Some a \<Rightarrow>
         if ap_action_hash a \<noteq> action_hash E (ac_goal req)
         then bindM (block_planned_run E rid tid ''approval_required'' (approval_prompt (ac_goal req)))
                (\<lambda>_. retM False)
         else if ap_status a = ApApproved
         then bindM (save_plan rid tid (set_node_state p (pn_id n) NsCompleted)) (\<lambda>_. retM True)
         else if ap_status a = ApDenied
         then bindM (block_planned_run E rid tid ''approval_denied'' ''Owner approval was denied.'')
                (\<lambda>_. retM False)
         else bindM (block_planned_run E rid tid ''approval_required'' (approval_prompt (ac_goal req)))
                (\<lambda>_. retM False))"

definition mark_and_block :: "env \<Rightarrow> string \<Rightarrow> string \<Rightarrow> plan \<Rightarrow> string \<Rightarrow> bool M" where
  "mark_and_block E rid tid p reason =
     bindM (mark_budget_exhausted rid tid (last_action_node_id p) reason) (\<lambda>_.
     bindM (block_planned_run E rid tid ''budget_exhausted'' reason) (\<lambda>_. retM False))"

definition replan_after_judgement ::
  "env \<Rightarrow> string \<Rightarrow> string \<Rightarrow> plan \<Rightarrow> outcome_judgement \<Rightarrow> bool M" where
  "replan_after_judgement E rid tid p j =
     bindM (check_elapsed E p) (\<lambda>late.
     if late then mark_and_block E rid tid p ''Wall-clock execution budget is exhausted before replan.''
     else if actions_exhausted p
     then mark_and_block E rid tid p ''Action execution budget is exhausted before replan.''
     else if rb_max_replans (p_risk_budget p) \<le> p_revision p - 1
     then mark_and_block E rid tid p ''Automatic replan budget is exhausted.''
     else if filter (\<lambda>n. pn_kind n = NkAction) (p_nodes p) = []
     then bindM (block_planned_run E rid tid (oj_reason_code j) (oj_reason j)) (\<lambda>_. retM False)
     else
      (case replan_action p of
         None \<Rightarrow>
           bindM (save_plan rid tid (p\<lparr>p_judgement := Some j\<rparr>)) (\<lambda>_.
           bindM (block_planned_run E rid tid (oj_reason_code j) (oj_reason j)) (\<lambda>_. retM False))
       | Some a \<Rightarrow>
           bindM (nowM E) (\<lambda>now.
           let fc = (if oj_reason_code j = ''dod_unmet'' then DodUnmetRecoverable else DodEvidenceMissing);
               ev = dod_evidence p (pn_id a) (oj_reason j) now;
               failed = dod_failed_plan p (pn_id a) fc ev j;
               d = reconcile_after_evidence failed fc ev in
           bindM (guardM (evidence_ok ev) ValidationError) (\<lambda>_.
           if rd_disposition d = RdRevised
           then bindM (save_plan rid tid (rd_plan d)) (\<lambda>_. retM True)
           else bindM (save_plan rid tid (failed\<lparr>p_judgement := Some j\<rparr>)) (\<lambda>_.
                bindM (block_planned_run E rid tid (oj_reason_code j) (oj_reason j)) (\<lambda>_. retM False))))))"

definition evaluate_verification :: "env \<Rightarrow> string \<Rightarrow> string \<Rightarrow> plan \<Rightarrow> plan_node \<Rightarrow> bool M" where
  "evaluate_verification E rid tid p n =
     bindM (liftE (result_from_evidence p)) (\<lambda>r.
     let j = outcome_judge p r in
     case oj_disposition j of
       DSatisfied \<Rightarrow>
         bindM (save_plan rid tid ((set_node_state p (pn_id n) NsCompleted)\<lparr>p_judgement := Some j\<rparr>)) (\<lambda>_.
         bindM (persist_result E rid tid r) (\<lambda>_. retM False))
     | DReplan \<Rightarrow> replan_after_judgement E rid tid (plan_with_unmet_failure p j) j
     | DBlocked \<Rightarrow>
         bindM (save_plan rid tid (p\<lparr>p_judgement := Some j\<rparr>)) (\<lambda>_.
         bindM (persist_result E rid tid (oc_result_of OBlocked (oj_reason j) (Some (oj_reason_code j))))
           (\<lambda>_. retM False))
     | DFailed \<Rightarrow>
         bindM (save_plan rid tid (p\<lparr>p_judgement := Some j\<rparr>)) (\<lambda>_.
         bindM (persist_result E rid tid (oc_result_of OFailed (oj_reason j) (Some (oj_reason_code j))))
           (\<lambda>_. retM False)))"

section \<open>Actions\<close>

definition result_provenance :: "oc_result \<Rightarrow> string" where
  "result_provenance r =
     (if or_provider r = Some ''local''
         \<and> (case or_profile r of None \<Rightarrow> False | Some f \<Rightarrow> starts_with ''visualforge-'' f)
      then ''visualforge'' else ''openclaw'')"

text \<open>The core status probe answers like the executor: its calls are counted on the same stream.\<close>

definition core_status_workflow ::
  "env \<Rightarrow> worker \<Rightarrow> async_create \<Rightarrow> string list \<Rightarrow> oc_result M" where
  "core_status_workflow E W req criteria =
     bindM (getM w_calls) (\<lambda>k.
     bindM (modM (\<lambda>w. w\<lparr>w_calls := Suc (w_calls w)\<rparr>)) (\<lambda>_.
     liftE (core_status_result E (wk_probe W k) (wk_db_check W k)
       (wk_quick_check W (ac_goal req)) criteria)))"

definition finish_action ::
  "env \<Rightarrow> string \<Rightarrow> string \<Rightarrow> string \<Rightarrow> oc_result \<Rightarrow> string \<Rightarrow> bool M" where
  "finish_action E rid tid n r provenance =
     bindM (record_action_result E rid tid n r provenance) (\<lambda>terminal.
     if terminal then bindM (persist_result E rid tid r) (\<lambda>_. retM False) else retM True)"

definition action_transport_error ::
  "env \<Rightarrow> string \<Rightarrow> string \<Rightarrow> string \<Rightarrow> transport_error \<Rightarrow> bool M" where
  "action_transport_error E rid tid n e =
     bindM (retry_budget_exhausted rid e) (\<lambda>exhausted.
     if exhausted
     then bindM (mark_budget_exhausted rid tid n ''Automatic retry budget is exhausted.'') (\<lambda>_.
          bindM (block_planned_run E rid tid ''budget_exhausted'' ''Automatic retry budget is exhausted.'')
            (\<lambda>_. retM False))
     else bindM (record_transport_failure rid tid n e) (\<lambda>_.
          bindM (handle_transport_error E rid tid e) (\<lambda>_. retM False)))"

definition execute_action ::
  "env \<Rightarrow> worker \<Rightarrow> string \<Rightarrow> string \<Rightarrow> async_create \<Rightarrow> plan \<Rightarrow> plan_node \<Rightarrow> exec_request \<Rightarrow> bool M" where
  "execute_action E W rid tid req p n x =
     (if wk_core_status W (ac_goal req)
      then bindM (core_status_workflow E W req (dod_criteria (p_dod p))) (\<lambda>r.
           finish_action E rid tid (pn_id n) r ''core'')
      else bindM (executeM E x) (\<lambda>answer.
           case answer of
             Inr r \<Rightarrow> finish_action E rid tid (pn_id n) r (result_provenance r)
           | Inl (TransportError e) \<Rightarrow> action_transport_error E rid tid (pn_id n) e
           | Inl e \<Rightarrow> raiseM e))"

definition run_action ::
  "env \<Rightarrow> worker \<Rightarrow> string \<Rightarrow> string \<Rightarrow> async_create \<Rightarrow> plan \<Rightarrow> plan_node \<Rightarrow> bool M" where
  "run_action E W rid tid req p n =
     bindM (prepare_planned_action E rid tid req p n) (\<lambda>prepared.
     case prepared of
       None \<Rightarrow> retM False
     | Some x \<Rightarrow> execute_action E W rid tid req p n x)"

section \<open>The planned run\<close>

definition running_execution :: "plan \<Rightarrow> node_execution option" where
  "running_execution p = (case filter (\<lambda>e. ne_state e = NsRunning) (p_executions p) of
     e # _ \<Rightarrow> Some e | [] \<Rightarrow> None)"

text \<open>A plan without a ready node.\<close>

definition no_ready_node :: "env \<Rightarrow> string \<Rightarrow> string \<Rightarrow> plan \<Rightarrow> unit M" where
  "no_ready_node E rid tid p =
     (case running_execution p of
        Some e \<Rightarrow> mark_uncertain_side_effect E rid tid (ne_node_id e)
      | None \<Rightarrow>
          bindM (resume_terminal_state E rid tid p) (\<lambda>resumed.
          if resumed then retM ()
          else block_planned_run E rid tid ''plan_stalled'' ''Plan has no ready node and is not complete.''))"

definition planned_step ::
  "env \<Rightarrow> worker \<Rightarrow> string \<Rightarrow> string \<Rightarrow> async_create \<Rightarrow> bool M" where
  "planned_step E W rid tid req =
     bindM (sessionM (plan_load rid)) (\<lambda>found.
     case found of
       None \<Rightarrow> bindM (block_planned_run E rid tid ''plan_missing''
                  ''Durable plan disappeared during execution.'') (\<lambda>_. retM False)
     | Some p \<Rightarrow>
         (case ready_nodes p of
            [] \<Rightarrow> bindM (no_ready_node E rid tid p) (\<lambda>_. retM False)
          | n # _ \<Rightarrow>
              (case pn_kind n of
                 NkApprovalGate \<Rightarrow> evaluate_approval_gate E rid tid req p n
               | NkVerificationGate \<Rightarrow> evaluate_verification E rid tid p n
               | NkAction \<Rightarrow> run_action E W rid tid req p n)))"

fun planned_loop ::
  "env \<Rightarrow> worker \<Rightarrow> string \<Rightarrow> string \<Rightarrow> async_create \<Rightarrow> nat \<Rightarrow> unit M" where
  "planned_loop E W rid tid req 0 =
     block_planned_run E rid tid ''plan_loop_exhausted''
       ''Plan execution loop exceeded its deterministic safety bound.''"
| "planned_loop E W rid tid req (Suc k) =
     bindM (planned_step E W rid tid req) (\<lambda>again.
     if again then planned_loop E W rid tid req k else retM ())"

definition execute_planned_run ::
  "env \<Rightarrow> worker \<Rightarrow> string \<Rightarrow> string \<Rightarrow> async_create \<Rightarrow> unit M" where
  "execute_planned_run E W rid tid req = planned_loop E W rid tid req 256"

section \<open>Claiming and starting\<close>

text \<open>Block the claimed run and its task (unless the task is blocked already).\<close>

definition block_claimed :: "env \<Rightarrow> run_row \<Rightarrow> int \<Rightarrow> string \<Rightarrow> string \<Rightarrow> bool \<Rightarrow> unit M" where
  "block_claimed E run now code reason skip_blocked =
     bindM (run_transition E (r_id run) RBlocked (utc_dt now)
              (no_patch\<lparr>tp_code := Some code, tp_message := Some reason\<rparr>)) (\<lambda>_.
     bindM (if skip_blocked
            then bindM (task_get (r_task_id run)) (\<lambda>t.
                 whenM (t_status t \<noteq> TBlocked)
                   (bindM (task_transition E (r_task_id run) TBlocked (Some reason) None) (\<lambda>_. retM ())))
            else bindM (task_transition E (r_task_id run) TBlocked (Some reason) None) (\<lambda>_. retM ())) (\<lambda>_.
     mark_terminal_notification E (r_id run) (r_source_chat_id run) now))"

definition execution_started :: "run_row \<Rightarrow> bool" where
  "execution_started run \<longleftrightarrow> 1 < r_attempt run \<or> r_checkpoint_json run \<noteq> None
     \<or> r_external_run_id run \<noteq> None"

text \<open>An \<open>except\<close> clause: the outcome of \<open>m\<close> as a value.\<close>

definition tryM :: "'a M \<Rightarrow> 'a res M" where
  "tryM m = (\<lambda>w. case m w of (r, w') \<Rightarrow> (Inr r, w'))"

definition reconcile_step ::
  "env \<Rightarrow> run_row \<Rightarrow> plan \<Rightarrow> truth_snapshot \<Rightarrow> replan_decision M" where
  "reconcile_step E run p fresh =
     bindM (liftE (reconcile p fresh (execution_started run))) (\<lambda>d.
     bindM (if rd_disposition d = RdRevised
            then bindM (plan_save (r_id run) (r_task_id run) (rd_plan d)) (\<lambda>_. retM ()) else retM ()) (\<lambda>_.
     retM d))"

definition reconcile_caught :: "py_error \<Rightarrow> bool" where
  "reconcile_caught e = (case e of ValidationError \<Rightarrow> True | PlanPersistenceConflict _ \<Rightarrow> True | _ \<Rightarrow> False)"

text \<open>\<open>True\<close>: the run was blocked and must not be executed.\<close>

definition reconcile_plan_before_execution ::
  "env \<Rightarrow> run_row \<Rightarrow> async_create \<Rightarrow> int \<Rightarrow> bool M" where
  "reconcile_plan_before_execution E run req now =
     bindM (tryM (plan_load (r_id run))) (\<lambda>loaded.
     case loaded of
       Inl e \<Rightarrow>
         if e = ValidationError
         then bindM (block_claimed E run now ''replan_plan_invalid''
                ''Persisted plan payload is invalid.'' False) (\<lambda>_. retM True)
         else raiseM e
     | Inr None \<Rightarrow> retM False
     | Inr (Some p) \<Rightarrow>
         bindM (tryM (truth_inspect E (ac_project_id req) (ac_workspace req))) (\<lambda>truth.
         case truth of
           Inl (PlanningTruthError reason) \<Rightarrow>
             bindM (block_claimed E run now ''replan_truth_unavailable'' reason False) (\<lambda>_. retM True)
         | Inl e \<Rightarrow> raiseM e
         | Inr fresh \<Rightarrow>
             bindM (tryM (reconcile_step E run p fresh)) (\<lambda>decided.
             case decided of
               Inl e \<Rightarrow>
                 if reconcile_caught e
                 then bindM (block_claimed E run now ''replan_plan_invalid''
                        ''Plan reconciliation payload is invalid or conflicting.'' True) (\<lambda>_. retM True)
                 else raiseM e
             | Inr d \<Rightarrow>
                 if rd_disposition d = RdBlocked
                 then bindM (block_claimed E run now ''replan_blocked'' (rd_reason d) True) (\<lambda>_. retM True)
                 else retM False)))"

text \<open>
  The claiming session of \<open>run_once\<close>: nothing to do (\<open>None\<close>), blocked (\<open>Some None\<close>), or a
  run that is now RUNNING with its request.
\<close>

definition claim_session ::
  "env \<Rightarrow> worker \<Rightarrow> (run_row \<times> async_create) option option M" where
  "claim_session E W =
     bindM (nowM E) (\<lambda>now.
     sessionM
      (bindM (claim_next E (wk_id W) (utc_dt now) (wk_lease_seconds W)) (\<lambda>claimed.
       case claimed of
         None \<Rightarrow> retM None
       | Some run \<Rightarrow>
           bindM (task_get (r_task_id run)) (\<lambda>task.
           bindM (parse_request E run) (\<lambda>req.
           bindM (liftE (async_policy_evaluate (sv_fs (wk_service W)) (sv_roots (wk_service W)) req)) (\<lambda>decision.
           if \<not> ad_allowed decision
           then bindM (block_claimed E run now (ad_reason_code decision) (ad_message decision) False)
                  (\<lambda>_. retM (Some None))
           else
            bindM (reconcile_plan_before_execution E run req now) (\<lambda>stopped.
            if stopped then retM (Some None)
            else
             bindM (run_transition E (r_id run) RRunning (utc_dt now)
               (no_patch\<lparr>tp_checkpoint := Some (e_model_text E (checkpoint_doc (e_codecs E)
                 \<lparr>ck_stage = ''running'', ck_message = ''Core execution started.'',
                  ck_external_run_id = None, ck_uncertain_side_effect = False, ck_updated_at = now\<rparr>))\<rparr>)) (\<lambda>_.
             bindM (whenM (t_status task = TQueued \<or> t_status task = TVerifying)
               (bindM (task_transition E (t_id task) TRunning None None) (\<lambda>_. retM ()))) (\<lambda>_.
             retM (Some (Some (run, req))))))))))))"

definition execute_unplanned :: "env \<Rightarrow> run_row \<Rightarrow> async_create \<Rightarrow> unit M" where
  "execute_unplanned E run req =
     bindM (liftE (exec_request_validate (e_codecs E) (plain_request req run))) (\<lambda>x.
     bindM (executeM E x) (\<lambda>answer.
     case answer of
       Inr r \<Rightarrow> persist_result E (r_id run) (r_task_id run) r
     | Inl (TransportError e) \<Rightarrow> handle_transport_error E (r_id run) (r_task_id run) e
     | Inl e \<Rightarrow> raiseM e))"

definition worker_run_once :: "env \<Rightarrow> worker \<Rightarrow> bool M" where
  "worker_run_once E W =
     bindM (claim_session E W) (\<lambda>claimed.
     case claimed of
       None \<Rightarrow> retM False
     | Some None \<Rightarrow> retM True
     | Some (Some (run, req)) \<Rightarrow>
         bindM (sessionM (plan_load (r_id run))) (\<lambda>plan.
         bindM (if plan \<noteq> None then execute_planned_run E W (r_id run) (r_task_id run) req
                else if wk_core_status W (ac_goal req)
                then block_planned_run E (r_id run) (r_task_id run) ''plan_missing''
                  (''Core-native health/ready execution requires a durable plan ''
                   @ ''and Outcome Judge contract.'')
                else execute_unplanned E run req) (\<lambda>_.
         retM True)))"

section \<open>The worker refines the system\<close>

lemma keep_parse [keep]: "within R (parse_request E run)"
  unfolding parse_request_def by (intro keep)

lemma keep_require_plan [keep]: "within R (require_plan rid)"
  unfolding require_plan_def by (intro keep)

lemma keep_check_elapsed [keep]: "within R (check_elapsed E p)"
  unfolding check_elapsed_def by (intro keep)

lemma keep_retry_budget [keep]: "within R (retry_budget_exhausted rid e)"
  unfolding retry_budget_exhausted_def by (intro keep)

lemma keep_core_status [keep]: "within R (core_status_workflow E W req cs)"
  unfolding core_status_workflow_def by (intro keep) (simp add: within_def run_simps)

lemma keep_try [keep]: "within R m \<Longrightarrow> within R (tryM m)"
  by (auto simp: within_def tryM_def split: prod.splits) (metis snd_conv)

lemma keep_sum [keep]:
  "(\<And>a. x = Inl a \<Longrightarrow> within R (f a)) \<Longrightarrow> (\<And>b. x = Inr b \<Longrightarrow> within R (g b)) \<Longrightarrow>
   within R (case x of Inl a \<Rightarrow> f a | Inr b \<Rightarrow> g b)"
  by (cases x) simp_all

lemma keep_list [keep]:
  "within R m \<Longrightarrow> (\<And>x ys. within R (f x ys)) \<Longrightarrow> within R (case xs of [] \<Rightarrow> m | x # ys \<Rightarrow> f x ys)"
  by (cases xs) simp_all

lemma keep_kind [keep]:
  "within R a \<Longrightarrow> within R b \<Longrightarrow> within R c \<Longrightarrow>
   within R (case k of NkAction \<Rightarrow> a | NkApprovalGate \<Rightarrow> b | NkVerificationGate \<Rightarrow> c)"
  by (cases k) simp_all

lemma keep_disposition [keep]:
  "within R a \<Longrightarrow> within R b \<Longrightarrow> within R c \<Longrightarrow> within R d \<Longrightarrow>
   within R (case k of DSatisfied \<Rightarrow> a | DReplan \<Rightarrow> b | DBlocked \<Rightarrow> c | DFailed \<Rightarrow> d)"
  by (cases k) simp_all

text \<open>Handlers of one exception, with every other one raised again.\<close>

lemma keep_transport [keep]:
  "(\<And>r. within R (f r)) \<Longrightarrow> (\<And>e. within R (g e)) \<Longrightarrow>
   within R (case x of Inl (TransportError e) \<Rightarrow> g e | Inl e \<Rightarrow> raiseM e | Inr r \<Rightarrow> f r)"
  by (cases x) (auto intro: keep split: py_error.splits)

lemma keep_truth [keep]:
  "(\<And>r. within R (f r)) \<Longrightarrow> (\<And>e. within R (g e)) \<Longrightarrow>
   within R (case x of Inl (PlanningTruthError e) \<Rightarrow> g e | Inl e \<Rightarrow> raiseM e | Inr r \<Rightarrow> f r)"
  by (cases x) (auto intro: keep split: py_error.splits)

lemma mark_terminal_refines [sys]: "within (system_step E) (mark_terminal_notification E rid chat now)"
  unfolding mark_terminal_notification_def by (intro keep sys)

lemma persist_result_refines [sys]: "within (system_step E) (persist_result E rid tid r)"
  unfolding persist_result_def by (intro keep sys)

lemma block_planned_refines [sys]: "within (system_step E) (block_planned_run E rid tid c r)"
  unfolding block_planned_run_def by (intro keep sys)

lemma handle_transport_refines [sys]: "within (system_step E) (handle_transport_error E rid tid e)"
  unfolding handle_transport_error_def by (intro keep sys)

lemma plan_ops_refine [sys]:
  "within (system_step E) (save_plan rid tid p)"
  "within (system_step E) (mark_budget_exhausted rid tid n reason)"
  "within (system_step E) (record_transport_failure rid tid n te)"
  "within (system_step E) (record_action_result E rid tid n r prov)"
  unfolding save_plan_def mark_budget_exhausted_def record_transport_failure_def record_action_result_def
  by (intro keep sys)+

lemma prepare_refines [sys]: "within (system_step E) (prepare_planned_action E rid tid req p n)"
  unfolding prepare_planned_action_def start_planned_action_def block_with_judgement_def by (intro keep sys)

lemma gates_refine [sys]:
  "within (system_step E) (evaluate_approval_gate E rid tid req p n)"
  "within (system_step E) (replan_after_judgement E rid tid p j)"
  unfolding evaluate_approval_gate_def replan_after_judgement_def mark_and_block_def
  by (intro keep sys)+

lemma verification_refines [sys]: "within (system_step E) (evaluate_verification E rid tid p n)"
  unfolding evaluate_verification_def by (intro keep sys)

lemma no_ready_refines [sys]: "within (system_step E) (no_ready_node E rid tid p)"
  unfolding no_ready_node_def mark_uncertain_side_effect_def resume_terminal_state_def
  by (intro keep sys)

lemma run_action_refines [sys]: "within (system_step E) (run_action E W rid tid req p n)"
  unfolding run_action_def execute_action_def finish_action_def action_transport_error_def by (intro keep sys)

lemma planned_step_refines [sys]: "within (system_step E) (planned_step E W rid tid req)"
  unfolding planned_step_def by (intro keep sys)

lemma planned_loop_refines [sys]: "within (system_step E) (planned_loop E W rid tid req k)"
  by (induction k) (auto intro!: keep sys)

lemma block_claimed_refines [sys]: "within (system_step E) (block_claimed E run now c r b)"
  unfolding block_claimed_def by (intro keep sys)

lemma reconcile_refines [sys]: "within (system_step E) (reconcile_plan_before_execution E run req now)"
  unfolding reconcile_plan_before_execution_def reconcile_step_def by (intro keep sys)

lemma claim_session_refines [sys]: "within (system_step E) (claim_session E W)"
  unfolding claim_session_def by (intro keep sys)

lemma worker_refines [sys]: "within (system_step E) (worker_run_once E W)"
  unfolding worker_run_once_def execute_planned_run_def execute_unplanned_def by (intro keep sys)

end
