(* ===== verification/Recovery.thy ===== *)
theory Recovery
  imports Worker
begin

text \<open>
  \<open>app/async_tasks/recovery.py\<close> (stale leases after a crash) and
  \<open>app/async_tasks/notification.py\<close> (delivery of final results).
\<close>

section \<open>Recovery\<close>

record recovery_summary =
  rs_requeued :: int
  rs_blocked :: int
  rs_policy_unblocked :: int

definition checkpoint_of :: "env \<Rightarrow> string option \<Rightarrow> (string \<times> json) list" where
  "checkpoint_of E text = (case text of None \<Rightarrow> []
     | Some s \<Rightarrow> if s = [] then []
                 else (case e_loads E s of Some (JObj d) \<Rightarrow> d | _ \<Rightarrow> []))"

definition uncertain_checkpoint :: "env \<Rightarrow> run_row \<Rightarrow> bool" where
  "uncertain_checkpoint E run \<longleftrightarrow>
     json_truthy (dict_get ''uncertain_side_effect'' (checkpoint_of E (r_checkpoint_json run)))"

text \<open>May the run be executed again?\<close>

definition safe_to_requeue :: "env \<Rightarrow> async_create \<Rightarrow> run_row \<Rightarrow> bool" where
  "safe_to_requeue E req run \<longleftrightarrow> ac_risk_level req = 0
     \<or> (ac_risk_level req = 1 \<and> r_idempotency_key run \<noteq> [] \<and> \<not> uncertain_checkpoint E run)"

definition recovery_reason :: "bool \<Rightarrow> string" where
  "recovery_reason safe = (if safe then ''Stale lease recovered safely.''
     else ''Stale lease was blocked because risk or side-effect certainty does not allow replay.'')"

definition block_stale_task :: "env \<Rightarrow> run_row \<Rightarrow> unit M" where
  "block_stale_task E run =
     whenM (e_audit E)
      (bindM (task_get (r_task_id run)) (\<lambda>t.
       whenM (t_status t = TQueued \<or> t_status t = TRunning \<or> t_status t = TVerifying)
        (bindM (task_transition E (t_id t) TBlocked
           (Some ''Stale run blocked because replay is not proven safe.'') None) (\<lambda>_. retM ()))))"

definition recover_run :: "env \<Rightarrow> int \<Rightarrow> run_row \<Rightarrow> bool M" where
  "recover_run E now run =
     bindM (parse_request E run) (\<lambda>req.
     let safe = safe_to_requeue E req run in
     bindM (recover_stale E (r_id run) safe (utc_dt now) (recovery_reason safe)) (\<lambda>rec.
     if safe then retM True
     else
      bindM (whenM (truthy (r_source_chat_id rec))
        (bindM (mark_notification E (r_id run) NPending (utc_dt now) False None None) (\<lambda>_. retM ()))) (\<lambda>_.
      bindM (block_stale_task E run) (\<lambda>_. retM False))))"

fun recover_runs :: "env \<Rightarrow> int \<Rightarrow> run_row list \<Rightarrow> recovery_summary \<Rightarrow> recovery_summary M" where
  "recover_runs E now [] s = retM s"
| "recover_runs E now (r # rs) s =
     bindM (recover_run E now r) (\<lambda>requeued.
     recover_runs E now rs
       (if requeued then s\<lparr>rs_requeued := rs_requeued s + 1\<rparr> else s\<lparr>rs_blocked := rs_blocked s + 1\<rparr>))"

definition recover_stale_runs :: "env \<Rightarrow> py_datetime option \<Rightarrow> recovery_summary M" where
  "recover_stale_runs E now =
     bindM (case now of None \<Rightarrow> nowM E | Some t \<Rightarrow> retM (to_utc t)) (\<lambda>ts.
     sessionM
      (bindM (getM (\<lambda>w. list_stale_leases (utc_dt ts) (w_db w))) (\<lambda>stale.
       recover_runs E ts stale \<lparr>rs_requeued = 0, rs_blocked = 0, rs_policy_unblocked = 0\<rparr>)))"

section \<open>Notifications\<close>

definition max_notification_attempts :: int where
  "max_notification_attempts = 5"

definition notification_run_once :: "env \<Rightarrow> bool M" where
  "notification_run_once E =
     bindM (nowM E) (\<lambda>now.
     bindM (sessionM (claim_next_notification (utc_dt now) max_notification_attempts)) (\<lambda>claimed.
     case claimed of
       None \<Rightarrow> retM False
     | Some run \<Rightarrow>
         bindM (send_finalM E run) (\<lambda>answer.
         case answer of
           Inl (TransportError e) \<Rightarrow>
             bindM (sessionM
              (bindM (run_get (r_id run)) (\<lambda>cur.
               bindM (nowM E) (\<lambda>later.
               bindM (mark_notification E (r_id run)
                 (if te_retryable e \<and> r_notification_attempts cur < max_notification_attempts
                  then NPending else NFailed)
                 (utc_dt later) False (Some (te_code e)) (Some (te_message e))) (\<lambda>_. retM ()))))) (\<lambda>_.
             retM True)
         | Inl e \<Rightarrow> raiseM e
         | Inr _ \<Rightarrow>
             bindM (sessionM
              (bindM (nowM E) (\<lambda>later.
               bindM (mark_notification E (r_id run) NSent (utc_dt later) False None None) (\<lambda>_. retM ())))) (\<lambda>_.
             retM True))))"

section \<open>The services refine the system\<close>

lemma recover_run_refines [sys]: "within (system_step E) (recover_run E now run)"
  unfolding recover_run_def block_stale_task_def by (intro keep sys)

lemma recover_runs_refines [sys]: "within (system_step E) (recover_runs E now rs s)"
  by (induction rs arbitrary: s) (auto intro!: keep sys)

lemma recovery_refines [sys]: "within (system_step E) (recover_stale_runs E now)"
  unfolding recover_stale_runs_def by (intro keep sys)

lemma notification_refines [sys]: "within (system_step E) (notification_run_once E)"
  unfolding notification_run_once_def by (intro keep sys)

end
