(* ===== verification/Success.thy ===== *)
theory Success
  imports Recovery
begin

text \<open>
  When the operations return: a status change whose guard holds and whose audit event is within
  the event's field limits returns the row it wrote. From these, persisting the result of a
  running run always succeeds.
\<close>

section \<open>Audit events\<close>

lemma audit_write_returns:
  assumes "len_between 1 128 ty" "len_opt 128 a" "len_opt 128 t" "len_opt 128 p"
  shows "\<exists>w'. audit_write E ty a t p pl w = (Inr (), w') \<and> w_db w' = w_db w \<and> w_calls w' = w_calls w"
  using assms by (simp add: audit_write_def run_simps uuidM_def nowM_def)

text \<open>The fields of a run that go into its events fit.\<close>

definition run_fits :: "env \<Rightarrow> run_row \<Rightarrow> bool" where
  "run_fits E r \<longleftrightarrow> py_len (r_task_id r) \<le> 128 \<and> len_opt 128 (run_project_id E (r_request_json r))"

definition task_fits :: "task_row \<Rightarrow> bool" where
  "task_fits t \<longleftrightarrow> py_len (t_id t) \<le> 128 \<and> py_len (t_project_id t) \<le> 128"

lemma run_fits_rows [simp]:
  "run_fits E (moved_row E' st ts p r) = run_fits E r" "run_fits E (notified_row nst inc ts r) = run_fits E r"
  "run_fits E (retry_row E' ts dl code msg r) = run_fits E r"
  by (simp_all add: run_fits_def row_defs)

lemma run_event_returns:
  assumes "run_fits E r" "len_between 1 128 ev" "len_opt 128 a"
  shows "\<exists>w'. write_async_run_event E ev r a p w = (Inr (), w') \<and> w_db w' = w_db w \<and> w_calls w' = w_calls w"
proof (cases "e_audit E")
  case True
  from assms(1) have "len_opt 128 (Some (r_task_id r))" "len_opt 128 (run_project_id E (r_request_json r))"
    by (simp_all add: run_fits_def)
  from audit_write_returns [OF assms(2,3) this] True show ?thesis by (simp add: write_async_run_event_def)
qed (simp add: write_async_run_event_def retM_def)

section \<open>Status changes\<close>

lemma wrote_put: "find_run i w = Some r \<Longrightarrow> r_id r' = r_id r \<Longrightarrow>
    w_db w' = (w_db w)\<lparr>db_runs := put_row r_id r' (db_runs (w_db w))\<rparr> \<Longrightarrow> wrote r r' w w'"
  by (auto simp: wrote_def dest: find_run_id)

lemma terminal_event_fits: "terminal_event st = Some ev \<Longrightarrow> len_between 1 128 ev"
  by (cases st) (auto simp: len_between_def py_len_def is_cont_def)

lemma run_transition_returns:
  assumes "find_run i w = Some r" "st \<in> set (async_run_transitions (r_status r))" "run_fits E r"
  obtains w' where "run_transition E i st now p w = (Inr (moved_row E st (to_utc now) p r), w')"
    "wrote r (moved_row E st (to_utc now) p r) w w'" "w_calls w' = w_calls w"
proof -
  let ?r = "moved_row E st (to_utc now) p r"
  let ?w = "w\<lparr>w_db := (w_db w)\<lparr>db_runs := put_row r_id ?r (db_runs (w_db w))\<rparr>\<rparr>"
  have "\<exists>w'. (case terminal_event st of None \<Rightarrow> retM ()
      | Some ev \<Rightarrow> write_async_run_event E ev ?r None (error_payload (tp_code p) (tp_message p))) ?w = (Inr (), w')
    \<and> w_db w' = w_db ?w \<and> w_calls w' = w_calls ?w"
  proof (cases "terminal_event st")
    case None
    then show ?thesis by (simp add: retM_def)
  next
    case (Some ev)
    have "run_fits E ?r" using assms(3) by simp
    then show ?thesis unfolding Some option.case
      by (rule run_event_returns [OF _ terminal_event_fits [OF Some]]) simp
  qed
  then obtain w' where w': "(case terminal_event st of None \<Rightarrow> retM ()
      | Some ev \<Rightarrow> write_async_run_event E ev ?r None (error_payload (tp_code p) (tp_message p))) ?w = (Inr (), w')"
    "w_db w' = w_db ?w" "w_calls w' = w_calls ?w" by blast
  then have "run_transition E i st now p w = (Inr ?r, w')"
    using assms(1,2)
    by (simp add: run_transition_def Let_def bindM_run require_run_run put_run_def put_runs prim_runs)
  moreover have "wrote r ?r w w'" using w' assms(1) by (intro wrote_put) simp_all
  ultimately show ?thesis using that w'(3) by simp
qed

lemma mark_notification_returns:
  assumes "find_run i w = Some r" "run_fits E r"
  obtains w' where "mark_notification E i st now inc code msg w = (Inr (notified_row st inc (to_utc now) r), w')"
    "wrote r (notified_row st inc (to_utc now) r) w w'" "w_calls w' = w_calls w"
proof -
  let ?r = "notified_row st inc (to_utc now) r"
  let ?w = "w\<lparr>w_db := (w_db w)\<lparr>db_runs := put_row r_id ?r (db_runs (w_db w))\<rparr>\<rparr>"
  have fits: "notification_event st code msg = Some ev \<Longrightarrow> len_between 1 128 ev" for ev
    by (auto simp: notification_event_def len_between_def py_len_def is_cont_def split: if_splits)
  have "\<exists>w'. (case notification_event st code msg of None \<Rightarrow> retM ()
            | Some ev \<Rightarrow> write_async_run_event E ev ?r None
                ([(''notification_attempts'', JInt (r_notification_attempts ?r))]
                 @ error_payload code msg @ [(''retry_scheduled'', JBool (st = NPending))])) ?w = (Inr (), w')
    \<and> w_db w' = w_db ?w \<and> w_calls w' = w_calls ?w"
  proof (cases "notification_event st code msg")
    case None
    then show ?thesis by (simp add: retM_def)
  next
    case (Some ev)
    have "run_fits E ?r" using assms(2) by simp
    then show ?thesis unfolding Some option.case by (rule run_event_returns [OF _ fits [OF Some]]) simp
  qed
  then obtain w' where w': "(case notification_event st code msg of None \<Rightarrow> retM ()
            | Some ev \<Rightarrow> write_async_run_event E ev ?r None
                ([(''notification_attempts'', JInt (r_notification_attempts ?r))]
                 @ error_payload code msg @ [(''retry_scheduled'', JBool (st = NPending))])) ?w = (Inr (), w')"
    "w_db w' = w_db ?w" "w_calls w' = w_calls ?w" by blast
  then have "mark_notification E i st now inc code msg w = (Inr ?r, w')"
    using assms(1)
    by (simp add: mark_notification_def Let_def bindM_run require_run_run put_run_def put_runs prim_runs)
  moreover have "wrote r ?r w w'" using w' assms(1) by (intro wrote_put) simp_all
  ultimately show ?thesis using that w'(3) by simp
qed

lemma task_transition_returns:
  assumes "find_task i w = Some t" "st \<in> set (task_transitions (t_status t))" "task_fits t"
    "st = TCompleted \<Longrightarrow> normalize_optional_text rs \<noteq> None"
  obtains t' w' where "task_transition E i st rs step w = (Inr t', w')" "t_id t' = i" "t_status t' = st"
    "t_project_id t' = t_project_id t" "t_result_summary t' = (case normalize_optional_text rs of
       None \<Rightarrow> t_result_summary t | Some s \<Rightarrow> Some s)"
    "w_db w' = (w_db w)\<lparr>db_tasks := put_row t_id t' (db_tasks (w_db w))\<rparr>" "w_calls w' = w_calls w"
proof -
  let ?t = "task_changed st (normalize_optional_text rs) step (to_utc (e_clock E (w_ticks w))) t"
  let ?w = "w\<lparr>w_ticks := Suc (w_ticks w), w_db := (w_db w)\<lparr>db_tasks := put_row t_id ?t (db_tasks (w_db w))\<rparr>\<rparr>"
  have "len_between 1 128 ''task.status_changed''" "len_opt 128 (Some ''system'')"
    "len_opt 128 (Some (t_id ?t))" "len_opt 128 (Some (t_project_id ?t))"
    using assms(3) by (simp_all add: task_fits_def len_between_def py_len_def is_cont_def)
  from audit_write_returns [OF this, of E] obtain w' where
    w': "audit_write E ''task.status_changed'' (Some ''system'') (Some (t_id ?t)) (Some (t_project_id ?t))
       [(''from_status'', JStr (task_status_value (t_status t))),
        (''project_id'', JStr (t_project_id ?t)),
        (''result_summary_fingerprint'', jopt (content_fingerprint E) (t_result_summary ?t)),
        (''task_id'', JStr (t_id ?t)), (''to_status'', JStr (task_status_value (t_status ?t))),
        (''version'', JInt (t_version ?t))] ?w = (Inr (), w')" "w_db w' = w_db ?w" "w_calls w' = w_calls ?w"
    by blast
  then have "task_transition E i st rs step w = (Inr ?t, w')"
    using assms(1,2,4)
    by (auto simp: task_transition_def Let_def bindM_run require_task_run put_task_def put_runs prim_runs nowM_def)
  then show ?thesis using that w' find_task_id [OF assms(1)] by (simp split: option.splits)
qed

lemma schedule_retry_returns:
  assumes "find_run i w = Some r" "r_status r = RRunning" "0 \<le> dl" "run_fits E r"
  obtains w' where "schedule_retry E i now dl code msg w = (Inr (retry_row E (to_utc now) dl code msg r), w')"
    "wrote r (retry_row E (to_utc now) dl code msg r) w w'" "w_calls w' = w_calls w"
proof -
  let ?r = "retry_row E (to_utc now) dl code msg r"
  let ?w = "w\<lparr>w_db := (w_db w)\<lparr>db_runs := put_row r_id ?r (db_runs (w_db w))\<rparr>\<rparr>"
  from run_event_returns [of E ?r "''async_run.retry_scheduled''" None] assms(4)
  obtain w' where w': "write_async_run_event E ''async_run.retry_scheduled'' ?r None
              [(''delay_seconds'', JInt dl), (''error_code'', JStr code), (''error_message'', JStr msg),
               (''run_after'', JStr (isoformat (e_codecs E) (utc_dt (r_run_after ?r))))] ?w = (Inr (), w')"
      "w_db w' = w_db ?w" "w_calls w' = w_calls ?w"
    by (fastforce simp: len_between_def py_len_def is_cont_def)
  then have "schedule_retry E i now dl code msg w = (Inr ?r, w')"
    using assms(1-3) by (simp add: schedule_retry_def Let_def bindM_run require_run_run prim_runs put_run_def put_runs)
  moreover have "wrote r ?r w w'" using assms(1) w' by (intro wrote_put) auto
  ultimately show ?thesis using that w' by simp
qed

section \<open>Persisting a result\<close>

lemma find_after_run: "wrote r r' w w' \<Longrightarrow> find_task i w' = find_task i w"
  by (simp add: wrote_def find_task_def)

lemma find_after_task: "w_db w' = (w_db w)\<lparr>db_tasks := ts\<rparr> \<Longrightarrow> find_run i w' = find_run i w"
  by (simp add: find_run_def)

lemma put_task_find: "w_db w' = (w_db w)\<lparr>db_tasks := put_row t_id t (db_tasks (w_db w))\<rparr> \<Longrightarrow>
    find_task (t_id t) w \<noteq> None \<Longrightarrow> find_task (t_id t) w' = Some t"
  by (auto simp: find_task_def row_simps)

lemma parse_request_run:
  assumes "e_loads E (r_request_json r) = Some j" "async_create_of_json (e_codecs E) j = Inr req"
  shows "parse_request E r w = (Inr req, w)"
  using assms by (simp add: parse_request_def liftE_def)

lemma verifying_exits: "outcome_run_status oc \<in> set (async_run_transitions RVerifying)"
    "outcome_task_status oc \<in> set (task_transitions TVerifying)"
  by (cases oc; simp)+

text \<open>Ending a run: its status, its task's status and the notification, in this order.\<close>

definition ended_row :: "env \<Rightarrow> run_status \<Rightarrow> int \<Rightarrow> run_patch \<Rightarrow> run_row \<Rightarrow> run_row" where
  "ended_row E st now p r = notified_row (if truthy (r_source_chat_id r) then NPending else NNotRequired) False now
     (moved_row E st now p r)"

lemma moved_chat [simp]: "r_source_chat_id (moved_row E st ts p r) = r_source_chat_id r"
  by (simp add: moved_row_def)

lemma close_run_returns:
  assumes run: "find_run rid w = Some r" "st \<in> set (async_run_transitions (r_status r))" "run_fits E r"
    and task: "find_task tid w = Some t" "ts \<in> set (task_transitions (t_status t))" "task_fits t"
    and result: "ts = TCompleted \<Longrightarrow> normalize_optional_text rs \<noteq> None"
  obtains w' t' where "bindM (run_transition E rid st (utc_dt now) p) (\<lambda>terminal.
      bindM (task_transition E tid ts rs None) (\<lambda>_.
      mark_terminal_notification E rid (r_source_chat_id terminal) now)) w = (Inr (), w')"
    "find_run rid w' = Some (ended_row E st now p r)" "find_task tid w' = Some t'" "t_status t' = ts"
    "t_result_summary t' = (case normalize_optional_text rs of None \<Rightarrow> t_result_summary t | Some s \<Rightarrow> Some s)"
    "db_workflows (w_db w') = db_workflows (w_db w)"
proof -
  define r1 where "r1 = moved_row E st now p r"
  define n where "n = (if truthy (r_source_chat_id r) then NPending else NNotRequired)"
  have id: "r_id r1 = rid" "r_source_chat_id r1 = r_source_chat_id r" "run_fits E r1"
    using find_run_id [OF run(1)] run(3) by (simp_all add: r1_def)
  obtain w1 where w1: "run_transition E rid st (utc_dt now) p w = (Inr r1, w1)" "wrote r r1 w w1"
    using run_transition_returns [OF run, of "utc_dt now" p] by (auto simp: r1_def)
  have f1: "find_run rid w1 = Some r1" "find_task tid w1 = Some t"
    using wrote_find [OF w1(2), of rid] run(1) id task(1) find_after_run [OF w1(2)] find_run_id by auto
  obtain t1 w2 where w2: "task_transition E tid ts rs None w1 = (Inr t1, w2)" "t_id t1 = tid" "t_status t1 = ts"
    "t_result_summary t1 = (case normalize_optional_text rs of None \<Rightarrow> t_result_summary t | Some s \<Rightarrow> Some s)"
    "w_db w2 = (w_db w1)\<lparr>db_tasks := put_row t_id t1 (db_tasks (w_db w1))\<rparr>"
    by (rule task_transition_returns [OF f1(2) task(2,3) result])
  have f2: "find_run rid w2 = Some r1" "find_task tid w2 = Some t1"
    using f1 w2(2) find_after_task [OF w2(5)] put_task_find [OF w2(5)] by auto
  obtain w3 where w3: "mark_notification E rid n (utc_dt now) False None None w2 = (Inr (notified_row n False now r1), w3)"
    "wrote r1 (notified_row n False now r1) w2 w3"
    using mark_notification_returns [OF f2(1) id(3), of n "utc_dt now" False None None] by auto
  have "find_run rid w3 = Some (ended_row E st now p r)" "find_task tid w3 = Some t1"
    using wrote_find [OF w3(2), of rid] id f2 find_after_run [OF w3(2)]
    by (simp_all add: ended_row_def r1_def n_def)
  moreover have "db_workflows (w_db w3) = db_workflows (w_db w)"
    using w1(2) w2(5) w3(2) by (simp add: wrote_def)
  ultimately show ?thesis using that w1(1) w2 w3(1) id(2)
    by (simp add: bindM_run mark_terminal_notification_def n_def retM_def)
qed

text \<open>
  Persisting a result: run and task go to VERIFYING, then the run, its task and the notification
  are closed with the outcome. The first half returns for every running run; the second raises
  exactly when a completed result has no summary, and then the session is rolled back.
\<close>

definition closing_patch :: "env \<Rightarrow> oc_result \<Rightarrow> run_patch" where
  "closing_patch E c = \<lparr>tp_checkpoint = None, tp_result = Some (result_text E c), tp_code = or_error_code c,
     tp_message = (if or_outcome c \<noteq> OCompleted then Some (or_summary c) else None),
     tp_external = or_external_run_id c\<rparr>"

definition close_result :: "env \<Rightarrow> string \<Rightarrow> string \<Rightarrow> int \<Rightarrow> oc_result \<Rightarrow> unit M" where
  "close_result E rid tid now c =
     bindM (run_transition E rid (outcome_run_status (or_outcome c)) (utc_dt now) (closing_patch E c)) (\<lambda>terminal.
     bindM (task_transition E tid (outcome_task_status (or_outcome c)) (Some (or_summary c)) None) (\<lambda>_.
     mark_terminal_notification E rid (r_source_chat_id terminal) now))"

lemma persist_result_closing:
  assumes run: "find_run rid w = Some r" "r_status r = RRunning" "run_fits E r"
    and task: "find_task tid w = Some t" "t_status t = TRunning" "task_fits t"
    and req: "e_loads E (r_request_json r) = Some j" "async_create_of_json (e_codecs E) j = Inr req"
    and c: "c = closed_result (ac_governed_coding req \<noteq> None) result"
  obtains now r1 t1 w2 where "find_run rid w2 = Some r1" "r_status r1 = RVerifying" "run_fits E r1"
    "r_source_chat_id r1 = r_source_chat_id r" "find_task tid w2 = Some t1" "t_status t1 = TVerifying" "task_fits t1"
    "t_result_summary t1 = t_result_summary t" "db_workflows (w_db w2) = db_workflows (w_db w)"
    "persist_result E rid tid result w = (case close_result E rid tid now c w2 of
        (Inl e, w') \<Rightarrow> (Inl e, w'\<lparr>w_db := w_db w\<rparr>) | (Inr u, w') \<Rightarrow> (Inr u, w'))"
proof -
  define now where "now = to_utc (e_clock E (w_ticks w))"
  define p1 where "p1 = no_patch\<lparr>tp_result := Some (result_text E result), tp_external := or_external_run_id result\<rparr>"
  define r1 where "r1 = moved_row E RVerifying now p1 r"
  let ?w0 = "w\<lparr>w_ticks := Suc (w_ticks w)\<rparr>"
  have f0: "find_run rid ?w0 = Some r" "find_task tid ?w0 = Some t" using run task by (simp_all add: find_defs)
  have v: "RVerifying \<in> set (async_run_transitions (r_status r))" "TVerifying \<in> set (task_transitions (t_status t))"
    using run(2) task(2) by simp_all
  have r1: "r_id r1 = rid" "r_status r1 = RVerifying" "run_fits E r1" "r_source_chat_id r1 = r_source_chat_id r"
    using find_run_id [OF run(1)] run(3) by (simp_all add: r1_def)
  obtain w1 where w1: "run_transition E rid RVerifying (utc_dt now) p1 ?w0 = (Inr r1, w1)" "wrote r r1 ?w0 w1"
    using run_transition_returns [OF f0(1) v(1) run(3), of "utc_dt now" p1] by (auto simp: r1_def)
  have f1: "find_run rid w1 = Some r1" "find_task tid w1 = Some t"
    using wrote_find [OF w1(2), of rid] r1 f0 find_run_id [OF run(1)] find_after_run [OF w1(2)] by simp_all
  obtain t1 w2 where w2: "task_transition E tid TVerifying None None w1 = (Inr t1, w2)" "t_id t1 = tid"
      "t_status t1 = TVerifying" "t_project_id t1 = t_project_id t"
      "t_result_summary t1 = (case normalize_optional_text None of None \<Rightarrow> t_result_summary t | Some s \<Rightarrow> Some s)"
      "w_db w2 = (w_db w1)\<lparr>db_tasks := put_row t_id t1 (db_tasks (w_db w1))\<rparr>"
    by (rule task_transition_returns [OF f1(2) v(2) task(3), of None]) simp_all
  have f2: "find_run rid w2 = Some r1" "find_task tid w2 = Some t1"
    using f1 w2(2) find_after_task [OF w2(6)] put_task_find [OF w2(6)] by auto
  have t1: "task_fits t1" "t_result_summary t1 = t_result_summary t"
    using task(3) w2(2,4,5) find_task_id [OF task(1)] by (simp_all add: task_fits_def normalize_optional_text_def)
  have start: "nowM E w = (Inr now, ?w0)" "run_get rid ?w0 = (Inr r, ?w0)"
    using f0(1) by (simp_all add: nowM_def now_def run_get_def require_run_run)
  note steps = bindM_ok [where m = "nowM E" and w = w, OF start(1)] bindM_ok [where m = "run_get rid" and w = ?w0, OF start(2)]
    bindM_ok [where m = "parse_request E r" and w = ?w0, OF parse_request_run [OF req]]
    bindM_ok [where m = "run_transition E rid RVerifying (utc_dt now) p1" and w = ?w0, OF w1(1)]
    bindM_ok [where m = "task_transition E tid TVerifying None None" and w = w1, OF w2(1)]
  have "persist_result E rid tid result w = (case close_result E rid tid now c w2 of
        (Inl e, w') \<Rightarrow> (Inl e, w'\<lparr>w_db := w_db w\<rparr>) | (Inr u, w') \<Rightarrow> (Inr u, w'))"
    using run(2)
    by (simp add: persist_result_def sessionM_def Let_def steps p1_def [symmetric] closing_patch_def close_result_def
        c [simplified, symmetric] cong: if_cong split del: if_split split: prod.split sum.split)
  moreover have "db_workflows (w_db w2) = db_workflows (w_db w)"
    using w1(2) w2(6) by (simp add: wrote_def)
  ultimately show ?thesis using that f2 r1(2-4) w2(3) t1 by blast
qed

lemma persist_result_returns:
  assumes run: "find_run rid w = Some r" "r_status r = RRunning" "run_fits E r"
    and task: "find_task tid w = Some t" "t_status t = TRunning" "task_fits t"
    and req: "e_loads E (r_request_json r) = Some j" "async_create_of_json (e_codecs E) j = Inr req"
    and c: "c = closed_result (ac_governed_coding req \<noteq> None) result"
    and summary: "or_outcome c = OCompleted \<Longrightarrow> py_strip (or_summary c) \<noteq> []"
  obtains w' r' t' where "persist_result E rid tid result w = (Inr (), w')"
    "find_run rid w' = Some r'" "r_status r' = outcome_run_status (or_outcome c)"
    "r_result_json r' = Some (e_redact_text E (result_text E c))" "r_lease_owner r' = None"
    "r_notification_status r' = (if truthy (r_source_chat_id r) then NPending else NNotRequired)"
    "find_task tid w' = Some t'" "t_status t' = outcome_task_status (or_outcome c)"
    "t_result_summary t' = (if py_strip (or_summary c) = [] then t_result_summary t else Some (py_strip (or_summary c)))"
    "db_workflows (w_db w') = db_workflows (w_db w)"
proof (rule persist_result_closing [OF run task req c])
  fix now r1 t1 w2
  assume f: "find_run rid w2 = Some r1" "r_status r1 = RVerifying" "run_fits E r1" "r_source_chat_id r1 = r_source_chat_id r"
    "find_task tid w2 = Some t1" "t_status t1 = TVerifying" "task_fits t1" "t_result_summary t1 = t_result_summary t"
    and plans: "db_workflows (w_db w2) = db_workflows (w_db w)"
    and p: "persist_result E rid tid result w = (case close_result E rid tid now c w2 of
        (Inl e, w') \<Rightarrow> (Inl e, w'\<lparr>w_db := w_db w\<rparr>) | (Inr u, w') \<Rightarrow> (Inr u, w'))"
  have norm: "normalize_optional_text (Some (or_summary c)) = (if py_strip (or_summary c) = [] then None else Some (py_strip (or_summary c)))"
    by (simp add: normalize_optional_text_def)
  have some: "outcome_task_status (or_outcome c) = TCompleted \<Longrightarrow> normalize_optional_text (Some (or_summary c)) \<noteq> None"
    using summary norm by (cases "or_outcome c") auto
  have exits: "outcome_run_status (or_outcome c) \<in> set (async_run_transitions (r_status r1))"
    "outcome_task_status (or_outcome c) \<in> set (task_transitions (t_status t1))"
    using verifying_exits f(2,6) by simp_all
  have "run_terminal (outcome_run_status (or_outcome c))" by (cases "or_outcome c") simp_all
  then have row: "r_status (ended_row E (outcome_run_status (or_outcome c)) now (closing_patch E c) r1) = outcome_run_status (or_outcome c)"
    "r_result_json (ended_row E (outcome_run_status (or_outcome c)) now (closing_patch E c) r1) = Some (e_redact_text E (result_text E c))"
    "r_lease_owner (ended_row E (outcome_run_status (or_outcome c)) now (closing_patch E c) r1) = None"
    "r_notification_status (ended_row E (outcome_run_status (or_outcome c)) now (closing_patch E c) r1)
       = (if truthy (r_source_chat_id r) then NPending else NNotRequired)"
    using f(4) by (simp_all add: ended_row_def notified_row_def moved_row_def closing_patch_def)
  obtain w3 t2 where "bindM (run_transition E rid (outcome_run_status (or_outcome c)) (utc_dt now) (closing_patch E c)) (\<lambda>terminal.
      bindM (task_transition E tid (outcome_task_status (or_outcome c)) (Some (or_summary c)) None) (\<lambda>_.
      mark_terminal_notification E rid (r_source_chat_id terminal) now)) w2 = (Inr (), w3)"
    "find_run rid w3 = Some (ended_row E (outcome_run_status (or_outcome c)) now (closing_patch E c) r1)"
    "find_task tid w3 = Some t2" "t_status t2 = outcome_task_status (or_outcome c)"
    "t_result_summary t2 = (case normalize_optional_text (Some (or_summary c)) of
        None \<Rightarrow> t_result_summary t1 | Some s \<Rightarrow> Some s)"
    "db_workflows (w_db w3) = db_workflows (w_db w2)"
    by (rule close_run_returns [OF f(1) exits(1) f(3,5) exits(2) f(7) some])
  then show ?thesis
    by (intro that [of w3 "ended_row E (outcome_run_status (or_outcome c)) now (closing_patch E c) r1" t2])
      (simp_all add: p close_result_def row f(8) plans norm)
qed

text \<open>A completed result with a blank summary is refused by its task, after the run was moved.\<close>

lemma persist_result_refused:
  assumes run: "find_run rid w = Some r" "r_status r = RRunning" "run_fits E r"
    and task: "find_task tid w = Some t" "t_status t = TRunning" "task_fits t"
    and req: "e_loads E (r_request_json r) = Some j" "async_create_of_json (e_codecs E) j = Inr req"
    and c: "c = closed_result (ac_governed_coding req \<noteq> None) result"
    and blank: "or_outcome c = OCompleted" "py_strip (or_summary c) = []"
  shows "\<exists>w'. persist_result E rid tid result w = (Inl TaskCompletionRequiresResult, w') \<and> w_db w' = w_db w"
proof (rule persist_result_closing [OF run task req c])
  fix now r1 t1 w2
  assume f: "find_run rid w2 = Some r1" "r_status r1 = RVerifying" "run_fits E r1"
    "find_task tid w2 = Some t1" "t_status t1 = TVerifying"
    and p: "persist_result E rid tid result w = (case close_result E rid tid now c w2 of
        (Inl e, w') \<Rightarrow> (Inl e, w'\<lparr>w_db := w_db w\<rparr>) | (Inr u, w') \<Rightarrow> (Inr u, w'))"
  have exits: "RCompleted \<in> set (async_run_transitions (r_status r1))" using f(2) by simp
  obtain w3 where w3: "run_transition E rid RCompleted (utc_dt now) (closing_patch E c) w2
      = (Inr (moved_row E RCompleted (to_utc (utc_dt now)) (closing_patch E c) r1), w3)"
    "wrote r1 (moved_row E RCompleted (to_utc (utc_dt now)) (closing_patch E c) r1) w2 w3"
    by (rule run_transition_returns [OF f(1) exits f(3)])
  have "find_task tid w3 = Some t1" using f(4) find_after_run [OF w3(2)] by simp
  then have "task_transition E tid TCompleted (Some (or_summary c)) None w3 = (Inl TaskCompletionRequiresResult, w3)"
    using f(5) blank(2)
    by (simp add: task_transition_def Let_def bindM_run require_task_run prim_runs normalize_optional_text_def)
  then have "close_result E rid tid now c w2 = (Inl TaskCompletionRequiresResult, w3)"
    using w3(1) blank(1) by (simp add: close_result_def bindM_run)
  then show ?thesis by (simp add: p)
qed

text \<open>Creating a task in a known project returns.\<close>

lemma task_create_returns:
  assumes "find_row pj_id (tc_project_id d) (db_projects (w_db w)) \<noteq> None"
    "find_row t_id (''task_'' @ e_uuid E (w_fresh w)) (db_tasks (w_db w)) = None"
    "py_len (tc_requested_by d) \<le> 128" "py_len (''task_'' @ e_uuid E (w_fresh w)) \<le> 128" "py_len (tc_project_id d) \<le> 128"
  obtains t w' where "task_create_op E d w = (Inr t, w')" "t_status t = TReceived" "t_project_id t = tc_project_id d"
    "t_id t = ''task_'' @ e_uuid E (w_fresh w)" "w_db w' = (w_db w)\<lparr>db_tasks := db_tasks (w_db w) @ [t]\<rparr>"
proof -
  let ?c = "to_utc (e_clock E (w_ticks w))" and ?u = "to_utc (e_clock E (Suc (w_ticks w)))"
  let ?t = "new_task_row d (''task_'' @ e_uuid E (w_fresh w)) ?c ?u"
  let ?w = "w\<lparr>w_fresh := Suc (w_fresh w), w_ticks := Suc (Suc (w_ticks w)),
      w_db := (w_db w)\<lparr>db_tasks := db_tasks (w_db w) @ [?t]\<rparr>\<rparr>"
  have i: "task_insert E d w = (Inr ?t, ?w)"
    using assms(1,2) by (simp add: task_insert_def bindM_run uuidM_def nowM_def insert_task_def insert_task_ok_def
        prim_runs mod_db_def Let_def new_task_row_def)
  have "len_between 1 128 ''task.created''" "len_opt 128 (Some (tc_requested_by d))" "len_opt 128 (Some (t_id ?t))"
    "len_opt 128 (Some (t_project_id ?t))"
    using assms(3-5) by (simp_all add: len_between_def py_len_def is_cont_def new_task_row_def)
  from audit_write_returns [OF this, of E] obtain w' where
    w': "audit_write E ''task.created'' (Some (tc_requested_by d)) (Some (t_id ?t)) (Some (t_project_id ?t))
       [(''approval_required'', JBool (t_approval_required ?t)),
        (''priority'', JStr (task_priority_value (t_priority ?t))),
        (''project_id'', JStr (t_project_id ?t)), (''risk_level'', JInt (t_risk_level ?t)),
        (''status'', JStr (task_status_value (t_status ?t))), (''task_id'', JStr (t_id ?t)),
        (''version'', JInt (t_version ?t))] ?w = (Inr (), w')" "w_db w' = w_db ?w" by blast
  have "task_create_op E d w = (Inr ?t, w')"
    using assms(1) i w'(1) by (simp add: task_create_op_def bindM_run project_exists_def find_project_def prim_runs)
  then show ?thesis using w'(2) by (intro that) (simp_all add: new_task_row_def)
qed

end
