(* ===== verification/Demo.thy ===== *)
theory Demo
  imports Recovery
begin

text \<open>
  One small concrete system, on which the properties of the operations are applied: a project, a
  task, a run of it with a plan of one action and its verification, and an executor that reports
  the definition of done as verified. Times are microseconds.
\<close>

definition demo_codecs :: codecs where
  "demo_codecs = \<lparr>iso = \<lambda>_. ''t'', parse_iso = \<lambda>_. Some (Naive 0), isoformat = \<lambda>_. ''t'', reference = Some\<rparr>"

definition demo_result :: oc_result where
  "demo_result = (oc_result_of OCompleted ''done'' None)\<lparr>or_criteria :=
     [\<lparr>cv_criterion = ''Outcome achieved and verified: ship'', cv_status = ''verified'',
       cv_evidence_refs = [''log''], cv_explanation = None\<rparr>]\<rparr>"

definition demo_body :: "(string \<times> json) list" where
  "demo_body = [(''project_id'', JStr ''p''), (''title'', JStr ''ship''), (''goal'', JStr ''ship''),
     (''mode'', JStr ''quick'')]"

definition demo_env :: env where
  "demo_env = \<lparr>e_codecs = demo_codecs, e_clock = \<lambda>n. Naive (1000 + int n), e_uuid = str_of_nat,
     e_sha256 = \<lambda>s. s, e_hmac = \<lambda>k s. ''h'', e_redact_text = \<lambda>s. s, e_sensitive_key = \<lambda>k. False,
     e_dumps = \<lambda>_. ''body'', e_loads = \<lambda>s. if s = ''body'' then Some (JObj demo_body) else None,
     e_model_text = \<lambda>_. ''doc'', e_path_exists = \<lambda>_. True, e_executor = \<lambda>n x. Inr demo_result,
     e_notifier = \<lambda>n r. Inr (), e_audit = True, e_key_id = ''k'', e_keys = [(''k'', ''s'')]\<rparr>"

definition demo_project :: project_row where
  "demo_project = \<lparr>pj_id = ''p'', pj_name = ''p'', pj_slug = ''p'', pj_status = PjActive,
     pj_priority = PNormal, pj_path_windows = None, pj_path_wsl = None, pj_repo_url = None,
     pj_current_phase = None, pj_owner = ''o'', pj_summary = None, pj_next_action = None,
     pj_constraints = [], pj_last_activity_at = None, pj_created_at = 0, pj_updated_at = 0,
     pj_version = 1\<rparr>"

definition demo_task :: task_row where
  "demo_task = \<lparr>t_id = ''t'', t_project_id = ''p'', t_title = ''ship'', t_description = ''ship'',
     t_status = TRunning, t_priority = PNormal, t_risk_level = 0, t_requested_by = ''user'',
     t_source_channel = ''api'', t_approval_required = False, t_current_step_id = None,
     t_result_summary = None, t_deadline = None, t_created_at = 0, t_updated_at = 0, t_version = 3\<rparr>"

definition demo_run :: run_row where
  "demo_run = \<lparr>r_id = ''r'', r_task_id = ''t'', r_status = RRunning, r_mode = MQuick,
     r_goal = ''ship'', r_workspace = None, r_request_json = ''body'', r_checkpoint_json = None,
     r_result_json = None, r_attempt = 1, r_max_attempts = 3, r_run_after = 0,
     r_lease_owner = Some ''w'', r_lease_expires_at = Some 900, r_idempotency_key = ''key'',
     r_external_run_id = None, r_last_error_code = None, r_last_error_message = None,
     r_source_chat_id = None, r_source_session_id = None, r_notification_status = NNotRequired,
     r_notification_attempts = 0, r_created_at = 0, r_updated_at = 0, r_version = 3\<rparr>"

definition demo_workflow :: "plan \<Rightarrow> workflow_row" where
  "demo_workflow p = \<lparr>wf_id = ''r'', wf_task_id = ''t'', wf_status = ''pending'', wf_plan_payload = Some p\<rparr>"

definition demo_world :: "run_status \<Rightarrow> plan \<Rightarrow> world" where
  "demo_world st p = \<lparr>w_db = \<lparr>db_projects = [demo_project], db_tasks = [demo_task],
      db_runs = [demo_run\<lparr>r_status := st\<rparr>], db_workflows = [demo_workflow p], db_approvals = []\<rparr>,
     w_audit = [], w_ticks = 0, w_fresh = 0, w_calls = 0, w_exec_log = [], w_sent_log = []\<rparr>"

definition demo_service :: service where
  "demo_service = \<lparr>sv_fs = demo_fs, sv_roots = [path_of ''/w''], sv_owner = Some ''7'',
     sv_route = \<lambda>_. Planning\<rparr>"

definition demo_worker :: worker where
  "demo_worker = \<lparr>wk_service = demo_service, wk_id = ''w'', wk_lease_seconds = 60,
     wk_core_status = \<lambda>_. False, wk_quick_check = \<lambda>_. False, wk_probe = \<lambda>_. [], wk_db_check = \<lambda>_. JNull\<rparr>"

definition demo_create :: async_create where
  "demo_create = \<lparr>ac_project_id = ''p'', ac_title = ''ship'', ac_goal = ''ship'', ac_mode = MQuick,
     ac_priority = PNormal, ac_risk_level = 0, ac_approval_required = False, ac_workspace = None,
     ac_requested_by = ''user'', ac_source_channel = ''api'', ac_source_chat_id = None,
     ac_source_session_id = None, ac_source_message_id = None, ac_reference_image = None,
     ac_correlation_id = None, ac_idempotency_key = Some ''key'', ac_deadline = None,
     ac_constraints = [], ac_prior_evidence = [], ac_capability = None, ac_governed_coding = None\<rparr>"

text \<open>The demo plan when everything is done and judged, and the resumption of its run.\<close>

definition demo_done :: plan where
  "demo_done = (set_node_state (set_node_state demo_plan ''execute'' NsCompleted) ''verify'' NsCompleted)
     \<lparr>p_judgement := Some (judgement DSatisfied [] ''dod_satisfied'' ''ok'')\<rparr>"

definition demo_outcome :: oc_result where
  "demo_outcome = (oc_result_of OCompleted ''No durable execution evidence is available.'' None)
     \<lparr>or_artifacts := JObj [(''evidence_ids'', JList [])],
      or_verification := JObj [(''method'', JStr ''core_outcome_judge''), (''evidence_count'', JInt 0)]\<rparr>"

lemma planned_loop_stop:
  "planned_step E W rid tid req w = (Inr False, w') \<Longrightarrow> planned_loop E W rid tid req (Suc k) w = (Inr (), w')"
  by (simp add: bindM_run retM_def)

lemma planned_loop_again:
  "planned_step E W rid tid req w = (Inr True, w') \<Longrightarrow>
   planned_loop E W rid tid req (Suc k) w = planned_loop E W rid tid req k w'"
  by (simp add: bindM_run)

lemma execute_loop: "execute_planned_run E W rid tid req = planned_loop E W rid tid req (Suc 255)"
  by (simp add: execute_planned_run_def)

text \<open>A round on a loaded plan.\<close>

lemma planned_step_loaded:
  assumes "sessionM (plan_load rid) w = (Inr (Some p), w)"
  shows "planned_step E W rid tid req w =
     (case ready_nodes p of
            [] \<Rightarrow> bindM (no_ready_node E rid tid p) (\<lambda>_. retM False)
          | n # _ \<Rightarrow>
              (case pn_kind n of
                 NkApprovalGate \<Rightarrow> evaluate_approval_gate E rid tid req p n
               | NkVerificationGate \<Rightarrow> evaluate_verification E rid tid p n
               | NkAction \<Rightarrow> run_action E W rid tid req p n)) w"
  using assms by (simp add: planned_step_def bindM_run)

definition demo_final :: world where
  "demo_final = snd (persist_result demo_env ''r'' ''t'' demo_outcome (demo_world RRunning demo_done))"

end
