(* ===== verification/System.thy ===== *)
theory System
  imports AsyncApi Success Demo
begin

text \<open>
  The running system: the endpoints of the API, the worker, the recovery at start-up and the
  notification worker, called in any order on one database. An invariant of the tables holds in
  every state that calls can reach, because each call refines \<open>system_step\<close>.
\<close>

inductive system_call :: "env \<Rightarrow> api \<Rightarrow> worker \<Rightarrow> world \<Rightarrow> world \<Rightarrow> bool" for E A W where
  create: "create_async_task E A auth payload w = (r, w') \<Longrightarrow> system_call E A W w w'"
| resolve: "resolve_async_approval E A auth aid by ok action w = (r, w') \<Longrightarrow> system_call E A W w w'"
| resolve_latest: "resolve_latest_async_approval E A auth chat sess by ok w = (r, w') \<Longrightarrow> system_call E A W w w'"
| retry: "retry_async_task E A auth rid w = (r, w') \<Longrightarrow> system_call E A W w w'"
| cancel: "cancel_async_task E A auth rid w = (r, w') \<Longrightarrow> system_call E A W w w'"
| work: "worker_run_once E W w = (b, w') \<Longrightarrow> system_call E A W w w'"
| recover: "recover_stale_runs E now w = (s, w') \<Longrightarrow> system_call E A W w w'"
| notify: "notification_run_once E w = (b, w') \<Longrightarrow> system_call E A W w w'"

lemma system_call_steps: "system_call E A W w w' \<Longrightarrow> (system_step E)\<^sup>*\<^sup>* (w_db w) (w_db w')"
  by (induction rule: system_call.induct) (blast intro: withinD api_refines worker_refines recovery_refines
      notification_refines)+

lemma system_calls_steps: "(system_call E A W)\<^sup>*\<^sup>* w w' \<Longrightarrow> (system_step E)\<^sup>*\<^sup>* (w_db w) (w_db w')"
  by (induction rule: rtranclp_induct) (auto dest: system_call_steps)

definition demo_api :: api where
  "demo_api = \<lparr>api_service = demo_service, api_accepting = True, api_ready = True, api_token = Some ''token'',
     api_validation_text = ''invalid''\<rparr>"

lemma demo_call: "(system_call demo_env demo_api demo_worker)\<^sup>*\<^sup>* w (snd (worker_run_once demo_env demo_worker w))"
  by (rule r_into_rtranclp, rule system_call.work, rule surjective_pairing)

lemma demo_db_ok: "db_ok (w_db (demo_world RRunning demo_plan))"
  by code_simp

section \<open>What a successful call did\<close>

text \<open>A successful call behind the handlers.\<close>

lemma handled_runE: "conflictM A c m w = (Inr x, w') \<Longrightarrow> (m w = (Inr x, w') \<Longrightarrow> R) \<Longrightarrow> R"
  "not_foundM A m w = (Inr x, w') \<Longrightarrow> (m w = (Inr x, w') \<Longrightarrow> R) \<Longrightarrow> R"
  by (auto simp: conflictM_def not_foundM_def catchM_def prim_runs split: prod.splits sum.splits)

lemma retried_rows:
  assumes "manual_retry i now w = (Inr r', w1)" "task_transition E tid TQueued None None w1 = (Inr z, w2)"
  obtains r t where "find_run i w = Some r" "r_status r = RFailed \<or> r_status r = RBlocked" "find_run i w2 = Some r'"
    "r' = reset_row (to_utc now) r" "find_task tid w2 = Some t" "t_status t = TQueued"
proof -
  from assms(1) obtain r where r: "find_run i w = Some r" "r_status r = RFailed \<or> r_status r = RBlocked"
    "r' = reset_row (to_utc now) r" "wrote r r' w w1" by (rule manual_retry_Inr)
  from assms(2) obtain t where t: "find_task tid w1 = Some t" "t_status z = TQueued" "t_id z = tid"
    "w_db w2 = (w_db w1)\<lparr>db_tasks := put_row t_id z (db_tasks (w_db w1))\<rparr>" by (rule task_transition_Inr)
  have "find_run i w2 = Some r'"
    using wrote_find [OF r(4), of i] find_run_id [OF r(1)] find_after_task [OF t(4)] by simp
  moreover have "find_task tid w2 = Some z" using put_task_find [OF t(4)] t(1,3) by simp
  ultimately show ?thesis using r t(2) that by blast
qed

lemma cancelled_task:
  assumes "task_cancel E tid reason w = (Inr z, w')"
  shows "\<exists>t. find_task tid w' = Some t \<and> t_status t = TCancelled" "find_run i w' = find_run i w"
proof -
  from assms obtain t where t: "find_task tid w = Some t"
    and c: "(if t_status t = TCancelled then retM t else task_transition E tid TCancelled reason None) w = (Inr z, w')"
    unfolding task_cancel_def by (elim runE task_get_runE) auto
  have "(\<exists>t. find_task tid w' = Some t \<and> t_status t = TCancelled) \<and> find_run i w' = find_run i w"
  proof (cases "t_status t = TCancelled")
    case True
    with c t show ?thesis by (auto elim: retM_runE)
  next
    case False
    with c have "task_transition E tid TCancelled reason None w = (Inr z, w')" by simp
    then obtain t' where z: "t_status z = TCancelled" "t_id z = tid"
      "w_db w' = (w_db w)\<lparr>db_tasks := put_row t_id z (db_tasks (w_db w))\<rparr>" by (rule task_transition_Inr)
    from put_task_find [OF z(3)] z(1,2) t find_after_task [OF z(3)] show ?thesis by auto
  qed
  then show "\<exists>t. find_task tid w' = Some t \<and> t_status t = TCancelled" "find_run i w' = find_run i w" by auto
qed

lemma cancelled_run:
  assumes "run_cancel E i now w = (Inr r', w')"
  obtains r where "find_run i w = Some r" "r_status r \<in> {RPending, RRetryWait, RCancelled}"
    "find_run i w' = Some r'" "r_status r' = RCancelled" "r_source_chat_id r' = r_source_chat_id r"
  using assms
proof (cases rule: run_cancel_Inr)
  case idle
  then show ?thesis by (intro that [of r']) simp_all
next
  case (done_now r)
  then show ?thesis by (intro that [of r]) (auto simp: wrote_find cancelled_row_def dest: find_run_id)
qed

lemma marked_run:
  assumes "mark_notification E i st now inc code msg w = (Inr x, w')" "find_run i w = Some r"
  shows "find_run i w' = Some (notified_row st inc (to_utc now) r)" "find_task k w' = find_task k w"
proof -
  from assms have "wrote r (notified_row st inc (to_utc now) r) w w'" by (auto elim: mark_notification_Inr)
  then show "find_run i w' = Some (notified_row st inc (to_utc now) r)" "find_task k w' = find_task k w"
    using find_run_id [OF assms(2)] by (auto simp: wrote_find find_after_run)
qed

section \<open>Properties\<close>

text \<open>C13. Whatever calls the system has served, from a database whose tables satisfy it, every state
  satisfies the database invariant: identifiers, the run of a task and idempotency keys are
  unique; every run has its task; a finished run holds no lease and an unfinished one holds an
  owner exactly with an expiry; stored errors and references respect their column limits; a
  completed task has a result; a decided approval says when, by whom, and was decided before it
  expired.\<close>

theorem reachable_database:
  assumes "(system_call E A W)\<^sup>*\<^sup>* w w'" "db_ok (w_db w)" "d = w_db w'"
  shows "distinct (map r_id (db_runs d)) \<and> distinct (map r_task_id (db_runs d))
    \<and> distinct (map r_idempotency_key (db_runs d)) \<and> distinct (map t_id (db_tasks d))
    \<and> distinct (map ap_id (db_approvals d)) \<and> distinct (map wf_id (db_workflows d))
    \<and> (\<forall>r\<in>set (db_runs d). find_row t_id (r_task_id r) (db_tasks d) \<noteq> None
         \<and> (run_terminal (r_status r) \<longrightarrow> r_lease_owner r = None)
         \<and> (r_lease_owner r = None \<longleftrightarrow> r_lease_expires_at r = None)
         \<and> len_opt 128 (r_last_error_code r) \<and> len_opt 4000 (r_last_error_message r)
         \<and> len_opt 255 (r_external_run_id r))
    \<and> (\<forall>t\<in>set (db_tasks d). t_status t = TCompleted \<longrightarrow> t_result_summary t \<noteq> None)
    \<and> (\<forall>a\<in>set (db_approvals d). ap_status a \<noteq> ApPending \<longrightarrow>
         (\<exists>t. ap_resolved_at a = Some t \<and> t < ap_expires_at a) \<and> ap_resolved_by a \<noteq> None)"
proof -
  have "db_ok d" using db_ok_steps [OF system_calls_steps [OF assms(1)] assms(2)] assms(3) by simp
  then show ?thesis
    by (auto simp: db_ok_def runs_ok_def run_ok_def tasks_ok_def task_ok_def approvals_ok_def approval_ok_def
        workflows_ok_def)
qed

lemma reachable_database_witness:
  "distinct (map r_task_id (db_runs (w_db (snd (worker_run_once demo_env demo_worker (demo_world RRunning demo_plan))))))"
  using reachable_database [OF demo_call demo_db_ok refl] by (elim conjE) assumption

text \<open>C14. What is settled stays: however the calls are ordered, a COMPLETED or CANCELLED run keeps its
  status, no run is ever deleted or given to another task, and the request it was accepted with,
  its goal and its idempotency key never change.\<close>

theorem settled_runs_stay:
  assumes "(system_call E A W)\<^sup>*\<^sup>* w w'" "db_ok (w_db w)" "find_run i w = Some r"
  shows "\<exists>r'. find_run i w' = Some r' \<and> r_task_id r' = r_task_id r \<and> r_request_json r' = r_request_json r
    \<and> r_goal r' = r_goal r \<and> r_idempotency_key r' = r_idempotency_key r \<and> r_version r \<le> r_version r'
    \<and> (r_status r \<in> {RCompleted, RCancelled} \<longrightarrow> r_status r' = r_status r)"
  using system_steps_run [OF system_calls_steps [OF assms(1)] assms(2), of i r] assms(3)
  by (auto simp: find_run_def)

lemma settled_runs_stay_witness:
  "\<exists>r. find_run ''r'' (snd (worker_run_once demo_env demo_worker (demo_world RRunning demo_plan))) = Some r
    \<and> r_request_json r = ''body''"
proof -
  have r: "find_run ''r'' (demo_world RRunning demo_plan) = Some (demo_run\<lparr>r_status := RRunning\<rparr>)"
    by (simp add: find_run_def demo_world_def demo_run_def)
  from settled_runs_stay [OF demo_call demo_db_ok r]
  show ?thesis by (auto simp: demo_run_def)
qed

text \<open>C20. Authentication: exactly a bearer header carrying the configured, non-empty ASCII token passes
  (the scheme in any case); without it, every endpoint answers with the same refusal and changes
  nothing at all.\<close>

theorem bearer_required:
  "(require_internal_bearer A auth = Inr () \<longleftrightarrow> (\<exists>tok scheme. api_token A = Some tok \<and> tok \<noteq> [] \<and> is_ascii tok
      \<and> CHR '' '' \<notin> set scheme \<and> auth = Some (scheme @ '' '' @ tok) \<and> ascii_lower scheme = ''bearer''))
   \<and> (\<forall>e. require_internal_bearer A auth = Inl e \<longrightarrow>
        create_async_task E A auth payload w = (Inl e, w) \<and> get_async_task A auth rid w = (Inl e, w)
      \<and> resolve_async_approval E A auth aid by ok action w = (Inl e, w)
      \<and> resolve_latest_async_approval E A auth chat sess by ok w = (Inl e, w)
      \<and> retry_async_task E A auth rid w = (Inl e, w) \<and> cancel_async_task E A auth rid w = (Inl e, w)
      \<and> list_async_tasks A auth st tid lim off w = (Inl e, w))"
proof (intro conjI allI impI)
  show "require_internal_bearer A auth = Inr () \<longleftrightarrow> (\<exists>tok scheme. api_token A = Some tok \<and> tok \<noteq> [] \<and> is_ascii tok
      \<and> CHR '' '' \<notin> set scheme \<and> auth = Some (scheme @ '' '' @ tok) \<and> ascii_lower scheme = ''bearer'')"
    by (auto simp: bearer_iff)
next
  fix e assume e: "require_internal_bearer A auth = Inl e"
  show "create_async_task E A auth payload w = (Inl e, w)" "get_async_task A auth rid w = (Inl e, w)"
    "resolve_async_approval E A auth aid by ok action w = (Inl e, w)"
    "resolve_latest_async_approval E A auth chat sess by ok w = (Inl e, w)"
    "retry_async_task E A auth rid w = (Inl e, w)" "cancel_async_task E A auth rid w = (Inl e, w)"
    "list_async_tasks A auth st tid lim off w = (Inl e, w)"
    by (simp_all add: e run_simps create_async_task_def get_async_task_def resolve_async_approval_def
        resolve_latest_async_approval_def retry_async_task_def cancel_async_task_def list_async_tasks_def)
qed

lemma bearer_required_witness:
  "\<exists>e. require_internal_bearer demo_api (Some ''Bearer wrong'') = Inl e
    \<and> cancel_async_task demo_env demo_api (Some ''Bearer wrong'') ''r'' (demo_world RPending demo_plan)
      = (Inl e, demo_world RPending demo_plan)"
proof -
  have "isl (require_internal_bearer demo_api (Some ''Bearer wrong''))" by code_simp
  then obtain e where "require_internal_bearer demo_api (Some ''Bearer wrong'') = Inl e" by (auto simp: isl_def)
  with bearer_required [of demo_api "Some ''Bearer wrong''" demo_env _ "demo_world RPending demo_plan" "''r''"]
  show ?thesis by blast
qed

text \<open>C22. A retry starts over: it succeeds only for a FAILED or BLOCKED run whose stored request the policy
  still allows; the run is then PENDING with no attempt, no lease, no result and no checkpoint,
  and its task is queued again.\<close>

theorem retry_starts_over:
  assumes "retry_async_task E A auth rid w = (Inr r', w')"
  shows "\<exists>r req d t. find_run rid w = Some r \<and> (r_status r = RFailed \<or> r_status r = RBlocked)
    \<and> parse_request E r w = (Inr req, w)
    \<and> async_policy_evaluate (sv_fs (api_service A)) (sv_roots (api_service A)) req = Inr d \<and> ad_allowed d
    \<and> find_run rid w' = Some r' \<and> r_status r' = RPending \<and> r_attempt r' = 0 \<and> r_lease_owner r' = None
    \<and> r_result_json r' = None \<and> r_checkpoint_json r' = None
    \<and> find_task (r_task_id r) w' = Some t \<and> t_status t = TQueued"
proof -
  have clock: "find_run rid (w\<lparr>w_ticks := k\<rparr>) = find_run rid w" for k by (simp add: find_run_def)
  from assms show ?thesis
    unfolding retry_async_task_def
    by (elim runE) (simp only: sessionM_Inr, elim runE handled_runE run_get_runE, erule (1) retried_rows,
        auto simp: clock parse_request_def prim_runs reset_row_def split: option.splits elim!: runE)
qed

text \<open>The demo run after a failure, and with a chat while it waits.\<close>

definition demo_failed :: world where
  "demo_failed = (demo_world RFailed demo_plan)\<lparr>w_db := (w_db (demo_world RFailed demo_plan))
     \<lparr>db_tasks := [demo_task\<lparr>t_status := TFailed\<rparr>]\<rparr>\<rparr>"

lemma retry_starts_over_witness:
  "\<exists>r' w'. retry_async_task demo_env demo_api (Some ''Bearer token'') ''r'' demo_failed = (Inr r', w')
    \<and> find_run ''r'' w' = Some r' \<and> r_status r' = RPending"
proof -
  have "\<not> isl (fst (retry_async_task demo_env demo_api (Some ''Bearer token'') ''r'' demo_failed))"
    by code_simp
  then obtain r' w' where "retry_async_task demo_env demo_api (Some ''Bearer token'') ''r'' demo_failed = (Inr r', w')"
    by (metis isl_def prod.collapse sum.exhaust)
  with retry_starts_over [OF this] show ?thesis by blast
qed

text \<open>C23. Cancelling is safe: it succeeds only for a run that no worker holds (PENDING, waiting for a
  retry, or cancelled before); the run is CANCELLED and announced when it came from a chat, and
  its task is cancelled with it.\<close>

theorem cancel_is_safe:
  assumes "cancel_async_task E A auth rid w = (Inr r', w')"
  shows "\<exists>r. find_run rid w = Some r \<and> r_status r \<in> {RPending, RRetryWait, RCancelled}
    \<and> find_run rid w' = Some r' \<and> r_status r' = RCancelled
    \<and> (truthy (r_source_chat_id r) \<longrightarrow> r_notification_status r' = NPending)
    \<and> (r_status r \<noteq> RCancelled \<longrightarrow> (\<exists>t. find_task (r_task_id r) w' = Some t \<and> t_status t = TCancelled))"
proof -
  define now where "now = to_utc (e_clock E (w_ticks w))"
  let ?w = "w\<lparr>w_ticks := Suc (w_ticks w)\<rparr>"
  from assms obtain r c w1 w2 where r: "find_run rid ?w = Some r"
    and c: "run_cancel E rid (utc_dt now) ?w = (Inr c, w1)"
    and t: "whenM (r_status r \<noteq> RCancelled) (bindM (task_cancel E (r_task_id r)
        (Some ''Cancelled through internal API.'')) (\<lambda>_. retM ())) w1 = (Inr (), w2)"
    and n: "(if truthy (r_source_chat_id c)
        then bindM (mark_notification E rid NPending (utc_dt now) False None None) (\<lambda>_. run_get rid)
        else retM c) w2 = (Inr r', w')"
    unfolding cancel_async_task_def
    by (elim runE) (simp only: sessionM_Inr, elim runE handled_runE run_get_runE, hypsubst,
        rule that [unfolded now_def]; (assumption | simp))
  from c obtain r0 where c': "find_run rid ?w = Some r0" "r_status r0 \<in> {RPending, RRetryWait, RCancelled}"
    "find_run rid w1 = Some c" "r_status c = RCancelled" "r_source_chat_id c = r_source_chat_id r0"
    by (rule cancelled_run)
  then have r0: "r0 = r" "find_run rid w = Some r" using r by (simp_all add: find_run_def)
  have w2: "find_run rid w2 = Some c" "r_status r \<noteq> RCancelled \<Longrightarrow> \<exists>t. find_task (r_task_id r) w2 = Some t \<and> t_status t = TCancelled"
    using t c'(3) by (auto elim!: whenM_runE runE simp: cancelled_task(2) [of E "r_task_id r"] dest: cancelled_task(1))
  show ?thesis
  proof (cases "truthy (r_source_chat_id c)")
    case True
    with n obtain x where m: "mark_notification E rid NPending (utc_dt now) False None None w2 = (Inr x, w')"
      and g: "find_run rid w' = Some r'" by (auto elim!: runE run_get_runE)
    from marked_run [OF m w2(1)] g w2(2) c' r0 show ?thesis by (auto simp: notified_row_def)
  next
    case False
    with n w2 c' r0 show ?thesis by (auto elim: retM_runE)
  qed
qed

lemma cancel_is_safe_witness:
  "\<exists>r' w'. cancel_async_task demo_env demo_api (Some ''Bearer token'') ''r'' (demo_world RPending demo_plan) = (Inr r', w')
    \<and> find_run ''r'' w' = Some r' \<and> r_status r' = RCancelled"
proof -
  have "\<not> isl (fst (cancel_async_task demo_env demo_api (Some ''Bearer token'') ''r'' (demo_world RPending demo_plan)))"
    by code_simp
  then obtain r' w' where
    "cancel_async_task demo_env demo_api (Some ''Bearer token'') ''r'' (demo_world RPending demo_plan) = (Inr r', w')"
    by (metis isl_def prod.collapse sum.exhaust)
  with cancel_is_safe [OF this] show ?thesis by blast
qed


end
