(* ===== verification/WorkerSafety.thy ===== *)
theory WorkerSafety
  imports Demo
begin

text \<open>
  Safety of the worker: a run with a plan completes only when the outcome judge found its
  definition of done satisfied; the outcome of an execution decides the run's and the task's
  final status; uncertain side effects are never retried.
\<close>

section \<open>Keeping a property of the tables\<close>

definition keeps :: "(db \<Rightarrow> bool) \<Rightarrow> db \<Rightarrow> db \<Rightarrow> bool" where
  "keeps P d d' \<longleftrightarrow> (P d \<longrightarrow> P d')"

lemma within_keeps: "within (keeps P) m \<Longrightarrow> m w = (x, w') \<Longrightarrow> P (w_db w) \<Longrightarrow> P (w_db w')"
  by (rule within_invariant [of "keeps P" m]) (simp_all add: keeps_def)

lemma keepsI: "(\<And>w x w'. m w = (x, w') \<Longrightarrow> P (w_db w) \<Longrightarrow> P (w_db w')) \<Longrightarrow> within (keeps P) m"
proof (rule withinI)
  fix w x w' assume a: "\<And>w x w'. m w = (x, w') \<Longrightarrow> P (w_db w) \<Longrightarrow> P (w_db w')" "m w = (x, w')"
  then show "(keeps P)\<^sup>*\<^sup>* (w_db w) (w_db w')" by (simp add: keeps_def r_into_rtranclp)
qed

text \<open>The run \<open>rid\<close> is not completed.\<close>

definition not_completed :: "string \<Rightarrow> db \<Rightarrow> bool" where
  "not_completed rid d \<longleftrightarrow> (\<forall>r\<in>set (db_runs d). r_id r = rid \<longrightarrow> r_status r \<noteq> RCompleted)"

abbreviation uncompleted :: "string \<Rightarrow> db \<Rightarrow> db \<Rightarrow> bool" where
  "uncompleted rid \<equiv> keeps (not_completed rid)"

named_theorems nc "operations that do not complete a run"

lemma nc_task: "within task_table m \<Longrightarrow> within (uncompleted rid) m"
  by (erule within_mono) (simp add: keeps_def not_completed_def task_table_frame)

lemma nc_workflow: "within workflow_table m \<Longrightarrow> within (uncompleted rid) m"
  by (erule within_mono) (simp add: keeps_def not_completed_def workflow_table_frame)

lemma nc_put:
  assumes "r_status r' \<noteq> RCompleted"
    "db_runs d' = put_row r_id r' (db_runs d)" "not_completed rid d"
  shows "not_completed rid d'"
  using assms put_row_mem [of _ r_id r' "db_runs d"] unfolding not_completed_def by metis

lemma put_run_rel:
  assumes "R (w_db w) ((w_db w)\<lparr>db_runs := put_row r_id r' (db_runs (w_db w))\<rparr>)" "within R (f ())"
  shows "R\<^sup>*\<^sup>* (w_db w) (w_db (snd (bindM (put_run r') f w)))"
proof -
  let ?d = "(w_db w)\<lparr>db_runs := put_row r_id r' (db_runs (w_db w))\<rparr>"
  have "R\<^sup>*\<^sup>* (w_db (w\<lparr>w_db := ?d\<rparr>)) (w_db (snd (f () (w\<lparr>w_db := ?d\<rparr>))))"
    using assms(2) unfolding within_def by (rule spec)
  with assms(1) show ?thesis by (simp add: put_run_def put_runs bindM_run)
qed

lemma nc_written: "r_status r' \<noteq> RCompleted \<Longrightarrow>
    uncompleted rid d (d\<lparr>db_runs := put_row r_id r' (db_runs d)\<rparr>)"
  unfolding keeps_def by (intro impI) (rule nc_put [where r' = r' and d = d], simp_all)

lemma nc_transition [nc]: "st \<noteq> RCompleted \<Longrightarrow> within (uncompleted rid) (run_transition E i st now p)"
  unfolding run_transition_def Let_def
  by (intro within_require_run guarded_run put_run_rel keep nc_written) simp

lemma nc_retry [nc]: "within (uncompleted rid) (schedule_retry E i now dl code msg)"
  unfolding schedule_retry_def Let_def
  by (intro within_require_run guarded_run put_run_rel keep nc_written) simp

text \<open>A notification does not change a status.\<close>

lemma nc_same_status:
  assumes "r \<in> set (db_runs d)" "r_id r' = r_id r" "r_status r' = r_status r"
  shows "uncompleted rid d (d\<lparr>db_runs := put_row r_id r' (db_runs d)\<rparr>)"
  unfolding keeps_def not_completed_def
  using assms put_row_mem [of _ r_id r' "db_runs d"] by fastforce

lemma nc_notification [nc]: "within (uncompleted rid) (mark_notification E i st now inc code msg)"
  unfolding mark_notification_def Let_def
  by (intro within_require_run put_run_rel keep nc_same_status) (auto dest: find_run_mem)

lemma nc_ops [nc]:
  "within (uncompleted rid) (task_transition E i tst rs step)"
  "within (uncompleted rid) (task_get i)"
  "within (uncompleted rid) (plan_save wid tid p)"
  by (intro nc_task nc_workflow task_transition_refines task_get_refines plan_save_refines)+

lemma nc_mark_terminal [nc]: "within (uncompleted rid) (mark_terminal_notification E i chat now)"
  unfolding mark_terminal_notification_def by (intro keep nc)

lemma outcome_run_status_completed: "outcome_run_status oc = RCompleted \<longleftrightarrow> oc = OCompleted"
  by (cases oc) simp_all

lemma closed_result_completed:
  "or_outcome (closed_result g r) = OCompleted \<Longrightarrow> or_outcome r = OCompleted"
  by (simp add: closed_result_def split: if_splits)

lemma nc_persist [nc]:
  "or_outcome r \<noteq> OCompleted \<Longrightarrow> within (uncompleted rid) (persist_result E i tid r)"
  unfolding persist_result_def Let_def
  by (intro keep nc) (auto simp: outcome_run_status_completed dest: closed_result_completed)

lemma oc_result_of_outcome [simp]: "or_outcome (oc_result_of oc s c) = oc"
  by (simp add: oc_result_of_def)

lemma nc_block [nc]: "within (uncompleted rid) (block_planned_run E i tid c reason)"
  unfolding block_planned_run_def by (intro nc) simp

lemma nc_transport [nc]: "within (uncompleted rid) (handle_transport_error E i tid e)"
  unfolding handle_transport_error_def by (intro keep nc) simp

lemma nc_plan_ops [nc]:
  "within (uncompleted rid) (save_plan i tid p)"
  "within (uncompleted rid) (mark_budget_exhausted i tid n reason)"
  "within (uncompleted rid) (record_transport_failure i tid n te)"
  "within (uncompleted rid) (record_action_result E i tid n r prov)"
  unfolding save_plan_def mark_budget_exhausted_def record_transport_failure_def record_action_result_def
  by (intro keep nc)+

lemma nc_prepare [nc]: "within (uncompleted rid) (prepare_planned_action E i tid req p n)"
  unfolding prepare_planned_action_def start_planned_action_def block_with_judgement_def by (intro keep nc)

lemma nc_gate [nc]: "within (uncompleted rid) (evaluate_approval_gate E i tid req p n)"
  unfolding evaluate_approval_gate_def by (intro keep nc)

lemma nc_replan [nc]: "within (uncompleted rid) (replan_after_judgement E i tid p j)"
  unfolding replan_after_judgement_def mark_and_block_def by (intro keep nc)

lemma nc_action_error [nc]: "within (uncompleted rid) (action_transport_error E i tid n e)"
  unfolding action_transport_error_def by (intro keep nc)

lemma record_action_terminal:
  "record_action_result E i tid n r prov w = (Inr t, w') \<Longrightarrow> t = (or_outcome r \<noteq> OCompleted)"
  unfolding record_action_result_def by (elim runE) simp

lemma within_bind_result:
  assumes "within R m" "\<And>a w w'. m w = (Inr a, w') \<Longrightarrow> within R (f a)"
  shows "within R (bindM m f)"
proof (rule withinI)
  fix w x w' assume "bindM m f w = (x, w')"
  then show "R\<^sup>*\<^sup>* (w_db w) (w_db w')"
  proof (rule bindM_anyE)
    fix e assume "m w = (Inl e, w')"
    with assms(1) show ?thesis by (rule withinD)
  next
    fix a w1 assume m: "m w = (Inr a, w1)" and f: "f a w1 = (x, w')"
    from withinD [OF assms(1) m] withinD [OF assms(2) [OF m] f] show ?thesis by (rule rtranclp_trans)
  qed
qed

lemma nc_finish [nc]: "within (uncompleted rid) (finish_action E i tid n r prov)"
  unfolding finish_action_def
proof (rule within_bind_result)
  show "within (uncompleted rid) (record_action_result E i tid n r prov)" by (rule nc)
next
  fix t w w' assume "record_action_result E i tid n r prov w = (Inr t, w')"
  then have "t = (or_outcome r \<noteq> OCompleted)" by (rule record_action_terminal)
  then show "within (uncompleted rid)
      (if t then bindM (persist_result E i tid r) (\<lambda>_. retM False) else retM True)"
    by (intro keep nc) simp
qed

lemma nc_run_action [nc]: "within (uncompleted rid) (run_action E W i tid req p n)"
  unfolding run_action_def execute_action_def by (intro keep nc)

lemma nc_uncertain [nc]: "within (uncompleted rid) (mark_uncertain_side_effect E i tid n)"
  unfolding mark_uncertain_side_effect_def by (intro keep nc)

section \<open>Completion needs a satisfied judgement\<close>

text \<open>The stored plan of a run was judged satisfied.\<close>

definition stored_satisfied :: "string \<Rightarrow> db \<Rightarrow> bool" where
  "stored_satisfied rid d \<longleftrightarrow> (\<exists>row p. find_row wf_id rid (db_workflows d) = Some row
     \<and> wf_plan_payload row = Some p \<and> judged_satisfied p)"

definition completion_justified :: "string \<Rightarrow> db \<Rightarrow> bool" where
  "completion_justified rid d \<longleftrightarrow> not_completed rid d \<or> stored_satisfied rid d"

text \<open>
  \<open>justifies rid I m\<close>: started on an uncompleted run where \<open>I\<close> holds, \<open>m\<close> leaves it uncompleted
  when it asks for another round, and justified in any case.
\<close>

definition justifies :: "string \<Rightarrow> (db \<Rightarrow> bool) \<Rightarrow> bool M \<Rightarrow> bool" where
  "justifies rid I m \<longleftrightarrow> (\<forall>w x w'. m w = (x, w') \<longrightarrow> I (w_db w) \<longrightarrow> not_completed rid (w_db w) \<longrightarrow>
     completion_justified rid (w_db w') \<and> (x = Inr True \<longrightarrow> not_completed rid (w_db w')))"

abbreviation anywhere :: "db \<Rightarrow> bool" where
  "anywhere \<equiv> \<lambda>_. True"

lemma justifies_nc: "within (uncompleted rid) m \<Longrightarrow> justifies rid I m"
  unfolding justifies_def completion_justified_def by (blast dest: within_keeps)

lemma justifies_bind:
  assumes "within (uncompleted rid) m"
    "\<And>a w w'. m w = (Inr a, w') \<Longrightarrow> I (w_db w) \<Longrightarrow> J a (w_db w')"
    "\<And>a. justifies rid (J a) (f a)"
  shows "justifies rid I (bindM m f)"
  unfolding justifies_def
proof (intro allI impI)
  fix w x w' assume r: "bindM m f w = (x, w')" and i: "I (w_db w)" and n: "not_completed rid (w_db w)"
  from r show "completion_justified rid (w_db w') \<and> (x = Inr True \<longrightarrow> not_completed rid (w_db w'))"
  proof (rule bindM_anyE)
    fix e assume "m w = (Inl e, w')" "x = Inl e"
    with within_keeps [OF assms(1) _ n] show ?thesis by (simp add: completion_justified_def)
  next
    fix a w1 assume m: "m w = (Inr a, w1)" and f: "f a w1 = (x, w')"
    from within_keeps [OF assms(1) m n] have "not_completed rid (w_db w1)" .
    with assms(2) [OF m i] assms(3) [of a] f show ?thesis unfolding justifies_def by blast
  qed
qed

lemma plan_save_stored:
  assumes "plan_save wid tid p w = (Inr row, w')"
  shows "\<exists>row. find_row wf_id wid (db_workflows (w_db w')) = Some row \<and> wf_plan_payload row = Some p"
proof (cases "find_workflow wid w")
  case None
  with assms have "w_db w' = (w_db w)\<lparr>db_workflows := db_workflows (w_db w) @
      [\<lparr>wf_id = wid, wf_task_id = tid, wf_status = plan_row_status p, wf_plan_payload = Some p\<rparr>]\<rparr>"
    by (auto simp: plan_save_def Let_def run_simps put_runs split: if_splits)
  with None show ?thesis by (simp add: find_workflow_def find_row_append)
next
  case (Some r)
  then have id: "wf_id r = wid" by (auto simp: find_workflow_def dest: find_row_Some)
  from Some assms have "w_db w' = (w_db w)\<lparr>db_workflows := put_row wf_id
      (r\<lparr>wf_plan_payload := Some p, wf_status := plan_row_status p\<rparr>) (db_workflows (w_db w))\<rparr>"
    by (auto simp: plan_save_def Let_def run_simps put_runs put_workflow_def split: if_splits)
  with Some id show ?thesis by (simp add: find_workflow_def row_simps)
qed

lemma save_plan_stored:
  assumes "save_plan wid tid p w = (Inr u, w')"
  shows "\<exists>row. find_row wf_id wid (db_workflows (w_db w')) = Some row \<and> wf_plan_payload row = Some p"
proof -
  from assms obtain row where "plan_save wid tid p w = (Inr row, w')"
    unfolding save_plan_def sessionM_Inr by (elim runE) auto
  then show ?thesis by (rule plan_save_stored)
qed

text \<open>Persisting a result leaves the plans alone.\<close>

abbreviation same_plans :: "db \<Rightarrow> db \<Rightarrow> bool" where
  "same_plans d d' \<equiv> db_workflows d' = db_workflows d"

lemma persist_same_plans: "within same_plans (persist_result E i tid r)"
proof -
  have r: "within same_plans m" if "within (run_table E) m" for m :: "'b M"
    using that by (rule within_mono) (simp add: run_table_frame)
  have t: "within same_plans m" if "within task_table m" for m :: "'b M"
    using that by (rule within_mono) (simp add: task_table_frame)
  show ?thesis
    unfolding persist_result_def mark_terminal_notification_def Let_def
    by (intro keep r [OF run_transition_refines] t [OF task_transition_refines] r [OF mark_notification_refines])
qed

lemma persist_stored:
  assumes "persist_result E i tid r w = (x, w')"
  shows "stored_satisfied rid (w_db w') \<longleftrightarrow> stored_satisfied rid (w_db w)"
proof -
  have "db_workflows (w_db w') = db_workflows (w_db w)"
    using within_same [OF persist_same_plans assms, of db_workflows] by simp
  then show ?thesis by (simp add: stored_satisfied_def)
qed

lemma justifies_persist:
  assumes "\<And>d. I d \<Longrightarrow> stored_satisfied rid d"
  shows "justifies rid I (bindM (persist_result E rid tid r) (\<lambda>_. retM False))"
  unfolding justifies_def
proof (intro allI impI)
  fix w x w'
  assume r: "bindM (persist_result E rid tid r) (\<lambda>_. retM False) w = (x, w')" and i: "I (w_db w)"
  from r assms [OF i] have "stored_satisfied rid (w_db w') \<and> x \<noteq> Inr True"
    by (elim bindM_anyE retM_anyE) (auto simp: persist_stored)
  then show "completion_justified rid (w_db w') \<and> (x = Inr True \<longrightarrow> not_completed rid (w_db w'))"
    by (simp add: completion_justified_def)
qed

lemma justifies_satisfied:
  assumes "judged_satisfied q"
  shows "justifies rid I (bindM (save_plan rid tid q) (\<lambda>_.
      bindM (persist_result E rid tid r) (\<lambda>_. retM False)))"
proof (rule justifies_bind)
  show "within (uncompleted rid) (save_plan rid tid q)" by (rule nc)
  show "stored_satisfied rid (w_db w')" if "save_plan rid tid q w = (Inr a, w')" for a w w'
    using save_plan_stored [OF that] assms by (auto simp: stored_satisfied_def)
qed (rule justifies_persist)

lemma justifies_verification: "justifies rid I (evaluate_verification E rid tid p n)"
  unfolding evaluate_verification_def
proof (rule justifies_bind [where J = "\<lambda>_. anywhere"])
  show "within (uncompleted rid) (liftE (result_from_evidence p))" by (rule keep)
next
  fix r
  let ?j = "outcome_judge p r"
  show "justifies rid anywhere (let j = ?j in case oj_disposition j of
       DSatisfied \<Rightarrow>
         bindM (save_plan rid tid ((set_node_state p (pn_id n) NsCompleted)\<lparr>p_judgement := Some j\<rparr>)) (\<lambda>_.
         bindM (persist_result E rid tid r) (\<lambda>_. retM False))
     | DReplan \<Rightarrow> replan_after_judgement E rid tid (plan_with_unmet_failure p j) j
     | DBlocked \<Rightarrow>
         bindM (save_plan rid tid (p\<lparr>p_judgement := Some j\<rparr>)) (\<lambda>_.
         bindM (persist_result E rid tid (oc_result_of OBlocked (oj_reason j) (Some (oj_reason_code j))))
           (\<lambda>_. retM False))
     | DFailed \<Rightarrow>
         bindM (save_plan rid tid (p\<lparr>p_judgement := Some j\<rparr>)) (\<lambda>_.
         bindM (persist_result E rid tid (oc_result_of OFailed (oj_reason j) (Some (oj_reason_code j))))
           (\<lambda>_. retM False)))"
    unfolding Let_def
    by (cases "oj_disposition ?j"; simp only: outcome_disposition.case;
        ((rule justifies_nc, intro keep nc; simp add: oc_result_of_def; fail)
         | (rule justifies_satisfied, simp add: judged_satisfied_def)))
qed (rule TrueI)

text \<open>A plan that is found ended is the stored one.\<close>

definition stores :: "string \<Rightarrow> plan \<Rightarrow> db \<Rightarrow> bool" where
  "stores rid p d \<longleftrightarrow> (\<exists>row. find_row wf_id rid (db_workflows d) = Some row \<and> wf_plan_payload row = Some p)"

lemma plan_validate_same: "plan_validate p = Inr q \<Longrightarrow> q = p"
  by (auto simp: plan_validate_def split: if_splits sum.splits)

lemma plan_load_stores: "plan_load rid w = (Inr (Some p), w') \<Longrightarrow> w' = w \<and> stores rid p (w_db w)"
  by (auto simp: plan_load_def run_simps stores_def find_workflow_def
      split: option.splits sum.splits dest: plan_validate_same)

lemma stored_failure_open: "stored_failure p is = Some r \<Longrightarrow> or_outcome r \<noteq> OCompleted"
  by (induction "is") (auto split: option.splits if_splits)

lemma nc_no_ready: "\<not> judged_satisfied p \<Longrightarrow> within (uncompleted rid) (no_ready_node E rid tid p)"
  unfolding no_ready_node_def resume_terminal_state_def
  by (intro keep nc) (auto dest: stored_failure_open)

lemma justifies_no_ready:
  "justifies rid (stores rid p) (bindM (no_ready_node E rid tid p) (\<lambda>_. retM False))"
proof (cases "running_execution p = None \<and> all_nodes_completed p \<and> judged_satisfied p")
  case True
  have "bindM (no_ready_node E rid tid p) (\<lambda>_. retM False)
      = bindM (liftE (result_from_evidence p)) (\<lambda>r. bindM (persist_result E rid tid r) (\<lambda>_. retM False))"
    using True by (simp add: no_ready_node_def resume_terminal_state_def bindM_assoc)
       (simp add: fun_eq_iff bindM_run run_simps split: prod.splits sum.splits)
  moreover have "justifies rid (stores rid p)
     (bindM (liftE (result_from_evidence p)) (\<lambda>r. bindM (persist_result E rid tid r) (\<lambda>_. retM False)))"
  proof (rule justifies_bind)
    show "within (uncompleted rid) (liftE (result_from_evidence p))" by (rule keep)
    show "stores rid p (w_db w')" if "liftE (result_from_evidence p) w = (Inr a, w')" "stores rid p (w_db w)"
      for a w w' using that by (elim liftE_runE) simp
    show "justifies rid (stores rid p) (bindM (persist_result E rid tid a) (\<lambda>_. retM False))" for a
      by (rule justifies_persist) (use True in \<open>auto simp: stores_def stored_satisfied_def\<close>)
  qed
  ultimately show ?thesis by simp
next
  case False
  then have "within (uncompleted rid) (no_ready_node E rid tid p)"
    unfolding no_ready_node_def resume_terminal_state_def
    by (intro keep nc) (auto dest: stored_failure_open)
  then show ?thesis by (intro justifies_nc keep)
qed

lemma justifies_step: "justifies rid anywhere (planned_step E W rid tid req)"
  unfolding planned_step_def
proof (rule justifies_bind)
  show "within (uncompleted rid) (sessionM (plan_load rid))" by (intro keep)
  show "(case a of None \<Rightarrow> True | Some p \<Rightarrow> stores rid p (w_db w'))"
    if "sessionM (plan_load rid) w = (Inr a, w')" for a w w'
    using that by (auto simp: sessionM_Inr split: option.splits dest: plan_load_stores)
next
  fix a
  show "justifies rid (\<lambda>d. case a of None \<Rightarrow> True | Some p \<Rightarrow> stores rid p d)
     (case a of
       None \<Rightarrow> bindM (block_planned_run E rid tid ''plan_missing''
                  ''Durable plan disappeared during execution.'') (\<lambda>_. retM False)
     | Some p \<Rightarrow>
         (case ready_nodes p of
            [] \<Rightarrow> bindM (no_ready_node E rid tid p) (\<lambda>_. retM False)
          | n # _ \<Rightarrow>
              (case pn_kind n of
                 NkApprovalGate \<Rightarrow> evaluate_approval_gate E rid tid req p n
               | NkVerificationGate \<Rightarrow> evaluate_verification E rid tid p n
               | NkAction \<Rightarrow> run_action E W rid tid req p n)))"
    by (auto split: option.splits list.splits node_kind.splits
        intro: justifies_no_ready justifies_verification justifies_nc nc keep)
qed

lemma planned_loop_justified:
  assumes "planned_loop E W rid tid req k w = (x, w')" "not_completed rid (w_db w)"
  shows "completion_justified rid (w_db w')"
  using assms
proof (induction k arbitrary: w)
  case 0
  have "within (uncompleted rid) (planned_loop E W rid tid req 0)" by (simp add: nc)
  from within_keeps [OF this 0] show ?case by (simp add: completion_justified_def)
next
  case (Suc k)
  note step = justifies_step [of rid E W tid req, unfolded justifies_def, rule_format, OF _ TrueI]
  from Suc.prems(1) [unfolded planned_loop.simps] show ?case
  proof (rule bindM_anyE)
    fix e assume "planned_step E W rid tid req w = (Inl e, w')"
    from step [OF this Suc.prems(2)] show ?thesis by simp
  next
    fix b w1 assume s: "planned_step E W rid tid req w = (Inr b, w1)"
      and f: "(if b then planned_loop E W rid tid req k else retM ()) w1 = (x, w')"
    note j = step [OF s Suc.prems(2)]
    show ?thesis
    proof (cases b)
      case True
      with j f Suc.IH [of w1] show ?thesis by simp
    next
      case False
      with j f show ?thesis by (auto elim: retM_anyE)
    qed
  qed
qed

end
