(* ===== verification/WorkerBudget.thy ===== *)
theory WorkerBudget
  imports WorkerSafety
begin

text \<open>
  What executing a planned run leaves alone in its plan. The locale \<open>plan_frame\<close> is the interface:
  a part \<open>g\<close> of a plan that recording progress does not touch; its lemmas show that the worker's
  steps keep \<open>g\<close> of the stored plan. It is interpreted on the contract of a plan (goal, nodes,
  definition of done, budgets' limits) and on the action budget, from which the bound on the
  executor's calls follows.
\<close>

section \<open>A part of the stored plan\<close>

definition stored_part :: "string \<Rightarrow> (plan \<Rightarrow> 'b) \<Rightarrow> 'b \<Rightarrow> db \<Rightarrow> bool" where
  "stored_part rid g b d \<longleftrightarrow> (\<exists>p. stores rid p d \<and> g p = b)"

lemma stored_part_stores: "stored_part rid g b d \<Longrightarrow> stores rid p d \<Longrightarrow> g p = b"
  by (auto simp: stored_part_def stores_def)

lemma stores_unique: "stores rid p d \<Longrightarrow> stores rid q d \<Longrightarrow> p = q"
  by (auto simp: stores_def)

abbreviation keeps_part :: "string \<Rightarrow> (plan \<Rightarrow> 'b) \<Rightarrow> 'b \<Rightarrow> db \<Rightarrow> db \<Rightarrow> bool" where
  "keeps_part rid g b \<equiv> keeps (stored_part rid g b)"

named_theorems pf "operations that keep a part of the stored plan"

lemma pf_same_plans: "within same_plans m \<Longrightarrow> within (keeps_part rid g b) m"
  by (erule within_mono) (simp add: keeps_def stored_part_def stores_def)

lemma same_plans_run: "within (run_table E) m \<Longrightarrow> within same_plans m"
  by (erule within_mono) (simp add: run_table_frame)

lemma same_plans_task: "within task_table m \<Longrightarrow> within same_plans m"
  by (erule within_mono) (simp add: task_table_frame)

lemma pf_persist [pf]: "within (keeps_part rid g b) (persist_result E i tid r)"
  by (intro pf_same_plans persist_same_plans)

lemma pf_block [pf]: "within (keeps_part rid g b) (block_planned_run E i tid c reason)"
  unfolding block_planned_run_def by (rule pf_persist)

lemma pf_transport [pf]: "within (keeps_part rid g b) (handle_transport_error E i tid e)"
  unfolding handle_transport_error_def mark_terminal_notification_def
  by (intro pf_same_plans keep same_plans_run [OF run_transition_refines]
      same_plans_task [OF task_transition_refines] same_plans_run [OF mark_notification_refines]
      same_plans_run [OF schedule_retry_refines])

lemma pf_plan_save [pf]: "g p = b \<Longrightarrow> within (keeps_part rid g b) (plan_save rid tid p)"
proof (rule keepsI)
  fix w x w' assume s: "plan_save rid tid p w = (x, w')" "stored_part rid g b (w_db w)" and b: "g p = b"
  show "stored_part rid g b (w_db w')"
  proof (cases x)
    case (Inr row)
    with s(1) plan_save_stored [of rid tid p w row w'] b show ?thesis
      by (auto simp: stored_part_def stores_def)
  next
    case (Inl e)
    with s(1) have "w_db w' = w_db w"
      by (auto simp: plan_save_def Let_def run_simps put_runs put_workflow_def split: option.splits if_splits)
    with s(2) show ?thesis by simp
  qed
qed

lemma pf_save_plan [pf]: "g p = b \<Longrightarrow> within (keeps_part rid g b) (save_plan rid tid p)"
  unfolding save_plan_def by (intro keep pf)

text \<open>A loaded plan is the stored one, so its part is known.\<close>

lemma pf_load:
  assumes "\<And>p. g p = b \<Longrightarrow> within (keeps_part rid g b) (f (Some p))" "within (keeps_part rid g b) (f None)"
  shows "within (keeps_part rid g b) (bindM (plan_load rid) f)"
proof (rule keepsI)
  fix w x w' assume r: "bindM (plan_load rid) f w = (x, w')" and s: "stored_part rid g b (w_db w)"
  from r show "stored_part rid g b (w_db w')"
  proof (rule bindM_anyE)
    fix e assume "plan_load rid w = (Inl e, w')"
    with s show ?thesis by (auto simp: plan_load_def run_simps split: option.splits sum.splits)
  next
    fix a w1 assume l: "plan_load rid w = (Inr a, w1)" and f: "f a w1 = (x, w')"
    from l have w1: "w_db w1 = w_db w"
      by (auto simp: plan_load_def run_simps split: option.splits sum.splits)
    show ?thesis
    proof (cases a)
      case None
      with within_keeps [OF assms(2), of w1 x w'] f w1 s show ?thesis by simp
    next
      case (Some p)
      with l have "stores rid p (w_db w)" by (auto dest: plan_load_stores)
      with s have "g p = b" by (rule stored_part_stores)
      from within_keeps [OF assms(1) [OF this], of w1 x w'] f w1 s Some show ?thesis by simp
    qed
  qed
qed

lemma bind_primitive: "bindM (retM a) f = f a" "bindM (raiseM e) f = raiseM e"
  by (simp_all add: fun_eq_iff run_simps)

lemma pf_require:
  "(\<And>p. g p = b \<Longrightarrow> within (keeps_part rid g b) (f p)) \<Longrightarrow>
   within (keeps_part rid g b) (bindM (require_plan rid) f)"
  unfolding require_plan_def bindM_assoc by (rule pf_load) (simp_all add: bind_primitive keep)

section \<open>The interface\<close>


locale plan_frame =
  fixes g :: "plan \<Rightarrow> 'b"
  assumes progress: "\<And>p es evs j. g (p\<lparr>p_executions := es, p_evidence := evs, p_judgement := j\<rparr>) = g p"
    and retries: "\<And>p k. g (p\<lparr>p_budget := (p_budget p)\<lparr>eb_retries_used := k\<rparr>\<rparr>) = g p"
    and revision: "\<And>p n m s cs. g (p\<lparr>p_revision := n, p_replanned_from := m, p_replan_reason := s, p_constraints := cs\<rparr>) = g p"
begin

lemma executions [simp]: "g (p\<lparr>p_executions := es\<rparr>) = g p"
  using progress [where p = p and es = es and evs = "p_evidence p" and j = "p_judgement p"] by simp

lemma evidence [simp]: "g (p\<lparr>p_evidence := es\<rparr>) = g p"
  using progress [where p = p and es = "p_executions p" and evs = es and j = "p_judgement p"] by simp

lemma judged [simp]: "g (p\<lparr>p_judgement := j\<rparr>) = g p"
  using progress [where p = p and es = "p_executions p" and evs = "p_evidence p" and j = j] by simp

lemma nodes_updated [simp]: "g (set_node_state p n s) = g p" "g (fail_node p n s c) = g p"
  by (simp_all add: set_node_state_def fail_node_def)

lemma recorded [simp]: "g (recorded_plan p n r ev) = g p"
proof -
  have "recorded_plan p n r ev = p\<lparr>p_executions := p_executions (recorded_plan p n r ev),
      p_evidence := p_evidence (recorded_plan p n r ev)\<rparr>" by (simp add: recorded_plan_def Let_def)
  then show ?thesis by (metis executions evidence)
qed

lemma transported [simp]: "g (transport_plan p n e) = g p"
proof -
  let ?q = "fail_node p n (transport_state e) (Some (te_code e))"
  have "p_budget p = p_budget ?q" by (simp add: fail_node_def)
  then have "\<exists>k. transport_plan p n e = ?q\<lparr>p_budget := (p_budget ?q)\<lparr>eb_retries_used := k\<rparr>\<rparr>"
    unfolding transport_plan_def Let_def by metis
  then show ?thesis by (metis retries nodes_updated(2))
qed

lemma dod_failed [simp]: "g (dod_failed_plan p n fc ev j) = g p"
proof -
  have "dod_failed_plan p n fc ev j = p\<lparr>p_executions := p_executions (dod_failed_plan p n fc ev j),
      p_evidence := p_evidence p @ [ev], p_judgement := Some j\<rparr>" by (simp add: dod_failed_plan_def Let_def)
  then show ?thesis by (metis progress)
qed

lemma replanned [simp]: "g (rd_plan (reconcile_after_evidence p fc ev)) = g p"
proof (cases "rd_disposition (reconcile_after_evidence p fc ev) = RdRevised")
  case True
  let ?q = "rd_plan (reconcile_after_evidence p fc ev)"
  have "?q = (p\<lparr>p_revision := p_revision ?q, p_replanned_from := p_replanned_from ?q,
      p_replan_reason := p_replan_reason ?q, p_constraints := p_constraints ?q\<rparr>)
      \<lparr>p_executions := p_executions ?q, p_evidence := p_evidence ?q, p_judgement := p_judgement ?q\<rparr>"
    unfolding after_evidence_plan [OF True] by simp
  then show ?thesis by (metis progress revision)
qed (use after_evidence_blocked in simp)

lemma unmet_failure [simp]: "g (plan_with_unmet_failure p j) = g p"
  by (simp add: plan_with_unmet_failure_def)

lemma frame_record: "within (keeps_part rid g b) (record_action_result E rid tid n r prov)"
  unfolding record_action_result_def Let_def by (intro keep pf pf_require) simp

lemma frame_mark: "within (keeps_part rid g b) (mark_budget_exhausted rid tid n reason)"
  unfolding mark_budget_exhausted_def by (intro keep_session pf_load) (auto intro!: keep pf)

lemma frame_failure: "within (keeps_part rid g b) (record_transport_failure rid tid n te)"
  unfolding record_transport_failure_def by (intro keep_session pf_load) (auto intro!: keep pf)

lemma frame_uncertain: "within (keeps_part rid g b) (mark_uncertain_side_effect E rid tid n)"
  unfolding mark_uncertain_side_effect_def by (intro keep pf pf_require) simp

lemmas frame = pf frame_record frame_mark frame_failure frame_uncertain

lemma frame_finish: "within (keeps_part rid g b) (finish_action E rid tid n r prov)"
  unfolding finish_action_def by (intro keep frame)

lemma frame_action_error: "within (keeps_part rid g b) (action_transport_error E rid tid n te)"
  unfolding action_transport_error_def by (intro keep frame)

lemma frame_gate: "g p = b \<Longrightarrow> within (keeps_part rid g b) (evaluate_approval_gate E rid tid req p n)"
  unfolding evaluate_approval_gate_def by (intro keep frame) simp

lemma frame_replan: "g p = b \<Longrightarrow> within (keeps_part rid g b) (replan_after_judgement E rid tid p j)"
  unfolding replan_after_judgement_def mark_and_block_def by (intro keep frame) simp_all

lemma frame_verification:
  "g p = b \<Longrightarrow> within (keeps_part rid g b) (evaluate_verification E rid tid p n)"
  unfolding evaluate_verification_def by (intro keep frame frame_replan) simp_all

lemma frame_no_ready: "within (keeps_part rid g b) (no_ready_node E rid tid p)"
  unfolding no_ready_node_def resume_terminal_state_def by (intro keep frame)

end

section \<open>The contract and the budget of a plan\<close>

text \<open>What executing a run may not change: what was asked, how it will be judged, and the limits.\<close>

definition plan_contract :: "plan \<Rightarrow> plan_goal \<times> definition_of_done \<times> plan_node list \<times> risk_budget \<times> string list \<times> int \<times> int" where
  "plan_contract p = (p_goal p, p_dod p, p_nodes p, p_risk_budget p, p_verifications p,
     eb_max_actions (p_budget p), eb_max_elapsed_seconds (p_budget p))"

definition action_budget :: "plan \<Rightarrow> int \<times> int" where
  "action_budget p = (eb_actions_used (p_budget p), eb_max_actions (p_budget p))"

interpretation contract: plan_frame plan_contract
  by unfold_locales (simp_all add: plan_contract_def)

interpretation budget: plan_frame action_budget
  by unfold_locales (simp_all add: action_budget_def)

lemma running_budget: "action_budget (running_plan p n t) = (fst (action_budget p) + 1, snd (action_budget p))"
  by (simp add: action_budget_def running_plan_def Let_def)

lemma running_contract [simp]: "plan_contract (running_plan p n t) = plan_contract p"
  by (simp add: plan_contract_def running_plan_def Let_def)

section \<open>Quiet operations\<close>

lemma hush_list [hush]:
  "quiet m \<Longrightarrow> (\<And>x ys. quiet (f x ys)) \<Longrightarrow> quiet (case xs of [] \<Rightarrow> m | x # ys \<Rightarrow> f x ys)"
  by (cases xs) simp_all

lemma hush_disposition [hush]:
  "quiet a \<Longrightarrow> quiet b \<Longrightarrow> quiet c \<Longrightarrow> quiet d \<Longrightarrow>
   quiet (case k of DSatisfied \<Rightarrow> a | DReplan \<Rightarrow> b | DBlocked \<Rightarrow> c | DFailed \<Rightarrow> d)"
  by (cases k) simp_all

lemma hush_transport [hush]:
  "(\<And>r. quiet (f r)) \<Longrightarrow> (\<And>e. quiet (g e)) \<Longrightarrow>
   quiet (case x of Inl (TransportError e) \<Rightarrow> g e | Inl e \<Rightarrow> raiseM e | Inr r \<Rightarrow> f r)"
  by (cases x) (auto intro: hush split: py_error.splits)

lemma hush_worker_ops [hush]:
  "quiet (parse_request E run)" "quiet (require_plan rid)" "quiet (check_elapsed E p)"
  "quiet (mark_terminal_notification E rid chat now)" "quiet (save_plan rid tid p)"
  "quiet (retry_budget_exhausted rid te)"
  unfolding parse_request_def require_plan_def check_elapsed_def mark_terminal_notification_def
    save_plan_def retry_budget_exhausted_def
  by (intro hush)+

lemma hush_persist [hush]:
  "quiet (persist_result E rid tid r)" "quiet (handle_transport_error E rid tid te)"
  "quiet (mark_budget_exhausted rid tid n reason)" "quiet (record_transport_failure rid tid n te)"
  "quiet (record_action_result E rid tid n r prov)"
  unfolding persist_result_def handle_transport_error_def mark_budget_exhausted_def
    record_transport_failure_def record_action_result_def Let_def
  by (intro hush)+

lemma hush_block [hush]: "quiet (block_planned_run E rid tid c reason)"
  unfolding block_planned_run_def by (rule hush)

lemma hush_gates [hush]:
  "quiet (prepare_planned_action E rid tid req p n)" "quiet (finish_action E rid tid m r prov)"
  "quiet (action_transport_error E rid tid m te)" "quiet (evaluate_approval_gate E rid tid req p n)"
  "quiet (replan_after_judgement E rid tid p j)" "quiet (mark_uncertain_side_effect E rid tid m)"
  "quiet (resume_terminal_state E rid tid p)"
  unfolding prepare_planned_action_def start_planned_action_def block_with_judgement_def finish_action_def
    action_transport_error_def evaluate_approval_gate_def replan_after_judgement_def
    mark_and_block_def mark_uncertain_side_effect_def resume_terminal_state_def Let_def
  by (intro hush)+

lemma hush_steps [hush]:
  "quiet (evaluate_verification E rid tid p n)" "quiet (no_ready_node E rid tid p)"
  unfolding evaluate_verification_def no_ready_node_def Let_def
  by (intro hush)+

section \<open>Spending the action budget\<close>

text \<open>
  From one world to a later one, the stored plan of \<open>rid\<close> keeps its limit, the actions used grow
  by at least the calls made, and they do not pass the limit.
\<close>

definition spends :: "string \<Rightarrow> world \<Rightarrow> world \<Rightarrow> bool" where
  "spends rid w w' \<longleftrightarrow> (\<forall>u m. stored_part rid action_budget (u, m) (w_db w) \<longrightarrow>
     (\<exists>v. stored_part rid action_budget (v, m) (w_db w') \<and> u \<le> v \<and> v \<le> max u m
        \<and> int (w_calls w') - int (w_calls w) \<le> v - u))"

lemma spends_trans:
  assumes "spends rid w w1" "spends rid w1 w2"
  shows "spends rid w w2"
  unfolding spends_def
proof (intro allI impI)
  fix u m assume "stored_part rid action_budget (u, m) (w_db w)"
  with assms(1) obtain v where v: "stored_part rid action_budget (v, m) (w_db w1)" "u \<le> v" "v \<le> max u m"
    "int (w_calls w1) - int (w_calls w) \<le> v - u" unfolding spends_def by blast
  with assms(2) obtain v' where "stored_part rid action_budget (v', m) (w_db w2)" "v \<le> v'" "v' \<le> max v m"
    "int (w_calls w2) - int (w_calls w1) \<le> v' - v" unfolding spends_def by blast
  with v show "\<exists>v. stored_part rid action_budget (v, m) (w_db w2) \<and> u \<le> v \<and> v \<le> max u m
        \<and> int (w_calls w2) - int (w_calls w) \<le> v - u"
    by (intro exI [of _ v']) auto
qed

lemma spends_keep:
  assumes "\<And>b. stored_part rid action_budget b (w_db w) \<Longrightarrow> within (keeps_part rid action_budget b) f"
    "quiet f" "f w = (x, w')"
  shows "spends rid w w'"
  unfolding spends_def
proof (intro allI impI)
  fix u m assume s: "stored_part rid action_budget (u, m) (w_db w)"
  from within_keeps [OF assms(1) [OF s] assms(3) s] quietD [OF assms(2,3)]
  show "\<exists>v. stored_part rid action_budget (v, m) (w_db w') \<and> u \<le> v \<and> v \<le> max u m
        \<and> int (w_calls w') - int (w_calls w) \<le> v - u" by auto
qed

lemma spends_keep_frame:
  "(\<And>b. within (keeps_part rid action_budget b) f) \<Longrightarrow> quiet f \<Longrightarrow> f w = (x, w') \<Longrightarrow> spends rid w w'"
  by (rule spends_keep)

text \<open>Starting an action spends one; preparing it does so only below the limit.\<close>

lemma start_outcome:
  assumes "start_planned_action E rid tid req p n w = (x, w')" "action_budget p = (u, m)"
    "stored_part rid action_budget (u, m) (w_db w)"
  shows "(\<forall>y. x \<noteq> Inr (Some y)) \<and> stored_part rid action_budget (u, m) (w_db w')
    \<or> stored_part rid action_budget (u + 1, m) (w_db w')"
proof -
  have saved: "stored_part rid action_budget (u + 1, m) (w_db w2)"
    if "sessionM (bindM (run_get rid) (\<lambda>run. bindM (plan_save rid tid (running_plan p n t)) (\<lambda>_. retM run))) w1
        = (Inr run, w2)" for t w1 w2 run
  proof -
    from that obtain row w' where "plan_save rid tid (running_plan p n t) w' = (Inr row, w2)"
      unfolding sessionM_Inr by (elim runE) auto
    from plan_save_stored [OF this] show ?thesis
      by (auto simp: stored_part_def stores_def running_budget assms(2))
  qed
  let ?clock = "case eb_started_at (p_budget p) of Some t \<Rightarrow> retM t | None \<Rightarrow> nowM E"
  let ?save = "\<lambda>t. sessionM (bindM (run_get rid) (\<lambda>run.
     bindM (plan_save rid tid (running_plan p n t)) (\<lambda>_. retM run)))"
  let ?build = "\<lambda>t run. bindM (liftE (exec_request_validate (e_codecs E)
     (node_request req run tid (running_plan p n t) n))) (\<lambda>x. retM (Some x))"
  have clock: "w_db w1 = w_db w" if "?clock w = (y, w1)" for y w1
    using that by (auto simp: nowM_def retM_def split: option.splits)
  have build: "w_db w2 = w_db w1" if "?build t run w1 = (y, w2)" for y t run w1 w2
    using that by (elim bindM_anyE liftE_anyE retM_anyE) simp_all
  from assms(1) [unfolded start_planned_action_def Let_def] show ?thesis
  proof (rule bindM_anyE)
    fix e assume "?clock w = (Inl e, w')" "x = Inl e"
    with clock assms(3) show ?thesis by simp
  next
    fix t w1 assume c: "?clock w = (Inr t, w1)" and f: "bindM (?save t) (?build t) w1 = (x, w')"
    from f show ?thesis
    proof (rule bindM_anyE)
      fix e assume "?save t w1 = (Inl e, w')" "x = Inl e"
      with clock [OF c] assms(3) show ?thesis by (simp add: sessionM_Inl)
    next
      fix run w2 assume "?save t w1 = (Inr run, w2)" "?build t run w2 = (x, w')"
      with saved build show ?thesis by metis
    qed
  qed
qed

lemma prepare_outcome:
  assumes "prepare_planned_action E rid tid req p n w = (x, w')" "action_budget p = (u, m)"
    "stored_part rid action_budget (u, m) (w_db w)"
  shows "(\<forall>y. x \<noteq> Inr (Some y)) \<and> stored_part rid action_budget (u, m) (w_db w')
    \<or> u < m \<and> stored_part rid action_budget (u + 1, m) (w_db w')"
proof -
  have late: "within (keeps_part rid action_budget (u, m)) (check_elapsed E p)" by (rule keep)
  have blk: "within (keeps_part rid action_budget (u, m))
      (bindM (block_with_judgement E rid tid p c) (\<lambda>_. retM (None :: exec_request option)))" for c
    unfolding block_with_judgement_def by (intro keep pf) (simp add: assms(2))
  have stop: ?thesis
    if "bindM (block_with_judgement E rid tid p c) (\<lambda>_. retM None) w1 = (x, w')"
      "stored_part rid action_budget (u, m) (w_db w1)" for c w1
    using within_keeps [OF blk that] that(1) by (auto elim!: bindM_anyE retM_anyE)
  have below: "\<not> actions_exhausted p \<Longrightarrow> u < m"
    using assms(2) by (auto simp: actions_exhausted_def action_budget_def)
  from assms(1) [unfolded prepare_planned_action_def] show ?thesis
  proof (rule bindM_anyE)
    fix e assume "check_elapsed E p w = (Inl e, w')" "x = Inl e"
    with within_keeps [OF late _ assms(3)] show ?thesis by blast
  next
    fix b w1 assume "check_elapsed E p w = (Inr b, w1)"
      and c: "(if b
       then bindM (block_with_judgement E rid tid p ''Wall-clock execution budget is exhausted.'') (\<lambda>_. retM None)
       else if actions_exhausted p
       then bindM (block_with_judgement E rid tid p ''Action execution budget is exhausted.'') (\<lambda>_. retM None)
       else start_planned_action E rid tid req p n) w1 = (x, w')"
    with within_keeps [OF late _ assms(3)] have s: "stored_part rid action_budget (u, m) (w_db w1)" by blast
    with c stop start_outcome [of E rid tid req p n w1 x w' u m] assms(2) below show ?thesis
      by (auto split: if_splits)
  qed
qed

text \<open>One call of the executor (or of the status probe) is made, after the action was spent.\<close>

definition one_call :: "'a M \<Rightarrow> bool" where
  "one_call f \<longleftrightarrow> (\<forall>w x w'. f w = (x, w') \<longrightarrow> w_calls w' \<le> Suc (w_calls w))"

lemma one_call_bind:
  assumes "one_call f" "\<And>a. quiet (k a)"
  shows "one_call (bindM f k)"
  unfolding one_call_def
proof (intro allI impI)
  fix w x w' assume "bindM f k w = (x, w')"
  then show "w_calls w' \<le> Suc (w_calls w)"
  proof (rule bindM_anyE)
    fix e assume "f w = (Inl e, w')"
    with assms(1) show ?thesis unfolding one_call_def by blast
  next
    fix a w1 assume "f w = (Inr a, w1)" "k a w1 = (x, w')"
    with assms(1) quietD [OF assms(2), of a w1 x w'] show ?thesis unfolding one_call_def by force
  qed
qed

lemma one_call_action: "one_call (execute_action E W rid tid req p n x)"
proof -
  have a: "one_call (core_status_workflow E W req cs)" for cs
    unfolding one_call_def core_status_workflow_def by (auto simp: run_simps)
  have b: "one_call (executeM E x)" unfolding one_call_def executeM_def by auto
  have i: "one_call f \<Longrightarrow> one_call g \<Longrightarrow> one_call (if c then f else g)" for c and f g :: "bool M" by simp
  show ?thesis unfolding execute_action_def
    by (rule i, (rule one_call_bind [OF a] one_call_bind [OF b], intro hush)+)
qed

lemma execute_action_keeps:
  "within (keeps_part rid action_budget b) (execute_action E W rid tid req p n x)"
  unfolding execute_action_def
  by (intro keep budget.frame_finish budget.frame_action_error)

lemma run_action_spends:
  assumes "run_action E W rid tid req p n w = (x, w')" "stores rid p (w_db w)"
  shows "spends rid w w'"
  unfolding spends_def
proof (intro allI impI)
  fix u m assume s: "stored_part rid action_budget (u, m) (w_db w)"
  from s assms(2) have b: "action_budget p = (u, m)" by (rule stored_part_stores)
  note prep = prepare_outcome [OF _ b s]
  note calls = hush_gates(1) [of E rid tid req p n, THEN quietD]
  from assms(1) [unfolded run_action_def]
  show "\<exists>v. stored_part rid action_budget (v, m) (w_db w') \<and> u \<le> v \<and> v \<le> max u m
      \<and> int (w_calls w') - int (w_calls w) \<le> v - u"
  proof (rule bindM_anyE)
    fix e assume q: "prepare_planned_action E rid tid req p n w = (Inl e, w')"
    from prep [OF q] calls [OF q] show ?thesis by auto
  next
    fix y w1 assume q: "prepare_planned_action E rid tid req p n w = (Inr y, w1)"
      and f: "(case y of None \<Rightarrow> retM False | Some z \<Rightarrow> execute_action E W rid tid req p n z) w1 = (x, w')"
    show ?thesis
    proof (cases y)
      case None
      with f have "w' = w1" by (simp add: retM_def)
      with prep [OF q] calls [OF q] show ?thesis by auto
    next
      case (Some z)
      with prep [OF q] have p: "u < m" "stored_part rid action_budget (u + 1, m) (w_db w1)" by auto
      from f Some have f': "execute_action E W rid tid req p n z w1 = (x, w')" by simp
      then have "w_calls w' \<le> Suc (w_calls w)"
        using one_call_action [of E W rid tid req p n z] calls [OF q] unfolding one_call_def by metis
      with within_keeps [OF execute_action_keeps f' p(2)] p(1)
      show ?thesis by (intro exI [of _ "u + 1"]) auto
    qed
  qed
qed

lemma loaded_same: "sessionM (plan_load rid) w = (x, w') \<Longrightarrow> w_db w' = w_db w \<and> w_calls w' = w_calls w"
  by (auto simp: sessionM_def plan_load_def run_simps split: prod.splits sum.splits option.splits)

lemma planned_step_spends:
  assumes "planned_step E W rid tid req w = (x, w')"
  shows "spends rid w w'"
  using assms [unfolded planned_step_def]
proof (rule bindM_anyE)
  fix e assume "sessionM (plan_load rid) w = (Inl e, w')"
  then show ?thesis by (rule spends_keep_frame [where f = "sessionM (plan_load rid)", rotated 2]) (intro keep hush)+
next
  fix a w1 assume l: "sessionM (plan_load rid) w = (Inr a, w1)"
    and f: "(case a of
       None \<Rightarrow> bindM (block_planned_run E rid tid ''plan_missing''
                  ''Durable plan disappeared during execution.'') (\<lambda>_. retM False)
     | Some p \<Rightarrow>
         (case ready_nodes p of
            [] \<Rightarrow> bindM (no_ready_node E rid tid p) (\<lambda>_. retM False)
          | n # _ \<Rightarrow>
              (case pn_kind n of
                 NkApprovalGate \<Rightarrow> evaluate_approval_gate E rid tid req p n
               | NkVerificationGate \<Rightarrow> evaluate_verification E rid tid p n
               | NkAction \<Rightarrow> run_action E W rid tid req p n))) w1 = (x, w')"
  have s: "spends rid w w1"
    by (rule spends_keep_frame [where f = "sessionM (plan_load rid)", rotated 2], rule l) (intro keep hush)+
  have "spends rid w1 w'"
  proof (cases a)
    case None
    with f have "bindM (block_planned_run E rid tid ''plan_missing''
        ''Durable plan disappeared during execution.'') (\<lambda>_. retM False) w1 = (x, w')" by simp
    then show ?thesis by (rule spends_keep_frame [rotated 2]) (intro keep pf hush)+
  next
    case (Some p)
    with l have p: "stores rid p (w_db w1)" by (auto simp: sessionM_Inr dest: plan_load_stores)
    note g = stored_part_stores [OF _ p]
    show ?thesis
    proof (cases "ready_nodes p")
      case Nil
      with f Some have "bindM (no_ready_node E rid tid p) (\<lambda>_. retM False) w1 = (x, w')" by simp
      then show ?thesis by (rule spends_keep_frame [rotated 2]) (intro keep budget.frame_no_ready hush)+
    next
      case (Cons n ns)
      with f Some have "(case pn_kind n of NkApprovalGate \<Rightarrow> evaluate_approval_gate E rid tid req p n
               | NkVerificationGate \<Rightarrow> evaluate_verification E rid tid p n
               | NkAction \<Rightarrow> run_action E W rid tid req p n) w1 = (x, w')" by simp
      then show ?thesis
        by (cases "pn_kind n")
          (auto intro: run_action_spends [OF _ p] hush
             spends_keep [OF budget.frame_gate [OF g]] spends_keep [OF budget.frame_verification [OF g]])
    qed
  qed
  with s show ?thesis by (rule spends_trans)
qed

lemma spends_refl: "spends rid w w"
  by (auto simp: spends_def)

lemma planned_loop_spends:
  "planned_loop E W rid tid req k w = (x, w') \<Longrightarrow> spends rid w w'"
proof (induction k arbitrary: w)
  case 0
  then have "block_planned_run E rid tid ''plan_loop_exhausted''
       ''Plan execution loop exceeded its deterministic safety bound.'' w = (x, w')" by simp
  then show ?case by (rule spends_keep_frame [rotated 2]) (intro pf hush)+
next
  case (Suc k)
  from Suc.prems [unfolded planned_loop.simps] show ?case
  proof (rule bindM_anyE)
    fix e assume "planned_step E W rid tid req w = (Inl e, w')"
    then show ?thesis by (rule planned_step_spends)
  next
    fix b w1 assume "planned_step E W rid tid req w = (Inr b, w1)"
      and f: "(if b then planned_loop E W rid tid req k else retM ()) w1 = (x, w')"
    then have "spends rid w w1" by (intro planned_step_spends)
    moreover have "spends rid w1 w'"
      using f Suc.IH [of w1] by (cases b) (auto simp: spends_refl elim: retM_anyE)
    ultimately show ?thesis by (rule spends_trans)
  qed
qed

section \<open>A part that starting an action keeps too\<close>

text \<open>With the law that starting an action keeps \<open>g\<close> as well, the whole loop keeps it.\<close>

lemma pf_session_load:
  assumes "\<And>p. g p = b \<Longrightarrow> within (keeps_part rid g b) (f (Some p))" "within (keeps_part rid g b) (f None)"
  shows "within (keeps_part rid g b) (bindM (sessionM (plan_load rid)) f)"
proof (rule keepsI)
  fix w x w' assume r: "bindM (sessionM (plan_load rid)) f w = (x, w')" and s: "stored_part rid g b (w_db w)"
  from r show "stored_part rid g b (w_db w')"
  proof (rule bindM_anyE)
    fix e assume "sessionM (plan_load rid) w = (Inl e, w')"
    from loaded_same [OF this] s show ?thesis by simp
  next
    fix a w1 assume l: "sessionM (plan_load rid) w = (Inr a, w1)" and f: "f a w1 = (x, w')"
    from loaded_same [OF l] s have s1: "stored_part rid g b (w_db w1)" by simp
    show ?thesis
    proof (cases a)
      case None
      with within_keeps [OF assms(2)] f s1 show ?thesis by blast
    next
      case (Some p)
      with l have "stores rid p (w_db w)" by (auto simp: sessionM_Inr dest: plan_load_stores)
      with s have "g p = b" by (rule stored_part_stores)
      from within_keeps [OF assms(1) [OF this]] f s1 Some show ?thesis by blast
    qed
  qed
qed

locale contract_frame = plan_frame g for g :: "plan \<Rightarrow> 'b" +
  assumes running: "\<And>p n t. g (running_plan p n t) = g p"
begin

lemma frame_run_action: "g p = b \<Longrightarrow> within (keeps_part rid g b) (run_action E W rid tid req p n)"
  unfolding run_action_def prepare_planned_action_def start_planned_action_def block_with_judgement_def
    execute_action_def Let_def
  by (intro keep frame frame_finish frame_action_error) (simp_all add: running)

lemma frame_step: "within (keeps_part rid g b) (planned_step E W rid tid req)"
  unfolding planned_step_def
  by (rule pf_session_load; simp only: option.case;
      (intro keep frame frame_gate frame_verification frame_run_action frame_no_ready)?; assumption?)

lemma frame_loop: "within (keeps_part rid g b) (planned_loop E W rid tid req k)"
  by (induction k) (auto intro!: keep frame frame_step)

lemma loop_keeps:
  assumes "planned_loop E W rid tid req k w = (x, w')" "stores rid p (w_db w)"
  obtains q where "stores rid q (w_db w')" "g q = g p"
  using within_keeps [OF frame_loop assms(1)] assms(2) by (auto simp: stored_part_def)

end

interpretation contract: contract_frame plan_contract
  by unfold_locales simp

end
