(* ===== verification/WorkerTermination.thy ===== *)
theory WorkerTermination
  imports WorkerBudget
begin

text \<open>
  The bound of 256 rounds in \<open>_execute_planned_run\<close> is never what ends it. A round that asks for
  another one completes an approval gate, spends an action or spends a replan, and the plan's own
  limits (64 nodes, 128 actions, 10 replans) leave at most 202 such rounds.
\<close>

section \<open>Rounds that continue\<close>

lemma loaded_plan:
  "sessionM (plan_load rid) w = (Inr (Some p), w') \<Longrightarrow>
   w' = w \<and> stores rid p (w_db w) \<and> plan_validate p = Inr p"
  by (auto simp: sessionM_Inr plan_load_def run_simps stores_def find_workflow_def
      split: option.splits sum.splits dest: plan_validate_same)

lemma save_plan_stores: "save_plan rid tid p w = (Inr u, w') \<Longrightarrow> stores rid p (w_db w')"
  unfolding stores_def by (rule save_plan_stored)

lemma plan_save_stores: "plan_save rid tid p w = (Inr u, w') \<Longrightarrow> stores rid p (w_db w')"
  unfolding stores_def by (rule plan_save_stored)

lemma gate_continues:
  assumes "evaluate_approval_gate E rid tid req p n w = (Inr True, w')"
  obtains a where "latest_approval rid tid (w_db w) = Some a" "ap_action_hash a = action_hash E (ac_goal req)"
    "ap_status a = ApApproved" "stores rid (set_node_state p (pn_id n) NsCompleted) (w_db w')"
  using assms unfolding evaluate_approval_gate_def
  by (elim runE) (auto split: option.splits if_splits elim!: runE dest: save_plan_stores)

lemma record_stores:
  assumes "record_action_result E rid tid n r prov w = (Inr t, w')"
  obtains q ev now where "stores rid q (w_db w)" "ev = result_evidence q n r prov now" "evidence_ok ev"
    "stores rid (recorded_plan q n r ev) (w_db w')" "t = (or_outcome r \<noteq> OCompleted)"
  using assms unfolding record_action_result_def require_plan_def Let_def sessionM_Inr
  by (elim runE) (auto simp: sessionM_Inr split: option.splits elim!: runE
      dest!: plan_load_stores intro: that plan_save_stores)

lemma finish_continues:
  assumes "finish_action E rid tid n r prov w = (Inr True, w')"
  obtains q ev now where "stores rid q (w_db w)" "ev = result_evidence q n r prov now"
    "or_outcome r = OCompleted" "stores rid (recorded_plan q n r ev) (w_db w')"
proof -
  from assms have "record_action_result E rid tid n r prov w = (Inr False, w')"
    unfolding finish_action_def by (elim runE) (auto split: if_splits elim!: runE)
  then obtain q ev now where "stores rid q (w_db w)" "ev = result_evidence q n r prov now"
    "stores rid (recorded_plan q n r ev) (w_db w')" "False = (or_outcome r \<noteq> OCompleted)"
    by (rule record_stores)
  then show ?thesis by (intro that) simp_all
qed

lemma start_stores:
  assumes "start_planned_action E rid tid req p n w = (Inr (Some x), w')"
  obtains t run where "stores rid (running_plan p n t) (w_db w')" "find_run rid w = Some run"
    "exec_request_validate (e_codecs E) (node_request req run tid (running_plan p n t) n) = Inr x"
proof -
  have clock: "find_run rid (w\<lparr>w_ticks := k\<rparr>) = find_run rid w" for k by (simp add: find_run_def)
  from assms show ?thesis
    unfolding start_planned_action_def Let_def sessionM_Inr
    by (elim runE) (auto simp: sessionM_Inr clock split: option.splits
        elim!: runE run_get_runE intro!: that dest: plan_save_stores)
qed

lemma prepare_stores:
  assumes "prepare_planned_action E rid tid req p n w = (Inr (Some x), w')"
  obtains w1 where "start_planned_action E rid tid req p n w1 = (Inr (Some x), w')" "w_db w1 = w_db w"
    "\<not> actions_exhausted p"
proof -
  have "w_db w1 = w_db w" if "check_elapsed E p w = (Inr b, w1)" for b w1
    using that by (auto simp: check_elapsed_def nowM_def split: option.splits elim!: runE)
  with assms show ?thesis
    unfolding prepare_planned_action_def
    by (elim runE) (auto split: if_splits elim!: runE intro: that)
qed

lemma action_continues:
  assumes "run_action E W rid tid req p n w = (Inr True, w')"
  obtains t r ev where "\<not> actions_exhausted p" "or_outcome r = OCompleted"
    "stores rid (recorded_plan (running_plan p n t) (pn_id n) r ev) (w_db w')"
proof -
  from assms obtain x w1 where p: "prepare_planned_action E rid tid req p n w = (Inr (Some x), w1)"
    and e: "execute_action E W rid tid req p n x w1 = (Inr True, w')"
    unfolding run_action_def by (elim runE) (auto split: option.splits elim!: runE)
  from p obtain w0 where st: "start_planned_action E rid tid req p n w0 = (Inr (Some x), w1)"
    and b: "\<not> actions_exhausted p" by (rule prepare_stores)
  from st obtain t where s: "stores rid (running_plan p n t) (w_db w1)" by (rule start_stores)
  have "\<exists>r prov w2. w_db w2 = w_db w1 \<and> finish_action E rid tid (pn_id n) r prov w2 = (Inr True, w')"
  proof (cases "wk_core_status W (ac_goal req)")
    case True
    with e show ?thesis
      unfolding execute_action_def core_status_workflow_def
      by (auto elim!: runE) (rule exI, rule exI, rule exI [of _ "w1\<lparr>w_calls := Suc (w_calls w1)\<rparr>"], simp)
  next
    case False
    with e obtain answer w2 where "executeM E x w1 = (Inr answer, w2)"
      and f: "(case answer of
           Inr r \<Rightarrow> finish_action E rid tid (pn_id n) r (result_provenance r)
         | Inl (TransportError e) \<Rightarrow> action_transport_error E rid tid (pn_id n) e
         | Inl e \<Rightarrow> raiseM e) w2 = (Inr True, w')"
      unfolding execute_action_def by (auto elim!: runE)
    then have d: "w_db w2 = w_db w1" by (auto simp: executeM_def)
    show ?thesis
    proof (cases answer)
      case (Inr r)
      with f d show ?thesis by auto
    next
      case (Inl er)
      have no: "\<not> action_transport_error E rid tid (pn_id n) te w2 = (Inr True, w')" for te
        unfolding action_transport_error_def by (auto elim!: runE split: if_splits)
      with Inl f show ?thesis by (cases er) (auto elim!: runE)
    qed
  qed
  then obtain r prov w2 where w2: "w_db w2 = w_db w1"
    and f: "finish_action E rid tid (pn_id n) r prov w2 = (Inr True, w')" by blast
  from f obtain q ev now where "stores rid q (w_db w2)" "or_outcome r = OCompleted"
    "stores rid (recorded_plan q (pn_id n) r ev) (w_db w')" by (rule finish_continues)
  with s w2 b that show ?thesis by (metis stores_unique)
qed

lemma first_mem: "(case xs of x # _ \<Rightarrow> Some x | [] \<Rightarrow> None) = Some a \<Longrightarrow> a \<in> set xs"
  by (cases xs) simp_all

lemma replan_action_mem: "replan_action p = Some a \<Longrightarrow> a \<in> set (p_nodes p) \<and> pn_kind a = NkAction"
  unfolding replan_action_def by (drule first_mem) simp

lemma mark_and_block_stops: "mark_and_block E rid tid p c w = (Inr b, w') \<Longrightarrow> \<not> b"
  unfolding mark_and_block_def by (elim runE) simp

lemma bind_False_stops: "bindM m (\<lambda>_. retM False) w = (Inr b, w') \<Longrightarrow> \<not> b"
  by (elim runE) simp

lemma replan_continues:
  assumes "replan_after_judgement E rid tid p j w = (Inr True, w')"
  obtains a fc ev where "a \<in> set (p_nodes p)" "pn_kind a = NkAction"
    "rd_disposition (reconcile_after_evidence (dod_failed_plan p (pn_id a) fc ev j) fc ev) = RdRevised"
    "stores rid (rd_plan (reconcile_after_evidence (dod_failed_plan p (pn_id a) fc ev j) fc ev)) (w_db w')"
proof -
  let ?block = "bindM (block_planned_run E rid tid (oj_reason_code j) (oj_reason j)) (\<lambda>_. retM False)"
  let ?revise = "\<lambda>a. bindM (nowM E) (\<lambda>now.
           let fc = (if oj_reason_code j = ''dod_unmet'' then DodUnmetRecoverable else DodEvidenceMissing);
               ev = dod_evidence p (pn_id a) (oj_reason j) now;
               failed = dod_failed_plan p (pn_id a) fc ev j;
               d = reconcile_after_evidence failed fc ev in
           bindM (guardM (evidence_ok ev) ValidationError) (\<lambda>_.
           if rd_disposition d = RdRevised
           then bindM (save_plan rid tid (rd_plan d)) (\<lambda>_. retM True)
           else bindM (save_plan rid tid (failed\<lparr>p_judgement := Some j\<rparr>)) (\<lambda>_. ?block)))"
  from assms obtain late w1 where r:
    "(if late then mark_and_block E rid tid p ''Wall-clock execution budget is exhausted before replan.''
     else if actions_exhausted p
     then mark_and_block E rid tid p ''Action execution budget is exhausted before replan.''
     else if rb_max_replans (p_risk_budget p) \<le> p_revision p - 1
     then mark_and_block E rid tid p ''Automatic replan budget is exhausted.''
     else if filter (\<lambda>n. pn_kind n = NkAction) (p_nodes p) = [] then ?block
     else (case replan_action p of
         None \<Rightarrow> bindM (save_plan rid tid (p\<lparr>p_judgement := Some j\<rparr>)) (\<lambda>_. ?block)
       | Some a \<Rightarrow> ?revise a)) w1 = (Inr True, w')"
    unfolding replan_after_judgement_def by (rule bindM_InrE)
  have stop: "bindM m (\<lambda>_. ?block) v \<noteq> (Inr True, w')" for m :: "unit M" and v
    by (auto elim!: bindM_InrE dest!: bind_False_stops)
  from r obtain a where a: "replan_action p = Some a" and c: "?revise a w1 = (Inr True, w')"
    using stop by (cases "replan_action p") (auto split: if_splits dest: mark_and_block_stops bind_False_stops)
  from c obtain now w2 where c2: "bindM (guardM (evidence_ok (dod_evidence p (pn_id a) (oj_reason j) now)) ValidationError) (\<lambda>_.
       let fc = (if oj_reason_code j = ''dod_unmet'' then DodUnmetRecoverable else DodEvidenceMissing);
               ev = dod_evidence p (pn_id a) (oj_reason j) now;
               failed = dod_failed_plan p (pn_id a) fc ev j;
               d = reconcile_after_evidence failed fc ev in
       if rd_disposition d = RdRevised
           then bindM (save_plan rid tid (rd_plan d)) (\<lambda>_. retM True)
           else bindM (save_plan rid tid (failed\<lparr>p_judgement := Some j\<rparr>)) (\<lambda>_. ?block)) w2 = (Inr True, w')"
    unfolding Let_def by (rule bindM_InrE)
  with stop replan_action_mem [OF a] show ?thesis
    unfolding Let_def
    by (elim bindM_InrE guardM_runE) (auto split: if_splits elim!: bindM_InrE retM_runE
        intro: that dest: save_plan_stores)
qed

lemma verification_continues:
  assumes "evaluate_verification E rid tid p n w = (Inr True, w')"
  obtains j w1 where
    "replan_after_judgement E rid tid (plan_with_unmet_failure p j) j w1 = (Inr True, w')"
  using assms unfolding evaluate_verification_def Let_def
  by (elim runE) (auto split: outcome_disposition.splits elim!: runE)

section \<open>What is left of the budgets\<close>

definition open_gates :: "plan \<Rightarrow> nat" where
  "open_gates p = length (filter (\<lambda>n. pn_kind n = NkApprovalGate \<and> state_for p (pn_id n) \<noteq> NsCompleted) (p_nodes p))"

definition rounds_left :: "plan \<Rightarrow> nat" where
  "rounds_left p = open_gates p
     + nat (eb_max_actions (p_budget p) - eb_actions_used (p_budget p))
     + nat (rb_max_replans (p_risk_budget p) - (p_revision p - 1))"

lemma find_replaced:
  "find_row ne_node_id m (replace_execution p e) =
     (if m = ne_node_id e then Some e else find_row ne_node_id m (p_executions p))"
proof -
  have u: "find_row ne_node_id m (map (\<lambda>x. if ne_node_id x = ne_node_id e then e else x) xs)
    = (if m = ne_node_id e \<and> (\<exists>x\<in>set xs. ne_node_id x = ne_node_id e) then Some e else
       find_row ne_node_id m xs)" for xs
    by (induction xs) auto
  show ?thesis
  proof (cases "\<exists>x\<in>set (p_executions p). ne_node_id x = ne_node_id e")
    case True
    then show ?thesis by (simp add: replace_execution_def Let_def list_ex_iff u)
  next
    case False
    then have "map (\<lambda>x. if ne_node_id x = ne_node_id e then e else x) (p_executions p) = p_executions p"
      by (induction "p_executions p") (auto intro: map_idI)
    moreover have "find_row ne_node_id (ne_node_id e) (p_executions p) = None"
      using False by (auto simp: find_row_None)
    ultimately show ?thesis
      using False by (auto simp: replace_execution_def list_ex_iff find_row_append split: option.splits)
  qed
qed

lemma state_replaced:
  "state_for (p\<lparr>p_executions := replace_execution p e\<rparr>) m =
     (if m = ne_node_id e then ne_state e else state_for p m)"
  by (simp add: state_for_def find_replaced)

lemma node_execution_id [simp]: "ne_node_id (node_execution p n) = n"
  by (auto simp: node_execution_def split: option.splits dest: find_row_Some)

text \<open>The states a plan update touches.\<close>

lemma state_for_cong: "p_executions q = p_executions p \<Longrightarrow> state_for q = state_for p"
  by (simp add: state_for_def fun_eq_iff)

lemma updated_states:
  "state_for (set_node_state p n st) m = (if m = n then st else state_for p m)"
  "state_for (fail_node p n st c) m = (if m = n then st else state_for p m)"
  by (simp_all add: set_node_state_def fail_node_def state_for_def find_replaced)

lemma other_states:
  assumes "m \<noteq> n"
  shows "state_for (recorded_plan p n r ev) m = state_for p m"
    "state_for (dod_failed_plan p n fc ev j) m = state_for p m"
  using assms by (simp_all add: recorded_plan_def dod_failed_plan_def Let_def state_for_def find_replaced)

lemma running_states: "m \<noteq> pn_id n \<Longrightarrow> state_for (running_plan p n t) m = state_for p m"
  by (simp add: running_plan_def Let_def state_for_def find_replaced)

lemma updated_nodes [simp]:
  "p_nodes (set_node_state p n st) = p_nodes p" "p_nodes (running_plan p nd t) = p_nodes p"
  "p_nodes (recorded_plan p n r ev) = p_nodes p" "p_nodes (dod_failed_plan p n fc ev j) = p_nodes p"
  "p_nodes (fail_node p n st c) = p_nodes p" "p_nodes (plan_with_unmet_failure p j) = p_nodes p"
  by (simp_all add: set_node_state_def running_plan_def recorded_plan_def dod_failed_plan_def Let_def
      fail_node_def plan_with_unmet_failure_def)

lemma updated_limits [simp]:
  "p_budget (set_node_state p n st) = p_budget p" "p_budget (recorded_plan p n r ev) = p_budget p"
  "p_budget (dod_failed_plan p n fc ev j) = p_budget p" "p_budget (plan_with_unmet_failure p j) = p_budget p"
  "p_risk_budget (set_node_state p n st) = p_risk_budget p" "p_risk_budget (recorded_plan p n r ev) = p_risk_budget p"
  "p_risk_budget (dod_failed_plan p n fc ev j) = p_risk_budget p"
  "p_risk_budget (plan_with_unmet_failure p j) = p_risk_budget p" "p_risk_budget (running_plan p nd t) = p_risk_budget p"
  "p_revision (set_node_state p n st) = p_revision p" "p_revision (recorded_plan p n r ev) = p_revision p"
  "p_revision (dod_failed_plan p n fc ev j) = p_revision p" "p_revision (plan_with_unmet_failure p j) = p_revision p"
  "p_revision (running_plan p nd t) = p_revision p"
  by (simp_all add: set_node_state_def running_plan_def recorded_plan_def dod_failed_plan_def Let_def
      fail_node_def plan_with_unmet_failure_def)

lemma length_filter_mono:
  "(\<And>x. x \<in> set xs \<Longrightarrow> P x \<Longrightarrow> Q x) \<Longrightarrow> length (filter P xs) \<le> length (filter Q xs)"
  by (induction xs) auto

lemma open_gates_le:
  assumes "p_nodes q = p_nodes p"
    "\<And>n. n \<in> set (p_nodes p) \<Longrightarrow> pn_kind n = NkApprovalGate \<Longrightarrow> state_for p (pn_id n) = NsCompleted \<Longrightarrow>
       state_for q (pn_id n) = NsCompleted"
  shows "open_gates q \<le> open_gates p"
  unfolding open_gates_def assms(1)
proof (rule length_filter_mono)
qed (use assms(2) in blast)

lemma length_filter_strict:
  "(\<And>x. x \<in> set xs \<Longrightarrow> P x \<Longrightarrow> Q x) \<Longrightarrow> y \<in> set xs \<Longrightarrow> Q y \<Longrightarrow> \<not> P y \<Longrightarrow>
   length (filter P xs) < length (filter Q xs)"
  by (induction xs) (auto simp: less_Suc_eq_le length_filter_mono)

lemma gate_shrinks:
  assumes "n \<in> set (ready_nodes p)" "pn_kind n = NkApprovalGate"
  shows "rounds_left (set_node_state p (pn_id n) NsCompleted) < rounds_left p"
proof -
  have "open_gates (set_node_state p (pn_id n) NsCompleted) < open_gates p"
    unfolding open_gates_def updated_nodes
    using assms by (intro length_filter_strict [of _ _ _ n])
      (auto simp: updated_states ready_nodes_def node_ready_def split: if_splits)
  then show ?thesis by (simp add: rounds_left_def)
qed

text \<open>In a plan that validates, an action's id is not a gate's.\<close>

lemma kinds_apart:
  assumes "plan_validate p = Inr p" "n \<in> set (p_nodes p)" "m \<in> set (p_nodes p)" "pn_kind n \<noteq> pn_kind m"
  shows "pn_id n \<noteq> pn_id m"
  using plan_validate_graph(2) [OF assms(1)] assms(2-4) by (auto simp: distinct_map dest: inj_onD)

lemma action_shrinks:
  assumes "plan_validate p = Inr p" "n \<in> set (p_nodes p)" "pn_kind n = NkAction" "\<not> actions_exhausted p"
  shows "rounds_left (recorded_plan (running_plan p n t) (pn_id n) r ev) < rounds_left p"
proof -
  let ?q = "recorded_plan (running_plan p n t) (pn_id n) r ev"
  have "open_gates ?q \<le> open_gates p"
  proof (rule open_gates_le)
    fix m assume m: "m \<in> set (p_nodes p)" "pn_kind m = NkApprovalGate" "state_for p (pn_id m) = NsCompleted"
    then have "pn_id m \<noteq> pn_id n" using kinds_apart [OF assms(1) m(1) assms(2)] assms(3) by simp
    with m(3) show "state_for ?q (pn_id m) = NsCompleted" by (simp add: other_states running_states)
  qed simp
  moreover have "eb_actions_used (p_budget ?q) = eb_actions_used (p_budget p) + 1"
    "eb_max_actions (p_budget ?q) = eb_max_actions (p_budget p)"
    by (simp_all add: running_plan_def Let_def)
  ultimately show ?thesis using assms(4) by (simp add: rounds_left_def actions_exhausted_def)
qed

lemma replan_shrinks:
  assumes "plan_validate p = Inr p" "a \<in> set (p_nodes p)" "pn_kind a = NkAction"
    "rd_disposition (reconcile_after_evidence (dod_failed_plan p' (pn_id a) fc ev j) fc ev) = RdRevised"
    "p' = plan_with_unmet_failure p j"
  shows "rounds_left (rd_plan (reconcile_after_evidence (dod_failed_plan p' (pn_id a) fc ev j) fc ev)) < rounds_left p"
proof -
  let ?f = "dod_failed_plan p' (pn_id a) fc ev j"
  let ?q = "rd_plan (reconcile_after_evidence ?f fc ev)"
  have last: "m \<noteq> last_action_node_id p"
    if "\<exists>n\<in>set (p_nodes p). pn_id n = m \<and> pn_kind n = NkApprovalGate" for m
  proof -
    have "filter (\<lambda>n. pn_kind n = NkAction) (rev (p_nodes p)) \<noteq> []"
      using assms(2,3) by (auto simp: filter_empty_conv)
    then obtain b bs where b: "filter (\<lambda>n. pn_kind n = NkAction) (rev (p_nodes p)) = b # bs"
      by (cases "filter (\<lambda>n. pn_kind n = NkAction) (rev (p_nodes p))") auto
    then have "b \<in> set (filter (\<lambda>n. pn_kind n = NkAction) (rev (p_nodes p)))" by simp
    then have "b \<in> set (p_nodes p)" "pn_kind b = NkAction" by auto
    with that b show ?thesis
      using kinds_apart [OF assms(1), of _ b] by (fastforce simp: last_action_node_id_def)
  qed
  have "open_gates ?q \<le> open_gates p"
  proof (rule open_gates_le)
    show "p_nodes ?q = p_nodes p" unfolding after_evidence_plan [OF assms(4)] by (simp add: assms(5))
  next
    fix m assume m: "m \<in> set (p_nodes p)" "pn_kind m = NkApprovalGate" "state_for p (pn_id m) = NsCompleted"
    have "pn_id m \<noteq> pn_id a" using kinds_apart [OF assms(1) m(1) assms(2)] m(2) assms(3) by simp
    moreover have "state_for p' (pn_id m) = NsCompleted"
      using m last [of "pn_id m"] unfolding assms(5) plan_with_unmet_failure_def
      by (auto simp: updated_states state_for_cong [of "_\<lparr>p_judgement := _\<rparr>"])
    ultimately have "state_for ?f (pn_id m) = NsCompleted" by (simp add: other_states)
    then obtain e where "find_row ne_node_id (pn_id m) (p_executions ?f) = Some e" "ne_state e = NsCompleted"
      by (auto simp: state_for_def split: option.splits)
    then show "state_for ?q (pn_id m) = NsCompleted"
      by (simp add: state_for_revised [OF assms(4)] revised_execution_def)
  qed
  moreover have "p_revision ?q = p_revision p + 1" "p_budget ?q = p_budget p" "p_risk_budget ?q = p_risk_budget p"
    unfolding after_evidence_plan [OF assms(4)] by (simp_all add: assms(5))
  moreover have "p_revision p - 1 < rb_max_replans (p_risk_budget p)"
    using assms(4) unfolding after_evidence_revised_iff by (simp add: assms(5))
  ultimately show ?thesis by (simp add: rounds_left_def)
qed

section \<open>The loop ends before its bound\<close>

lemma step_shrinks:
  assumes "planned_step E W rid tid req w = (Inr True, w')"
  obtains p q where "stores rid p (w_db w)" "plan_validate p = Inr p" "stores rid q (w_db w')"
    "rounds_left q < rounds_left p"
proof -
  from assms obtain found w1 where l: "sessionM (plan_load rid) w = (Inr found, w1)"
    and c: "(case found of
       None \<Rightarrow> bindM (block_planned_run E rid tid ''plan_missing''
                  ''Durable plan disappeared during execution.'') (\<lambda>_. retM False)
     | Some p \<Rightarrow>
         (case ready_nodes p of
            [] \<Rightarrow> bindM (no_ready_node E rid tid p) (\<lambda>_. retM False)
          | n # _ \<Rightarrow>
              (case pn_kind n of
                 NkApprovalGate \<Rightarrow> evaluate_approval_gate E rid tid req p n
               | NkVerificationGate \<Rightarrow> evaluate_verification E rid tid p n
               | NkAction \<Rightarrow> run_action E W rid tid req p n))) w1 = (Inr True, w')"
    unfolding planned_step_def by (rule bindM_InrE)
  then obtain p where p: "found = Some p" by (cases found) (auto dest: bind_False_stops)
  with l have w1: "w1 = w" and v: "stores rid p (w_db w)" "plan_validate p = Inr p" by (auto dest: loaded_plan)
  from c p obtain n ns where n: "ready_nodes p = n # ns"
    by (cases "ready_nodes p") (auto dest: bind_False_stops)
  then have mem: "n \<in> set (ready_nodes p)" by simp
  then have nodes: "n \<in> set (p_nodes p)" by (simp add: ready_nodes_def)
  show ?thesis
  proof (cases "pn_kind n")
    case NkAction
    with c p n w1 have "run_action E W rid tid req p n w = (Inr True, w')" by simp
    then obtain t r ev where "\<not> actions_exhausted p"
      "stores rid (recorded_plan (running_plan p n t) (pn_id n) r ev) (w_db w')" by (rule action_continues)
    with v action_shrinks [OF v(2) nodes NkAction] that show ?thesis by blast
  next
    case NkApprovalGate
    with c p n w1 have "evaluate_approval_gate E rid tid req p n w = (Inr True, w')" by simp
    then show ?thesis using gate_shrinks [OF mem NkApprovalGate] v that by (auto elim!: gate_continues)
  next
    case NkVerificationGate
    with c p n w1 have "evaluate_verification E rid tid p n w = (Inr True, w')" by simp
    then obtain j w2 where r: "replan_after_judgement E rid tid (plan_with_unmet_failure p j) j w2 = (Inr True, w')"
      by (rule verification_continues)
    then obtain a fc ev where "a \<in> set (p_nodes p)" "pn_kind a = NkAction"
      "rd_disposition (reconcile_after_evidence (dod_failed_plan (plan_with_unmet_failure p j) (pn_id a) fc ev j) fc ev) = RdRevised"
      "stores rid (rd_plan (reconcile_after_evidence (dod_failed_plan (plan_with_unmet_failure p j) (pn_id a) fc ev j) fc ev)) (w_db w')"
      by (rule replan_continues) simp
    with v replan_shrinks [OF v(2)] that show ?thesis by blast
  qed
qed

lemma rounds_left_bound:
  assumes "plan_validate p = Inr p"
  shows "rounds_left p \<le> 202"
proof -
  from assms have "plan_fields_ok p" by (auto simp: plan_validate_def split: if_splits)
  then have f: "1 \<le> p_revision p" "rb_max_plan_nodes (p_risk_budget p) \<le> 64"
    "rb_max_replans (p_risk_budget p) \<le> 10" "eb_max_actions (p_budget p) \<le> 128"
    "0 \<le> eb_actions_used (p_budget p)"
    by (simp_all add: plan_fields_ok_def risk_budget_ok_def budget_ok_def)
  have "open_gates p \<le> length (p_nodes p)" unfolding open_gates_def by (rule length_filter_le)
  then have "int (open_gates p) \<le> 64" using plan_validate_graph(6) [OF assms] f(2) by linarith
  with f show ?thesis unfolding rounds_left_def by linarith
qed

text \<open>More fuel than the rounds that are left makes no difference.\<close>

lemma loop_fuel:
  assumes "\<And>p. stores rid p (w_db w) \<Longrightarrow> plan_validate p = Inr p \<Longrightarrow> rounds_left p < k"
  shows "planned_loop E W rid tid req (Suc k) w = planned_loop E W rid tid req (Suc k + i) w"
  using assms
proof (induction k arbitrary: w)
  case 0
  then have "planned_step E W rid tid req w \<noteq> (Inr True, w')" for w'
    by (auto elim!: step_shrinks)
  then show ?case
    by (simp add: bindM_run split: prod.splits sum.splits)
next
  case (Suc k)
  have "planned_loop E W rid tid req (Suc k) w1 = planned_loop E W rid tid req (Suc k + i) w1"
    if s: "planned_step E W rid tid req w = (Inr True, w1)" for w1
  proof (rule Suc.IH)
    fix q assume q: "stores rid q (w_db w1)"
    from s obtain p q' where "stores rid p (w_db w)" "plan_validate p = Inr p" "stores rid q' (w_db w1)"
      "rounds_left q' < rounds_left p" by (rule step_shrinks)
    with q Suc.prems show "rounds_left q < k" using stores_unique by fastforce
  qed
  then show ?case
    by (simp add: bindM_run split: prod.splits sum.splits)
qed

end
