(* ===== verification/WorkerOutcome.thy ===== *)
theory WorkerOutcome
  imports WorkerTermination
begin

text \<open>
  What the worker's steps have done when they return: the rows behind a persisted result, a
  transport error, an approval gate and a node that was found running.
\<close>

lemma marked_terminal:
  assumes "mark_terminal_notification E rid chat now w = (Inr u, w')"
  obtains r where "find_run rid w = Some r"
    "wrote r (notified_row (if truthy chat then NPending else NNotRequired) False now r) w w'"
  using assms unfolding mark_terminal_notification_def
  by (elim runE mark_notification_Inr) (auto intro: that)

lemma closing_writes:
  assumes "run_transition E rid st now p w = (Inr r1, w1)" "task_transition E tid ts rs step w1 = (Inr t, w2)"
    "mark_terminal_notification E rid chat now' w2 = (Inr u, w3)"
  shows "\<exists>r'. find_run rid w3 = Some r' \<and> r_status r' = st"
proof -
  from assms(1) have "find_run rid w1 = Some r1" "r_status r1 = st" "r_id r1 = rid"
    by (auto elim!: run_transition_Inr simp: wrote_find dest: find_run_id)
  moreover from assms(3) obtain r where "find_run rid w2 = Some r"
    "wrote r (notified_row (if truthy chat then NPending else NNotRequired) False now' r) w2 w3"
    by (rule marked_terminal)
  ultimately show ?thesis
    using task_writes_keep_runs [OF assms(2), of rid] by (auto simp: wrote_find)
qed

lemma persist_result_Inr:
  assumes "persist_result E rid tid result w = (Inr u, w')" "find_run rid w = Some r"
    "r_status r \<noteq> RCancelled"
  obtains req r' where "parse_request E r (w\<lparr>w_ticks := Suc (w_ticks w)\<rparr>) = (Inr req, w\<lparr>w_ticks := Suc (w_ticks w)\<rparr>)"
    "find_run rid w' = Some r'"
    "r_status r' = outcome_run_status (or_outcome (closed_result (ac_governed_coding req \<noteq> None) result))"
proof -
  let ?w = "w\<lparr>w_ticks := Suc (w_ticks w)\<rparr>"
  have clock: "find_run rid ?w = Some r" using assms(2) by (simp add: find_run_def)
  have parse: "w1 = w0" if "parse_request E x w0 = (Inr y, w1)" for x y w0 w1
    using that by (auto simp: parse_request_def split: option.splits elim: runE)
  from assms(1) show ?thesis
    unfolding persist_result_def Let_def
    apply (elim runE)
    apply (simp only: sessionM_Inr)
    apply (elim runE run_get_runE)
    using assms(3) clock
    apply (simp only: option.inject if_False)
    apply (elim runE)
    apply (frule parse)
    apply (drule (2) closing_writes)
    apply (auto intro: that)
    done
qed

lemma block_planned_Inr:
  assumes "block_planned_run E rid tid code reason w = (Inr u, w')" "find_run rid w = Some r"
  shows "\<exists>r'. find_run rid w' = Some r' \<and> (r_status r' = RBlocked \<or> r_status r = RCancelled \<and> r' = r)"
proof (cases "r_status r = RCancelled")
  case True
  have clock: "find_run rid (w\<lparr>w_ticks := k\<rparr>) = Some r" for k using assms(2) by (simp add: find_run_def)
  with assms(1) True have "w_db w' = w_db w"
    unfolding block_planned_run_def persist_result_def sessionM_Inr
    by (elim runE) (auto simp: sessionM_Inr elim!: runE run_get_runE)
  with True assms(2) show ?thesis by (simp add: find_run_def)
next
  case False
  from assms(1) [unfolded block_planned_run_def] assms(2) False show ?thesis
    by (rule persist_result_Inr) (simp add: closed_result_def)
qed

lemma uncertain_Inr:
  assumes "mark_uncertain_side_effect E rid tid n w = (Inr u, w')" "stores rid p (w_db w)" "find_run rid w = Some r"
  shows "stores rid ((fail_node p n NsBlocked (Some ''uncertain_side_effect''))
           \<lparr>p_judgement := Some (blocked_judgement ''uncertain_side_effect'' uncertain_reason)\<rparr>) (w_db w')"
    "\<exists>r'. find_run rid w' = Some r' \<and> (r_status r' = RBlocked \<or> r_status r = RCancelled \<and> r' = r)"
proof -
  let ?q = "\<lambda>q. (fail_node q n NsBlocked (Some ''uncertain_side_effect''))
           \<lparr>p_judgement := Some (blocked_judgement ''uncertain_side_effect'' uncertain_reason)\<rparr>"
  from assms(1) obtain q w1 z w2 where
    l: "plan_load rid w = (Inr (Some q), w1)" and s: "plan_save rid tid (?q q) w1 = (Inr z, w2)" and
    b: "block_planned_run E rid tid ''uncertain_side_effect'' uncertain_reason w2 = (Inr u, w')"
    unfolding mark_uncertain_side_effect_def require_plan_def
    by (elim runE) (auto simp: sessionM_Inr split: option.splits elim!: runE)
  from plan_load_stores [OF l] assms(2) have q: "w1 = w" "q = p" by (auto dest: stores_unique)
  have "db_workflows (w_db w') = db_workflows (w_db w2)"
    using within_same [OF persist_same_plans b [unfolded block_planned_run_def], of db_workflows] by simp
  with plan_save_stores [OF s] q show "stores rid (?q p) (w_db w')" by (simp add: stores_def)
  have "db_runs (w_db w2) = db_runs (w_db w)"
    using within_same [OF plan_save_refines s, of db_runs] q by (simp add: workflow_table_frame)
  then have "find_run rid w2 = Some r" using assms(3) by (simp add: find_run_def)
  with b show "\<exists>r'. find_run rid w' = Some r' \<and> (r_status r' = RBlocked \<or> r_status r = RCancelled \<and> r' = r)"
    by (rule block_planned_Inr)
qed

section \<open>Nothing runs without the owner's approval\<close>

abbreviation same_approvals :: "db \<Rightarrow> db \<Rightarrow> bool" where
  "same_approvals d d' \<equiv> db_approvals d' = db_approvals d"

named_theorems ap "operations that keep the approvals"

lemma ap_primitive [ap]:
  "within same_approvals (run_transition E i st now p)" "within same_approvals (schedule_retry E i now dl code msg)"
  "within same_approvals (mark_notification E i nst now inc nc nm)"
  "within same_approvals (task_transition E tid ts rs step)" "within same_approvals (plan_save rid tid q)"
  by (rule run_transition_refines [THEN within_mono] schedule_retry_refines [THEN within_mono]
      mark_notification_refines [THEN within_mono] task_transition_refines [THEN within_mono]
      plan_save_refines [THEN within_mono];
      simp add: run_table_frame task_table_frame workflow_table_frame)+

lemma ap_persist [ap]: "within same_approvals (persist_result E i tid r)"
    "within same_approvals (handle_transport_error E i tid e)"
  unfolding persist_result_def handle_transport_error_def mark_terminal_notification_def Let_def
  by (intro keep ap)+

lemma ap_block [ap]: "within same_approvals (block_planned_run E i tid c reason)"
  unfolding block_planned_run_def by (rule ap)

lemma ap_plan_ops [ap]:
  "within same_approvals (save_plan i tid p)" "within same_approvals (mark_budget_exhausted i tid n reason)"
  "within same_approvals (record_transport_failure i tid n te)"
  "within same_approvals (record_action_result E i tid n r prov)"
  unfolding save_plan_def mark_budget_exhausted_def record_transport_failure_def record_action_result_def Let_def
  by (intro keep ap)+

lemma ap_gates [ap]:
  "within same_approvals (prepare_planned_action E i tid req p n)"
  "within same_approvals (evaluate_approval_gate E i tid req p n)"
  "within same_approvals (replan_after_judgement E i tid p j)"
  "within same_approvals (finish_action E i tid m r prov)"
  "within same_approvals (action_transport_error E i tid m te)"
  unfolding prepare_planned_action_def start_planned_action_def block_with_judgement_def
    evaluate_approval_gate_def replan_after_judgement_def mark_and_block_def finish_action_def
    action_transport_error_def Let_def
  by (intro keep ap)+

lemma ap_step: "within same_approvals (planned_step E W rid tid req)"
  unfolding planned_step_def run_action_def execute_action_def evaluate_verification_def no_ready_node_def
    mark_uncertain_side_effect_def resume_terminal_state_def Let_def
  by (intro keep ap)

text \<open>\<open>approved\<close>: the gate's test, the latest approval of the run is granted for this goal.\<close>

definition gate_approved :: "env \<Rightarrow> string \<Rightarrow> string \<Rightarrow> string \<Rightarrow> db \<Rightarrow> bool" where
  "gate_approved E rid tid goal d \<longleftrightarrow> (case latest_approval rid tid d of None \<Rightarrow> False
     | Some a \<Rightarrow> ap_action_hash a = action_hash E goal \<and> ap_status a = ApApproved)"

text \<open>\<open>shut p g\<close>: every action waits for \<open>g\<close>, which is not completed.\<close>

definition shut :: "plan \<Rightarrow> string \<Rightarrow> bool" where
  "shut p g \<longleftrightarrow> state_for p g \<noteq> NsCompleted
     \<and> (\<forall>n\<in>set (p_nodes p). pn_kind n = NkAction \<longrightarrow> g \<in> set (pn_depends_on n))"

lemma revised_completed: "rd_disposition (reconcile_after_evidence p fc ev) = RdRevised \<Longrightarrow>
    state_for (rd_plan (reconcile_after_evidence p fc ev)) m = NsCompleted \<Longrightarrow> state_for p m = NsCompleted"
  by (simp only: state_for_revised)
    (auto simp: state_for_def revised_execution_def split: option.splits if_splits)

lemma shut_replanned:
  assumes "shut p g" "rd_disposition (reconcile_after_evidence
      (dod_failed_plan (plan_with_unmet_failure p j) a fc ev j) fc ev) = RdRevised"
  shows "shut (rd_plan (reconcile_after_evidence
      (dod_failed_plan (plan_with_unmet_failure p j) a fc ev j) fc ev)) g"
proof -
  let ?u = "plan_with_unmet_failure p j"
  have "state_for (dod_failed_plan ?u a fc ev j) g \<noteq> NsCompleted"
    if "state_for ?u g \<noteq> NsCompleted"
    using that by (simp add: dod_failed_plan_def Let_def state_for_def find_replaced)
  moreover have "state_for ?u g \<noteq> NsCompleted"
    using assms(1) updated_states(2) [of p "last_action_node_id p" NsFailed]
    by (auto simp: plan_with_unmet_failure_def shut_def state_for_def split: if_splits)
  ultimately show ?thesis
    using assms(1) revised_completed [OF assms(2)] after_evidence_plan [OF assms(2)]
    by (auto simp: shut_def)
qed

lemma shut_step:
  assumes "planned_step E W rid tid req w = (x, w')" "stores rid p (w_db w)" "shut p g"
    "\<not> gate_approved E rid tid (ac_goal req) (w_db w)"
  shows "w_calls w' = w_calls w"
    and "x = Inr True \<Longrightarrow> \<exists>q. stores rid q (w_db w') \<and> shut q g"
proof -
  from assms(1) [unfolded planned_step_def]
  have "w_calls w' = w_calls w \<and> (x = Inr True \<longrightarrow> (\<exists>q. stores rid q (w_db w') \<and> shut q g))"
  proof (rule bindM_anyE)
    fix e assume "sessionM (plan_load rid) w = (Inl e, w')" "x = Inl e"
    then show ?thesis by (auto dest: loaded_same)
  next
    fix found w1 assume l: "sessionM (plan_load rid) w = (Inr found, w1)"
      and f: "(case found of
         None \<Rightarrow> bindM (block_planned_run E rid tid ''plan_missing''
                  ''Durable plan disappeared during execution.'') (\<lambda>_. retM False)
       | Some p \<Rightarrow>
         (case ready_nodes p of
            [] \<Rightarrow> bindM (no_ready_node E rid tid p) (\<lambda>_. retM False)
          | n # _ \<Rightarrow>
              (case pn_kind n of
                 NkApprovalGate \<Rightarrow> evaluate_approval_gate E rid tid req p n
               | NkVerificationGate \<Rightarrow> evaluate_verification E rid tid p n
               | NkAction \<Rightarrow> run_action E W rid tid req p n))) w1 = (x, w')"
    have stop: "w_calls w2 = w_calls w0 \<and> y \<noteq> Inr True"
      if "quiet m" "bindM m (\<lambda>_. retM False) w0 = (y, w2)" for m :: "unit M" and w0 y w2
      using that(2) quietD [OF that(1)] by (auto elim!: bindM_anyE retM_anyE)
    note same = loaded_same [OF l]
    show ?thesis
    proof (cases found)
      case None
      with f stop [OF hush_block] same show ?thesis by fastforce
    next
      case (Some p')
      with l assms(2) have p: "found = Some p" "w1 = w" by (auto dest!: loaded_plan dest: stores_unique)
      show ?thesis
      proof (cases "ready_nodes p")
        case Nil
        with f p stop [OF hush_steps(2)] show ?thesis by fastforce
      next
        case (Cons n ns)
        then have n: "n \<in> set (p_nodes p)" "node_ready p n"
          using filter_eq_ConsD [of "node_ready p" "p_nodes p" n ns] by (auto simp: ready_nodes_def)
        show ?thesis
        proof (cases "pn_kind n")
          case NkAction
          with n assms(3) show ?thesis by (auto simp: node_ready_def shut_def list_all_iff)
        next
          case NkApprovalGate
          with f p Cons have g: "evaluate_approval_gate E rid tid req p n w = (x, w')" by simp
          have "x \<noteq> Inr True"
          proof
            assume "x = Inr True"
            with g have "evaluate_approval_gate E rid tid req p n w = (Inr True, w')" by simp
            then show False by (rule gate_continues) (use assms(4) in \<open>simp add: gate_approved_def\<close>)
          qed
          with quietD [OF hush_gates(4) g] show ?thesis by simp
        next
          case NkVerificationGate
          with f p Cons have v: "evaluate_verification E rid tid p n w = (x, w')" by simp
          have "\<exists>q. stores rid q (w_db w') \<and> shut q g" if "x = Inr True"
          proof -
            from v that obtain j w2 where
              r: "replan_after_judgement E rid tid (plan_with_unmet_failure p j) j w2 = (Inr True, w')"
              by (auto elim: verification_continues)
            then show ?thesis by (rule replan_continues) (use shut_replanned [OF assms(3)] in blast)
          qed
          with quietD [OF hush_steps(1) v] show ?thesis by blast
        qed
      qed
    qed
  qed
  then show "w_calls w' = w_calls w" "x = Inr True \<Longrightarrow> \<exists>q. stores rid q (w_db w') \<and> shut q g" by auto
qed

lemma shut_loop:
  assumes "planned_loop E W rid tid req k w = (x, w')" "stores rid p (w_db w)" "shut p g"
    "\<not> gate_approved E rid tid (ac_goal req) (w_db w)"
  shows "w_calls w' = w_calls w"
  using assms
proof (induction k arbitrary: w p)
  case 0
  then show ?case using quietD [OF hush_block] by fastforce
next
  case (Suc k)
  from Suc.prems(1) [unfolded planned_loop.simps] show ?case
  proof (rule bindM_anyE)
    fix e assume "planned_step E W rid tid req w = (Inl e, w')"
    from shut_step(1) [OF this Suc.prems(2-4)] show ?thesis .
  next
    fix again w1 assume s: "planned_step E W rid tid req w = (Inr again, w1)"
      and f: "(if again then planned_loop E W rid tid req k else retM ()) w1 = (x, w')"
    note calls = shut_step(1) [OF s Suc.prems(2-4)]
    have "db_approvals (w_db w1) = db_approvals (w_db w)"
      using within_same [OF ap_step s, of db_approvals] by simp
    then have g: "\<not> gate_approved E rid tid (ac_goal req) (w_db w1)"
      using Suc.prems(4) by (simp add: gate_approved_def latest_approval_def)
    show ?thesis
    proof (cases again)
      case True
      with s shut_step(2) [OF s Suc.prems(2-4)] obtain q where q: "stores rid q (w_db w1)" "shut q g" by blast
      from True f have "planned_loop E W rid tid req k w1 = (x, w')" by simp
      from Suc.IH [OF this q g] calls show ?thesis by simp
    next
      case False
      with f calls show ?thesis by (auto elim: retM_anyE)
    qed
  qed
qed

end
