(* ===== verification/WorkerProperties.thy ===== *)
theory WorkerProperties
  imports WorkerOutcome Success Demo
begin

text \<open>
  What the worker guarantees about the execution of a run: its completion is judged, its budget
  and contract hold, it ends, its results and errors are recorded as the code means them to be.
\<close>

section \<open>The demo run resumed and persisted\<close>

lemma demo_find: "find_run ''r'' (demo_world st p) = Some (demo_run\<lparr>r_status := st\<rparr>)"
  "find_task ''t'' (demo_world st p) = Some demo_task"
  by (simp_all add: find_run_def find_task_def demo_world_def demo_run_def demo_task_def)

lemma demo_fits: "run_fits demo_env (demo_run\<lparr>r_status := st\<rparr>)" "task_fits demo_task"
  by code_simp+

lemma demo_request: "e_loads demo_env (r_request_json (demo_run\<lparr>r_status := st\<rparr>)) = Some (JObj demo_body)"
  "async_create_of_json (e_codecs demo_env) (JObj demo_body) = Inr (demo_create\<lparr>ac_idempotency_key := None\<rparr>)"
  by code_simp+

lemma demo_persisted:
  obtains w' r' where "persist_result demo_env ''r'' ''t'' demo_outcome (demo_world RRunning demo_done) = (Inr (), w')"
    "find_run ''r'' w' = Some r'" "r_status r' = RCompleted"
proof -
  have c: "demo_outcome = closed_result (ac_governed_coding (demo_create\<lparr>ac_idempotency_key := None\<rparr>) \<noteq> None) demo_outcome"
    "py_strip (or_summary demo_outcome) \<noteq> []" "or_outcome demo_outcome = OCompleted"
    "t_status demo_task = TRunning" "r_status (demo_run\<lparr>r_status := RRunning\<rparr>) = RRunning"
    by code_simp+
  show ?thesis
    by (rule persist_result_returns [OF demo_find(1) c(5) demo_fits(1) demo_find(2) c(4) demo_fits(2)
          demo_request c(1,2)]) (use c(3) that in simp)
qed

lemma demo_resumed:
  assumes "persist_result demo_env ''r'' ''t'' demo_outcome (demo_world RRunning demo_done) = (Inr (), w')"
  shows "execute_planned_run demo_env demo_worker ''r'' ''t'' demo_create (demo_world RRunning demo_done) = (Inr (), w')"
proof -
  have load: "sessionM (plan_load ''r'') (demo_world RRunning demo_done) = (Inr (Some demo_done), demo_world RRunning demo_done)"
    by code_simp
  have plan: "ready_nodes demo_done = []" "running_execution demo_done = None"
    "all_nodes_completed demo_done" "judged_satisfied demo_done" "result_from_evidence demo_done = Inr demo_outcome"
    by code_simp+
  show ?thesis
    unfolding execute_loop
    by (rule planned_loop_stop)
      (simp add: planned_step_loaded [OF load] plan no_ready_node_def resume_terminal_state_def
        bindM_run liftE_def retM_def assms)
qed

section \<open>What a round sends to the executor\<close>

text \<open>Requests for the nodes of a list; operations that send only such requests.\<close>

definition requests_of :: "plan_node list \<Rightarrow> exec_request set" where
  "requests_of ns = {y. \<exists>n\<in>set ns. xr_plan_node_id y = Some (pn_id n)}"

definition sends :: "exec_request set \<Rightarrow> 'a M \<Rightarrow> bool" where
  "sends S f \<longleftrightarrow> (\<forall>w. \<exists>es. w_exec_log (snd (f w)) = w_exec_log w @ es \<and> set es \<subseteq> S)"

named_theorems send "operations that send only given requests"

lemma sends_quiet [send]: "quiet f \<Longrightarrow> sends S f"
  by (auto simp: sends_def quiet_def)

lemma sendsD: "sends S f \<Longrightarrow> f w = (x, w') \<Longrightarrow> \<exists>es. w_exec_log w' = w_exec_log w @ es \<and> set es \<subseteq> S"
  unfolding sends_def by (metis snd_conv)

lemma sendsI: "(\<And>w x w'. f w = (x, w') \<Longrightarrow> \<exists>es. w_exec_log w' = w_exec_log w @ es \<and> set es \<subseteq> S) \<Longrightarrow> sends S f"
  unfolding sends_def by (metis prod.collapse)

lemma sends_bind:
  assumes "sends S f" "\<And>w a w'. f w = (Inr a, w') \<Longrightarrow> sends S (k a)"
  shows "sends S (bindM f k)"
proof (rule sendsI)
  fix w x w' assume "bindM f k w = (x, w')"
  then show "\<exists>es. w_exec_log w' = w_exec_log w @ es \<and> set es \<subseteq> S"
  proof (rule bindM_anyE)
    fix e assume "f w = (Inl e, w')"
    with assms(1) show ?thesis by (rule sendsD)
  next
    fix a w1 assume f: "f w = (Inr a, w1)" and k: "k a w1 = (x, w')"
    from sendsD [OF assms(1) f] sendsD [OF assms(2) [OF f] k] obtain es fs where
      "w_exec_log w1 = w_exec_log w @ es" "set es \<subseteq> S" "w_exec_log w' = w_exec_log w1 @ fs" "set fs \<subseteq> S" by blast
    then show ?thesis by (intro exI [of _ "es @ fs"]) simp
  qed
qed

lemma sends_execute: "y \<in> S \<Longrightarrow> sends S (executeM E y)"
  by (auto simp: sends_def executeM_def)

lemma sends_probe: "sends S (core_status_workflow E W req cs)"
  by (auto simp: sends_def core_status_workflow_def run_simps)

lemma sends_action: "y \<in> S \<Longrightarrow> sends S (execute_action E W rid tid req p n y)"
  unfolding execute_action_def if_split [of "sends S"]
  by (intro conjI impI sends_bind [OF sends_probe] sends_bind [OF sends_execute] sends_quiet hush) assumption

lemma validated_request: "exec_request_validate C x = Inr y \<Longrightarrow> xr_plan_node_id y = xr_plan_node_id x"
  by (auto simp: exec_request_validate_def ensureE_def bindE_def split: option.splits if_splits sum.splits)

lemma prepared_request:
  assumes "prepare_planned_action E rid tid req p n w = (Inr (Some y), w')"
  shows "xr_plan_node_id y = Some (pn_id n)"
  using assms unfolding prepare_planned_action_def start_planned_action_def Let_def
  by (elim runE) (auto split: if_splits elim!: runE dest!: validated_request simp: node_request_def)

lemma sends_run_action: "sends (requests_of [n]) (run_action E W rid tid req p n)"
  unfolding run_action_def
  by (rule sends_bind [OF sends_quiet [OF hush_gates(1)]])
    (auto split: option.split intro!: sends_action sends_quiet [OF hush_prims(1)]
      simp: requests_of_def dest: prepared_request)

text \<open>A round sends requests for the ready nodes of the stored plan only.\<close>

lemma step_sends:
  assumes "sessionM (plan_load rid) w = (Inr (Some p), w)" "planned_step E W rid tid req w = (x, w')"
    "\<And>y. y \<in> requests_of (ready_nodes p) \<Longrightarrow> P y"
  shows "\<exists>es. w_exec_log w' = w_exec_log w @ es \<and> (\<forall>y\<in>set es. P y)"
proof -
  have mono: "requests_of [n] \<subseteq> requests_of (ready_nodes p)" if "ready_nodes p = n # ns" for n ns
    using that by (auto simp: requests_of_def)
  have "\<exists>es. w_exec_log w' = w_exec_log w @ es \<and> set es \<subseteq> requests_of (ready_nodes p)"
  proof (cases "ready_nodes p")
    case Nil
    have "sends (requests_of (ready_nodes p)) (bindM (no_ready_node E rid tid p) (\<lambda>_. retM False))"
      by (intro sends_quiet hush)
    from sendsD [OF this] assms(2) Nil show ?thesis by (simp add: planned_step_loaded [OF assms(1)])
  next
    case (Cons n ns)
    have "sends (requests_of [n]) (case pn_kind n of
         NkApprovalGate \<Rightarrow> evaluate_approval_gate E rid tid req p n
       | NkVerificationGate \<Rightarrow> evaluate_verification E rid tid p n
       | NkAction \<Rightarrow> run_action E W rid tid req p n)"
      by (cases "pn_kind n") (simp_all add: sends_quiet hush_gates hush_steps sends_run_action)
    from sendsD [OF this] assms(2) mono [OF Cons] Cons show ?thesis
      by (simp add: planned_step_loaded [OF assms(1)]) blast
  qed
  with assms(3) show ?thesis by blast
qed

lemma running_found:
  assumes "state_for p i = NsRunning"
  obtains m where "running_execution p = Some m" "ne_state m = NsRunning"
proof -
  from assms have "filter (\<lambda>e. ne_state e = NsRunning) (p_executions p) \<noteq> []"
    by (auto simp: state_for_def filter_empty_conv dest!: find_row_Some split: option.splits)
  then obtain m ms where f: "filter (\<lambda>e. ne_state e = NsRunning) (p_executions p) = m # ms"
    by (auto simp: neq_Nil_conv)
  then show ?thesis using that filter_eq_ConsD [OF f] by (auto simp: running_execution_def)
qed

section \<open>Properties\<close>

text \<open>C1. A planned run is completed only on a satisfied judgement: whenever the execution of a plan,
  started on a run that is not completed, leaves the run COMPLETED (whether it returns or raises),
  the plan stored with the run carries a judgement with disposition \<open>satisfied\<close>.\<close>

theorem planned_completion_judged:
  assumes "execute_planned_run E W rid tid req w = (x, w')"
    "\<forall>r\<in>set (db_runs (w_db w)). r_id r = rid \<longrightarrow> r_status r \<noteq> RCompleted"
    "find_run rid w' = Some r" "r_status r = RCompleted"
  shows "\<exists>row p j. find_row wf_id rid (db_workflows (w_db w')) = Some row \<and> wf_plan_payload row = Some p
    \<and> p_judgement p = Some j \<and> oj_disposition j = DSatisfied"
proof -
  have "completion_justified rid (w_db w')"
    by (rule planned_loop_justified [OF assms(1) [unfolded execute_planned_run_def]])
      (use assms(2) in \<open>simp add: not_completed_def\<close>)
  moreover have "\<not> not_completed rid (w_db w')"
    using find_run_mem [OF assms(3)] find_run_id [OF assms(3)] assms(4) by (auto simp: not_completed_def)
  ultimately show ?thesis
    by (auto simp: completion_justified_def stored_satisfied_def judged_satisfied_def split: option.splits)
qed

lemma planned_completion_judged_witness:
  "\<exists>w' row p j. execute_planned_run demo_env demo_worker ''r'' ''t'' demo_create (demo_world RRunning demo_done) = (Inr (), w')
    \<and> find_row wf_id ''r'' (db_workflows (w_db w')) = Some row \<and> wf_plan_payload row = Some p
    \<and> p_judgement p = Some j \<and> oj_disposition j = DSatisfied"
proof (rule demo_persisted)
  fix w' r' assume p: "persist_result demo_env ''r'' ''t'' demo_outcome (demo_world RRunning demo_done) = (Inr (), w')"
    and r: "find_run ''r'' w' = Some r'" "r_status r' = RCompleted"
  have "\<forall>r\<in>set (db_runs (w_db (demo_world RRunning demo_done))). r_id r = ''r'' \<longrightarrow> r_status r \<noteq> RCompleted"
    by code_simp
  from planned_completion_judged [OF demo_resumed [OF p] this r] demo_resumed [OF p] show ?thesis by blast
qed

text \<open>C3. The executor is called at most as often as the plan's action budget allows: over one execution
  of a plan (at most 256 rounds, retries and replans included) the calls made are bounded by the
  actions charged to the stored plan, whose counter never passes its maximum.\<close>

theorem action_budget_bound:
  assumes "execute_planned_run E W rid tid req w = (x, w')" "stores rid p (w_db w)"
    "eb_actions_used (p_budget p) \<le> eb_max_actions (p_budget p)"
  obtains q where "stores rid q (w_db w')" "eb_max_actions (p_budget q) = eb_max_actions (p_budget p)"
    "eb_actions_used (p_budget q) \<le> eb_max_actions (p_budget p)"
    "int (w_calls w') - int (w_calls w) \<le> eb_actions_used (p_budget q) - eb_actions_used (p_budget p)"
proof -
  have "stored_part rid action_budget (eb_actions_used (p_budget p), eb_max_actions (p_budget p)) (w_db w)"
    using assms(2) by (auto simp: stored_part_def action_budget_def)
  with planned_loop_spends [OF assms(1) [unfolded execute_planned_run_def]] obtain v where
    "stored_part rid action_budget (v, eb_max_actions (p_budget p)) (w_db w')"
    "v \<le> max (eb_actions_used (p_budget p)) (eb_max_actions (p_budget p))"
    "int (w_calls w') - int (w_calls w) \<le> v - eb_actions_used (p_budget p)"
    unfolding spends_def by blast
  with assms(3) that show ?thesis by (auto simp: stored_part_def action_budget_def)
qed

lemma demo_stores: "stores ''r'' p (w_db (demo_world st p))"
  by (simp add: stores_def demo_world_def demo_workflow_def)

lemma action_budget_bound_witness:
  "\<exists>w' q. execute_planned_run demo_env demo_worker ''r'' ''t'' demo_create (demo_world RRunning demo_done) = (Inr (), w')
    \<and> stores ''r'' q (w_db w')
    \<and> int (w_calls w') \<le> eb_actions_used (p_budget q) - eb_actions_used (p_budget demo_done)"
proof (rule demo_persisted)
  fix w' r' assume p: "persist_result demo_env ''r'' ''t'' demo_outcome (demo_world RRunning demo_done) = (Inr (), w')"
  have b: "eb_actions_used (p_budget demo_done) \<le> eb_max_actions (p_budget demo_done)"
    "w_calls (demo_world RRunning demo_done) = 0" by code_simp+
  show ?thesis
    by (rule action_budget_bound [OF demo_resumed [OF p] demo_stores b(1)])
      (use demo_resumed [OF p] b(2) in auto)
qed

text \<open>C5. Executing a plan changes its progress, never its contract: the plan stored afterwards has the
  goal, the nodes, the definition of done, the risk budget and the limits it had before.\<close>

theorem plan_contract_kept:
  assumes "execute_planned_run E W rid tid req w = (x, w')" "stores rid p (w_db w)"
  obtains q where "stores rid q (w_db w')" "p_goal q = p_goal p" "p_dod q = p_dod p" "p_nodes q = p_nodes p"
    "p_risk_budget q = p_risk_budget p" "p_verifications q = p_verifications p"
    "eb_max_actions (p_budget q) = eb_max_actions (p_budget p)"
    "eb_max_elapsed_seconds (p_budget q) = eb_max_elapsed_seconds (p_budget p)"
proof -
  obtain q where "stores rid q (w_db w')" "plan_contract q = plan_contract p"
    by (rule contract.loop_keeps [OF assms(1) [unfolded execute_planned_run_def] assms(2)])
  then show ?thesis by (auto simp: plan_contract_def intro: that)
qed

lemma plan_contract_kept_witness:
  "\<exists>w' q. execute_planned_run demo_env demo_worker ''r'' ''t'' demo_create (demo_world RRunning demo_done) = (Inr (), w')
    \<and> stores ''r'' q (w_db w') \<and> p_nodes q = p_nodes demo_done \<and> p_goal q = p_goal demo_done"
proof (rule demo_persisted)
  fix w' r' assume p: "persist_result demo_env ''r'' ''t'' demo_outcome (demo_world RRunning demo_done) = (Inr (), w')"
  show ?thesis
    by (rule plan_contract_kept [OF demo_resumed [OF p] demo_stores]) (use demo_resumed [OF p] in blast)
qed


text \<open>C2. Nothing is executed without the owner's approval: when every action of the stored plan waits
  for an approval gate that is not completed, and the latest approval of the run is not a granted
  one for exactly this goal, a whole execution of the plan (however many rounds it takes, replans
  included) does not call the executor once.\<close>

theorem unapproved_never_executes:
  assumes "execute_planned_run E W rid tid req w = (x, w')" "stores rid p (w_db w)"
    "state_for p g \<noteq> NsCompleted"
    "\<forall>n\<in>set (p_nodes p). pn_kind n = NkAction \<longrightarrow> g \<in> set (pn_depends_on n)"
    "\<not> (\<exists>a. latest_approval rid tid (w_db w) = Some a \<and> ap_status a = ApApproved
         \<and> ap_action_hash a = action_hash E (ac_goal req))"
  shows "w_calls w' = w_calls w"
  by (rule shut_loop [OF assms(1) [unfolded execute_planned_run_def] assms(2), of g])
    (use assms(3-5) in \<open>auto simp: shut_def gate_approved_def split: option.splits\<close>)

definition demo_gated :: plan where
  "demo_gated = plan_of_request (demo_request\<lparr>pr_approval_required := True\<rparr>) demo_truth"

lemma unapproved_never_executes_witness:
  "w_calls (snd (execute_planned_run demo_env demo_worker ''r'' ''t'' demo_create (demo_world RRunning demo_gated))) = 0"
proof -
  have g: "state_for demo_gated ''approval'' \<noteq> NsCompleted"
    "\<forall>n\<in>set (p_nodes demo_gated). pn_kind n = NkAction \<longrightarrow> ''approval'' \<in> set (pn_depends_on n)"
    "latest_approval ''r'' ''t'' (w_db (demo_world RRunning demo_gated)) = None"
    "w_calls (demo_world RRunning demo_gated) = 0" by code_simp+
  show ?thesis
    using unapproved_never_executes [OF surjective_pairing demo_stores g(1,2)] g(3,4) by simp
qed

text \<open>C6. What becomes of a result of a running run, for every outcome and summary, when the run and its
  task are RUNNING, their fields are inside the limits of the audit events and the stored request
  parses. A completed result whose summary is blank is refused: \<open>_persist_result\<close> raises
  \<open>TaskCompletionRequiresResult\<close> and the tables are as before. Any other result is recorded: the
  run holds the status of the (closed) outcome, the redacted result document, no lease and the
  notification its chat asks for, the task holds the same outcome and the summary (its old one
  when the new one is blank), and no plan is touched.\<close>

theorem result_recorded:
  assumes "find_run rid w = Some r" "r_status r = RRunning" "run_fits E r"
    "find_task tid w = Some t" "t_status t = TRunning" "task_fits t"
    "e_loads E (r_request_json r) = Some j" "async_create_of_json (e_codecs E) j = Inr req"
    "c = closed_result (ac_governed_coding req \<noteq> None) result"
  shows "if or_outcome c = OCompleted \<and> py_strip (or_summary c) = []
    then \<exists>w'. persist_result E rid tid result w = (Inl TaskCompletionRequiresResult, w') \<and> w_db w' = w_db w
    else \<exists>w' r' t'. persist_result E rid tid result w = (Inr (), w')
    \<and> find_run rid w' = Some r' \<and> r_status r' = outcome_run_status (or_outcome c)
    \<and> r_result_json r' = Some (e_redact_text E (result_text E c)) \<and> r_lease_owner r' = None
    \<and> r_notification_status r' = (if truthy (r_source_chat_id r) then NPending else NNotRequired)
    \<and> find_task tid w' = Some t' \<and> t_status t' = outcome_task_status (or_outcome c)
    \<and> t_result_summary t' = (if py_strip (or_summary c) = [] then t_result_summary t else Some (py_strip (or_summary c)))
    \<and> db_workflows (w_db w') = db_workflows (w_db w)"
proof (cases "or_outcome c = OCompleted \<and> py_strip (or_summary c) = []")
  case True
  with persist_result_refused [OF assms] show ?thesis by simp
next
  case False
  then have "or_outcome c = OCompleted \<Longrightarrow> py_strip (or_summary c) \<noteq> []" by blast
  from persist_result_returns [OF assms this] False show ?thesis by (simp only: if_False) blast
qed

lemma result_recorded_witness:
  "\<exists>w' r'. persist_result demo_env ''r'' ''t'' demo_outcome (demo_world RRunning demo_done) = (Inr (), w')
    \<and> find_run ''r'' w' = Some r' \<and> r_status r' = RCompleted"
proof -
  have c: "demo_outcome = closed_result (ac_governed_coding (demo_create\<lparr>ac_idempotency_key := None\<rparr>) \<noteq> None) demo_outcome"
    "py_strip (or_summary demo_outcome) \<noteq> []" "or_outcome demo_outcome = OCompleted"
    "t_status demo_task = TRunning" "r_status (demo_run\<lparr>r_status := RRunning\<rparr>) = RRunning"
    by code_simp+
  have "\<not> (or_outcome demo_outcome = OCompleted \<and> py_strip (or_summary demo_outcome) = [])" using c(2) by simp
  from result_recorded [OF demo_find(1) c(5) demo_fits(1) demo_find(2) c(4) demo_fits(2) demo_request c(1)] this
  show ?thesis by (simp only: if_False) (metis c(3) outcome_run_status.simps(1))
qed

text \<open>C7. A governed run fails closed: if persisting a result completes a run whose request carries a
  governed coding contract, the result said \<open>completed\<close> and carries a governance result that is
  allowed and verified or approved.\<close>

theorem governed_completion_verified:
  assumes "persist_result E rid tid result w = (Inr u, w')" "find_run rid w = Some r" "r_status r = RRunning"
    "e_loads E (r_request_json r) = Some j" "async_create_of_json (e_codecs E) j = Inr req"
    "ac_governed_coding req \<noteq> None" "find_run rid w' = Some r'" "r_status r' = RCompleted"
  shows "or_outcome result = OCompleted \<and> (\<exists>g. or_governance result = Some g \<and> gr_decision g = GAllow
    \<and> gr_status g \<in> {GVerified, GApproved})"
proof -
  from assms(3) have "r_status r \<noteq> RCancelled" by simp
  with assms(1,2) obtain req' r1 where
    "parse_request E r (w\<lparr>w_ticks := Suc (w_ticks w)\<rparr>) = (Inr req', w\<lparr>w_ticks := Suc (w_ticks w)\<rparr>)"
    "find_run rid w' = Some r1"
    "r_status r1 = outcome_run_status (or_outcome (closed_result (ac_governed_coding req' \<noteq> None) result))"
    by (rule persist_result_Inr)
  with assms(4-8) have "or_outcome (closed_result True result) = OCompleted"
    by (cases "or_outcome (closed_result True result)") (simp_all add: parse_request_run [OF assms(4,5)])
  then show ?thesis
    by (auto simp: closed_result_def governance_valid_def governance_ok_def split: if_splits option.splits)
qed

text \<open>The demo system with a governed request.\<close>

definition governed_body :: "(string \<times> json) list" where
  "governed_body = demo_body @ [(''governed_coding'', JObj [])]"

definition governed_env :: env where
  "governed_env = demo_env\<lparr>e_loads := \<lambda>s. if s = ''body'' then Some (JObj governed_body) else None\<rparr>"

definition governed_result :: oc_result where
  "governed_result = demo_result\<lparr>or_governance := Some \<lparr>gr_decision = GAllow, gr_status = GVerified,
     gr_reason = ''ok'', gr_checkpoint_id = None, gr_correlation_id = None, gr_files_changed = [],
     gr_commands_run = [], gr_tests = [], gr_production_write = False, gr_database_write = False,
     gr_service_restart = False\<rparr>\<rparr>"

lemma governed_completion_verified_witness:
  "\<exists>w'. persist_result governed_env ''r'' ''t'' governed_result (demo_world RRunning demo_done) = (Inr (), w')
    \<and> or_outcome governed_result = OCompleted"
proof -
  have g: "e_loads governed_env (r_request_json (demo_run\<lparr>r_status := RRunning\<rparr>)) = Some (JObj governed_body)"
    "async_create_of_json (e_codecs governed_env) (JObj governed_body)
      = Inr (demo_create\<lparr>ac_idempotency_key := None, ac_governed_coding := Some []\<rparr>)"
    "governed_result = closed_result (ac_governed_coding
      (demo_create\<lparr>ac_idempotency_key := None, ac_governed_coding := Some []\<rparr>) \<noteq> None) governed_result"
    "py_strip (or_summary governed_result) \<noteq> []" "or_outcome governed_result = OCompleted"
    "t_status demo_task = TRunning" "r_status (demo_run\<lparr>r_status := RRunning\<rparr>) = RRunning"
    "run_fits governed_env (demo_run\<lparr>r_status := RRunning\<rparr>)"
    "ac_governed_coding (demo_create\<lparr>ac_idempotency_key := None, ac_governed_coding := Some []\<rparr>) \<noteq> None"
    by code_simp+
  show ?thesis
  proof (rule persist_result_returns [OF demo_find(1) g(7,8) demo_find(2) g(6) demo_fits(2) g(1,2,3,4)])
    fix w' r'
    assume p: "persist_result governed_env ''r'' ''t'' governed_result (demo_world RRunning demo_done) = (Inr (), w')"
      and r: "find_run ''r'' w' = Some r'" "r_status r' = outcome_run_status (or_outcome governed_result)"
    have "r_status r' = RCompleted" using r(2) g(5) by simp
    from governed_completion_verified [OF p demo_find(1) g(7,1,2,9) r(1) this] p show ?thesis by blast
  qed
qed

text \<open>C8. A transport error of a running run is always settled: a retryable one without an uncertain side
  effect and with an attempt left puts the run into RETRY\_WAIT for 5 seconds after the first
  attempt and 30 after a later one, leaving the task alone; any other ends the run, BLOCKED when
  the side effect is uncertain and FAILED when it is not, with the error's code, and the task with
  it. The lease is given up either way.\<close>

theorem transport_error_settled:
  assumes "find_run rid w = Some r" "r_status r = RRunning" "run_fits E r"
    "find_task tid w = Some t" "t_status t = TRunning" "task_fits t"
  shows "\<exists>w' r' t'. handle_transport_error E rid tid e w = (Inr (), w') \<and> find_run rid w' = Some r'
    \<and> find_task tid w' = Some t' \<and> r_lease_owner r' = None \<and> r_attempt r' = r_attempt r
    \<and> r_last_error_code r' = Some (py_take 128 (te_code e))
    \<and> (if te_retryable e \<and> \<not> te_uncertain_side_effect e \<and> r_attempt r < r_max_attempts r
       then r_status r' = RRetryWait \<and> t' = t
         \<and> r_run_after r' = to_utc (e_clock E (w_ticks w)) + seconds (if r_attempt r = 1 then 5 else 30)
       else r_status r' = (if te_uncertain_side_effect e then RBlocked else RFailed)
         \<and> t_status t' = (if te_uncertain_side_effect e then TBlocked else TFailed))"
proof -
  define now where "now = to_utc (e_clock E (w_ticks w))"
  let ?w = "w\<lparr>w_ticks := Suc (w_ticks w)\<rparr>"
  have f: "find_run rid ?w = Some r" "find_task tid ?w = Some t" "r_id r = rid"
    using assms(1,4) by (simp_all add: find_defs find_run_id)
  have "nowM E w = (Inr now, ?w)" "run_get rid ?w = (Inr r, ?w)"
    using f(1) by (simp_all add: nowM_def now_def run_get_def require_run_run)
  note start = bindM_ok [where m = "nowM E" and w = w, OF this(1)] bindM_ok [where m = "run_get rid" and w = ?w, OF this(2)]
  show ?thesis
  proof (cases "retriable e r")
    case True
    have delay: "0 \<le> retry_delay (r_attempt r)" by (simp add: retry_delay_def)
    let ?retry = "schedule_retry E rid (utc_dt now) (retry_delay (r_attempt r)) (te_code e) (safe_error_message e)"
    obtain w' where w': "?retry ?w
        = (Inr (retry_row E (to_utc (utc_dt now)) (retry_delay (r_attempt r)) (te_code e) (safe_error_message e) r), w')"
      "wrote r (retry_row E (to_utc (utc_dt now)) (retry_delay (r_attempt r)) (te_code e) (safe_error_message e) r) ?w w'"
      by (rule schedule_retry_returns [OF f(1) assms(2) delay assms(3)])
    have "bindM ?retry (\<lambda>_. retM ()) ?w = (Inr (), w')" using w'(1) by (simp add: bindM_run retM_def)
    then have "handle_transport_error E rid tid e w = (Inr (), w')"
      using True assms(2)
      by (simp add: handle_transport_error_def sessionM_def start)
    with True w'(2) f show ?thesis
      by (auto simp: retriable_def wrote_find find_after_run retry_row_def retry_delay_def now_def)
  next
    case False
    let ?st = "if te_uncertain_side_effect e then RBlocked else RFailed"
    let ?ts = "if te_uncertain_side_effect e then TBlocked else TFailed"
    define p where "p = \<lparr>tp_checkpoint = Some (e_model_text E (checkpoint_doc (e_codecs E)
              \<lparr>ck_stage = ''terminal'', ck_message = safe_error_message e, ck_external_run_id = None,
               ck_uncertain_side_effect = te_uncertain_side_effect e, ck_updated_at = now\<rparr>)),
           tp_result = None, tp_code = Some (te_code e), tp_message = Some (safe_error_message e),
           tp_external = None\<rparr>"
    have end_ok: "?st \<in> set (async_run_transitions (r_status r))" "?ts \<in> set (task_transitions (t_status t))"
      "?ts = TCompleted \<Longrightarrow> normalize_optional_text (Some (safe_error_message e)) \<noteq> None"
      using assms(2,5) by (auto split: if_splits)
    obtain w3 t' where w3: "bindM (run_transition E rid ?st (utc_dt now) p) (\<lambda>terminal.
        bindM (task_transition E tid ?ts (Some (safe_error_message e)) None) (\<lambda>_.
        mark_terminal_notification E rid (r_source_chat_id terminal) now)) ?w = (Inr (), w3)"
      "find_run rid w3 = Some (ended_row E ?st now p r)" "find_task tid w3 = Some t'" "t_status t' = ?ts"
      by (rule close_run_returns [OF f(1) end_ok(1) assms(3) f(2) end_ok(2) assms(6) end_ok(3)])
    have "handle_transport_error E rid tid e w = (Inr (), w3)"
      using False assms(2) w3(1)
      by (simp add: handle_transport_error_def sessionM_def start p_def split del: if_split)
    moreover have "r_status (ended_row E ?st now p r) = ?st" "r_lease_owner (ended_row E ?st now p r) = None"
      "r_attempt (ended_row E ?st now p r) = r_attempt r"
      "r_last_error_code (ended_row E ?st now p r) = Some (py_take 128 (te_code e))"
      by (simp_all add: ended_row_def notified_row_def moved_row_def p_def)
    moreover have "\<not> (te_retryable e \<and> \<not> te_uncertain_side_effect e \<and> r_attempt r < r_max_attempts r)"
      using False by (simp add: retriable_def)
    ultimately show ?thesis using w3(2-4) by (simp only: if_False simp_thms) blast
  qed
qed

definition demo_timeout :: transport_error where
  "demo_timeout = \<lparr>te_code = ''timeout'', te_message = ''late'', te_retryable = True, te_uncertain_side_effect = False,
     te_status_code = None\<rparr>"

lemma transport_error_settled_witness:
  "\<exists>w' r'. handle_transport_error demo_env ''r'' ''t'' demo_timeout (demo_world RRunning demo_done) = (Inr (), w')
    \<and> find_run ''r'' w' = Some r' \<and> r_status r' = RRetryWait \<and> r_run_after r' = 1000 + seconds 5"
proof -
  have s: "r_status (demo_run\<lparr>r_status := RRunning\<rparr>) = RRunning" "t_status demo_task = TRunning"
    "te_retryable demo_timeout" "\<not> te_uncertain_side_effect demo_timeout"
    "r_attempt (demo_run\<lparr>r_status := RRunning\<rparr>) = 1" "r_max_attempts (demo_run\<lparr>r_status := RRunning\<rparr>) = 3"
    "to_utc (e_clock demo_env (w_ticks (demo_world RRunning demo_done))) = 1000" by code_simp+
  from transport_error_settled [OF demo_find(1) s(1) demo_fits(1) demo_find(2) s(2) demo_fits(2), of demo_timeout demo_done]
  show ?thesis unfolding s(5-7) using s(3,4) by auto
qed

text \<open>C9. A node that was left running is not run by the round that finds it: whether the round returns
  or raises, none of the requests it sends to the executor is for a node whose stored state is
  RUNNING (a ready node beside it may run). When the plan has no ready node the round, if it
  returns, sends nothing: it marks the first RUNNING node BLOCKED for its uncertain side effect,
  judges the plan blocked, blocks the run and ends the loop.\<close>

theorem running_node_blocked:
  assumes "stores rid p (w_db w)" "plan_validate p = Inr p" "state_for p i = NsRunning"
    "find_run rid w = Some r" "r_status r \<noteq> RCancelled" "planned_step E W rid tid req w = (x, w')"
  shows "(\<exists>es. w_exec_log w' = w_exec_log w @ es \<and> (\<forall>y\<in>set es. xr_plan_node_id y \<noteq> Some i))
    \<and> (ready_nodes p = [] \<and> x = Inr again \<longrightarrow>
        \<not> again \<and> w_calls w' = w_calls w \<and> w_exec_log w' = w_exec_log w
      \<and> (\<exists>r'. find_run rid w' = Some r' \<and> r_status r' = RBlocked)
      \<and> (\<exists>q m j. stores rid q (w_db w') \<and> running_execution p = Some m \<and> ne_state m = NsRunning
          \<and> state_for q (ne_node_id m) = NsBlocked \<and> p_judgement q = Some j \<and> oj_disposition j = DBlocked))"
proof
  from assms(1,2) have load: "sessionM (plan_load rid) w = (Inr (Some p), w)"
    by (auto simp: stores_def sessionM_Inr plan_load_def run_simps find_workflow_def)
  show "\<exists>es. w_exec_log w' = w_exec_log w @ es \<and> (\<forall>y\<in>set es. xr_plan_node_id y \<noteq> Some i)"
    by (rule step_sends [OF load assms(6)])
      (use assms(3) in \<open>fastforce simp: requests_of_def ready_nodes_def node_ready_def\<close>)
  show "ready_nodes p = [] \<and> x = Inr again \<longrightarrow>
        \<not> again \<and> w_calls w' = w_calls w \<and> w_exec_log w' = w_exec_log w
      \<and> (\<exists>r'. find_run rid w' = Some r' \<and> r_status r' = RBlocked)
      \<and> (\<exists>q m j. stores rid q (w_db w') \<and> running_execution p = Some m \<and> ne_state m = NsRunning
          \<and> state_for q (ne_node_id m) = NsBlocked \<and> p_judgement q = Some j \<and> oj_disposition j = DBlocked)"
  proof (rule impI, elim conjE)
    assume none: "ready_nodes p = []" and x: "x = Inr again"
    obtain m where m: "running_execution p = Some m" "ne_state m = NsRunning"
      by (rule running_found [OF assms(3)])
    from assms(6) have u: "mark_uncertain_side_effect E rid tid (ne_node_id m) w = (Inr (), w')" and "\<not> again"
      unfolding planned_step_loaded [OF load] x by (auto simp: none no_ready_node_def m(1) elim!: runE)
    let ?q = "(fail_node p (ne_node_id m) NsBlocked (Some ''uncertain_side_effect''))
             \<lparr>p_judgement := Some (blocked_judgement ''uncertain_side_effect'' uncertain_reason)\<rparr>"
    have "p_executions ?q = p_executions (fail_node p (ne_node_id m) NsBlocked (Some ''uncertain_side_effect''))" by simp
    from state_for_cong [OF this] have "state_for ?q (ne_node_id m) = NsBlocked" by (simp only: updated_states(2) refl if_True)
    moreover have "p_judgement ?q = Some (blocked_judgement ''uncertain_side_effect'' uncertain_reason)"
      "oj_disposition (blocked_judgement ''uncertain_side_effect'' uncertain_reason) = DBlocked"
      by (simp_all add: blocked_judgement_def judgement_def)
    moreover note uncertain_Inr [OF u assms(1,4)]
    moreover have "w_calls w' = w_calls w" "w_exec_log w' = w_exec_log w" using quietD [OF hush_gates(6) u] by simp_all
    ultimately show "\<not> again \<and> w_calls w' = w_calls w \<and> w_exec_log w' = w_exec_log w
      \<and> (\<exists>r'. find_run rid w' = Some r' \<and> r_status r' = RBlocked)
      \<and> (\<exists>q m j. stores rid q (w_db w') \<and> running_execution p = Some m \<and> ne_state m = NsRunning
          \<and> state_for q (ne_node_id m) = NsBlocked \<and> p_judgement q = Some j \<and> oj_disposition j = DBlocked)"
      using \<open>\<not> again\<close> m assms(5) by blast
  qed
qed

lemma demo_save:
  "p_status q \<noteq> PlBlocked \<Longrightarrow> \<exists>row. plan_save ''r'' ''t'' q (demo_world st p) = (Inr row, demo_world st q)"
  by (simp add: plan_save_def run_simps put_workflow_def put_runs find_workflow_def demo_world_def demo_workflow_def
      plan_row_status_def put_row_def update_rows_def Let_def)

definition demo_interrupted :: plan where
  "demo_interrupted = set_node_state demo_plan ''execute'' NsRunning"

lemma demo_blocked:
  "\<exists>w'. block_planned_run demo_env ''r'' ''t'' ''uncertain_side_effect'' uncertain_reason (demo_world RRunning p) = (Inr (), w')"
proof -
  let ?o = "oc_result_of OBlocked uncertain_reason (Some ''uncertain_side_effect'')"
  have c: "?o = closed_result (ac_governed_coding (demo_create\<lparr>ac_idempotency_key := None\<rparr>) \<noteq> None) ?o"
    "py_strip (or_summary ?o) \<noteq> []" "t_status demo_task = TRunning"
    "r_status (demo_run\<lparr>r_status := RRunning\<rparr>) = RRunning" by code_simp+
  show ?thesis unfolding block_planned_run_def
    by (rule persist_result_returns [OF demo_find(1) c(4) demo_fits(1) demo_find(2) c(3) demo_fits(2)
          demo_request c(1,2)]) blast
qed

lemma running_node_blocked_witness:
  "\<exists>w' r'. planned_step demo_env demo_worker ''r'' ''t'' demo_create (demo_world RRunning demo_interrupted) = (Inr False, w')
    \<and> w_calls w' = 0 \<and> find_run ''r'' w' = Some r' \<and> r_status r' = RBlocked"
proof -
  let ?q = "(fail_node demo_interrupted ''execute'' NsBlocked (Some ''uncertain_side_effect''))
           \<lparr>p_judgement := Some (blocked_judgement ''uncertain_side_effect'' uncertain_reason)\<rparr>"
  have i: "plan_validate demo_interrupted = Inr demo_interrupted" "ready_nodes demo_interrupted = []"
    "running_execution demo_interrupted = Some (node_execution demo_interrupted ''execute'')"
    "ne_node_id (node_execution demo_interrupted ''execute'') = ''execute''"
    "state_for demo_interrupted ''execute'' = NsRunning" "p_status ?q \<noteq> PlBlocked"
    "r_status (demo_run\<lparr>r_status := RRunning\<rparr>) \<noteq> RCancelled" "w_calls (demo_world RRunning demo_interrupted) = 0"
    by code_simp+
  from i(1) have load: "plan_load ''r'' (demo_world RRunning demo_interrupted) = (Inr (Some demo_interrupted), demo_world RRunning demo_interrupted)"
    by (simp add: plan_load_def run_simps find_workflow_def demo_world_def demo_workflow_def)
  from demo_save [OF i(6), of RRunning demo_interrupted] obtain row where
    save: "plan_save ''r'' ''t'' ?q (demo_world RRunning demo_interrupted) = (Inr row, demo_world RRunning ?q)" ..
  from demo_blocked obtain w' where
    block: "block_planned_run demo_env ''r'' ''t'' ''uncertain_side_effect'' uncertain_reason (demo_world RRunning ?q) = (Inr (), w')" ..
  have "planned_step demo_env demo_worker ''r'' ''t'' demo_create (demo_world RRunning demo_interrupted) = (Inr False, w')"
    using planned_step_loaded [of "''r''" "demo_world RRunning demo_interrupted" demo_interrupted] load save block i(2-4)
    by (simp add: sessionM_def bindM_run no_ready_node_def mark_uncertain_side_effect_def require_plan_def retM_def)
  with running_node_blocked [OF demo_stores i(1,5) demo_find(1) i(7) this, of False] i(2,8) show ?thesis by auto
qed

end
