(* ===== verification/QueueProperties.thy ===== *)
theory QueueProperties
  imports System
begin

text \<open>
  What the queue of runs guarantees: which run is claimed, that two workers never share one,
  which status changes happen, and what recovery and notification do.
\<close>

text \<open>C17. \<open>claim_next\<close> hands out the best claimable run or none exists: the claimed run was waiting, due
  and without a live lease, its task exists, and no other such run ranks before it (critical
  tasks, then overdue ones, then priority, deadline, age); it is CLAIMED for this worker until
  the lease runs out, with one attempt more, and every other run is as it was.\<close>

theorem claim_next_best:
  assumes "claim_next E wid now ls w = (Inr x, w')" "runs_ok (w_db w)"
  shows "case x of
      None \<Rightarrow> w' = w \<and> (\<forall>r\<in>set (db_runs (w_db w)). claimable (to_utc now) r \<longrightarrow>
                find_row t_id (r_task_id r) (db_tasks (w_db w)) = None)
    | Some r' \<Rightarrow> (\<exists>r t. find_run (r_id r) w = Some r \<and> claimable (to_utc now) r
          \<and> find_row t_id (r_task_id r) (db_tasks (w_db w)) = Some t
          \<and> (\<forall>s\<in>set (db_runs (w_db w)). \<forall>u. claimable (to_utc now) s
               \<and> find_row t_id (r_task_id s) (db_tasks (w_db w)) = Some u
               \<longrightarrow> claim_rank (to_utc now) (r, t) \<le> claim_rank (to_utc now) (s, u))
          \<and> r' = r\<lparr>r_status := RClaimed, r_lease_owner := Some wid,
                r_lease_expires_at := Some (to_utc now + seconds ls), r_attempt := r_attempt r + 1,
                r_version := r_version r + 1, r_updated_at := to_utc now\<rparr>
          \<and> (\<forall>i. find_run i w' = (if i = r_id r then Some r' else find_run i w)))"
proof (cases x)
  case None
  from assms(1) None show ?thesis
    by (cases rule: claim_next_Inr) (auto simp: claim_candidate_None)
next
  case (Some r')
  with assms obtain r where r: "claim_candidate (to_utc now) (w_db w) = Some r"
    "r' = claimed_row wid (to_utc now) (to_utc now + seconds ls) r" "wrote r r' w w'"
    by (auto elim: claim_next_wrote)
  from r(1) obtain t where t: "claimable (to_utc now) r" "find_row t_id (r_task_id r) (db_tasks (w_db w)) = Some t"
    "\<And>s u. s \<in> set (db_runs (w_db w)) \<Longrightarrow> claimable (to_utc now) s \<Longrightarrow>
       find_row t_id (r_task_id s) (db_tasks (w_db w)) = Some u \<Longrightarrow>
       claim_rank (to_utc now) (r, t) \<le> claim_rank (to_utc now) (s, u)"
    by (rule claim_candidate_Some) blast
  have "find_run (r_id r) w = Some r" using r(3) by (simp add: wrote_def)
  with t r(2) wrote_find [OF r(3)] Some show ?thesis
    by (auto simp: claimed_row_def intro!: exI [of _ r] exI [of _ t])
qed

lemma demo_runs_ok: "runs_ok (w_db (demo_world RPending demo_plan))"
  by code_simp

lemma claim_next_best_witness:
  "\<exists>r'. fst (claim_next demo_env ''w2'' (Naive 5000) 60 (demo_world RPending demo_plan)) = Inr (Some r')
    \<and> r_lease_owner r' = Some ''w2''"
proof -
  have "map_sum (\<lambda>_. ()) (\<lambda>x. x \<noteq> None) (fst (claim_next demo_env ''w2'' (Naive 5000) 60 (demo_world RPending demo_plan)))
      = Inr True" by code_simp
  then obtain r' w' where c: "claim_next demo_env ''w2'' (Naive 5000) 60 (demo_world RPending demo_plan) = (Inr (Some r'), w')"
    by (cases "claim_next demo_env ''w2'' (Naive 5000) 60 (demo_world RPending demo_plan)") (auto simp: map_sum_def split: sum.splits)
  from claim_next_best [OF c demo_runs_ok] show ?thesis by (auto simp: c)
qed

text \<open>Two claims never hand out the same run: whatever the two workers, clocks and lease lengths, the
  run of the second claim is another one.\<close>

theorem two_claims_two_runs:
  assumes "claim_next E wid now ls w = (Inr (Some r1), w1)" "runs_ok (w_db w)"
    "claim_next E wid' now' ls' w1 = (Inr (Some r2), w2)"
  shows "r_id r1 \<noteq> r_id r2"
  by (rule claims_disjoint [OF assms])

definition demo_two :: world where
  "demo_two = (demo_world RPending demo_plan)\<lparr>w_db := (w_db (demo_world RPending demo_plan))
     \<lparr>db_tasks := [demo_task, demo_task\<lparr>t_id := ''t2''\<rparr>],
      db_runs := [demo_run\<lparr>r_status := RPending\<rparr>,
        demo_run\<lparr>r_id := ''r2'', r_task_id := ''t2'', r_idempotency_key := ''key2'', r_status := RPending\<rparr>]\<rparr>\<rparr>"

lemma demo_two_ok: "runs_ok (w_db demo_two)"
  by code_simp

lemma two_claims_two_runs_witness:
  "\<exists>r1 w1 r2 w2. claim_next demo_env ''w'' (Naive 5000) 60 demo_two = (Inr (Some r1), w1)
    \<and> claim_next demo_env ''w2'' (Naive 6000) 60 w1 = (Inr (Some r2), w2) \<and> r_id r1 \<noteq> r_id r2"
proof -
  have "(case claim_next demo_env ''w'' (Naive 5000) 60 demo_two of
      (Inr (Some r1), w1) \<Rightarrow> (case fst (claim_next demo_env ''w2'' (Naive 6000) 60 w1) of Inr (Some r2) \<Rightarrow> True | _ \<Rightarrow> False)
    | _ \<Rightarrow> False)" by code_simp
  then obtain r1 w1 r2 w2 where c: "claim_next demo_env ''w'' (Naive 5000) 60 demo_two = (Inr (Some r1), w1)"
    "claim_next demo_env ''w2'' (Naive 6000) 60 w1 = (Inr (Some r2), w2)"
    by (auto split: prod.splits sum.splits option.splits) (metis prod.collapse)
  from two_claims_two_runs [OF c(1) demo_two_ok c(2)] c show ?thesis by blast
qed

text \<open>A status change of a run is exactly the table's: from a known run, a change in
  ASYNC\_RUN\_TRANSITIONS writes the new row (a terminal status drops the lease, texts are redacted
  and cut to their columns) and no other row, and any other change is refused with the two
  statuses named and leaves the world as it was.\<close>

theorem run_transition_exact:
  assumes "find_run i w = Some r" "run_fits E r"
  shows "if target \<in> set (async_run_transitions (r_status r))
    then \<exists>w' r'. run_transition E i target now p w = (Inr r', w') \<and> r_status r' = target
      \<and> r_version r' = r_version r + 1 \<and> r_attempt r' = r_attempt r
      \<and> (run_terminal target \<longrightarrow> r_lease_owner r' = None \<and> r_lease_expires_at r' = None)
      \<and> (tp_result p = None \<longrightarrow> r_result_json r' = r_result_json r)
      \<and> (\<forall>c. tp_result p = Some c \<longrightarrow> r_result_json r' = Some (e_redact_text E c))
      \<and> (\<forall>m. tp_message p = Some m \<longrightarrow> r_last_error_message r' = Some (py_take 4000 (e_redact_text E m)))
      \<and> (\<forall>k. find_run k w' = (if k = i then Some r' else find_run k w)) \<and> db_tasks (w_db w') = db_tasks (w_db w)
    else run_transition E i target now p w = (Inl (ValueError (''Invalid async run transition: ''
      @ run_status_value (r_status r) @ '' -> '' @ run_status_value target)), w)"
proof (cases "target \<in> set (async_run_transitions (r_status r))")
  case True
  then obtain w' where w': "run_transition E i target now p w = (Inr (moved_row E target (to_utc now) p r), w')"
    "wrote r (moved_row E target (to_utc now) p r) w w'"
    by (rule run_transition_returns [OF assms(1) _ assms(2)])
  have "r_id r = i" using assms(1) by (rule find_run_id)
  with w' wrote_find [OF w'(2)] True show ?thesis
    by (auto simp: wrote_def moved_row_def intro!: exI [of _ w'])
next
  case False
  then show ?thesis
    using assms(1) by (simp add: run_transition_def bindM_run require_run_run prim_runs bad_run_transition_def)
qed

lemma run_transition_exact_witness:
  "run_transition demo_env ''r'' RCompleted (Naive 7) no_patch (demo_world RRunning demo_plan) =
    (Inl (ValueError (''Invalid async run transition: '' @ ''running'' @ '' -> '' @ ''completed'')), demo_world RRunning demo_plan)"
proof -
  have f: "find_run ''r'' (demo_world RRunning demo_plan) = Some (demo_run\<lparr>r_status := RRunning\<rparr>)"
    "run_fits demo_env (demo_run\<lparr>r_status := RRunning\<rparr>)"
    by (simp add: find_run_def demo_world_def demo_run_def) code_simp
  from run_transition_exact [OF f, of RCompleted "Naive 7" no_patch] show ?thesis by simp
qed

end
