(* ===== verification/RecoveryProperties.thy ===== *)
theory RecoveryProperties
  imports System
begin

text \<open>
  What recovery does at start-up to runs whose worker died, and what the notification worker does
  with a finished run.
\<close>

section \<open>Recovery\<close>





















section \<open>Notification\<close>

lemma claim_notification_Inr:
  assumes "claim_next_notification now k w = (Inr (Some s), w')" "runs_ok (w_db w)"
  obtains r where "notifiable k r" "s = attempted_row (to_utc now) r" "wrote r s w w'"
proof -
  from assms(1) obtain r where r: "notification_candidate k (w_db w) = Some r" "s = attempted_row (to_utc now) r"
    "w_db w' = (w_db w)\<lparr>db_runs := put_row r_id s (db_runs (w_db w))\<rparr>"
    unfolding claim_next_notification_def Let_def
    by (elim runE) (auto split: option.splits elim!: runE put_run_runE)
  then have "r \<in> set (db_runs (w_db w))" "notifiable k r"
    unfolding notification_candidate_def by (auto dest: first_by_mem)
  with r wrote_mem [OF assms(2), of r s w'] that show ?thesis by simp
qed

text \<open>How the outcome of a delivery is recorded.\<close>

lemma delivery_recorded:
  assumes "mark_notification E i st now False code msg w = (Inr x, w')" "find_run i w = Some r"
  shows "find_run i w' = Some (notified_row st False (to_utc now) r) \<and> w_calls w' = w_calls w \<and> w_sent_log w' = w_sent_log w"
proof -
  have "quiet (mark_notification E i st now False code msg)" by (rule hush)
  with assms show ?thesis using marked_run(1) [OF assms] by (auto dest: quietD)
qed

text \<open>C19. Delivering a result: the notifier is called once, for a finished run that came from a chat and
  whose notification was pending after fewer than 5 attempts; the attempt is counted before the
  call. A delivered notification is SENT; after a transport error it is pending again only when
  the error may be retried and the 5 attempts are not used up, and FAILED otherwise. The run's
  status is not touched.\<close>

theorem notification_delivery:
  assumes "notification_run_once E w = (Inr True, w')" "runs_ok (w_db w)"
  obtains r r' sent where "find_run (r_id r) w = Some r" "r_notification_status r = NPending"
    "run_terminal (r_status r)" "r_source_chat_id r \<noteq> None" "r_notification_attempts r < 5"
    "find_run (r_id r) w' = Some r'" "r_status r' = r_status r"
    "r_notification_attempts r' = r_notification_attempts r + 1"
    "w_calls w' = Suc (w_calls w)" "w_sent_log w' = w_sent_log w @ [sent]" "r_id sent = r_id r"
    "case e_notifier E (w_calls w) sent of
       Inr _ \<Rightarrow> r_notification_status r' = NSent
     | Inl (TransportError e) \<Rightarrow> r_notification_status r' =
         (if te_retryable e \<and> r_notification_attempts r' < 5 then NPending else NFailed)
     | Inl e \<Rightarrow> False"
proof -
  let ?w = "w\<lparr>w_ticks := Suc (w_ticks w)\<rparr>"
  from assms(1) obtain s w1 where
    c: "claim_next_notification (utc_dt (to_utc (e_clock E (w_ticks w)))) 5 ?w = (Inr (Some s), w1)"
    and f: "bindM (send_finalM E s) (\<lambda>answer. case answer of
           Inl (TransportError e) \<Rightarrow>
             bindM (sessionM
              (bindM (run_get (r_id s)) (\<lambda>cur.
               bindM (nowM E) (\<lambda>later.
               bindM (mark_notification E (r_id s)
                 (if te_retryable e \<and> r_notification_attempts cur < 5 then NPending else NFailed)
                 (utc_dt later) False (Some (te_code e)) (Some (te_message e))) (\<lambda>_. retM ()))))) (\<lambda>_.
             retM True)
         | Inl e \<Rightarrow> raiseM e
         | Inr _ \<Rightarrow>
             bindM (sessionM
              (bindM (nowM E) (\<lambda>later.
               bindM (mark_notification E (r_id s) NSent (utc_dt later) False None None) (\<lambda>_. retM ())))) (\<lambda>_.
             retM True)) w1 = (Inr True, w')"
    unfolding notification_run_once_def max_notification_attempts_def
    by (elim runE) (auto simp: sessionM_Inr split: option.splits elim!: runE)
  have "quiet (claim_next_notification (utc_dt (to_utc (e_clock E (w_ticks w)))) 5)" by (rule hush)
  then have q: "w_calls w1 = w_calls w" "w_sent_log w1 = w_sent_log w" using c by (auto dest: quietD)
  from c obtain r where r: "notifiable 5 r" "s = attempted_row (to_utc (e_clock E (w_ticks w))) r" "wrote r s ?w w1"
    by (rule claim_notification_Inr) (use assms(2) in simp_all)
  then have s: "find_run (r_id s) w1 = Some s" "find_run (r_id r) w = Some r" "r_id s = r_id r"
    using wrote_find [OF r(3)] by (auto simp: wrote_def find_run_def)
  let ?a = "e_notifier E (w_calls w1) s"
  let ?w2 = "w1\<lparr>w_calls := Suc (w_calls w1), w_sent_log := w_sent_log w1 @ [s]\<rparr>"
  have found: "find_run (r_id s) (?w2\<lparr>w_ticks := k\<rparr>) = Some s" "find_run (r_id s) ?w2 = Some s" for k
    using s(1) by (simp_all add: find_run_def)
  have "\<exists>st later. find_run (r_id s) w' = Some (notified_row st False later s) \<and> w_calls w' = Suc (w_calls w)
      \<and> w_sent_log w' = w_sent_log w @ [s] \<and> (case ?a of Inr _ \<Rightarrow> st = NSent
        | Inl (TransportError e) \<Rightarrow> st = (if te_retryable e \<and> r_notification_attempts s < 5 then NPending else NFailed)
        | Inl e \<Rightarrow> False)"
  proof (cases ?a)
    case (Inr u)
    with f obtain x k later where "mark_notification E (r_id s) NSent (utc_dt later) False None None (?w2\<lparr>w_ticks := k\<rparr>) = (Inr x, w')"
      by (auto simp: send_finalM_def sessionM_Inr elim!: runE)
    from delivery_recorded [OF this found(1)] Inr q show ?thesis by auto
  next
    case (Inl er)
    with f obtain e where e: "er = TransportError e"
      by (cases er) (auto simp: send_finalM_def elim!: runE)
    with f Inl found(2) obtain x k later code msg where "mark_notification E (r_id s)
        (if te_retryable e \<and> r_notification_attempts s < 5 then NPending else NFailed)
        (utc_dt later) False code msg (?w2\<lparr>w_ticks := k\<rparr>) = (Inr x, w')"
      by (auto simp: send_finalM_def sessionM_Inr elim!: runE run_get_runE)
    from delivery_recorded [OF this found(1)] Inl e q show ?thesis by auto
  qed
  then obtain st later where n: "find_run (r_id s) w' = Some (notified_row st False later s)" "w_calls w' = Suc (w_calls w)"
    "w_sent_log w' = w_sent_log w @ [s]" "case ?a of Inr _ \<Rightarrow> st = NSent
        | Inl (TransportError e) \<Rightarrow> st = (if te_retryable e \<and> r_notification_attempts s < 5 then NPending else NFailed)
        | Inl e \<Rightarrow> False" by blast
  have fields: "r_notification_status (notified_row st False later s) = st"
    "r_notification_attempts (notified_row st False later s) = r_notification_attempts s" by (simp_all add: notified_row_def)
  show ?thesis
  proof (rule that [of r "notified_row st False later s" s])
    show "find_run (r_id r) w' = Some (notified_row st False later s)" using n(1) s(3) by simp
    show "case e_notifier E (w_calls w) s of
       Inr _ \<Rightarrow> r_notification_status (notified_row st False later s) = NSent
     | Inl (TransportError e) \<Rightarrow> r_notification_status (notified_row st False later s) =
         (if te_retryable e \<and> r_notification_attempts (notified_row st False later s) < 5 then NPending else NFailed)
     | Inl e \<Rightarrow> False"
      using n(4) unfolding q(1) fields .
  qed (use r s n(2,3) in \<open>auto simp: notifiable_def notified_row_def attempted_row_def\<close>)
qed

text \<open>The demo run finished, with a chat that waits for its result.\<close>

definition demo_finished :: world where
  "demo_finished = (demo_world RCompleted demo_done)\<lparr>w_db := (w_db (demo_world RCompleted demo_done))\<lparr>db_runs :=
     [demo_run\<lparr>r_status := RCompleted, r_lease_owner := None, r_lease_expires_at := None,
        r_source_chat_id := Some ''c'', r_notification_status := NPending\<rparr>]\<rparr>\<rparr>"

lemma notification_delivery_witness:
  "\<exists>w' sent. notification_run_once demo_env demo_finished = (Inr True, w') \<and> w_sent_log w' = [sent] \<and> r_id sent = ''r''"
proof -
  have i: "fst (notification_run_once demo_env demo_finished) = Inr True" "runs_ok (w_db demo_finished)"
    "w_sent_log demo_finished = []" "\<forall>r\<in>set (db_runs (w_db demo_finished)). r_id r = ''r''" by code_simp+
  from i(1) obtain w' where r: "notification_run_once demo_env demo_finished = (Inr True, w')" by (metis prod.collapse)
  show ?thesis
    by (rule notification_delivery [OF r i(2)]) (use r i(3,4) in \<open>auto dest: find_run_mem\<close>)
qed

end
