(* ===== verification/DemoJson.thy ===== *)
theory DemoJson
  imports Demo
begin

text \<open>
  A text form of documents that can be read back, for a concrete system whose JSON library has
  the documented round trip: a tag, then length-free encodings closed by a full stop.
\<close>

fun enc_str :: "string \<Rightarrow> string" where
  "enc_str [] = ''.''"
| "enc_str (c # cs) = CHR ''c'' # c # enc_str cs"

fun enc :: "json \<Rightarrow> string" where
  "enc JNull = ''n''"
| "enc (JBool b) = (if b then ''t'' else ''f'')"
| "enc (JInt i) = (if i < 0 then CHR ''-'' else CHR ''+'') # enc_str (replicate (nat \<bar>i\<bar>) CHR ''1'')"
| "enc (JStr s) = CHR ''s'' # enc_str s"
| "enc (JList js) = CHR ''l'' # concat (map (\<lambda>j. CHR ''x'' # enc j) js) @ ''.''"
| "enc (JObj kvs) = CHR ''o'' # concat (map (\<lambda>(k, j). CHR ''k'' # enc_str k @ enc j) kvs) @ ''.''"

fun dec_str :: "string \<Rightarrow> (string \<times> string) option" where
  "dec_str [] = None"
| "dec_str (x # r) = (if x = CHR ''.'' then Some ([], r) else (case r of [] \<Rightarrow> None
     | c # r' \<Rightarrow> map_option (\<lambda>(s, t). (c # s, t)) (dec_str r')))"

text \<open>The parser, with as much fuel as there is text.\<close>

fun dec :: "nat \<Rightarrow> string \<Rightarrow> (json \<times> string) option"
and dec_list :: "nat \<Rightarrow> string \<Rightarrow> (json list \<times> string) option"
and dec_obj :: "nat \<Rightarrow> string \<Rightarrow> ((string \<times> json) list \<times> string) option" where
  "dec 0 s = None"
| "dec (Suc n) [] = None"
| "dec (Suc n) (x # r) =
     (if x = CHR ''n'' then Some (JNull, r) else if x = CHR ''t'' then Some (JBool True, r)
      else if x = CHR ''f'' then Some (JBool False, r)
      else if x = CHR ''-'' then map_option (\<lambda>(s, t). (JInt (- int (length s)), t)) (dec_str r)
      else if x = CHR ''+'' then map_option (\<lambda>(s, t). (JInt (int (length s)), t)) (dec_str r)
      else if x = CHR ''s'' then map_option (\<lambda>(s, t). (JStr s, t)) (dec_str r)
      else if x = CHR ''l'' then map_option (\<lambda>(js, t). (JList js, t)) (dec_list n r)
      else map_option (\<lambda>(kvs, t). (JObj kvs, t)) (dec_obj n r))"
| "dec_list 0 s = None"
| "dec_list (Suc n) [] = None"
| "dec_list (Suc n) (x # r) = (if x = CHR ''.'' then Some ([], r) else
     (case dec n r of None \<Rightarrow> None | Some (j, t) \<Rightarrow> map_option (\<lambda>(js, u). (j # js, u)) (dec_list n t)))"
| "dec_obj 0 s = None"
| "dec_obj (Suc n) [] = None"
| "dec_obj (Suc n) (x # r) = (if x = CHR ''.'' then Some ([], r) else
     (case dec_str r of None \<Rightarrow> None | Some (k, t) \<Rightarrow>
       (case dec n t of None \<Rightarrow> None | Some (j, u) \<Rightarrow> map_option (\<lambda>(kvs, v). ((k, j) # kvs, v)) (dec_obj n u))))"

lemma dec_str_enc [simp]: "dec_str (enc_str s @ r) = Some (s, r)"
  by (induction s) simp_all

lemma dec_list_enc:
  assumes "\<And>j n r. j \<in> set js \<Longrightarrow> length (enc j) \<le> n \<Longrightarrow> dec n (enc j @ r) = Some (j, r)"
    "length (concat (map (\<lambda>j. CHR ''x'' # enc j) js)) < n"
  shows "dec_list n (concat (map (\<lambda>j. CHR ''x'' # enc j) js) @ CHR ''.'' # r) = Some (js, r)"
  using assms
proof (induction js arbitrary: n)
  case Nil
  then show ?case by (cases n) simp_all
next
  case (Cons j js)
  then obtain m where "n = Suc m" by (cases n) simp_all
  with Cons show ?case by simp
qed

lemma dec_obj_enc:
  assumes "\<And>k j n r. (k, j) \<in> set kvs \<Longrightarrow> length (enc j) \<le> n \<Longrightarrow> dec n (enc j @ r) = Some (j, r)"
    "length (concat (map (\<lambda>(k, j). CHR ''k'' # enc_str k @ enc j) kvs)) < n"
  shows "dec_obj n (concat (map (\<lambda>(k, j). CHR ''k'' # enc_str k @ enc j) kvs) @ CHR ''.'' # r) = Some (kvs, r)"
  using assms
proof (induction kvs arbitrary: n)
  case Nil
  then show ?case by (cases n) simp_all
next
  case (Cons p kvs)
  obtain k j where p: "p = (k, j)" by (cases p)
  from Cons.prems(2) obtain m where m: "n = Suc m" by (cases n) simp_all
  let ?rest = "concat (map (\<lambda>(k, j). CHR ''k'' # enc_str k @ enc j) kvs)"
  have "dec m (enc j @ ?rest @ CHR ''.'' # r) = Some (j, ?rest @ CHR ''.'' # r)"
    by (rule Cons.prems(1) [of k]) (use Cons.prems(2) p m in simp_all)
  moreover have "dec_obj m (?rest @ CHR ''.'' # r) = Some (kvs, r)"
  proof (rule Cons.IH)
    show "dec n (enc j @ r) = Some (j, r)" if "(k, j) \<in> set kvs" "length (enc j) \<le> n" for k j n r
      by (rule Cons.prems(1) [of k]) (use that in simp_all)
  qed (use Cons.prems(2) p m in simp)
  ultimately show ?case using p m by simp
qed

lemma dec_enc: "length (enc j) \<le> n \<Longrightarrow> dec n (enc j @ r) = Some (j, r)"
proof (induction j arbitrary: n r)
  case JNull
  then show ?case by (cases n) simp_all
next
  case (JBool b)
  then show ?case by (cases n; cases b) simp_all
next
  case (JInt i)
  then show ?case by (cases n) simp_all
next
  case (JStr s)
  then show ?case by (cases n) simp_all
next
  case (JList js)
  from JList.prems obtain m where m: "n = Suc m" by (cases n) simp_all
  have "dec_list m (concat (map (\<lambda>j. CHR ''x'' # enc j) js) @ CHR ''.'' # r) = Some (js, r)"
    by (rule dec_list_enc) (use JList.IH JList.prems m in simp_all)
  with m show ?case by simp
next
  case (JObj kvs)
  from JObj.prems obtain m where m: "n = Suc m" by (cases n) simp_all
  have "dec_obj m (concat (map (\<lambda>(k, j). CHR ''k'' # enc_str k @ enc j) kvs) @ CHR ''.'' # r) = Some (kvs, r)"
  proof (rule dec_obj_enc)
    show "dec n (enc j @ r) = Some (j, r)" if "(k, j) \<in> set kvs" "length (enc j) \<le> n" for k j n r
      by (rule JObj.IH [OF that(1) _ that(2)]) simp
  qed (use JObj.prems m in simp)
  with m show ?case by simp
qed

definition demo_loads :: "string \<Rightarrow> json option" where
  "demo_loads s = (case dec (length s) s of Some (j, []) \<Rightarrow> Some j | _ \<Rightarrow> None)"

lemma demo_loads_enc: "demo_loads (enc j) = Some j"
  using dec_enc [of j "length (enc j)" "[]"] by (simp add: demo_loads_def)

end
