(* ===== verification/Regex.thy ===== *)
theory Regex
  imports Prelude
begin

text \<open>
  Python's \<open>re\<close> on sequences of characters. A pattern is a term of \<open>rx\<close>; \<open>rx_match\<close>
  gives all ways to match at a position, in the order in which the backtracking matcher tries
  them, each with the end position and the groups captured, so that its first element is the match
  Python finds and its set of ends decides \<open>fullmatch\<close>. \<open>search\<close>, \<open>finditer\<close>,
  \<open>sub\<close> and \<open>split\<close> are built on it as \<open>re\<close> builds them.

  What depends on the Unicode database is the record \<open>unicode\<close>, used outside ASCII only: the
  case folding of a character, its small letter, its compatibility decomposition without the
  combining characters, \<open>\w\<close> and \<open>\d\<close> (no white space is either), and the further characters that \<open>re.IGNORECASE\<close>
  identifies with a character.

  The patterns given to \<open>finditer\<close>, \<open>sub\<close> and \<open>split\<close> in the code match at least
  one character, and no optional repetition in them repeats an empty match.
\<close>

record unicode =
  u_fold :: "string \<Rightarrow> string"
  u_lower :: "string \<Rightarrow> string"
  u_base :: "string \<Rightarrow> string"
  u_word :: "string \<Rightarrow> bool"
  u_digit :: "string \<Rightarrow> bool"
  u_variants :: "string \<Rightarrow> string list"

definition byte :: "char \<Rightarrow> nat" where
  "byte c = of_char c"

definition ascii_in :: "nat \<Rightarrow> nat \<Rightarrow> string \<Rightarrow> bool" where
  "ascii_in lo hi ch = (case ch of [c] \<Rightarrow> lo \<le> byte c \<and> byte c \<le> hi | _ \<Rightarrow> False)"

definition beyond_ascii :: "string \<Rightarrow> bool" where
  "beyond_ascii ch \<longleftrightarrow> ch \<noteq> [] \<and> 192 \<le> byte (hd ch) \<and> \<not> is_ws ch"

definition is_digit :: "unicode \<Rightarrow> string \<Rightarrow> bool" where
  "is_digit U ch = (case ch of [c] \<Rightarrow> ascii_in 48 57 ch | _ \<Rightarrow> beyond_ascii ch \<and> u_digit U ch)"

definition is_word :: "unicode \<Rightarrow> string \<Rightarrow> bool" where
  "is_word U ch = (case ch of
      [c] \<Rightarrow> ascii_in 48 57 ch \<or> ascii_in 65 90 ch \<or> ascii_in 97 122 ch \<or> ch = ''_''
    | _ \<Rightarrow> beyond_ascii ch \<and> u_word U ch)"

text \<open>The items of a character class.\<close>

datatype cls = CChar string | CRange string string | CWord | CDigit | CSpace

text \<open>UTF-8 keeps the order of code points; a smaller code point is not longer.\<close>

fun in_cls :: "unicode \<Rightarrow> string \<Rightarrow> cls \<Rightarrow> bool" where
  "in_cls U ch (CChar c) = (ch = c)"
| "in_cls U ch (CRange a b) = (a \<le> ch \<and> ch \<le> b \<and> length ch \<le> length b)"
| "in_cls U ch CWord = is_word U ch"
| "in_cls U ch CDigit = is_digit U ch"
| "in_cls U ch CSpace = is_ws ch"

datatype rx =
    Lit string
  | Cls bool "cls list"
  | Seq "rx list"
  | Alt "rx list"
  | Rep bool nat "nat option" rx
  | Grp nat rx
  | Look bool rx
  | Behind bool "cls list"
  | Bnd
  | Bol
  | Eol
  | Bln
  | Eln
  | Eos

type_synonym caps = "(nat \<times> nat \<times> nat) list"

text \<open>The iterations of a repetition; an optional iteration that consumes nothing ends it.\<close>

fun rx_iter ::
  "(nat \<times> caps \<Rightarrow> (nat \<times> caps) list) \<Rightarrow> bool \<Rightarrow> nat \<Rightarrow> nat option \<Rightarrow> nat \<Rightarrow> nat \<times> caps \<Rightarrow> (nat \<times> caps) list" where
  "rx_iter f greedy lo hi 0 st = (if lo = 0 then [st] else [])"
| "rx_iter f greedy (Suc lo) hi (Suc k) st =
     concat (map (rx_iter f greedy lo (map_option (\<lambda>h. h - 1) hi) k) (f st))"
| "rx_iter f greedy 0 hi (Suc k) st =
     (let more = (if hi = Some 0 then []
                  else concat (map (\<lambda>st'. if fst st < fst st'
                         then rx_iter f greedy 0 (map_option (\<lambda>h. h - 1) hi) k st' else []) (f st)))
      in if greedy then more @ [st] else st # more)"

definition at_char :: "string list \<Rightarrow> nat \<Rightarrow> (string \<Rightarrow> bool) \<Rightarrow> bool" where
  "at_char cs i p \<longleftrightarrow> i < length cs \<and> p (cs ! i)"

definition before_char :: "string list \<Rightarrow> nat \<Rightarrow> (string \<Rightarrow> bool) \<Rightarrow> bool" where
  "before_char cs i p \<longleftrightarrow> 0 < i \<and> i \<le> length cs \<and> p (cs ! (i - 1))"

text \<open>The characters a text character stands for: itself, and its case variants under IGNORECASE.\<close>

definition swap_case :: "string \<Rightarrow> string" where
  "swap_case ch = (case ch of
      [c] \<Rightarrow> (if ascii_in 65 90 ch then [char_of (byte c + 32)]
              else if ascii_in 97 122 ch then [char_of (byte c - 32)] else ch)
    | _ \<Rightarrow> ch)"

definition stands_for :: "unicode \<Rightarrow> bool \<Rightarrow> string \<Rightarrow> string list" where
  "stands_for U ci ch = (if ci then ch # swap_case ch # u_variants U ch else [ch])"

definition cls_ok :: "unicode \<Rightarrow> bool \<Rightarrow> bool \<Rightarrow> cls list \<Rightarrow> string \<Rightarrow> bool" where
  "cls_ok U ci pos items ch \<longleftrightarrow> pos = list_ex (\<lambda>v. list_ex (in_cls U v) items) (stands_for U ci ch)"

function (sequential) rx_match :: "unicode \<Rightarrow> bool \<Rightarrow> string list \<Rightarrow> rx \<Rightarrow> nat \<times> caps \<Rightarrow> (nat \<times> caps) list"
  and rx_seq :: "unicode \<Rightarrow> bool \<Rightarrow> string list \<Rightarrow> rx list \<Rightarrow> nat \<times> caps \<Rightarrow> (nat \<times> caps) list"
  and rx_alt :: "unicode \<Rightarrow> bool \<Rightarrow> string list \<Rightarrow> rx list \<Rightarrow> nat \<times> caps \<Rightarrow> (nat \<times> caps) list" where
  "rx_match U ci cs (Lit c) (i, g) =
     (if at_char cs i (\<lambda>ch. list_ex (\<lambda>v. v = c) (stands_for U ci ch)) then [(i + 1, g)] else [])"
| "rx_match U ci cs (Cls pos items) (i, g) = (if at_char cs i (cls_ok U ci pos items) then [(i + 1, g)] else [])"
| "rx_match U ci cs (Seq rs) st = rx_seq U ci cs rs st"
| "rx_match U ci cs (Alt rs) st = rx_alt U ci cs rs st"
| "rx_match U ci cs (Rep greedy lo hi r) (i, g) =
     rx_iter (rx_match U ci cs r) greedy lo hi (lo + (length cs - i) + 1) (i, g)"
| "rx_match U ci cs (Grp n r) (i, g) = map (\<lambda>(j, g'). (j, (n, i, j) # g')) (rx_match U ci cs r (i, g))"
| "rx_match U ci cs (Look pos r) (i, g) = (if pos = (rx_match U ci cs r (i, g) \<noteq> []) then [(i, g)] else [])"
| "rx_match U ci cs (Behind pos items) (i, g) =
     (if pos = before_char cs i (cls_ok U ci True items) then [(i, g)] else [])"
| "rx_match U ci cs Bnd (i, g) =
     (if before_char cs i (is_word U) \<noteq> at_char cs i (is_word U) then [(i, g)] else [])"
| "rx_match U ci cs Bol (i, g) = (if i = 0 then [(i, g)] else [])"
| "rx_match U ci cs Eol (i, g) =
     (if i = length cs \<or> (i + 1 = length cs \<and> cs ! i = [CHR 0x0A]) then [(i, g)] else [])"
| "rx_match U ci cs Bln (i, g) = (if i = 0 \<or> cs ! (i - 1) = [CHR 0x0A] then [(i, g)] else [])"
| "rx_match U ci cs Eln (i, g) = (if i = length cs \<or> at_char cs i (\<lambda>ch. ch = [CHR 0x0A]) then [(i, g)] else [])"
| "rx_match U ci cs Eos (i, g) = (if i = length cs then [(i, g)] else [])"
| "rx_seq U ci cs [] st = [st]"
| "rx_seq U ci cs (r # rs) st = concat (map (rx_seq U ci cs rs) (rx_match U ci cs r st))"
| "rx_alt U ci cs [] st = []"
| "rx_alt U ci cs (r # rs) st = rx_match U ci cs r st @ rx_alt U ci cs rs st"
  by pat_completeness auto
termination
  by (relation "measure (\<lambda>x. case x of Inl (_, _, _, r, _) \<Rightarrow> size r
      | Inr (Inl (_, _, _, rs, _)) \<Rightarrow> size_list size rs | Inr (Inr (_, _, _, rs, _)) \<Rightarrow> size_list size rs)") auto

section \<open>Searching\<close>

record span =
  sp_from :: nat
  sp_to :: nat
  sp_caps :: caps

definition rx_at :: "unicode \<Rightarrow> bool \<Rightarrow> rx \<Rightarrow> string list \<Rightarrow> nat \<Rightarrow> span option" where
  "rx_at U ci r cs i = (case rx_match U ci cs r (i, []) of [] \<Rightarrow> None
     | (j, g) # _ \<Rightarrow> Some \<lparr>sp_from = i, sp_to = j, sp_caps = g\<rparr>)"

fun rx_from :: "unicode \<Rightarrow> bool \<Rightarrow> rx \<Rightarrow> string list \<Rightarrow> nat list \<Rightarrow> span option" where
  "rx_from U ci r cs [] = None"
| "rx_from U ci r cs (i # js) = (case rx_at U ci r cs i of None \<Rightarrow> rx_from U ci r cs js | Some m \<Rightarrow> Some m)"

definition rx_find :: "unicode \<Rightarrow> bool \<Rightarrow> rx \<Rightarrow> string list \<Rightarrow> nat \<Rightarrow> span option" where
  "rx_find U ci r cs i = rx_from U ci r cs [i..<length cs + 1]"

definition rx_search :: "unicode \<Rightarrow> bool \<Rightarrow> rx \<Rightarrow> string \<Rightarrow> bool" where
  "rx_search U ci r s \<longleftrightarrow> rx_find U ci r (py_chars s) 0 \<noteq> None"

definition rx_fullmatch :: "unicode \<Rightarrow> bool \<Rightarrow> rx \<Rightarrow> string \<Rightarrow> bool" where
  "rx_fullmatch U ci r s \<longleftrightarrow>
     list_ex (\<lambda>m. fst m = length (py_chars s)) (rx_match U ci (py_chars s) r (0, []))"

text \<open>The non-overlapping matches from left to right; an empty match moves on by one character.\<close>

fun rx_all :: "unicode \<Rightarrow> bool \<Rightarrow> rx \<Rightarrow> string list \<Rightarrow> nat \<Rightarrow> nat \<Rightarrow> span list" where
  "rx_all U ci r cs 0 i = []"
| "rx_all U ci r cs (Suc k) i =
     (case rx_find U ci r cs i of None \<Rightarrow> []
      | Some m \<Rightarrow> m # rx_all U ci r cs k (max (sp_to m) (Suc (sp_from m))))"

definition rx_finditer :: "unicode \<Rightarrow> bool \<Rightarrow> rx \<Rightarrow> string \<Rightarrow> span list" where
  "rx_finditer U ci r s = rx_all U ci r (py_chars s) (length (py_chars s) + 1) 0"

definition slice :: "string list \<Rightarrow> nat \<Rightarrow> nat \<Rightarrow> string" where
  "slice cs i j = concat (take (j - i) (drop i cs))"

text \<open>\<open>match.group(n)\<close>: the last capture of the group, empty here when it took no part.\<close>

definition group_text :: "string list \<Rightarrow> span \<Rightarrow> nat \<Rightarrow> string" where
  "group_text cs m n = (if n = 0 then slice cs (sp_from m) (sp_to m)
     else case map_of (map (\<lambda>(n, i, j). (n, (i, j))) (sp_caps m)) n of None \<Rightarrow> [] | Some (i, j) \<Rightarrow> slice cs i j)"

fun rx_pieces :: "string list \<Rightarrow> nat \<Rightarrow> span list \<Rightarrow> string list" where
  "rx_pieces cs i [] = [slice cs i (length cs)]"
| "rx_pieces cs i (m # ms) = slice cs i (sp_from m) # rx_pieces cs (sp_to m) ms"

definition rx_split :: "unicode \<Rightarrow> bool \<Rightarrow> rx \<Rightarrow> string \<Rightarrow> string list" where
  "rx_split U ci r s = rx_pieces (py_chars s) 0 (rx_finditer U ci r s)"

fun interleave :: "string list \<Rightarrow> string list \<Rightarrow> string" where
  "interleave (p # ps) (q # qs) = p @ q @ interleave ps qs"
| "interleave ps [] = concat ps"
| "interleave [] qs = concat qs"

definition rx_sub_with :: "unicode \<Rightarrow> bool \<Rightarrow> rx \<Rightarrow> (string list \<Rightarrow> span \<Rightarrow> string) \<Rightarrow> string \<Rightarrow> string" where
  "rx_sub_with U ci r f s =
     interleave (rx_split U ci r s) (map (f (py_chars s)) (rx_finditer U ci r s))"

definition rx_sub :: "unicode \<Rightarrow> bool \<Rightarrow> rx \<Rightarrow> string \<Rightarrow> string \<Rightarrow> string" where
  "rx_sub U ci r new s = rx_sub_with U ci r (\<lambda>_ _. new) s"

text \<open>Abbreviations of patterns.\<close>

definition lits :: "string \<Rightarrow> rx list" where
  "lits s = map Lit (py_chars s)"

definition word_rx :: "string \<Rightarrow> rx" where
  "word_rx s = Seq (lits s)"

definition opt_rx :: "rx \<Rightarrow> rx" where
  "opt_rx r = Rep True 0 (Some 1) r"

definition star_rx :: "rx \<Rightarrow> rx" where
  "star_rx r = Rep True 0 None r"

definition plus_rx :: "rx \<Rightarrow> rx" where
  "plus_rx r = Rep True 1 None r"

definition words_rx :: "string list \<Rightarrow> rx" where
  "words_rx ws = Alt (map word_rx ws)"

definition spaces_rx :: rx where
  "spaces_rx = plus_rx (Cls True [CSpace])"

definition any_rx :: rx where
  "any_rx = Cls False [CChar [CHR 0x0A]]"

end
