(* ===== verification/TextNormal.thy ===== *)
theory TextNormal
  imports Regex "HOL-Library.Sublist"
begin

text \<open>
  The text normalisation that the routers and the safety classifier share (the same function
  stands in \<open>safety_intent.py\<close>, \<open>fast_router.py\<close>, \<open>capabilities/router.py\<close> and
  \<open>intent_contract.py\<close>), the padded phrase test, and what they mean: a normalised text is a
  list of words over a-z and 0-9, normalisation is idempotent, and a phrase is found exactly when
  its words occur in a row.
\<close>

section \<open>String methods\<close>

text \<open>\<open>p in s\<close> and \<open>s.replace(p, new)\<close>, for a non-empty \<open>p\<close>.\<close>

fun py_in :: "string \<Rightarrow> string \<Rightarrow> bool" where
  "py_in p [] = (p = [])"
| "py_in p (c # s) = (starts_with p (c # s) \<or> py_in p s)"

fun replace_from :: "nat \<Rightarrow> string \<Rightarrow> string \<Rightarrow> string \<Rightarrow> string" where
  "replace_from n p new [] = []"
| "replace_from (Suc n) p new (c # s) = replace_from n p new s"
| "replace_from 0 p new (c # s) =
     (if starts_with p (c # s) then new @ replace_from (length p - 1) p new s
      else c # replace_from 0 p new s)"

definition py_replace :: "string \<Rightarrow> string \<Rightarrow> string \<Rightarrow> string" where
  "py_replace p new s = replace_from 0 p new s"

definition ascii_lower :: "char \<Rightarrow> char" where
  "ascii_lower c = (if 65 \<le> byte c \<and> byte c \<le> 90 then char_of (byte c + 32) else c)"

definition fold_char :: "unicode \<Rightarrow> string \<Rightarrow> string" where
  "fold_char U ch = (case ch of [c] \<Rightarrow> [ascii_lower c] | _ \<Rightarrow> u_fold U ch)"

definition casefold :: "unicode \<Rightarrow> string \<Rightarrow> string" where
  "casefold U s = concat (map (fold_char U) (py_chars s))"

text \<open>
  \<open>unicodedata.normalize("NFKD", s)\<close> without its combining characters. NFKD decomposes each
  character and reorders only combining characters, which are then dropped.
\<close>

definition strip_marks :: "unicode \<Rightarrow> string \<Rightarrow> string" where
  "strip_marks U s = concat (map (\<lambda>ch. case ch of [c] \<Rightarrow> [c] | _ \<Rightarrow> u_base U ch) (py_chars s))"

text \<open>The Unicode data in which no character outside ASCII has a case, marks or a class.\<close>

definition ascii_unicode :: unicode where
  "ascii_unicode = \<lparr>u_fold = (\<lambda>ch. ch), u_lower = (\<lambda>ch. ch), u_base = (\<lambda>ch. ch), u_word = (\<lambda>ch. False), u_digit = (\<lambda>ch. False),
     u_variants = (\<lambda>ch. [])\<rparr>"

definition d_stroke :: string where
  "d_stroke = [CHR 0xC4, CHR 0x91]"

definition fold_text :: "unicode \<Rightarrow> string \<Rightarrow> string" where
  "fold_text U s = py_replace d_stroke ''d'' (strip_marks U (casefold U s))"

definition other_rx :: rx where
  "other_rx = plus_rx (Cls False [CRange ''a'' ''z'', CRange ''0'' ''9''])"

definition squash :: "unicode \<Rightarrow> string \<Rightarrow> string" where
  "squash U s = py_join '' '' (py_split (rx_sub U False other_rx '' '' s))"

definition normalize_semantic_text :: "unicode \<Rightarrow> string \<Rightarrow> string" where
  "normalize_semantic_text U s = squash U (fold_text U s)"

definition contains_phrase :: "string \<Rightarrow> string \<Rightarrow> bool" where
  "contains_phrase text phrase = py_in ('' '' @ phrase @ '' '') ('' '' @ text @ '' '')"

definition contains_any :: "string \<Rightarrow> string list \<Rightarrow> bool" where
  "contains_any text phrases = list_ex (contains_phrase text) phrases"

section \<open>Replacing runs of characters\<close>

fun subst_runs :: "(string \<Rightarrow> bool) \<Rightarrow> string \<Rightarrow> bool \<Rightarrow> string list \<Rightarrow> string" where
  "subst_runs P new b [] = []"
| "subst_runs P new b (c # cs) =
     (if P c then (if b then [] else new) @ subst_runs P new True cs else c @ subst_runs P new False cs)"

text \<open>A greedy class repetition ends where the run of its characters ends.\<close>

lemma rx_class_iter:
  assumes "length cs - i \<le> k"
  shows "\<exists>rest. rx_iter (rx_match U ci cs (Cls pos items)) True 0 None k (i, g)
    = (i + length (takeWhile (cls_ok U ci pos items) (drop i cs)), g) # rest"
  using assms
proof (induction k arbitrary: i)
  case 0
  then show ?case by simp
next
  case (Suc k)
  show ?case
  proof (cases "i < length cs \<and> cls_ok U ci pos items (cs ! i)")
    case True
    then have d: "drop i cs = cs ! i # drop (Suc i) cs" by (simp add: Cons_nth_drop_Suc)
    have "length cs - Suc i \<le> k" using Suc.prems by simp
    from Suc.IH [OF this] obtain rest where
      "rx_iter (rx_match U ci cs (Cls pos items)) True 0 None k (Suc i, g)
       = (Suc i + length (takeWhile (cls_ok U ci pos items) (drop (Suc i) cs)), g) # rest" by blast
    with True d show ?thesis by (simp add: at_char_def)
  next
    case False
    then have "takeWhile (cls_ok U ci pos items) (drop i cs) = []"
      by (cases "i < length cs") (auto simp: Cons_nth_drop_Suc [symmetric])
    with False show ?thesis by (auto simp: at_char_def)
  qed
qed

lemma rx_at_class:
  "rx_at U ci (plus_rx (Cls pos items)) cs i =
     (if i < length cs \<and> cls_ok U ci pos items (cs ! i)
      then Some \<lparr>sp_from = i, sp_to = i + length (takeWhile (cls_ok U ci pos items) (drop i cs)), sp_caps = []\<rparr>
      else None)"
proof (cases "i < length cs \<and> cls_ok U ci pos items (cs ! i)")
  case True
  then have d: "drop i cs = cs ! i # drop (Suc i) cs" by (simp add: Cons_nth_drop_Suc)
  have "length cs - Suc i \<le> Suc (length cs - i)" by simp
  from rx_class_iter [OF this, of U ci pos items "[]"] obtain rest where
    "rx_iter (rx_match U ci cs (Cls pos items)) True 0 None (Suc (length cs - i)) (Suc i, [])
     = (Suc i + length (takeWhile (cls_ok U ci pos items) (drop (Suc i) cs)), []) # rest" by blast
  with True d show ?thesis by (simp add: rx_at_def plus_rx_def at_char_def del: rx_iter.simps(3))
next
  case False
  then show ?thesis by (auto simp: rx_at_def plus_rx_def at_char_def split: list.splits)
qed

lemma subst_runs_keep:
  "\<forall>c\<in>set xs. \<not> P c \<Longrightarrow> subst_runs P new False (xs @ ys) = concat xs @ subst_runs P new False ys"
  by (induction xs) simp_all

lemma subst_runs_drop:
  "\<forall>c\<in>set xs. P c \<Longrightarrow> subst_runs P new True (xs @ ys) = subst_runs P new True ys"
  by (induction xs) simp_all

lemma subst_runs_end: "ys = [] \<or> \<not> P (hd ys) \<Longrightarrow> subst_runs P new True ys = subst_runs P new False ys"
  by (cases ys) auto

lemma subst_runs_step:
  "subst_runs P new False cs = concat (takeWhile (\<lambda>c. \<not> P c) cs) @
     (case dropWhile (\<lambda>c. \<not> P c) cs of [] \<Rightarrow> []
      | d # ds \<Rightarrow> new @ subst_runs P new False (dropWhile P ds))"
proof -
  let ?a = "takeWhile (\<lambda>c. \<not> P c) cs" and ?b = "dropWhile (\<lambda>c. \<not> P c) cs"
  have "subst_runs P new False (?a @ ?b) = concat ?a @ subst_runs P new False ?b"
    by (rule subst_runs_keep) (auto dest: set_takeWhileD)
  then have "subst_runs P new False cs = concat ?a @ subst_runs P new False ?b"
    by (simp only: takeWhile_dropWhile_id)
  moreover have "subst_runs P new False ?b = (case ?b of [] \<Rightarrow> []
      | d # ds \<Rightarrow> new @ subst_runs P new False (dropWhile P ds))"
  proof (cases ?b)
    case (Cons d ds)
    then have "P d" by (metis hd_dropWhile list.discI list.sel(1))
    have "subst_runs P new True (takeWhile P ds @ dropWhile P ds)
        = subst_runs P new False (dropWhile P ds)"
      by (subst subst_runs_drop) (auto dest: set_takeWhileD intro!: subst_runs_end hd_dropWhile)
    with Cons \<open>P d\<close> show ?thesis by simp
  next
    case Nil
    then show ?thesis by (simp only: subst_runs.simps list.case)
  qed
  ultimately show ?thesis by (simp only:)
qed

lemma rx_from_class:
  assumes "r = plus_rx (Cls pos items)" "P = cls_ok U ci pos items" "i \<le> length cs"
  shows "rx_from U ci r cs [i..<length cs + 1] =
    (let j = i + length (takeWhile (\<lambda>c. \<not> P c) (drop i cs)) in
     if j < length cs then Some \<lparr>sp_from = j, sp_to = j + length (takeWhile P (drop j cs)), sp_caps = []\<rparr>
     else None)"
  using assms(3)
proof (induction "length cs - i" arbitrary: i)
  case 0
  then show ?case by (simp add: assms(1,2) rx_at_class)
next
  case (Suc n)
  then have i: "i < length cs" "drop i cs = cs ! i # drop (Suc i) cs" by (auto simp: Cons_nth_drop_Suc)
  have u: "[i..<length cs + 1] = i # [Suc i..<length cs + 1]" using i(1) by (simp add: upt_conv_Cons)
  have "rx_from U ci r cs [Suc i..<length cs + 1] =
    (let j = Suc i + length (takeWhile (\<lambda>c. \<not> P c) (drop (Suc i) cs)) in
     if j < length cs then Some \<lparr>sp_from = j, sp_to = j + length (takeWhile P (drop j cs)), sp_caps = []\<rparr>
     else None)"
    using Suc.hyps(1) [of "Suc i"] Suc.hyps(2) i(1) by simp
  with i u show ?case
    unfolding assms(1) by (simp add: rx_at_class assms(2) [symmetric] Let_def)
qed

lemma rx_sub_from:
  assumes "r = plus_rx (Cls pos items)" "P = cls_ok U ci pos items"
  shows "i \<le> length cs \<Longrightarrow> length cs - i < k \<Longrightarrow>
    interleave (rx_pieces cs i (rx_all U ci r cs k i)) (map (\<lambda>_. new) (rx_all U ci r cs k i))
    = subst_runs P new False (drop i cs)"
proof (induction k arbitrary: i)
  case (Suc k)
  define j where "j = i + length (takeWhile (\<lambda>c. \<not> P c) (drop i cs))"
  have tk: "takeWhile (\<lambda>c. \<not> P c) (drop i cs) = take (j - i) (drop i cs)"
    unfolding j_def add_diff_cancel_left' by (rule takeWhile_eq_take)
  have dr: "dropWhile (\<lambda>c. \<not> P c) (drop i cs) = drop j cs"
    by (simp add: j_def dropWhile_eq_drop add.commute)
  show ?case
  proof (cases "j < length cs")
    case True
    define e where "e = j + length (takeWhile P (drop j cs))"
    have dj: "drop j cs = cs ! j # drop (Suc j) cs" using True by (simp add: Cons_nth_drop_Suc)
    have "P (cs ! j)" using dr dj by (metis hd_dropWhile list.discI list.sel(1))
    then have e: "e = Suc j + length (takeWhile P (drop (Suc j) cs))" by (simp add: e_def dj)
    have el: "e \<le> length cs" using length_takeWhile_le [of P "drop j cs"] True by (simp add: e_def)
    have de: "drop e cs = dropWhile P (drop (Suc j) cs)"
      by (simp add: e dropWhile_eq_drop add.commute)
    have f: "rx_find U ci r cs i = Some \<lparr>sp_from = j, sp_to = e, sp_caps = []\<rparr>"
      using True Suc.prems(1) by (simp only: rx_find_def rx_from_class [OF assms] j_def e_def Let_def if_True)
    have IH: "interleave (rx_pieces cs e (rx_all U ci r cs k e)) (map (\<lambda>_. new) (rx_all U ci r cs k e))
        = subst_runs P new False (drop e cs)"
      by (rule Suc.IH) (use el e Suc.prems True j_def in linarith)+
    have m: "max e (Suc j) = e" using e by simp
    have a: "rx_all U ci r cs (Suc k) i = \<lparr>sp_from = j, sp_to = e, sp_caps = []\<rparr> # rx_all U ci r cs k e"
      by (simp add: f m)
    have "subst_runs P new False (drop i cs) = slice cs i j @ new @ subst_runs P new False (drop e cs)"
      by (subst subst_runs_step) (simp only: dr, simp add: dj tk de slice_def)
    then show ?thesis by (simp only: a rx_pieces.simps list.map interleave.simps IH span.simps)
  next
    case False
    then have f: "rx_find U ci r cs i = None"
      using Suc.prems(1) by (simp only: rx_find_def rx_from_class [OF assms] j_def Let_def if_False)
    have "j = length cs" using False j_def length_takeWhile_le [of "\<lambda>c. \<not> P c" "drop i cs"] Suc.prems by simp
    then show ?thesis
      by (subst subst_runs_step) (simp add: f dr tk slice_def)
  qed
qed simp

text \<open>Replacing the matches of \<open>[...]+\<close> replaces each maximal run of the class.\<close>

lemma rx_sub_class:
  "rx_sub U ci (plus_rx (Cls pos items)) new s = subst_runs (cls_ok U ci pos items) new False (py_chars s)"
  using rx_sub_from [OF refl refl, of 0 "py_chars s" "length (py_chars s) + 1"]
  by (simp add: rx_sub_def rx_sub_with_def rx_split_def rx_finditer_def)

section \<open>Texts without a match\<close>

text \<open>A pattern whose every match consumes one of the characters \<open>ds\<close> finds nothing in a text without them.\<close>

fun needs_one :: "string list \<Rightarrow> rx \<Rightarrow> bool" where
  "needs_one ds (Lit c) \<longleftrightarrow> c \<in> set ds"
| "needs_one ds (Cls pos items) \<longleftrightarrow> pos \<and> list_all (\<lambda>i. case i of CChar c \<Rightarrow> c \<in> set ds | _ \<Rightarrow> False) items"
| "needs_one ds (Seq rs) \<longleftrightarrow> list_ex (needs_one ds) rs"
| "needs_one ds (Alt rs) \<longleftrightarrow> list_all (needs_one ds) rs"
| "needs_one ds (Rep greedy lo hi r) \<longleftrightarrow> 0 < lo \<and> needs_one ds r"
| "needs_one ds (Grp n r) \<longleftrightarrow> needs_one ds r"
| "needs_one ds _ \<longleftrightarrow> False"

lemma rx_seq_none:
  "r \<in> set rs \<Longrightarrow> \<forall>st. rx_match U ci cs r st = [] \<Longrightarrow> rx_seq U ci cs rs st = []"
  by (induction rs arbitrary: st) auto

lemma rx_alt_none: "\<forall>r\<in>set rs. rx_match U ci cs r st = [] \<Longrightarrow> rx_alt U ci cs rs st = []"
  by (induction rs) auto

lemma needs_one_none:
  assumes "needs_one ds r" "set cs \<inter> set ds = {}"
  shows "rx_match U False cs r st = []"
  using assms(1)
proof (induction r arbitrary: st)
  case (Lit c)
  then show ?case using assms(2) by (cases st) (auto simp: at_char_def stands_for_def dest: nth_mem)
next
  case (Cls pos items)
  have item: "\<not> in_cls U ch i" if "ch \<in> set cs" "i \<in> set items" for ch i
  proof -
    have "case i of CChar c \<Rightarrow> c \<in> set ds | _ \<Rightarrow> False" using Cls that(2) by (simp add: list_all_iff)
    then show ?thesis using assms(2) that(1) by (cases i) auto
  qed
  have "\<not> cls_ok U False pos items ch" if "ch \<in> set cs" for ch
    using Cls item [OF that] by (simp add: cls_ok_def stands_for_def list_ex_iff)
  then show ?case by (cases st) (auto simp: at_char_def)
next
  case (Seq rs)
  then obtain r where "r \<in> set rs" "\<forall>st. rx_match U False cs r st = []" by (auto simp: list_ex_iff)
  then show ?case by (simp add: rx_seq_none)
next
  case (Alt rs)
  then show ?case by (simp add: rx_alt_none list_all_iff)
next
  case (Rep greedy lo hi r)
  then obtain l where l: "lo = Suc l" by (cases lo) simp_all
  have "rx_match U False cs r st = []" for st using Rep by simp
  then show ?case by (cases st) (simp add: l)
next
  case (Grp n r)
  then show ?case by (cases st) auto
qed simp_all

lemma needs_one_find:
  assumes "needs_one ds r" "set cs \<inter> set ds = {}"
  shows "rx_from U False r cs is = None"
  by (induction "is") (simp_all add: rx_at_def needs_one_none [OF assms])

lemma slice_all: "slice cs 0 (length cs) = concat cs"
  by (simp add: slice_def)

lemma needs_one_absent:
  assumes "needs_one ds r" "set (py_chars s) \<inter> set ds = {}"
  shows "rx_sub U False r new s = s" "rx_sub_with U False r f s = s" "rx_split U False r s = [s]"
    "\<not> rx_search U False r s" "rx_finditer U False r s = []"
  by (simp_all add: rx_sub_def rx_sub_with_def rx_split_def rx_finditer_def rx_find_def rx_search_def
      needs_one_find [OF assms] slice_all)

section \<open>Normal form\<close>

definition word_char :: "char \<Rightarrow> bool" where
  "word_char c \<longleftrightarrow> (97 \<le> byte c \<and> byte c \<le> 122) \<or> (48 \<le> byte c \<and> byte c \<le> 57)"

definition word :: "string \<Rightarrow> bool" where
  "word w \<longleftrightarrow> w \<noteq> [] \<and> (\<forall>c\<in>set w. word_char c)"

text \<open>The maximal runs of word characters.\<close>

fun runs :: "string list \<Rightarrow> string \<Rightarrow> string list" where
  "runs [] acc = (if acc = [] then [] else [acc])"
| "runs (ch # chs) acc =
     (case ch of [c] \<Rightarrow> if word_char c then runs chs (acc @ ch) else (if acc = [] then [] else [acc]) @ runs chs []
      | _ \<Rightarrow> (if acc = [] then [] else [acc]) @ runs chs [])"

definition text_words :: "string \<Rightarrow> string list" where
  "text_words s = runs (py_chars s) []"

lemma other_cls:
  "cls_ok U False False [CRange ''a'' ''z'', CRange ''0'' ''9''] ch \<longleftrightarrow>
   (case ch of [c] \<Rightarrow> \<not> word_char c | [] \<Rightarrow> True | _ \<Rightarrow> True)"
proof -
  have r: "in_cls U ch (CRange [a] [b]) \<longleftrightarrow> (case ch of [c] \<Rightarrow> byte a \<le> byte c \<and> byte c \<le> byte b | _ \<Rightarrow> False)"
    for a b by (auto simp: byte_def less_char_def order.strict_iff_order split: list.splits)
  have "cls_ok U False False [CRange ''a'' ''z'', CRange ''0'' ''9''] ch \<longleftrightarrow>
      \<not> (in_cls U ch (CRange ''a'' ''z'') \<or> in_cls U ch (CRange ''0'' ''9''))"
    by (simp add: cls_ok_def stands_for_def del: in_cls.simps)
  then show ?thesis
    unfolding r by (cases ch; cases "tl ch") (simp_all add: word_char_def byte_def)
qed

lemma byte_chars:
  "[c] \<noteq> [] \<and> (is_ws [c] \<longrightarrow> \<not> word_char c)" "is_ws '' ''" "\<not> word_char (CHR '' '')"
  "word_char c \<Longrightarrow> \<not> is_cont c" "\<not> is_cont (CHR '' '')"
  by (auto simp: is_ws_def word_char_def byte_def is_cont_def)

lemma subst_words:
  "acc = [] \<or> b = False \<Longrightarrow>
   words_of (map (\<lambda>c. [c]) (subst_runs (cls_ok U False False [CRange ''a'' ''z'', CRange ''0'' ''9'']) '' '' b chs)) acc
   = runs chs acc"
proof (induction chs arbitrary: acc b)
  case (Cons ch chs)
  show ?case
  proof (cases "\<exists>c. ch = [c] \<and> word_char c")
    case True
    then obtain c where c: "ch = [c]" "word_char c" by blast
    with byte_chars(1) [of c] Cons.IH [of "acc @ ch" False] show ?thesis
      by (simp add: other_cls)
  next
    case False
    then have n: "cls_ok U False False [CRange ''a'' ''z'', CRange ''0'' ''9''] ch"
      by (auto simp: other_cls split: list.splits)
    from False have r: "runs (ch # chs) acc = (if acc = [] then [] else [acc]) @ runs chs []"
      by (auto split: list.splits)
    show ?thesis
      using Cons.prems Cons.IH [of "[]" True] by (auto simp: n r byte_chars simp del: runs.simps)
  qed
qed simp

lemma subst_ascii:
  "\<forall>c\<in>set (subst_runs (cls_ok U False False [CRange ''a'' ''z'', CRange ''0'' ''9'']) '' '' b chs).
     \<not> is_cont c"
  by (induction chs arbitrary: b) (auto simp: other_cls byte_chars split: list.splits)

text \<open>Normalising is joining the runs of word characters of the folded text.\<close>

lemma squash_words: "squash U s = py_join '' '' (text_words s)"
  unfolding squash_def other_rx_def rx_sub_class py_split_def
  by (simp add: py_chars_ascii subst_ascii subst_words text_words_def)

lemma runs_words: "(acc = [] \<or> word acc) \<Longrightarrow> w \<in> set (runs chs acc) \<Longrightarrow> word w"
proof (induction chs arbitrary: acc)
  case (Cons ch chs)
  show ?case
  proof (cases "\<exists>c. ch = [c] \<and> word_char c")
    case True
    then obtain c where c: "ch = [c]" "word_char c" by blast
    with Cons.prems have "word (acc @ ch)" by (auto simp: word_def)
    with c Cons show ?thesis by auto
  next
    case False
    then have "runs (ch # chs) acc = (if acc = [] then [] else [acc]) @ runs chs []"
      by (auto split: list.splits)
    with Cons.IH [of "[]"] Cons.prems show ?thesis by (auto split: if_splits)
  qed
qed (auto split: if_splits)

lemma text_words_word: "w \<in> set (text_words s) \<Longrightarrow> word w"
  unfolding text_words_def by (rule runs_words) auto

lemma runs_word_chars:
  "\<forall>c\<in>set w. word_char c \<Longrightarrow> runs (map (\<lambda>c. [c]) w @ chs) acc = runs chs (acc @ w)"
  by (induction w arbitrary: acc) simp_all

lemma runs_join:
  "\<forall>w\<in>set ws. word w \<Longrightarrow> runs (map (\<lambda>c. [c]) (py_join '' '' ws)) [] = ws"
proof (induction ws rule: induct_list012)
  case (2 w)
  then show ?case using runs_word_chars [of w "[]" "[]"] by (simp add: word_def)
next
  case (3 w v ws)
  then have "\<forall>c\<in>set w. word_char c" "w \<noteq> []" by (auto simp: word_def)
  with runs_word_chars [of w "map (\<lambda>c. [c]) ('' '' @ py_join '' '' (v # ws))" "[]"] 3 show ?case
    by (simp add: byte_chars)
qed simp

lemma join_ascii:
  "\<forall>w\<in>set ws. word w \<Longrightarrow> c \<in> set (py_join '' '' ws) \<Longrightarrow> word_char c \<or> c = CHR '' ''"
  by (induction ws rule: induct_list012) (auto simp: word_def)

lemma text_words_join: "\<forall>w\<in>set ws. word w \<Longrightarrow> text_words (py_join '' '' ws) = ws"
  unfolding text_words_def
  by (subst py_chars_ascii) (auto dest: join_ascii simp: byte_chars runs_join)

text \<open>Folding keeps text that is folded already.\<close>

definition plain :: "string \<Rightarrow> bool" where
  "plain s \<longleftrightarrow> (\<forall>c\<in>set s. word_char c \<or> c = CHR '' '')"

lemma plain_chars: "plain s \<Longrightarrow> py_chars s = map (\<lambda>c. [c]) s"
  by (intro py_chars_ascii) (auto simp: plain_def byte_chars)

lemma plain_folds:
  assumes "plain s"
  shows "casefold U s = s" "strip_marks U s = s"
proof -
  have l: "ascii_lower c = c" if "c \<in> set s" for c
    using assms that by (auto simp: plain_def ascii_lower_def word_char_def byte_def)
  then show "casefold U s = s"
    unfolding casefold_def plain_chars [OF assms] by (induction s) (simp_all add: fold_char_def)
  show "strip_marks U s = s" unfolding strip_marks_def plain_chars [OF assms] by (induction s) simp_all
qed

lemma replace_absent: "c \<in> set p \<Longrightarrow> c \<notin> set s \<Longrightarrow> py_replace p new s = s"
proof -
  assume c: "c \<in> set p" and s: "c \<notin> set s"
  have "\<not> starts_with p r" if "c \<notin> set r" for r
    using c that by (auto simp: starts_with_iff)
  with s have "replace_from 0 p new s = s" by (induction s) auto
  then show ?thesis by (simp add: py_replace_def)
qed

lemma plain_ascii: "plain s \<Longrightarrow> c \<in> set s \<Longrightarrow> byte c < 128"
  by (auto simp: plain_def word_char_def byte_def)

lemma folds_plain: "plain s \<Longrightarrow> fold_text U s = s"
  unfolding fold_text_def plain_folds
  by (rule replace_absent [of "CHR 0xC4"]) (auto simp: d_stroke_def plain_def word_char_def byte_def)

text \<open>Normalising is idempotent, and every list of words is the normal form of its joining.\<close>

lemma normalize_words: "normalize_semantic_text U s = py_join '' '' (text_words (fold_text U s))"
  by (simp add: normalize_semantic_text_def squash_words)

lemma normalize_join: "\<forall>w\<in>set ws. word w \<Longrightarrow> normalize_semantic_text U (py_join '' '' ws) = py_join '' '' ws"
proof -
  assume w: "\<forall>w\<in>set ws. word w"
  then have "plain (py_join '' '' ws)" unfolding plain_def using join_ascii by blast
  then show ?thesis by (simp only: normalize_words folds_plain text_words_join [OF w])
qed

lemma normalize_idem: "normalize_semantic_text U (normalize_semantic_text U s) = normalize_semantic_text U s"
  by (metis normalize_words normalize_join text_words_word)

section \<open>Phrases\<close>

text \<open>A space-free text between spaces occurs in padded words exactly as a sublist of words.\<close>

definition padded :: "string list \<Rightarrow> string" where
  "padded ws = concat (map (\<lambda>w. '' '' @ w) ws) @ '' ''"

lemma padded_join: "ws \<noteq> [] \<Longrightarrow> '' '' @ py_join '' '' ws @ '' '' = padded ws"
  by (induction ws rule: induct_list012) (simp_all add: padded_def)

lemma padded_Cons: "padded (w # ws) = CHR '' '' # w @ padded ws" "padded [] = '' ''"
  by (simp_all add: padded_def)

lemma padded_hd: "\<exists>t. padded ws = CHR '' '' # t"
  by (cases ws) (simp_all add: padded_def)

lemma word_prefix:
  assumes "CHR '' '' \<notin> set v" "CHR '' '' \<notin> set w"
  shows "prefix (v @ CHR '' '' # s) (w @ CHR '' '' # t) \<longleftrightarrow> v = w \<and> prefix s t"
  using assms
proof (induction v arbitrary: w)
  case Nil
  then show ?case by (cases w) auto
next
  case (Cons a v)
  then show ?case by (cases w) auto
qed

lemma prefix_padded:
  assumes "\<forall>w\<in>set ps \<union> set ws. CHR '' '' \<notin> set w"
  shows "prefix (padded ps) (padded ws) \<longleftrightarrow> prefix ps ws"
  using assms
proof (induction ps arbitrary: ws)
  case Nil
  then show ?case using padded_hd [of ws] by (auto simp: padded_Cons)
next
  case (Cons p ps)
  obtain s where s: "padded ps = CHR '' '' # s" using padded_hd by blast
  show ?case
  proof (cases ws)
    case Nil
    then show ?thesis by (simp add: padded_Cons s)
  next
    case (Cons w ws')
    obtain t where t: "padded ws' = CHR '' '' # t" using padded_hd by blast
    have "prefix (padded ps) (padded ws') \<longleftrightarrow> prefix s t" by (simp add: s t)
    then show ?thesis
      using Cons.IH [of ws'] Cons.prems word_prefix [of p w s t] by (auto simp: padded_Cons s t Cons)
  qed
qed

lemma starts_with_prefix: "starts_with p s \<longleftrightarrow> prefix p s"
  by (auto simp: starts_with_iff prefix_def)

lemma py_in_sublist: "py_in p s \<longleftrightarrow> sublist p s"
  by (induction s) (auto simp: starts_with_prefix sublist_Cons_right)

lemma py_in_skip: "CHR '' '' \<notin> set w \<Longrightarrow> sublist (CHR '' '' # q) (w @ s) \<longleftrightarrow> sublist (CHR '' '' # q) s"
  by (induction w) (auto simp: sublist_Cons_right)

lemma sublist_padded:
  assumes "\<forall>w\<in>set ps \<union> set ws. CHR '' '' \<notin> set w" "ps \<noteq> []"
  shows "sublist (padded ps) (padded ws) \<longleftrightarrow> sublist ps ws"
  using assms
proof (induction ws)
  case Nil
  then show ?case by (cases ps) (auto simp: padded_def sublist_Cons_right)
next
  case (Cons w ws)
  obtain q where q: "padded ps = CHR '' '' # q" using padded_hd by blast
  have "sublist (padded ps) (padded (w # ws)) \<longleftrightarrow>
      prefix (padded ps) (padded (w # ws)) \<or> sublist (padded ps) (w @ padded ws)"
    by (simp add: padded_Cons sublist_Cons_right)
  also have "\<dots> \<longleftrightarrow> prefix ps (w # ws) \<or> sublist (padded ps) (padded ws)"
    using Cons.prems py_in_skip [of w q "padded ws"] prefix_padded [of ps "w # ws"] by (simp add: q)
  also have "\<dots> \<longleftrightarrow> sublist ps (w # ws)" using Cons by (auto simp: sublist_Cons_right)
  finally show ?case .
qed

lemma word_no_space: "word w \<Longrightarrow> CHR '' '' \<notin> set w"
  using byte_chars(3) by (auto simp: word_def)

text \<open>The phrase test on a normalised text: the phrase's words stand in a row.\<close>

lemma contains_phrase_words:
  assumes "\<forall>w\<in>set ps. word w" "ps \<noteq> []" "\<forall>w\<in>set ws. word w"
  shows "contains_phrase (py_join '' '' ws) (py_join '' '' ps) \<longleftrightarrow> sublist ps ws"
proof (cases ws)
  case Nil
  obtain p ps' where p: "ps = p # ps'" "p \<noteq> []" using assms by (cases ps) (auto simp: word_def)
  then have "py_join '' '' ps \<noteq> []" by (cases ps') simp_all
  then have "\<not> sublist ('' '' @ py_join '' '' ps @ '' '') ''  ''"
    by (cases "py_join '' '' ps") (auto dest!: sublist_length_le)
  then show ?thesis using assms(2) by (simp add: Nil contains_phrase_def py_in_sublist)
next
  case (Cons w ws')
  then have "ws \<noteq> []" by simp
  then have "contains_phrase (py_join '' '' ws) (py_join '' '' ps) \<longleftrightarrow> sublist (padded ps) (padded ws)"
    by (simp only: contains_phrase_def py_in_sublist padded_join [OF \<open>ws \<noteq> []\<close>] padded_join [OF assms(2)])
  also have "\<dots> \<longleftrightarrow> sublist ps ws"
    by (rule sublist_padded) (use assms word_no_space in blast)+
  finally show ?thesis .
qed

end
