(* ===== verification/Redaction.thy ===== *)
theory Redaction
  imports TextNormal World
begin

text \<open>
  \<open>app/audit/redaction.py\<close>: the patterns of \<open>SecretRedactor\<close> and what it does to a text.
  On documents it is \<open>redact_json\<close> of \<open>World\<close>, whose parameters \<open>redacting\<close> fills
  with these definitions.
\<close>

definition redacted_mark :: string where
  "redacted_mark = ''[REDACTED]''"

definition sensitive_key_rx :: rx where
  "sensitive_key_rx =
    Seq [Grp 1 (Alt [Bol, Cls True [CChar ''_'', CChar ''-'']]), Grp 2 (Alt [Seq [word_rx ''api'',
     opt_rx (Cls True [CChar ''_'', CChar ''-'']), word_rx ''key''], Seq [word_rx ''access'',
     opt_rx (Cls True [CChar ''_'', CChar ''-'']), word_rx ''token''], Seq [word_rx ''auth'',
     opt_rx (Cls True [CChar ''_'', CChar ''-'']), word_rx ''token''], word_rx ''authorization'',
     word_rx ''bearer'', Seq [word_rx ''bot'', opt_rx (Cls True [CChar ''_'', CChar ''-'']),
     word_rx ''token''], Seq [word_rx ''client'', opt_rx (Cls True [CChar ''_'', CChar ''-'']),
     word_rx ''secret''], word_rx ''credential'', Seq [word_rx ''gateway'',
     opt_rx (Cls True [CChar ''_'', CChar ''-'']), word_rx ''token''], Seq [word_rx ''openclaw'',
     opt_rx (Cls True [CChar ''_'', CChar ''-'']), word_rx ''gateway'',
     opt_rx (Cls True [CChar ''_'', CChar ''-'']), word_rx ''token''], word_rx ''password'',
     word_rx ''passwd'', Seq [word_rx ''private'', opt_rx (Cls True [CChar ''_'', CChar ''-'']),
     word_rx ''key''], Seq [word_rx ''refresh'', opt_rx (Cls True [CChar ''_'', CChar ''-'']),
     word_rx ''token''], word_rx ''secret'', Seq [word_rx ''session'',
     opt_rx (Cls True [CChar ''_'', CChar ''-'']), word_rx ''token'']]), Grp 3 (Alt [Eol,
     Cls True [CChar ''_'', CChar ''-'']])]"

definition bearer_rx :: rx where
  "bearer_rx =
    Seq [Bnd, Grp 1 (Seq [word_rx ''Bearer'', spaces_rx]),
     Grp 2 (plus_rx (Cls True [CRange ''A'' ''Z'', CRange ''a'' ''z'', CRange ''0'' ''9'',
     CChar ''.'', CChar ''_'', CChar ''~'', CChar ''+'', CChar ''/'', CChar ''='', CChar ''-'']))]"

definition assignment_rx :: rx where
  "assignment_rx =
    Seq [Bnd, Grp 1 (Alt [Seq [word_rx ''api'', opt_rx (Cls True [CChar ''_'', CChar ''-'']),
     word_rx ''key''], Seq [word_rx ''access'', opt_rx (Cls True [CChar ''_'', CChar ''-'']),
     word_rx ''token''], Seq [word_rx ''auth'', opt_rx (Cls True [CChar ''_'', CChar ''-'']),
     word_rx ''token''], Seq [word_rx ''bot'', opt_rx (Cls True [CChar ''_'', CChar ''-'']),
     word_rx ''token''], Seq [word_rx ''client'', opt_rx (Cls True [CChar ''_'', CChar ''-'']),
     word_rx ''secret''], Seq [word_rx ''gateway'', opt_rx (Cls True [CChar ''_'', CChar ''-'']),
     word_rx ''token''], Seq [word_rx ''openai'', opt_rx (Cls True [CChar ''_'', CChar ''-'']),
     word_rx ''api'', opt_rx (Cls True [CChar ''_'', CChar ''-'']), word_rx ''key''],
     Seq [word_rx ''openclaw'', opt_rx (Cls True [CChar ''_'', CChar ''-'']), word_rx ''gateway'',
     opt_rx (Cls True [CChar ''_'', CChar ''-'']), word_rx ''token''], word_rx ''password'',
     word_rx ''passwd'', Seq [word_rx ''private'', opt_rx (Cls True [CChar ''_'', CChar ''-'']),
     word_rx ''key''], Seq [word_rx ''refresh'', opt_rx (Cls True [CChar ''_'', CChar ''-'']),
     word_rx ''token''], word_rx ''secret'', Seq [word_rx ''session'',
     opt_rx (Cls True [CChar ''_'', CChar ''-'']), word_rx ''token''], Seq [word_rx ''telegram'',
     opt_rx (Cls True [CChar ''_'', CChar ''-'']), word_rx ''bot'', opt_rx (Cls True [CChar ''_'',
     CChar ''-'']), word_rx ''token'']]), Grp 2 (Seq [star_rx (Cls True [CSpace]),
     Cls True [CChar '':'', CChar ''=''], star_rx (Cls True [CSpace])]),
     Alt [Seq [word_rx [CHR 0x22], plus_rx (Cls False [CChar [CHR 0x22]]), word_rx [CHR 0x22]],
     Seq [word_rx [CHR 0x27], plus_rx (Cls False [CChar [CHR 0x27]]), word_rx [CHR 0x27]],
     plus_rx (Cls False [CSpace, CChar ''&'', CChar '','', CChar '';''])]]"

definition query_secret_rx :: rx where
  "query_secret_rx =
    Seq [Grp 1 (Cls True [CChar ''?'', CChar ''&'']), Grp 2 (Alt [Seq [word_rx ''api'',
     opt_rx (Cls True [CChar ''_'', CChar ''-'']), word_rx ''key''], Seq [word_rx ''access'',
     opt_rx (Cls True [CChar ''_'', CChar ''-'']), word_rx ''token''], Seq [word_rx ''auth'',
     opt_rx (Cls True [CChar ''_'', CChar ''-'']), word_rx ''token''], Seq [word_rx ''client'',
     opt_rx (Cls True [CChar ''_'', CChar ''-'']), word_rx ''secret''], word_rx ''password'',
     Seq [word_rx ''refresh'', opt_rx (Cls True [CChar ''_'', CChar ''-'']), word_rx ''token''],
     word_rx ''secret'', Seq [word_rx ''session'', opt_rx (Cls True [CChar ''_'', CChar ''-'']),
     word_rx ''token''], word_rx ''token'']), Grp 3 (word_rx ''=''),
     Grp 4 (plus_rx (Cls False [CChar ''&'', CChar ''#'', CSpace]))]"

definition provider_key_rxs :: "rx list" where
  "provider_key_rxs = [
    Seq [Bnd, word_rx ''sk-'', opt_rx (word_rx ''proj-''),
     Rep True 10 None (Cls True [CRange ''A'' ''Z'', CRange ''a'' ''z'', CRange ''0'' ''9'',
     CChar ''_'', CChar ''-'']), Bnd],
    Seq [Bnd, word_rx ''gh'', Cls True [CChar ''p'', CChar ''o'', CChar ''u'', CChar ''s'',
     CChar ''r''], word_rx ''_'', Rep True 20 None (Cls True [CRange ''A'' ''Z'',
     CRange ''a'' ''z'', CRange ''0'' ''9'']), Bnd],
    Seq [Bnd, word_rx ''xox'', Cls True [CChar ''b'', CChar ''a'', CChar ''p'', CChar ''r'',
     CChar ''s''], word_rx ''-'', Rep True 10 None (Cls True [CRange ''A'' ''Z'',
     CRange ''a'' ''z'', CRange ''0'' ''9'', CChar ''-'']), Bnd],
    Seq [Bnd, Rep True 6 None (Cls True [CDigit]), word_rx '':'',
     Rep True 20 None (Cls True [CRange ''A'' ''Z'', CRange ''a'' ''z'', CRange ''0'' ''9'',
     CChar ''_'', CChar ''-'']), Bnd]]"

text \<open>\<open>s.lower()\<close>, character by character.\<close>

definition py_lower :: "unicode \<Rightarrow> string \<Rightarrow> string" where
  "py_lower U s = concat (map (\<lambda>ch. case ch of [c] \<Rightarrow> [ascii_lower c] | _ \<Rightarrow> u_lower U ch) (py_chars s))"

definition is_sensitive_key :: "unicode \<Rightarrow> string \<Rightarrow> bool" where
  "is_sensitive_key U key \<longleftrightarrow> rx_search U True sensitive_key_rx (py_lower U (py_strip key))"

text \<open>\<open>pattern.sub(lambda m: m.group(1) + ... + m.group(n) + REDACTED, s)\<close>.\<close>

definition keep_groups :: "unicode \<Rightarrow> nat list \<Rightarrow> rx \<Rightarrow> string \<Rightarrow> string" where
  "keep_groups U ns r s =
     rx_sub_with U True r (\<lambda>cs m. concat (map (group_text cs m) ns) @ redacted_mark) s"

definition redact_text :: "unicode \<Rightarrow> string \<Rightarrow> string" where
  "redact_text U s =
     (if s = redacted_mark then s
      else if list_ex (\<lambda>r. rx_fullmatch U False r (py_strip s)) provider_key_rxs then redacted_mark
      else fold (\<lambda>r t. rx_sub U False r redacted_mark t) provider_key_rxs
             (keep_groups U [1, 2, 3] query_secret_rx
               (keep_groups U [1, 2] assignment_rx (keep_groups U [1] bearer_rx s))))"

definition redacting :: "unicode \<Rightarrow> env \<Rightarrow> env" where
  "redacting U E = E\<lparr>e_redact_text := redact_text U, e_sensitive_key := is_sensitive_key U\<rparr>"

end
