(* ===== verification/RedactionPlain.thy ===== *)
theory RedactionPlain
  imports Redaction AsyncModels
begin

text \<open>
  What \<open>SecretRedactor\<close> leaves alone. A pattern that must consume one of some characters, or a
  blank, matches nowhere in a text without them. This shows that the redactor keeps the fixed words
  of a request (modes, priorities, capabilities) and takes none of its field names for the name of
  a secret.
\<close>

section \<open>Patterns that need a character\<close>

text \<open>\<open>needs_one\<close> for matching in either case, with white space among the characters.\<close>

fun needs :: "string list \<Rightarrow> rx \<Rightarrow> bool" where
  "needs ds (Lit c) \<longleftrightarrow> c \<in> set ds"
| "needs ds (Cls pos items) \<longleftrightarrow> pos \<and> list_all (\<lambda>i. case i of CChar c \<Rightarrow> c \<in> set ds | CSpace \<Rightarrow> True | _ \<Rightarrow> False) items"
| "needs ds (Seq rs) \<longleftrightarrow> list_ex (needs ds) rs"
| "needs ds (Alt rs) \<longleftrightarrow> list_all (needs ds) rs"
| "needs ds (Rep greedy lo hi r) \<longleftrightarrow> 0 < lo \<and> needs ds r"
| "needs ds (Grp n r) \<longleftrightarrow> needs ds r"
| "needs ds _ \<longleftrightarrow> False"

definition lacks :: "unicode \<Rightarrow> string list \<Rightarrow> string list \<Rightarrow> bool" where
  "lacks U ds cs \<longleftrightarrow> list_all (\<lambda>ch. list_all (\<lambda>v. v \<notin> set ds \<and> \<not> is_ws v) (stands_for U True ch)) cs"

lemma lacksD: "lacks U ds cs \<Longrightarrow> ch \<in> set cs \<Longrightarrow> v \<in> set (stands_for U ci ch) \<Longrightarrow> v \<notin> set ds \<and> \<not> is_ws v"
  by (cases ci) (auto simp: lacks_def list_all_iff stands_for_def)

lemma needs_none:
  assumes "needs ds r" "lacks U ds cs"
  shows "rx_match U ci cs r st = []"
  using assms(1)
proof (induction r arbitrary: st)
  case (Lit c)
  have "\<not> list_ex (\<lambda>v. v = c) (stands_for U ci ch)" if "ch \<in> set cs" for ch
    using Lit lacksD [OF assms(2) that, of c ci] by (auto simp: list_ex_iff)
  then show ?case by (cases st) (auto simp: at_char_def)
next
  case (Cls pos items)
  have item: "\<not> in_cls U v i" if "ch \<in> set cs" "v \<in> set (stands_for U ci ch)" "i \<in> set items" for ch v i
  proof -
    have "case i of CChar c \<Rightarrow> c \<in> set ds | CSpace \<Rightarrow> True | _ \<Rightarrow> False" using Cls that(3) by (simp add: list_all_iff)
    then show ?thesis using lacksD [OF assms(2) that(1,2)] by (cases i) auto
  qed
  have "\<not> cls_ok U ci pos items ch" if "ch \<in> set cs" for ch
    using Cls item [OF that] by (auto simp: cls_ok_def list_ex_iff)
  then show ?case by (cases st) (auto simp: at_char_def)
next
  case (Seq rs)
  then obtain r where "r \<in> set rs" "\<forall>st. rx_match U ci cs r st = []" by (auto simp: list_ex_iff)
  then show ?case by (simp add: rx_seq_none)
next
  case (Alt rs)
  then show ?case by (simp add: rx_alt_none list_all_iff)
next
  case (Rep greedy lo hi r)
  then obtain l where l: "lo = Suc l" by (cases lo) simp_all
  have "rx_match U ci cs r st = []" for st using Rep by simp
  then show ?case by (cases st) (simp add: l)
next
  case (Grp n r)
  then show ?case by (cases st) auto
qed simp_all

lemma needs_absent:
  assumes "needs ds r" "lacks U ds (py_chars s)"
  shows "rx_sub U ci r new s = s" "rx_sub_with U ci r f s = s" "\<not> rx_search U ci r s" "\<not> rx_fullmatch U ci r s"
proof -
  have find: "rx_from U ci r (py_chars s) is = None" for "is"
    by (induction "is") (simp_all add: rx_at_def needs_none [OF assms])
  then have none: "rx_finditer U ci r s = []" by (simp add: rx_finditer_def rx_find_def)
  then show "rx_sub_with U ci r f s = s" for f by (simp add: rx_sub_with_def rx_split_def slice_all)
  then show "rx_sub U ci r new s = s" by (simp add: rx_sub_def)
  show "\<not> rx_search U ci r s" by (simp add: rx_search_def rx_find_def find)
  show "\<not> rx_fullmatch U ci r s" by (simp add: rx_fullmatch_def needs_none [OF assms])
qed

section \<open>Texts without secrets\<close>

text \<open>No key of a provider occurs without a hyphen, a colon and one of the three characters \<open>_gh\<close>.\<close>

lemma needs_keys: "list_all (\<lambda>x. list_all (needs [''-'', '':'', x]) provider_key_rxs) [''_'', ''g'', ''h'']"
  by code_simp

lemma needs_patterns: "list_all (needs [''='', '':'', ''?'', ''&'']) [bearer_rx, assignment_rx, query_secret_rx]"
  by code_simp

lemma dropWhile_self: "xs \<noteq> [] \<Longrightarrow> \<not> P (hd xs) \<Longrightarrow> dropWhile P xs = xs"
  by (cases xs) simp_all

lemma lacks_strip: "lacks U ds (py_chars s) \<Longrightarrow> py_strip s = s"
proof -
  assume a: "lacks U ds (py_chars s)"
  then have w: "\<not> is_ws ch" if "ch \<in> set (py_chars s)" for ch
    using lacksD [OF a that, of ch False] by (simp add: stands_for_def)
  show ?thesis
  proof (cases "py_chars s")
    case Nil
    then show ?thesis by (metis concat.simps(1) concat_py_chars py_strip_def dropWhile.simps(1) rev.simps(1))
  next
    case (Cons c cs)
    then have "\<not> is_ws (hd (py_chars s))" "\<not> is_ws (last (py_chars s))" "py_chars s \<noteq> []"
      using w by (metis list.distinct(1) list.set_sel(1), metis Cons last_in_set list.distinct(1), simp)
    then show ?thesis by (simp add: py_strip_def hd_rev dropWhile_self concat_py_chars)
  qed
qed

lemma no_keys:
  assumes "x \<in> {''_'', ''g'', ''h''}" "lacks U [''-'', '':'', x] (py_chars s)"
  shows "fold (\<lambda>r t. rx_sub U False r redacted_mark t) provider_key_rxs s = s"
    "\<not> list_ex (\<lambda>r. rx_fullmatch U False r (py_strip s)) provider_key_rxs"
proof -
  have n: "list_all (needs [''-'', '':'', x]) provider_key_rxs" using needs_keys assms(1) by auto
  have "fold (\<lambda>r t. rx_sub U False r redacted_mark t) ks s = s" if "list_all (needs [''-'', '':'', x]) ks" for ks
    using that by (induction ks) (simp_all add: needs_absent(1) [OF _ assms(2)])
  with n show "fold (\<lambda>r t. rx_sub U False r redacted_mark t) provider_key_rxs s = s" by blast
  show "\<not> list_ex (\<lambda>r. rx_fullmatch U False r (py_strip s)) provider_key_rxs"
    using n needs_absent(4) [OF _ assms(2)] by (auto simp: lacks_strip [OF assms(2)] list_ex_iff list_all_iff)
qed

definition plain_text :: "unicode \<Rightarrow> string \<Rightarrow> bool" where
  "plain_text U s \<longleftrightarrow> lacks U [''='', '':'', ''?'', ''&''] (py_chars s)
     \<and> list_ex (\<lambda>x. lacks U [''-'', '':'', x] (py_chars s)) [''_'', ''g'', ''h'']"

lemma redact_plain:
  assumes "plain_text U s"
  shows "redact_text U s = s"
proof -
  from assms obtain x where x: "x \<in> {''_'', ''g'', ''h''}" "lacks U [''-'', '':'', x] (py_chars s)"
    and p: "lacks U [''='', '':'', ''?'', ''&''] (py_chars s)" by (auto simp: plain_text_def)
  have "keep_groups U ns r s = s" if "r \<in> {bearer_rx, assignment_rx, query_secret_rx}" for ns r
    using that needs_patterns needs_absent(2) [OF _ p] by (auto simp: keep_groups_def)
  then show ?thesis by (simp add: redact_text_def no_keys [OF x])
qed

lemma redacting_fields [simp]:
  "e_redact_text (redacting U E) = redact_text U" "e_sensitive_key (redacting U E) = is_sensitive_key U"
  "e_codecs (redacting U E) = e_codecs E"
  by (simp_all add: redacting_def)

section \<open>Small letters\<close>

definition small :: string where
  "small = ''abcdefghijklmnopqrstuvwxyz_''"

definition marks :: "string list" where
  "marks = [''='', '':'', ''?'', ''&'', ''-'']"

text \<open>No other case of a small letter is a small letter, a blank or a mark.\<close>

lemma small_swap: "list_all (\<lambda>c. \<not> is_cont c \<and> \<not> is_ws [c] \<and> \<not> is_ws (swap_case [c]) \<and> ascii_lower c = c
    \<and> (swap_case [c] = [c] \<or> (\<not> list_ex (\<lambda>d. swap_case [c] = [d]) small \<and> \<not> list_ex (\<lambda>m. swap_case [c] = m) marks))) small"
  by code_simp

definition apart :: "string \<Rightarrow> string list \<Rightarrow> bool" where
  "apart s ds \<longleftrightarrow> list_all (\<lambda>c. c \<in> set small \<and> [c] \<notin> set ds) s
     \<and> list_all (\<lambda>d. d \<in> set marks \<or> list_ex (\<lambda>c. d = [c]) small) ds"

lemma apart_chars: "apart s ds \<Longrightarrow> py_chars s = map (\<lambda>c. [c]) s"
  using small_swap by (intro py_chars_ascii) (auto simp: apart_def list_all_iff)

lemma apart_lacks:
  assumes "apart s ds"
  shows "lacks ascii_unicode ds (py_chars s)"
proof -
  have "v \<notin> set ds \<and> \<not> is_ws v" if "c \<in> set s" "v \<in> set (stands_for ascii_unicode True [c])" for c v
  proof -
    have c: "c \<in> set small" "[c] \<notin> set ds" "\<forall>d\<in>set ds. d \<in> set marks \<or> (\<exists>c\<in>set small. d = [c])"
      using assms that(1) by (auto simp: apart_def list_all_iff list_ex_iff)
    have v: "v = [c] \<or> v = swap_case [c]" using that(2) by (auto simp: stands_for_def ascii_unicode_def)
    from small_swap c(1) have "\<not> is_ws [c]" "\<not> is_ws (swap_case [c])"
      "swap_case [c] = [c] \<or> (\<forall>d\<in>set small. swap_case [c] \<noteq> [d]) \<and> swap_case [c] \<notin> set marks"
      by (auto simp: list_all_iff list_ex_iff)
    with c v show ?thesis by metis
  qed
  then show ?thesis by (auto simp: lacks_def apart_chars [OF assms] list_all_iff)
qed

lemma apart_lower: "apart s ds \<Longrightarrow> py_lower ascii_unicode s = s"
proof -
  assume a: "apart s ds"
  then have "\<forall>c\<in>set s. ascii_lower c = c" using small_swap by (auto simp: apart_def list_all_iff)
  then have "concat (map (\<lambda>c. [ascii_lower c]) s) = s" by (induction s) simp_all
  then show ?thesis by (simp add: py_lower_def apart_chars [OF a] comp_def)
qed

lemma apart_plain:
  assumes "apart s [''='', '':'', ''?'', ''&'']" "apart s [''-'', '':'', x]" "x \<in> {''_'', ''g'', ''h''}"
  shows "plain_text ascii_unicode s"
  using assms by (auto simp: plain_text_def dest: apart_lacks)

section \<open>The structure of a request\<close>

lemma word_plain:
  assumes "apart s [''='', '':'', ''?'', ''&'']" "apart s [''-'', '':'', ''_''] \<or> apart s [''-'', '':'', ''g''] \<or> apart s [''-'', '':'', ''h'']"
  shows "plain_text ascii_unicode s"
  using assms apart_plain [OF assms(1)] by blast

lemma modes_plain: "plain_text ascii_unicode (task_mode_value m)"
  by (rule word_plain; cases m) (simp_all add: apart_def small_def marks_def)

lemma priorities_plain: "plain_text ascii_unicode (task_priority_value p)"
  by (rule word_plain; cases p) (simp_all add: apart_def small_def marks_def)

lemma capabilities_plain: "plain_text ascii_unicode (capability_value c)"
  by (rule word_plain; cases c) (simp_all add: apart_def small_def marks_def)

text \<open>
  Every name of a secret has one of the characters of each of these lists; the field names of a
  request avoid one list each, and two are matched.
\<close>

lemma needs_names: "list_all (\<lambda>ds. needs ds sensitive_key_rx) [[''b'', ''k'', ''n'', ''s''], [''b'', ''d'', ''t'', ''y''],
    [''a'', ''c'', ''k''], [''b'', ''k'', ''t'', ''w''], [''a'', ''b'', ''s''], [''d'', ''e'', ''h'']]"
  by code_simp

lemma plain_name:
  assumes "apart k ds" "needs ds sensitive_key_rx"
  shows "\<not> is_sensitive_key ascii_unicode k"
  using needs_absent(3) [OF assms(2) apart_lacks [OF assms(1)]] lacks_strip [OF apart_lacks [OF assms(1)]]
    apart_lower [OF assms(1)] by (simp add: is_sensitive_key_def)

text \<open>The field names, by the list they avoid.\<close>

lemma fields_apart:
  "list_all (\<lambda>k. apart k [''b'', ''k'', ''n'', ''s'']) [''project_id'', ''title'', ''goal'', ''mode'', ''priority'', ''approval_required'']"
  "list_all (\<lambda>k. apart k [''b'', ''d'', ''t'', ''y'']) [''risk_level'', ''workspace'', ''source_channel'', ''reference_image'']"
  "list_all (\<lambda>k. apart k [''a'', ''c'', ''k'']) [''requested_by'']"
  "list_all (\<lambda>k. apart k [''b'', ''k'', ''t'', ''w''])
     [''source_session_id'', ''source_message_id'', ''deadline'', ''prior_evidence'', ''governed_coding'']"
  "list_all (\<lambda>k. apart k [''a'', ''b'', ''s'']) [''idempotency_key'']"
  "list_all (\<lambda>k. apart k [''d'', ''e'', ''h'']) [''constraints'', ''capability'']"
  by (simp_all add: apart_def small_def marks_def)

lemma chat_field: "is_sensitive_key ascii_unicode ''source_chat_id'' = False"
  by code_simp

lemma correlation_field: "is_sensitive_key ascii_unicode ''correlation_id'' = False"
  by code_simp

lemma fields_kept:
  "list_all (\<lambda>k. \<not> is_sensitive_key ascii_unicode k)
     ([''project_id'', ''title'', ''goal'', ''mode'', ''priority'', ''approval_required'']
      @ [''risk_level'', ''workspace'', ''source_channel'', ''reference_image''] @ [''requested_by'']
      @ [''source_session_id'', ''source_message_id'', ''deadline'', ''prior_evidence'', ''governed_coding'']
      @ [''idempotency_key''] @ [''constraints'', ''capability''] @ [''source_chat_id'', ''correlation_id''])"
proof -
  have n: "needs [''b'', ''k'', ''n'', ''s''] sensitive_key_rx" "needs [''b'', ''d'', ''t'', ''y''] sensitive_key_rx"
    "needs [''a'', ''c'', ''k''] sensitive_key_rx" "needs [''b'', ''k'', ''t'', ''w''] sensitive_key_rx"
    "needs [''a'', ''b'', ''s''] sensitive_key_rx" "needs [''d'', ''e'', ''h''] sensitive_key_rx"
    using needs_names by (simp_all only: list.pred_inject)
  have step: "list_all (\<lambda>k. apart k ds) ks \<Longrightarrow> needs ds sensitive_key_rx \<Longrightarrow> list_all (\<lambda>k. \<not> is_sensitive_key ascii_unicode k) ks"
    for ds ks by (auto simp: list_all_iff dest: plain_name)
  show ?thesis
    unfolding list_all_append
    by (intro conjI step [OF fields_apart(1) n(1)] step [OF fields_apart(2) n(2)] step [OF fields_apart(3) n(3)]
        step [OF fields_apart(4) n(4)] step [OF fields_apart(5) n(5)] step [OF fields_apart(6) n(6)])
      (simp only: list.pred_inject chat_field correlation_field simp_thms)
qed

end
