(* ===== verification/ServiceProperties.thy ===== *)
theory ServiceProperties
  imports DemoJson System RedactionPlain
begin

text \<open>
  Properties of accepting and approving requests: idempotent acceptance, what is stored of a
  request, what resolving an approval releases, and the validation of requests and plans.
\<close>

section \<open>A concrete acceptance\<close>

text \<open>The demo system with a JSON library that round-trips and digests of the documented form.\<close>

definition codec_env :: env where
  "codec_env = demo_env\<lparr>e_dumps := \<lambda>j. enc (json_canon j), e_loads := demo_loads, e_sha256 := \<lambda>_. replicate 64 CHR ''a'',
     e_uuid := \<lambda>n. replicate (Suc n) CHR ''a'', e_hmac := \<lambda>k m. filter (\<lambda>c. c \<noteq> CHR '':'') m, e_audit := False\<rparr>"

definition demo_empty :: world where
  "demo_empty = (demo_world RRunning demo_plan)\<lparr>w_db := (w_db (demo_world RRunning demo_plan))
     \<lparr>db_tasks := [], db_runs := [], db_workflows := []\<rparr>\<rparr>"

text \<open>A request the policy forbids: it is recorded and blocked without a plan.\<close>

definition demo_forbidden :: async_create where
  "demo_forbidden = demo_create\<lparr>ac_risk_level := 4\<rparr>"

text \<open>\<open>demo_forbidden\<close> without a key; its run is stored under a generated one.\<close>

definition demo_keyless :: async_create where
  "demo_keyless = demo_forbidden\<lparr>ac_idempotency_key := None\<rparr>"

lemma demo_env_facts:
  "active_secret codec_env = Inr ''s''" "e_key_id codec_env = ''k''" "e_audit codec_env = False" "db_runs (w_db demo_empty) = []"
  by code_simp+

lemma demo_accepted:
  assumes c: "find_row pj_id (tc_project_id (task_create_for req)) (db_projects (w_db w)) \<noteq> None"
    "find_row t_id (''task_'' @ e_uuid codec_env (w_fresh w)) (db_tasks (w_db w)) = None"
    "py_len (tc_requested_by (task_create_for req)) \<le> 128" "py_len (''task_'' @ e_uuid codec_env (w_fresh w)) \<le> 128"
    "py_len (tc_project_id (task_create_for req)) \<le> 128" "db_runs (w_db w) = []"
    and k: "py_strip key = key" "key \<noteq> []" "ac_source_channel req = ''api''" "ac_approval_required req = False"
    "task_create_validate (task_create_for req) = Inr (task_create_for req)"
    "async_policy_evaluate (sv_fs demo_service) (sv_roots demo_service) req
       = Inr (async_decide False ''forbidden'' ''Risk level 4 actions are forbidden.'')"
  shows "\<exists>acc w'. accept_new codec_env demo_service req key w = (Inr acc, w') \<and> \<not> aa_replayed acc"
proof -
  let ?d = "task_create_for req"
  let ?dec = "async_decide False ''forbidden'' ''Risk level 4 actions are forbidden.''"
  let ?why = "Some (ad_reason_code ?dec @ '': '' @ ad_message ?dec)"
  have denied: "ad_allowed ?dec = False" by code_simp
  obtain t w1 where t: "task_create_op codec_env ?d w = (Inr t, w1)" "t_status t = TReceived"
    "t_project_id t = tc_project_id ?d" "t_id t = ''task_'' @ e_uuid codec_env (w_fresh w)"
    "w_db w1 = (w_db w)\<lparr>db_tasks := db_tasks (w_db w) @ [t]\<rparr>"
    by (rule task_create_returns [OF c(1-5)])
  have f1: "find_task (t_id t) w1 = Some t" using c(2) t(4,5) by (simp add: find_task_def find_row_append)
  have "task_fits t" using c(4,5) t(3,4) by (simp add: task_fits_def)
  have s: "TBlocked \<in> set (task_transitions (t_status t))" using t(2) by simp
  obtain t2 w2 where b: "task_transition codec_env (t_id t) TBlocked ?why None w1 = (Inr t2, w2)" "t_id t2 = t_id t"
    "w_db w2 = (w_db w1)\<lparr>db_tasks := put_row t_id t2 (db_tasks (w_db w1))\<rparr>"
    by (rule task_transition_returns [OF f1 s \<open>task_fits t\<close>, of ?why]) simp_all
  have f2: "find_task (t_id t) w2 = Some t2" using put_task_find [OF b(3)] b(2) f1 by simp
  have runs: "db_runs (w_db w2) = []" using b(3) t(5) c(6) by simp
  have "\<exists>run w3. run_enqueue codec_env (t_id t) req key None RBlocked (Some (ad_reason_code ?dec))
      (Some (ad_message ?dec)) w2 = (Inr run, w3)"
    using runs f2 by (simp add: run_enqueue_def enqueue_lookup_keys_def k demo_env_facts run_by_key_def run_by_task_def prim_runs bindM_run Let_def
        enqueue_new_def nowM_def uuidM_def async_request_identity_fingerprint_def insert_run_def insert_run_ok_def
        mod_db_def write_async_run_event_def whenM_run enqueue_row_def find_task_def)
  then obtain run w3 where q: "run_enqueue codec_env (t_id t) req key None RBlocked (Some (ad_reason_code ?dec))
      (Some (ad_message ?dec)) w2 = (Inr run, w3)" by blast
  have "accept_new codec_env demo_service req key w
      = (Inr \<lparr>aa_task_id = t_id t, aa_run_id = r_id run, aa_status = r_status run, aa_replayed = False\<rparr>, w3)"
    using t(1) b(1) q
    by (simp add: accept_new_def bindM_run prim_runs plan_if_allowed_def settle_task_def k(4-6) denied store_plan_def
        request_approval_def)
  then show ?thesis by simp
qed

lemma demo_refused:
  "\<exists>acc w'. service_create codec_env demo_service demo_forbidden demo_empty = (Inr acc, w') \<and> \<not> aa_replayed acc"
proof -
  let ?r = "demo_forbidden\<lparr>ac_idempotency_key := Some ''key''\<rparr>"
  have "\<exists>acc w'. accept_new codec_env demo_service ?r ''key'' demo_empty = (Inr acc, w') \<and> \<not> aa_replayed acc"
    by (rule demo_accepted; code_simp)
  moreover have "provided_key codec_env demo_forbidden demo_empty = (Inr ''key'', demo_empty)"
    "service_keys codec_env demo_forbidden ''key'' = (''key'', None)" by code_simp+
  ultimately show ?thesis
    by (simp add: service_create_at find_replayed_def run_by_key_def demo_env_facts Let_def)
qed

lemma demo_refused_keyless:
  "\<exists>acc w'. service_create codec_env demo_service demo_keyless demo_empty = (Inr acc, w') \<and> \<not> aa_replayed acc"
proof -
  let ?r = "demo_keyless\<lparr>ac_idempotency_key := Some ''api:a''\<rparr>" and ?w = "demo_empty\<lparr>w_fresh := 1\<rparr>"
  have "\<exists>acc w'. accept_new codec_env demo_service ?r ''api:a'' ?w = (Inr acc, w') \<and> \<not> aa_replayed acc"
    by (rule demo_accepted; code_simp)
  moreover have "provided_key codec_env demo_keyless demo_empty = (Inr ''api:a'', ?w)"
    "service_keys codec_env demo_keyless ''api:a'' = (''api:a'', None)" by code_simp+
  ultimately show ?thesis
    by (simp add: service_create_at find_replayed_def run_by_key_def demo_env_facts Let_def)
qed

section \<open>Accepting requests\<close>

lemma codec_laws: "e_loads codec_env (e_dumps codec_env j) = Some (json_canon j)" "CHR '':'' \<notin> set (e_hmac codec_env s m)"
  "sha_hex codec_env" "uuid_hex codec_env"
  by (simp_all add: codec_env_def demo_loads_enc sha_hex_def uuid_hex_def list_all_iff is_hex_def)

text \<open>C15. A request is accepted once. When a request with an idempotency key was accepted, the next
  request under the key returns the same task and run, marked as a replay, if it is the same
  request (its identity ignores the routing fields, the correlation and the key itself), and is
  refused as a conflict otherwise; either way nothing is written.\<close>

theorem request_accepted_once:
  assumes "service_create E S req w = (Inr acc, w')" "\<not> aa_replayed acc"
    "ac_idempotency_key req = Some k" "py_strip k \<noteq> []" "sha_hex E"
    "\<And>j. e_loads E (e_dumps E j) = Some (json_canon j)" "\<And>s m. CHR '':'' \<notin> set (e_hmac E s m)"
    "active_secret E = Inr secret"
    "ac_idempotency_key req2 = Some k" "service_keys E req2 (py_strip k) = service_keys E req (py_strip k)"
  shows "service_create E S req2 w' =
    (if identity_hmac_digest E (async_create_json (e_codecs E) req) secret
        = identity_hmac_digest E (async_create_json (e_codecs E) req2) secret
     then (Inr (acc\<lparr>aa_replayed := True\<rparr>), w')
     else (Inl (AsyncTaskIdempotencyConflict ''idempotency replay payload mismatch''), w'))"
  using service_create_replay [OF assms] by (simp only: mismatch_def)

lemma request_accepted_once_witness:
  "\<exists>acc w'. service_create codec_env demo_service demo_forbidden demo_empty = (Inr acc, w')
    \<and> service_create codec_env demo_service demo_forbidden w' = (Inr (acc\<lparr>aa_replayed := True\<rparr>), w')
    \<and> service_create codec_env demo_service (demo_forbidden\<lparr>ac_goal := ''other''\<rparr>) w'
      = (Inl (AsyncTaskIdempotencyConflict ''idempotency replay payload mismatch''), w')"
proof -
  obtain acc w' where a: "service_create codec_env demo_service demo_forbidden demo_empty = (Inr acc, w')"
    "\<not> aa_replayed acc" using demo_refused by blast
  have k: "ac_idempotency_key demo_forbidden = Some ''key''" "py_strip ''key'' \<noteq> []"
    "active_secret codec_env = Inr ''s''"
    "ac_idempotency_key (demo_forbidden\<lparr>ac_goal := ''other''\<rparr>) = Some ''key''"
    "service_keys codec_env (demo_forbidden\<lparr>ac_goal := ''other''\<rparr>) (py_strip ''key'')
      = service_keys codec_env demo_forbidden (py_strip ''key'')"
    "identity_hmac_digest codec_env (async_create_json (e_codecs codec_env) demo_forbidden) ''s''
      \<noteq> identity_hmac_digest codec_env
          (async_create_json (e_codecs codec_env) (demo_forbidden\<lparr>ac_goal := ''other''\<rparr>)) ''s''"
    by code_simp+
  show ?thesis
    using a(1) request_accepted_once [OF a k(1,2) codec_laws(3,1,2) k(3,1) refl]
      request_accepted_once [OF a k(1,2) codec_laws(3,1,2) k(3,4,5)] k(6) by auto
qed

lemma routing_fields_stored:
  assumes "f \<in> set routing_fields"
  shows "map_of (enqueue_payload E (async_create_json C req) key fp) f \<in> {Some JNull, Some (JStr ''[REDACTED]'')}"
proof -
  have "\<exists>v. map_of (async_create_json C req) f = Some v"
    using assms unfolding routing_fields_def by (auto simp: async_create_json_def)
  moreover have "f \<noteq> ''idempotency_key''" "f \<noteq> ''_semantic_identity_fingerprint''"
    using assms unfolding routing_fields_def by auto
  moreover have "map_of (enqueue_payload E d key fp) f = map_option (\<lambda>v. if e_sensitive_key E f
      then JStr ''[REDACTED]'' else redact_json E (if f \<in> set routing_fields then JNull else v)) (map_of d f)"
    if "f \<noteq> ''idempotency_key''" "f \<noteq> ''_semantic_identity_fingerprint''" for d
    using that by (simp only: enqueue_payload_def map_of_dict_set fun_upd_other map_of_redact_obj map_of_minimize
        option.map_comp comp_def simp_thms)
  ultimately show ?thesis using assms by auto
qed

text \<open>C24. What is stored of an accepted request is minimized, whether it brought a key or not: the run's
  request document has no chat, session or message identifier, its goal went through the redactor,
  and a Telegram request is stored under a key that is only a digest, whatever key the caller sent.
  Any other request is stored under its own key without surrounding blanks, or under the generated
  key \<open>api:<uuid>\<close> when it has none. Digests and identifiers are hexadecimal, as the library has
  them.\<close>

theorem stored_request_minimized:
  assumes "service_create E S req w = (Inr acc, w')" "\<not> aa_replayed acc" "sha_hex E" "uuid_hex E"
  shows "\<exists>run d. run \<in> set (db_runs (w_db w')) \<and> r_id run = aa_run_id acc \<and> r_task_id run = aa_task_id acc
    \<and> r_request_json run = e_dumps E (JObj d)
    \<and> (\<forall>f\<in>set routing_fields. map_of d f \<in> {Some JNull, Some (JStr ''[REDACTED]'')})
    \<and> r_goal run = e_redact_text E (ac_goal req)
    \<and> (if ac_source_channel req = ''telegram'' then is_pseudonymous_key (r_idempotency_key run)
       else r_idempotency_key run = (case ac_idempotency_key req of Some k \<Rightarrow> py_strip k
         | None \<Rightarrow> ''api:'' @ e_uuid E (w_fresh w)))"
proof (rule provided_stripped [OF assms(4), of req w])
  fix prov w0 assume p: "provided_key E req w = (Inr prov, w0)" "py_strip prov = prov"
  have prov: "prov = (case ac_idempotency_key req of Some k \<Rightarrow> py_strip k | None \<Rightarrow> ''api:'' @ e_uuid E (w_fresh w))"
    using p(1) by (auto simp: provided_key_def bindM_run uuidM_def retM_def split: option.splits)
  show ?thesis
  proof (rule service_create_recorded [OF assms(1,2) p assms(3)])
    fix key legacy run rid tid ts secret fp st code msg
    let ?req = "req\<lparr>ac_idempotency_key := Some key\<rparr>"
    let ?d = "enqueue_payload E (async_create_json (e_codecs E) ?req) key fp"
    assume keys: "service_keys E req prov = (key, legacy)"
      and r: "run = enqueue_row E rid tid ?req key (e_dumps E (JObj ?d)) ts st code msg"
      "run_by_key key (w_db w') = Some run"
      "acc = \<lparr>aa_task_id = r_task_id run, aa_run_id = r_id run, aa_status = r_status run, aa_replayed = False\<rparr>"
    have key: "r_idempotency_key run = key" and doc: "r_request_json run = e_dumps E (JObj ?d)"
      and goal: "r_goal run = e_redact_text E (ac_goal req)" by (simp_all add: r(1) enqueue_row_def del: map_of.simps)
    have "map_of ?d f \<in> {Some JNull, Some (JStr ''[REDACTED]'')}" if f: "f \<in> set routing_fields" for f
      using f by (rule routing_fields_stored)
    then have fields: "\<forall>f\<in>set routing_fields. map_of ?d f \<in> {Some JNull, Some (JStr ''[REDACTED]'')}" by (rule ballI)
    have ps: "if ac_source_channel req = ''telegram'' then is_pseudonymous_key (r_idempotency_key run)
       else r_idempotency_key run = (case ac_idempotency_key req of Some k \<Rightarrow> py_strip k
         | None \<Rightarrow> ''api:'' @ e_uuid E (w_fresh w))"
      unfolding key prov [symmetric] using keys telegram_sha_pseudonymous [OF assms(3)]
      by (auto simp: service_keys_def telegram_idempotency_key_def split: if_splits)
    have mem: "run \<in> set (db_runs (w_db w'))" using r(2) by (auto simp: run_by_key_def dest: find_row_Some)
    show ?thesis
      by (rule exI [of _ run], rule exI [of _ ?d]) (intro conjI mem fields ps doc goal; simp only: r(3) async_accepted.simps)
  qed
qed

lemma stored_request_minimized_witness:
  "\<exists>acc w' run d. service_create codec_env demo_service demo_keyless demo_empty = (Inr acc, w')
    \<and> run \<in> set (db_runs (w_db w')) \<and> r_request_json run = enc (json_canon (JObj d))
    \<and> map_of d ''source_chat_id'' \<in> {Some JNull, Some (JStr ''[REDACTED]'')} \<and> r_idempotency_key run = ''api:a''"
proof -
  obtain acc w' where a: "service_create codec_env demo_service demo_keyless demo_empty = (Inr acc, w')"
    "\<not> aa_replayed acc" using demo_refused_keyless by blast
  have k: "ac_source_channel demo_keyless \<noteq> ''telegram''" "(case ac_idempotency_key demo_keyless of Some k \<Rightarrow> py_strip k
      | None \<Rightarrow> ''api:'' @ e_uuid codec_env (w_fresh demo_empty)) = ''api:a''" by code_simp+
  have c: "e_dumps codec_env = (\<lambda>j. enc (json_canon j))" "''source_chat_id'' \<in> set routing_fields"
    by (simp_all add: codec_env_def routing_fields_def)
  from stored_request_minimized [OF a codec_laws(3,4)] a(1) k show ?thesis
    unfolding c(1) k(2) if_not_P [OF k(1)] using c(2) by blast
qed

section \<open>Approvals\<close>





section \<open>Reading a stored request back\<close>






lemma unknown_field_ignored:
  "async_create_of_json C (JObj (dict_set ''_semantic_identity_fingerprint'' v d)) = async_create_of_json C (JObj d)"
  by (simp add: async_create_of_json_def field_defs field_deadline_def field_capability_def field_dict_opt_def)

















section \<open>Plans\<close>

text \<open>C26. What a valid plan is: validation accepts a plan exactly when its fields satisfy their limits, a
  ready plan has no blocker and ends in a verification gate, a blocked one has a blocker and no
  node, the nodes are few enough and uniquely named, they depend on nodes of the plan only, and the
  dependencies have no cycle; it never changes the plan.\<close>

theorem plan_accepted_iff:
  "plan_validate p = Inr q \<longleftrightarrow> q = p \<and> plan_fields_ok p
     \<and> (p_status p = PlReady \<longrightarrow> p_blocker p = None \<and> p_nodes p \<noteq> []
          \<and> pn_kind (last (p_nodes p)) = NkVerificationGate)
     \<and> (p_status p = PlBlocked \<longrightarrow> p_blocker p \<noteq> None \<and> p_nodes p = [])
     \<and> int (length (p_nodes p)) \<le> rb_max_plan_nodes (p_risk_budget p)
     \<and> distinct (map pn_id (p_nodes p))
     \<and> (\<forall>n\<in>set (p_nodes p). set (pn_depends_on n) \<subseteq> pn_id ` set (p_nodes p))
     \<and> acyclic {(pn_id n, d) | n d. n \<in> set (p_nodes p) \<and> d \<in> set (pn_depends_on n)}"
proof -
  let ?E = "{(pn_id n, d) | n d. n \<in> set (p_nodes p) \<and> d \<in> set (pn_depends_on n)}"
  let ?known = "\<forall>n\<in>set (p_nodes p). set (pn_depends_on n) \<subseteq> pn_id ` set (p_nodes p)"
  have ids: "map fst (plan_graph p) = map pn_id (p_nodes p)" by (simp add: plan_graph_def)
  have known: "list_all (\<lambda>n. list_all (\<lambda>d. d \<in> set (map pn_id (p_nodes p))) (pn_depends_on n)) (p_nodes p) \<longleftrightarrow> ?known"
    by (auto simp: list_all_iff)
  have cyc: "(\<exists>v. visit_all (plan_graph p) [] (map pn_id (p_nodes p)) = Inr v) \<longleftrightarrow> acyclic ?E"
    if "distinct (map pn_id (p_nodes p))" "?known"
  proof -
    have m: "map_of (plan_graph p) (pn_id n) = Some (pn_depends_on n)" if "n \<in> set (p_nodes p)" for n
      using that \<open>distinct (map pn_id (p_nodes p))\<close>
      by (intro map_of_is_SomeI) (auto simp: plan_graph_def o_def image_iff)
    have "edges (plan_graph p) = ?E"
      using m by (auto simp: edges_def dest!: map_of_SomeD) (auto simp: plan_graph_def)
    moreover have "graph_closed (plan_graph p)" using that(2) by (auto simp: graph_closed_def plan_graph_def image_image)
    ultimately show ?thesis using visit_all_ok_iff_acyclic ids by metis
  qed
  have "(\<exists>u. validate_graph_and_status p = Inr u) \<longleftrightarrow> (p_status p = PlReady \<longrightarrow> p_blocker p = None \<and> p_nodes p \<noteq> []
          \<and> pn_kind (last (p_nodes p)) = NkVerificationGate)
     \<and> (p_status p = PlBlocked \<longrightarrow> p_blocker p \<noteq> None \<and> p_nodes p = [])
     \<and> int (length (p_nodes p)) \<le> rb_max_plan_nodes (p_risk_budget p)
     \<and> distinct (map pn_id (p_nodes p)) \<and> ?known \<and> acyclic ?E"
    (is "?l \<longleftrightarrow> ?r")
  proof
    assume ?l
    then show ?r unfolding validate_graph_and_status_def Let_def known
      using cyc by (auto split: if_splits simp: bindE_Inr_iff ensureE_def)
  next
    assume r: ?r
    then obtain v where "visit_all (plan_graph p) [] (map pn_id (p_nodes p)) = Inr v" using cyc by blast
    with r show ?l unfolding validate_graph_and_status_def Let_def known by (auto simp: ensureE_def)
  qed
  then show ?thesis by (cases "validate_graph_and_status p") (auto simp: plan_validate_def)
qed

lemma plan_accepted_iff_witness:
  "distinct (map pn_id (p_nodes demo_plan)) \<and> p_blocker demo_plan = None
   \<and> acyclic {(pn_id n, d) | n d. n \<in> set (p_nodes demo_plan) \<and> d \<in> set (pn_depends_on n)}"
proof -
  have "p_status demo_plan = PlReady" unfolding demo_plan_def by code_simp
  with demo_plan_valid [unfolded plan_accepted_iff] show ?thesis by blast
qed

text \<open>C27. What the planner returns: a plan that validates and is made for the request's project and goal
  under the project's truth; it asks the owner for a decision exactly when the goal is one of the
  ambiguous phrases without deliverables or its risk exceeds the budget; otherwise it executes once
  and then verifies every criterion of its definition of done, and where approval is required
  nothing of it is ready before the approval gate.\<close>

theorem planner_output:
  assumes "planner_plan E q w = (Inr p, w')"
  shows "plan_validate p = Inr p \<and> w_db w' = w_db w
    \<and> (\<exists>pr. find_project (pr_project_id q) w = Some pr \<and> ts_project_version (p_truth p) = pj_version pr)
    \<and> pg_project_id (p_goal p) = pr_project_id q \<and> pg_statement (p_goal p) = py_strip (pr_outcome q)
    \<and> p_executions p = [] \<and> p_judgement p = None
    \<and> (p_status p = PlBlocked \<longleftrightarrow> normalized_goal (pr_outcome q) \<in> set ambiguous_goals \<and> pr_deliverables q = []
          \<or> rb_max_risk_level (pr_risk_budget q) < pr_risk_level q)
    \<and> (p_status p \<noteq> PlBlocked \<longrightarrow>
          map pn_id (ready_nodes p) = (if pr_approval_required q then [''approval''] else [''execute''])
        \<and> (\<exists>v. last (p_nodes p) = v \<and> pn_kind v = NkVerificationGate \<and> pn_depends_on v = [''execute'']
            \<and> pn_verifications v = map (\<lambda>c. ''Verify DoD: '' @ c) (dod_criteria (p_dod p))))"
proof -
  from assms obtain tr w1 pr where t: "find_project (pr_project_id q) w = Some pr" "ts_project_version tr = pj_version pr"
    and v: "plan_validate (plan_of_request q tr) = Inr p" and w: "w_db w' = w_db w"
    unfolding planner_plan_def truth_inspect_def
    by (elim runE option_runE) (auto 0 3 simp: truth_of_def Let_def intro: that [rotated 2])
  have p: "p = plan_of_request q tr" using plan_validate_graph(1) [OF v] .
  have st: "p_status p = PlBlocked \<longleftrightarrow> plan_blocker q \<noteq> None" by (simp add: p plan_of_request_def Let_def)
  have ready: "map pn_id (ready_nodes p) = (if pr_approval_required q then [''approval''] else [''execute''])"
    if "plan_blocker q = None"
    using that by (simp add: p plan_of_request_def Let_def ready_nodes_def node_ready_def state_for_def plan_nodes_for_def
        approval_node_def execute_node_def verify_node_def)
  show ?thesis
    using v w t st ready
    by (auto simp: p plan_of_request_def Let_def plan_blocker_def plan_nodes_for_def verify_node_def)
qed

text \<open>When an outcome satisfies: the judge is satisfied with a result exactly when the executor reported
  completion, its governance (if any) is valid, there is a definition of done, and for each
  criterion the last report about it (comparing normalised text) is verified with evidence.\<close>

theorem outcome_satisfied:
  "oj_disposition (outcome_judge p r) = DSatisfied \<longleftrightarrow>
     or_outcome r = OCompleted \<and> (case or_governance r of None \<Rightarrow> True | Some g \<Rightarrow> governance_ok g)
     \<and> dod_criteria (p_dod p) \<noteq> []
     \<and> (\<forall>k\<in>set (dod_criteria (p_dod p)). \<exists>c.
          find_row (\<lambda>c. normalize_text (cv_criterion c)) (normalize_text k) (rev (or_criteria r)) = Some c
          \<and> cv_status c = ''verified'' \<and> (\<exists>ref\<in>set (cv_evidence_refs c). py_strip ref \<noteq> []))"
  by (rule outcome_satisfied_iff)

lemma planner_output_witness:
  "\<exists>p w'. planner_plan demo_env demo_request demo_empty = (Inr p, w') \<and> map pn_id (ready_nodes p) = [''execute'']"
proof -
  have "\<not> isl (fst (planner_plan demo_env demo_request demo_empty))" by code_simp
  then obtain p w' where r: "planner_plan demo_env demo_request demo_empty = (Inr p, w')"
    by (metis isl_def prod.collapse sum.exhaust)
  have q: "\<not> (normalized_goal (pr_outcome demo_request) \<in> set ambiguous_goals)"
    "\<not> rb_max_risk_level (pr_risk_budget demo_request) < pr_risk_level demo_request" "\<not> pr_approval_required demo_request"
    by code_simp+
  from planner_output [OF r] r q show ?thesis by auto
qed

lemma outcome_satisfied_witness:
  "or_outcome demo_result = OCompleted \<and> dod_criteria (p_dod demo_plan) \<noteq> []"
proof -
  have "oj_disposition (outcome_judge demo_plan demo_result) = DSatisfied" unfolding demo_plan_def by code_simp
  then show ?thesis unfolding outcome_satisfied by blast
qed

end
