(* ===== verification/CacheTier.thy ===== *)
theory CacheTier
  imports Main
begin

text \<open>
  What a tier of a cache promises its callers: it is a map that may forget. Every operation
  leaves it at most what an ideal map would hold, so a hit is what the ideal map holds. A tier
  with a capacity also keeps within its bounds.
\<close>

datatype ('k, 'g, 'p, 'd) map_op = Look 'k 'g | Store 'k 'p | Drop 'k 'd

text \<open>The ideal map after a sequence of operations.\<close>

primrec ideal_map :: "('p \<Rightarrow> 'v) \<Rightarrow> ('k, 'g, 'p, 'd) map_op list \<Rightarrow> ('k \<rightharpoonup> 'v) \<Rightarrow> ('k \<rightharpoonup> 'v)" where
  "ideal_map val [] m = m"
| "ideal_map val (x # xs) m = ideal_map val xs
     (case x of Look k g \<Rightarrow> m | Store k p \<Rightarrow> m(k \<mapsto> val p) | Drop k d \<Rightarrow> m(k := None))"

primrec run_ops ::
  "('s \<Rightarrow> 'k \<Rightarrow> 'g \<Rightarrow> 'v option \<times> 's) \<Rightarrow> ('s \<Rightarrow> 'k \<Rightarrow> 'p \<Rightarrow> 's) \<Rightarrow> ('s \<Rightarrow> 'k \<Rightarrow> 'd \<Rightarrow> 's)
   \<Rightarrow> ('k, 'g, 'p, 'd) map_op list \<Rightarrow> 's \<Rightarrow> 's" where
  "run_ops look put forget [] s = s"
| "run_ops look put forget (x # xs) s = run_ops look put forget xs
     (case x of Look k g \<Rightarrow> snd (look s k g) | Store k p \<Rightarrow> put s k p | Drop k d \<Rightarrow> forget s k d)"

locale lossy_map =
  fixes look :: "'s \<Rightarrow> 'k \<Rightarrow> 'g \<Rightarrow> 'v option \<times> 's"
    and put :: "'s \<Rightarrow> 'k \<Rightarrow> 'p \<Rightarrow> 's"
    and forget :: "'s \<Rightarrow> 'k \<Rightarrow> 'd \<Rightarrow> 's"
    and val :: "'p \<Rightarrow> 'v"
    and stored :: "'s \<Rightarrow> ('k \<rightharpoonup> 'v)"
    and wf :: "'s \<Rightarrow> bool"
    and valid :: "('k, 'g, 'p, 'd) map_op \<Rightarrow> bool"
  assumes look_wf: "wf s \<Longrightarrow> valid (Look k g) \<Longrightarrow> wf (snd (look s k g))"
    and look_stored: "wf s \<Longrightarrow> valid (Look k g) \<Longrightarrow> stored (snd (look s k g)) \<subseteq>\<^sub>m stored s"
    and look_hit: "wf s \<Longrightarrow> valid (Look k g) \<Longrightarrow> fst (look s k g) = Some v \<Longrightarrow> stored s k = Some v"
    and put_wf: "wf s \<Longrightarrow> valid (Store k p) \<Longrightarrow> wf (put s k p)"
    and put_stored: "wf s \<Longrightarrow> valid (Store k p) \<Longrightarrow> stored (put s k p) \<subseteq>\<^sub>m (stored s)(k \<mapsto> val p)"
    and forget_wf: "wf s \<Longrightarrow> valid (Drop k d) \<Longrightarrow> wf (forget s k d)"
    and forget_stored: "wf s \<Longrightarrow> valid (Drop k d) \<Longrightarrow> stored (forget s k d) \<subseteq>\<^sub>m (stored s)(k := None)"
begin

lemma upd_mono: "m \<subseteq>\<^sub>m m' \<Longrightarrow> m(k := x) \<subseteq>\<^sub>m m'(k := x)"
  by (auto simp: map_le_def)

lemma run_refines:
  "wf s \<Longrightarrow> list_all valid xs \<Longrightarrow> stored s \<subseteq>\<^sub>m m \<Longrightarrow>
   wf (run_ops look put forget xs s) \<and> stored (run_ops look put forget xs s) \<subseteq>\<^sub>m ideal_map val xs m"
proof (induction xs arbitrary: s m)
  case (Cons x xs)
  let ?s = "case x of Look k g \<Rightarrow> snd (look s k g) | Store k p \<Rightarrow> put s k p | Drop k d \<Rightarrow> forget s k d"
  let ?m = "case x of Look k g \<Rightarrow> m | Store k p \<Rightarrow> m(k \<mapsto> val p) | Drop k d \<Rightarrow> m(k := None)"
  have v: "valid x" "list_all valid xs" using Cons.prems(2) by simp_all
  have "wf ?s" using v(1) Cons.prems(1) by (cases x) (simp_all add: look_wf put_wf forget_wf)
  moreover have "stored ?s \<subseteq>\<^sub>m ?m"
    using v(1) Cons.prems(1,3)
    by (cases x) (auto intro: map_le_trans [OF look_stored] map_le_trans [OF put_stored upd_mono]
        map_le_trans [OF forget_stored upd_mono])
  ultimately show ?case using Cons.IH [OF _ v(2)] by simp
qed simp

text \<open>A hit is the value of the last store of the key, which nothing has dropped since.\<close>

lemma hit_is_ideal:
  assumes "wf s" "list_all valid xs" "stored s \<subseteq>\<^sub>m m" "valid (Look k g)"
    "fst (look (run_ops look put forget xs s) k g) = Some v"
  shows "ideal_map val xs m k = Some v"
proof -
  have r: "wf (run_ops look put forget xs s)" "stored (run_ops look put forget xs s) \<subseteq>\<^sub>m ideal_map val xs m"
    using run_refines [OF assms(1-3)] by simp_all
  with look_hit [OF r(1) assms(4,5)] show ?thesis by (auto simp: map_le_def dom_def)
qed

text \<open>The weaker view of a caller that combines tiers: a value that is stored was stored before.\<close>

lemma put_origin: "wf s \<Longrightarrow> valid (Store k p) \<Longrightarrow> stored (put s k p) j = Some v \<Longrightarrow>
    (j = k \<and> v = val p) \<or> stored s j = Some v"
  by (drule (1) put_stored) (cases "j = k", auto simp: map_le_def dom_def)

lemma look_origin: "wf s \<Longrightarrow> valid (Look k g) \<Longrightarrow> stored (snd (look s k g)) j = Some v \<Longrightarrow> stored s j = Some v"
  by (drule (1) look_stored) (auto simp: map_le_def dom_def)

lemma forget_origin: "wf s \<Longrightarrow> valid (Drop k d) \<Longrightarrow> stored (forget s k d) j = Some v \<Longrightarrow> j \<noteq> k \<and> stored s j = Some v"
  by (drule (1) forget_stored) (cases "j = k", auto simp: map_le_def dom_def)

end

locale bounded_map = lossy_map +
  fixes fits :: "'a \<Rightarrow> bool"
  assumes look_fits: "wf s \<Longrightarrow> valid (Look k g) \<Longrightarrow> fits s \<Longrightarrow> fits (snd (look s k g))"
    and put_fits: "wf s \<Longrightarrow> valid (Store k p) \<Longrightarrow> fits s \<Longrightarrow> fits (put s k p)"
    and forget_fits: "wf s \<Longrightarrow> valid (Drop k d) \<Longrightarrow> fits s \<Longrightarrow> fits (forget s k d)"
begin

lemma run_fits: "wf s \<Longrightarrow> list_all valid xs \<Longrightarrow> fits s \<Longrightarrow> fits (run_ops look put forget xs s)"
proof (induction xs arbitrary: s)
  case (Cons x xs)
  then show ?case
    by (cases x) (simp_all add: look_wf put_wf forget_wf look_fits put_fits forget_fits)
qed simp

end

end
