(* ===== verification/Cache.thy ===== *)
theory Cache
  imports Errors CacheTier "HOL-Library.Multiset"
begin

text \<open>
  The two-tier cache of \<open>app/cache\<close>: keys (\<open>keys.py\<close>), the in-memory tier with TTL and LRU
  eviction (\<open>l1.py\<close>), the SQLite tier (\<open>l2_sqlite.py\<close>) and the service that coordinates them
  (\<open>service.py\<close>).

  Times are integers (microseconds); the readings a call makes of the two clocks are arguments, in
  the order the code makes them, and so are the failures of SQLite. Latencies are not kept.
  \<open>json.dumps\<close> occurs in three forms: compact with sorted keys (\<open>cl_canonical\<close>), sorted
  (\<open>cl_sorted\<close>) and plain (\<open>cl_dumps\<close>).
\<close>

record cache_lib =
  cl_canonical :: "json \<Rightarrow> string"
  cl_sorted :: "json \<Rightarrow> string"
  cl_dumps :: "json \<Rightarrow> string"
  cl_loads :: "string \<Rightarrow> json option"
  cl_sha256 :: "string \<Rightarrow> string"

section \<open>Keys\<close>

definition generate_cache_key :: "cache_lib \<Rightarrow> string \<Rightarrow> json \<Rightarrow> string res" where
  "generate_cache_key L ns key_data =
     bindE (ensureE (ns \<noteq> []) (ValueError ''namespace must be a non-empty string'')) (\<lambda>_.
     Inr (''adcache:v1:'' @ ns @ '':'' @ cl_sha256 L (cl_canonical L key_data)))"

definition extract_key_hash :: "string \<Rightarrow> string res" where
  "extract_key_hash key =
     (case split_on CHR '':'' key of
        [a, v, ns, h] \<Rightarrow> if a = ''adcache'' then Inr h
                        else Inl (ValueError (''invalid cache key format: '' @ key))
      | _ \<Rightarrow> Inl (ValueError (''invalid cache key format: '' @ key)))"

definition generate_dependency_fingerprint :: "cache_lib \<Rightarrow> json \<Rightarrow> string" where
  "generate_dependency_fingerprint L deps = cl_sha256 L (cl_canonical L deps)"

text \<open>\<open>key.split(":")[2]\<close> and \<open>[3]\<close>; None where Python raises IndexError.\<close>

definition key_namespace :: "string \<Rightarrow> string option" where
  "key_namespace key = (case split_on CHR '':'' key of _ # _ # ns # _ \<Rightarrow> Some ns | _ \<Rightarrow> None)"

definition key_parts :: "string \<Rightarrow> (string \<times> string) option" where
  "key_parts key = (case split_on CHR '':'' key of _ # _ # ns # h # _ \<Rightarrow> Some (ns, h) | _ \<Rightarrow> None)"

section \<open>Entries and results\<close>

record cache_entry =
  ce_namespace :: string
  ce_key_hash :: string
  ce_fingerprint :: string
  ce_payload :: json
  ce_payload_sha256 :: string
  ce_created_at :: int
  ce_expires_at :: "int option"
  ce_byte_size :: int
  ce_schema_version :: int
  ce_expires_monotonic :: "int option"

datatype cache_source = FromL1 | FromL2

datatype cache_result =
    CacheHit cache_source json "int option"
  | CacheMiss string

section \<open>The in-memory tier\<close>

text \<open>The ordered dictionary is a list, the least recently used entry first.\<close>

record l1 =
  l1_max_entries :: int
  l1_max_bytes :: int
  l1_store :: "(string \<times> cache_entry) list"
  l1_hits :: int
  l1_misses :: int
  l1_evictions :: int

definition l1_new :: "int \<Rightarrow> int \<Rightarrow> l1" where
  "l1_new entries bytes = \<lparr>l1_max_entries = entries, l1_max_bytes = bytes, l1_store = [],
     l1_hits = 0, l1_misses = 0, l1_evictions = 0\<rparr>"

definition l1_missed :: "l1 \<Rightarrow> l1" where
  "l1_missed s = s\<lparr>l1_misses := l1_misses s + 1\<rparr>"

definition expired_at :: "int \<Rightarrow> int option \<Rightarrow> bool" where
  "expired_at now x \<longleftrightarrow> (case x of None \<Rightarrow> False | Some t \<Rightarrow> t \<le> now)"

definition l1_get :: "l1 \<Rightarrow> string \<Rightarrow> int \<Rightarrow> string option \<Rightarrow> cache_result \<times> l1" where
  "l1_get s key now dep =
     (case map_of (l1_store s) key of
        None \<Rightarrow> (CacheMiss ''not_found'', l1_missed s)
      | Some e \<Rightarrow>
          if dep \<noteq> None \<and> dep \<noteq> Some (ce_fingerprint e)
          then (CacheMiss ''dependency_mismatch'', l1_missed s)
          else if expired_at now (ce_expires_monotonic e)
          then (CacheMiss ''expired'', l1_missed (s\<lparr>l1_store := dict_pop key (l1_store s)\<rparr>))
          else (CacheHit FromL1 (ce_payload e) None,
                s\<lparr>l1_store := dict_pop key (l1_store s) @ [(key, e)], l1_hits := l1_hits s + 1\<rparr>))"

definition in_namespace :: "string \<Rightarrow> string \<times> cache_entry \<Rightarrow> bool" where
  "in_namespace ns p \<longleftrightarrow> key_namespace (fst p) = Some ns"

definition ns_items :: "string \<Rightarrow> (string \<times> cache_entry) list \<Rightarrow> (string \<times> cache_entry) list" where
  "ns_items ns st = filter (in_namespace ns) st"

definition ns_bytes :: "string \<Rightarrow> (string \<times> cache_entry) list \<Rightarrow> int" where
  "ns_bytes ns st = sum_list (map (ce_byte_size \<circ> snd) (ns_items ns st))"

definition over_limits :: "l1 \<Rightarrow> string \<Rightarrow> (string \<times> cache_entry) list \<Rightarrow> bool" where
  "over_limits s ns st \<longleftrightarrow> l1_max_entries s < int (length (ns_items ns st)) \<or> l1_max_bytes s < ns_bytes ns st"

text \<open>The eviction loop: the first key of the namespace goes until the namespace fits or is empty.\<close>

lemma ns_items_shorter:
  "ns_items ns st = p # ps \<Longrightarrow> length (dict_pop (fst p) st) < length st"
proof -
  assume "ns_items ns st = p # ps"
  then have "p \<in> set st" unfolding ns_items_def by (metis filter_is_subset list.set_intros(1) subsetD)
  then have "length (filter (\<lambda>q. fst q \<noteq> fst p) st) < length st" by (rule length_filter_less) simp
  then show ?thesis by (simp add: dict_pop_def split_def)
qed

function l1_evict :: "l1 \<Rightarrow> string \<Rightarrow> (string \<times> cache_entry) list \<times> int \<Rightarrow> (string \<times> cache_entry) list \<times> int" where
  "l1_evict s ns (st, n) =
     (if over_limits s ns st
      then (case ns_items ns st of [] \<Rightarrow> (st, n)
            | p # _ \<Rightarrow> l1_evict s ns (dict_pop (fst p) st, n + 1))
      else (st, n))"
  by pat_completeness auto
termination
  by (relation "measure (\<lambda>(s, ns, st, n). length st)") (auto dest: ns_items_shorter)

declare l1_evict.simps [simp del]

definition keys_split :: "(string \<times> cache_entry) list \<Rightarrow> bool" where
  "keys_split st \<longleftrightarrow> list_all (\<lambda>p. key_namespace (fst p) \<noteq> None) st"

definition l1_put :: "l1 \<Rightarrow> string \<Rightarrow> cache_entry \<Rightarrow> unit res \<times> l1" where
  "l1_put s key e =
     (let st = dict_pop key (l1_store s) @ [(key, e)] in
      if keys_split st
      then (let (st', n) = l1_evict s (ce_namespace e) (st, l1_evictions s) in
            (Inr (), s\<lparr>l1_store := st', l1_evictions := n\<rparr>))
      else (Inl IndexError, s\<lparr>l1_store := st\<rparr>))"

definition l1_invalidate :: "l1 \<Rightarrow> string \<Rightarrow> bool \<times> l1" where
  "l1_invalidate s key =
     (map_of (l1_store s) key \<noteq> None, s\<lparr>l1_store := dict_pop key (l1_store s)\<rparr>)"

definition l1_clear_namespace :: "l1 \<Rightarrow> string \<Rightarrow> int res \<times> l1" where
  "l1_clear_namespace s ns =
     (if keys_split (l1_store s)
      then (Inr (int (length (ns_items ns (l1_store s)))),
            s\<lparr>l1_store := filter (\<lambda>p. \<not> in_namespace ns p) (l1_store s)\<rparr>)
      else (Inl IndexError, s))"

section \<open>The tier as a bounded map that may forget\<close>

definition l1_look :: "l1 \<Rightarrow> string \<Rightarrow> int \<times> string \<Rightarrow> (string \<times> json) option \<times> l1" where
  "l1_look s k g = (case l1_get s k (fst g) (Some (snd g)) of
     (CacheHit _ payload _, s') \<Rightarrow> (Some (snd g, payload), s') | (CacheMiss _, s') \<Rightarrow> (None, s'))"

definition entry_value :: "cache_entry \<Rightarrow> string \<times> json" where
  "entry_value e = (ce_fingerprint e, ce_payload e)"

definition l1_stored :: "l1 \<Rightarrow> string \<Rightarrow> (string \<times> json) option" where
  "l1_stored s k = map_option entry_value (map_of (l1_store s) k)"

definition l1_wf :: "l1 \<Rightarrow> bool" where
  "l1_wf s \<longleftrightarrow> 0 \<le> l1_max_entries s \<and> 0 \<le> l1_max_bytes s \<and> keys_split (l1_store s)
     \<and> distinct (map fst (l1_store s)) \<and> list_all (\<lambda>p. 0 \<le> ce_byte_size (snd p)) (l1_store s)"

text \<open>The service stores an entry under a key of the entry's own namespace.\<close>

fun l1_valid :: "(string, int \<times> string, cache_entry, unit) map_op \<Rightarrow> bool" where
  "l1_valid (Store k e) \<longleftrightarrow> key_namespace k = Some (ce_namespace e) \<and> 0 \<le> ce_byte_size e"
| "l1_valid _ \<longleftrightarrow> True"

definition l1_fits :: "l1 \<Rightarrow> bool" where
  "l1_fits s \<longleftrightarrow> (\<forall>ns. \<not> over_limits s ns (l1_store s))"

lemma keys_split_pop [simp]: "keys_split st \<Longrightarrow> keys_split (dict_pop k st)"
  by (auto simp: keys_split_def dict_pop_def list_all_iff)

lemma keys_split_append [simp]: "keys_split (st @ st') \<longleftrightarrow> keys_split st \<and> keys_split st'"
  by (simp add: keys_split_def)

lemma distinct_pop [simp]: "distinct (map fst st) \<Longrightarrow> distinct (map fst (dict_pop k st))"
  by (simp add: dict_pop_def distinct_map_filter split_def)

lemma pop_absent [simp]: "k \<notin> fst ` set (dict_pop k st)"
  by (auto simp: dict_pop_def)

lemma ns_items_pop_other:
  "key_namespace k \<noteq> Some ns \<Longrightarrow> ns_items ns (dict_pop k st) = ns_items ns st"
  by (induction st) (auto simp: ns_items_def dict_pop_def in_namespace_def)

lemma ns_items_append [simp]: "ns_items ns (st @ st') = ns_items ns st @ ns_items ns st'"
  by (simp add: ns_items_def)

lemma over_limits_cong: "ns_items ns st = ns_items ns st' \<Longrightarrow> over_limits s ns st = over_limits s ns st'"
  by (simp add: over_limits_def ns_bytes_def)

text \<open>Eviction keeps what each of its steps keeps, and stops when the namespace fits or is empty.\<close>

lemma l1_evict_invariant:
  assumes "P st n" "\<And>st n p ps. P st n \<Longrightarrow> over_limits s ns st \<Longrightarrow> ns_items ns st = p # ps \<Longrightarrow>
      P (dict_pop (fst p) st) (n + 1)"
  shows "case l1_evict s ns (st, n) of (st', n') \<Rightarrow> P st' n' \<and> (over_limits s ns st' \<longrightarrow> ns_items ns st' = [])"
  using assms(1)
proof (induction "length st" arbitrary: st n rule: less_induct)
  case less
  show ?case
  proof (cases "over_limits s ns st \<and> ns_items ns st \<noteq> []")
    case True
    then obtain p ps where p: "ns_items ns st = p # ps" by (cases "ns_items ns st") auto
    have "l1_evict s ns (st, n) = l1_evict s ns (dict_pop (fst p) st, n + 1)"
      using True p by (simp add: l1_evict.simps [of s ns st n])
    with less.hyps [OF ns_items_shorter [OF p]] assms(2) [OF less.prems _ p] True show ?thesis by simp
  next
    case False
    then have "l1_evict s ns (st, n) = (st, n)" by (auto simp: l1_evict.simps [of s ns st n] split: list.split)
    with less.prems False show ?thesis by simp
  qed
qed

lemma l1_evict_result:
  assumes "l1_evict s ns (st, n) = (st', n')" "keys_split st" "distinct (map fst st)"
  shows "map_of st' \<subseteq>\<^sub>m map_of st" "keys_split st'" "distinct (map fst st')" "set st' \<subseteq> set st"
    "ns' \<noteq> ns \<Longrightarrow> ns_items ns' st' = ns_items ns' st"
    "0 \<le> l1_max_entries s \<Longrightarrow> 0 \<le> l1_max_bytes s \<Longrightarrow> \<not> over_limits s ns st'"
    "\<exists>k. ns_items ns st' = List.drop k (ns_items ns st)"
proof -
  let ?P = "\<lambda>t m. map_of t \<subseteq>\<^sub>m map_of st \<and> keys_split t \<and> distinct (map fst t) \<and> set t \<subseteq> set st
    \<and> (\<forall>ns'. ns' \<noteq> ns \<longrightarrow> ns_items ns' t = ns_items ns' st) \<and> (\<exists>k. ns_items ns t = List.drop k (ns_items ns st))"
  have init: "?P st n" using assms(2,3) by (auto intro: exI [of _ 0])
  have step: "?P (dict_pop (fst p) t) (m + 1)" if P: "?P t m" and p: "ns_items ns t = p # ps" for t m p ps
  proof -
    have k: "key_namespace (fst p) = Some ns"
      using p by (auto simp: ns_items_def in_namespace_def dest!: filter_eq_ConsD)
    have "ns_items ns (dict_pop (fst p) t) = filter (\<lambda>q. fst q \<noteq> fst p) (ns_items ns t)"
      by (simp add: ns_items_def dict_pop_def split_def conj_commute)
    also have "\<dots> = ps"
    proof -
      have "distinct (map fst (ns_items ns t))" using P by (simp add: ns_items_def distinct_map_filter)
      then show ?thesis unfolding p by (auto simp: filter_id_conv rev_image_eqI)
    qed
    finally have items: "ns_items ns (dict_pop (fst p) t) = ps" .
    obtain j where "ns_items ns t = List.drop j (ns_items ns st)" using P by blast
    then have "ps = List.drop (Suc j) (ns_items ns st)" unfolding p by (metis drop_Suc list.sel(3) tl_drop)
    moreover have "set (dict_pop (fst p) t) \<subseteq> set st" using P by (auto simp: dict_pop_def)
    moreover have "map_of (dict_pop (fst p) t) \<subseteq>\<^sub>m map_of st" using P by (auto simp: map_le_def)
    moreover have "ns' \<noteq> ns \<Longrightarrow> ns_items ns' (dict_pop (fst p) t) = ns_items ns' st" for ns'
      using P k by (simp add: ns_items_pop_other)
    ultimately show ?thesis using P items by (auto intro!: exI [of _ "Suc j"])
  qed
  have "case l1_evict s ns (st, n) of (st', n') \<Rightarrow> ?P st' n' \<and> (over_limits s ns st' \<longrightarrow> ns_items ns st' = [])"
    by (rule l1_evict_invariant [where P = ?P, OF init step])
  then have r: "?P st' n' \<and> (over_limits s ns st' \<longrightarrow> ns_items ns st' = [])"
    unfolding assms(1) prod.case .
  then show "map_of st' \<subseteq>\<^sub>m map_of st" "keys_split st'" "distinct (map fst st')" "set st' \<subseteq> set st"
    "ns' \<noteq> ns \<Longrightarrow> ns_items ns' st' = ns_items ns' st" "\<exists>k. ns_items ns st' = List.drop k (ns_items ns st)"
    by blast+
  show "\<not> over_limits s ns st'" if "0 \<le> l1_max_entries s" "0 \<le> l1_max_bytes s"
    using r that by (auto simp: over_limits_def ns_bytes_def)
qed

lemma l1_put_result:
  assumes "l1_wf s" "key_namespace k = Some (ce_namespace e)" "0 \<le> ce_byte_size e"
  obtains st n where "l1_put s k e = (Inr (), s\<lparr>l1_store := st, l1_evictions := n\<rparr>)"
    "map_of st \<subseteq>\<^sub>m (map_of (l1_store s))(k \<mapsto> e)" "l1_wf (s\<lparr>l1_store := st, l1_evictions := n\<rparr>)"
    "\<And>ns. ns \<noteq> ce_namespace e \<Longrightarrow> ns_items ns st = ns_items ns (l1_store s)" "\<not> over_limits s (ce_namespace e) st"
proof -
  let ?st = "dict_pop k (l1_store s) @ [(k, e)]"
  have i: "keys_split ?st" "distinct (map fst ?st)"
    using assms by (auto simp: l1_wf_def) (simp add: keys_split_def)
  obtain st n where ev: "l1_evict s (ce_namespace e) (?st, l1_evictions s) = (st, n)" by fastforce
  note r = l1_evict_result [OF ev i]
  have "map_of ?st = (map_of (l1_store s))(k \<mapsto> e)" by (rule ext) (auto simp: map_add_def split: option.split)
  moreover have "ns_items ns ?st = ns_items ns (l1_store s)" if "ns \<noteq> ce_namespace e" for ns
    using that assms(2) by (simp add: ns_items_pop_other) (simp add: ns_items_def in_namespace_def)
  moreover have "0 \<le> l1_max_entries s" "0 \<le> l1_max_bytes s" using assms(1) by (simp_all add: l1_wf_def)
  moreover have "list_all (\<lambda>p. 0 \<le> ce_byte_size (snd p)) ?st"
    using assms(1,3) by (auto simp: l1_wf_def list_all_iff dict_pop_def)
  then have "list_all (\<lambda>p. 0 \<le> ce_byte_size (snd p)) st" using r(4) by (auto simp: list_all_iff)
  ultimately show ?thesis
    using r i(1) by (intro that [of n st]) (simp_all add: l1_put_def l1_wf_def ev Let_def)
qed

text \<open>A look-up leaves the same entries, or all but an expired one.\<close>

lemma l1_look_cases:
  "snd (l1_look s k g) = l1_missed s \<or> snd (l1_look s k g) = l1_missed (s\<lparr>l1_store := dict_pop k (l1_store s)\<rparr>)
   \<or> (\<exists>e n. map_of (l1_store s) k = Some e \<and> fst (l1_look s k g) = Some (entry_value e)
        \<and> snd (l1_look s k g) = s\<lparr>l1_store := dict_pop k (l1_store s) @ [(k, e)], l1_hits := n\<rparr>)"
  by (auto simp: l1_look_def l1_get_def entry_value_def split: option.splits)

text \<open>Dropping an entry and moving one to the end keep every namespace within its limits.\<close>

lemma filter_wf: "l1_wf s \<Longrightarrow> l1_wf (s\<lparr>l1_store := filter P (l1_store s)\<rparr>)"
  by (auto simp: l1_wf_def list_all_iff distinct_map_filter keys_split_def)

lemma ns_bytes_filter:
  "list_all (\<lambda>p. 0 \<le> ce_byte_size (snd p)) st \<Longrightarrow> ns_bytes ns (filter P st) \<le> ns_bytes ns st"
  by (induction st) (auto simp: ns_bytes_def ns_items_def)

lemma ns_items_filter: "ns_items ns (filter P st) = filter P (ns_items ns st)"
  by (simp add: ns_items_def conj_commute)

lemma filter_fits:
  assumes "l1_wf s" "l1_fits s"
  shows "l1_fits (s\<lparr>l1_store := filter P (l1_store s)\<rparr>)"
proof -
  have "\<not> over_limits s ns (filter P (l1_store s))" for ns
  proof -
    have "length (ns_items ns (filter P (l1_store s))) \<le> length (ns_items ns (l1_store s))"
      unfolding ns_items_filter by (rule length_filter_le)
    moreover have "ns_bytes ns (filter P (l1_store s)) \<le> ns_bytes ns (l1_store s)"
      by (rule ns_bytes_filter) (use assms(1) in \<open>simp add: l1_wf_def\<close>)
    moreover have "\<not> over_limits s ns (l1_store s)" using assms(2) by (simp add: l1_fits_def)
    ultimately show ?thesis unfolding over_limits_def by linarith
  qed
  then show ?thesis by (simp add: l1_fits_def over_limits_def)
qed

lemma map_of_filter_le: "distinct (map fst st) \<Longrightarrow> map_of (filter P st) \<subseteq>\<^sub>m map_of st"
proof -
  assume d: "distinct (map fst st)"
  show ?thesis unfolding map_le_def
  proof
    fix k assume "k \<in> dom (map_of (filter P st))"
    then obtain v where v: "map_of (filter P st) k = Some v" by blast
    then have "(k, v) \<in> set st" by (auto dest: map_of_SomeD)
    with d v show "map_of (filter P st) k = map_of st k" by simp
  qed
qed

lemma filter_stored: "l1_wf s \<Longrightarrow> l1_stored (s\<lparr>l1_store := filter P (l1_store s)\<rparr>) \<subseteq>\<^sub>m l1_stored s"
  using map_of_filter_le [of "l1_store s" P] by (auto simp: l1_wf_def l1_stored_def map_le_def dom_def)

lemmas pop_wf = filter_wf [of _ "\<lambda>(j, _). j \<noteq> k", folded dict_pop_def] for k
lemmas pop_fits = filter_fits [of _ "\<lambda>(j, _). j \<noteq> k", folded dict_pop_def] for k

lemma moved_mset:
  assumes "distinct (map fst st)" "map_of st k = Some e"
  shows "mset (dict_pop k st @ [(k, e)]) = mset st"
  using assms
proof (induction st)
  case (Cons p st)
  show ?case
  proof (cases "fst p = k")
    case True
    then have "dict_pop k (p # st) = st"
      using Cons.prems(1) by (auto simp: dict_pop_def filter_id_conv split_def rev_image_eqI)
    moreover have "p = (k, e)" using True Cons.prems(2) by (cases p) auto
    ultimately show ?thesis by simp
  next
    case False
    with Cons show ?thesis by (cases p) (auto simp: dict_pop_def)
  qed
qed simp

lemma over_limits_mset:
  assumes "mset st' = mset st"
  shows "over_limits s ns st' = over_limits s ns st"
proof -
  have m: "mset (ns_items ns st') = mset (ns_items ns st)" using assms by (simp add: ns_items_def)
  then have "mset (map (ce_byte_size \<circ> snd) (ns_items ns st')) = mset (map (ce_byte_size \<circ> snd) (ns_items ns st))"
    by simp
  then have "ns_bytes ns st' = ns_bytes ns st" unfolding ns_bytes_def by (metis sum_mset_sum_list)
  moreover have "length (ns_items ns st') = length (ns_items ns st)" using m by (rule mset_eq_length)
  ultimately show ?thesis by (simp add: over_limits_def)
qed

lemma moved_wf:
  assumes "l1_wf s" "map_of (l1_store s) k = Some e"
  shows "l1_wf (s\<lparr>l1_store := dict_pop k (l1_store s) @ [(k, e)], l1_hits := n\<rparr>)"
    "l1_fits s \<Longrightarrow> l1_fits (s\<lparr>l1_store := dict_pop k (l1_store s) @ [(k, e)], l1_hits := n\<rparr>)"
proof -
  have m: "mset (dict_pop k (l1_store s) @ [(k, e)]) = mset (l1_store s)"
    by (rule moved_mset) (use assms in \<open>simp_all add: l1_wf_def\<close>)
  have "set (dict_pop k (l1_store s) @ [(k, e)]) = set (l1_store s)" using m by (rule mset_eq_setD)
  moreover have "distinct (map fst (dict_pop k (l1_store s) @ [(k, e)]))" using assms(1) by (auto simp: l1_wf_def)
  ultimately show "l1_wf (s\<lparr>l1_store := dict_pop k (l1_store s) @ [(k, e)], l1_hits := n\<rparr>)"
    using assms(1) by (simp add: l1_wf_def keys_split_def list_all_iff del: set_append)
  show "l1_fits (s\<lparr>l1_store := dict_pop k (l1_store s) @ [(k, e)], l1_hits := n\<rparr>)" if "l1_fits s"
    using that over_limits_mset [OF m] by (simp add: l1_fits_def over_limits_def)
qed

text \<open>The in-memory tier keeps the promise of a bounded map.\<close>

interpretation l1_tier: bounded_map l1_look "\<lambda>s k e. snd (l1_put s k e)" "\<lambda>s k d. snd (l1_invalidate s k)"
  entry_value l1_stored l1_wf l1_valid l1_fits
proof
  fix s :: l1 and k g
  assume w: "l1_wf s"
  have m: "l1_wf (l1_missed t) = l1_wf t" "l1_fits (l1_missed t) = l1_fits t" "l1_store (l1_missed t) = l1_store t" for t
    by (simp_all add: l1_missed_def l1_wf_def l1_fits_def over_limits_def)
  consider "snd (l1_look s k g) = l1_missed s"
    | "snd (l1_look s k g) = l1_missed (s\<lparr>l1_store := dict_pop k (l1_store s)\<rparr>)"
    | e n where "map_of (l1_store s) k = Some e"
        "snd (l1_look s k g) = s\<lparr>l1_store := dict_pop k (l1_store s) @ [(k, e)], l1_hits := n\<rparr>"
    using l1_look_cases [of s k g] by blast
  then have "l1_wf (snd (l1_look s k g)) \<and> l1_stored (snd (l1_look s k g)) \<subseteq>\<^sub>m l1_stored s
    \<and> (l1_fits s \<longrightarrow> l1_fits (snd (l1_look s k g)))"
  proof cases
    case 1
    with w show ?thesis by (simp add: m) (simp add: l1_missed_def l1_stored_def map_le_def)
  next
    case 2
    with w pop_wf [OF w] pop_fits [OF w] show ?thesis by (simp add: m) (auto simp: l1_missed_def l1_stored_def map_le_def)
  next
    case (3 e n)
    with w moved_wf [OF w 3(1)] show ?thesis
      by (auto simp: l1_stored_def map_le_def map_add_def split: option.splits)
  qed
  then show "l1_wf (snd (l1_look s k g))" "l1_stored (snd (l1_look s k g)) \<subseteq>\<^sub>m l1_stored s"
    "l1_fits s \<Longrightarrow> l1_fits (snd (l1_look s k g))" by blast+
  show "l1_stored s k = Some v" if "fst (l1_look s k g) = Some v" for v
    using that by (auto simp: l1_look_def l1_get_def l1_stored_def entry_value_def split: option.splits if_splits)
next
  fix s :: l1 and k e
  assume w: "l1_wf s" and v: "l1_valid (Store k e)"
  then obtain st n where p: "l1_put s k e = (Inr (), s\<lparr>l1_store := st, l1_evictions := n\<rparr>)"
    "map_of st \<subseteq>\<^sub>m (map_of (l1_store s))(k \<mapsto> e)" "l1_wf (s\<lparr>l1_store := st, l1_evictions := n\<rparr>)"
    "\<And>ns. ns \<noteq> ce_namespace e \<Longrightarrow> ns_items ns st = ns_items ns (l1_store s)" "\<not> over_limits s (ce_namespace e) st"
    by (auto elim: l1_put_result)
  show "l1_wf (snd (l1_put s k e))" using p by simp
  show "l1_stored (snd (l1_put s k e)) \<subseteq>\<^sub>m (l1_stored s)(k \<mapsto> entry_value e)"
    using p(1,2) by (auto simp: l1_stored_def map_le_def dom_def)
  show "l1_fits (snd (l1_put s k e))" if f: "l1_fits s"
  proof -
    have "\<not> over_limits s ns st" for ns
      using p(5) f over_limits_cong [OF p(4)] by (cases "ns = ce_namespace e") (auto simp: l1_fits_def)
    then show ?thesis using p(1) by (simp add: l1_fits_def over_limits_def)
  qed
next
  fix s :: l1 and k and d :: unit
  assume w: "l1_wf s"
  show "l1_wf (snd (l1_invalidate s k))" using pop_wf [OF w] by (simp add: l1_invalidate_def)
  show "l1_stored (snd (l1_invalidate s k)) \<subseteq>\<^sub>m (l1_stored s)(k := None)"
    by (simp add: l1_invalidate_def l1_stored_def map_le_def)
  show "l1_fits (snd (l1_invalidate s k))" if "l1_fits s" using pop_fits [OF w that] by (simp add: l1_invalidate_def)
qed

end
