(* ===== verification/CacheStore.thy ===== *)
theory CacheStore
  imports Cache "HOL-Library.Product_Lexorder"
begin

text \<open>
  The SQLite tier, \<open>app/cache/l2_sqlite.py\<close>. The table \<open>cache_entries\<close> is its list of rows in
  the order of their rowids: \<open>INSERT OR REPLACE\<close> deletes the row of the same primary key and
  adds one at the end. A connection that fails is a \<open>fault\<close>: a \<open>sqlite3\<close> database error or
  another exception; what it did not commit is lost. Where SQL leaves the order of equal rows
  open (the opportunistic clean-up), the model takes the order of the table.
\<close>

record l2_row =
  lr_namespace :: string
  lr_schema :: int
  lr_key_hash :: string
  lr_fingerprint :: string
  lr_payload_json :: string
  lr_payload_sha256 :: string
  lr_created_at :: int
  lr_expires_at :: "int option"
  lr_accessed_at :: int
  lr_byte_size :: int

record l2 =
  l2_rows :: "l2_row list"
  l2_max_entries :: int
  l2_batch_size :: int
  l2_enabled :: bool

datatype fault = NoFault | DatabaseFault | OtherFault

type_synonym l2_key = "string \<times> int \<times> string"

definition lr_key :: "l2_row \<Rightarrow> l2_key" where
  "lr_key r = (lr_namespace r, lr_schema r, lr_key_hash r)"

definition delete_rows :: "l2_key set \<Rightarrow> l2_row list \<Rightarrow> l2_row list" where
  "delete_rows ks rows = filter (\<lambda>r. lr_key r \<notin> ks) rows"

definition payload_sha256 :: "cache_lib \<Rightarrow> json \<Rightarrow> string" where
  "payload_sha256 L payload = cl_sha256 L (cl_sorted L payload)"

section \<open>Maintenance\<close>

definition row_expired :: "int \<Rightarrow> l2_row \<Rightarrow> bool" where
  "row_expired now r = expired_at now (lr_expires_at r)"

definition expiry_of :: "l2_row \<Rightarrow> int" where
  "expiry_of r = (case lr_expires_at r of None \<Rightarrow> 0 | Some t \<Rightarrow> t)"

definition cleanup_expired_batch :: "l2 \<Rightarrow> int \<Rightarrow> l2_row list \<Rightarrow> l2_row list" where
  "cleanup_expired_batch s now rows =
     (let batch = nat (max 1 (l2_batch_size s));
          victims = take batch (sort_key expiry_of (filter (row_expired now) rows))
      in delete_rows (lr_key ` set victims) rows)"

definition enforce_hard_capacity :: "l2 \<Rightarrow> int \<Rightarrow> l2_row list \<Rightarrow> l2_row list" where
  "enforce_hard_capacity s now rows =
     (let rows1 = filter (\<lambda>r. \<not> row_expired now r) rows;
          overflow = nat (int (length rows1) - l2_max_entries s);
          victims = take overflow (sort_key (\<lambda>r. (lr_accessed_at r, lr_created_at r)) rows1)
      in delete_rows (lr_key ` set victims) rows1)"

definition l2_new :: "int \<Rightarrow> int \<Rightarrow> l2_row list \<Rightarrow> l2" where
  "l2_new entries batch rows =
     \<lparr>l2_rows = rows, l2_max_entries = entries, l2_batch_size = batch, l2_enabled = False\<rparr>"

definition l2_initialize :: "l2 \<Rightarrow> fault \<Rightarrow> int \<Rightarrow> l2" where
  "l2_initialize s f now =
     (if f = NoFault then s\<lparr>l2_rows := enforce_hard_capacity s now (l2_rows s), l2_enabled := True\<rparr>
      else s\<lparr>l2_enabled := False\<rparr>)"

section \<open>Operations\<close>

text \<open>What a \<open>get\<close> meets: the outcome of its query, of the touch and of the deletion, and its clock.\<close>

record l2_get_io =
  gi_query :: fault
  gi_touch :: fault
  gi_delete :: fault
  gi_now :: int
  gi_touched_at :: int

definition l2_delete_corrupt :: "l2 \<Rightarrow> l2_key \<Rightarrow> fault \<Rightarrow> l2" where
  "l2_delete_corrupt s k f = (if f = NoFault then s\<lparr>l2_rows := delete_rows {k} (l2_rows s)\<rparr> else s)"

definition l2_touch :: "l2 \<Rightarrow> l2_key \<Rightarrow> fault \<Rightarrow> int \<Rightarrow> l2" where
  "l2_touch s k f now =
     (if f = NoFault
      then s\<lparr>l2_rows := map (\<lambda>r. if lr_key r = k then r\<lparr>lr_accessed_at := now\<rparr> else r) (l2_rows s)\<rparr>
      else s)"

definition l2_get :: "cache_lib \<Rightarrow> l2 \<Rightarrow> string \<Rightarrow> string \<Rightarrow> l2_get_io \<Rightarrow> cache_result \<times> l2" where
  "l2_get L s key dep io =
     (if \<not> l2_enabled s then (CacheMiss ''not_found'', s)
      else case key_parts key of
        None \<Rightarrow> (CacheMiss ''not_found'', s)
      | Some (ns, h) \<Rightarrow>
          if gi_query io = DatabaseFault then (CacheMiss ''unavailable'', s)
          else if gi_query io = OtherFault then (CacheMiss ''not_found'', s)
          else case find_row lr_key (ns, 1, h) (l2_rows s) of
            None \<Rightarrow> (CacheMiss ''not_found'', s)
          | Some r \<Rightarrow>
              if lr_fingerprint r \<noteq> dep then (CacheMiss ''dependency_mismatch'', s)
              else if row_expired (gi_now io) r then (CacheMiss ''expired'', s)
              else (case cl_loads L (lr_payload_json r) of
                  None \<Rightarrow> (CacheMiss ''corrupt'', l2_delete_corrupt s (ns, 1, h) (gi_delete io))
                | Some payload \<Rightarrow>
                    if payload_sha256 L payload \<noteq> lr_payload_sha256 r
                    then (CacheMiss ''corrupt'', l2_delete_corrupt s (ns, 1, h) (gi_delete io))
                    else (CacheHit FromL2 payload (lr_expires_at r),
                          l2_touch s (ns, 1, h) (gi_touch io) (gi_touched_at io))))"

definition l2_row_of :: "cache_lib \<Rightarrow> string \<Rightarrow> string \<Rightarrow> cache_entry \<Rightarrow> int \<Rightarrow> l2_row" where
  "l2_row_of L ns h e accessed =
     \<lparr>lr_namespace = ns, lr_schema = 1, lr_key_hash = h, lr_fingerprint = ce_fingerprint e,
      lr_payload_json = cl_dumps L (ce_payload e), lr_payload_sha256 = payload_sha256 L (ce_payload e),
      lr_created_at = ce_created_at e, lr_expires_at = ce_expires_at e, lr_accessed_at = accessed,
      lr_byte_size = ce_byte_size e\<rparr>"

record l2_put_io =
  pi_fault :: fault
  pi_accessed_at :: int
  pi_now :: int

definition l2_put :: "cache_lib \<Rightarrow> l2 \<Rightarrow> string \<Rightarrow> cache_entry \<Rightarrow> l2_put_io \<Rightarrow> l2" where
  "l2_put L s key e io =
     (if \<not> l2_enabled s \<or> pi_fault io \<noteq> NoFault then s
      else case key_parts key of
        None \<Rightarrow> s
      | Some (ns, h) \<Rightarrow>
          (let row = l2_row_of L ns h e (pi_accessed_at io);
               rows = delete_rows {lr_key row} (l2_rows s) @ [row];
               rows1 = cleanup_expired_batch s (pi_now io) rows
           in s\<lparr>l2_rows := (if l2_max_entries s < int (length rows1)
                           then enforce_hard_capacity s (pi_now io) rows1 else rows1)\<rparr>))"

definition l2_invalidate :: "l2 \<Rightarrow> string \<Rightarrow> fault \<Rightarrow> bool \<times> l2" where
  "l2_invalidate s key f =
     (if \<not> l2_enabled s \<or> f \<noteq> NoFault then (False, s)
      else case key_parts key of
        None \<Rightarrow> (False, s)
      | Some (ns, h) \<Rightarrow> (find_row lr_key (ns, 1, h) (l2_rows s) \<noteq> None,
                        s\<lparr>l2_rows := delete_rows {(ns, 1, h)} (l2_rows s)\<rparr>))"

text \<open>
  \<open>cleanup_expired\<close> uses \<open>DELETE ... LIMIT\<close>, which SQLite only knows when it was compiled
  with \<open>SQLITE_ENABLE_UPDATE_DELETE_LIMIT\<close> (\<open>supported\<close>); otherwise the statement fails and
  nothing is removed.
\<close>

definition l2_cleanup_expired :: "bool \<Rightarrow> l2 \<Rightarrow> int \<Rightarrow> int \<Rightarrow> fault \<Rightarrow> int \<times> l2" where
  "l2_cleanup_expired supported s now limit f =
     (if \<not> l2_enabled s \<or> f \<noteq> NoFault \<or> \<not> supported then (0, s)
      else (let old = filter (\<lambda>r. row_expired (now - 1) r) (l2_rows s);
                victims = (if limit < 0 then old else take (nat limit) old)
            in (int (length victims), s\<lparr>l2_rows := delete_rows (lr_key ` set victims) (l2_rows s)\<rparr>)))"

section \<open>The tier as a bounded map that may forget\<close>

text \<open>The keys the service makes: four parts, so that one row belongs to one key.\<close>

definition service_key :: "string \<Rightarrow> bool" where
  "service_key key \<longleftrightarrow> (case split_on CHR '':'' key of [a, v, ns, h] \<Rightarrow> a = ''adcache'' \<and> v = ''v1'' | _ \<Rightarrow> False)"

definition l2_look :: "cache_lib \<Rightarrow> l2 \<Rightarrow> string \<Rightarrow> string \<times> l2_get_io \<Rightarrow> (string \<times> json) option \<times> l2" where
  "l2_look L s k g = (case l2_get L s k (fst g) (snd g) of
     (CacheHit _ payload _, s') \<Rightarrow> (Some (fst g, payload), s') | (CacheMiss _, s') \<Rightarrow> (None, s'))"

definition row_value :: "cache_lib \<Rightarrow> l2_row \<Rightarrow> (string \<times> json) option" where
  "row_value L r = map_option (\<lambda>p. (lr_fingerprint r, p)) (cl_loads L (lr_payload_json r))"

definition l2_stored :: "cache_lib \<Rightarrow> l2 \<Rightarrow> string \<Rightarrow> (string \<times> json) option" where
  "l2_stored L s k = (if service_key k then (case key_parts k of None \<Rightarrow> None
     | Some (ns, h) \<Rightarrow> (case find_row lr_key (ns, 1, h) (l2_rows s) of None \<Rightarrow> None | Some r \<Rightarrow> row_value L r))
     else None)"

definition l2_wf :: "cache_lib \<Rightarrow> l2 \<Rightarrow> bool" where
  "l2_wf L s \<longleftrightarrow> (\<forall>j. cl_loads L (cl_dumps L j) = Some j) \<and> keys_distinct lr_key (l2_rows s)
     \<and> 0 \<le> l2_max_entries s \<and> l2_enabled s"

fun l2_valid :: "(string, string \<times> l2_get_io, cache_entry \<times> l2_put_io, fault) map_op \<Rightarrow> bool" where
  "l2_valid (Look k g) \<longleftrightarrow> service_key k"
| "l2_valid (Store k p) \<longleftrightarrow> service_key k \<and> pi_fault (snd p) = NoFault"
| "l2_valid (Drop k f) \<longleftrightarrow> service_key k \<and> f = NoFault"

definition l2_fits :: "l2 \<Rightarrow> bool" where
  "l2_fits s \<longleftrightarrow> int (length (l2_rows s)) \<le> l2_max_entries s"

lemma split_on_inj: "split_on c s = split_on c t \<Longrightarrow> s = t"
proof (induction s arbitrary: t)
  case Nil
  then show ?case by (cases t) (auto split: if_splits list.splits dest: not_sym [OF split_on_not_Nil, THEN notE])
next
  case (Cons x s)
  then show ?case
    by (cases t) (auto split: if_splits list.splits dest: not_sym [OF split_on_not_Nil, THEN notE])
qed

lemma service_key_parts:
  assumes "service_key k"
  obtains ns h where "key_parts k = Some (ns, h)" "split_on CHR '':'' k = [''adcache'', ''v1'', ns, h]"
  using assms by (auto simp: service_key_def key_parts_def split: list.splits)

lemma service_key_inj:
  assumes "service_key k" "service_key j" "key_parts k = key_parts j"
  shows "k = j"
proof (rule split_on_inj)
  obtain ns h where k: "key_parts k = Some (ns, h)" "split_on CHR '':'' k = [''adcache'', ''v1'', ns, h]"
    using assms(1) by (rule service_key_parts)
  obtain ns' h' where j: "key_parts j = Some (ns', h')" "split_on CHR '':'' j = [''adcache'', ''v1'', ns', h']"
    using assms(2) by (rule service_key_parts)
  show "split_on CHR '':'' k = split_on CHR '':'' j" using k j assms(3) by simp
qed

lemma find_filter:
  assumes "keys_distinct lr_key rows" "find_row lr_key k (filter P rows) = Some r"
  shows "find_row lr_key k rows = Some r"
  using assms find_row_distinct [of lr_key rows r] by (auto dest: find_row_Some)

lemma distinct_filter_keys: "keys_distinct lr_key rows \<Longrightarrow> keys_distinct lr_key (filter P rows)"
  by (rule distinct_map_filter)

text \<open>Rows that are only filtered hold nothing new.\<close>

lemma stored_filter:
  assumes "keys_distinct lr_key (l2_rows s)" "l2_rows s' = filter P (l2_rows s)"
  shows "l2_stored L s' \<subseteq>\<^sub>m l2_stored L s"
  using find_filter [OF assms(1), of _ P]
  by (auto simp: map_le_def l2_stored_def assms(2) dom_def split: option.splits)

lemma length_delete_rows:
  assumes "keys_distinct lr_key rows" "set victims \<subseteq> set rows" "distinct victims"
  shows "length (delete_rows (lr_key ` set victims) rows) = length rows - length victims"
proof -
  have d: "distinct rows" "inj_on lr_key (set rows)" using assms(1) by (simp_all add: distinct_map)
  have "set (delete_rows (lr_key ` set victims) rows) = set rows - set victims"
    using assms(2) d(2) by (auto simp: delete_rows_def dest: inj_onD)
  then have "length (delete_rows (lr_key ` set victims) rows) = card (set rows - set victims)"
    using d(1) by (metis delete_rows_def distinct_card distinct_filter)
  then show ?thesis using assms(2,3) d(1) by (simp add: card_Diff_subset distinct_card)
qed

lemma capacity_enforced:
  assumes "keys_distinct lr_key rows" "0 \<le> l2_max_entries s"
  shows "int (length (enforce_hard_capacity s now rows)) \<le> l2_max_entries s"
proof -
  let ?rows = "filter (\<lambda>r. \<not> row_expired now r) rows"
  let ?v = "take (nat (int (length ?rows) - l2_max_entries s)) (sort_key (\<lambda>r. (lr_accessed_at r, lr_created_at r)) ?rows)"
  have k: "keys_distinct lr_key ?rows" by (rule distinct_filter_keys [OF assms(1)])
  then have "distinct ?rows" by (simp only: distinct_map)
  then have "distinct ?v" by simp
  moreover have "set ?v \<subseteq> set ?rows" by (metis set_sort set_take_subset)
  ultimately have "length (enforce_hard_capacity s now rows) = length ?rows - length ?v"
    unfolding enforce_hard_capacity_def Let_def by (intro length_delete_rows [OF k])
  then show ?thesis using assms(2) by (simp add: min_def split: if_splits)
qed

lemma enforce_filters: "\<exists>P. enforce_hard_capacity s now rows = filter P rows"
  by (auto simp: enforce_hard_capacity_def delete_rows_def Let_def)

lemma cleanup_filters: "\<exists>P. cleanup_expired_batch s now rows = filter P rows"
  by (auto simp: cleanup_expired_batch_def delete_rows_def Let_def)

text \<open>The row a put leaves under its key, and the others.\<close>

lemma l2_put_rows:
  assumes "l2_enabled s" "pi_fault io = NoFault" "key_parts k = Some (ns, h)"
  obtains P where "l2_put L s k e io = s\<lparr>l2_rows := filter P (delete_rows {(ns, 1, h)} (l2_rows s)
      @ [l2_row_of L ns h e (pi_accessed_at io)])\<rparr>"
proof -
  let ?row = "l2_row_of L ns h e (pi_accessed_at io)"
  let ?rows = "delete_rows {(ns, 1, h)} (l2_rows s) @ [?row]"
  have k: "lr_key ?row = (ns, 1, h)" by (simp add: lr_key_def l2_row_of_def)
  obtain P where P: "cleanup_expired_batch s (pi_now io) ?rows = filter P ?rows" using cleanup_filters by blast
  obtain Q where Q: "enforce_hard_capacity s (pi_now io) (filter P ?rows) = filter Q (filter P ?rows)"
    using enforce_filters by blast
  show ?thesis
  proof (cases "l2_max_entries s < int (length (filter P ?rows))")
    case True
    then show ?thesis using assms P Q k
      by (intro that [of "\<lambda>r. Q r \<and> P r"]) (simp add: l2_put_def Let_def conj_commute)
  next
    case False
    then show ?thesis using assms P k by (intro that [of P]) (simp add: l2_put_def Let_def)
  qed
qed

text \<open>What a look-up leaves behind.\<close>

lemma l2_look_cases:
  "snd (l2_look L s k g) = s \<or> (\<exists>q. snd (l2_look L s k g) = s\<lparr>l2_rows := delete_rows {q} (l2_rows s)\<rparr>)
   \<or> (\<exists>q t. snd (l2_look L s k g) = s\<lparr>l2_rows := map (\<lambda>r. if lr_key r = q then r\<lparr>lr_accessed_at := t\<rparr> else r) (l2_rows s)\<rparr>)"
proof -
  have dc: "l2_delete_corrupt s q f = s \<or> l2_delete_corrupt s q f = s\<lparr>l2_rows := delete_rows {q} (l2_rows s)\<rparr>" for q f
    by (simp add: l2_delete_corrupt_def)
  have tc: "l2_touch s q f t = s \<or> l2_touch s q f t
      = s\<lparr>l2_rows := map (\<lambda>r. if lr_key r = q then r\<lparr>lr_accessed_at := t\<rparr> else r) (l2_rows s)\<rparr>" for q f t
    by (simp add: l2_touch_def)
  have g: "snd (l2_look L s k g) = snd (l2_get L s k (fst g) (snd g))"
    by (simp add: l2_look_def split: prod.split cache_result.split)
  have "snd (l2_get L s k d io) = s \<or> (\<exists>q. snd (l2_get L s k d io) = l2_delete_corrupt s q (gi_delete io))
      \<or> (\<exists>q. snd (l2_get L s k d io) = l2_touch s q (gi_touch io) (gi_touched_at io))" for d io
    by (simp add: l2_get_def split: option.split prod.split) blast
  then consider "snd (l2_look L s k g) = s" | q where "snd (l2_look L s k g) = l2_delete_corrupt s q (gi_delete (snd g))"
    | q where "snd (l2_look L s k g) = l2_touch s q (gi_touch (snd g)) (gi_touched_at (snd g))"
    unfolding g by blast
  then show ?thesis
  proof cases
    case (2 q)
    then show ?thesis using dc [of q "gi_delete (snd g)"] by metis
  next
    case (3 q)
    then show ?thesis using tc [of q "gi_touch (snd g)" "gi_touched_at (snd g)"] by metis
  qed simp
qed

lemma l2_touched:
  fixes q t
  defines "f \<equiv> \<lambda>r. if lr_key r = q then r\<lparr>lr_accessed_at := t\<rparr> else r"
  shows "l2_stored L (s\<lparr>l2_rows := map f (l2_rows s)\<rparr>) = l2_stored L s" "map lr_key (map f rows) = map lr_key rows"
proof -
  have k: "lr_key (f r) = lr_key r" for r by (simp add: lr_key_def f_def)
  have r: "find_row lr_key j (map f rows) = map_option f (find_row lr_key j rows)" for j rows
    by (induction rows) (simp_all add: k)
  have v: "row_value L (f r) = row_value L r" for r by (simp add: row_value_def f_def)
  show "l2_stored L (s\<lparr>l2_rows := map f (l2_rows s)\<rparr>) = l2_stored L s"
    by (rule ext) (simp add: l2_stored_def r v split: option.split prod.split)
  show "map lr_key (map f rows) = map lr_key rows" by (simp add: k)
qed

lemma l2_look_hit:
  assumes "fst (l2_look L s k g) = Some x" "service_key k"
  shows "l2_stored L s k = Some x"
proof -
  obtain ns h where kp: "key_parts k = Some (ns, h)" using assms(2) by (rule service_key_parts)
  have st: "l2_stored L s k = (case find_row lr_key (ns, 1, h) (l2_rows s) of None \<Rightarrow> None | Some r \<Rightarrow> row_value L r)"
    using assms(2) by (simp add: l2_stored_def kp)
  obtain payload y s' where hit: "l2_get L s k (fst g) (snd g) = (CacheHit y payload s', snd (l2_look L s k g))"
    and x: "x = (fst g, payload)"
    using assms(1) by (auto simp: l2_look_def split: prod.splits cache_result.splits)
  from hit x show ?thesis unfolding st
    by (simp add: l2_get_def kp row_value_def split: if_splits option.splits)
qed

lemma stored_put_row:
  assumes "l2_wf L s" "service_key k" "key_parts k = Some (ns, h)"
  shows "l2_stored L (s\<lparr>l2_rows := delete_rows {(ns, 1, h)} (l2_rows s) @ [l2_row_of L ns h e a]\<rparr>)
    \<subseteq>\<^sub>m (l2_stored L s)(k \<mapsto> entry_value e)"
proof (unfold map_le_def, intro ballI)
  let ?row = "l2_row_of L ns h e a"
  let ?rows = "delete_rows {(ns, 1, h)} (l2_rows s) @ [?row]"
  fix j assume "j \<in> dom (l2_stored L (s\<lparr>l2_rows := ?rows\<rparr>))"
  then have sj: "service_key j" by (auto simp: l2_stored_def dom_def split: if_splits)
  have rk: "lr_key ?row = (ns, 1, h)" by (simp add: lr_key_def l2_row_of_def)
  obtain ns' h' where kp': "key_parts j = Some (ns', h')" using sj by (rule service_key_parts)
  show "l2_stored L (s\<lparr>l2_rows := ?rows\<rparr>) j = ((l2_stored L s)(k \<mapsto> entry_value e)) j"
  proof (cases "j = k")
    case True
    have "find_row lr_key (ns, 1, h) (delete_rows {(ns, 1, h)} (l2_rows s)) = None"
      by (auto simp: find_row_None delete_rows_def)
    then have "find_row lr_key (ns, 1, h) ?rows = Some ?row" using rk by (simp add: find_row_append)
    then show ?thesis using True assms
      by (simp add: l2_stored_def row_value_def l2_row_of_def l2_wf_def entry_value_def)
  next
    case False
    then have ne: "(ns', h') \<noteq> (ns, h)" using service_key_inj [OF sj assms(2)] assms(3) kp' by auto
    then have "find_row lr_key (ns', 1, h') (delete_rows {(ns, 1, h)} rows) = find_row lr_key (ns', 1, h') rows" for rows
      by (induction rows) (auto simp: delete_rows_def)
    moreover have "find_row lr_key (ns', 1, h') [?row] = None" using ne rk by auto
    ultimately show ?thesis using False kp' sj by (simp add: l2_stored_def find_row_append option.case_eq_if)
  qed
qed

text \<open>Without a failure of SQLite the persistent tier keeps the same promise.\<close>

interpretation l2_tier: bounded_map "l2_look L" "\<lambda>s k p. l2_put L s k (fst p) (snd p)"
  "\<lambda>s k f. snd (l2_invalidate s k f)" "\<lambda>p. entry_value (fst p)" "l2_stored L" "l2_wf L" l2_valid l2_fits for L
proof
  fix s :: l2 and k g
  assume w: "l2_wf L s" and v: "l2_valid (Look k g)"
  consider "snd (l2_look L s k g) = s"
    | q where "snd (l2_look L s k g) = s\<lparr>l2_rows := delete_rows {q} (l2_rows s)\<rparr>"
    | q t where "snd (l2_look L s k g) = s\<lparr>l2_rows := map (\<lambda>r. if lr_key r = q then r\<lparr>lr_accessed_at := t\<rparr> else r) (l2_rows s)\<rparr>"
    using l2_look_cases [of L s k g] by blast
  then have "l2_wf L (snd (l2_look L s k g)) \<and> l2_stored L (snd (l2_look L s k g)) \<subseteq>\<^sub>m l2_stored L s
    \<and> (l2_fits s \<longrightarrow> l2_fits (snd (l2_look L s k g)))"
  proof cases
    case 1
    with w show ?thesis by simp
  next
    case (2 q)
    have "l2_stored L (snd (l2_look L s k g)) \<subseteq>\<^sub>m l2_stored L s"
      unfolding 2 by (rule stored_filter) (use w in \<open>auto simp: l2_wf_def delete_rows_def\<close>)
    moreover have "length (delete_rows {q} (l2_rows s)) \<le> length (l2_rows s)" by (simp add: delete_rows_def)
    moreover have "keys_distinct lr_key (delete_rows {q} (l2_rows s))"
      unfolding delete_rows_def by (rule distinct_filter_keys) (use w in \<open>simp add: l2_wf_def\<close>)
    ultimately show ?thesis using w 2 by (simp add: l2_wf_def l2_fits_def)
  next
    case (3 q t)
    with w l2_touched(1) [where L = L and s = s and q = q and t = t] l2_touched(2) [where rows = "l2_rows s" and q = q and t = t]
    show ?thesis by (simp add: l2_wf_def l2_fits_def del: map_map)
  qed
  then show "l2_wf L (snd (l2_look L s k g))" "l2_stored L (snd (l2_look L s k g)) \<subseteq>\<^sub>m l2_stored L s"
    "l2_fits s \<Longrightarrow> l2_fits (snd (l2_look L s k g))" by blast+
  show "l2_stored L s k = Some x" if "fst (l2_look L s k g) = Some x" for x
    using l2_look_hit [OF that] v by simp
next
  fix s :: l2 and k p
  assume w: "l2_wf L s" and v: "l2_valid (Store k p)"
  obtain e io where p: "p = (e, io)" by fastforce
  from v p have sk: "service_key k" and f: "pi_fault io = NoFault" by simp_all
  from sk obtain ns h where kp: "key_parts k = Some (ns, h)" by (rule service_key_parts)
  let ?row = "l2_row_of L ns h e (pi_accessed_at io)"
  let ?rows = "delete_rows {(ns, 1, h)} (l2_rows s) @ [?row]"
  have rk: "lr_key ?row = (ns, 1, h)" by (simp add: lr_key_def l2_row_of_def)
  have en: "l2_enabled s" using w by (simp add: l2_wf_def)
  obtain P where P: "l2_put L s k e io = s\<lparr>l2_rows := filter P ?rows\<rparr>"
    by (rule l2_put_rows [OF en f kp])
  have d: "keys_distinct lr_key ?rows"
    using w rk by (auto simp: l2_wf_def delete_rows_def distinct_map_filter)
  show "l2_wf L (l2_put L s k (fst p) (snd p))"
    using w distinct_filter_keys [OF d] by (simp add: p P l2_wf_def)
  have "l2_stored L (s\<lparr>l2_rows := ?rows\<rparr>) \<subseteq>\<^sub>m (l2_stored L s)(k \<mapsto> entry_value e)"
    by (rule stored_put_row [OF w sk kp])
  moreover have "l2_stored L (s\<lparr>l2_rows := filter P ?rows\<rparr>) \<subseteq>\<^sub>m l2_stored L (s\<lparr>l2_rows := ?rows\<rparr>)"
    by (rule stored_filter) (use d in simp_all)
  ultimately show "l2_stored L (l2_put L s k (fst p) (snd p)) \<subseteq>\<^sub>m (l2_stored L s)(k \<mapsto> entry_value (fst p))"
    unfolding p P fst_conv snd_conv by (rule map_le_trans [rotated])
  show "l2_fits (l2_put L s k (fst p) (snd p))"
  proof -
    obtain Q where Q: "cleanup_expired_batch s (pi_now io) ?rows = filter Q ?rows" using cleanup_filters by blast
    have "int (length (enforce_hard_capacity s (pi_now io) (filter Q ?rows))) \<le> l2_max_entries s"
      by (rule capacity_enforced) (use w distinct_filter_keys [OF d] in \<open>simp_all add: l2_wf_def\<close>)
    then show ?thesis using w f kp rk Q by (simp add: p l2_put_def Let_def l2_wf_def l2_fits_def)
  qed
next
  fix s :: l2 and k and f :: fault
  assume w: "l2_wf L s" and v: "l2_valid (Drop k f)"
  then have sk: "service_key k" and f: "f = NoFault" by simp_all
  from sk obtain ns h where kp: "key_parts k = Some (ns, h)" by (rule service_key_parts)
  have d: "snd (l2_invalidate s k f) = s\<lparr>l2_rows := delete_rows {(ns, 1, h)} (l2_rows s)\<rparr>"
    using w f kp by (simp add: l2_invalidate_def l2_wf_def)
  show "l2_wf L (snd (l2_invalidate s k f))"
    using w distinct_filter_keys [of "l2_rows s"] by (simp add: d l2_wf_def delete_rows_def)
  have "l2_stored L (snd (l2_invalidate s k f)) \<subseteq>\<^sub>m l2_stored L s"
    unfolding d by (rule stored_filter) (use w in \<open>auto simp: l2_wf_def delete_rows_def\<close>)
  moreover have "l2_stored L (snd (l2_invalidate s k f)) k = None"
    using find_row_None [of lr_key "(ns, 1, h)" "delete_rows {(ns, 1, h)} (l2_rows s)"]
    by (auto simp: d l2_stored_def kp delete_rows_def split: option.splits)
  ultimately show "l2_stored L (snd (l2_invalidate s k f)) \<subseteq>\<^sub>m (l2_stored L s)(k := None)"
    by (auto simp: map_le_def)
  show "l2_fits (snd (l2_invalidate s k f))" if "l2_fits s"
  proof -
    have "length (delete_rows {(ns, 1, h)} (l2_rows s)) \<le> length (l2_rows s)" by (simp add: delete_rows_def)
    with that show ?thesis by (simp add: d l2_fits_def)
  qed
qed

end
