(* ===== verification/CacheService.thy ===== *)
theory CacheService
  imports CacheStore
begin

text \<open>
  \<open>CacheService\<close> of \<open>app/cache/service.py\<close> over the two tiers. \<open>len(json.dumps(payload))\<close>
  counts characters.
\<close>

record cache_settings =
  st_enabled :: bool
  st_l1_enabled :: bool
  st_l2_enabled :: bool
  st_l1_max_entries :: int
  st_l1_max_bytes :: int
  st_l2_max_payload_bytes :: int
  st_default_ttl :: int
  st_l2_max_entries :: int
  st_l2_batch_size :: int

record cache =
  ca_l1 :: "l1 option"
  ca_l2 :: "l2 option"

definition cache_start :: "cache_settings \<Rightarrow> l2_row list \<Rightarrow> fault \<Rightarrow> int \<Rightarrow> cache" where
  "cache_start S rows f now =
     (if \<not> st_enabled S then \<lparr>ca_l1 = None, ca_l2 = None\<rparr>
      else \<lparr>ca_l1 = (if st_l1_enabled S then Some (l1_new (st_l1_max_entries S) (st_l1_max_bytes S)) else None),
            ca_l2 = (if st_l2_enabled S
                     then Some (l2_initialize (l2_new (st_l2_max_entries S) (st_l2_batch_size S) rows) f now)
                     else None)\<rparr>)"

text \<open>The clock readings and outcomes of one \<open>get\<close>: the L1 look-up, the L2 query, the promotion.\<close>

record get_io =
  gt_mono :: int
  gt_l2 :: l2_get_io
  gt_remaining_now :: int
  gt_created_now :: int
  gt_promote_mono :: int

definition byte_size_of :: "cache_lib \<Rightarrow> json \<Rightarrow> int" where
  "byte_size_of L payload = int (py_len (cl_dumps L payload))"

definition promoted_entry ::
  "cache_lib \<Rightarrow> string \<Rightarrow> string \<Rightarrow> string \<Rightarrow> json \<Rightarrow> int option \<Rightarrow> get_io \<Rightarrow> cache_entry" where
  "promoted_entry L ns h dep payload expires io =
     (let remaining = map_option (\<lambda>x. max (x - gt_remaining_now io) 0) expires in
      \<lparr>ce_namespace = ns, ce_key_hash = h, ce_fingerprint = dep, ce_payload = payload,
       ce_payload_sha256 = payload_sha256 L payload, ce_created_at = gt_created_now io,
       ce_expires_at = expires, ce_byte_size = byte_size_of L payload, ce_schema_version = 1,
       ce_expires_monotonic = map_option (\<lambda>x. gt_promote_mono io + x) remaining\<rparr>)"

definition promote ::
  "cache_lib \<Rightarrow> cache \<Rightarrow> string \<Rightarrow> string \<Rightarrow> string \<Rightarrow> json \<Rightarrow> int option \<Rightarrow> get_io \<Rightarrow> unit res \<times> cache" where
  "promote L c ns key dep payload expires io =
     (case ca_l1 c of
        None \<Rightarrow> (Inr (), c)
      | Some s \<Rightarrow> (case extract_key_hash key of
            Inl e \<Rightarrow> (Inl e, c)
          | Inr h \<Rightarrow> (let (r, s') = l1_put s key (promoted_entry L ns h dep payload expires io)
                     in (r, c\<lparr>ca_l1 := Some s'\<rparr>))))"

definition l1_lookup :: "cache \<Rightarrow> string \<Rightarrow> string \<Rightarrow> int \<Rightarrow> cache_result \<times> cache" where
  "l1_lookup c key dep now =
     (case ca_l1 c of
        None \<Rightarrow> (CacheMiss ''not_found'', c)
      | Some s \<Rightarrow> (let (r, s') = l1_get s key now (Some dep) in (r, c\<lparr>ca_l1 := Some s'\<rparr>)))"

definition l2_lookup ::
  "cache_lib \<Rightarrow> cache \<Rightarrow> string \<Rightarrow> string \<Rightarrow> string \<Rightarrow> get_io \<Rightarrow> cache_result res \<times> cache" where
  "l2_lookup L c ns key dep io =
     (case ca_l2 c of
        None \<Rightarrow> (Inr (CacheMiss ''not_found''), c)
      | Some t \<Rightarrow>
          if l2_enabled t
          then (case l2_get L t key dep (gt_l2 io) of
              (CacheHit src payload expires, t') \<Rightarrow>
                (case promote L (c\<lparr>ca_l2 := Some t'\<rparr>) ns key dep payload expires io of
                   (Inl e, c') \<Rightarrow> (Inl e, c')
                 | (Inr _, c') \<Rightarrow> (Inr (CacheHit src payload expires), c'))
            | (CacheMiss _, t') \<Rightarrow> (Inr (CacheMiss ''not_found''), c\<lparr>ca_l2 := Some t'\<rparr>))
          else (Inr (CacheMiss ''not_found''), c))"

definition cache_get ::
  "cache_lib \<Rightarrow> cache_settings \<Rightarrow> cache \<Rightarrow> string \<Rightarrow> json \<Rightarrow> json \<Rightarrow> bool \<Rightarrow> get_io \<Rightarrow> cache_result res \<times> cache" where
  "cache_get L S c ns key_data deps use_l2 io =
     (if \<not> st_enabled S then (Inr (CacheMiss ''disabled''), c)
      else case generate_cache_key L ns key_data of
        Inl e \<Rightarrow> (Inl e, c)
      | Inr key \<Rightarrow>
          (let dep = generate_dependency_fingerprint L deps in
           case l1_lookup c key dep (gt_mono io) of
             (CacheHit src payload x, c') \<Rightarrow> (Inr (CacheHit src payload x), c')
           | (CacheMiss _, c') \<Rightarrow>
               if use_l2 then l2_lookup L c' ns key dep io else (Inr (CacheMiss ''not_found''), c')))"

record put_io =
  pt_epoch :: int
  pt_mono :: int
  pt_l2 :: l2_put_io

definition entry_for ::
  "cache_lib \<Rightarrow> cache_settings \<Rightarrow> string \<Rightarrow> string \<Rightarrow> string \<Rightarrow> json \<Rightarrow> int option \<Rightarrow> put_io \<Rightarrow> cache_entry" where
  "entry_for L S ns h dep payload ttl_seconds io =
     (let ttl = (case ttl_seconds of None \<Rightarrow> st_default_ttl S | Some t \<Rightarrow> t) in
      \<lparr>ce_namespace = ns, ce_key_hash = h, ce_fingerprint = dep, ce_payload = payload,
       ce_payload_sha256 = payload_sha256 L payload, ce_created_at = pt_epoch io,
       ce_expires_at = (if 0 < ttl then Some (pt_epoch io + ttl) else None),
       ce_byte_size = byte_size_of L payload, ce_schema_version = 1,
       ce_expires_monotonic = (if 0 < ttl then Some (pt_mono io + ttl) else None)\<rparr>)"

definition store_l1 :: "cache \<Rightarrow> string \<Rightarrow> cache_entry \<Rightarrow> unit res \<times> cache" where
  "store_l1 c key e =
     (case ca_l1 c of None \<Rightarrow> (Inr (), c)
      | Some s \<Rightarrow> (let (r, s') = l1_put s key e in (r, c\<lparr>ca_l1 := Some s'\<rparr>)))"

definition store_l2 :: "cache_lib \<Rightarrow> cache_settings \<Rightarrow> cache \<Rightarrow> string \<Rightarrow> cache_entry \<Rightarrow> l2_put_io \<Rightarrow> cache" where
  "store_l2 L S c key e io =
     (case ca_l2 c of None \<Rightarrow> c
      | Some t \<Rightarrow> if l2_enabled t \<and> ce_byte_size e \<le> st_l2_max_payload_bytes S
                 then c\<lparr>ca_l2 := Some (l2_put L t key e io)\<rparr> else c)"

definition cache_put ::
  "cache_lib \<Rightarrow> cache_settings \<Rightarrow> cache \<Rightarrow> string \<Rightarrow> json \<Rightarrow> json \<Rightarrow> json \<Rightarrow> int option \<Rightarrow> bool \<Rightarrow> put_io
   \<Rightarrow> unit res \<times> cache" where
  "cache_put L S c ns key_data deps payload ttl_seconds use_l2 io =
     (if \<not> st_enabled S then (Inr (), c)
      else case bindE (generate_cache_key L ns key_data) (\<lambda>key. bindE (extract_key_hash key) (\<lambda>h. Inr (key, h))) of
        Inl e \<Rightarrow> (Inl e, c)
      | Inr (key, h) \<Rightarrow>
          (let e = entry_for L S ns h (generate_dependency_fingerprint L deps) payload ttl_seconds io in
           case store_l1 c key e of
             (Inl x, c') \<Rightarrow> (Inl x, c')
           | (Inr _, c') \<Rightarrow> (Inr (), if use_l2 then store_l2 L S c' key e (pt_l2 io) else c')))"

definition cache_invalidate ::
  "cache_lib \<Rightarrow> cache_settings \<Rightarrow> cache \<Rightarrow> string \<Rightarrow> json \<Rightarrow> fault \<Rightarrow> unit res \<times> cache" where
  "cache_invalidate L S c ns key_data f =
     (if \<not> st_enabled S then (Inr (), c)
      else case generate_cache_key L ns key_data of
        Inl e \<Rightarrow> (Inl e, c)
      | Inr key \<Rightarrow>
          (Inr (), \<lparr>ca_l1 = map_option (\<lambda>s. snd (l1_invalidate s key)) (ca_l1 c),
                    ca_l2 = map_option (\<lambda>t. if l2_enabled t then snd (l2_invalidate t key f) else t) (ca_l2 c)\<rparr>))"

text \<open>Clearing a namespace reaches the memory tier only, whatever \<open>l1_only\<close> says.\<close>

definition cache_clear_namespace :: "cache_settings \<Rightarrow> cache \<Rightarrow> string \<Rightarrow> bool \<Rightarrow> unit res \<times> cache" where
  "cache_clear_namespace S c ns l1_only =
     (if \<not> st_enabled S then (Inr (), c)
      else case ca_l1 c of
        None \<Rightarrow> (Inr (), c)
      | Some s \<Rightarrow> (case l1_clear_namespace s ns of
            (Inl e, s') \<Rightarrow> (Inl e, c\<lparr>ca_l1 := Some s'\<rparr>)
          | (Inr _, s') \<Rightarrow> (Inr (), c\<lparr>ca_l1 := Some s'\<rparr>)))"

section \<open>What the tiers of a service hold\<close>

text \<open>The calls on a service, and their effect.\<close>

datatype cache_call =
    CallGet string json json bool get_io
  | CallPut string json json json "int option" bool put_io
  | CallInvalidate string json fault
  | CallClear string bool

fun cache_after :: "cache_lib \<Rightarrow> cache_settings \<Rightarrow> cache \<Rightarrow> cache_call \<Rightarrow> cache" where
  "cache_after L S c (CallGet ns kd deps l2 io) = snd (cache_get L S c ns kd deps l2 io)"
| "cache_after L S c (CallPut ns kd deps payload ttl l2 io) = snd (cache_put L S c ns kd deps payload ttl l2 io)"
| "cache_after L S c (CallInvalidate ns kd f) = snd (cache_invalidate L S c ns kd f)"
| "cache_after L S c (CallClear ns b) = snd (cache_clear_namespace S c ns b)"

definition cache_run :: "cache_lib \<Rightarrow> cache_settings \<Rightarrow> cache_call list \<Rightarrow> cache \<Rightarrow> cache" where
  "cache_run L S calls c = foldl (cache_after L S) c calls"

text \<open>What a call stores: the key, the fingerprint of the dependencies and the payload.\<close>

fun call_stores :: "cache_lib \<Rightarrow> cache_call \<Rightarrow> (string \<times> string \<times> json) set" where
  "call_stores L (CallPut ns kd deps payload ttl l2 io) =
     (case generate_cache_key L ns kd of Inl e \<Rightarrow> {}
      | Inr key \<Rightarrow> {(key, generate_dependency_fingerprint L deps, payload)})"
| "call_stores L _ = {}"

text \<open>Both tiers hold only what is in \<open>H\<close>, and each keeps its own bounds.\<close>

definition holds_only :: "cache_lib \<Rightarrow> (string \<times> string \<times> json) set \<Rightarrow> cache \<Rightarrow> bool" where
  "holds_only L H c \<longleftrightarrow>
     (\<forall>s. ca_l1 c = Some s \<longrightarrow> l1_wf s \<and> l1_fits s \<and> Map.graph (l1_stored s) \<subseteq> H)
   \<and> (\<forall>t. ca_l2 c = Some t \<and> l2_enabled t \<longrightarrow>
         l2_wf L t \<and> l2_fits t \<and> Map.graph (l2_stored L t) \<subseteq> H)"

lemma holds_only_mono: "holds_only L H c \<Longrightarrow> H \<subseteq> H' \<Longrightarrow> holds_only L H' c"
  unfolding holds_only_def by (meson subset_trans)

text \<open>The digests contain no colon, nor do the namespaces used: then keys split as the tiers expect.\<close>

definition plain_digests :: "cache_lib \<Rightarrow> bool" where
  "plain_digests L \<longleftrightarrow> (\<forall>s. CHR '':'' \<notin> set (cl_sha256 L s))"

lemma key_split:
  assumes "generate_cache_key L ns kd = Inr key" "plain_digests L" "CHR '':'' \<notin> set ns"
  obtains h where "split_on CHR '':'' key = [''adcache'', ''v1'', ns, h]" "extract_key_hash key = Inr h"
    "service_key key" "key_namespace key = Some ns" "key_parts key = Some (ns, h)"
proof -
  let ?h = "cl_sha256 L (cl_canonical L kd)"
  have key: "key = ''adcache'' @ CHR '':'' # (''v1'' @ CHR '':'' # (ns @ CHR '':'' # ?h))"
    using assms(1) by (auto simp: generate_cache_key_def ensureE_def split: if_splits)
  have s: "split_on CHR '':'' (''adcache'' @ CHR '':'' # r) = ''adcache'' # split_on CHR '':'' r"
    "split_on CHR '':'' (''v1'' @ CHR '':'' # r) = ''v1'' # split_on CHR '':'' r" for r
    by (rule split_on_cons, simp)+
  have "split_on CHR '':'' (ns @ CHR '':'' # ?h) = [ns, ?h]"
    using assms(2,3) by (simp add: split_on_cons split_on_absent plain_digests_def)
  then have sp: "split_on CHR '':'' key = [''adcache'', ''v1'', ns, ?h]"
    unfolding key s by (simp only:)
  show ?thesis
    by (rule that [OF sp]) (simp_all add: extract_key_hash_def service_key_def key_namespace_def key_parts_def sp)
qed

text \<open>The promises of the tiers, on the graphs of what they hold.\<close>

lemma graph_subset: "(\<And>k v. m k = Some v \<Longrightarrow> (k, v) \<in> H) \<Longrightarrow> Map.graph m \<subseteq> H"
  unfolding Map.graph_def by blast

lemma l1_graphs:
  assumes "l1_wf s"
  shows "Map.graph (l1_stored (snd (l1_look s k g))) \<subseteq> Map.graph (l1_stored s)"
    "l1_valid (Store k e) \<Longrightarrow>
      Map.graph (l1_stored (snd (l1_put s k e))) \<subseteq> insert (k, entry_value e) (Map.graph (l1_stored s))"
    "Map.graph (l1_stored (snd (l1_invalidate s k))) \<subseteq> Map.graph (l1_stored s)"
proof -
  show "Map.graph (l1_stored (snd (l1_look s k g))) \<subseteq> Map.graph (l1_stored s)"
    by (intro graph_subset in_graphI, rule l1_tier.look_origin [OF assms]) simp_all
  show "Map.graph (l1_stored (snd (l1_put s k e))) \<subseteq> insert (k, entry_value e) (Map.graph (l1_stored s))"
    if v: "l1_valid (Store k e)"
    using l1_tier.put_origin [OF assms v] by (intro graph_subset) (metis insert_iff in_graphI)
  show "Map.graph (l1_stored (snd (l1_invalidate s k))) \<subseteq> Map.graph (l1_stored s)"
    using l1_tier.forget_origin [OF assms, of k "()"] by (intro graph_subset in_graphI) simp
qed

lemma l2_graphs:
  assumes "l2_wf L s" "service_key k"
  shows "Map.graph (l2_stored L (snd (l2_look L s k g))) \<subseteq> Map.graph (l2_stored L s)"
    "pi_fault io = NoFault \<Longrightarrow>
      Map.graph (l2_stored L (l2_put L s k e io)) \<subseteq> insert (k, entry_value e) (Map.graph (l2_stored L s))"
    "Map.graph (l2_stored L (snd (l2_invalidate s k NoFault))) \<subseteq> Map.graph (l2_stored L s)"
proof -
  show "Map.graph (l2_stored L (snd (l2_look L s k g))) \<subseteq> Map.graph (l2_stored L s)"
    by (intro graph_subset in_graphI, rule l2_tier.look_origin [OF assms(1)]) (simp_all add: assms(2))
  show "Map.graph (l2_stored L (l2_put L s k e io)) \<subseteq> insert (k, entry_value e) (Map.graph (l2_stored L s))"
    if v: "pi_fault io = NoFault"
    using l2_tier.put_origin [OF assms(1), of k "(e, io)"] assms(2) v
    by (intro graph_subset) (metis fst_conv insert_iff in_graphI l2_valid.simps(2) snd_conv)
  show "Map.graph (l2_stored L (snd (l2_invalidate s k NoFault))) \<subseteq> Map.graph (l2_stored L s)"
    using l2_tier.forget_origin [OF assms(1), of k NoFault] assms(2) by (intro graph_subset in_graphI) simp
qed

lemma l1_get_look:
  assumes "l1_get s key now (Some dep) = (r, s')"
  shows "snd (l1_look s key (now, dep)) = s'"
    "r = CacheHit src payload x \<Longrightarrow> fst (l1_look s key (now, dep)) = Some (dep, payload)"
  using assms by (simp_all add: l1_look_def split: cache_result.split)

lemma l2_get_look:
  assumes "l2_get L t key dep io = (r, t')"
  shows "snd (l2_look L t key (dep, io)) = t'"
    "r = CacheHit src payload x \<Longrightarrow> fst (l2_look L t key (dep, io)) = Some (dep, payload)"
  using assms by (simp_all add: l2_look_def split: cache_result.split)

lemma holds_l1:
  assumes "holds_only L H c" "l1_wf s" "l1_fits s" "Map.graph (l1_stored s) \<subseteq> H"
  shows "holds_only L H (c\<lparr>ca_l1 := Some s\<rparr>)"
  using assms by (simp add: holds_only_def)

lemma holds_l2:
  assumes "holds_only L H c" "l2_wf L t" "l2_fits t" "Map.graph (l2_stored L t) \<subseteq> H"
  shows "holds_only L H (c\<lparr>ca_l2 := Some t\<rparr>)"
  using assms by (simp add: holds_only_def)

lemma l1_lookup_holds:
  assumes "holds_only L H c" "l1_lookup c key dep now = (r, c')"
  shows "holds_only L H c'" "r = CacheHit src payload x \<Longrightarrow> (key, dep, payload) \<in> H"
proof -
  have "holds_only L H c' \<and> (r = CacheHit src payload x \<longrightarrow> (key, dep, payload) \<in> H)"
  proof (cases "ca_l1 c")
    case None
    with assms show ?thesis by (auto simp: l1_lookup_def)
  next
    case (Some s)
    then have s: "l1_wf s" "l1_fits s" "Map.graph (l1_stored s) \<subseteq> H"
      using assms(1) by (simp_all add: holds_only_def)
    obtain s' where g: "l1_get s key now (Some dep) = (r, s')" and c': "c' = c\<lparr>ca_l1 := Some s'\<rparr>"
      using assms(2) Some by (auto simp: l1_lookup_def split: prod.splits)
    note look = l1_get_look [OF g]
    have v: "l1_valid (Look key (now, dep))" by simp
    have "holds_only L H c'" unfolding c' look(1) [symmetric]
      by (intro holds_l1 [OF assms(1)] l1_tier.look_wf l1_tier.look_fits order_trans [OF l1_graphs(1)] s v)
    moreover have "(key, dep, payload) \<in> H" if "r = CacheHit src payload x"
      using l1_tier.look_hit [OF s(1) v look(2) [OF that]] s(3) by (auto intro: in_graphI)
    ultimately show ?thesis by blast
  qed
  then show "holds_only L H c'" "r = CacheHit src payload x \<Longrightarrow> (key, dep, payload) \<in> H" by blast+
qed

lemma store_l1_holds:
  assumes "holds_only L H c" "store_l1 c key e = (r, c')" "l1_valid (Store key e)" "(key, entry_value e) \<in> H"
  shows "holds_only L H c'" "r = Inr ()"
proof -
  have "holds_only L H c' \<and> r = Inr ()"
  proof (cases "ca_l1 c")
    case None
    with assms show ?thesis by (auto simp: store_l1_def)
  next
    case (Some s)
    then have s: "l1_wf s" "l1_fits s" "Map.graph (l1_stored s) \<subseteq> H"
      using assms(1) by (simp_all add: holds_only_def)
    obtain s' where g: "l1_put s key e = (r, s')" and c': "c' = c\<lparr>ca_l1 := Some s'\<rparr>"
      using assms(2) Some by (auto simp: store_l1_def split: prod.splits)
    have s': "s' = snd (l1_put s key e)" using g by simp
    have "r = Inr ()" using g assms(3) s(1) by (auto elim!: l1_put_result [of s key e])
    moreover have "holds_only L H c'" unfolding c' s'
      by (intro holds_l1 [OF assms(1)] l1_tier.put_wf l1_tier.put_fits order_trans [OF l1_graphs(2)] s assms(3))
         (use s assms(4) in simp)
    ultimately show ?thesis by blast
  qed
  then show "holds_only L H c'" "r = Inr ()" by blast+
qed

lemma promote_store:
  "promote L c ns key dep payload x io = (case ca_l1 c of None \<Rightarrow> (Inr (), c) | Some s \<Rightarrow>
     (case extract_key_hash key of Inl e \<Rightarrow> (Inl e, c)
      | Inr h \<Rightarrow> store_l1 c key (promoted_entry L ns h dep payload x io)))"
  by (simp add: promote_def store_l1_def split: option.split sum.split)

lemma l2_lookup_holds:
  assumes "holds_only L H c" "l2_lookup L c ns key dep io = (r, c')"
    "split_on CHR '':'' key = [''adcache'', ''v1'', ns, h]"
  shows "holds_only L H c'" "r = Inr (CacheHit src payload x) \<Longrightarrow> (key, dep, payload) \<in> H"
proof -
  have k: "service_key key" "extract_key_hash key = Inr h" "key_namespace key = Some ns"
    using assms(3) by (simp_all add: service_key_def extract_key_hash_def key_namespace_def)
  have "holds_only L H c' \<and> (r = Inr (CacheHit src payload x) \<longrightarrow> (key, dep, payload) \<in> H)"
  proof (cases "\<exists>t. ca_l2 c = Some t \<and> l2_enabled t")
    case False
    with assms show ?thesis by (auto simp: l2_lookup_def split: option.splits)
  next
    case True
    then obtain t where l2: "ca_l2 c = Some t" "l2_enabled t" by blast
    then have t: "l2_wf L t" "l2_fits t" "Map.graph (l2_stored L t) \<subseteq> H"
      using assms(1) by (simp_all add: holds_only_def)
    obtain q t' where g: "l2_get L t key dep (gt_l2 io) = (q, t')" by fastforce
    note look = l2_get_look [OF g]
    have v: "l2_valid (Look key (dep, gt_l2 io))" using k(1) by simp
    have c2: "holds_only L H (c\<lparr>ca_l2 := Some t'\<rparr>)" unfolding look(1) [symmetric]
      by (intro holds_l2 [OF assms(1)] l2_tier.look_wf l2_tier.look_fits order_trans [OF l2_graphs(1)] t v k(1))
    show ?thesis
    proof (cases q)
      case (CacheMiss why)
      with assms(2) l2 g c2 show ?thesis by (auto simp: l2_lookup_def)
    next
      case (CacheHit s p y)
      have H: "(key, dep, p) \<in> H" using l2_tier.look_hit [OF t(1) v look(2) [OF CacheHit]] t(3) by (auto intro: in_graphI)
      obtain u c3 where pr: "promote L (c\<lparr>ca_l2 := Some t'\<rparr>) ns key dep p y io = (u, c3)" by fastforce
      have "holds_only L H c3 \<and> u = Inr ()"
      proof (cases "ca_l1 c")
        case None
        with pr c2 show ?thesis by (auto simp: promote_store)
      next
        case (Some a)
        let ?e = "promoted_entry L ns h dep p y io"
        have st: "store_l1 (c\<lparr>ca_l2 := Some t'\<rparr>) key ?e = (u, c3)" using pr Some k(2) by (simp add: promote_store)
        have "l1_valid (Store key ?e)" "entry_value ?e = (dep, p)"
          using k(3) by (simp_all add: promoted_entry_def byte_size_of_def entry_value_def Let_def)
        with store_l1_holds [OF c2 st] H show ?thesis by simp
      qed
      then show ?thesis using assms(2) l2 g CacheHit pr H by (auto simp: l2_lookup_def)
    qed
  qed
  then show "holds_only L H c'" "r = Inr (CacheHit src payload x) \<Longrightarrow> (key, dep, payload) \<in> H" by blast+
qed

end
