(* ===== verification/CacheProperties.thy ===== *)
theory CacheProperties
  imports CacheService DemoJson
begin

text \<open>
  Properties of the cache: both tiers refine an ideal map, every tier keeps its capacity, and a
  hit of the service returns a payload that was put under the same key and dependencies.
\<close>

text \<open>The calls the properties speak of use namespaces without a colon, as the program's are.\<close>

fun call_ok :: "cache_call \<Rightarrow> bool" where
  "call_ok (CallGet ns kd deps l2 io) \<longleftrightarrow> CHR '':'' \<notin> set ns"
| "call_ok (CallPut ns kd deps payload ttl l2 io) \<longleftrightarrow> CHR '':'' \<notin> set ns"
| "call_ok (CallInvalidate ns kd f) \<longleftrightarrow> CHR '':'' \<notin> set ns"
| "call_ok (CallClear ns b) \<longleftrightarrow> True"

lemma cache_get_holds:
  assumes "holds_only L H c" "cache_get L S c ns kd deps l2 io = (r, c')" "plain_digests L" "CHR '':'' \<notin> set ns"
  shows "holds_only L H c'"
    "r = Inr (CacheHit src payload x) \<Longrightarrow>
      \<exists>key. generate_cache_key L ns kd = Inr key \<and> (key, generate_dependency_fingerprint L deps, payload) \<in> H"
proof -
  let ?dep = "generate_dependency_fingerprint L deps"
  have "holds_only L H c' \<and> (r = Inr (CacheHit src payload x) \<longrightarrow>
      (\<exists>key. generate_cache_key L ns kd = Inr key \<and> (key, ?dep, payload) \<in> H))"
  proof (cases "generate_cache_key L ns kd")
    case (Inl e)
    with assms(1,2) show ?thesis by (auto simp: cache_get_def split: if_splits)
  next
    case (Inr key)
    obtain h where sp: "split_on CHR '':'' key = [''adcache'', ''v1'', ns, h]"
      using Inr assms(3,4) by (rule key_split)
    obtain q c1 where l1: "l1_lookup c key ?dep (gt_mono io) = (q, c1)" by fastforce
    note h1 = l1_lookup_holds [OF assms(1) l1]
    show ?thesis
    proof (cases q)
      case (CacheHit s p y)
      with assms(1,2) l1 Inr h1 show ?thesis by (auto simp: cache_get_def Let_def split: if_splits)
    next
      case (CacheMiss why)
      obtain r2 c2 where l2: "l2_lookup L c1 ns key ?dep io = (r2, c2)" by fastforce
      note h2 = l2_lookup_holds [OF h1(1) l2 sp]
      from CacheMiss assms(1,2) l1 l2 Inr h1(1) h2 show ?thesis
        by (auto simp: cache_get_def Let_def split: if_splits)
    qed
  qed
  then show "holds_only L H c'" "r = Inr (CacheHit src payload x) \<Longrightarrow>
      \<exists>key. generate_cache_key L ns kd = Inr key \<and> (key, ?dep, payload) \<in> H" by blast+
qed

lemma cache_put_holds:
  assumes "holds_only L H c" "cache_put L S c ns kd deps payload ttl l2 io = (r, c')" "plain_digests L" "CHR '':'' \<notin> set ns"
  shows "holds_only L (H \<union> call_stores L (CallPut ns kd deps payload ttl l2 io)) c'"
proof (cases "st_enabled S \<and> isl (generate_cache_key L ns kd) = False")
  case False
  then have "c' = c" using assms(2)
    by (cases "generate_cache_key L ns kd") (auto simp: cache_put_def split: if_splits)
  then show ?thesis using holds_only_mono [OF assms(1)] by blast
next
  case True
  then obtain key where key: "generate_cache_key L ns kd = Inr key" by (cases "generate_cache_key L ns kd") auto
  then obtain h where k: "extract_key_hash key = Inr h" "service_key key" "key_namespace key = Some ns"
    using assms(3,4) by (rule key_split)
  let ?dep = "generate_dependency_fingerprint L deps"
  let ?H = "insert (key, ?dep, payload) H"
  let ?e = "entry_for L S ns h ?dep payload ttl io"
  have e: "l1_valid (Store key ?e)" "entry_value ?e = (?dep, payload)"
    using k(3) by (simp_all add: entry_for_def byte_size_of_def entry_value_def Let_def)
  have H: "holds_only L ?H c" by (rule holds_only_mono [OF assms(1)]) blast
  obtain u c1 where st: "store_l1 c key ?e = (u, c1)" by fastforce
  note s1 = store_l1_holds [OF H st e(1)]
  have c1: "holds_only L ?H c1" "u = Inr ()" using s1 e(2) by simp_all
  have "holds_only L ?H (store_l2 L S c1 key ?e (pt_l2 io))"
  proof (cases "\<exists>t. ca_l2 c1 = Some t \<and> l2_enabled t \<and> pi_fault (pt_l2 io) = NoFault")
    case False
    then have "store_l2 L S c1 key ?e (pt_l2 io) = c1"
      by (cases c1) (auto simp: store_l2_def l2_put_def split: option.split)
    then show ?thesis using c1(1) by simp
  next
    case T: True
    then obtain t where t: "ca_l2 c1 = Some t" "l2_enabled t" "pi_fault (pt_l2 io) = NoFault" by blast
    then have w: "l2_wf L t" "l2_fits t" "Map.graph (l2_stored L t) \<subseteq> ?H"
      using c1(1) by (simp_all add: holds_only_def)
    have v: "l2_valid (Store key (?e, pt_l2 io))" using k(2) t(3) by simp
    have "holds_only L ?H (c1\<lparr>ca_l2 := Some (l2_put L t key ?e (pt_l2 io))\<rparr>)"
      using l2_tier.put_wf [OF w(1) v] l2_tier.put_fits [OF w(1) v w(2)] l2_graphs(2) [OF w(1) k(2) t(3), of ?e] w(3)
      by (intro holds_l2 [OF c1(1)]) (auto simp: e(2))
    with c1(1) t show ?thesis by (simp add: store_l2_def)
  qed
  moreover have "cache_put L S c ns kd deps payload ttl l2 io
      = (Inr (), if l2 then store_l2 L S c1 key ?e (pt_l2 io) else c1)"
    using True c1(2) st by (simp add: cache_put_def key k(1) Let_def)
  then have "c' = (if l2 then store_l2 L S c1 key ?e (pt_l2 io) else c1)" using assms(2) by simp
  moreover have "H \<union> call_stores L (CallPut ns kd deps payload ttl l2 io) = ?H" by (simp add: key)
  ultimately show ?thesis using c1(1) by (cases l2) simp_all
qed

lemma cache_invalidate_holds:
  assumes "holds_only L H c" "cache_invalidate L S c ns kd f = (r, c')" "plain_digests L" "CHR '':'' \<notin> set ns"
  shows "holds_only L H c'"
proof (cases "st_enabled S \<and> isl (generate_cache_key L ns kd) = False")
  case False
  with assms(1,2) show ?thesis
    by (cases "generate_cache_key L ns kd") (auto simp: cache_invalidate_def split: if_splits)
next
  case True
  then obtain key where key: "generate_cache_key L ns kd = Inr key" by (cases "generate_cache_key L ns kd") auto
  then have k: "service_key key" using assms(3,4) by (rule key_split)
  have c': "ca_l1 c' = map_option (\<lambda>s. snd (l1_invalidate s key)) (ca_l1 c)"
    "ca_l2 c' = map_option (\<lambda>t. if l2_enabled t then snd (l2_invalidate t key f) else t) (ca_l2 c)"
    using assms(2) True by (auto simp: cache_invalidate_def key)
  have 1: "l1_wf (snd (l1_invalidate s key)) \<and> l1_fits (snd (l1_invalidate s key))
      \<and> Map.graph (l1_stored (snd (l1_invalidate s key))) \<subseteq> H" if "ca_l1 c = Some s" for s
    using that assms(1) l1_tier.forget_wf [of s key "()"] l1_tier.forget_fits [of s key "()"] l1_graphs(3) [of s key]
    by (auto simp: holds_only_def)
  have 2: "l2_wf L (snd (l2_invalidate t key f)) \<and> l2_fits (snd (l2_invalidate t key f))
      \<and> Map.graph (l2_stored L (snd (l2_invalidate t key f))) \<subseteq> H" if "ca_l2 c = Some t" "l2_enabled t" for t
  proof (cases "f = NoFault")
    case True
    with that assms(1) k l2_tier.forget_wf [of L t key f] l2_tier.forget_fits [of L t key f] l2_graphs(3) [of L t key]
    show ?thesis by (auto simp: holds_only_def)
  next
    case False
    with that assms(1) show ?thesis by (simp add: holds_only_def l2_invalidate_def)
  qed
  show ?thesis unfolding holds_only_def c' using 1 2 by (auto split: if_splits)
qed

lemma cache_clear_holds:
  assumes "holds_only L H c" "cache_clear_namespace S c ns b = (r, c')"
  shows "holds_only L H c'"
proof -
  have "l1_wf (s\<lparr>l1_store := filter (\<lambda>p. \<not> in_namespace ns p) (l1_store s)\<rparr>)
      \<and> l1_fits (s\<lparr>l1_store := filter (\<lambda>p. \<not> in_namespace ns p) (l1_store s)\<rparr>)
      \<and> Map.graph (l1_stored (s\<lparr>l1_store := filter (\<lambda>p. \<not> in_namespace ns p) (l1_store s)\<rparr>)) \<subseteq> H"
    if "ca_l1 c = Some s" for s
  proof -
    have w: "l1_wf s" "l1_fits s" "Map.graph (l1_stored s) \<subseteq> H" using that assms(1) by (simp_all add: holds_only_def)
    with filter_stored [OF w(1), of "\<lambda>p. \<not> in_namespace ns p"]
      filter_wf [OF w(1), of "\<lambda>p. \<not> in_namespace ns p"] filter_fits [OF w(1,2), of "\<lambda>p. \<not> in_namespace ns p"]
    show ?thesis by (auto simp: Map.graph_def map_le_def dom_def)
  qed
  with assms show ?thesis
    by (auto simp: cache_clear_namespace_def l1_clear_namespace_def holds_only_def split: if_splits option.splits sum.splits)
qed

lemma cache_after_holds:
  assumes "holds_only L H c" "plain_digests L" "call_ok x"
  shows "holds_only L (H \<union> call_stores L x) (cache_after L S c x)"
proof (cases x)
  case (CallGet ns kd deps l2 io)
  with assms show ?thesis by (cases "cache_get L S c ns kd deps l2 io") (auto intro: cache_get_holds(1))
next
  case (CallPut ns kd deps payload ttl l2 io)
  obtain r c' where p: "cache_put L S c ns kd deps payload ttl l2 io = (r, c')" by fastforce
  have "CHR '':'' \<notin> set ns" using assms(3) CallPut by simp
  from cache_put_holds [OF assms(1) p assms(2) this] p show ?thesis unfolding CallPut by simp
next
  case (CallInvalidate ns kd f)
  with assms show ?thesis by (cases "cache_invalidate L S c ns kd f") (auto intro: cache_invalidate_holds)
next
  case (CallClear ns b)
  with assms show ?thesis by (cases "cache_clear_namespace S c ns b") (auto intro: cache_clear_holds)
qed

lemma cache_run_holds:
  "holds_only L H c \<Longrightarrow> plain_digests L \<Longrightarrow> list_all call_ok xs \<Longrightarrow>
   holds_only L (H \<union> (\<Union>x\<in>set xs. call_stores L x)) (cache_run L S xs c)"
proof (induction xs arbitrary: H c)
  case (Cons x xs)
  then have "holds_only L (H \<union> call_stores L x) (cache_after L S c x)" by (auto intro: cache_after_holds)
  from Cons.IH [OF this] Cons.prems show ?case by (simp add: cache_run_def Un_assoc)
qed (simp add: cache_run_def)

lemma cache_start_holds:
  assumes "0 \<le> st_l1_max_entries S" "0 \<le> st_l1_max_bytes S" "0 \<le> st_l2_max_entries S"
    "\<And>j. cl_loads L (cl_dumps L j) = Some j"
  shows "holds_only L {} (cache_start S [] f now)"
proof -
  have e: "enforce_hard_capacity s now [] = []" for s by (simp add: enforce_hard_capacity_def delete_rows_def Let_def)
  show ?thesis using assms
    by (auto simp: holds_only_def cache_start_def l1_new_def l2_new_def l2_initialize_def l1_wf_def l1_fits_def
        over_limits_def ns_items_def ns_bytes_def keys_split_def l2_wf_def l2_fits_def e Map.graph_def l1_stored_def
        l2_stored_def split: if_splits option.splits)
qed

section \<open>Properties\<close>

text \<open>C28. The cache never invents or mixes up a value: whatever calls a freshly started cache has
  served, with whatever clock readings, evictions, expiries and failures of SQLite, a hit returns
  a payload that one of the calls put under the same cache key with the same dependency
  fingerprint.\<close>

theorem cache_hit_was_put:
  assumes "0 \<le> st_l1_max_entries S" "0 \<le> st_l1_max_bytes S" "0 \<le> st_l2_max_entries S"
    "\<And>j. cl_loads L (cl_dumps L j) = Some j" "plain_digests L" "list_all call_ok calls" "CHR '':'' \<notin> set ns"
    "cache_get L S (cache_run L S calls (cache_start S [] f now)) ns kd deps l2 io = (Inr (CacheHit src payload x), c')"
  shows "\<exists>ns' kd' deps' ttl l2' io'. CallPut ns' kd' deps' payload ttl l2' io' \<in> set calls
    \<and> generate_cache_key L ns' kd' = generate_cache_key L ns kd
    \<and> generate_dependency_fingerprint L deps' = generate_dependency_fingerprint L deps"
proof -
  have "holds_only L (\<Union>x\<in>set calls. call_stores L x) (cache_run L S calls (cache_start S [] f now))"
    using cache_run_holds [OF cache_start_holds [OF assms(1-4)] assms(5,6)] by simp
  from cache_get_holds(2) [OF this assms(8,5,7) refl] obtain key y where
    "generate_cache_key L ns kd = Inr key" "y \<in> set calls"
    "(key, generate_dependency_fingerprint L deps, payload) \<in> call_stores L y" by blast
  then show ?thesis by (cases y) (auto split: sum.splits, blast)
qed

text \<open>C29. The cache stays within its bounds: after any sequence of calls no namespace of the memory tier
  has more entries or bytes than configured, and the SQLite tier has at most its number of rows.\<close>

theorem cache_bounds:
  assumes "0 \<le> st_l1_max_entries S" "0 \<le> st_l1_max_bytes S" "0 \<le> st_l2_max_entries S"
    "\<And>j. cl_loads L (cl_dumps L j) = Some j" "plain_digests L" "list_all call_ok calls"
    "c = cache_run L S calls (cache_start S [] f now)"
  shows "(\<forall>s. ca_l1 c = Some s \<longrightarrow> int (length (ns_items ns (l1_store s))) \<le> l1_max_entries s
            \<and> ns_bytes ns (l1_store s) \<le> l1_max_bytes s)
    \<and> (\<forall>t. ca_l2 c = Some t \<and> l2_enabled t \<longrightarrow> int (length (l2_rows t)) \<le> l2_max_entries t)"
proof -
  have "holds_only L (\<Union>x\<in>set calls. call_stores L x) c"
    using cache_run_holds [OF cache_start_holds [OF assms(1-4)] assms(5,6)] assms(7) by simp
  then show ?thesis by (auto simp: holds_only_def l1_fits_def over_limits_def l2_fits_def not_less)
qed

text \<open>C30. Each tier refines an ideal map: after any sequence of look-ups, stores and removals (by the
  clock-driven code, with evictions and expiries), a hit of the memory tier, or of the SQLite tier
  while SQLite does not fail, is the value of the last store of the key, not removed since.\<close>

theorem tiers_refine_map:
  "(0 \<le> n \<longrightarrow> 0 \<le> b \<longrightarrow> list_all l1_valid ops \<longrightarrow>
      fst (l1_look (run_ops l1_look (\<lambda>s k e. snd (l1_put s k e)) (\<lambda>s k d. snd (l1_invalidate s k)) ops (l1_new n b)) k g)
        = Some v \<longrightarrow> ideal_map entry_value ops Map.empty k = Some v)
   \<and> (0 \<le> n \<longrightarrow> (\<forall>j. cl_loads L (cl_dumps L j) = Some j) \<longrightarrow> list_all l2_valid ops2 \<longrightarrow> service_key k \<longrightarrow>
      fst (l2_look L (run_ops (l2_look L) (\<lambda>s k p. l2_put L s k (fst p) (snd p)) (\<lambda>s k f. snd (l2_invalidate s k f))
             ops2 (l2_initialize (l2_new n b []) NoFault now)) k g2)
        = Some v \<longrightarrow> ideal_map (\<lambda>p. entry_value (fst p)) ops2 Map.empty k = Some v)"
proof (intro conjI impI)
  assume a: "0 \<le> n" "0 \<le> b" "list_all l1_valid ops"
  have "l1_wf (l1_new n b)" "l1_stored (l1_new n b) \<subseteq>\<^sub>m Map.empty"
    using a by (auto simp: l1_wf_def l1_new_def keys_split_def l1_stored_def map_le_def dom_def)
  then show "ideal_map entry_value ops Map.empty k = Some v"
    if "fst (l1_look (run_ops l1_look (\<lambda>s k e. snd (l1_put s k e)) (\<lambda>s k d. snd (l1_invalidate s k)) ops (l1_new n b)) k g) = Some v"
    using that a(3) by (intro l1_tier.hit_is_ideal [of "l1_new n b" ops Map.empty k g]) simp_all
next
  assume a: "0 \<le> n" "\<forall>j. cl_loads L (cl_dumps L j) = Some j" "list_all l2_valid ops2" "service_key k"
  let ?s = "l2_initialize (l2_new n b []) NoFault now"
  have "l2_wf L ?s" "l2_stored L ?s \<subseteq>\<^sub>m Map.empty"
    using a(1,2) by (auto simp: l2_wf_def l2_new_def l2_initialize_def enforce_hard_capacity_def delete_rows_def
        l2_stored_def map_le_def dom_def Let_def split: option.splits)
  then show "ideal_map (\<lambda>p. entry_value (fst p)) ops2 Map.empty k = Some v"
    if "fst (l2_look L (run_ops (l2_look L) (\<lambda>s k p. l2_put L s k (fst p) (snd p)) (\<lambda>s k f. snd (l2_invalidate s k f))
             ops2 ?s) k g2) = Some v"
    using that a(3,4) by (intro l2_tier.hit_is_ideal [of L ?s ops2 Map.empty k g2]) simp_all
qed

section \<open>A concrete cache\<close>

definition demo_lib :: cache_lib where
  "demo_lib = \<lparr>cl_canonical = enc, cl_sorted = enc, cl_dumps = enc, cl_loads = demo_loads,
     cl_sha256 = filter (\<lambda>c. c \<noteq> CHR '':'')\<rparr>"

definition demo_settings :: cache_settings where
  "demo_settings = \<lparr>st_enabled = True, st_l1_enabled = True, st_l2_enabled = True, st_l1_max_entries = 1,
     st_l1_max_bytes = 1000, st_l2_max_payload_bytes = 4, st_default_ttl = 100, st_l2_max_entries = 5, st_l2_batch_size = 2\<rparr>"

definition demo_get_io :: "int \<Rightarrow> get_io" where
  "demo_get_io t = \<lparr>gt_mono = t, gt_l2 = \<lparr>gi_query = NoFault, gi_touch = NoFault, gi_delete = NoFault, gi_now = t,
     gi_touched_at = t\<rparr>, gt_remaining_now = t, gt_created_now = t, gt_promote_mono = t\<rparr>"

definition demo_put_io :: "int \<Rightarrow> put_io" where
  "demo_put_io t = \<lparr>pt_epoch = t, pt_mono = t, pt_l2 = \<lparr>pi_fault = NoFault, pi_accessed_at = t, pi_now = t\<rparr>\<rparr>"

text \<open>A payload that fits the SQLite tier, then one that does not, under the same key; then another key.\<close>

definition demo_calls :: "cache_call list" where
  "demo_calls = [CallPut ''ns'' (JInt 1) JNull (JInt 1) None True (demo_put_io 0),
     CallPut ''ns'' (JInt 1) JNull (JStr ''longer'') None True (demo_put_io 1),
     CallPut ''ns'' (JInt 2) JNull (JInt 2) None True (demo_put_io 2)]"

definition demo_cache :: cache where
  "demo_cache = cache_run demo_lib demo_settings demo_calls (cache_start demo_settings [] NoFault 0)"

lemma demo_lib_laws: "cl_loads demo_lib (cl_dumps demo_lib j) = Some j" "plain_digests demo_lib"
  by (simp_all add: demo_lib_def demo_loads_enc plain_digests_def)

text \<open>
  The memory tier has evicted the second payload and the SQLite tier never took it, so the look-up
  returns the first: a payload too large for the SQLite tier does not replace the older one there.
\<close>

lemma stale_after_large_put:
  "fst (cache_get demo_lib demo_settings demo_cache ''ns'' (JInt 1) JNull True (demo_get_io 3))
     = Inr (CacheHit FromL2 (JInt 1) (Some 100))"
  by code_simp

lemma cache_hit_was_put_witness:
  "\<exists>ns' kd' deps' ttl l2' io'. CallPut ns' kd' deps' (JInt 1) ttl l2' io' \<in> set demo_calls
    \<and> generate_cache_key demo_lib ns' kd' = generate_cache_key demo_lib ''ns'' (JInt 1)"
proof -
  obtain c' where "cache_get demo_lib demo_settings demo_cache ''ns'' (JInt 1) JNull True (demo_get_io 3)
      = (Inr (CacheHit FromL2 (JInt 1) (Some 100)), c')"
    using stale_after_large_put by (metis prod.collapse)
  note get = this [unfolded demo_cache_def]
  have s: "0 \<le> st_l1_max_entries demo_settings" "0 \<le> st_l1_max_bytes demo_settings" "0 \<le> st_l2_max_entries demo_settings"
    "list_all call_ok demo_calls" "CHR '':'' \<notin> set ''ns''"
    by (simp_all add: demo_settings_def demo_calls_def)
  from cache_hit_was_put [OF s(1-3) demo_lib_laws(1,2) s(4,5) get] show ?thesis by blast
qed

lemma cache_bounds_witness:
  "\<exists>s. ca_l1 demo_cache = Some s \<and> int (length (ns_items ''ns'' (l1_store s))) \<le> l1_max_entries s"
proof -
  have s: "0 \<le> st_l1_max_entries demo_settings" "0 \<le> st_l1_max_bytes demo_settings" "0 \<le> st_l2_max_entries demo_settings"
    "list_all call_ok demo_calls" by (simp_all add: demo_settings_def demo_calls_def)
  have "ca_l1 demo_cache \<noteq> None" by code_simp
  with cache_bounds [OF s(1-3) demo_lib_laws(1,2) s(4) demo_cache_def] show ?thesis by auto
qed

lemma tiers_refine_map_witness:
  "ideal_map entry_value [Store ''adcache:v1:ns:h'' (entry_for demo_lib demo_settings ''ns'' ''h'' ''d'' (JInt 1) None (demo_put_io 0))]
     Map.empty ''adcache:v1:ns:h'' = Some (''d'', JInt 1)"
proof -
  let ?ops = "[Store ''adcache:v1:ns:h'' (entry_for demo_lib demo_settings ''ns'' ''h'' ''d'' (JInt 1) None (demo_put_io 0))]"
  have "list_all l1_valid ?ops \<and> fst (l1_look (run_ops l1_look (\<lambda>s k e. snd (l1_put s k e)) (\<lambda>s k d. snd (l1_invalidate s k))
      ?ops (l1_new 1 100)) ''adcache:v1:ns:h'' (1, ''d'')) = Some (''d'', JInt 1)" by code_simp
  then show ?thesis
    using tiers_refine_map [of 1 100 ?ops "''adcache:v1:ns:h''" "(1, ''d'')" "(''d'', JInt 1)"] by simp
qed

end
