(* ===== verification/Vietnamese.thy ===== *)
theory Vietnamese
  imports TextNormal
begin

text \<open>
  The Unicode data of the Vietnamese alphabet: each letter outside ASCII as capital, small letter
  and small letter without marks. Other characters stand for themselves. It instantiates the
  parameter \<open>unicode\<close> for the language of the requests, so that definitions evaluate on them.
\<close>

definition vietnamese_letters :: "(string \<times> string \<times> string) list" where
  "vietnamese_letters =
    [([CHR 0xC3, CHR 0x80], [CHR 0xC3, CHR 0xA0], ''a''),
     ([CHR 0xC3, CHR 0x81], [CHR 0xC3, CHR 0xA1], ''a''),
     ([CHR 0xE1, CHR 0xBA, CHR 0xA2], [CHR 0xE1, CHR 0xBA, CHR 0xA3], ''a''),
     ([CHR 0xC3, CHR 0x83], [CHR 0xC3, CHR 0xA3], ''a''),
     ([CHR 0xE1, CHR 0xBA, CHR 0xA0], [CHR 0xE1, CHR 0xBA, CHR 0xA1], ''a''),
     ([CHR 0xC4, CHR 0x82], [CHR 0xC4, CHR 0x83], ''a''),
     ([CHR 0xE1, CHR 0xBA, CHR 0xB0], [CHR 0xE1, CHR 0xBA, CHR 0xB1], ''a''),
     ([CHR 0xE1, CHR 0xBA, CHR 0xAE], [CHR 0xE1, CHR 0xBA, CHR 0xAF], ''a''),
     ([CHR 0xE1, CHR 0xBA, CHR 0xB2], [CHR 0xE1, CHR 0xBA, CHR 0xB3], ''a''),
     ([CHR 0xE1, CHR 0xBA, CHR 0xB4], [CHR 0xE1, CHR 0xBA, CHR 0xB5], ''a''),
     ([CHR 0xE1, CHR 0xBA, CHR 0xB6], [CHR 0xE1, CHR 0xBA, CHR 0xB7], ''a''),
     ([CHR 0xC3, CHR 0x82], [CHR 0xC3, CHR 0xA2], ''a''),
     ([CHR 0xE1, CHR 0xBA, CHR 0xA6], [CHR 0xE1, CHR 0xBA, CHR 0xA7], ''a''),
     ([CHR 0xE1, CHR 0xBA, CHR 0xA4], [CHR 0xE1, CHR 0xBA, CHR 0xA5], ''a''),
     ([CHR 0xE1, CHR 0xBA, CHR 0xA8], [CHR 0xE1, CHR 0xBA, CHR 0xA9], ''a''),
     ([CHR 0xE1, CHR 0xBA, CHR 0xAA], [CHR 0xE1, CHR 0xBA, CHR 0xAB], ''a''),
     ([CHR 0xE1, CHR 0xBA, CHR 0xAC], [CHR 0xE1, CHR 0xBA, CHR 0xAD], ''a''),
     ([CHR 0xC3, CHR 0x88], [CHR 0xC3, CHR 0xA8], ''e''),
     ([CHR 0xC3, CHR 0x89], [CHR 0xC3, CHR 0xA9], ''e''),
     ([CHR 0xE1, CHR 0xBA, CHR 0xBA], [CHR 0xE1, CHR 0xBA, CHR 0xBB], ''e''),
     ([CHR 0xE1, CHR 0xBA, CHR 0xBC], [CHR 0xE1, CHR 0xBA, CHR 0xBD], ''e''),
     ([CHR 0xE1, CHR 0xBA, CHR 0xB8], [CHR 0xE1, CHR 0xBA, CHR 0xB9], ''e''),
     ([CHR 0xC3, CHR 0x8A], [CHR 0xC3, CHR 0xAA], ''e''),
     ([CHR 0xE1, CHR 0xBB, CHR 0x80], [CHR 0xE1, CHR 0xBB, CHR 0x81], ''e''),
     ([CHR 0xE1, CHR 0xBA, CHR 0xBE], [CHR 0xE1, CHR 0xBA, CHR 0xBF], ''e''),
     ([CHR 0xE1, CHR 0xBB, CHR 0x82], [CHR 0xE1, CHR 0xBB, CHR 0x83], ''e''),
     ([CHR 0xE1, CHR 0xBB, CHR 0x84], [CHR 0xE1, CHR 0xBB, CHR 0x85], ''e''),
     ([CHR 0xE1, CHR 0xBB, CHR 0x86], [CHR 0xE1, CHR 0xBB, CHR 0x87], ''e''),
     ([CHR 0xC3, CHR 0x8C], [CHR 0xC3, CHR 0xAC], ''i''),
     ([CHR 0xC3, CHR 0x8D], [CHR 0xC3, CHR 0xAD], ''i''),
     ([CHR 0xE1, CHR 0xBB, CHR 0x88], [CHR 0xE1, CHR 0xBB, CHR 0x89], ''i''),
     ([CHR 0xC4, CHR 0xA8], [CHR 0xC4, CHR 0xA9], ''i''),
     ([CHR 0xE1, CHR 0xBB, CHR 0x8A], [CHR 0xE1, CHR 0xBB, CHR 0x8B], ''i''),
     ([CHR 0xC3, CHR 0x92], [CHR 0xC3, CHR 0xB2], ''o''),
     ([CHR 0xC3, CHR 0x93], [CHR 0xC3, CHR 0xB3], ''o''),
     ([CHR 0xE1, CHR 0xBB, CHR 0x8E], [CHR 0xE1, CHR 0xBB, CHR 0x8F], ''o''),
     ([CHR 0xC3, CHR 0x95], [CHR 0xC3, CHR 0xB5], ''o''),
     ([CHR 0xE1, CHR 0xBB, CHR 0x8C], [CHR 0xE1, CHR 0xBB, CHR 0x8D], ''o''),
     ([CHR 0xC3, CHR 0x94], [CHR 0xC3, CHR 0xB4], ''o''),
     ([CHR 0xE1, CHR 0xBB, CHR 0x92], [CHR 0xE1, CHR 0xBB, CHR 0x93], ''o''),
     ([CHR 0xE1, CHR 0xBB, CHR 0x90], [CHR 0xE1, CHR 0xBB, CHR 0x91], ''o''),
     ([CHR 0xE1, CHR 0xBB, CHR 0x94], [CHR 0xE1, CHR 0xBB, CHR 0x95], ''o''),
     ([CHR 0xE1, CHR 0xBB, CHR 0x96], [CHR 0xE1, CHR 0xBB, CHR 0x97], ''o''),
     ([CHR 0xE1, CHR 0xBB, CHR 0x98], [CHR 0xE1, CHR 0xBB, CHR 0x99], ''o''),
     ([CHR 0xC6, CHR 0xA0], [CHR 0xC6, CHR 0xA1], ''o''),
     ([CHR 0xE1, CHR 0xBB, CHR 0x9C], [CHR 0xE1, CHR 0xBB, CHR 0x9D], ''o''),
     ([CHR 0xE1, CHR 0xBB, CHR 0x9A], [CHR 0xE1, CHR 0xBB, CHR 0x9B], ''o''),
     ([CHR 0xE1, CHR 0xBB, CHR 0x9E], [CHR 0xE1, CHR 0xBB, CHR 0x9F], ''o''),
     ([CHR 0xE1, CHR 0xBB, CHR 0xA0], [CHR 0xE1, CHR 0xBB, CHR 0xA1], ''o''),
     ([CHR 0xE1, CHR 0xBB, CHR 0xA2], [CHR 0xE1, CHR 0xBB, CHR 0xA3], ''o''),
     ([CHR 0xC3, CHR 0x99], [CHR 0xC3, CHR 0xB9], ''u''),
     ([CHR 0xC3, CHR 0x9A], [CHR 0xC3, CHR 0xBA], ''u''),
     ([CHR 0xE1, CHR 0xBB, CHR 0xA6], [CHR 0xE1, CHR 0xBB, CHR 0xA7], ''u''),
     ([CHR 0xC5, CHR 0xA8], [CHR 0xC5, CHR 0xA9], ''u''),
     ([CHR 0xE1, CHR 0xBB, CHR 0xA4], [CHR 0xE1, CHR 0xBB, CHR 0xA5], ''u''),
     ([CHR 0xC6, CHR 0xAF], [CHR 0xC6, CHR 0xB0], ''u''),
     ([CHR 0xE1, CHR 0xBB, CHR 0xAA], [CHR 0xE1, CHR 0xBB, CHR 0xAB], ''u''),
     ([CHR 0xE1, CHR 0xBB, CHR 0xA8], [CHR 0xE1, CHR 0xBB, CHR 0xA9], ''u''),
     ([CHR 0xE1, CHR 0xBB, CHR 0xAC], [CHR 0xE1, CHR 0xBB, CHR 0xAD], ''u''),
     ([CHR 0xE1, CHR 0xBB, CHR 0xAE], [CHR 0xE1, CHR 0xBB, CHR 0xAF], ''u''),
     ([CHR 0xE1, CHR 0xBB, CHR 0xB0], [CHR 0xE1, CHR 0xBB, CHR 0xB1], ''u''),
     ([CHR 0xE1, CHR 0xBB, CHR 0xB2], [CHR 0xE1, CHR 0xBB, CHR 0xB3], ''y''),
     ([CHR 0xC3, CHR 0x9D], [CHR 0xC3, CHR 0xBD], ''y''),
     ([CHR 0xE1, CHR 0xBB, CHR 0xB6], [CHR 0xE1, CHR 0xBB, CHR 0xB7], ''y''),
     ([CHR 0xE1, CHR 0xBB, CHR 0xB8], [CHR 0xE1, CHR 0xBB, CHR 0xB9], ''y''),
     ([CHR 0xE1, CHR 0xBB, CHR 0xB4], [CHR 0xE1, CHR 0xBB, CHR 0xB5], ''y''),
     ([CHR 0xC4, CHR 0x90], [CHR 0xC4, CHR 0x91], [CHR 0xC4, CHR 0x91])]"

definition vietnamese :: unicode where
  "vietnamese = \<lparr>
     u_fold = (\<lambda>ch. case find (\<lambda>(u, l, b). u = ch) vietnamese_letters of
         Some (u, l, b) \<Rightarrow> l | None \<Rightarrow> ch),
     u_lower = (\<lambda>ch. case find (\<lambda>(u, l, b). u = ch) vietnamese_letters of
         Some (u, l, b) \<Rightarrow> l | None \<Rightarrow> ch),
     u_base = (\<lambda>ch. case find (\<lambda>(u, l, b). l = ch) vietnamese_letters of
         Some (u, l, b) \<Rightarrow> b | None \<Rightarrow> ch),
     u_word = (\<lambda>ch. list_ex (\<lambda>(u, l, b). u = ch \<or> l = ch) vietnamese_letters),
     u_digit = (\<lambda>ch. False),
     u_variants = (\<lambda>ch. case find (\<lambda>(u, l, b). u = ch \<or> l = ch) vietnamese_letters of
         Some (u, l, b) \<Rightarrow> [if ch = u then l else u] | None \<Rightarrow> [])\<rparr>"

end
