(* ===== verification/SafetyIntent.thy ===== *)
theory SafetyIntent
  imports TextNormal
begin

text \<open>
  \<open>app/safety_intent.py\<close>: which effects a request forbids, whether it asks for an effect
  outside the scope of a negation, and whether it is a read-only status question. Clauses,
  negated scopes and the whitelists of harmless clauses are lists of words, as in the code; the
  marker tables are the code's, in its order.
\<close>

section \<open>Tables\<close>

definition observation_markers :: "string list" where
  "observation_markers =
    [''kiem tra'', ''check'', ''xac minh'', ''verify'', ''xem'', ''doc'', ''read'', ''inspect'',
     ''liet ke'', ''list'']"

definition status_markers :: "string list" where
  "status_markers =
    [''trang thai'', ''tinh trang'', ''status'', ''co on'', ''san sang'']"

definition draft_checklist_markers :: "string list" where
  "draft_checklist_markers =
    [''soan checklist'', ''soan mot checklist'', ''lap checklist'', ''tao checklist'',
     ''draft checklist'', ''draft a checklist'', ''create checklist'', ''create a checklist'']"

definition read_only_markers :: "string list" where
  "read_only_markers =
    [''chi doc'', ''read only'', ''readonly'', ''chi xem'', ''view only'']"

definition report_prefix_markers :: "string list" where
  "report_prefix_markers =
    [''gui ket qua'', ''bang chung'', ''evidence'', ''send result'', ''send results'', ''tra loi'',
     ''answer'', ''return result'', ''return results'', ''provide the result'',
     ''provide the results'', ''show me the result'', ''show me the results'', ''report'',
     ''tell me'', ''bao ngan gon'', ''bao ket qua'', ''bao lai ket qua'', ''tra ve ket qua'',
     ''bao thanh cong'', ''bao anh'', ''bao cao'', ''summary'', ''tom tat'', ''giai thich'',
     ''explain'', ''ket luan'', ''conclusion'', ''yeu cau'', ''requirement'', ''requirements'',
     ''chi bao thanh cong'']"

definition safe_scaffold_prefixes :: "string list" where
  "safe_scaffold_prefixes =
    [''thuc hien mot workflow'', ''workflow'', ''soan checklist'', ''draft checklist'']"

definition safe_continuation_clauses :: "string list" where
  "safe_continuation_clauses =
    [''health'', ''ready'', ''status'', ''core'', ''core service'', ''database'',
     ''database quick check'', ''db'', ''db quick check'', ''pragma'', ''pragma quick check'',
     ''quick check'', ''file'', ''tep'', ''config'', ''cau hinh'', ''service'', ''git'', ''model'',
     ''openclaw'', ''he thong'', ''system'', ''duong'', ''thoi'']"

definition safe_status_observation_tokens :: "string list" where
  "safe_status_observation_tokens =
    [''actual'', ''anh'', ''bang'', ''che'', ''check'', ''co'', ''core'', ''cua'', ''database'',
     ''db'', ''do'', ''duong'', ''giup'', ''gateway'', ''health'', ''he'', ''hien'', ''is'',
     ''me'', ''now'', ''of'', ''ok'', ''on'', ''pragma'', ''quick'', ''ready'', ''san'',
     ''service'', ''status'', ''system'', ''tai'', ''the'', ''them'', ''thong'', ''thuc'',
     ''tinh'', ''trang'', ''te'', ''tu'', ''va'', ''and'', ''whether'', ''current'', ''thai'',
     ''xem'', ''only'', ''read'', ''readonly'', ''chi'', ''doc'', ''thoi'', ''kiem'', ''tra'',
     ''xac'', ''minh'', ''please'', ''cho'', ''dang'', ''hay'', ''khong'', ''slash'', ''file'',
     ''tep'', ''readme'', ''md'', ''du'', ''an'', ''project'', ''inspect'', ''list'', ''liet'',
     ''ke'', ''verify'']"

definition safe_negation_tokens :: "string list" where
  "safe_negation_tokens =
    [''and'', ''anything'', ''any'', ''cai'', ''cau'', ''changes'', ''change'', ''chay'', ''chi'',
     ''command'', ''commands'', ''config'', ''dat'', ''deploy'', ''dich'', ''doi'', ''dong'',
     ''effect'', ''file'', ''git'', ''gi'', ''goi'', ''hay'', ''he'', ''hinh'', ''hoac'',
     ''install'', ''khai'', ''khong'', ''khoi'', ''lai'', ''lenh'', ''model'', ''mo'', ''no'',
     ''openclaw'', ''or'', ''package'', ''restart'', ''service'', ''side'', ''sua'', ''system'',
     ''tep'', ''thay'', ''thong'', ''thuc'', ''hien'', ''trien'', ''use'', ''vu'', ''write'',
     ''run'', ''script'', ''invocation'', ''mutation'', ''modify'', ''edit'', ''create'',
     ''delete'', ''update'', ''push'', ''merge'', ''commit'', ''publish'', ''upload'', ''email'',
     ''slack'', ''webhook'', ''zalo'', ''teams'', ''messenger'', ''nothing'', ''none'']"

definition safe_report_tokens :: "string list" where
  "safe_report_tokens =
    [''actual'', ''anh'', ''answer'', ''bang'', ''bao'', ''briefly'', ''cao'', ''cho'', ''co'',
     ''conclusion'', ''database'', ''evidence'', ''explain'', ''giai'', ''gui'', ''health'',
     ''he'', ''is'', ''ket'', ''khong'', ''luan'', ''me'', ''ngan'', ''only'', ''provide'',
     ''qua'', ''quick'', ''ready'', ''real'', ''report'', ''result'', ''results'', ''return'',
     ''san'', ''send'', ''show'', ''summary'', ''system'', ''tell'', ''thanh'', ''that'',
     ''thich'', ''thong'', ''thuc'', ''to'', ''tom'', ''tra'', ''ve'', ''when'', ''whether'',
     ''dang'', ''hay'', ''if'', ''the'', ''a'', ''lai'', ''loi'', ''success'', ''check'', ''kiem'',
     ''cong'', ''khi'', ''chung'', ''gon'', ''yeu'', ''cau'', ''sang'', ''dung'', ''ma'',
     ''codex'', ''test'']"

definition safe_scaffold_tokens :: "string list" where
  "safe_scaffold_tokens = safe_status_observation_tokens @
     [''mot'', ''workflow'', ''soan'', ''checklist'', ''draft'', ''buoc'', ''theo'']"

definition safe_report_exact_prefixes :: "string list" where
  "safe_report_exact_prefixes =
    [''ket luan co the tiep tuc lam viec hay khong'', ''conclusion whether can continue working'']"

definition contrast_tokens :: "string list" where
  "contrast_tokens =
    [''nhung'', ''but'', ''however'', ''except'', ''excluding'', ''ngoai'', ''tru'', ''unless'']"

definition mutation_markers :: "string list" where
  "mutation_markers =
    [''sua'', ''chinh sua'', ''thay doi'', ''doi'', ''ghi'', ''tao'', ''xoa'', ''edit'',
     ''modify'', ''change'', ''changes'', ''write'', ''create'', ''delete'']"

definition side_effect_markers :: "string list" where
  "side_effect_markers =
    [''sua'', ''chinh sua'', ''thay doi'', ''doi'', ''ghi'', ''tao'', ''xoa'', ''edit'',
     ''modify'', ''change'', ''changes'', ''write'', ''create'', ''delete'', ''update'',
     ''cap nhat'', ''restart'', ''khoi dong lai'', ''deploy'', ''trien khai'', ''install'',
     ''cai dat'', ''uninstall'', ''go cai dat'', ''push'', ''merge'', ''commit'', ''publish'',
     ''upload'', ''gui email'', ''send email'', ''gui slack'', ''send slack'', ''gui webhook'',
     ''send webhook'', ''gui zalo'', ''send zalo'', ''gui teams'', ''send teams'',
     ''gui messenger'', ''send messenger'', ''chay lenh'', ''run command'', ''chay script'',
     ''run script'', ''goi openclaw'', ''call openclaw'', ''dung model'', ''use model'',
     ''call model'', ''start service'', ''stop service'', ''enable service'', ''disable service'',
     ''reload service'', ''khoi dong service'', ''dung service'', ''bat service'', ''tat service'',
     ''reboot'', ''shutdown'', ''kill process'', ''terminate process'', ''systemctl'']"

definition invoke_markers :: "string list" where
  "invoke_markers =
    [''goi'', ''dung'', ''su dung'', ''chay'', ''call'', ''use'', ''invoke'', ''run'']"

definition prefixed_identifier_rx :: rx where
  "prefixed_identifier_rx =
    Seq [words_rx [''wr'', ''tg'', ''dr'', ''ad'', ''risk'', ''run'', ''task'', ''session'',
     ''request''], plus_rx (Cls True [CDigit]), opt_rx (Cls True [CRange ''a'' ''z''])]"

definition timestamp_rx :: rx where
  "timestamp_rx =
    Seq [Rep True 6 None (Cls True [CDigit]), opt_rx (Seq [word_rx ''t'',
     Rep True 4 (Some 6) (Cls True [CDigit]), opt_rx (word_rx ''z'')])]"

definition clause_rx :: rx where
  "clause_rx =
    Alt [plus_rx (Cls True [CChar ''.'', CChar ''!'', CChar ''?'', CChar '';'', CChar [CHR 0x0A]]),
     Seq [spaces_rx, words_rx [''&'', ''+'', ''|'', ''-''], spaces_rx], Seq [Bnd,
     Alt [word_rx ''nhung'', word_rx ''but'', word_rx ''however'', word_rx ''then'',
     word_rx ''except'', word_rx ''excluding'', Seq [word_rx ''ngoai'', spaces_rx,
     word_rx ''tru''], Seq [word_rx ''tru'', spaces_rx, word_rx ''khi''], word_rx ''unless'',
     word_rx ''before'', word_rx ''after'', word_rx ''while'', Seq [word_rx ''truoc'', spaces_rx,
     word_rx ''khi''], Seq [word_rx ''sau'', spaces_rx, word_rx ''khi''], Seq [word_rx ''trong'',
     spaces_rx, word_rx ''khi'']], Bnd]]"

definition fragment_rx :: rx where
  "fragment_rx =
    Alt [plus_rx (Cls True [CChar '','', CChar ''/'', CChar '':'', CChar [CHR 0xE2, CHR 0x80,
     CHR 0x93], CChar [CHR 0xE2, CHR 0x80, CHR 0x94]]), word_rx ''->'', word_rx ''=>'']"

definition sequence_rx :: rx where
  "sequence_rx =
    Alt [plus_rx (Cls True [CChar ''.'', CChar ''!'', CChar ''?'', CChar '';'', CChar '':'',
     CChar ''/'', CChar [CHR 0x0A], CChar [CHR 0xE2, CHR 0x80, CHR 0x93], CChar [CHR 0xE2,
     CHR 0x80, CHR 0x94]]), Seq [spaces_rx, words_rx [''&'', ''+'', ''|'', ''-''], spaces_rx],
     word_rx ''->'', word_rx ''=>'', Seq [Bnd, Alt [word_rx ''nhung'', word_rx ''but'',
     word_rx ''however'', word_rx ''then'', word_rx ''except'', word_rx ''excluding'',
     Seq [word_rx ''ngoai'', spaces_rx, word_rx ''tru''], Seq [word_rx ''tru'', spaces_rx,
     word_rx ''khi''], word_rx ''unless'', word_rx ''before'', word_rx ''after'',
     word_rx ''while'', Seq [word_rx ''truoc'', spaces_rx, word_rx ''khi''], Seq [word_rx ''sau'',
     spaces_rx, word_rx ''khi''], Seq [word_rx ''trong'', spaces_rx, word_rx ''khi''],
     word_rx ''va'', word_rx ''and''], Bnd]]"

definition inner_dot_rx :: rx where
  "inner_dot_rx =
    Seq [Behind True [CRange ''a'' ''z'', CRange ''0'' ''9''], word_rx ''.'',
     Look True (Cls True [CRange ''a'' ''z'', CRange ''0'' ''9''])]"

definition shared_target_rx :: rx where
  "shared_target_rx =
    Seq [Bnd, Grp 1 (words_rx [''file'', ''config'', ''tep'', ''cau hinh'']),
     star_rx (Cls True [CSpace]), word_rx ''/'', star_rx (Cls True [CSpace]),
     Grp 2 (words_rx [''file'', ''config'', ''tep'', ''cau hinh'']), Bnd]"

definition dont_rx :: rx where
  "dont_rx =
    Seq [word_rx ''don'', Cls True [CChar [CHR 0x27], CChar [CHR 0xE2, CHR 0x80, CHR 0x99]],
     word_rx ''t'']"

definition do_not_rx :: rx where
  "do_not_rx =
    Seq [Bnd, word_rx ''do not'', Bnd]"

definition sau_do_rx :: rx where
  "sau_do_rx =
    Seq [Bnd, word_rx ''sau'', spaces_rx, words_rx [''do'', ''day''], Bnd]"

definition tiep_theo_rx :: rx where
  "tiep_theo_rx =
    Seq [Bnd, word_rx ''tiep'', spaces_rx, word_rx ''theo'', Bnd]"

section \<open>Constraints\<close>

datatype safety_constraint =
    ScReadOnly | NoCommands | NoFileChanges | NoConfigChanges | NoServiceRestart | NoGit
  | NoOpenclaw | NoModel | NoPackageInstall | NoDeploy | NoSystemMutation

fun constraint_value :: "safety_constraint \<Rightarrow> string" where
  "constraint_value ScReadOnly = ''read_only''"
| "constraint_value NoCommands = ''no_commands''"
| "constraint_value NoFileChanges = ''no_file_changes''"
| "constraint_value NoConfigChanges = ''no_config_changes''"
| "constraint_value NoServiceRestart = ''no_service_restart''"
| "constraint_value NoGit = ''no_git''"
| "constraint_value NoOpenclaw = ''no_openclaw''"
| "constraint_value NoModel = ''no_model''"
| "constraint_value NoPackageInstall = ''no_package_install''"
| "constraint_value NoDeploy = ''no_deploy''"
| "constraint_value NoSystemMutation = ''no_system_mutation''"

record safety_intent =
  si_text :: string
  si_constraints :: "safety_constraint list"
  si_unnegated_mutation :: bool

definition has_constraint :: "safety_intent \<Rightarrow> safety_constraint \<Rightarrow> bool" where
  "has_constraint i c \<longleftrightarrow> c \<in> set (si_constraints i)"

section \<open>Folding and clauses\<close>

definition fold_preserving_boundaries :: "unicode \<Rightarrow> string \<Rightarrow> string" where
  "fold_preserving_boundaries U text =
     (let a = py_replace (''r'' @ [CHR 0xE1, CHR 0xBB, CHR 0x93] @ ''i'') ''then'' (py_replace (''h'' @ [CHR 0xC3, CHR 0xA3] @ ''y'') ''imperative''
                (py_replace ([CHR 0xC4, CHR 0x91, CHR 0xE1, CHR 0xBB, CHR 0xAB] @ ''ng'') (''kh'' @ [CHR 0xC3, CHR 0xB4] @ ''ng'') (casefold U text)));
          b = rx_sub U False do_not_rx ''no'' (rx_sub U False dont_rx ''no'' a);
          c = py_replace d_stroke ''d'' (strip_marks U b)
      in rx_sub U False tiep_theo_rx '' then '' (rx_sub U False sau_do_rx '' then '' c))"

definition preserve_slashes :: "unicode \<Rightarrow> string \<Rightarrow> string" where
  "preserve_slashes U text =
     rx_sub_with U False shared_target_rx (\<lambda>cs m. group_text cs m 1 @ '' '' @ group_text cs m 2) text"

definition starts_with_marker :: "string \<Rightarrow> string list \<Rightarrow> bool" where
  "starts_with_marker text markers \<longleftrightarrow>
     list_ex (\<lambda>m. text = m \<or> starts_with (m @ '' '') text) markers"

text \<open>\<open>_starts_with_side_effect\<close>, on the words of its argument.\<close>

fun after_condition :: "string list \<Rightarrow> string list option" where
  "after_condition [] = None"
| "after_condition (t # ts) = (if t = ''thi'' \<or> t = ''then'' then Some ts else after_condition ts)"

lemma dropWhile_Cons_shorter: "dropWhile P ts = t # rest \<Longrightarrow> length rest < length ts"
  by (metis length_dropWhile_le length_Cons Suc_le_eq)

function effect_words :: "string list \<Rightarrow> bool"
  and effect_suffix :: "string list \<Rightarrow> string list option" where
  "effect_words ts =
     (let us = dropWhile (\<lambda>t. t = ''imperative'' \<or> t = ''please'' \<or> t = ''then'') ts;
          vs = (case us of [] \<Rightarrow> us
                | t # rest \<Rightarrow>
                    if t = ''neu'' \<or> t = ''if''
                    then (case after_condition rest of Some tail \<Rightarrow> tail
                          | None \<Rightarrow> (case effect_suffix rest of Some tail \<Rightarrow> tail | None \<Rightarrow> us))
                    else us)
      in starts_with_marker (py_join '' '' vs) side_effect_markers)"
| "effect_suffix [] = None"
| "effect_suffix (t # ts) = (if effect_words (t # ts) then Some (t # ts) else effect_suffix ts)"
  by pat_completeness auto

termination
  by (relation "measure (\<lambda>x. case x of Inl ts \<Rightarrow> 2 * length ts | Inr ts \<Rightarrow> 2 * length ts + 1)")
    (auto dest!: dropWhile_Cons_shorter [OF sym] split: list.splits if_splits)

declare effect_words.simps [simp del]

definition starts_with_side_effect :: "string \<Rightarrow> bool" where
  "starts_with_side_effect text = effect_words (py_split text)"

definition looks_like_negated_enumeration :: "string \<Rightarrow> bool" where
  "looks_like_negated_enumeration text \<longleftrightarrow>
     contains_any text [''hoac'', ''or'', ''hay''] \<and> \<not> contains_any text [''neu'', ''if'']
     \<and> \<not> list_ex (\<lambda>p. starts_with p text) [''imperative '', ''please '', ''then '']"

definition comma_starts_new_effect_clause :: "string \<Rightarrow> bool" where
  "comma_starts_new_effect_clause text \<longleftrightarrow>
     starts_with_side_effect text \<and> \<not> looks_like_negated_enumeration text"

text \<open>The pieces between the conjunctions that start an effect; the last word is no conjunction.\<close>

fun coordination_pieces :: "string list \<Rightarrow> string list \<Rightarrow> string list list" where
  "coordination_pieces [] acc = [acc]"
| "coordination_pieces (t # ts) acc =
     (if (t = ''va'' \<or> t = ''and'') \<and> ts \<noteq> [] \<and> starts_with_side_effect (py_join '' '' ts)
      then acc # coordination_pieces ts [] else coordination_pieces ts (acc @ [t]))"

definition split_coordination_boundaries :: "unicode \<Rightarrow> string \<Rightarrow> string list" where
  "split_coordination_boundaries U clause =
     (let tokens = py_split (squash U clause); ps = coordination_pieces tokens [] in
      if tokens = [] then []
      else if length ps = 1 then [clause]
      else filter (\<lambda>p. p \<noteq> []) (map (py_join '' '') ps))"

fun clause_fragments :: "unicode \<Rightarrow> string list \<Rightarrow> string \<Rightarrow> string list" where
  "clause_fragments U [] combined =
     (if combined = [] then [] else split_coordination_boundaries U combined)"
| "clause_fragments U (f # fs) combined =
     (if combined \<noteq> [] \<and> comma_starts_new_effect_clause (squash U f)
      then split_coordination_boundaries U combined @ clause_fragments U fs f
      else clause_fragments U fs (py_strip (combined @ '' '' @ f)))"

definition semantic_clauses :: "unicode \<Rightarrow> string \<Rightarrow> string list" where
  "semantic_clauses U text =
     concat (map (\<lambda>raw. clause_fragments U (rx_split U False fragment_rx raw) [])
       (rx_split U False clause_rx (preserve_slashes U (fold_preserving_boundaries U text))))"

section \<open>Negated scopes\<close>

definition is_negation :: "string \<Rightarrow> bool" where
  "is_negation t \<longleftrightarrow> t = ''khong'' \<or> t = ''no''"

fun scope_body :: "string list \<Rightarrow> string list" where
  "scope_body [] = []"
| "scope_body (t # ts) =
     (if t \<in> set contrast_tokens \<or> is_negation t
         \<or> ((t = ''neu'' \<or> t = ''if'') \<and> starts_with_side_effect (py_join '' '' (t # ts)))
      then [] else t # scope_body ts)"

fun scopes_of :: "string list \<Rightarrow> string list" where
  "scopes_of [] = []"
| "scopes_of (t # ts) =
     (if is_negation t then py_join '' '' (t # scope_body ts) # scopes_of ts else scopes_of ts)"

definition negated_scopes :: "unicode \<Rightarrow> string \<Rightarrow> string list" where
  "negated_scopes U text =
     concat (map (\<lambda>c. scopes_of (py_split (squash U c))) (semantic_clauses U text))"

section \<open>Harmless clauses\<close>

fun strip_prefix_words :: "string list \<Rightarrow> string list" where
  "strip_prefix_words (t # ts) =
     (if t \<in> set [''please'', ''imperative'', ''chi'', ''only''] then strip_prefix_words ts else t # ts)"
| "strip_prefix_words [] = []"

definition strip_clause_prefixes :: "string \<Rightarrow> string" where
  "strip_clause_prefixes c = py_join '' '' (strip_prefix_words (py_split c))"

definition looks_like_identifier_token :: "unicode \<Rightarrow> string \<Rightarrow> bool" where
  "looks_like_identifier_token U t \<longleftrightarrow>
     rx_fullmatch U False prefixed_identifier_rx t \<or> rx_fullmatch U False timestamp_rx t"

definition safe_identifier_prefixes :: "string list" where
  "safe_identifier_prefixes =
    [''wr'', ''tg'', ''dr'', ''ad'', ''risk'', ''run'', ''task'', ''session'', ''request'']"

definition looks_like_identifier_clause :: "unicode \<Rightarrow> string \<Rightarrow> bool" where
  "looks_like_identifier_clause U c \<longleftrightarrow>
     (let ts = py_split c in ts \<noteq> [] \<and> list_all (looks_like_identifier_token U) ts
        \<and> list_ex (\<lambda>t. list_ex (\<lambda>p. starts_with p t) safe_identifier_prefixes) ts)"

definition all_digits :: "string \<Rightarrow> bool" where
  "all_digits t \<longleftrightarrow> t \<noteq> [] \<and> list_all (\<lambda>c. 48 \<le> byte c \<and> byte c \<le> 57) t"

definition safe_words :: "unicode \<Rightarrow> string list \<Rightarrow> string list \<Rightarrow> bool" where
  "safe_words U table ts =
     list_all (\<lambda>t. t \<in> set table \<or> all_digits t \<or> looks_like_identifier_token U t) ts"

definition observation_text :: "string \<Rightarrow> string" where
  "observation_text normalized =
     py_join '' '' (py_split (foldl (\<lambda>t m. py_replace m '' '' t) normalized read_only_markers))"

definition has_observation_language :: "string \<Rightarrow> bool" where
  "has_observation_language normalized = contains_any (observation_text normalized) observation_markers"

definition report_words :: "unicode \<Rightarrow> string \<Rightarrow> bool" where
  "report_words U text \<longleftrightarrow> text \<in> set safe_report_exact_prefixes \<or> safe_words U safe_report_tokens (py_split text)"

fun tail_after :: "string \<Rightarrow> string list \<Rightarrow> string list option" where
  "tail_after b [] = None"
| "tail_after b (t # ts) = (if t = b then Some ts else tail_after b ts)"

definition conditional_report :: "unicode \<Rightarrow> string list \<Rightarrow> bool" where
  "conditional_report U ts =
     (case (case tail_after ''thi'' ts of Some x \<Rightarrow> Some x | None \<Rightarrow> tail_after ''then'' ts) of
        None \<Rightarrow> False
      | Some tail \<Rightarrow> (let text = strip_clause_prefixes (py_join '' '' tail) in
          starts_with_marker text report_prefix_markers \<and> report_words U text))"

definition no_change_clauses :: "string list" where
  "no_change_clauses = [''make no change'', ''make no changes'', ''no make change'', ''no make changes'',
     ''no make any change'', ''no make any changes'']"

definition is_harmless_readonly_clause :: "unicode \<Rightarrow> string \<Rightarrow> bool" where
  "is_harmless_readonly_clause U c =
     (let tokens = py_split c; stripped = strip_clause_prefixes c; ts = py_split stripped in
      if c = [] then True
      else if c \<in> set no_change_clauses then True
      else if tokens \<noteq> [] \<and> is_negation (hd tokens)
      then list_all (\<lambda>t. t \<in> set safe_negation_tokens) tokens
      else if c \<in> set safe_continuation_clauses then True
      else if looks_like_identifier_clause U c then True
      else if starts_with_marker stripped observation_markers
      then list_all (\<lambda>t. t \<in> set safe_status_observation_tokens) ts
      else if starts_with_marker stripped safe_scaffold_prefixes then safe_words U safe_scaffold_tokens ts
      else if starts_with_marker stripped report_prefix_markers then report_words U stripped
      else if ts \<noteq> [] \<and> (hd ts = ''health'' \<or> hd ts = ''ready'')
      then list_all (\<lambda>t. t \<in> set safe_status_observation_tokens) ts
      else if ts \<noteq> [] \<and> hd ts = ''core'' \<and> has_observation_language stripped
      then list_all (\<lambda>t. t \<in> set safe_status_observation_tokens) ts
      else if ts \<noteq> [] \<and> (hd ts = ''neu'' \<or> hd ts = ''if'') then conditional_report U ts
      else False)"

text \<open>A negation and the alternative after a comma belong together.\<close>

fun join_alternatives :: "string list \<Rightarrow> string list" where
  "join_alternatives (cur # nxt # rest) =
     (if (case py_split cur of [] \<Rightarrow> False | t # _ \<Rightarrow> is_negation t)
         \<and> contains_any nxt [''hoac'', ''or'', ''hay''] \<and> \<not> contains_any nxt [''neu'', ''if'']
      then (cur @ '' '' @ nxt) # join_alternatives rest
      else cur # join_alternatives (nxt # rest))"
| "join_alternatives fs = fs"

definition sequence_clauses :: "unicode \<Rightarrow> string \<Rightarrow> string list" where
  "sequence_clauses U text =
     concat (map (\<lambda>c. join_alternatives (filter (\<lambda>f. f \<noteq> []) (map (squash U) (split_on (CHR '','') c))))
       (rx_split U False sequence_rx
         (rx_sub U False inner_dot_rx '' '' (preserve_slashes U (fold_preserving_boundaries U text)))))"

section \<open>Unnegated effects\<close>

text \<open>\<open>s.split(p, 1)\<close> where \<open>p\<close> occurs.\<close>

fun py_cut :: "string \<Rightarrow> string \<Rightarrow> (string \<times> string) option" where
  "py_cut p [] = None"
| "py_cut p (c # s) = (if starts_with p (c # s) then Some ([], drop (length p) (c # s))
     else map_option (\<lambda>(a, b). (c # a, b)) (py_cut p s))"

definition has_unnegated_read_only_marker :: "unicode \<Rightarrow> string \<Rightarrow> bool" where
  "has_unnegated_read_only_marker U text =
     list_ex (\<lambda>c. let tokens = py_split (squash U c) in
       list_ex (\<lambda>m. let ms = py_split m in
         list_ex (\<lambda>i. take (length ms) (drop i tokens) = ms \<and>
             (let prev = drop (i - 2) (take i tokens) in
              \<not> (prev \<noteq> [] \<and> last prev \<in> set [''khong'', ''no'', ''not''])
              \<and> \<not> prev \<in> set [[''khong'', ''phai''], [''do'', ''not'']]))
           [0..<length tokens + 1 - length ms]) read_only_markers) (semantic_clauses U text)"

definition has_status_language :: "string \<Rightarrow> bool" where
  "has_status_language normalized \<longleftrightarrow>
     list_ex (\<lambda>m. py_in m normalized) status_markers \<or> (py_in ''health'' normalized \<and> py_in ''ready'' normalized)"

definition has_draft_checklist_intent :: "string \<Rightarrow> bool" where
  "has_draft_checklist_intent normalized = contains_any normalized draft_checklist_markers"

definition ambiguous_clause :: "unicode \<Rightarrow> string \<Rightarrow> bool" where
  "ambiguous_clause U c =
     (case find (\<lambda>m. contains_any c [m]) read_only_markers of
        None \<Rightarrow> \<not> is_harmless_readonly_clause U c
      | Some m \<Rightarrow> (case py_cut m c of
            None \<Rightarrow> False
          | Some (a, b) \<Rightarrow>
              (py_strip a \<noteq> [] \<and> \<not> is_harmless_readonly_clause U (py_strip a))
              \<or> (py_strip b \<noteq> [] \<and> \<not> is_harmless_readonly_clause U (py_strip b))))"

definition has_ambiguous_readonly_action :: "unicode \<Rightarrow> string \<Rightarrow> bool" where
  "has_ambiguous_readonly_action U text \<longleftrightarrow>
     has_unnegated_read_only_marker U text \<and> list_ex (ambiguous_clause U) (sequence_clauses U text)"

definition broad_negations :: "string list" where
  "broad_negations = [''no changes'', ''no change'', ''khong thay doi gi'', ''khong sua gi'']"

definition has_ambiguous_negated_alternative :: "string \<Rightarrow> bool" where
  "has_ambiguous_negated_alternative c =
     list_ex (\<lambda>sep. py_in ('' '' @ sep @ '' '') ('' '' @ c @ '' '') \<and>
       (case py_cut sep c of None \<Rightarrow> False
        | Some (head, tail) \<Rightarrow> contains_any (py_strip head) broad_negations
            \<and> starts_with_side_effect (py_strip tail)))
     [''or'', ''hoac'', ''hay'']"

definition residual_text :: "unicode \<Rightarrow> string \<Rightarrow> string" where
  "residual_text U clause =
     py_join '' '' (py_split (foldl (\<lambda>r s. py_replace ('' '' @ s @ '' '') '' '' r)
       ('' '' @ squash U clause @ '' '') (negated_scopes U clause)))"

definition has_unnegated_mutation :: "unicode \<Rightarrow> string \<Rightarrow> bool" where
  "has_unnegated_mutation U text \<longleftrightarrow>
     list_ex (\<lambda>clause. has_ambiguous_negated_alternative (squash U clause)
         \<or> (contains_any (squash U clause) side_effect_markers
            \<and> contains_any (residual_text U clause) side_effect_markers))
       (semantic_clauses U text)
     \<or> has_ambiguous_readonly_action U text"

section \<open>The analysis\<close>

definition is_no_commands :: "string \<Rightarrow> bool" where
  "is_no_commands scope = contains_any scope [''chay lenh'', ''run command'', ''run commands'', ''no commands'']"

definition is_no_file_change :: "string \<Rightarrow> bool" where
  "is_no_file_change scope \<longleftrightarrow> contains_any scope [''file'', ''tep''] \<and> contains_any scope mutation_markers"

definition is_no_config_change :: "string \<Rightarrow> bool" where
  "is_no_config_change scope \<longleftrightarrow> contains_any scope [''config'', ''cau hinh''] \<and> contains_any scope mutation_markers"

definition is_no_git :: "string \<Rightarrow> bool" where
  "is_no_git scope \<longleftrightarrow> contains_any scope [''git'']
     \<and> (contains_any scope invoke_markers \<or> scope = ''khong git'' \<or> scope = ''no git'')"

definition is_no_invocation :: "string \<Rightarrow> string list \<Rightarrow> bool" where
  "is_no_invocation scope targets \<longleftrightarrow> contains_any scope targets
     \<and> (contains_any scope invoke_markers
        \<or> list_ex (\<lambda>t. scope = ''khong '' @ t \<or> scope = ''no '' @ t) targets)"

definition is_no_system_mutation :: "string \<Rightarrow> bool" where
  "is_no_system_mutation scope \<longleftrightarrow>
     contains_any scope [''side effect'', ''system mutation'']
     \<or> contains_any scope [''no changes'', ''no make change'', ''no make changes'', ''no make any change'',
          ''no make any changes'', ''make no change'', ''make no changes'', ''khong thay doi gi'', ''khong sua gi'']
     \<or> (contains_any scope [''gi'', ''anything'', ''any change'', ''any changes'']
        \<and> contains_any scope side_effect_markers)
     \<or> (contains_any scope [''he thong'', ''system''] \<and> contains_any scope side_effect_markers)"

definition constraint_detectors :: "(safety_constraint \<times> (string \<Rightarrow> bool)) list" where
  "constraint_detectors =
    [(NoCommands, is_no_commands), (NoFileChanges, is_no_file_change), (NoConfigChanges, is_no_config_change),
     (NoServiceRestart, \<lambda>s. contains_any s [''restart'', ''khoi dong lai'']), (NoGit, is_no_git),
     (NoOpenclaw, \<lambda>s. is_no_invocation s [''openclaw'']),
     (NoModel, \<lambda>s. is_no_invocation s [''model'', ''mo hinh'']),
     (NoPackageInstall, \<lambda>s. contains_any s [''install'', ''cai dat'']),
     (NoDeploy, \<lambda>s. contains_any s [''deploy'', ''trien khai'']),
     (NoSystemMutation, is_no_system_mutation)]"

definition analyze_safety_intent :: "unicode \<Rightarrow> string \<Rightarrow> safety_intent" where
  "analyze_safety_intent U text =
     (let scopes = negated_scopes U text in
      \<lparr>si_text = normalize_semantic_text U text,
       si_constraints = (if has_unnegated_read_only_marker U text then [ScReadOnly] else [])
         @ map fst (filter (\<lambda>(c, p). list_ex p scopes) constraint_detectors),
       si_unnegated_mutation = has_unnegated_mutation U text\<rparr>)"

definition has_strong_read_only_boundary :: "safety_intent \<Rightarrow> bool" where
  "has_strong_read_only_boundary i \<longleftrightarrow>
     has_constraint i ScReadOnly
     \<and> (has_constraint i NoSystemMutation
        \<or> list_all (has_constraint i) [NoFileChanges, NoConfigChanges, NoServiceRestart])
     \<and> \<not> si_unnegated_mutation i"

definition is_read_only_status_intent :: "safety_intent \<Rightarrow> bool" where
  "is_read_only_status_intent i \<longleftrightarrow>
     \<not> has_draft_checklist_intent (si_text i) \<and> has_observation_language (si_text i)
     \<and> has_status_language (si_text i) \<and> py_in ''health'' (si_text i) \<and> py_in ''ready'' (si_text i)
     \<and> has_strong_read_only_boundary i"

definition is_read_only_core_status_intent :: "safety_intent \<Rightarrow> bool" where
  "is_read_only_core_status_intent i \<longleftrightarrow>
     list_ex (contains_phrase (si_text i)) [''anh duong'', ''core service'', ''core tu kiem tra'', ''core check'']
     \<and> \<not> has_draft_checklist_intent (si_text i) \<and> has_observation_language (si_text i)
     \<and> has_status_language (si_text i) \<and> py_in ''health'' (si_text i) \<and> py_in ''ready'' (si_text i)
     \<and> has_strong_read_only_boundary i"

definition requests_database_quick_check :: "safety_intent \<Rightarrow> bool" where
  "requests_database_quick_check i \<longleftrightarrow>
     py_in ''quick check'' (si_text i) \<and> contains_any (si_text i) [''database'', ''db'', ''pragma'']"

definition safe_guidance_extra :: "string list" where
  "safe_guidance_extra = [''anh'', ''check'', ''chrome'', ''core'', ''cua'', ''dang'', ''health'', ''kiem'',
     ''lenh'', ''me'', ''mo'', ''openclaw'', ''qua'', ''ready'', ''runtime'', ''service'', ''status'', ''tell'',
     ''thong'', ''toi'', ''tra'', ''trong'', ''wsl'']"

definition has_unsafe_operational_guidance_followup :: "unicode \<Rightarrow> string \<Rightarrow> string list \<Rightarrow> bool" where
  "has_unsafe_operational_guidance_followup U text markers =
     (let ms = map (normalize_semantic_text U) markers;
          allowed = concat (map py_split ms) @ safe_guidance_extra in
      contains_any (normalize_semantic_text U text) ms
      \<and> list_ex (\<lambda>c. if contains_any c ms then list_ex (\<lambda>t. t \<notin> set allowed) (py_split c)
                     else \<not> is_harmless_readonly_clause U c) (sequence_clauses U text))"

end
