(* ===== verification/VisualInteraction.thy ===== *)
theory VisualInteraction
  imports TextNormal Errors
begin

text \<open>
  \<open>app/visual_interaction.py\<close>: what an instruction asks to do with an image. The contract is
  built from the case-folded instruction by the code's tables and patterns, with negated actions
  masked first; a contract whose operation needs a target and has none asks for clarification.
\<close>

section \<open>Contracts\<close>

datatype visual_operation =
    VoConverse | VoAnalyze | VoExtract | VoVerify | VoCompare | VoSearch | VoDeriveContent
  | VoGenerate | VoEdit | VoTransform | VoAnnotate | VoFileAction | VoExternalAction

fun visual_operation_value :: "visual_operation \<Rightarrow> string" where
  "visual_operation_value VoConverse = ''converse''"
| "visual_operation_value VoAnalyze = ''analyze''"
| "visual_operation_value VoExtract = ''extract''"
| "visual_operation_value VoVerify = ''verify''"
| "visual_operation_value VoCompare = ''compare''"
| "visual_operation_value VoSearch = ''search''"
| "visual_operation_value VoDeriveContent = ''derive_content''"
| "visual_operation_value VoGenerate = ''generate''"
| "visual_operation_value VoEdit = ''edit''"
| "visual_operation_value VoTransform = ''transform''"
| "visual_operation_value VoAnnotate = ''annotate''"
| "visual_operation_value VoFileAction = ''file_action''"
| "visual_operation_value VoExternalAction = ''external_action''"

datatype visual_role =
    VrEvidence | VrEditTarget | VrSubjectReference | VrStyleReference | VrCompositionReference | VrDataSource

datatype visual_source =
    VsCurrentUpload | VsRepliedImage | VsRecentArtifact | VsExplicitReference | VsNone | VsAmbiguous

datatype visual_output = VoutText | VoutStructuredData | VoutImage | VoutFile | VoutExternalEffect

datatype visual_constraint =
    VcNoGenerate | VcNoEdit | VcPreserveIdentity | VcPreserveBackground | VcPreserveText

datatype visual_side_effect = SeNone | SeSave | SeOverwrite | SeDelete | SeSend | SePublish

record visual_contract =
  vc_instruction :: string
  vc_operation :: visual_operation
  vc_role :: "visual_role option"
  vc_source :: visual_source
  vc_output :: visual_output
  vc_constraints :: "visual_constraint list"
  vc_side_effect :: visual_side_effect
  vc_reference :: "string option"
  vc_clarification :: bool

definition concrete_source :: "visual_source \<Rightarrow> bool" where
  "concrete_source s \<longleftrightarrow> s \<noteq> VsNone \<and> s \<noteq> VsAmbiguous"

text \<open>The validator of the model.\<close>

definition visual_contract_validate :: "visual_contract \<Rightarrow> unit res" where
  "visual_contract_validate c =
     (if concrete_source (vc_source c)
      then ensureE (case vc_reference c of None \<Rightarrow> False | Some r \<Rightarrow> r \<noteq> [] \<and> starts_with ''media://'' r)
             ValidationError
      else ensureE (vc_reference c = None) ValidationError)"

section \<open>Tables and patterns\<close>

definition visual_nouns :: "string list" where
  "visual_nouns =
    [[CHR 0xE1, CHR 0xBA, CHR 0xA3] @ ''nh'', ''h'' @ [CHR 0xC3, CHR 0xAC] @ ''nh'', ''photo'',
     ''image'', ''poster'', ''visual'', ''logo'', ''screenshot'']"

definition visual_edit_targets :: "string list" where
  "visual_edit_targets =
    [''v'' @ [CHR 0xC3, CHR 0xA1] @ ''y'', ''vay'', [CHR 0xC3, CHR 0xA1] @ ''o'', ''ao'', ''c'' @
     [CHR 0xC3, CHR 0xB4] @ '' g'' @ [CHR 0xC3, CHR 0xA1] @ ''i'', ''co gai'', ''ng'' @ [CHR 0xC6,
     CHR 0xB0, CHR 0xE1, CHR 0xBB, CHR 0x9D] @ ''i m'' @ [CHR 0xE1, CHR 0xBA, CHR 0xAB] @ ''u'',
     ''nguoi mau'', ''khu'' @ [CHR 0xC3, CHR 0xB4] @ ''n m'' @ [CHR 0xE1, CHR 0xBA, CHR 0xB7] @
     ''t'', ''khuon mat'', ''t'' @ [CHR 0xC3, CHR 0xB3] @ ''c'', ''toc'', ''n'' @ [CHR 0xE1,
     CHR 0xBB, CHR 0x81] @ ''n'', ''nen'', ''background'', ''foreground'', ''m'' @ [CHR 0xC3,
     CHR 0xA0] @ ''u '' @ [CHR 0xC3, CHR 0xA1] @ ''o'', ''mau ao'', ''m'' @ [CHR 0xC3, CHR 0xA0] @
     ''u v'' @ [CHR 0xC3, CHR 0xA1] @ ''y'', ''mau vay'']"

definition visual_prompt_rxs :: "rx list" where
  "visual_prompt_rxs = [
    Seq [Bnd, words_rx [''prompt '' @ [CHR 0xE1, CHR 0xBA, CHR 0xA3] @ ''nh'', ''prompt h'' @
     [CHR 0xC3, CHR 0xAC] @ ''nh '' @ [CHR 0xE1, CHR 0xBA, CHR 0xA3] @ ''nh'', ''prompt anh'',
     ''prompt hinh anh'', ''visual prompt'', ''image prompt''], Bnd]]"

definition purpose_social_rxs :: "rx list" where
  "purpose_social_rxs = [
    Seq [Bnd, words_rx [[CHR 0xC4, CHR 0x91, CHR 0xE1, CHR 0xBB, CHR 0x83], ''de''], spaces_rx,
     opt_rx (Seq [words_rx [''anh'', ''t'' @ [CHR 0xC3, CHR 0xB4] @ ''i'', ''toi'', ''m'' @
     [CHR 0xC3, CHR 0xAC] @ ''nh'', ''minh'', ''kh'' @ [CHR 0xC3, CHR 0xA1] @ ''ch h'' @ [CHR 0xC3,
     CHR 0xA0] @ ''ng'', ''khach hang''], spaces_rx, opt_rx (Alt [word_rx (''t'' @ [CHR 0xE1,
     CHR 0xBB, CHR 0xB1]), Seq [word_rx ''tu'', spaces_rx]])]), words_rx [[CHR 0xC4, CHR 0x91,
     CHR 0xC4, CHR 0x83] @ ''ng'', ''dang'', ''post'', ''publish'', ''upload''], spaces_rx,
     opt_rx (Alt [word_rx (''l'' @ [CHR 0xC3, CHR 0xAA] @ ''n''), Seq [word_rx ''len'',
     spaces_rx]]), words_rx [''facebook'', ''fb'', ''instagram'', ''tiktok'', ''social media''],
     Bnd],
    Seq [Bnd, word_rx ''to'', spaces_rx, words_rx [''post'', ''publish'', ''upload''], spaces_rx,
     opt_rx (Seq [words_rx [''on'', ''to''], spaces_rx]), words_rx [''facebook'', ''instagram'',
     ''tiktok'', ''social media''], Bnd],
    Seq [Bnd, word_rx ''for'', spaces_rx, opt_rx (Seq [words_rx [''my'', ''a'', ''an'', ''the''],
     spaces_rx]), words_rx [''facebook'', ''instagram'', ''tiktok'', ''social media''], spaces_rx,
     words_rx [''post'', ''content''], Bnd]]"

definition external_timing_rx :: rx where
  "external_timing_rx =
    Seq [Bnd, Alt [word_rx (''b'' @ [CHR 0xC3, CHR 0xA2] @ ''y gi'' @ [CHR 0xE1, CHR 0xBB,
     CHR 0x9D]), word_rx ''bay gio'', word_rx ''ngay mai'', word_rx (''t'' @ [CHR 0xE1, CHR 0xBB,
     CHR 0x91] @ ''i nay''), word_rx ''toi nay'', Seq [word_rx (''l'' @ [CHR 0xC3, CHR 0xBA] @
     ''c''), spaces_rx, Rep True 1 (Some 2) (Cls True [CDigit]), opt_rx (Seq [word_rx '':'',
     Rep True 2 (Some 2) (Cls True [CDigit])])], word_rx ''now'', word_rx ''right now'',
     word_rx ''asap'', word_rx ''tomorrow'', word_rx ''tonight'', Seq [word_rx ''at'', spaces_rx,
     Rep True 1 (Some 2) (Cls True [CDigit]), opt_rx (Seq [word_rx '':'',
     Rep True 2 (Some 2) (Cls True [CDigit])]), star_rx (Cls True [CSpace]),
     opt_rx (words_rx [''am'', ''pm''])]], Bnd]"

definition explicit_external_rxs :: "rx list" where
  "explicit_external_rxs = [
    Seq [Bnd, words_rx [''r'' @ [CHR 0xE1, CHR 0xBB, CHR 0x93] @ ''i'', ''roi'', ''xong'',
     ''sau '' @ [CHR 0xC4, CHR 0x91, CHR 0xC3, CHR 0xB3], ''sau do'', ''then'', ''and then''],
     spaces_rx, words_rx [[CHR 0xC4, CHR 0x91, CHR 0xC4, CHR 0x83] @ ''ng'', ''dang'', ''post'',
     ''publish'', ''upload'', ''g'' @ [CHR 0xE1, CHR 0xBB, CHR 0xAD] @ ''i'', ''gui'', ''send'',
     ''email''], Bnd],
    Seq [Bol, words_rx [[CHR 0xC4, CHR 0x91, CHR 0xC4, CHR 0x83] @ ''ng'', ''dang'', ''post'',
     ''publish'', ''upload'', ''g'' @ [CHR 0xE1, CHR 0xBB, CHR 0xAD] @ ''i'', ''gui'', ''send'',
     ''email''], Bnd],
    Seq [Bnd, words_rx [''cho em'', ''nho em'', ''nh'' @ [CHR 0xE1, CHR 0xBB, CHR 0x9D] @ '' em'',
     ''bao em'', ''b'' @ [CHR 0xE1, CHR 0xBA, CHR 0xA3] @ ''o em'', ''muon em'', ''mu'' @
     [CHR 0xE1, CHR 0xBB, CHR 0x91] @ ''n em'', ''want you to'', ''need you to'', ''ask you to''],
     spaces_rx, words_rx [[CHR 0xC4, CHR 0x91, CHR 0xC4, CHR 0x83] @ ''ng'', ''dang'', ''post'',
     ''publish'', ''upload'', ''g'' @ [CHR 0xE1, CHR 0xBB, CHR 0xAD] @ ''i'', ''gui'', ''send'',
     ''email''], Bnd],
    Seq [Bnd, words_rx [''g'' @ [CHR 0xE1, CHR 0xBB, CHR 0xAD] @ ''i'', ''gui'', ''send''], Bnd,
     star_rx (Cls False [CChar ''.'', CChar '';'', CChar ''!'', CChar ''?'', CChar [CHR 0x0A]]),
     Bnd, words_rx [''cho'', ''to''], spaces_rx, Look False (Alt [Seq [word_rx ''anh'', Bnd],
     Seq [word_rx ''toi'', Bnd], Seq [word_rx (''t'' @ [CHR 0xC3, CHR 0xB4] @ ''i''), Bnd],
     Seq [word_rx ''minh'', Bnd], Seq [word_rx (''m'' @ [CHR 0xC3, CHR 0xAC] @ ''nh''), Bnd],
     Seq [word_rx ''me'', Bnd], Seq [word_rx ''here'', Bnd], Seq [word_rx ([CHR 0xC4, CHR 0x91,
     CHR 0xC3, CHR 0xA2] @ ''y''), Bnd], Seq [word_rx ''day'', Bnd]]), plus_rx (Cls True [CWord,
     CChar ''-''])]]"

definition influence_rx :: rx where
  "influence_rx =
    Seq [Behind False [CWord], words_rx [[CHR 0xE1, CHR 0xBA, CHR 0xA3] @ ''nh'', ''anh''],
     spaces_rx, word_rx (''h'' @ [CHR 0xC6, CHR 0xB0, CHR 0xE1, CHR 0xBB, CHR 0x9F] @ ''ng''),
     Look False (Cls True [CWord])]"

definition not_visual_rx :: rx where
  "not_visual_rx =
    Seq [Behind False [CWord], words_rx [''c'' @ [CHR 0xE1, CHR 0xBA, CHR 0xA5] @ ''u h'' @
     [CHR 0xC3, CHR 0xAC] @ ''nh'', ''cau hinh'', ''m'' @ [CHR 0xC3, CHR 0xB4] @ '' h'' @
     [CHR 0xC3, CHR 0xAC] @ ''nh'', ''mo hinh'', ''h'' @ [CHR 0xC3, CHR 0xAC] @ ''nh th'' @
     [CHR 0xE1, CHR 0xBB, CHR 0xA9] @ ''c'', ''hinh thuc'', ''docker image'', ''container image'',
     ''disk image''], Look False (Cls True [CWord])]"

definition social_publish_rx :: rx where
  "social_publish_rx =
    Seq [Bnd, words_rx [[CHR 0xC4, CHR 0x91, CHR 0xC4, CHR 0x83] @ ''ng'', ''dang'', ''post'',
     ''publish'', ''upload''], Bnd, star_rx (Cls False [CChar ''.'', CChar '';'', CChar ''!'',
     CChar ''?'', CChar [CHR 0x0A]]), Bnd, words_rx [''facebook'', ''fb'', ''instagram'',
     ''tiktok'', ''social media''], Bnd]"

definition no_generate_rx :: rx where
  "no_generate_rx =
    Seq [Bnd, Alt [Seq [words_rx [''kh'' @ [CHR 0xC3, CHR 0xB4] @ ''ng'', ''k'', [CHR 0xC4,
     CHR 0x91, CHR 0xE1, CHR 0xBB, CHR 0xAB] @ ''ng'', ''dont'', ''don'' @ [CHR 0x27] @ ''t'',
     ''do not''], spaces_rx, words_rx [''t'' @ [CHR 0xE1, CHR 0xBA, CHR 0xA1] @ ''o'', ''tao'',
     ''generate'', ''create'', ''make''], opt_rx (Seq [spaces_rx, word_rx (''l'' @ [CHR 0xE1,
     CHR 0xBA, CHR 0xA1] @ ''i'')])], Seq [words_rx [''kh'' @ [CHR 0xC3, CHR 0xB4] @ ''ng'',
     ''k''], spaces_rx, word_rx (''b'' @ [CHR 0xE1, CHR 0xBA, CHR 0xA3] @ ''o''),
     Rep True 0 (Some 2) (Seq [spaces_rx, plus_rx (Cls True [CWord])]), spaces_rx,
     words_rx [''t'' @ [CHR 0xE1, CHR 0xBA, CHR 0xA1] @ ''o'', ''tao'', ''generate'', ''create'',
     ''make''], opt_rx (Seq [spaces_rx, word_rx (''l'' @ [CHR 0xE1, CHR 0xBA, CHR 0xA1] @
     ''i'')])]], Bnd]"

definition no_edit_rx :: rx where
  "no_edit_rx =
    Seq [Bnd, words_rx [''kh'' @ [CHR 0xC3, CHR 0xB4] @ ''ng'', ''k'', [CHR 0xC4, CHR 0x91,
     CHR 0xE1, CHR 0xBB, CHR 0xAB] @ ''ng'', ''dont'', ''don'' @ [CHR 0x27] @ ''t'', ''do not''],
     spaces_rx, words_rx [''s'' @ [CHR 0xE1, CHR 0xBB, CHR 0xAD] @ ''a'', ''sua'', ''edit'',
     ''ch'' @ [CHR 0xE1, CHR 0xBB, CHR 0x89] @ ''nh'', ''chinh'', [CHR 0xC4, CHR 0x91, CHR 0xE1,
     CHR 0xBB, CHR 0x95] @ ''i'', ''doi'', ''thay''], Bnd]"

section \<open>Tests on the text\<close>

definition mentions :: "string \<Rightarrow> string list \<Rightarrow> bool" where
  "mentions text phrases = list_ex (\<lambda>p. py_in p text) phrases"

definition literal_rx :: "string \<Rightarrow> rx" where
  "literal_rx p = Seq [Behind False [CWord], word_rx p, Look False (Cls True [CWord])]"

definition contains_literal_phrase :: "unicode \<Rightarrow> string \<Rightarrow> string list \<Rightarrow> bool" where
  "contains_literal_phrase U text phrases = list_ex (\<lambda>p. rx_search U True (literal_rx p) text) phrases"

definition contains_visual_noun :: "unicode \<Rightarrow> string \<Rightarrow> bool" where
  "contains_visual_noun U text =
     contains_literal_phrase U (rx_sub U True not_visual_rx '' '' (rx_sub U True influence_rx '' '' text))
       visual_nouns"

definition is_visual_prompt_compose :: "unicode \<Rightarrow> string \<Rightarrow> bool" where
  "is_visual_prompt_compose U text = list_ex (\<lambda>r. rx_search U True r text) visual_prompt_rxs"

definition suffix_after :: "string \<Rightarrow> span \<Rightarrow> string" where
  "suffix_after text m = concat (drop (sp_to m) (py_chars text))"

definition has_explicit_external_action :: "unicode \<Rightarrow> string \<Rightarrow> bool" where
  "has_explicit_external_action U text \<longleftrightarrow>
     list_ex (\<lambda>r. rx_search U True r text) explicit_external_rxs
     \<or> list_ex (\<lambda>m. rx_search U True external_timing_rx (suffix_after text m))
         (concat (map (\<lambda>r. rx_finditer U True r text) purpose_social_rxs))
     \<or> rx_search U True social_publish_rx (foldl (\<lambda>t r. rx_sub U True r '' '' t) text purpose_social_rxs)"

definition mask_negated_actions :: "unicode \<Rightarrow> string \<Rightarrow> string \<times> visual_constraint list" where
  "mask_negated_actions U text =
     foldl (\<lambda>(t, cs) (c, r). if rx_search U True r t then (rx_sub U True r '' '' t, cs @ [c]) else (t, cs))
       (text, []) [(VcNoGenerate, no_generate_rx), (VcNoEdit, no_edit_rx)]"

section \<open>The operation\<close>

definition visual_operation_of :: "unicode \<Rightarrow> string \<Rightarrow> visual_source \<Rightarrow> visual_operation option" where
  "visual_operation_of U text source =
     (let noun = contains_visual_noun U text;
          evidence = (source \<noteq> VsNone);
          visual = (noun \<or> evidence);
          in_context = (visual \<or> contains_literal_phrase U text visual_edit_targets) in
      if has_explicit_external_action U text \<and> visual then Some VoExternalAction
      else if mentions text [(''l'' @ [CHR 0xC6, CHR 0xB0] @ ''u file''), ''save file'', ''ghi file'', (''xu'' @ [CHR 0xE1, CHR 0xBA, CHR 0xA5] @ ''t file''), ''export file''] \<and> visual
      then Some VoFileAction
      else if in_context \<and> mentions text [''khoanh'', ([CHR 0xC4, CHR 0x91, CHR 0xC3, CHR 0xA1] @ ''nh d'' @ [CHR 0xE1, CHR 0xBA, CHR 0xA5] @ ''u''), ''annotate'', ''circle'', ''mark'']
      then Some VoAnnotate
      else if in_context \<and> mentions text [(''bi'' @ [CHR 0xE1, CHR 0xBA, CHR 0xBF] @ ''n th'' @ [CHR 0xC3, CHR 0xA0] @ ''nh''), (''chuy'' @ [CHR 0xE1, CHR 0xBB, CHR 0x83] @ ''n th'' @ [CHR 0xC3, CHR 0xA0] @ ''nh''), ''transform'', ''convert'',
          ([CHR 0xC4, CHR 0x91, CHR 0xE1, CHR 0xBB, CHR 0x95] @ ''i phong c'' @ [CHR 0xC3, CHR 0xA1] @ ''ch''), ''style transfer'']
      then Some VoTransform
      else if in_context \<and> mentions text [(''s'' @ [CHR 0xE1, CHR 0xBB, CHR 0xAD] @ ''a''), ''sua'', (''ch'' @ [CHR 0xE1, CHR 0xBB, CHR 0x89] @ ''nh''), ''chinh'', ([CHR 0xC4, CHR 0x91, CHR 0xE1, CHR 0xBB, CHR 0x95] @ ''i''), ''doi'', ''thay'',
          (''x'' @ [CHR 0xC3, CHR 0xB3] @ ''a''), ''xoa'', (''th'' @ [CHR 0xC3, CHR 0xAA] @ ''m''), ''them'', ''edit'', ''replace'', ''remove'']
      then Some VoEdit
      else if visual \<and> mentions text [(''so s'' @ [CHR 0xC3, CHR 0xA1] @ ''nh''), ''so sanh'', ''compare'', (''c'' @ [CHR 0xC3, CHR 0xA1] @ ''i n'' @ [CHR 0xC3, CHR 0xA0] @ ''o '' @ [CHR 0xC4, CHR 0x91, CHR 0xE1, CHR 0xBA, CHR 0xB9] @ ''p h'' @ [CHR 0xC6, CHR 0xA1] @ ''n''),
          ''cai nao dep hon'', (''c'' @ [CHR 0xC3, CHR 0xA1] @ ''i n'' @ [CHR 0xC3, CHR 0xA0] @ ''o t'' @ [CHR 0xE1, CHR 0xBB, CHR 0x91] @ ''t h'' @ [CHR 0xC6, CHR 0xA1] @ ''n''), ''cai nao tot hon'', ''which looks better'', ''which is better'']
      then Some VoCompare
      else if in_context \<and> mentions text [(''d'' @ [CHR 0xE1, CHR 0xBB, CHR 0xB1] @ ''ng l'' @ [CHR 0xE1, CHR 0xBA, CHR 0xA1] @ ''i''), ''dung lai'', (''l'' @ [CHR 0xC3, CHR 0xA0] @ ''m l'' @ [CHR 0xE1, CHR 0xBA, CHR 0xA1] @ ''i''), ''lam lai'',
          (''t'' @ [CHR 0xE1, CHR 0xBA, CHR 0xA1] @ ''o l'' @ [CHR 0xE1, CHR 0xBA, CHR 0xA1] @ ''i''), ''tao lai'', (''v'' @ [CHR 0xE1, CHR 0xBA, CHR 0xBD] @ '' l'' @ [CHR 0xE1, CHR 0xBA, CHR 0xA1] @ ''i''), ''ve lai'', ''recreate'', ''remake'', ''redraw'', ''rebuild'']
      then Some VoGenerate
      else if mentions text [(''t'' @ [CHR 0xE1, CHR 0xBA, CHR 0xA1] @ ''o''), ''tao'', ''generate'', ''create'', ''make'']
          \<and> (noun \<or> mentions text [(''m'' @ [CHR 0xE1, CHR 0xBB, CHR 0x99] @ ''t c'' @ [CHR 0xC3, CHR 0xB4] @ '' g'' @ [CHR 0xC3, CHR 0xA1] @ ''i''), ''mot co gai'', (''m'' @ [CHR 0xE1, CHR 0xBB, CHR 0x99] @ ''t ng'' @ [CHR 0xC6, CHR 0xB0, CHR 0xE1, CHR 0xBB, CHR 0x9D] @ ''i''), ''mot nguoi''])
      then Some VoGenerate
      else if visual \<and> mentions text [(''tr'' @ [CHR 0xC3, CHR 0xAD] @ ''ch xu'' @ [CHR 0xE1, CHR 0xBA, CHR 0xA5] @ ''t''), ''trich xuat'', ''ocr'', ([CHR 0xC4, CHR 0x91, CHR 0xE1, CHR 0xBB, CHR 0x8D] @ ''c ch'' @ [CHR 0xE1, CHR 0xBB, CHR 0xAF]), ''doc chu'', ''extract text'']
      then Some VoExtract
      else if visual \<and> mentions text [(''x'' @ [CHR 0xC3, CHR 0xA1] @ ''c minh''), ''xac minh'', ''verify''] then Some VoVerify
      else if visual \<and> mentions text [(''ph'' @ [CHR 0xC3, CHR 0xA2] @ ''n t'' @ [CHR 0xC3, CHR 0xAD] @ ''ch''), ''phan tich'', (''nh'' @ [CHR 0xE1, CHR 0xBA, CHR 0xAD] @ ''n x'' @ [CHR 0xC3, CHR 0xA9] @ ''t''), ''nhan xet'', (''sai c'' @ [CHR 0xC3, CHR 0xA1] @ ''i g'' @ [CHR 0xC3, CHR 0xAC]),
          ''sai gi'', (''sai g'' @ [CHR 0xC3, CHR 0xAC]), (''xem nh'' @ [CHR 0xE1, CHR 0xBB, CHR 0xAF] @ ''ng '' @ [CHR 0xC4, CHR 0x91] @ ''i'' @ [CHR 0xE1, CHR 0xBB, CHR 0x81] @ ''u''), ''xem nhung dieu'']
      then Some VoAnalyze
      else if noun \<and> mentions text [(''c'' @ [CHR 0xC3, CHR 0xB3] @ '' th'' @ [CHR 0xE1, CHR 0xBA, CHR 0xA5] @ ''y''), ''co thay'', ''xem'', ([CHR 0xC4, CHR 0x91, CHR 0xC3, CHR 0xBA] @ ''ng k''), ''dung k'', ([CHR 0xC4, CHR 0x91, CHR 0xC3, CHR 0xBA] @ ''ng kh'' @ [CHR 0xC3, CHR 0xB4] @ ''ng'')]
      then Some VoAnalyze
      else if mentions text [(''t'' @ [CHR 0xC3, CHR 0xAC] @ ''m '' @ [CHR 0xE1, CHR 0xBA, CHR 0xA3] @ ''nh''), ''tim anh'', ''search image'', ''search photo''] then Some VoSearch
      else if mentions text [(''vi'' @ [CHR 0xE1, CHR 0xBA, CHR 0xBF] @ ''t caption''), ''viet caption'', (''vi'' @ [CHR 0xE1, CHR 0xBA, CHR 0xBF] @ ''t n'' @ [CHR 0xE1, CHR 0xBB, CHR 0x99] @ ''i dung''), ''viet noi dung'',
          ''derive content''] \<and> visual
      then Some VoDeriveContent
      else if visual then Some VoConverse
      else None)"

definition visual_role_for :: "visual_operation \<Rightarrow> string \<Rightarrow> visual_source \<Rightarrow> visual_role option" where
  "visual_role_for operation text source =
     (if \<not> concrete_source source then None
      else case operation of
        VoAnalyze \<Rightarrow> Some VrEvidence | VoVerify \<Rightarrow> Some VrEvidence
      | VoCompare \<Rightarrow> Some VrEvidence | VoConverse \<Rightarrow> Some VrEvidence
      | VoExtract \<Rightarrow> Some VrDataSource
      | VoEdit \<Rightarrow> Some VrEditTarget | VoTransform \<Rightarrow> Some VrEditTarget | VoAnnotate \<Rightarrow> Some VrEditTarget
      | VoGenerate \<Rightarrow>
          (if mentions text [(''phong c'' @ [CHR 0xC3, CHR 0xA1] @ ''ch''), ''phong cach'', ''style''] then Some VrStyleReference
           else if mentions text [(''b'' @ [CHR 0xE1, CHR 0xBB, CHR 0x91] @ '' c'' @ [CHR 0xE1, CHR 0xBB, CHR 0xA5] @ ''c''), ''bo cuc'', ''composition'', ''layout''] then Some VrCompositionReference
           else if mentions text [(''nh'' @ [CHR 0xC3, CHR 0xA2] @ ''n v'' @ [CHR 0xE1, CHR 0xBA, CHR 0xAD] @ ''t''), ''nhan vat'', (''ng'' @ [CHR 0xC6, CHR 0xB0, CHR 0xE1, CHR 0xBB, CHR 0x9D] @ ''i n'' @ [CHR 0xC3, CHR 0xA0] @ ''y''), ''nguoi nay'', ''subject'']
           then Some VrSubjectReference else None)
      | _ \<Rightarrow> None)"

fun visual_output_for :: "visual_operation \<Rightarrow> visual_output" where
  "visual_output_for VoExtract = VoutStructuredData"
| "visual_output_for VoGenerate = VoutImage"
| "visual_output_for VoEdit = VoutImage"
| "visual_output_for VoTransform = VoutImage"
| "visual_output_for VoAnnotate = VoutImage"
| "visual_output_for VoFileAction = VoutFile"
| "visual_output_for VoExternalAction = VoutExternalEffect"
| "visual_output_for _ = VoutText"

definition visual_side_effect_for :: "visual_operation \<Rightarrow> string \<Rightarrow> visual_side_effect" where
  "visual_side_effect_for operation text =
     (if operation = VoFileAction
      then (if mentions text [(''x'' @ [CHR 0xC3, CHR 0xB3] @ ''a''), ''xoa'', ''delete''] then SeDelete
            else if mentions text [(''ghi '' @ [CHR 0xC4, CHR 0x91, CHR 0xC3, CHR 0xA8]), ''ghi de'', ''overwrite''] then SeOverwrite else SeSave)
      else if operation = VoExternalAction
      then (if mentions text [([CHR 0xC4, CHR 0x91, CHR 0xC4, CHR 0x83] @ ''ng''), ''dang'', ''post'', ''publish''] then SePublish else SeSend)
      else SeNone)"

definition needs_target :: "visual_operation \<Rightarrow> bool" where
  "needs_target operation \<longleftrightarrow>
     operation \<in> set [VoAnalyze, VoExtract, VoVerify, VoCompare, VoEdit, VoTransform, VoAnnotate]"

definition build_visual_interaction_contract ::
  "unicode \<Rightarrow> string \<Rightarrow> visual_source \<Rightarrow> string option \<Rightarrow> visual_contract option res" where
  "build_visual_interaction_contract U raw source reference =
     (let lowered = casefold U raw in
      if is_visual_prompt_compose U lowered then Inr None
      else let (effective, constraints) = mask_negated_actions U lowered in
       (case visual_operation_of U effective source of
          None \<Rightarrow> Inr None
        | Some operation \<Rightarrow>
            if \<not> concrete_source source \<and> reference \<noteq> None then Inl (ValueError ''none or ambiguous image source cannot carry a reference'')
            else if concrete_source source \<and> reference = None
            then Inl (ValueError ''concrete image source requires a managed-media reference'')
            else let c = \<lparr>vc_instruction = raw, vc_operation = operation,
                     vc_role = visual_role_for operation lowered source, vc_source = source,
                     vc_output = visual_output_for operation, vc_constraints = constraints,
                     vc_side_effect = visual_side_effect_for operation lowered, vc_reference = reference,
                     vc_clarification = (needs_target operation \<and> \<not> concrete_source source)\<rparr>
                 in bindE (visual_contract_validate c) (\<lambda>_. Inr (Some c))))"

definition should_bind_recent_visual_candidate :: "unicode \<Rightarrow> string \<Rightarrow> bool res" where
  "should_bind_recent_visual_candidate U raw =
     (let lowered = casefold U raw in
      bindE (build_visual_interaction_contract U lowered VsNone None) (\<lambda>base.
        Inr ((case base of Some c \<Rightarrow> vc_clarification c | None \<Rightarrow> False)
          \<or> (contains_visual_noun U lowered \<and> mentions lowered
               [(''d'' @ [CHR 0xE1, CHR 0xBB, CHR 0xB1] @ ''ng l'' @ [CHR 0xE1, CHR 0xBA, CHR 0xA1] @ ''i''), ''dung lai'', (''l'' @ [CHR 0xC3, CHR 0xA0] @ ''m l'' @ [CHR 0xE1, CHR 0xBA, CHR 0xA1] @ ''i''), ''lam lai'', (''t'' @ [CHR 0xE1, CHR 0xBA, CHR 0xA1] @ ''o l'' @ [CHR 0xE1, CHR 0xBA, CHR 0xA1] @ ''i''), ''tao lai'', (''v'' @ [CHR 0xE1, CHR 0xBA, CHR 0xBD] @ '' l'' @ [CHR 0xE1, CHR 0xBA, CHR 0xA1] @ ''i''), ''ve lai'',
                ''recreate'', ''remake'', ''redraw'', ''rebuild'']))))"

section \<open>Facts\<close>

text \<open>
  A contract that is built is valid, asks for an image only by an operation on images, and asks
  for clarification instead of guessing a target.
\<close>

lemma built_contract:
  assumes "build_visual_interaction_contract U raw source reference = Inr (Some c)"
  shows "visual_contract_validate c = Inr ()" "vc_instruction c = raw" "vc_source c = source"
    "vc_output c = visual_output_for (vc_operation c)"
    "vc_clarification c \<longleftrightarrow> needs_target (vc_operation c) \<and> \<not> concrete_source source"
    "vc_side_effect c \<noteq> SeNone \<longleftrightarrow> vc_operation c \<in> {VoFileAction, VoExternalAction}"
  using assms
  by (auto simp: build_visual_interaction_contract_def Let_def bindE_Inr_iff visual_side_effect_for_def
      split: if_splits option.splits prod.splits)

end
