(* ===== verification/FastRouting.thy ===== *)
theory FastRouting
  imports VisualInteraction
begin

text \<open>
  \<open>app/routing/\<close>: the deterministic router that decides whether a request is answered
  directly, read from memory or from Core, or executed as a workflow.
\<close>

datatype fast_route = RDirect | RMemory | RCoreRead | RWorkflow

record route_decision =
  rd_route :: fast_route
  rd_rule :: string
  rd_reason :: string

section \<open>Tables and patterns\<close>

definition workflow_phrases :: "string list" where
  "workflow_phrases =
    [''lap ke hoach'', ''tao'', ''sua'', ''cap nhat'', ''ghi file'', ''chay'', ''thuc hien'',
     ''trien khai'', ''xay'', ''khac phuc'', ''xoa'', ''gui'', ''cai dat'', ''khoi dong lai'',
     ''doi ten'', ''di chuyen'', ''sao chep'', ''luu thong tin'', ''ghi nho rang'', ''plan'',
     ''create'', ''edit'', ''update'', ''write'', ''run'', ''execute'', ''implement'', ''build'',
     ''fix'', ''delete'', ''remove'', ''send'', ''deploy'', ''install'', ''commit'', ''push'',
     ''restart'', ''change'', ''modify'', ''generate'', ''move'', ''copy'', ''publish'',
     ''list files'', ''break down'', ''call'', ''save this'', ''store this'', ''remember this'']"

definition workflow_directive_phrases :: "string list" where
  "workflow_directive_phrases =
    [''soan checklist'']"

definition sequential_execution_markers :: "string list" where
  "sequential_execution_markers =
    [''roi'', ''sau do'', ''then'']"

definition memory_inherent_phrases :: "string list" where
  "memory_inherent_phrases =
    [''nho lai'', ''ban co nho'', ''toi da noi gi'', ''do you remember'', ''what did i say'',
     ''what have i saved'', ''recall'']"

definition memory_storage_phrases :: "string list" where
  "memory_storage_phrases =
    [''bo nho'', ''memory'', ''da luu'', ''stored'', ''saved'']"

definition memory_read_phrases :: "string list" where
  "memory_read_phrases =
    [''tim'', ''tra cuu'', ''truy xuat'', ''xem lai'', ''cho toi biet'', ''search'', ''find'',
     ''retrieve'', ''look up'']"

definition core_entity_phrases :: "string list" where
  "core_entity_phrases =
    [''project'', ''du an'', ''task'', ''nhiem vu'', ''core'', ''anh duong'']"

definition core_status_phrases :: "string list" where
  "core_status_phrases =
    [''trang thai'', ''tien do'', ''the nao'', ''health'', ''ready'', ''status'', ''progress'',
     ''how is'', ''current state'', ''hoat dong'', ''on khong'']"

definition core_read_phrases :: "string list" where
  "core_read_phrases =
    [''xem'', ''kiem tra'', ''hien thi'', ''show'', ''view'', ''list'', ''get'']"

definition visual_prompt_action_phrases :: "string list" where
  "visual_prompt_action_phrases =
    [''dung'', ''su dung'', ''lam'', ''tao'', ''soan'', ''viet'', ''generate'', ''compose'',
     ''make'', ''build'']"

definition visual_prompt_target_phrases :: "string list" where
  "visual_prompt_target_phrases =
    [''prompt anh'', ''prompt hinh anh'', ''visual prompt'', ''image prompt'']"

definition visual_image_action_phrases :: "string list" where
  "visual_image_action_phrases =
    [''dung'', ''su dung'', ''lam'', ''tao'', ''create'', ''generate'', ''make'', ''build'']"

definition visual_image_target_rx :: rx where
  "visual_image_target_rx =
    Seq [Behind False [CWord], Alt [word_rx ([CHR 0xE1, CHR 0xBA, CHR 0xA3] @ ''nh''),
     Seq [word_rx (''h'' @ [CHR 0xC3, CHR 0xAC] @ ''nh''), opt_rx (Seq [spaces_rx,
     word_rx ([CHR 0xE1, CHR 0xBA, CHR 0xA3] @ ''nh'')])], Seq [word_rx ''hinh'',
     opt_rx (Seq [spaces_rx, word_rx ''anh''])], word_rx ''image'', word_rx ''photo'',
     word_rx ''picture'', word_rx ''artwork'', word_rx ''poster'', word_rx ''banner'',
     word_rx ''thumbnail''], Look False (Cls True [CWord])]"

definition follow_up_utterances :: "string list" where
  "follow_up_utterances =
    [''xong chua'', ''sao roi'', ''on chua'', ''the nao roi'']"

definition question_only_rx :: rx where
  "question_only_rx =
    Seq [Bol, star_rx (Cls True [CSpace]), plus_rx (Cls True [CChar ''?'', CChar [CHR 0xEF,
     CHR 0xBC, CHR 0x9F]]), star_rx (Cls True [CSpace]), Eol]"

definition direct_utterances :: "string list" where
  "direct_utterances =
    [''ok'', ''okay'', ''duoc'', ''da'', ''da ro'', ''vang'', ''dong y'', ''dung'', ''dung roi'',
     ''toi hieu'', ''toi hieu roi'', ''vang toi hieu roi'', ''tot'', ''tot lam'', ''tuyet'',
     ''tuyet voi'', ''great'', ''got it'', ''nice'', ''sounds good'', ''chao ban khoe khong'',
     ''how are you'']"

definition advisory_phrases :: "string list" where
  "advisory_phrases =
    [''chi dan'', ''huong dan'', ''cach'', ''the nao'', ''nhu nao'', ''nen'', ''tai sao'',
     ''cho anh lenh'', ''cho toi lenh'', ''noi anh cach'', ''noi toi cach'', ''cho anh biet cach'',
     ''cho toi biet cach'', ''em nghi'', ''tu chay'', ''anh tu chay'', ''toi tu chay'', ''how to'',
     ''instructions'', ''guide me'', ''tell me how'', ''what should'', ''why'', ''advice'']"

definition operational_entity_phrases :: "string list" where
  "operational_entity_phrases =
    [''openclaw'', ''docker'', ''docker compose'', ''wsl'', ''systemd'', ''9router'', ''gateway'']"

definition operational_query_phrases :: "string list" where
  "operational_query_phrases =
    [''o dau'', ''dang chay'', ''duong dan'', ''path'', ''where'', ''which command'',
     ''what command'']"

definition greeting_rx :: rx where
  "greeting_rx =
    Seq [Bol, words_rx [''xin chao'', ''chao'', ''chao buoi sang'', ''hello'', ''hi'', ''hey'',
     ''good morning'', ''good afternoon'', ''good evening''], opt_rx (Seq [word_rx '' '',
     words_rx [''ban'', ''anh duong'', ''there'']]), Eol]"

definition thanks_rx :: rx where
  "thanks_rx =
    Seq [Bol, words_rx [''cam on'', ''thank you'', ''thanks''], opt_rx (Seq [word_rx '' '',
     words_rx [''ban'', ''anh duong'', ''nhe'', ''rat nhieu'', ''so much'']]), Eol]"

definition simple_arithmetic_rx :: rx where
  "simple_arithmetic_rx =
    Seq [Bol, opt_rx (Seq [word_rx ''tg1 direct '', plus_rx (Cls True [CRange ''0'' ''9'']),
     word_rx '' '']), word_rx ''tinh '', plus_rx (Cls True [CRange ''0'' ''9'']),
     plus_rx (Seq [word_rx '' '', plus_rx (Cls True [CRange ''0'' ''9''])]),
     word_rx '' va tra loi ngan gon'', Eol]"

definition config_word_rx :: rx where
  "config_word_rx =
    Seq [Bnd, words_rx [''c'' @ [CHR 0xE1, CHR 0xBA, CHR 0xA5] @ ''u'', ''cau''], spaces_rx,
     word_rx (''h'' @ [CHR 0xC3, CHR 0xAC] @ ''nh''), Bnd]"

definition make_image_rx :: rx where
  "make_image_rx =
    Seq [Bnd, words_rx [''tao'', ''lam'', ''create'', ''generate'', ''make'', ''build''],
     spaces_rx, word_rx ''anh'', Bnd]"

section \<open>Classification\<close>

definition is_visual_prompt_workflow :: "string \<Rightarrow> bool" where
  "is_visual_prompt_workflow n \<longleftrightarrow>
     contains_any n visual_prompt_action_phrases \<and> contains_any n visual_prompt_target_phrases"

definition is_visual_image_workflow :: "unicode \<Rightarrow> string \<Rightarrow> string \<Rightarrow> bool" where
  "is_visual_image_workflow U request n \<longleftrightarrow>
     \<not> is_visual_prompt_workflow n \<and> contains_any n visual_image_action_phrases
     \<and> (rx_search U True visual_image_target_rx (rx_sub U True config_word_rx '' '' request)
        \<or> rx_search U False make_image_rx n)"

definition is_memory_request :: "string \<Rightarrow> bool" where
  "is_memory_request n \<longleftrightarrow> contains_any n memory_inherent_phrases
     \<or> (contains_any n memory_storage_phrases \<and> contains_any n memory_read_phrases)"

definition is_core_read_request :: "string \<Rightarrow> bool" where
  "is_core_read_request n \<longleftrightarrow> contains_any n core_entity_phrases
     \<and> (contains_any n core_status_phrases \<or> contains_any n core_read_phrases)"

text \<open>The word \<open>cach\<close> counts unless \<open>phong\<close> stands before it.\<close>

fun advises :: "string list \<Rightarrow> bool" where
  "advises (v # w # ws) = ((w = ''cach'' \<and> v \<noteq> ''phong'') \<or> advises (w # ws))"
| "advises _ = False"

definition is_advisory_request :: "string \<Rightarrow> bool" where
  "is_advisory_request n \<longleftrightarrow>
     contains_any n (filter (\<lambda>p. p \<noteq> ''cach'') advisory_phrases) \<or> advises ([] # py_split n)"

definition is_operational_guidance_request :: "string \<Rightarrow> bool \<Rightarrow> bool" where
  "is_operational_guidance_request n advisory \<longleftrightarrow> contains_any n operational_entity_phrases
     \<and> (advisory \<or> contains_any n operational_query_phrases)"

text \<open>\<open>s.split(p)\<close> for a non-empty \<open>p\<close>.\<close>

fun split_text_from :: "nat \<Rightarrow> string \<Rightarrow> string \<Rightarrow> string \<Rightarrow> string list" where
  "split_text_from n p [] acc = [acc]"
| "split_text_from (Suc n) p (c # s) acc = split_text_from n p s acc"
| "split_text_from 0 p (c # s) acc =
     (if starts_with p (c # s) then acc # split_text_from (length p - 1) p s []
      else split_text_from 0 p s (acc @ [c]))"

definition has_sequential_execution_intent :: "string \<Rightarrow> bool" where
  "has_sequential_execution_intent n =
     list_ex (\<lambda>m. list_ex (\<lambda>seg. contains_any seg workflow_phrases)
         (tl (split_text_from 0 ('' '' @ m @ '' '') n []))) sequential_execution_markers"

definition is_direct_request :: "unicode \<Rightarrow> string \<Rightarrow> bool" where
  "is_direct_request U n \<longleftrightarrow> n \<in> set direct_utterances \<or> rx_fullmatch U False greeting_rx n
     \<or> rx_fullmatch U False thanks_rx n \<or> rx_fullmatch U False simple_arithmetic_rx n"

section \<open>The route\<close>

definition routed :: "fast_route \<Rightarrow> string \<Rightarrow> string \<Rightarrow> route_decision" where
  "routed r rule reason = \<lparr>rd_route = r, rd_rule = rule, rd_reason = reason\<rparr>"

definition route_visual :: "visual_contract \<Rightarrow> route_decision option" where
  "route_visual v =
     (if vc_clarification v
      then Some (routed RDirect ''routing.direct.visual_clarification''
             ''The visual operation needs a concrete image target before execution.'')
      else if vc_operation v \<in> set [VoAnalyze, VoExtract, VoVerify, VoCompare, VoSearch, VoDeriveContent]
      then Some (routed RDirect ''routing.direct.visual_analysis''
             ''The visual operation is read-only and requires no image mutation workflow.'')
      else if vc_operation v \<in> set [VoGenerate, VoEdit, VoTransform, VoAnnotate, VoFileAction, VoExternalAction]
      then Some (routed RWorkflow ''routing.workflow.visual_operation''
             ''The visual operation requires workflow execution or an external side effect.'')
      else None)"

definition explicit_action :: route_decision where
  "explicit_action = routed RWorkflow ''routing.workflow.explicit_action''
     ''An explicit action or side effect requires workflow handling.''"

definition route_text :: "unicode \<Rightarrow> string \<Rightarrow> string \<Rightarrow> route_decision" where
  "route_text U request n =
     (let advisory = is_advisory_request n in
      if contains_any n workflow_directive_phrases then explicit_action
      else if is_visual_image_workflow U request n \<and> \<not> advisory
      then routed RWorkflow ''routing.workflow.visual_image''
             ''An explicit image generation request requires workflow handling.''
      else if is_visual_prompt_workflow n \<and> \<not> advisory
      then routed RWorkflow ''routing.workflow.visual_prompt''
             ''An explicit visual prompt composition request requires workflow handling.''
      else if is_operational_guidance_request n advisory
      then routed RWorkflow ''routing.workflow.operational_guidance''
             ''Operational guidance requires runtime-verified workflow handling.''
      else if contains_any n workflow_phrases \<and> (\<not> advisory \<or> has_sequential_execution_intent n)
      then explicit_action
      else if is_memory_request n
      then routed RMemory ''routing.memory.explicit_retrieval''
             ''The request explicitly asks to retrieve stored information.''
      else if is_core_read_request n
      then routed RCoreRead ''routing.core_read.status_query''
             ''The request asks for read-only Core, Project, or Task status.''
      else if advisory
      then routed RDirect ''routing.direct.advisory_action_mention''
             ''The request asks for guidance or explanation rather than bot-executed side effects.''
      else if is_direct_request U n
      then routed RDirect ''routing.direct.simple_conversation''
             ''The request is a simple conversational response.''
      else routed RDirect ''routing.direct.no_explicit_execution_intent''
             ''No explicit execution intent was detected; use direct conversation.'')"

definition fast_route_of :: "unicode \<Rightarrow> string \<Rightarrow> visual_contract option \<Rightarrow> route_decision" where
  "fast_route_of U request visual =
     (let n = normalize_semantic_text U request in
      if n = []
      then (if rx_fullmatch U False question_only_rx request
            then routed RDirect ''routing.direct.follow_up''
                   ''A punctuation-only follow-up has no new execution objective.''
            else routed RWorkflow ''routing.workflow.empty_input''
                   ''Empty input is routed to workflow for safe handling.'')
      else if n \<in> set follow_up_utterances
      then routed RDirect ''routing.direct.follow_up''
             ''The message is a conversational follow-up without a new objective.''
      else case (case visual of None \<Rightarrow> None | Some v \<Rightarrow> route_visual v) of
             Some d \<Rightarrow> d | None \<Rightarrow> route_text U request n)"

end
