(* ===== verification/IntentContract.thy ===== *)
theory IntentContract
  imports TextNormal
begin

text \<open>
  \<open>app/capabilities/intent_contract.py\<close>: purpose, delivery and external effects of a visual
  request, segment by segment. Publishing named as the purpose of an image is set apart from
  publishing asked of the agent, and delivery to the source chat from sending to someone else.
\<close>

section \<open>Patterns\<close>

definition social_rx :: rx where
  "social_rx = Alt [words_rx [''facebook'', ''fb'', ''instagram'', ''ig'', ''tiktok'', ''zalo''],
     Seq [word_rx ''social'', spaces_rx, word_rx ''media'']]"

definition publish_rx :: rx where
  "publish_rx = Alt [words_rx [''dang'', ''post'', ''publish'', ''upload'', ''up'', ''share''],
     Seq [word_rx ''chia'', spaces_rx, word_rx ''se'']]"

definition source_pronoun_rx :: rx where
  "source_pronoun_rx = words_rx [''anh'', ''toi'', ''minh'', ''me'', ''myself'']"

definition purpose_rxs :: "rx list" where
  "purpose_rxs = [
    Seq [Bnd, word_rx ''de'', spaces_rx, opt_rx (Seq [source_pronoun_rx, spaces_rx,
     opt_rx (Seq [word_rx ''tu'', spaces_rx])]), publish_rx, spaces_rx,
     opt_rx (Seq [word_rx ''len'', spaces_rx]), social_rx, Bnd],
    Seq [Bnd, word_rx ''to'', spaces_rx, publish_rx, spaces_rx, opt_rx (Seq [words_rx [''on'',
     ''to''], spaces_rx]), social_rx, Bnd],
    Seq [Bnd, word_rx ''for'', spaces_rx, opt_rx (Seq [words_rx [''my'', ''a'', ''an'', ''the''],
     spaces_rx]), social_rx, spaces_rx, words_rx [''post'', ''content''], Bnd],
    Seq [Bnd, word_rx ''for'', spaces_rx, Alt [Seq [word_rx ''posting'', spaces_rx, word_rx ''on'',
     spaces_rx, social_rx], Seq [word_rx ''use'', spaces_rx, word_rx ''in'', spaces_rx,
     opt_rx (Seq [words_rx [''a'', ''an''], spaces_rx]), social_rx, spaces_rx, words_rx [''post'',
     ''content'']]], Bnd],
    Seq [Bnd, Alt [Seq [word_rx ''dung'', spaces_rx, word_rx ''cho''], word_rx ''cho''], spaces_rx,
     opt_rx (Seq [Alt [word_rx ''bai'', Seq [word_rx ''noi'', spaces_rx, word_rx ''dung'']],
     spaces_rx]), opt_rx (Seq [word_rx ''dang'', spaces_rx]), social_rx, Bnd],
    Seq [Bnd, word_rx ''de'', spaces_rx, word_rx ''lam'', spaces_rx, Alt [Seq [word_rx ''noi'',
     spaces_rx, word_rx ''dung''], word_rx ''content''], spaces_rx, social_rx, Bnd],
    Seq [Bnd, word_rx ''cho'', spaces_rx, Alt [Seq [word_rx ''noi'', spaces_rx, word_rx ''dung''],
     word_rx ''content''], spaces_rx, social_rx, Bnd],
    Seq [Bnd, Alt [word_rx ''dung'', Seq [word_rx ''su'', spaces_rx, word_rx ''dung'']], spaces_rx,
     opt_rx (Seq [word_rx ''lam'', spaces_rx]), Alt [Seq [word_rx ''noi'', spaces_rx,
     word_rx ''dung''], word_rx ''content''], spaces_rx, social_rx, Bnd],
    Seq [Bnd, word_rx ''intended'', spaces_rx, word_rx ''for'', opt_rx (Seq [spaces_rx,
     word_rx ''use'', spaces_rx, word_rx ''in'']), spaces_rx, opt_rx (Seq [words_rx [''a'',
     ''an''], spaces_rx]), social_rx, opt_rx (Seq [spaces_rx, word_rx ''post'']), Bnd]]"

definition owner_publish_purpose_rx :: rx where
  "owner_publish_purpose_rx =
    Alt [Seq [Bnd, words_rx [''anh'', ''toi'', ''minh''], spaces_rx,
     star_rx (Seq [words_rx [''se'', ''tu''], spaces_rx]), publish_rx, opt_rx (Seq [spaces_rx,
     words_rx [''no'', ''anh'', ''hinh'', ''image'', ''it'']]), spaces_rx,
     opt_rx (Seq [word_rx ''len'', spaces_rx]), social_rx, Bnd], Seq [Bnd, Alt [Seq [word_rx ''i'',
     spaces_rx, word_rx ''will''], Seq [word_rx ''i'', spaces_rx, word_rx ''ll'']], spaces_rx,
     publish_rx, opt_rx (Seq [spaces_rx, Alt [word_rx ''it'', Seq [word_rx ''the'', spaces_rx,
     word_rx ''image'']]]), spaces_rx, opt_rx (Seq [words_rx [''on'', ''to''], spaces_rx]),
     social_rx, Bnd]]"

definition non_agent_purpose_rx :: rx where
  "non_agent_purpose_rx =
    Seq [Bnd, word_rx ''de'', spaces_rx, Look False (Seq [Alt [word_rx ''em'', word_rx ''ban'',
     word_rx ''bot'', Seq [word_rx ''anh'', spaces_rx, word_rx ''duong''], word_rx ''you''], Bnd]),
     Rep True 1 (Some 3) (Seq [plus_rx (Cls True [CRange ''a'' ''z'', CRange ''0'' ''9'',
     CChar ''_'']), spaces_rx]), opt_rx (Seq [word_rx ''tu'', spaces_rx]), publish_rx, spaces_rx,
     opt_rx (Seq [word_rx ''len'', spaces_rx]), social_rx, Bnd]"

definition agentive_publish_rx :: rx where
  "agentive_publish_rx =
    Seq [Bnd, Alt [Seq [word_rx ''for'', spaces_rx, word_rx ''you'', spaces_rx, word_rx ''to'',
     spaces_rx], Seq [word_rx ''want'', spaces_rx, word_rx ''you'', spaces_rx, word_rx ''to'',
     spaces_rx], Seq [word_rx ''need'', spaces_rx, word_rx ''you'', spaces_rx, word_rx ''to'',
     spaces_rx], Seq [word_rx ''ask'', spaces_rx, word_rx ''you'', spaces_rx, word_rx ''to'',
     spaces_rx], Seq [word_rx ''have'', spaces_rx, word_rx ''you'', spaces_rx],
     Seq [word_rx ''de'', spaces_rx, word_rx ''em'', spaces_rx], Seq [word_rx ''cho'', spaces_rx,
     word_rx ''em'', spaces_rx], Seq [word_rx ''muon'', spaces_rx, word_rx ''em'', spaces_rx],
     Seq [word_rx ''nho'', spaces_rx, word_rx ''em'', spaces_rx], Seq [word_rx ''bao'', spaces_rx,
     word_rx ''em'', spaces_rx]], publish_rx, Bnd]"

definition third_party_publish_rx :: rx where
  "third_party_publish_rx =
    Alt [Seq [Bnd, words_rx [''ask'', ''have'', ''tell''], spaces_rx,
     Look False (Seq [word_rx ''you'', Bnd]), plus_rx (Cls True [CRange ''a'' ''z'',
     CRange ''0'' ''9'', CChar ''_'']), spaces_rx, word_rx ''to'', spaces_rx, publish_rx, Bnd,
     star_rx (Cls False [CChar ''.'', CChar '';'', CChar ''!'', CChar ''?'', CChar [CHR 0x0A]]),
     Bnd, social_rx, Bnd], Seq [Bnd, words_rx [''nho'', ''bao''], spaces_rx,
     Look False (Alt [Seq [word_rx ''em'', Bnd], Seq [word_rx ''anh'', Bnd], Seq [word_rx ''toi'',
     Bnd], Seq [word_rx ''minh'', Bnd]]), plus_rx (Cls True [CRange ''a'' ''z'',
     CRange ''0'' ''9'', CChar ''_'']), spaces_rx, publish_rx, Bnd,
     star_rx (Cls False [CChar ''.'', CChar '';'', CChar ''!'', CChar ''?'', CChar [CHR 0x0A]]),
     Bnd, social_rx, Bnd]]"

definition immediate_command_rx :: rx where
  "immediate_command_rx =
    Seq [Bnd, Alt [Seq [word_rx ''lam'', spaces_rx, word_rx ''ngay''], Seq [word_rx ''thuc'',
     spaces_rx, word_rx ''hien'', spaces_rx, word_rx ''ngay''], Seq [word_rx ''do'', spaces_rx,
     word_rx ''it'', spaces_rx, word_rx ''now''], Seq [word_rx ''please'', spaces_rx,
     word_rx ''do'', spaces_rx, word_rx ''it'', spaces_rx, word_rx ''now'']], Bnd]"

definition quoted_copy_rx :: rx where
  "quoted_copy_rx =
    Seq [Cls True [CChar [CHR 0x22], CChar [CHR 0xE2, CHR 0x80, CHR 0x9C]],
     Grp 1 (star_rx (Cls False [CChar [CHR 0x22], CChar [CHR 0xE2, CHR 0x80, CHR 0x9D]])),
     Cls True [CChar [CHR 0x22], CChar [CHR 0xE2, CHR 0x80, CHR 0x9D]]]"

definition timing_rx :: rx where
  "timing_rx =
    Seq [Bnd, Alt [word_rx ''now'', Seq [word_rx ''right'', spaces_rx, word_rx ''now''],
     word_rx ''asap'', word_rx ''tomorrow'', word_rx ''tonight'', Seq [word_rx ''at'', spaces_rx,
     word_rx ''noon''], Seq [word_rx ''at'', spaces_rx, Rep True 1 (Some 2) (Cls True [CDigit]),
     opt_rx (Seq [word_rx '':'', Rep True 2 (Some 2) (Cls True [CDigit])]),
     star_rx (Cls True [CSpace]), opt_rx (words_rx [''am'', ''pm''])], Seq [word_rx ''bay'',
     spaces_rx, word_rx ''gio''], Seq [word_rx ''ngay'', spaces_rx, word_rx ''mai''],
     Seq [word_rx ''toi'', spaces_rx, word_rx ''nay''], Seq [word_rx ''trua'', spaces_rx,
     word_rx ''nay''], Seq [word_rx ''luc'', spaces_rx, Rep True 1 (Some 2) (Cls True [CDigit]),
     opt_rx (Seq [word_rx '':'', Rep True 2 (Some 2) (Cls True [CDigit])])]], Bnd]"

definition explicit_publish_start_rx :: rx where
  "explicit_publish_start_rx =
    Seq [Bol, opt_rx (Seq [word_rx ''please'', spaces_rx]), publish_rx, Bnd]"

definition publish_with_target_rx :: rx where
  "publish_with_target_rx =
    Seq [Bnd, publish_rx, Bnd, star_rx (Cls False [CChar ''.'', CChar '';'', CChar ''!'',
     CChar ''?'', CChar [CHR 0x0A]]), Bnd, social_rx, Bnd]"

definition publish_pronoun_rx :: rx where
  "publish_pronoun_rx =
    Seq [Bnd, words_rx [''post'', ''publish'', ''upload'', ''dang''], spaces_rx, words_rx [''it'',
     ''no'', ''anh'', ''hinh'', ''image'', ''photo''], Bnd]"

definition source_delivery_rx :: rx where
  "source_delivery_rx =
    Seq [Bnd, words_rx [''gui'', ''send'', ''return'', ''tra''], Bnd,
     star_rx (Cls False [CChar ''.'', CChar '';'', CChar ''!'', CChar ''?'', CChar [CHR 0x0A]]),
     Alt [Seq [Bnd, Alt [word_rx ''lai'', word_rx ''back'', word_rx ''day'', word_rx ''here'',
     Seq [word_rx ''chat'', spaces_rx, word_rx ''nay''], Seq [word_rx ''this'', spaces_rx,
     word_rx ''chat''], Seq [word_rx ''current'', spaces_rx, word_rx ''chat''],
     Seq [word_rx ''cho'', spaces_rx, word_rx ''anh''], Seq [word_rx ''cho'', spaces_rx,
     word_rx ''toi''], Seq [word_rx ''to'', spaces_rx, word_rx ''me'']], Bnd], Seq [Bnd,
     words_rx [''mot'', ''1'', ''one'', ''exactly'', ''dung''], Bnd,
     star_rx (Cls False [CChar ''.'', CChar '';'', CChar ''!'', CChar ''?'', CChar [CHR 0x0A]]),
     words_rx [''anh'', ''hinh'', ''image'', ''photo'', ''picture''], Bnd]]]"

definition generic_image_delivery_rx :: rx where
  "generic_image_delivery_rx =
    Seq [Bnd, words_rx [''gui'', ''send'', ''return'', ''tra''], Bnd,
     star_rx (Cls False [CChar ''.'', CChar '';'', CChar ''!'', CChar ''?'', CChar [CHR 0x0A]]),
     Bnd, words_rx [''anh'', ''hinh'', ''image'', ''photo'', ''picture''], Bnd]"

definition third_party_vi_rx :: rx where
  "third_party_vi_rx =
    Seq [Bnd, word_rx ''gui'', spaces_rx, opt_rx (Alt [word_rx ''anh'', word_rx ''hinh'',
     word_rx ''image'', word_rx ''photo'', word_rx ''no'', Seq [word_rx ''ket'', spaces_rx,
     word_rx ''qua'']]), star_rx (Cls True [CSpace]), words_rx [''cho'', ''toi''], spaces_rx,
     Look False (Alt [Seq [word_rx ''anh'', Bnd], Seq [word_rx ''toi'', Bnd],
     Seq [word_rx ''minh'', Bnd], Seq [word_rx ''day'', Bnd], Seq [word_rx ''chat'', Bnd]]),
     plus_rx (Cls True [CRange ''a'' ''z'', CRange ''0'' ''9'', CChar ''_''])]"

definition third_party_en_rx :: rx where
  "third_party_en_rx =
    Seq [Bnd, word_rx ''send'', Bnd, star_rx (Cls False [CChar ''.'', CChar '';'', CChar ''!'',
     CChar ''?'', CChar [CHR 0x0A]]), Bnd, word_rx ''to'', spaces_rx,
     Look False (Alt [Seq [word_rx ''me'', Bnd], Seq [word_rx ''myself'', Bnd],
     Seq [word_rx ''here'', Bnd], Seq [word_rx ''this'', Bnd], Seq [word_rx ''the'', spaces_rx,
     word_rx ''current'', Bnd]]), plus_rx (Cls True [CRange ''a'' ''z'', CRange ''0'' ''9'',
     CChar ''_''])]"

definition channel_send_rx :: rx where
  "channel_send_rx =
    Seq [Bnd, words_rx [''gui'', ''send'', ''message'', ''notify''], Bnd,
     star_rx (Cls False [CChar ''.'', CChar '';'', CChar ''!'', CChar ''?'', CChar [CHR 0x0A]]),
     Bnd, words_rx [''telegram'', ''slack'', ''teams'', ''outlook'', ''webhook'', ''email''], Bnd]"

definition email_action_rx :: rx where
  "email_action_rx =
    Seq [Bnd, words_rx [''email'', ''e-mail''], Bnd]"

definition external_call_rx :: rx where
  "external_call_rx =
    Seq [Bnd, Alt [word_rx ''call'', word_rx ''goi'', word_rx ''notify'', Seq [word_rx ''thong'',
     spaces_rx, word_rx ''bao''], word_rx ''message''], Bnd, star_rx (Cls False [CChar ''.'',
     CChar '';'', CChar ''!'', CChar ''?'', CChar [CHR 0x0A]]), Bnd, words_rx [''webhook'',
     ''telegram'', ''slack'', ''teams'', ''email'', ''outlook''], Bnd]"

definition segment_rx :: rx where
  "segment_rx =
    Alt [plus_rx (Cls True [CChar ''.'', CChar ''!'', CChar ''?'', CChar '';'', CChar [CHR 0x0A]]),
     Seq [spaces_rx, word_rx ''--'', spaces_rx], word_rx '','', Seq [Bnd, Alt [word_rx ''roi'',
     Seq [word_rx ''sau'', spaces_rx, word_rx ''do''], word_rx ''xong'', word_rx ''afterwards'',
     word_rx ''later'', word_rx ''nhung'', word_rx ''but'', word_rx ''however''], Bnd], Seq [Bnd,
     word_rx ''then'', Bnd], Seq [Bnd, word_rx ''and'', spaces_rx, word_rx ''then'', Bnd],
     Seq [Bnd, words_rx [''and'', ''va''], spaces_rx, Look True (Seq [words_rx [''email'',
     ''send'', ''gui'', ''post'', ''publish'', ''upload'', ''dang'', ''notify'', ''message'',
     ''call'', ''goi''], Bnd])]]"

definition this_chat_rx :: rx where
  "this_chat_rx =
    Seq [Bnd, Alt [word_rx ''day'', word_rx ''here'', Seq [word_rx ''chat'', spaces_rx,
     word_rx ''nay''], Seq [word_rx ''this'', spaces_rx, word_rx ''chat''],
     Seq [word_rx ''current'', spaces_rx, word_rx ''chat''], Seq [word_rx ''cho'', spaces_rx,
     word_rx ''anh''], Seq [word_rx ''cho'', spaces_rx, word_rx ''toi''], Seq [word_rx ''to'',
     spaces_rx, word_rx ''me'']], Bnd]"

section \<open>The contract\<close>

datatype visual_purpose = SocialContent

datatype visual_delivery = DeliverNone | DeliverSourceChannel

datatype visual_effect = EffPublish | EffThirdPartySend | EffExternalCall

fun visual_effect_value :: "visual_effect \<Rightarrow> string" where
  "visual_effect_value EffPublish = ''publish_external''"
| "visual_effect_value EffThirdPartySend = ''send_third_party''"
| "visual_effect_value EffExternalCall = ''external_call''"

record visual_intent =
  vi_purpose :: "visual_purpose list"
  vi_delivery :: visual_delivery
  vi_effects :: "visual_effect list"
  vi_side_effect_text :: string

definition visual_external_signals :: "visual_intent \<Rightarrow> string list" where
  "visual_external_signals v = map (\<lambda>e. ''visual:effect:'' @ visual_effect_value e) (vi_effects v)"

section \<open>Segments\<close>

definition positive_prefix :: "string \<Rightarrow> string" where
  "positive_prefix segment = py_join '' ''
     (takeWhile (\<lambda>t. t \<notin> set [''khong'', ''no'', ''dont'', ''don'', ''not'', ''never'']) (py_split segment))"

text \<open>
  The matches of a pattern are found in the text as it is before the pattern's first removal, and
  cut out of the text as it is by then, at the positions found.
\<close>

definition cut_match :: "unicode \<Rightarrow> string \<times> bool \<times> bool \<Rightarrow> span \<Rightarrow> string \<times> bool \<times> bool" where
  "cut_match U st m = (case st of (cleaned, purpose, timed) \<Rightarrow>
     (let cs = py_chars cleaned in
      if rx_search U False timing_rx (slice cs (sp_to m) (length cs)) then (cleaned, True, True)
      else (slice cs 0 (sp_from m) @ '' '' @ slice cs (sp_to m) (length cs), True, timed)))"

definition remove_benign_purpose :: "unicode \<Rightarrow> string \<Rightarrow> string \<times> bool \<times> bool" where
  "remove_benign_purpose U segment =
     (case foldl (\<lambda>st r. foldl (cut_match U) st (rx_finditer U False r (fst st)))
             (segment, False, False) (purpose_rxs @ [owner_publish_purpose_rx, non_agent_purpose_rx]) of
        (cleaned, purpose, timed) \<Rightarrow> (py_join '' '' (py_split cleaned), purpose, timed))"

definition is_source_delivery :: "unicode \<Rightarrow> string \<Rightarrow> bool" where
  "is_source_delivery U segment =
     (let third = rx_search U False third_party_vi_rx segment \<or> rx_search U False third_party_en_rx segment;
          channel = rx_search U False channel_send_rx segment in
      if rx_search U False source_delivery_rx segment
      then \<not> third \<and> \<not> (channel \<and> \<not> rx_search U False this_chat_rx segment)
      else rx_search U False generic_image_delivery_rx segment \<and> \<not> (third \<or> channel))"

definition external_effects :: "unicode \<Rightarrow> string \<Rightarrow> string \<Rightarrow> bool \<Rightarrow> bool \<Rightarrow> visual_effect list" where
  "external_effects U segment original timed delivery =
     (let found = (\<lambda>r. rx_search U False r segment) in
      (if rx_search U False agentive_publish_rx original \<or> rx_search U False third_party_publish_rx original
          \<or> timed \<or> found explicit_publish_start_rx \<or> found publish_with_target_rx
          \<or> found publish_pronoun_rx
       then [EffPublish] else [])
      @ (if found email_action_rx
            \<or> (\<not> delivery \<and> (found third_party_vi_rx \<or> found third_party_en_rx \<or> found channel_send_rx))
         then [EffThirdPartySend] else [])
      @ (if found external_call_rx \<and> \<not> delivery then [EffExternalCall] else []))"

definition segments_of :: "unicode \<Rightarrow> string \<Rightarrow> string list" where
  "segments_of U normalized =
     filter (\<lambda>s. s \<noteq> []) (map (\<lambda>raw. positive_prefix (py_strip raw)) (rx_split U False segment_rx normalized))"

definition residual_side_effect_text :: "unicode \<Rightarrow> string \<Rightarrow> string" where
  "residual_side_effect_text U request =
     py_join '' '' (filter (\<lambda>c. c \<noteq> [] \<and> \<not> is_source_delivery U c)
       (map (\<lambda>s. fst (remove_benign_purpose U s))
         (segments_of U (normalize_semantic_text U (rx_sub U False quoted_copy_rx '' '' request)))))"

text \<open>One segment: the purposes, whether one was seen, the delivery and the effects so far.\<close>

definition segment_step ::
  "unicode \<Rightarrow> visual_purpose list \<times> visual_delivery \<times> visual_effect list \<Rightarrow> string
    \<Rightarrow> visual_purpose list \<times> visual_delivery \<times> visual_effect list" where
  "segment_step U st segment = (case st of (purpose, delivery, effects) \<Rightarrow>
     (case remove_benign_purpose U segment of (cleaned, has_purpose, timed) \<Rightarrow>
       (let purpose' = purpose @ (if has_purpose then [SocialContent] else []);
            now = (if purpose' \<noteq> [] \<and> rx_search U False immediate_command_rx segment then [EffPublish] else []);
            delivered = is_source_delivery U cleaned
        in (purpose', if delivered then DeliverSourceChannel else delivery,
            effects @ now @ external_effects U cleaned segment timed delivered))))"

definition build_visual_intent_contract :: "unicode \<Rightarrow> string \<Rightarrow> visual_intent" where
  "build_visual_intent_contract U request =
     (case foldl (segment_step U) ([], DeliverNone, []) (segments_of U (normalize_semantic_text U request)) of
        (purpose, delivery, effects) \<Rightarrow>
          \<lparr>vi_purpose = ordered_unique purpose, vi_delivery = delivery, vi_effects = ordered_unique effects,
           vi_side_effect_text = residual_side_effect_text U request\<rparr>)"

end
