(* ===== verification/CapabilityRouting.thy ===== *)
theory CapabilityRouting
  imports FastRouting IntentContract AsyncModels
begin

text \<open>
  \<open>app/capabilities/\<close>: from a route to exactly one capability. A route that is not the fast
  router's own is refused, and side effects win over the visual and planning readings of a
  workflow request.
\<close>

record capability_decision =
  cd_capability :: capability_kind
  cd_route :: fast_route
  cd_reason :: string
  cd_signals :: "string list"

section \<open>Signals\<close>

definition task_signals :: "string list" where
  "task_signals =
    [''task'', ''nhiem vu'']"

definition project_signals :: "string list" where
  "project_signals =
    [''project'', ''du an'']"

definition core_signals :: "string list" where
  "core_signals =
    [''anh duong core'', ''core'', ''anh duong'']"

definition system_inherent_signals :: "string list" where
  "system_inherent_signals =
    [''khoi dong lai'', ''restart'', ''cai dat'', ''install'', ''go cai dat'', ''uninstall'']"

definition system_action_signals :: "string list" where
  "system_action_signals =
    [''cau hinh'', ''configure'', ''sua'', ''modify'', ''change'', ''cap nhat'', ''update'',
     ''deploy'', ''trien khai'', ''mo'', ''open'', ''chay'', ''run'', ''kiem tra'', ''check'',
     ''xem'', ''view'', ''huong dan'', ''cach'', ''nhu nao'', ''the nao'', ''o dau'',
     ''cho anh lenh'', ''cho toi lenh'']"

definition system_target_signals :: "string list" where
  "system_target_signals =
    [''runtime config'', ''system config'', ''cau hinh runtime'', ''cau hinh he thong'',
     ''systemd'', ''service'', ''package'', ''dependency'', ''dependencies'', ''he thong'',
     ''system'', ''runtime'', ''openclaw'', ''docker'', ''docker compose'', ''wsl'', ''linux'',
     ''container'', ''gateway'', ''9router'', ''browser'', ''chrome'', ''cli'', ''terminal'',
     ''shell'']"

definition external_inherent_signals :: "string list" where
  "external_inherent_signals =
    [''du lieu ra ngoai'', ''external communication'', ''publish'', ''upload'']"

definition external_action_signals :: "string list" where
  "external_action_signals =
    [''gui'', ''send'', ''publish'', ''dang'', ''post'', ''upload'', ''nhan tin'', ''message'',
     ''call'', ''goi'', ''notify'', ''thong bao'']"

definition external_target_signals :: "string list" where
  "external_target_signals =
    [''email'', ''telegram'', ''slack'', ''teams'', ''outlook'', ''webhook'', ''facebook'',
     ''instagram'', ''tiktok'', ''social media'', ''tin nhan'', ''message'']"

definition code_inherent_signals :: "string list" where
  "code_inherent_signals =
    [''pytest'', ''ruff'', ''mypy'', ''compileall'', ''unit test'', ''integration test'',
     ''test suite'', ''debug'', ''refactor'', ''fix bug'', ''sua loi'', ''build'', ''compile'',
     ''lint'']"

definition code_action_signals :: "string list" where
  "code_action_signals =
    [''viet'', ''write'', ''sua'', ''edit'', ''cap nhat'', ''update'', ''tao'', ''create'',
     ''chay'', ''run'', ''trien khai'', ''implement'', ''phan tich'', ''analyze'', ''review'',
     ''generate'', ''execute'', ''thuc hien'', ''doc'', ''read'']"

definition code_target_signals :: "string list" where
  "code_target_signals =
    [''code'', ''ma nguon'', ''python'', ''javascript'', ''typescript'', ''module'', ''function'',
     ''class'', ''api'', ''pytest'', ''test'', ''tests'', ''bug'', ''app'', ''application'',
     ''py'', ''js'', ''ts'']"

definition file_action_signals :: "string list" where
  "file_action_signals =
    [''doc'', ''read'', ''tao'', ''create'', ''sua'', ''edit'', ''cap nhat'', ''update'', ''ghi'',
     ''write'', ''xoa'', ''delete'', ''remove'', ''sao chep'', ''copy'', ''di chuyen'', ''move'',
     ''doi ten'', ''rename'', ''list'', ''show'', ''view'', ''open'', ''xem'', ''mo'', ''generate'']"

definition file_target_signals :: "string list" where
  "file_target_signals =
    [''file'', ''tep'', ''folder'', ''directory'', ''thu muc'', ''readme'', ''markdown'', ''md'',
     ''json'', ''yaml'', ''yml'', ''toml'', ''csv'', ''txt'', ''pdf'', ''docx'', ''xlsx'']"

definition prompt_action_signals :: "string list" where
  "prompt_action_signals =
    [''dung'', ''su dung'', ''lam'', ''tao'', ''soan'', ''viet'', ''generate'', ''compose'',
     ''make'', ''build'']"

definition prompt_target_signals :: "string list" where
  "prompt_target_signals =
    [''prompt anh'', ''prompt hinh anh'', ''visual prompt'', ''image prompt'']"

definition image_action_signals :: "string list" where
  "image_action_signals =
    [''dung'', ''su dung'', ''lam'', ''tao'', ''create'', ''generate'', ''make'', ''build'']"

definition planning_signals :: "string list" where
  "planning_signals =
    [''lap ke hoach'', ''phan ra cong viec'', ''phan ra'', ''chia nho cong viec'', ''plan'',
     ''planning'', ''roadmap'', ''decompose'', ''break down'']"

definition image_target_rx :: rx where
  "image_target_rx =
    Seq [Behind False [CWord], Alt [word_rx ([CHR 0xE1, CHR 0xBA, CHR 0xA3] @ ''nh''),
     Seq [word_rx (''h'' @ [CHR 0xC3, CHR 0xAC] @ ''nh''), opt_rx (Seq [spaces_rx,
     word_rx ([CHR 0xE1, CHR 0xBA, CHR 0xA3] @ ''nh'')])], Seq [word_rx ''hinh'',
     opt_rx (Seq [spaces_rx, word_rx ''anh''])], word_rx ''image'', word_rx ''photo'',
     word_rx ''picture'', word_rx ''artwork'', word_rx ''poster'', word_rx ''banner'',
     word_rx ''thumbnail''], Look False (Cls True [CWord])]"

definition piece_rx :: rx where
  "piece_rx =
    Alt [plus_rx (Cls True [CChar ''.'', CChar ''!'', CChar ''?'', CChar '';'', CChar [CHR 0x0A]]),
     Seq [spaces_rx, word_rx ''-'', spaces_rx], word_rx '','', Seq [Bnd, word_rx ''nhung'', Bnd],
     Seq [Bnd, word_rx ''but'', Bnd], Seq [Bnd, word_rx ''however'', Bnd]]"

definition quoted_rx :: rx where
  "quoted_rx =
    Seq [Cls True [CChar [CHR 0x22], CChar [CHR 0xE2, CHR 0x80, CHR 0x9C]],
     star_rx (Cls False [CChar [CHR 0x22], CChar [CHR 0xE2, CHR 0x80, CHR 0x9D]]),
     Cls True [CChar [CHR 0x22], CChar [CHR 0xE2, CHR 0x80, CHR 0x9D]]]"

definition config_target_rx :: rx where
  "config_target_rx =
    Seq [Bnd, words_rx [''c'' @ [CHR 0xE1, CHR 0xBA, CHR 0xA5] @ ''u'', ''cau''], spaces_rx,
     word_rx (''h'' @ [CHR 0xC3, CHR 0xAC] @ ''nh''), Bnd]"

definition image_command_rx :: rx where
  "image_command_rx =
    Seq [Bnd, words_rx [''tao'', ''lam'', ''create'', ''generate'', ''make'', ''build''],
     spaces_rx, word_rx ''anh'', Bnd]"

definition signals :: "string \<Rightarrow> string \<Rightarrow> string list \<Rightarrow> string list" where
  "signals n namespace phrases =
     map (\<lambda>p. namespace @ '':'' @ py_replace '' '' ''_'' p) (filter (contains_phrase n) phrases)"

definition compound_signals :: "string \<Rightarrow> string \<Rightarrow> string list \<Rightarrow> string list \<Rightarrow> string list \<Rightarrow> string list" where
  "compound_signals n namespace inherent actions targets =
     (let i = signals n (namespace @ '':inherent'') inherent;
          a = signals n (namespace @ '':action'') actions;
          t = signals n (namespace @ '':target'') targets in
      if i \<noteq> [] then i @ t else if a \<noteq> [] \<and> t \<noteq> [] then a @ t else [])"

definition decided :: "capability_kind \<Rightarrow> fast_route \<Rightarrow> string \<Rightarrow> string list \<Rightarrow> capability_decision" where
  "decided c r reason sigs = \<lparr>cd_capability = c, cd_route = r, cd_reason = reason, cd_signals = sigs\<rparr>"

definition visual_image_requested :: "unicode \<Rightarrow> string \<Rightarrow> bool" where
  "visual_image_requested U request =
     (let n = normalize_semantic_text U request in
      \<not> contains_any n prompt_target_signals
      \<and> (rx_search U True image_target_rx (rx_sub U True config_target_rx '' '' request)
         \<or> rx_search U False image_command_rx n))"

definition visual_side_effect_text :: "unicode \<Rightarrow> string \<Rightarrow> string" where
  "visual_side_effect_text U request =
     py_join '' '' (filter (\<lambda>p. p \<noteq> [])
       (map (\<lambda>piece. py_join '' '' (takeWhile (\<lambda>t. t \<noteq> ''khong'' \<and> t \<noteq> ''no'')
              (py_split (normalize_semantic_text U piece))))
         (rx_split U False piece_rx (fold_text U (rx_sub U False quoted_rx '' '' request)))))"

section \<open>Routes\<close>

definition route_core_read :: "fast_route \<Rightarrow> string \<Rightarrow> capability_decision" where
  "route_core_read r n =
     (let t = signals n ''core:task'' task_signals;
          p = signals n ''core:project'' project_signals;
          c = signals n ''core:status'' core_signals in
      if t \<noteq> [] then decided TaskRead r ''capability.core_read.task'' t
      else if p \<noteq> [] then decided ProjectRead r ''capability.core_read.project'' p
      else if c \<noteq> [] then decided CoreStatusRead r ''capability.core_read.status'' c
      else decided UnknownWorkflow r ''capability.workflow.unrecognized_core_read'' [])"

definition route_workflow :: "unicode \<Rightarrow> fast_route \<Rightarrow> string \<Rightarrow> string \<Rightarrow> capability_decision" where
  "route_workflow U r n request =
     (let actions = signals n ''visual:action'' prompt_action_signals;
          targets = signals n ''visual:target'' prompt_target_signals;
          prompt = (actions \<noteq> [] \<and> targets \<noteq> []);
          image_actions = signals n ''visual:image_action'' image_action_signals;
          image = (image_actions \<noteq> [] \<and> visual_image_requested U request);
          contract = build_visual_intent_contract U request;
          source = (if image then vi_side_effect_text contract else request);
          text = (if prompt \<or> image then visual_side_effect_text U source else n);
          sys = compound_signals text ''system'' system_inherent_signals system_action_signals system_target_signals;
          ext = (if image then visual_external_signals contract
                 else compound_signals text ''external'' external_inherent_signals external_action_signals
                   external_target_signals);
          code = compound_signals text ''code''
                   (if prompt then filter (\<lambda>s. s \<noteq> ''build'' \<and> s \<noteq> ''compile'') code_inherent_signals
                    else code_inherent_signals) code_action_signals code_target_signals;
          file = compound_signals text ''file'' [] file_action_signals file_target_signals;
          planning = signals n ''planning'' planning_signals in
      if sys \<noteq> [] then decided SystemOperation r ''capability.workflow.system_operation'' sys
      else if ext \<noteq> [] then decided ExternalCommunication r ''capability.workflow.external_communication'' ext
      else if code \<noteq> [] then decided CodeOperation r ''capability.workflow.code_operation'' code
      else if file \<noteq> [] then decided FileOperation r ''capability.workflow.file_operation'' file
      else if image
      then decided VisualImageGenerate r ''capability.workflow.visual_image_generate''
             (image_actions @ [''visual:target:image''])
      else if prompt
      then decided VisualPromptCompose r ''capability.workflow.visual_prompt_compose'' (actions @ targets)
      else if planning \<noteq> [] then decided Planning r ''capability.workflow.planning'' planning
      else decided UnknownWorkflow r ''capability.workflow.unknown'' [])"

definition visual_signal :: "visual_contract \<Rightarrow> string" where
  "visual_signal v = ''visual:operation:'' @ visual_operation_value (vc_operation v)"

definition route_visual_workflow :: "fast_route \<Rightarrow> visual_contract \<Rightarrow> capability_decision option" where
  "route_visual_workflow r v =
     (if vc_operation v = VoExternalAction
      then Some (decided ExternalCommunication r ''capability.workflow.visual_external_action'' [visual_signal v])
      else if vc_operation v = VoFileAction
      then Some (decided FileOperation r ''capability.workflow.visual_file_action'' [visual_signal v])
      else if vc_operation v \<in> set [VoGenerate, VoEdit, VoTransform, VoAnnotate]
      then Some (decided VisualImageGenerate r ''capability.workflow.visual_image_generate'' [visual_signal v])
      else None)"

definition capability_route ::
  "unicode \<Rightarrow> route_decision \<Rightarrow> string \<Rightarrow> visual_contract option \<Rightarrow> capability_decision" where
  "capability_route U d request visual =
     (let n = normalize_semantic_text U request; r = rd_route d in
      if fast_route_of U request visual \<noteq> d
      then decided UnknownWorkflow r ''capability.workflow.inconsistent_route'' []
      else if r = RDirect
      then (case visual of
              Some v \<Rightarrow> if \<not> vc_clarification v
                   \<and> vc_operation v \<in> set [VoAnalyze, VoExtract, VoVerify, VoCompare, VoSearch, VoDeriveContent]
                then decided VisualAnalysis r ''capability.direct.visual_analysis'' [visual_signal v]
                else decided ConversationalResponse r ''capability.direct.conversational_response'' [''route:direct'']
            | None \<Rightarrow> decided ConversationalResponse r ''capability.direct.conversational_response'' [''route:direct''])
      else if n = [] then decided UnknownWorkflow r ''capability.workflow.empty_input'' []
      else if r = RMemory then decided MemorySearch r ''capability.memory.memory_search'' [''route:memory'']
      else if r = RCoreRead then route_core_read r n
      else case (case visual of None \<Rightarrow> None | Some v \<Rightarrow> route_visual_workflow r v) of
             Some c \<Rightarrow> c | None \<Rightarrow> route_workflow U r n request)"

end
