(* ===== verification/SemanticIntent.thy ===== *)
theory SemanticIntent
  imports CapabilityRouting Complex_Main
begin

text \<open>
  \<open>app/semantic_intent.py\<close>: the frame that states the meaning of a whole utterance, the
  validator that ties execution to an explicit authorisation, and the projection of a frame to a
  route, a capability and a visual contract. The model's confidence is a float between 0 and 1,
  which is a rational number.
\<close>

section \<open>Frames\<close>

datatype speech_act = SaAsk | SaInform | SaActionRequest | SaProhibition | SaConfirmation

datatype intent_domain =
    IdConversation | IdVisual | IdExternalCommunication | IdFile | IdCode | IdSystem | IdMemory
  | IdCore | IdPlanning | IdWeb | IdUnknown

datatype intent_action =
    IaNone | IaDiscussEdit | IaAnalyze | IaCompare | IaGenerate | IaEdit | IaComposePrompt | IaSend
  | IaPublish | IaSave | IaDelete | IaRead | IaSearch | IaPlan | IaExecute | IaStatus

fun intent_action_value :: "intent_action \<Rightarrow> string" where
  "intent_action_value IaNone = ''none''"
| "intent_action_value IaDiscussEdit = ''discuss_edit''"
| "intent_action_value IaAnalyze = ''analyze''"
| "intent_action_value IaCompare = ''compare''"
| "intent_action_value IaGenerate = ''generate''"
| "intent_action_value IaEdit = ''edit''"
| "intent_action_value IaComposePrompt = ''compose_prompt''"
| "intent_action_value IaSend = ''send''"
| "intent_action_value IaPublish = ''publish''"
| "intent_action_value IaSave = ''save''"
| "intent_action_value IaDelete = ''delete''"
| "intent_action_value IaRead = ''read''"
| "intent_action_value IaSearch = ''search''"
| "intent_action_value IaPlan = ''plan''"
| "intent_action_value IaExecute = ''execute''"
| "intent_action_value IaStatus = ''status''"

datatype intent_target =
    ItNone | ItImage | ItMemory | ItCore | ItProject | ItTask | ItFile | ItCode | ItSystem
  | ItExternalRecipient | ItUrl | ItOther

fun intent_target_value :: "intent_target \<Rightarrow> string" where
  "intent_target_value ItNone = ''none''"
| "intent_target_value ItImage = ''image''"
| "intent_target_value ItMemory = ''memory''"
| "intent_target_value ItCore = ''core''"
| "intent_target_value ItProject = ''project''"
| "intent_target_value ItTask = ''task''"
| "intent_target_value ItFile = ''file''"
| "intent_target_value ItCode = ''code''"
| "intent_target_value ItSystem = ''system''"
| "intent_target_value ItExternalRecipient = ''external_recipient''"
| "intent_target_value ItUrl = ''url''"
| "intent_target_value ItOther = ''other''"

datatype intent_authorization = AuNone | AuExplicit | AuProhibited

datatype visual_compiler = CompPortraitPersona | CompProduct | CompPosterText | CompReferenceEdit

fun visual_compiler_value :: "visual_compiler \<Rightarrow> string" where
  "visual_compiler_value CompPortraitPersona = ''portrait_persona''"
| "visual_compiler_value CompProduct = ''product''"
| "visual_compiler_value CompPosterText = ''poster_text''"
| "visual_compiler_value CompReferenceEdit = ''reference_edit''"

record intent_frame =
  if_speech_act :: speech_act
  if_domain :: intent_domain
  if_action :: intent_action
  if_target :: intent_target
  if_requested :: bool
  if_authorization :: intent_authorization
  if_recipient :: "string option"
  if_channel :: "string option"
  if_uses_referent :: bool
  if_uses_visual :: bool
  if_compiler :: "visual_compiler option"
  if_identity_lock :: bool
  if_preserve :: bool
  if_confidence :: rat
  if_rationale :: "string option"

definition read_only_actions :: "intent_action list" where
  "read_only_actions = [IaNone, IaDiscussEdit, IaAnalyze, IaCompare, IaRead, IaSearch, IaStatus]"

definition frame_authority :: "intent_frame \<Rightarrow> unit res" where
  "frame_authority f =
     (if if_authorization f = AuProhibited \<and> if_requested f then Inl ValidationError
      else if if_requested f \<and> if_action f \<in> set read_only_actions then Inl ValidationError
      else if if_requested f \<and> if_speech_act f \<noteq> SaActionRequest then Inl ValidationError
      else if if_requested f \<and> if_authorization f \<noteq> AuExplicit then Inl ValidationError
      else case if_compiler f of
        None \<Rightarrow> Inr ()
      | Some c \<Rightarrow>
          if if_domain f \<noteq> IdVisual \<or> if_action f \<notin> set [IaGenerate, IaEdit] \<or> \<not> if_requested f
          then Inl ValidationError
          else if c = CompReferenceEdit \<and> if_action f \<noteq> IaEdit then Inl ValidationError
          else Inr ())"

definition frame_fields :: "intent_frame \<Rightarrow> bool" where
  "frame_fields f \<longleftrightarrow>
     (case if_recipient f of None \<Rightarrow> True | Some r \<Rightarrow> py_len r \<le> 512)
     \<and> (case if_channel f of None \<Rightarrow> True | Some c \<Rightarrow> py_len c \<le> 128)
     \<and> 0 \<le> if_confidence f \<and> if_confidence f \<le> 1
     \<and> (case if_rationale f of None \<Rightarrow> True | Some r \<Rightarrow> py_len r \<le> 2000)"

definition frame_validate :: "intent_frame \<Rightarrow> unit res" where
  "frame_validate f = bindE (ensureE (frame_fields f) ValidationError) (\<lambda>_. frame_authority f)"

section \<open>Explicit links\<close>

text \<open>
  \<open>has_url\<close> is the result of \<open>_has_explicit_http_url\<close> for the instruction, which rests on
  \<open>urllib.parse\<close>.
\<close>

definition normalize_explicit_url_read_intent :: "bool \<Rightarrow> intent_frame \<Rightarrow> intent_frame" where
  "normalize_explicit_url_read_intent has_url f =
     (if \<not> has_url then f
      else if if_requested f \<or> if_authorization f = AuProhibited then f
      else if if_domain f \<noteq> IdConversation \<and> if_domain f \<noteq> IdUnknown then f
      else if if_action f \<notin> set [IaNone, IaAnalyze, IaCompare, IaRead, IaSearch] then f
      else f\<lparr>if_domain := IdWeb, if_action := (if if_action f = IaNone then IaRead else if_action f),
             if_target := ItUrl,
             if_rationale := Some ''Explicit current-turn http/https URL anchors this read-only intent to web content.''\<rparr>)"

section \<open>The visual contract\<close>

definition frame_operation :: "intent_frame \<Rightarrow> visual_operation" where
  "frame_operation f =
     (if if_requested f
      then (case if_action f of
          IaGenerate \<Rightarrow> VoGenerate | IaEdit \<Rightarrow> VoEdit | IaSend \<Rightarrow> VoExternalAction
        | IaPublish \<Rightarrow> VoExternalAction | IaSave \<Rightarrow> VoFileAction | IaDelete \<Rightarrow> VoFileAction
        | _ \<Rightarrow> VoConverse)
      else (case if_action f of
          IaCompare \<Rightarrow> VoCompare | IaAnalyze \<Rightarrow> VoAnalyze | IaDiscussEdit \<Rightarrow> VoAnalyze
        | IaStatus \<Rightarrow> VoAnalyze | _ \<Rightarrow> VoConverse))"

definition frame_visual_contract ::
  "intent_frame \<Rightarrow> string \<Rightarrow> visual_source \<Rightarrow> string option \<Rightarrow> visual_contract option res" where
  "frame_visual_contract f raw source img =
     (if if_domain f \<noteq> IdVisual \<and> source = VsNone then Inr None
      else let concrete = concrete_source source; operation = frame_operation f;
               c = \<lparr>vc_instruction = raw, vc_operation = operation,
                 vc_role = (if \<not> concrete then None
                            else if operation \<in> set [VoAnalyze, VoCompare, VoConverse] then Some VrEvidence
                            else if operation = VoEdit then Some VrEditTarget else None),
                 vc_source = source,
                 vc_output = (if operation \<in> set [VoAnalyze, VoCompare, VoConverse] then VoutText
                              else if operation \<in> set [VoGenerate, VoEdit] then VoutImage
                              else if operation = VoFileAction then VoutFile else VoutExternalEffect),
                 vc_constraints = [],
                 vc_side_effect = (if operation = VoExternalAction
                                   then (if if_action f = IaPublish then SePublish else SeSend)
                                   else if operation = VoFileAction
                                   then (if if_action f = IaDelete then SeDelete else SeSave) else SeNone),
                 vc_reference = img,
                 vc_clarification = (operation \<in> set [VoAnalyze, VoCompare, VoEdit] \<and> \<not> concrete)\<rparr>
           in bindE (visual_contract_validate c) (\<lambda>_. Inr (Some c)))"

section \<open>Decisions\<close>

definition semantic_signal :: "intent_frame \<Rightarrow> string" where
  "semantic_signal f = ''semantic:'' @ intent_action_value (if_action f)"

definition target_signal :: "intent_frame \<Rightarrow> string" where
  "target_signal f = ''semantic:target:'' @ intent_target_value (if_target f)"

definition read_only_decision ::
  "intent_frame \<Rightarrow> visual_contract option \<Rightarrow> route_decision \<times> capability_decision" where
  "read_only_decision f visual =
     (if if_domain f = IdMemory \<and> if_action f \<in> set [IaRead, IaSearch]
      then (routed RMemory ''routing.semantic.memory''
              ''Whole-utterance intent requests read-only memory retrieval.'',
            decided MemorySearch RMemory ''capability.semantic.memory_search'' [semantic_signal f])
      else if if_domain f = IdWeb \<and> if_action f \<in> set [IaRead, IaSearch, IaAnalyze, IaCompare]
      then (routed RWorkflow ''routing.semantic.web_read''
              ''Whole-utterance intent requests read-only web execution.'',
            decided WebSearchRead RWorkflow ''capability.semantic.web_search_read''
              [semantic_signal f, target_signal f])
      else if if_domain f = IdSystem \<and> if_action f \<in> set [IaAnalyze, IaRead, IaStatus]
      then (routed RWorkflow ''routing.semantic.system_read''
              ''Whole-utterance intent requires read-only system inspection.'',
            decided SystemOperation RWorkflow ''capability.semantic.system_operation.read_only''
              [semantic_signal f, ''semantic:read_only''])
      else if if_domain f = IdCore \<and> if_action f \<in> set [IaRead, IaStatus]
      then (let kind = (case if_target f of ItProject \<Rightarrow> ProjectRead | ItTask \<Rightarrow> TaskRead | _ \<Rightarrow> CoreStatusRead) in
           (routed RCoreRead ''routing.semantic.core_read''
              ''Whole-utterance intent requests read-only Core state.'',
            decided kind RCoreRead (''capability.semantic.'' @ capability_value kind)
              [semantic_signal f, target_signal f]))
      else let visual_read = (case visual of None \<Rightarrow> False
                 | Some v \<Rightarrow> vc_operation v \<in> set [VoAnalyze, VoCompare] \<and> \<not> vc_clarification v) in
           (routed RDirect ''routing.semantic.read_only''
              ''Whole-utterance intent does not authorize execution.'',
            decided (if visual_read then VisualAnalysis else ConversationalResponse) RDirect
              (if visual_read then ''capability.semantic.visual_analysis'' else ''capability.semantic.conversation'')
              [semantic_signal f]))"

definition execution_capability :: "intent_frame \<Rightarrow> capability_kind" where
  "execution_capability f =
     (if if_action f \<in> set [IaSend, IaPublish] then ExternalCommunication
      else if if_domain f = IdVisual \<and> if_action f \<in> set [IaGenerate, IaEdit] then VisualImageGenerate
      else if if_domain f = IdVisual \<and> if_action f = IaComposePrompt then VisualPromptCompose
      else if if_domain f = IdFile then FileOperation
      else if if_domain f = IdCode \<or> (if_domain f = IdCore \<and> if_action f = IaEdit) then CodeOperation
      else if if_domain f = IdSystem
           \<or> (if_domain f = IdCore \<and> if_action f = IaExecute \<and> if_target f = ItCore)
      then SystemOperation
      else if if_domain f = IdPlanning then Planning
      else UnknownWorkflow)"

definition decisions_from_intent_frame ::
  "intent_frame \<Rightarrow> string \<Rightarrow> visual_source \<Rightarrow> string option
    \<Rightarrow> (route_decision \<times> capability_decision \<times> visual_contract option) res" where
  "decisions_from_intent_frame f raw source img =
     bindE (frame_visual_contract f raw source img) (\<lambda>visual.
       if \<not> if_requested f
       then (case read_only_decision f visual of (r, c) \<Rightarrow> Inr (r, c, visual))
       else let kind = execution_capability f in
         Inr (routed RWorkflow ''routing.semantic.execution''
                ''Whole-utterance intent explicitly requests execution.'',
              decided kind RWorkflow (''capability.semantic.'' @ capability_value kind)
                [semantic_signal f, ''semantic:explicit_execution''], visual))"

section \<open>Facts\<close>

text \<open>A valid frame that requests execution is an explicitly authorised request for an effect.\<close>

lemma frame_requested:
  assumes "frame_authority f = Inr ()" "if_requested f"
  shows "if_speech_act f = SaActionRequest" "if_authorization f = AuExplicit"
    "if_action f \<notin> set read_only_actions"
  using assms by (auto simp: frame_authority_def split: if_splits option.splits)

end
