(* ===== verification/SafetyProperties.thy ===== *)
theory SafetyProperties
  imports SafetyIntent
begin

text \<open>
  What a strong read-only boundary promises, which every read-only reading of a request by the
  workflow resolver and by the worker rests on: no effect word stands outside a negation or a
  condition.
\<close>

section \<open>Plain clauses\<close>

lemma plain_words_of:
  "plain s \<Longrightarrow> words_of (map (\<lambda>c. [c]) s) acc = runs (map (\<lambda>c. [c]) s) acc"
proof (induction s arbitrary: acc)
  case (Cons c s)
  then show ?case using byte_chars(1) [of c] by (auto simp: plain_def byte_chars)
qed simp

lemma plain_split:
  assumes "plain s"
  shows "py_split s = text_words s" "\<forall>w\<in>set (py_split s). word w"
proof -
  have "py_chars s = map (\<lambda>c. [c]) s" using assms by (rule plain_chars)
  then show "py_split s = text_words s" using plain_words_of [OF assms] by (simp add: py_split_def text_words_def)
  then show "\<forall>w\<in>set (py_split s). word w" using text_words_word by simp
qed

lemma plain_join: "\<forall>w\<in>set ws. word w \<Longrightarrow> plain (py_join '' '' ws)"
  unfolding plain_def using join_ascii by blast

lemma split_join: "\<forall>w\<in>set ws. word w \<Longrightarrow> py_split (py_join '' '' ws) = ws"
  using plain_split(1) [OF plain_join] text_words_join by metis

lemma strip_prefix_words_cases:
  "w \<in> set ws \<Longrightarrow> w \<in> set (strip_prefix_words ws) \<or> w \<in> set [''please'', ''imperative'', ''chi'', ''only'']"
  by (induction ws rule: strip_prefix_words.induct) (auto split: if_splits)

lemma strip_prefix_subset: "set (strip_prefix_words ws) \<subseteq> set ws"
  by (induction ws rule: strip_prefix_words.induct) auto

lemma stripped_words:
  assumes "plain c"
  shows "py_split (strip_clause_prefixes c) = strip_prefix_words (py_split c)"
  unfolding strip_clause_prefixes_def
  using plain_split(2) [OF assms] strip_prefix_subset by (intro split_join) blast

lemma contains_any_append: "contains_any t (ps @ qs) \<longleftrightarrow> contains_any t ps \<or> contains_any t qs"
  by (simp add: contains_any_def)

section \<open>Effect words\<close>

text \<open>The side-effect markers of one word.\<close>

definition effect_word_list :: "string list" where
  "effect_word_list = [''sua'', ''doi'', ''ghi'', ''tao'', ''xoa'', ''edit'', ''modify'', ''change'', ''changes'',
     ''write'', ''create'', ''delete'', ''update'', ''restart'', ''deploy'', ''install'', ''uninstall'', ''push'',
     ''merge'', ''commit'', ''publish'', ''upload'', ''reboot'', ''shutdown'', ''systemctl'']"

lemma effect_word_list: "filter (\<lambda>m. CHR '' '' \<notin> set m) side_effect_markers = effect_word_list"
  unfolding effect_word_list_def by code_simp

definition harmless_vocabulary :: "string list" where
  "harmless_vocabulary = [''please'', ''imperative'', ''chi'', ''only''] @ safe_scaffold_tokens @ safe_report_tokens
     @ concat (map py_split safe_continuation_clauses) @ concat (map py_split safe_report_exact_prefixes)"

lemma table_words:
  "concat (map py_split safe_continuation_clauses) =
    [''health'', ''ready'', ''status'', ''core'', ''core'', ''service'', ''database'',
     ''database'', ''quick'', ''check'', ''db'', ''db'', ''quick'', ''check'', ''pragma'',
     ''pragma'', ''quick'', ''check'', ''quick'', ''check'', ''file'', ''tep'', ''config'',
     ''cau'', ''hinh'', ''service'', ''git'', ''model'', ''openclaw'', ''he'', ''thong'',
     ''system'', ''duong'', ''thoi'']"
  "concat (map py_split safe_report_exact_prefixes) =
    [''ket'', ''luan'', ''co'', ''the'', ''tiep'', ''tuc'', ''lam'', ''viec'', ''hay'', ''khong'',
     ''conclusion'', ''whether'', ''can'', ''continue'', ''working'']"
  by code_simp+

lemma vocabulary_without_effects: "list_all (\<lambda>m. m \<notin> set harmless_vocabulary) effect_word_list"
  unfolding harmless_vocabulary_def table_words
  by (simp add: effect_word_list_def safe_scaffold_tokens_def safe_status_observation_tokens_def safe_report_tokens_def)

lemma effects_no_digits: "list_all (\<lambda>m. \<not> all_digits m) effect_word_list"
  by (simp add: effect_word_list_def all_digits_def byte_def)

lemma rep_class_first:
  "rx_match U ci cs (Rep greedy (Suc lo) hi (Cls pos items)) (i, g) \<noteq> [] \<Longrightarrow> at_char cs i (cls_ok U ci pos items)"
  by (auto split: if_splits)

lemma digit_class: "cls_ok U False True [CDigit] ch = is_digit U ch"
  by (simp add: cls_ok_def stands_for_def)

text \<open>An identifier has a digit.\<close>

lemma identifier_digit:
  assumes "looks_like_identifier_token U t"
  shows "\<exists>ch\<in>set (py_chars t). is_digit U ch"
proof -
  have pre: "\<exists>i. at_char (py_chars t) i (is_digit U)" if "rx_fullmatch U False prefixed_identifier_rx t"
  proof -
    from that obtain i g x where "x \<in> set (rx_match U False (py_chars t) (Rep True (Suc 0) None (Cls True [CDigit])) (i, g))"
      by (auto simp: rx_fullmatch_def prefixed_identifier_rx_def plus_rx_def list_ex_iff simp del: rx_match.simps(5) )
    then have "rx_match U False (py_chars t) (Rep True (Suc 0) None (Cls True [CDigit])) (i, g) \<noteq> []" by auto
    from rep_class_first [OF this] show ?thesis by (auto simp: at_char_def digit_class)
  qed
  have ts: "\<exists>i. at_char (py_chars t) i (is_digit U)" if "rx_fullmatch U False timestamp_rx t"
  proof -
    from that obtain i g x where "x \<in> set (rx_match U False (py_chars t) (Rep True (Suc 5) None (Cls True [CDigit])) (i, g))"
      by (auto simp: rx_fullmatch_def timestamp_rx_def list_ex_iff simp del: rx_match.simps(5))
    then have "rx_match U False (py_chars t) (Rep True (Suc 5) None (Cls True [CDigit])) (i, g) \<noteq> []" by auto
    from rep_class_first [OF this] show ?thesis by (auto simp: at_char_def digit_class)
  qed
  from assms pre ts show ?thesis by (auto simp: looks_like_identifier_token_def at_char_def intro: nth_mem)
qed

lemma effects_no_identifiers: "m \<in> set effect_word_list \<Longrightarrow> \<not> looks_like_identifier_token U m"
proof
  assume m: "m \<in> set effect_word_list" and i: "looks_like_identifier_token U m"
  have "list_all (\<lambda>m. list_all (\<lambda>c. 97 \<le> byte c \<and> byte c \<le> 122) m) effect_word_list"
    by (simp add: effect_word_list_def byte_def)
  with m have l: "\<forall>c\<in>set m. 97 \<le> byte c \<and> byte c \<le> 122" by (simp add: list_all_iff)
  then have "py_chars m = map (\<lambda>c. [c]) m" by (intro py_chars_ascii) (auto simp: is_cont_def byte_def)
  with identifier_digit [OF i] l show False by (auto simp: is_digit_def ascii_in_def)
qed

section \<open>Harmless clauses\<close>

lemma safe_words_vocabulary:
  "safe_words U table ts \<Longrightarrow> set table \<subseteq> set harmless_vocabulary \<Longrightarrow> w \<in> set ts \<Longrightarrow> w \<notin> set effect_word_list"
  using vocabulary_without_effects effects_no_digits effects_no_identifiers
  unfolding safe_words_def list_all_iff by blast

lemma vocabulary_words: "w \<in> set harmless_vocabulary \<Longrightarrow> w \<notin> set effect_word_list"
  using vocabulary_without_effects by (auto simp: list_all_iff)

lemma observation_words:
  "list_all (\<lambda>t. t \<in> set safe_status_observation_tokens) ts \<Longrightarrow> w \<in> set ts \<Longrightarrow> w \<notin> set effect_word_list"
  by (rule vocabulary_words) (auto simp: list_all_iff harmless_vocabulary_def safe_scaffold_tokens_def)

lemma report_words_vocabulary:
  assumes "report_words U text" "w \<in> set (py_split text)"
  shows "w \<notin> set effect_word_list"
proof (cases "text \<in> set safe_report_exact_prefixes")
  case True
  then show ?thesis using assms(2) by (intro vocabulary_words) (auto simp: harmless_vocabulary_def)
next
  case False
  with assms show ?thesis
    by (auto simp: report_words_def harmless_vocabulary_def dest!: safe_words_vocabulary)
qed

text \<open>A clause that negates, within the vocabulary of negations, or reports under a condition.\<close>

definition guarded_clause :: "unicode \<Rightarrow> string \<Rightarrow> bool" where
  "guarded_clause U c \<longleftrightarrow>
     c \<in> set no_change_clauses
     \<or> (py_split c \<noteq> [] \<and> is_negation (hd (py_split c))
        \<and> list_all (\<lambda>t. t \<in> set safe_negation_tokens) (py_split c))
     \<or> conditional_report U (py_split (strip_clause_prefixes c))"

lemma harmless_clause_words:
  assumes "is_harmless_readonly_clause U c" "plain c" "w \<in> set (py_split c)" "\<not> guarded_clause U c"
  shows "w \<notin> set effect_word_list"
proof -
  let ?s = "strip_clause_prefixes c"
  have w: "w \<in> set (py_split ?s) \<or> w \<in> set [''please'', ''imperative'', ''chi'', ''only'']"
    using strip_prefix_words_cases [OF assms(3)] stripped_words [OF assms(2)] by simp
  have prefix: "w \<in> set [''please'', ''imperative'', ''chi'', ''only''] \<Longrightarrow> w \<notin> set effect_word_list"
    by (rule vocabulary_words) (auto simp: harmless_vocabulary_def)
  have ne: "c \<noteq> []" using assms(3) by (auto simp: py_split_def)
  consider "c \<in> set safe_continuation_clauses" | "looks_like_identifier_clause U c"
    | "list_all (\<lambda>t. t \<in> set safe_status_observation_tokens) (py_split ?s)"
    | "safe_words U safe_scaffold_tokens (py_split ?s)" | "report_words U ?s"
    using assms(1,4) ne by (auto simp: is_harmless_readonly_clause_def guarded_clause_def Let_def split: if_splits)
  then show ?thesis
  proof cases
    case 1
    then show ?thesis using assms(3) by (intro vocabulary_words) (auto simp: harmless_vocabulary_def)
  next
    case 2
    then show ?thesis using assms(3) effects_no_identifiers
      by (auto simp: looks_like_identifier_clause_def Let_def list_all_iff)
  next
    case 3
    then show ?thesis using w prefix observation_words by blast
  next
    case 4
    then show ?thesis using w prefix safe_words_vocabulary [OF 4]
      by (auto simp: harmless_vocabulary_def)
  next
    case 5
    then show ?thesis using w prefix report_words_vocabulary by blast
  qed
qed

section \<open>Boundaries\<close>

lemma read_only_constraint:
  "has_constraint (analyze_safety_intent U t) ScReadOnly \<longleftrightarrow> has_unnegated_read_only_marker U t"
proof -
  have "ScReadOnly \<notin> set (map fst constraint_detectors)" by (simp add: constraint_detectors_def)
  then have "ScReadOnly \<notin> set (map fst (filter Q constraint_detectors))" for Q by auto
  then show ?thesis unfolding has_constraint_def analyze_safety_intent_def Let_def by simp
qed

lemma plain_squash: "plain (squash U s)"
  unfolding squash_words by (rule plain_join) (auto intro: text_words_word)

lemma words_of: "list_all word ws \<Longrightarrow> py_join '' '' ws = s \<Longrightarrow> text_words s = ws"
  using text_words_join by (auto simp: list_all_iff)

lemma split_squash: "py_split (squash U s) = text_words s"
  unfolding squash_words by (rule split_join) (auto intro: text_words_word)

lemma negated_scopes_words:
  "negated_scopes U t = concat (map (\<lambda>c. scopes_of (text_words c)) (semantic_clauses U t))"
  by (simp add: negated_scopes_def split_squash)

lemma no_read_only_marker:
  assumes "\<And>c m. c \<in> set (semantic_clauses U t) \<Longrightarrow> m \<in> set read_only_markers \<Longrightarrow>
    py_split m \<noteq> [] \<and> hd (py_split m) \<notin> set (text_words c)"
  shows "\<not> has_unnegated_read_only_marker U t"
proof -
  have "take (length (py_split m)) (drop i (text_words c)) \<noteq> py_split m"
    if "c \<in> set (semantic_clauses U t)" "m \<in> set read_only_markers" for c m i
    using assms [OF that] by (metis hd_in_set in_set_dropD in_set_takeD)
  then show ?thesis by (auto simp: has_unnegated_read_only_marker_def Let_def list_ex_iff split_squash)
qed

lemma read_only_marker:
  assumes "c \<in> set (semantic_clauses U t)" "m \<in> set read_only_markers" "text_words c = py_split m @ ws"
  shows "has_unnegated_read_only_marker U t"
  unfolding has_unnegated_read_only_marker_def Let_def list_ex_iff
  by (rule bexI [OF _ assms(1)], rule bexI [OF _ assms(2)], rule bexI [where x = 0])
    (simp_all add: split_squash assms(3))

lemma plain_append: "plain (a @ b) \<longleftrightarrow> plain a \<and> plain b"
  by (auto simp: plain_def)

lemma plain_alternatives: "\<forall>f\<in>set fs. plain f \<Longrightarrow> c \<in> set (join_alternatives fs) \<Longrightarrow> plain c"
  by (induction fs rule: join_alternatives.induct) (auto simp: plain_append plain_def split: if_splits)

lemma plain_clause: "c \<in> set (sequence_clauses U t) \<Longrightarrow> plain c"
  unfolding sequence_clauses_def by (auto dest!: plain_alternatives [rotated] simp: plain_squash)

text \<open>The parts of a clause: all of it, or what stands around its read-only marker.\<close>

definition clause_parts :: "string \<Rightarrow> string list" where
  "clause_parts c = (case find (\<lambda>m. contains_any c [m]) read_only_markers of
     None \<Rightarrow> [c]
   | Some m \<Rightarrow> (case py_cut m c of None \<Rightarrow> [] | Some (a, b) \<Rightarrow> [py_strip a, py_strip b]))"

lemma cut_parts: "py_cut p s = Some (a, b) \<Longrightarrow> set a \<subseteq> set s \<and> set b \<subseteq> set s"
  by (induction s arbitrary: a b) (auto split: if_splits dest: in_set_dropD)

lemma strip_subset: "set (py_strip s) \<subseteq> set s"
proof -
  have "set (py_strip s) \<subseteq> \<Union> (set ` set (py_chars s))"
    unfolding py_strip_def by (auto dest!: set_dropWhileD)
  also have "\<dots> = set s" by (metis concat_py_chars set_concat)
  finally show ?thesis .
qed

lemma plain_subset: "plain s \<Longrightarrow> set r \<subseteq> set s \<Longrightarrow> plain r"
  by (auto simp: plain_def)

lemma plain_parts:
  assumes "plain c" "x \<in> set (clause_parts c)"
  shows "plain x"
proof (cases "find (\<lambda>m. contains_any c [m]) read_only_markers")
  case None
  then show ?thesis using assms by (simp add: clause_parts_def)
next
  case (Some m)
  with assms obtain y where y: "py_cut m c = Some y" "x = py_strip (fst y) \<or> x = py_strip (snd y)"
    by (cases "py_cut m c") (auto simp: clause_parts_def)
  then have cut: "py_cut m c = Some (fst y, snd y)" by simp
  from y(2) cut_parts [OF cut] strip_subset have "set x \<subseteq> set c" by blast
  with assms(1) show ?thesis by (rule plain_subset)
qed

lemma harmless_empty: "is_harmless_readonly_clause U []"
  by (simp add: is_harmless_readonly_clause_def)

lemma clear_parts:
  "\<not> ambiguous_clause U c \<Longrightarrow> x \<in> set (clause_parts c) \<Longrightarrow> is_harmless_readonly_clause U x"
  using harmless_empty by (auto simp: ambiguous_clause_def clause_parts_def split: option.splits)

text \<open>C39. What a read-only reading of a request rests on. When the analysis finds a strong read-only
  boundary, as every status question answered without an executor must have, a read-only marker
  stands unnegated in the text; every clause that names a side effect names it only inside scopes
  of a negation, which leave none when they are removed; and a word that is a side effect stands
  only in a part of a clause that is a plain negation within the vocabulary of negations or a
  report under a condition.\<close>

theorem boundary_excludes_effects:
  assumes "has_strong_read_only_boundary (analyze_safety_intent U text)"
  shows "has_unnegated_read_only_marker U text
    \<and> (\<forall>c\<in>set (semantic_clauses U text).
         contains_any (squash U c) side_effect_markers \<longrightarrow> \<not> contains_any (residual_text U c) side_effect_markers)
    \<and> (\<forall>c\<in>set (sequence_clauses U text). \<forall>part\<in>set (clause_parts c). \<forall>w\<in>set (py_split part).
         w \<in> set side_effect_markers \<longrightarrow> guarded_clause U part)"
proof -
  have m: "\<not> has_unnegated_mutation U text"
    using assms by (simp add: has_strong_read_only_boundary_def analyze_safety_intent_def Let_def)
  have ro: "has_unnegated_read_only_marker U text"
    using assms by (simp add: has_strong_read_only_boundary_def read_only_constraint)
  with m have res: "\<forall>c\<in>set (semantic_clauses U text).
         contains_any (squash U c) side_effect_markers \<longrightarrow> \<not> contains_any (residual_text U c) side_effect_markers"
    and amb: "\<forall>c\<in>set (sequence_clauses U text). \<not> ambiguous_clause U c"
    by (auto simp: has_unnegated_mutation_def has_ambiguous_readonly_action_def list_ex_iff)
  have "guarded_clause U part" if c: "c \<in> set (sequence_clauses U text)" and part: "part \<in> set (clause_parts c)"
    and w: "w \<in> set (py_split part)" "w \<in> set side_effect_markers" for c part w
  proof (rule ccontr)
    assume g: "\<not> guarded_clause U part"
    have p: "plain part" by (rule plain_parts [OF plain_clause [OF c] part])
    have "is_harmless_readonly_clause U part" using amb c part by (blast intro: clear_parts)
    from harmless_clause_words [OF this p w(1) g] have "w \<notin> set effect_word_list" .
    moreover have "CHR '' '' \<notin> set w" using plain_split(2) [OF p] w(1) word_no_space by auto
    ultimately show False using w(2) by (simp add: effect_word_list [symmetric])
  qed
  with ro res show ?thesis by blast
qed

section \<open>Texts of one clause\<close>

text \<open>
  A plain text without the characters that every boundary, contraction or shared target needs is
  folded to itself and is one clause.
\<close>

definition fold_rxs :: "rx list" where
  "fold_rxs = [dont_rx, do_not_rx, sau_do_rx, tiep_theo_rx, shared_target_rx]"

definition clause_rxs :: "rx list" where
  "clause_rxs = fold_rxs @ [clause_rx, fragment_rx]"

lemma plain_fold:
  assumes "plain s" "set (py_chars s) \<inter> set ds = {}" "list_all (needs_one ds) fold_rxs"
  shows "preserve_slashes U (fold_preserving_boundaries U s) = s"
proof -
  have na: "CHR 0xE1 \<notin> set s" "CHR 0xC3 \<notin> set s" "CHR 0xC4 \<notin> set s"
    using plain_ascii [OF assms(1), of "CHR 0xE1"] plain_ascii [OF assms(1), of "CHR 0xC3"]
      plain_ascii [OF assms(1), of "CHR 0xC4"]
    by (auto simp: byte_def)
  have "needs_one ds dont_rx" "needs_one ds do_not_rx" "needs_one ds sau_do_rx" "needs_one ds tiep_theo_rx"
    "needs_one ds shared_target_rx"
    using assms(3) by (simp_all add: fold_rxs_def)
  note absent = this [THEN needs_one_absent(1) [OF _ assms(2)]] this [THEN needs_one_absent(2) [OF _ assms(2)]]
  show ?thesis
    by (simp add: fold_preserving_boundaries_def preserve_slashes_def Let_def plain_folds [OF assms(1)] absent
        d_stroke_def replace_absent [OF _ na(1)] replace_absent [OF _ na(2)] replace_absent [OF _ na(3)])
qed

lemma coordination_none: "''va'' \<notin> set ts \<Longrightarrow> ''and'' \<notin> set ts \<Longrightarrow> coordination_pieces ts acc = [acc @ ts]"
  by (induction ts arbitrary: acc) auto

lemma one_clause:
  assumes "plain s" "set (py_chars s) \<inter> set ds = {}" "list_all (needs_one ds) clause_rxs"
    "py_strip (CHR '' '' # s) = s" "text_words s \<noteq> []" "''va'' \<notin> set (text_words s)" "''and'' \<notin> set (text_words s)"
  shows "preserve_slashes U (fold_preserving_boundaries U s) = s" "semantic_clauses U s = [s]"
proof -
  show p: "preserve_slashes U (fold_preserving_boundaries U s) = s"
    using assms(3) by (intro plain_fold [OF assms(1,2)]) (simp add: clause_rxs_def)
  have "needs_one ds clause_rx" "needs_one ds fragment_rx" using assms(3) by (simp_all add: clause_rxs_def)
  note absent = this [THEN needs_one_absent(3) [OF _ assms(2)]]
  have "s \<noteq> []" using assms(5) by (auto simp: text_words_def)
  then show "semantic_clauses U s = [s]"
    by (simp add: semantic_clauses_def p absent assms(4,5) split_coordination_boundaries_def Let_def split_squash
        coordination_none [OF assms(6,7)])
qed

section \<open>A read-only request\<close>

definition demo_read_only :: string where
  "demo_read_only = ''chi xem no changes''"

definition demo_absent :: "string list" where
  "demo_absent = [''u'', ''b'', ''w'', ''t'', ''l'', ''v'', ''d'', ''.'', ''!'', ''?'', '';'', '':'', ''/'', '','',
     [CHR 0x0A], [CHR 0xE2, CHR 0x80, CHR 0x93], [CHR 0xE2, CHR 0x80, CHR 0x94], ''>'', ''&'', ''+'', ''|'', ''-'']"

lemma demo_plain: "plain demo_read_only" "set (py_chars demo_read_only) \<inter> set demo_absent = {}"
proof -
  have "list_all (\<lambda>c. word_char c \<or> c = CHR '' '') demo_read_only" by code_simp
  then show p: "plain demo_read_only" by (simp add: plain_def list_all_iff)
  show "set (py_chars demo_read_only) \<inter> set demo_absent = {}"
    unfolding plain_chars [OF p] by (simp add: demo_read_only_def demo_absent_def)
qed

lemma demo_clauses_absent: "list_all (needs_one demo_absent) (clause_rxs @ [sequence_rx, inner_dot_rx])"
  by code_simp

lemma demo_words: "text_words demo_read_only = [''chi'', ''xem'', ''no'', ''changes'']"
  unfolding demo_read_only_def by (rule words_of) code_simp+

lemma demo_strip: "py_strip (CHR '' '' # demo_read_only) = demo_read_only"
  unfolding demo_read_only_def by code_simp

lemma demo_fold: "preserve_slashes ascii_unicode (fold_preserving_boundaries ascii_unicode demo_read_only) = demo_read_only"
  and demo_semantic_clauses: "semantic_clauses ascii_unicode demo_read_only = [demo_read_only]"
  using demo_clauses_absent by (intro one_clause [OF demo_plain]; simp add: demo_words demo_strip)+

lemma demo_sequence_clauses: "sequence_clauses ascii_unicode demo_read_only = [demo_read_only]"
proof -
  have "needs_one demo_absent sequence_rx" "needs_one demo_absent inner_dot_rx"
    using demo_clauses_absent by simp_all
  note absent = this [THEN needs_one_absent(1) [OF _ demo_plain(2)]] this [THEN needs_one_absent(3) [OF _ demo_plain(2)]]
  have "join_alternatives (filter (\<lambda>f. f \<noteq> []) (map (squash ascii_unicode) (split_on (CHR '','') demo_read_only)))
    = [demo_read_only]" by code_simp
  then show ?thesis by (simp add: sequence_clauses_def demo_fold absent)
qed

lemma demo_negated_scopes: "negated_scopes ascii_unicode demo_read_only = [''no changes'']"
proof -
  have "scopes_of [''chi'', ''xem'', ''no'', ''changes''] = [''no changes'']" by code_simp
  then show ?thesis by (simp add: negated_scopes_words demo_semantic_clauses demo_words)
qed

lemma demo_marker: "has_unnegated_read_only_marker ascii_unicode demo_read_only"
proof (rule read_only_marker)
  show "demo_read_only \<in> set (semantic_clauses ascii_unicode demo_read_only)" by (simp add: demo_semantic_clauses)
  show "''chi xem'' \<in> set read_only_markers" by (simp add: read_only_markers_def)
  have "py_split ''chi xem'' = [''chi'', ''xem'']" by code_simp
  then show "text_words demo_read_only = py_split ''chi xem'' @ [''no'', ''changes'']" by (simp add: demo_words)
qed

lemma demo_clear: "\<not> has_unnegated_mutation ascii_unicode demo_read_only"
proof -
  have "\<not> ambiguous_clause ascii_unicode demo_read_only" unfolding demo_read_only_def by code_simp
  moreover have "\<not> has_ambiguous_negated_alternative (squash ascii_unicode demo_read_only)"
    unfolding demo_read_only_def by code_simp
  moreover have "\<not> contains_any (residual_text ascii_unicode demo_read_only) side_effect_markers"
    unfolding residual_text_def demo_negated_scopes unfolding demo_read_only_def by code_simp
  ultimately show ?thesis
    by (simp add: has_unnegated_mutation_def has_ambiguous_readonly_action_def demo_semantic_clauses demo_sequence_clauses)
qed

lemma demo_boundary: "has_strong_read_only_boundary (analyze_safety_intent ascii_unicode demo_read_only)"
proof -
  have "is_no_system_mutation ''no changes''" by code_simp
  then have "has_constraint (analyze_safety_intent ascii_unicode demo_read_only) NoSystemMutation"
    by (auto simp: has_constraint_def analyze_safety_intent_def Let_def demo_negated_scopes constraint_detectors_def)
  moreover have "\<not> si_unnegated_mutation (analyze_safety_intent ascii_unicode demo_read_only)"
    using demo_clear by (simp add: analyze_safety_intent_def Let_def)
  ultimately show ?thesis using demo_marker
    by (simp add: has_strong_read_only_boundary_def read_only_constraint)
qed

theorem boundary_excludes_effects_witness:
  "\<not> contains_any (residual_text ascii_unicode demo_read_only) side_effect_markers
   \<and> guarded_clause ascii_unicode ''no changes''"
proof -
  have p: "clause_parts demo_read_only = [[], ''no changes'']" unfolding demo_read_only_def by code_simp
  have w: "''changes'' \<in> set (py_split ''no changes'')" "''changes'' \<in> set side_effect_markers"
    "contains_any (squash ascii_unicode demo_read_only) side_effect_markers"
    unfolding demo_read_only_def by code_simp+
  show ?thesis
    using boundary_excludes_effects [OF demo_boundary] w
    by (simp add: demo_semantic_clauses demo_sequence_clauses p) blast
qed

text \<open>
  The alternative after a broad negation is looked for with the first occurrence of the letters
  \<open>or\<close>, so that any earlier word that has them hides it.
\<close>

theorem alternative_hidden_by_for:
  "has_ambiguous_negated_alternative ''no changes or delete file''
   \<and> \<not> has_ambiguous_negated_alternative ''no changes for now or delete file''"
proof -
  have a: "py_in '' or '' '' no changes or delete file ''" "py_cut ''or'' ''no changes or delete file'' = Some (''no changes '', '' delete file'')"
    "py_strip ''no changes '' = ''no changes''" "py_strip '' delete file'' = ''delete file''"
    "contains_any ''no changes'' broad_negations" by code_simp+
  have e: "starts_with_side_effect ''delete file''" by code_simp
  have b: "\<not> py_in '' hoac '' '' no changes for now or delete file ''" "\<not> py_in '' hay '' '' no changes for now or delete file ''"
    "py_cut ''or'' ''no changes for now or delete file'' = Some (''no changes f'', '' now or delete file'')"
    "py_strip '' now or delete file'' = ''now or delete file''" by code_simp+
  have f: "\<not> starts_with_side_effect ''now or delete file''" by code_simp
  show ?thesis using a b e f by (simp add: has_ambiguous_negated_alternative_def)
qed

section \<open>Words\<close>

text \<open>C40. Normalised text and phrases. A normalised text is its words over a-z and 0-9 joined by single
  spaces and is its own normal form, and the padded substring test by which every router and the
  safety analysis look for a phrase holds exactly when the phrase's words stand in a row among the words
  of the text.\<close>

theorem phrase_is_word_match:
  assumes "list_all word ps" "ps \<noteq> []"
  shows "let ws = text_words (fold_text U text); n = normalize_semantic_text U text in
    n = py_join '' '' ws \<and> list_all word ws \<and> py_split n = ws \<and> normalize_semantic_text U n = n
    \<and> (contains_phrase n (py_join '' '' ps) \<longleftrightarrow> sublist ps ws)"
proof -
  let ?ws = "text_words (fold_text U text)"
  have w: "\<forall>w\<in>set ?ws. word w" by (blast intro: text_words_word)
  have p: "\<forall>w\<in>set ps. word w" using assms(1) by (simp add: list_all_iff)
  show ?thesis
    unfolding Let_def normalize_words
    using w split_join [OF w] contains_phrase_words [OF p assms(2) w] normalize_join [OF w, of U]
    by (simp add: list_all_iff normalize_words)
qed

theorem phrase_is_word_match_witness:
  "contains_phrase (normalize_semantic_text ascii_unicode ''Call it, OFF!'') ''it off''
   \<longleftrightarrow> sublist [''it'', ''off''] (text_words (fold_text ascii_unicode ''Call it, OFF!''))"
proof -
  have "list_all word [''it'', ''off'']" by code_simp
  from phrase_is_word_match [OF this list.distinct(2), of ascii_unicode "''Call it, OFF!''"] show ?thesis
    unfolding Let_def by (elim conjE) (simp only: py_join.simps append.simps)
qed

end
