(* ===== verification/RoutingProperties.thy ===== *)
theory RoutingProperties
  imports Pipeline Demo SafetyProperties
begin

text \<open>
  What the routers and the workflow resolver guarantee together: capabilities follow routes, an
  envelope without approval is allowed or lifted by the owner, a marked effect is always gated,
  and execution is suppressed unless the semantic frame asks for it.
\<close>

section \<open>Policy decisions of plain actions\<close>

lemma plain_action_simps [simp]:
  "pa_name (plain_action a r ws) = a" "pa_declared (plain_action a r ws) = r"
  "pa_target (plain_action a r ws) = None" "flag_risk (plain_action a r ws) = ReadOnly"
  by (simp_all add: plain_action_def flag_risk_def)

lemma evaluate_path_no_target:
  "pa_target a = None \<Longrightarrow> evaluate_path F roots a c =
     (if pa_name a \<in> set path_required_actions
      then Inr (Some (decide Escalate c ''path.required''
              (''Action '' @ [CHR 0x27] @ pa_name a @ [CHR 0x27] @ '' requires a target path before policy can decide.'')
              None None), None)
      else Inr (None, None))"
  by (simp add: evaluate_path_def)

lemma plain_forbidden:
  "\<exists>d. policy_evaluate F roots (plain_action a (Some Forbidden) ws) = Inr d \<and> pd_kind d = Deny \<and> pd_risk d = Forbidden"
  by (simp add: policy_evaluate_def)

lemma plain_gated:
  assumes "map_of action_risk_catalog a = Some c" "Sensitive \<le> c" "Sensitive \<le> r"
  shows "\<exists>d. policy_evaluate F roots (plain_action a (Some r) ws) = Inr d \<and> pd_kind d \<noteq> Allow \<and> Sensitive \<le> pd_risk d"
proof (cases "c = Forbidden \<or> r = Forbidden")
  case True
  then show ?thesis using assms by (auto simp: policy_evaluate_def)
next
  case False
  let ?e = "max (max c r) ReadOnly"
  have "?e = Sensitive \<or> ?e = HighRisk"
    using False assms(2,3) by (cases c; cases r) (auto simp: max_def less_eq_risk_level_def)
  with False assms show ?thesis
    by (auto simp: policy_evaluate_def Let_def evaluate_path_no_target declared_risk_def risk_decision_kind
        less_eq_risk_level_def)
qed

section \<open>Gated effects\<close>

lemma markers_gated:
  "list_all (\<lambda>(a, m, r). Sensitive \<le> r \<and> (case map_of action_risk_catalog a of Some c \<Rightarrow> Sensitive \<le> c | None \<Rightarrow> False))
     approval_effect_markers"
  by code_simp

lemma first_marker_Some: "first_marker U sc n ms = Some (a, r) \<Longrightarrow> \<exists>m. (a, m, r) \<in> set ms"
  by (induction ms) (auto simp: Let_def split: if_splits)

lemma first_marker_None:
  "first_marker U sc n ms = None \<Longrightarrow> (a, m, r) \<in> set ms \<Longrightarrow>
   (a = ''send_external_data'' \<and> external_send_negated U sc)
   \<or> \<not> contains_phrase n (normalize_semantic_text U m) \<or> negates sc (normalize_semantic_text U m)"
  by (induction ms) (auto simp: Let_def split: if_splits)

lemma gated_catalog:
  "map_of action_risk_catalog ''change_permissions'' = Some HighRisk"
  "map_of action_risk_catalog ''send_external_data'' = Some HighRisk"
  by code_simp+

lemma approval_action_gated:
  assumes "approval_action U raw n = Some (a, r)"
  obtains c where "map_of action_risk_catalog a = Some c" "Sensitive \<le> c" "Sensitive \<le> r"
proof -
  have h: "Sensitive \<le> HighRisk" by (simp add: less_eq_risk_level_def)
  show ?thesis
  proof (cases "(a, r) = (''change_permissions'', HighRisk) \<or> (a, r) = (''send_external_data'', HighRisk)")
    case True
    then show ?thesis using that gated_catalog h by auto
  next
    case False
    with assms have "first_marker U (negated_scopes U raw) n approval_effect_markers = Some (a, r)"
      by (auto simp: approval_action_def Let_def split: if_splits)
    then obtain m where "(a, m, r) \<in> set approval_effect_markers" by (blast dest: first_marker_Some)
    then have "Sensitive \<le> r \<and> (case map_of action_risk_catalog a of Some c \<Rightarrow> Sensitive \<le> c | None \<Rightarrow> False)"
      using markers_gated by (auto simp: list_all_iff)
    then show ?thesis using that by (cases "map_of action_risk_catalog a") auto
  qed
qed

text \<open>An effect that the text names and nowhere negates.\<close>

definition marked_effect :: "unicode \<Rightarrow> string \<Rightarrow> bool" where
  "marked_effect U text \<longleftrightarrow>
     (let n = normalize_semantic_text U text; scopes = negated_scopes U text in
      list_ex (\<lambda>m. contains_phrase n (normalize_semantic_text U m)
         \<and> \<not> negates scopes (normalize_semantic_text U m)) forbidden_effect_markers
      \<or> unnegated_match U permission_rx scopes n \<or> unnegated_match U password_rx scopes n
      \<or> (rx_search U False external_send_rx n \<and> \<not> external_send_negated U scopes)
      \<or> list_ex (\<lambda>(a, m, r). \<not> (a = ''send_external_data'' \<and> external_send_negated U scopes)
           \<and> contains_phrase n (normalize_semantic_text U m)
           \<and> \<not> negates scopes (normalize_semantic_text U m)) approval_effect_markers)"

definition exempt_request :: "unicode \<Rightarrow> string \<Rightarrow> capability_kind \<Rightarrow> bool" where
  "exempt_request U text cap \<longleftrightarrow>
     cap \<in> {WebSearchRead, VisualImageGenerate, VisualPromptCompose} \<or> guidance_request U text cap
     \<or> status_request (analyze_safety_intent U text) \<or> bounded_request (analyze_safety_intent U text)"

lemma safety_text: "si_text (analyze_safety_intent U text) = normalize_semantic_text U text"
  by (simp add: analyze_safety_intent_def Let_def)

lemma marked_action:
  assumes "marked_effect U text" "\<not> exempt_request U text cap"
  shows "action_of U text cap = (''bypass_auth'', Some Forbidden, [])
    \<or> (\<exists>a r. action_of U text cap = (a, Some r, []) \<and> approval_action U text (normalize_semantic_text U text) = Some (a, r))"
proof (cases "forbidden_action U text (normalize_semantic_text U text)")
  case (Some x)
  then have "x = ''bypass_auth''" by (auto simp: forbidden_action_def Let_def split: if_splits)
  then show ?thesis using assms(2) Some by (auto simp: action_of_def exempt_request_def Let_def safety_text)
next
  case None
  have "approval_action U text (normalize_semantic_text U text) \<noteq> None"
  proof
    assume n: "approval_action U text (normalize_semantic_text U text) = None"
    let ?n = "normalize_semantic_text U text" and ?sc = "negated_scopes U text"
    have f: "first_marker U ?sc ?n approval_effect_markers = None"
      and p: "\<not> unnegated_match U permission_rx ?sc ?n" "\<not> unnegated_match U password_rx ?sc ?n"
        "\<not> (rx_search U False external_send_rx ?n \<and> \<not> external_send_negated U ?sc)"
      using n by (auto simp: approval_action_def Let_def split: if_splits)
    have "\<not> list_ex (\<lambda>m. contains_phrase ?n (normalize_semantic_text U m)
         \<and> \<not> negates ?sc (normalize_semantic_text U m)) forbidden_effect_markers"
      using None by (auto simp: forbidden_action_def Let_def split: if_splits)
    then have "\<exists>a m r. (a, m, r) \<in> set approval_effect_markers
        \<and> \<not> (a = ''send_external_data'' \<and> external_send_negated U ?sc)
        \<and> contains_phrase ?n (normalize_semantic_text U m) \<and> \<not> negates ?sc (normalize_semantic_text U m)"
      using assms(1) p unfolding marked_effect_def Let_def list_ex_iff by blast
    then show False using first_marker_None [OF f] by blast
  qed
  then show ?thesis using assms(2) None by (auto simp: action_of_def exempt_request_def Let_def safety_text)
qed

text \<open>C32. A marked effect is always gated. When the text names a forbidden or approval effect that no
  negated scope mentions, and the request is none of the read-only kinds the resolver recognises,
  the envelope requires approval, has at least the risk SENSITIVE and runs in build mode; no
  capability, project or authenticated owner lifts it.\<close>

theorem marked_effects_gated:
  assumes "resolve_workflow R q rid text sem cap p = Inr w"
    "t = (if truthy sem then the sem else text)"
    "marked_effect (rv_unicode R) t" "\<not> exempt_request (rv_unicode R) t cap"
  shows "we_approval_required w \<and> Sensitive \<le> we_risk w \<and> we_build w \<and> we_decision w \<noteq> Allow
    \<and> ''owner_request_authorized_current_goal'' \<notin> set (we_constraints w)"
proof -
  obtain name declared where act: "action_of (rv_unicode R) t cap = (name, Some declared, [])"
    and g: "\<exists>d. policy_evaluate (rv_fs R) (rv_roots R) (plain_action name (Some declared) ws) = Inr d
        \<and> pd_kind d \<noteq> Allow \<and> Sensitive \<le> pd_risk d" for ws
  proof (cases "action_of (rv_unicode R) t cap = (''bypass_auth'', Some Forbidden, [])")
    case True
    show ?thesis
    proof (rule that [OF True])
      fix ws
      show "\<exists>d. policy_evaluate (rv_fs R) (rv_roots R) (plain_action ''bypass_auth'' (Some Forbidden) ws) = Inr d
        \<and> pd_kind d \<noteq> Allow \<and> Sensitive \<le> pd_risk d"
        using plain_forbidden by (metis decision_kind.distinct(3) risk_bounds(2))
    qed
  next
    case False
    with marked_action [OF assms(3,4)] obtain a r where
      "action_of (rv_unicode R) t cap = (a, Some r, [])" "approval_action (rv_unicode R) t
         (normalize_semantic_text (rv_unicode R) t) = Some (a, r)" by blast
    then show ?thesis by (auto intro!: that plain_gated elim!: approval_action_gated)
  qed
  obtain d where d: "policy_evaluate (rv_fs R) (rv_roots R)
      (plain_action name (Some declared) (map_option path_of (pj_path_wsl p))) = Inr d"
    "pd_kind d \<noteq> Allow" "Sensitive \<le> pd_risk d" using g by blast
  then have nl: "\<not> owner_may_lift d" by (auto simp: owner_may_lift_def)
  have "pd_risk d \<noteq> ReadOnly" using d(3) by (auto simp: less_eq_risk_level_def)
  then show ?thesis
    using assms(1) d nl by (auto simp: resolve_workflow_def Let_def act assms(2) [symmetric] bindE_Inr_iff split: if_splits)
qed

section \<open>A concrete request\<close>

definition demo_resolver :: resolver where
  "demo_resolver = \<lparr>rv_env = demo_env, rv_unicode = ascii_unicode, rv_fs = demo_fs,
     rv_roots = [path_of ''/mnt/f/AIOS''], rv_owner = Some ''7''\<rparr>"
definition demo_core_request :: core_request where
  "demo_core_request = \<lparr>cq_text = ''self approve'', cq_request_id = None, cq_channel = ''internal'', cq_actor = ''me'',
     cq_origin = ''unknown'', cq_project_id = None, cq_task_id = None, cq_memory_scope_id = None,
     cq_chat_id = None, cq_session_id = None, cq_message_id = None, cq_image_source = VsNone,
     cq_reference = None, cq_recent_image = None, cq_referent = None, cq_recent_assistant = None\<rparr>"
definition demo_missing :: "string list" where
  "demo_missing = [''b'', ''c'', ''d'', ''g'', ''h'', ''i'', ''j'', ''k'', ''m'', ''n'', ''q'', ''t'', ''u'', ''w'', ''x'', ''y'',
     ''z'', ''.'', ''!'', ''?'', '';'', '':'', ''/'', '','', [CHR 0x0A], [CHR 0xE2, CHR 0x80, CHR 0x93],
     [CHR 0xE2, CHR 0x80, CHR 0x94], ''>'', ''&'', ''+'', ''|'', ''-'']"

lemma plain_list: "list_all (\<lambda>c. word_char c \<or> c = CHR '' '') s \<Longrightarrow> plain s"
  by (simp add: plain_def list_all_iff)

lemma demo_text_plain: "plain ''self approve''" "set (py_chars ''self approve'') \<inter> set demo_missing = {}"
proof -
  show p: "plain ''self approve''" by (rule plain_list) code_simp
  show "set (py_chars ''self approve'') \<inter> set demo_missing = {}"
    unfolding plain_chars [OF p] by (simp add: demo_missing_def)
qed

lemma demo_text_words: "text_words ''self approve'' = [''self'', ''approve'']"
  by (rule words_of) code_simp+

lemma demo_text_strip: "py_strip '' self approve'' = ''self approve''" by code_simp

lemma demo_clauses: "semantic_clauses ascii_unicode ''self approve'' = [''self approve'']"
proof -
  have "list_all (needs_one demo_missing) clause_rxs" by code_simp
  from one_clause(2) [OF demo_text_plain this] show ?thesis by (simp add: demo_text_words demo_text_strip)
qed

lemma demo_scopes: "negated_scopes ascii_unicode ''self approve'' = []"
  by (simp add: negated_scopes_words demo_clauses demo_text_words is_negation_def)

lemma demo_ro: "\<not> has_unnegated_read_only_marker ascii_unicode ''self approve''"
proof (rule no_read_only_marker)
  have "list_all (\<lambda>m. py_split m \<noteq> [] \<and> hd (py_split m) \<notin> {''self'', ''approve''}) read_only_markers" by code_simp
  then show "py_split m \<noteq> [] \<and> hd (py_split m) \<notin> set (text_words c)"
    if "c \<in> set (semantic_clauses ascii_unicode ''self approve'')" "m \<in> set read_only_markers" for c m
    using that by (simp add: demo_clauses demo_text_words list_all_iff)
qed

lemma demo_norm: "normalize_semantic_text ascii_unicode ''self approve'' = ''self approve''"
  by (simp add: normalize_words folds_plain demo_text_plain demo_text_words)
lemma demo_forbidden: "forbidden_action ascii_unicode ''self approve'' ''self approve'' = Some ''bypass_auth''"
proof -
  have "contains_phrase ''self approve'' ''self approve''" by code_simp
  then show ?thesis
    unfolding forbidden_action_def demo_scopes Let_def
    by (simp add: list_ex_iff forbidden_effect_markers_def demo_norm negates_def)
qed
lemma not_exempt:
  "\<not> has_unnegated_read_only_marker U t \<Longrightarrow> cap \<notin> {WebSearchRead, VisualImageGenerate, VisualPromptCompose, SystemOperation}
   \<Longrightarrow> \<not> exempt_request U t cap"
  by (auto simp: exempt_request_def guidance_request_def status_request_def bounded_request_def
    is_read_only_status_intent_def is_read_only_core_status_intent_def has_strong_read_only_boundary_def
    read_only_constraint)

lemma demo_action: "action_of ascii_unicode ''self approve'' UnknownWorkflow = (''bypass_auth'', Some Forbidden, [])"
  using not_exempt [OF demo_ro, of UnknownWorkflow] demo_forbidden
  by (simp add: action_of_def exempt_request_def Let_def safety_text demo_norm)

lemma demo_marked: "marked_effect ascii_unicode ''self approve''"
proof -
  have "contains_phrase ''self approve'' ''self approve''" by code_simp
  then show ?thesis
    by (simp add: marked_effect_def Let_def demo_scopes demo_norm forbidden_effect_markers_def negates_def)
qed

lemma sized_text: "list_all (\<lambda>c. \<not> is_cont c) s \<Longrightarrow> s \<noteq> [] \<Longrightarrow> length s \<le> n \<Longrightarrow> sized n s"
  by (cases s) (auto simp: sized_def py_len_ascii list_all_iff)

lemmas validate_simps = envelope_validate_def ensureE_def opt_max_def sized_text is_cont_def byte_def

definition demo_envelope :: envelope where
  "demo_envelope = \<lparr>we_project_id = ''p'', we_title = ''self approve'', we_goal = ''self approve'', we_build = True,
     we_priority = PNormal, we_risk = Forbidden, we_approval_required = True, we_workspace = None,
     we_requested_by = ''me'', we_channel = ''internal'', we_chat_id = None, we_session_id = None,
     we_message_id = None, we_reference = None, we_idempotency_key = None, we_correlation_id = ''r'',
     we_constraints = [], we_prior_evidence = [], we_capability = Some UnknownWorkflow,
     we_decision = Deny, we_rule = ''risk.forbidden.deny'',
     we_reason = ''Forbidden actions cannot be approved or executed.''\<rparr>"

lemma demo_resolved:
  "resolve_workflow demo_resolver demo_core_request ''r'' ''self approve'' None UnknownWorkflow demo_project = Inr demo_envelope"
proof -
  have v: "envelope_validate demo_envelope = Inr ()" by (simp add: validate_simps demo_envelope_def)
  have t: "py_take 255 ''self approve'' = ''self approve''" by code_simp
  show ?thesis
    using v
    by (simp add: resolve_workflow_def Let_def demo_resolver_def demo_action policy_evaluate_def demo_core_request_def t
        owner_may_lift_def workflow_idempotency_key_def prior_evidence_def demo_project_def demo_envelope_def decide_def)
qed

theorem marked_effects_gated_witness:
  "we_approval_required demo_envelope \<and> Sensitive \<le> we_risk demo_envelope \<and> we_build demo_envelope"
proof -
  have "\<not> exempt_request (rv_unicode demo_resolver) ''self approve'' UnknownWorkflow"
    using not_exempt [OF demo_ro, of UnknownWorkflow] by (simp add: demo_resolver_def)
  moreover have "marked_effect (rv_unicode demo_resolver) ''self approve''"
    using demo_marked by (simp add: demo_resolver_def)
  ultimately show ?thesis
    using marked_effects_gated [OF demo_resolved, of "''self approve''"] by simp
qed

section \<open>Envelopes without approval\<close>

lemma owner_marker_not_constraint: "constraint_value c \<noteq> ''owner_request_authorized_current_goal''"
  by (cases c) simp_all

lemma action_of_constraints:
  "''owner_request_authorized_current_goal'' \<notin> set (snd (snd (action_of U t cap)))"
  using owner_marker_not_constraint
  by (auto simp: action_of_def Let_def status_constraints_def bounded_constraints_def web_read_constraints_def
      split: option.splits) (metis owner_marker_not_constraint)+

lemma plain_allowed:
  assumes "policy_evaluate F roots (plain_action a r ws) = Inr d" "pd_kind d = Allow"
  shows "\<exists>c. map_of action_risk_catalog a = Some c \<and> c \<le> pd_risk d \<and> pd_risk d \<le> SafeWrite"
  using assms(1)
proof (cases rule: policy_evaluate_cases)
  case (decided c p)
  let ?e = "max (max c (declared_risk (plain_action a r ws))) ReadOnly"
  have nf: "?e \<noteq> Forbidden" using decided(5,6) by (auto simp: max_def)
  moreover from decided(3) assms(2) have "?e \<noteq> HighRisk" "?e \<noteq> Sensitive"
    by (auto simp: risk_decision_kind)
  ultimately have "?e \<le> SafeWrite" by (cases ?e) (simp_all add: less_eq_risk_level_def)
  then show ?thesis using decided(1,3) nf by (auto simp: risk_decision_kind)
next
  case (stopped c p)
  from evaluate_path_stop [OF stopped(2)] assms(2) show ?thesis by auto
qed (use assms(2) in auto)

lemma risk_rule: "pd_rule (risk_decision e p) \<noteq> ''owner.direct_request''"
  by (simp add: risk_decision_def decide_def)

lemma plain_rule:
  assumes "policy_evaluate F roots (plain_action a r ws) = Inr d"
  shows "pd_rule d \<noteq> ''owner.direct_request''"
proof (cases "r = Some Forbidden \<or> map_of action_risk_catalog a = Some Forbidden")
  case True
  with assms show ?thesis by (auto simp: policy_evaluate_def decide_def)
next
  case nf: False
  show ?thesis
  proof (cases "map_of action_risk_catalog a")
    case None
    with assms nf show ?thesis by (auto simp: policy_evaluate_def Let_def decide_def)
  next
    case (Some c)
    with assms nf show ?thesis
      by (cases "a \<in> set path_required_actions")
        (auto simp: policy_evaluate_def Let_def evaluate_path_no_target decide_def risk_rule)
  qed
qed

text \<open>C33. What an envelope without approval rests on. Its risk is at most SAFE\_WRITE, and either the
  policy catalog allows its action, or the request comes from the authenticated owner in a Telegram
  message, in which case, and only then, the envelope carries the owner's authorisation: a project
  constraint cannot bring it in. Quick mode is exactly the read-only risk.\<close>

theorem envelope_without_approval:
  assumes "resolve_workflow R q rid text sem cap p = Inr w"
  shows "(we_approval_required w \<longleftrightarrow> we_decision w \<noteq> Allow) \<and> (we_build w \<longleftrightarrow> we_risk w \<noteq> ReadOnly)
    \<and> (''owner_request_authorized_current_goal'' \<in> set (we_constraints w) \<longleftrightarrow> we_rule w = ''owner.direct_request'')
    \<and> (we_rule w = ''owner.direct_request''
       \<longrightarrow> owner_authorizes (rv_env R) (rv_unicode R) (rv_owner R) q \<and> we_risk w \<le> SafeWrite)
    \<and> (\<not> we_approval_required w
       \<longrightarrow> we_risk w \<le> SafeWrite \<and> (we_rule w = ''owner.direct_request''
           \<or> (\<exists>c. map_of action_risk_catalog
                (fst (action_of (rv_unicode R) (if truthy sem then the sem else text) cap)) = Some c \<and> c \<le> we_risk w)))"
proof -
  define t where "t = (if truthy sem then the sem else text)"
  obtain name declared safety where act: "action_of (rv_unicode R) t cap = (name, declared, safety)"
    by (cases "action_of (rv_unicode R) t cap") auto
  have safe: "''owner_request_authorized_current_goal'' \<notin> set safety"
    using action_of_constraints [of "rv_unicode R" t cap] by (simp add: act)
  obtain d where d: "policy_evaluate (rv_fs R) (rv_roots R)
      (plain_action name declared (map_option path_of (pj_path_wsl p))) = Inr d"
    using assms by (auto simp: resolve_workflow_def Let_def act t_def [symmetric] bindE_Inr_iff split: if_splits)
  have rule: "pd_rule d \<noteq> ''owner.direct_request''" by (rule plain_rule [OF d])
  define lifted where "lifted \<longleftrightarrow> owner_authorizes (rv_env R) (rv_unicode R) (rv_owner R) q \<and> owner_may_lift d"
  have "\<not> (cq_channel q = ''telegram'' \<and> \<not> (truthy (cq_chat_id q) \<and> truthy (cq_session_id q) \<and> truthy (cq_message_id q)))"
    by (rule ccontr) (use assms in \<open>simp add: resolve_workflow_def Let_def\<close>)
  then have w: "we_decision w = pd_kind (if lifted then owner_decision d else d)"
    "we_risk w = pd_risk (if lifted then owner_decision d else d)"
    "we_rule w = pd_rule (if lifted then owner_decision d else d)"
    "we_approval_required w = (we_decision w \<noteq> Allow)" "we_build w = (we_risk w \<noteq> ReadOnly)"
    "we_constraints w = filter (\<lambda>c. c \<noteq> ''owner_request_authorized_current_goal'') (pj_constraints p)
       @ safety @ (if lifted then owner_constraints else [])"
    using assms d
    by (auto simp: resolve_workflow_def Let_def act t_def [symmetric] lifted_def [symmetric] bindE_Inr_iff
        split del: if_split)
  have low: "lifted \<Longrightarrow> pd_risk d \<le> SafeWrite"
    by (cases "pd_risk d") (auto simp: lifted_def owner_may_lift_def less_risk_level_def less_eq_risk_level_def)
  show ?thesis
    using w low rule safe plain_allowed [OF d] act
    by (cases lifted) (auto simp: owner_decision_def decide_def owner_constraints_def t_def [symmetric] lifted_def)
qed

definition demo_prompt_envelope :: envelope where
  "demo_prompt_envelope = demo_envelope\<lparr>we_build := False, we_risk := ReadOnly, we_approval_required := False,
     we_capability := Some VisualPromptCompose, we_decision := Allow, we_rule := ''risk.read_only.allow'',
     we_reason := ''Read-only action is allowed by policy.'',
     we_constraints := [''read_only'', ''no_external_network'', ''no_file_changes'', ''no_config_changes'',
         ''no_service_restart'', ''no_system_mutation'']\<rparr>"

lemma demo_prompt_resolved:
  "resolve_workflow demo_resolver demo_core_request ''r'' ''self approve'' (Some ''self approve'') VisualPromptCompose demo_project
   = Inr demo_prompt_envelope"
proof -
  have v: "envelope_validate demo_prompt_envelope = Inr ()"
    by (simp add: validate_simps demo_envelope_def demo_prompt_envelope_def)
  have t: "py_take 255 ''self approve'' = ''self approve''" by code_simp
  have a: "policy_evaluate demo_fs [path_of ''/mnt/f/AIOS''] (plain_action ''compose_visual_prompt'' (Some ReadOnly) None)
    = Inr (risk_decision ReadOnly None)" by code_simp
  have o: "\<not> owner_authorizes demo_env ascii_unicode (Some ''7'') demo_core_request"
    by (simp add: owner_authorizes_def demo_core_request_def)
  show ?thesis
    using v o
    by (simp add: resolve_workflow_def Let_def demo_resolver_def action_of_def a demo_core_request_def t
        workflow_idempotency_key_def prior_evidence_def demo_project_def demo_envelope_def demo_prompt_envelope_def
        risk_decision_def decide_def)
qed

theorem envelope_without_approval_witness:
  "we_risk demo_prompt_envelope \<le> SafeWrite
   \<and> ''owner_request_authorized_current_goal'' \<notin> set (we_constraints demo_prompt_envelope)"
proof -
  have "\<not> we_approval_required demo_prompt_envelope" "we_rule demo_prompt_envelope \<noteq> ''owner.direct_request''"
    by (simp_all add: demo_prompt_envelope_def)
  with envelope_without_approval [OF demo_prompt_resolved] show ?thesis by blast
qed

section \<open>Routes and capabilities\<close>

lemma routed_simps [simp]: "rd_route (routed r a b) = r" "cd_capability (decided c r a s) = c" "cd_route (decided c r a s) = r"
  by (simp_all add: routed_def decided_def)

lemma route_text_core:
  "rd_route (route_text U t n) = RCoreRead \<Longrightarrow> is_core_read_request n"
  by (auto simp: route_text_def explicit_action_def Let_def split: if_splits)

lemma route_visual_not_core: "route_visual v = Some d \<Longrightarrow> rd_route d = RDirect \<or> rd_route d = RWorkflow"
  by (auto simp: route_visual_def split: if_splits)

lemma fast_route_core:
  "rd_route (fast_route_of U t v) = RCoreRead \<Longrightarrow>
   normalize_semantic_text U t \<noteq> [] \<and> is_core_read_request (normalize_semantic_text U t)"
  by (auto simp: fast_route_of_def Let_def dest: route_text_core dest!: route_visual_not_core
      split: if_splits option.splits)

lemma fast_route_memory:
  "rd_route (fast_route_of U t v) = RMemory \<Longrightarrow> normalize_semantic_text U t \<noteq> []"
  by (auto simp: fast_route_of_def Let_def split: if_splits)

text \<open>The entities of the fast router are the signals of the capability router.\<close>

lemma core_entities: "set core_entity_phrases \<subseteq> set (task_signals @ project_signals @ core_signals)"
  by (simp add: core_entity_phrases_def task_signals_def project_signals_def core_signals_def)

lemma signals_Nil: "signals n ns ps = [] \<longleftrightarrow> \<not> contains_any n ps"
  by (simp add: signals_def contains_any_def filter_empty_conv list_ex_iff)

lemma core_read_capability:
  assumes "contains_any n core_entity_phrases"
  shows "cd_capability (route_core_read r n) \<in> {TaskRead, ProjectRead, CoreStatusRead}"
proof -
  have "contains_any n task_signals \<or> contains_any n project_signals \<or> contains_any n core_signals"
    using assms core_entities unfolding contains_any_def list_ex_iff by fastforce
  then show ?thesis by (auto simp: route_core_read_def Let_def signals_Nil)
qed

lemma if_pred: "Q a \<Longrightarrow> Q b \<Longrightarrow> Q (if c then a else b)"
  by simp

lemma workflow_capability:
  "cd_capability (route_workflow U r n t) \<in>
     {SystemOperation, ExternalCommunication, CodeOperation, FileOperation, VisualImageGenerate,
      VisualPromptCompose, Planning, UnknownWorkflow} \<and> cd_route (route_workflow U r n t) = r"
proof -
  define Q where "Q c \<longleftrightarrow> cd_capability c \<in>
     {SystemOperation, ExternalCommunication, CodeOperation, FileOperation, VisualImageGenerate,
      VisualPromptCompose, Planning, UnknownWorkflow} \<and> cd_route c = r" for c :: capability_decision
  have "Q (route_workflow U r n t)"
    unfolding route_workflow_def Let_def by (intro if_pred [of Q]; simp add: Q_def)
  then show ?thesis unfolding Q_def .
qed

lemma visual_workflow_capability:
  "route_visual_workflow r v = Some c \<Longrightarrow>
   cd_capability c \<in> {ExternalCommunication, FileOperation, VisualImageGenerate} \<and> cd_route c = r"
  by (auto simp: route_visual_workflow_def split: if_splits)

text \<open>The capability of a routed request matches its route: a direct request only converses or looks
  at an image, a memory request searches memory, a Core request reads tasks, projects or the Core
  status and is never left unrecognised, and only a workflow can have a capability with effects. A
  decision other than the fast router's own yields the unknown workflow.\<close>

theorem capability_follows_route:
  "let d = fast_route_of U t v; c = capability_route U d t v in
     cd_route c = rd_route d
     \<and> (case rd_route d of
          RDirect \<Rightarrow> cd_capability c \<in> {ConversationalResponse, VisualAnalysis}
        | RMemory \<Rightarrow> cd_capability c = MemorySearch
        | RCoreRead \<Rightarrow> cd_capability c \<in> {TaskRead, ProjectRead, CoreStatusRead}
        | RWorkflow \<Rightarrow> cd_capability c \<in>
            {SystemOperation, ExternalCommunication, CodeOperation, FileOperation, VisualImageGenerate,
             VisualPromptCompose, Planning, UnknownWorkflow})
     \<and> (d' = d \<or> cd_capability (capability_route U d' t v) = UnknownWorkflow)"
proof -
  let ?d = "fast_route_of U t v" and ?n = "normalize_semantic_text U t"
  let ?c = "capability_route U ?d t v"
  have "cd_capability (capability_route U d' t v) = UnknownWorkflow" if "d' \<noteq> ?d"
    using that by (simp add: capability_route_def Let_def)
  moreover have "cd_route ?c = rd_route ?d \<and> (case rd_route ?d of
          RDirect \<Rightarrow> cd_capability ?c \<in> {ConversationalResponse, VisualAnalysis}
        | RMemory \<Rightarrow> cd_capability ?c = MemorySearch
        | RCoreRead \<Rightarrow> cd_capability ?c \<in> {TaskRead, ProjectRead, CoreStatusRead}
        | RWorkflow \<Rightarrow> cd_capability ?c \<in>
            {SystemOperation, ExternalCommunication, CodeOperation, FileOperation, VisualImageGenerate,
             VisualPromptCompose, Planning, UnknownWorkflow})"
  proof (cases "rd_route ?d")
    case RDirect
    then show ?thesis by (simp add: capability_route_def Let_def split: option.split)
  next
    case RMemory
    then show ?thesis using fast_route_memory [of U t v] by (simp add: capability_route_def Let_def)
  next
    case RCoreRead
    then have n: "?n \<noteq> []" and e: "contains_any ?n core_entity_phrases"
      using fast_route_core [of U t v] by (simp_all add: is_core_read_request_def)
    have r: "cd_route (route_core_read r m) = r" for r m by (simp add: route_core_read_def Let_def)
    show ?thesis using RCoreRead n core_read_capability [OF e] by (simp add: capability_route_def Let_def r)
  next
    case RWorkflow
    then have c: "?c = (if ?n = [] then decided UnknownWorkflow RWorkflow ''capability.workflow.empty_input'' []
       else case (case v of None \<Rightarrow> None | Some v \<Rightarrow> route_visual_workflow RWorkflow v) of
             Some c \<Rightarrow> c | None \<Rightarrow> route_workflow U RWorkflow ?n t)"
      by (simp add: capability_route_def Let_def)
    show ?thesis
      using RWorkflow workflow_capability [of U RWorkflow ?n t]
      unfolding c by (auto dest!: visual_workflow_capability split: option.splits)
  qed
  ultimately show ?thesis unfolding Let_def by blast
qed

section \<open>Execution\<close>

text \<open>The two inspections that are executed: reading the web and reading the system.\<close>

definition reads_web :: "intent_frame \<Rightarrow> capability_decision \<Rightarrow> bool" where
  "reads_web f c \<longleftrightarrow> cd_capability c = WebSearchRead \<and> cd_reason c = ''capability.semantic.web_search_read''
     \<and> if_domain f = IdWeb \<and> if_action f \<in> {IaRead, IaSearch, IaAnalyze, IaCompare}"

definition reads_system :: "intent_frame \<Rightarrow> capability_decision \<Rightarrow> bool" where
  "reads_system f c \<longleftrightarrow> cd_capability c = SystemOperation
     \<and> cd_reason c = ''capability.semantic.system_operation.read_only''
     \<and> if_domain f = IdSystem \<and> if_action f \<in> {IaAnalyze, IaRead, IaStatus}"

lemma read_only_workflow:
  assumes "read_only_decision f v = (r, c)" "rd_route r = RWorkflow"
  shows "reads_web f c \<or> reads_system f c"
proof -
  have "rd_route (fst (read_only_decision f v)) = RWorkflow \<longrightarrow>
    reads_web f (snd (read_only_decision f v)) \<or> reads_system f (snd (read_only_decision f v))"
    by (simp add: read_only_decision_def routed_def decided_def Let_def reads_web_def reads_system_def)
  with assms show ?thesis by simp
qed

lemma decisions_workflow:
  assumes "decisions_from_intent_frame f raw source img = Inr (r, c, v)" "rd_route r = RWorkflow"
  shows "if if_requested f then cd_capability c = execution_capability f else reads_web f c \<or> reads_system f c"
  using assms read_only_workflow
  by (auto simp: decisions_from_intent_frame_def decided_def Let_def bindE_Inr_iff split: if_splits prod.splits)

lemma contextual_visual_kept:
  "if_requested (normalize_contextual_visual_intent a b f) = if_requested f"
  "if_speech_act (normalize_contextual_visual_intent a b f) = if_speech_act f"
  "if_authorization (normalize_contextual_visual_intent a b f) = if_authorization f"
  "if_action (normalize_contextual_visual_intent a b f) = if_action f"
  "if_confidence (normalize_contextual_visual_intent a b f) = if_confidence f"
  by (simp_all add: normalize_contextual_visual_intent_def)

lemma url_read_kept: "if_requested (normalize_explicit_url_read_intent u f) = if_requested f"
  by (simp add: normalize_explicit_url_read_intent_def)

text \<open>A frame that the rule for links turns to the web asked to read and was no request.\<close>

lemma url_read_changed:
  "normalize_explicit_url_read_intent u f = f
   \<or> u \<and> \<not> if_requested f \<and> if_domain f \<in> {IdConversation, IdUnknown}
     \<and> if_action f \<in> {IaNone, IaAnalyze, IaCompare, IaRead, IaSearch}
     \<and> if_domain (normalize_explicit_url_read_intent u f) = IdWeb"
  by (simp add: normalize_explicit_url_read_intent_def)

lemma routed_meaning_suppressed:
  assumes "routed_meaning P q rf t ws = Inr m" "pl_semantic P \<noteq> None"
  shows "rd_route (mn_route m) \<noteq> RWorkflow" "mn_intent m = None"
proof -
  obtain r c v r' c' v' source img where
    d: "(if rd_route r = RWorkflow then decisions_from_intent_frame
          (safe_read_only_fallback_intent (source \<noteq> VsNone \<or> v \<noteq> None)) (cq_text q) source img
         else Inr (r, c, v)) = Inr (r', c', v')" and m: "mn_route m = r'" "mn_intent m = None"
    using assms by (auto simp: routed_meaning_def Let_def bindE_Inr_iff split: prod.splits)
  show "mn_intent m = None" by (rule m)
  show "rd_route (mn_route m) \<noteq> RWorkflow"
  proof
    assume w: "rd_route (mn_route m) = RWorkflow"
    with d m have "decisions_from_intent_frame
          (safe_read_only_fallback_intent (source \<noteq> VsNone \<or> v \<noteq> None)) (cq_text q) source img = Inr (r', c', v')"
      by (auto split: if_splits)
    from decisions_workflow [OF this] w m show False
      by (auto simp: safe_read_only_fallback_intent_def reads_web_def reads_system_def split: if_splits)
  qed
qed

lemma prepared_meaning:
  assumes "prepare P d q = Inr out"
  obtains m where "meaning_of P q = Inr m" "pq_intent out = mn_intent m" "pq_route out = mn_route m"
    "pq_capability out = mn_capability m" "pq_execution_required out = (rd_route (mn_route m) = RWorkflow)"
    "pq_execution_required out = (pq_workflow out \<noteq> None)"
proof -
  from assms obtain m where "meaning_of P q = Inr m" "pq_intent out = mn_intent m" "pq_route out = mn_route m"
    "pq_capability out = mn_capability m" "pq_execution_required out = (rd_route (mn_route m) = RWorkflow)"
    "prepared_validate out = Inr ()"
    by (auto simp: prepare_def Let_def bindE_Inr_iff)
  moreover have "prepared_validate out = Inr () \<Longrightarrow> pq_execution_required out = (pq_workflow out \<noteq> None)"
    by (auto simp: prepared_validate_def ensureE_def split: if_splits)
  ultimately show ?thesis using that by blast
qed

text \<open>
  Why a prepared frame is executed: an effect is asked for with enough confidence, or the system is
  to be inspected, or the web is to be read, the latter also for a link in the text.
\<close>

definition executed_for :: "pipeline \<Rightarrow> string \<Rightarrow> intent_frame \<Rightarrow> capability_decision \<Rightarrow> bool" where
  "executed_for P raw f c \<longleftrightarrow>
     (if if_requested f then pl_threshold P \<le> if_confidence f \<and> cd_capability c = execution_capability f
      else reads_system f c \<or> reads_web f c
        \<or> pl_has_url P raw \<and> cd_capability c = WebSearchRead \<and> cd_reason c = ''capability.semantic.web_search_read''
          \<and> if_domain f \<in> {IdConversation, IdUnknown}
          \<and> if_action f \<in> {IaNone, IaAnalyze, IaCompare, IaRead, IaSearch})"

lemma suppressed_fields [simp]:
  "if_requested (suppressed f) = False" "if_domain (suppressed f) = if_domain f" "if_action (suppressed f) = if_action f"
  by (simp_all add: suppressed_def)

lemma semantic_meaning_intent:
  assumes "semantic_meaning P q rf t f = Inr m" "rd_route (mn_route m) = RWorkflow" "frame_authority f = Inr ()"
  obtains g where "mn_intent m = Some g" "if_requested g = if_requested f" "if_speech_act g = if_speech_act f"
    "if_authorization g = if_authorization f" "if_action g = if_action f"
    "executed_for P (cq_text q) g (mn_capability m)"
proof -
  let ?u = "pl_has_url P (cq_text q)"
  obtain b b' source img g where g: "g = normalize_contextual_visual_intent b b' f" "mn_intent m = Some g"
    and d: "decisions_from_intent_frame (normalize_explicit_url_read_intent ?u
        (if if_confidence g < pl_threshold P then suppressed g else g)) (cq_text q) source img
      = Inr (mn_route m, mn_capability m, mn_visual m)"
    using assms(1) by (auto simp: semantic_meaning_def Let_def bindE_Inr_iff split: prod.splits)
  let ?g = "if if_confidence g < pl_threshold P then suppressed g else g"
  let ?h = "normalize_explicit_url_read_intent ?u ?g" and ?c = "mn_capability m"
  have kept: "if_domain ?g = if_domain g" "if_action ?g = if_action g"
    "if_requested ?g \<longleftrightarrow> if_requested g \<and> pl_threshold P \<le> if_confidence g" by simp_all
  have effect: "if_requested g \<Longrightarrow> if_action g \<notin> set read_only_actions"
    using frame_requested [OF assms(3)] by (simp add: g(1) contextual_visual_kept)
  have "executed_for P (cq_text q) g ?c"
  proof (cases "if_requested ?g")
    case True
    then have "?h = ?g" "?g = g" using url_read_changed [of ?u ?g] kept(3) by (auto split: if_splits)
    with decisions_workflow [OF d assms(2)] True kept(3) show ?thesis by (simp add: executed_for_def)
  next
    case False
    with decisions_workflow [OF d assms(2)] have r: "reads_web ?h ?c \<or> reads_system ?h ?c" by (simp add: url_read_kept)
    have "if_action g \<in> set read_only_actions \<and> (reads_system g ?c \<or> reads_web g ?c
        \<or> ?u \<and> cd_capability ?c = WebSearchRead \<and> cd_reason ?c = ''capability.semantic.web_search_read''
          \<and> if_domain g \<in> {IdConversation, IdUnknown} \<and> if_action g \<in> {IaNone, IaAnalyze, IaCompare, IaRead, IaSearch})"
      using url_read_changed [of ?u ?g]
    proof
      assume "?h = ?g"
      with r kept show ?thesis by (auto simp: reads_web_def reads_system_def read_only_actions_def)
    next
      assume "?u \<and> \<not> if_requested ?g \<and> if_domain ?g \<in> {IdConversation, IdUnknown}
         \<and> if_action ?g \<in> {IaNone, IaAnalyze, IaCompare, IaRead, IaSearch} \<and> if_domain ?h = IdWeb"
      with r kept(1,2) show ?thesis by (auto simp: reads_web_def reads_system_def read_only_actions_def)
    qed
    with effect show ?thesis by (auto simp: executed_for_def)
  qed
  with g that show ?thesis by (simp add: contextual_visual_kept)
qed

text \<open>C31. Execution needs an intent. With a semantic resolver, whose frames its model validates, a prepared
  request requires execution only when the resolver answered. If the frame asks for an effect, it is
  an explicitly authorised action request with at least the configured confidence, and the capability
  is the one its action and domain name. If it asks for none, the execution is an inspection, marked
  read-only by its reason code: of the system, for a system frame that analyses, reads or asks a
  status; or of the web, for a web frame that reads, searches or compares or for a link in the text of
  a conversational frame. A resolver that fails or doubts thus never leads to an effect, whatever the
  deterministic routers say.\<close>

theorem execution_needs_intent:
  assumes "prepare P d q = Inr out" "pl_semantic P = Some resolve" "pq_execution_required out"
    "\<forall>a b c e g f. resolve a b c e g = Inr f \<longrightarrow> frame_validate f = Inr ()"
  shows "\<exists>f. pq_intent out = Some f \<and> pq_workflow out \<noteq> None \<and>
    (if if_requested f
     then if_speech_act f = SaActionRequest \<and> if_authorization f = AuExplicit \<and> if_action f \<notin> set read_only_actions
       \<and> pl_threshold P \<le> if_confidence f \<and> cd_capability (pq_capability out) = execution_capability f
     else (cd_capability (pq_capability out) = SystemOperation
         \<and> cd_reason (pq_capability out) = ''capability.semantic.system_operation.read_only''
         \<and> if_domain f = IdSystem \<and> if_action f \<in> {IaAnalyze, IaRead, IaStatus})
       \<or> (cd_capability (pq_capability out) = WebSearchRead
         \<and> cd_reason (pq_capability out) = ''capability.semantic.web_search_read''
         \<and> (if_domain f = IdWeb \<and> if_action f \<in> {IaRead, IaSearch, IaAnalyze, IaCompare}
           \<or> pl_has_url P (cq_text q) \<and> if_domain f \<in> {IdConversation, IdUnknown}
             \<and> if_action f \<in> {IaNone, IaAnalyze, IaCompare, IaRead, IaSearch})))"
proof -
  from prepared_meaning [OF assms(1)] obtain m where m: "meaning_of P q = Inr m" "pq_intent out = mn_intent m"
    "pq_capability out = mn_capability m" "rd_route (mn_route m) = RWorkflow" "pq_workflow out \<noteq> None"
    using assms(3) by metis
  obtain rf t ws a b c e g where r: "(case resolve a b c e g of Inr f \<Rightarrow> semantic_meaning P q rf t f
      | Inl SemanticIntentResolutionError \<Rightarrow> routed_meaning P q rf t ws | Inl x \<Rightarrow> Inl x) = Inr m"
    using m(1) assms(2) by (auto simp: meaning_of_def Let_def)
  show ?thesis
  proof (cases "resolve a b c e g")
    case (Inl x)
    with r have "routed_meaning P q rf t ws = Inr m" by (cases x) auto
    with routed_meaning_suppressed [OF this] assms(2) m(4) show ?thesis by simp
  next
    case (Inr f)
    with r have sm: "semantic_meaning P q rf t f = Inr m" by simp
    from Inr assms(4) have auth: "frame_authority f = Inr ()" by (auto simp: frame_validate_def bindE_Inr_iff)
    from semantic_meaning_intent [OF sm m(4) auth] obtain h where h: "mn_intent m = Some h"
      "if_requested h = if_requested f" "if_speech_act h = if_speech_act f"
      "if_authorization h = if_authorization f" "if_action h = if_action f"
      "executed_for P (cq_text q) h (mn_capability m)" .
    have "if_requested h \<longrightarrow> if_speech_act h = SaActionRequest \<and> if_authorization h = AuExplicit
        \<and> if_action h \<notin> set read_only_actions"
      using frame_requested [OF auth] h(2-5) by simp
    with h(1,6) m(2,3,5) show ?thesis
      by (intro exI [of _ h]) (auto simp: executed_for_def reads_web_def reads_system_def)
  qed
qed

definition demo_frame :: intent_frame where
  "demo_frame = (safe_read_only_fallback_intent True)\<lparr>if_speech_act := SaActionRequest,
     if_authorization := AuExplicit, if_action := IaComposePrompt, if_requested := True, if_confidence := 1\<rparr>"

definition demo_pipeline :: pipeline where
  "demo_pipeline = \<lparr>pl_resolver = demo_resolver, pl_persona = Inr \<lparr>pf_version = ''1'', pf_hash = ''h''\<rparr>,
     pl_semantic = Some (\<lambda>_ _ _ _ _. Inr demo_frame), pl_threshold = 72 / 100, pl_has_url = \<lambda>_. False,
     pl_redact = \<lambda>t. t, pl_context = \<lambda>_. Inr \<lparr>cb_warnings = [], cb_source_refs = [], cb_tokens = 0\<rparr>,
     pl_new_id = ''r''\<rparr>"

lemma demo_frame_valid: "frame_validate demo_frame = Inr ()"
proof -
  have "py_len ''Semantic resolver unavailable; execution suppressed.'' \<le> 2000" by code_simp
  then show ?thesis
    by (simp add: demo_frame_def safe_read_only_fallback_intent_def frame_validate_def frame_fields_def
        frame_authority_def read_only_actions_def ensureE_def)
qed

lemma demo_meaning:
  "\<exists>m. meaning_of demo_pipeline demo_core_request = Inr m \<and> rd_route (mn_route m) = RWorkflow
    \<and> cd_capability (mn_capability m) = VisualPromptCompose \<and> mn_referent m = None \<and> mn_source m = VsNone
    \<and> mn_image m = None \<and> mn_text m = ''self approve'' \<and> add_compiler m demo_prompt_envelope = demo_prompt_envelope"
  by (simp add: meaning_of_def Let_def demo_pipeline_def demo_resolver_def demo_core_request_def semantic_text_def
      resolve_contextual_referent_def semantic_meaning_def normalize_contextual_visual_intent_def demo_frame_def
      safe_read_only_fallback_intent_def normalize_explicit_url_read_intent_def decisions_from_intent_frame_def
      frame_visual_contract_def frame_operation_def concrete_source_def visual_contract_validate_def ensureE_def
      execution_capability_def add_compiler_def)

lemma demo_prepared: "\<exists>out. prepare demo_pipeline \<lparr>db_projects = [demo_project], db_tasks = [], db_runs = [],
    db_workflows = [], db_approvals = []\<rparr> demo_core_request = Inr out \<and> pq_execution_required out"
proof -
  obtain m where m: "meaning_of demo_pipeline demo_core_request = Inr m" "rd_route (mn_route m) = RWorkflow"
    "cd_capability (mn_capability m) = VisualPromptCompose" "mn_referent m = None" "mn_source m = VsNone"
    "mn_image m = None" "mn_text m = ''self approve''" "add_compiler m demo_prompt_envelope = demo_prompt_envelope"
    using demo_meaning by blast
  have q: "demo_core_request\<lparr>cq_referent := None, cq_image_source := VsNone, cq_reference := None\<rparr> = demo_core_request"
    by (simp add: demo_core_request_def)
  have r: "pl_resolver demo_pipeline = demo_resolver" by (simp add: demo_pipeline_def)
  have w: "workflow_of demo_pipeline demo_core_request ''r'' ''self approve'' m (Some demo_project) = Inr (Some demo_prompt_envelope)"
    using demo_prompt_resolved r by (simp add: workflow_of_def m q)
  have l: "sized 20000 ''self approve''" "sized 128 ''r''" by (simp_all add: validate_simps)
  have f: "pl_persona demo_pipeline = Inr \<lparr>pf_version = ''1'', pf_hash = ''h''\<rparr>" "pl_redact demo_pipeline = (\<lambda>t. t)"
    "pl_context demo_pipeline = (\<lambda>_. Inr \<lparr>cb_warnings = [], cb_source_refs = [], cb_tokens = 0\<rparr>)"
    "pl_new_id demo_pipeline = ''r''" by (simp_all add: demo_pipeline_def)
  have c: "cq_text demo_core_request = ''self approve''" "cq_request_id demo_core_request = None"
    "cq_task_id demo_core_request = None" "cq_project_id demo_core_request = None"
    by (simp_all add: demo_core_request_def)
  have pj: "resolve_project \<lparr>db_projects = [demo_project], db_tasks = [], db_runs = [],
    db_workflows = [], db_approvals = []\<rparr> demo_core_request None True = Inr (Some demo_project)"
    by (simp add: resolve_project_def c) (simp add: demo_project_def)
  show ?thesis
    by (simp add: prepare_def Let_def m f c w pj load_task_def validate_task_project_def prepared_validate_def
        ensureE_def l)
qed

theorem execution_needs_intent_witness:
  "\<exists>out f. prepare demo_pipeline \<lparr>db_projects = [demo_project], db_tasks = [], db_runs = [],
    db_workflows = [], db_approvals = []\<rparr> demo_core_request = Inr out \<and> pq_intent out = Some f \<and> pq_workflow out \<noteq> None"
proof -
  obtain out where o: "prepare demo_pipeline \<lparr>db_projects = [demo_project], db_tasks = [], db_runs = [],
    db_workflows = [], db_approvals = []\<rparr> demo_core_request = Inr out" "pq_execution_required out"
    using demo_prepared by blast
  have "pl_semantic demo_pipeline = Some (\<lambda>_ _ _ _ _. Inr demo_frame)" by (simp add: demo_pipeline_def)
  from execution_needs_intent [OF o(1) this o(2)] demo_frame_valid o(1) show ?thesis by auto
qed

text \<open>
  A doubted prohibition is dropped: the suppressed frame has no authorisation left, so that a link
  in the text makes it a web request.
\<close>

definition doubtful_prohibition :: intent_frame where
  "doubtful_prohibition = (safe_read_only_fallback_intent False)\<lparr>if_speech_act := SaProhibition,
     if_authorization := AuProhibited, if_action := IaRead\<rparr>"

theorem doubted_prohibition_reads_web:
  "frame_validate doubtful_prohibition = Inr ()
   \<and> normalize_explicit_url_read_intent True doubtful_prohibition = doubtful_prohibition
   \<and> (case decisions_from_intent_frame (normalize_explicit_url_read_intent True (suppressed doubtful_prohibition))
        t VsNone None of Inr (r, c, v) \<Rightarrow> rd_route r = RWorkflow \<and> cd_capability c = WebSearchRead | Inl e \<Rightarrow> False)"
proof -
  have l: "py_len ''Semantic resolver unavailable; execution suppressed.'' \<le> 2000" by code_simp
  show ?thesis
    by (simp add: doubtful_prohibition_def safe_read_only_fallback_intent_def suppressed_def
        normalize_explicit_url_read_intent_def decisions_from_intent_frame_def frame_visual_contract_def
        read_only_decision_def frame_validate_def frame_fields_def frame_authority_def ensureE_def l)
qed

section \<open>Effects that are lost\<close>

text \<open>
  The matches of a purpose are cut at positions found before the first cut: after a second
  purpose the text behind it is cut instead, here the word that asks for an email.
\<close>

theorem second_purpose_cuts_effect:
  "rx_search ascii_unicode False email_action_rx ''to up fb to up fb email bob''
   \<and> foldl (cut_match ascii_unicode) (''to up fb to up fb email bob'', False, False)
       (rx_finditer ascii_unicode False (purpose_rxs ! 1) ''to up fb to up fb email bob'')
     = (''  to up f bob'', True, False)
   \<and> \<not> rx_search ascii_unicode False email_action_rx ''  to up f bob''"
proof -
  have "rx_search ascii_unicode False email_action_rx ''to up fb to up fb email bob''" by code_simp
  moreover have m: "rx_finditer ascii_unicode False (purpose_rxs ! 1) ''to up fb to up fb email bob''
    = [\<lparr>sp_from = 0, sp_to = 8, sp_caps = []\<rparr>, \<lparr>sp_from = 9, sp_to = 17, sp_caps = []\<rparr>]"
    unfolding purpose_rxs_def nth_Cons_Suc One_nat_def nth_Cons_0 by code_simp
  moreover have "foldl (cut_match ascii_unicode) (''to up fb to up fb email bob'', False, False)
    [\<lparr>sp_from = 0, sp_to = 8, sp_caps = []\<rparr>, \<lparr>sp_from = 9, sp_to = 17, sp_caps = []\<rparr>]
    = (''  to up f bob'', True, False)" by code_simp
  moreover have "\<not> rx_search ascii_unicode False email_action_rx ''  to up f bob''" by code_simp
  ultimately show ?thesis by simp
qed

text \<open>
  A marker that stands in one negated scope is passed over wherever else it stands: of a text that
  forbids one push and asks for another, no push is marked.
\<close>

theorem negation_hides_marker:
  "negated_scopes ascii_unicode ''no push but push'' = [''no push'']
   \<and> contains_phrase ''but push'' ''push''
   \<and> first_marker ascii_unicode [''no push''] ''no push but push''
       [(''push_git'', ''git push'', HighRisk), (''push_git'', ''push'', HighRisk)] = None
   \<and> {(''push_git'', ''git push'', HighRisk), (''push_git'', ''push'', HighRisk)} \<subseteq> set approval_effect_markers"
proof -
  have p: "plain ''no push but push''" by (rule plain_list) code_simp
  have d: "set (py_chars ''no push but push'') \<inter> {''d'', ''a'', ''i'', ''f'', ''e''} = {}"
    unfolding plain_chars [OF p] by simp
  have "list_all (needs_one [''d'', ''a'', ''i'', ''f'', ''e'']) fold_rxs" by code_simp
  from plain_fold [OF p _ this] d have "preserve_slashes ascii_unicode (fold_preserving_boundaries ascii_unicode ''no push but push'')
    = ''no push but push''" by simp
  then have "semantic_clauses ascii_unicode ''no push but push'' = [''no push'', ''push'']"
    unfolding semantic_clauses_def by (simp only:) code_simp
  moreover have "text_words ''no push'' = [''no'', ''push'']" "text_words ''push'' = [''push'']" by (rule words_of; code_simp)+
  then have "concat (map (\<lambda>c. scopes_of (text_words c)) [''no push'', ''push'']) = [''no push'']"
    by (simp add: is_negation_def contrast_tokens_def)
  ultimately have "negated_scopes ascii_unicode ''no push but push'' = [''no push'']"
    by (simp only: negated_scopes_words)
  moreover have "contains_phrase ''but push'' ''push''
   \<and> first_marker ascii_unicode [''no push''] ''no push but push''
       [(''push_git'', ''git push'', HighRisk), (''push_git'', ''push'', HighRisk)] = None" by code_simp
  moreover have "{(''push_git'', ''git push'', HighRisk), (''push_git'', ''push'', HighRisk)} \<subseteq> set approval_effect_markers"
    by (simp add: approval_effect_markers_def)
  ultimately show ?thesis by blast
qed

end
