(* ===== verification/ContextBuilder.thy ===== *)
theory ContextBuilder
  imports ContextRender "HOL-Library.Product_Lexorder"
begin

text \<open>
  \<open>ContextBuilder.build\<close> of \<open>app/context_builder\<close>: retrieval, relevance-first selection,
  the soft caps, and the loops that drop optional items until the rendered text fits the usable
  budget. The local variables are the record \<open>build\<close>. The changes that
  \<open>_select_candidates\<close> returns are recorded as they are made, in the order in which the
  caller records them.
\<close>

section \<open>Changes\<close>

definition block_tokens :: "context_builder \<Rightarrow> memory_hit \<Rightarrow> string \<Rightarrow> int" where
  "block_tokens B m body = bu_estimate B (render_memory_block B m body)"

definition dropped_memory :: "context_builder \<Rightarrow> memory_hit \<Rightarrow> string \<Rightarrow> item_change" where
  "dropped_memory B m reason =
     \<lparr>ic_section = SkMemory, ic_ref = ''memory:'' @ hm_id m, ic_reason = reason,
      ic_original = block_tokens B m (memory_body m), ic_final = 0\<rparr>"

definition dropped_text :: "context_builder \<Rightarrow> section_kind \<Rightarrow> string \<Rightarrow> string \<Rightarrow> string \<Rightarrow> item_change" where
  "dropped_text B k ref reason content =
     \<lparr>ic_section = k, ic_ref = ref, ic_reason = reason, ic_original = bu_estimate B content, ic_final = 0\<rparr>"

definition tally :: "item_change \<Rightarrow> (string \<times> int) list \<Rightarrow> (string \<times> int) list" where
  "tally c d = dict_set (ic_reason c)
     ((case map_of d (ic_reason c) of None \<Rightarrow> 0 | Some n \<Rightarrow> n) + ic_original c) d"

definition drop_item :: "item_change \<Rightarrow> build \<Rightarrow> build" where
  "drop_item c s = s\<lparr>bs_dropped := bs_dropped s @ [c], bs_by_reason := tally c (bs_by_reason s)\<rparr>"

definition mark :: "section_kind \<Rightarrow> build \<Rightarrow> build" where
  "mark k s = s\<lparr>bs_marked := k # bs_marked s\<rparr>"

definition truncate_item :: "section_kind \<Rightarrow> string \<Rightarrow> string \<Rightarrow> int \<Rightarrow> int \<Rightarrow> build \<Rightarrow> build" where
  "truncate_item k ref reason original final s =
     mark k (s\<lparr>bs_truncated := bs_truncated s @
       [\<lparr>ic_section = k, ic_ref = ref, ic_reason = reason, ic_original = original, ic_final = final\<rparr>]\<rparr>)"

text \<open>\<open>memories.pop()\<close>, recorded as dropped.\<close>

definition pop_memory :: "context_builder \<Rightarrow> string \<Rightarrow> build \<Rightarrow> build" where
  "pop_memory B reason s =
     drop_item (dropped_memory B (last (bs_memories s)) reason) (s\<lparr>bs_memories := butlast (bs_memories s)\<rparr>)"

definition drop_file :: "context_builder \<Rightarrow> string \<Rightarrow> string \<Rightarrow> build \<Rightarrow> build" where
  "drop_file B reason f s =
     drop_item (dropped_text B SkPersona (''persona-file:'' @ f) reason (persona_file (br_persona (bs_request s)) f))
       (s\<lparr>bs_files := remove1 f (bs_files s)\<rparr>)"

section \<open>The start of a build\<close>

fun unique_hits :: "context_builder \<Rightarrow> string list \<Rightarrow> memory_hit list \<Rightarrow> memory_hit list \<times> item_change list" where
  "unique_hits B seen [] = ([], [])"
| "unique_hits B seen (m # ms) =
     (if hm_id m \<in> set seen
      then (case unique_hits B seen ms of (us, cs) \<Rightarrow> (us, dropped_memory B m ''duplicate_memory'' # cs))
      else (case unique_hits B (hm_id m # seen) ms of (us, cs) \<Rightarrow> (m # us, cs)))"

definition prepare_memories :: "context_builder \<Rightarrow> memory_hit list \<Rightarrow> memory_hit list \<times> item_change list" where
  "prepare_memories B ms = unique_hits B [] (sort_key (\<lambda>m. (- hm_score m, hm_id m)) ms)"

definition start_build :: "context_builder \<Rightarrow> build_request \<Rightarrow> memory_hit list \<Rightarrow> build" where
  "start_build B r hits =
     (case prepare_memories B hits of (ms, cs) \<Rightarrow>
       \<lparr>bs_request = r, bs_memories = ms, bs_bodies = Map.empty, bs_files = pn_order (br_persona r),
        bs_project_history = (case br_project r of None \<Rightarrow> [] | Some p \<Rightarrow> enumerate 0 (pc_history p)),
        bs_task_history = (case br_task r of None \<Rightarrow> [] | Some t \<Rightarrow> enumerate 0 (tc_history t)),
        bs_dropped = cs, bs_truncated = [], bs_marked = [],
        bs_by_reason = fold tally cs []\<rparr>)"

definition candidate_tokens :: "context_builder \<Rightarrow> build \<Rightarrow> int" where
  "candidate_tokens B s =
     build_tokens B s + sum_list (map ic_original (filter (\<lambda>c. ic_final c = 0) (bs_dropped s)))"

section \<open>Selection\<close>

definition is_direct_conversational :: "build_request \<Rightarrow> bool" where
  "is_direct_conversational r \<longleftrightarrow>
     rd_route (br_route r) = RDirect \<and> cd_capability (br_capability r) = ConversationalResponse"

definition indexed :: "string \<Rightarrow> string list \<Rightarrow> (string \<times> string option) list" where
  "indexed label vs = map (\<lambda>(i, v). (label @ '':'' @ str_of_nat i, Some v)) (enumerate 0 vs)"

fun drop_facts :: "context_builder \<Rightarrow> section_kind \<Rightarrow> string \<Rightarrow> (string \<times> string option) list \<Rightarrow> build \<Rightarrow> build" where
  "drop_facts B k owner [] s = s"
| "drop_facts B k owner ((ref, v) # facts) s =
     drop_facts B k owner facts
       (if truthy v then drop_item (dropped_text B k (owner @ ref) ''direct_scope_compaction'' (bu_redact B (the v))) s
        else s)"

fun drop_history :: "context_builder \<Rightarrow> section_kind \<Rightarrow> string \<Rightarrow> (nat \<times> string) list \<Rightarrow> build \<Rightarrow> build" where
  "drop_history B k owner [] s = s"
| "drop_history B k owner ((i, v) # hs) s =
     drop_history B k owner hs
       (drop_item (dropped_text B k (owner @ '':history:'' @ str_of_nat i) ''low_relevance'' (''- '' @ v)) s)"

definition compact_project :: "context_builder \<Rightarrow> build \<Rightarrow> build" where
  "compact_project B s = (case br_project (bs_request s) of None \<Rightarrow> s
     | Some p \<Rightarrow>
         (drop_facts B SkProject ''project:''
            ([(''current_phase'', pc_phase p), (''status'', pc_status p)] @ indexed ''decision'' (pc_decisions p)) s)
         \<lparr>bs_request := (bs_request s)\<lparr>br_project :=
            Some (p\<lparr>pc_phase := None, pc_decisions := [], pc_status := None, pc_history := []\<rparr>)\<rparr>\<rparr>)"

definition compact_task :: "context_builder \<Rightarrow> build \<Rightarrow> build" where
  "compact_task B s = (case br_task (bs_request s) of None \<Rightarrow> s
     | Some t \<Rightarrow>
         (drop_facts B SkTask ''task:''
            ([(''status'', tc_status t), (''next_action'', tc_next_action t)]
             @ indexed ''acceptance_criterion'' (tc_criteria t) @ indexed ''blocker'' (tc_blockers t)) s)
         \<lparr>bs_request := (bs_request s)\<lparr>br_task :=
            Some (t\<lparr>tc_status := None, tc_criteria := [], tc_blockers := [], tc_next_action := None, tc_history := []\<rparr>)\<rparr>\<rparr>)"

definition compact_direct :: "context_builder \<Rightarrow> build \<Rightarrow> build" where
  "compact_direct B s =
     (if is_direct_conversational (bs_request s)
      then (let s1 = compact_task B (compact_project B s);
                s2 = (drop_history B SkProject ''project'' (bs_project_history s1) s1)\<lparr>bs_project_history := []\<rparr>
            in (drop_history B SkTask ''task'' (bs_task_history s2) s2)\<lparr>bs_task_history := []\<rparr>)
      else s)"

text \<open>Persona files: the critical ones first, the others dropped from the end over the soft cap.\<close>

definition file_stem :: "string \<Rightarrow> string" where
  "file_stem f = (if CHR ''.'' \<in> set f then rev (tl (dropWhile (\<lambda>c. c \<noteq> CHR ''.'') (rev f))) else f)"

definition critical_file :: "unicode \<Rightarrow> string \<Rightarrow> bool" where
  "critical_file U f \<longleftrightarrow> casefold U (file_stem f) \<in> set [''safety'', ''policy'', ''rules'', ''identity'']"

definition persona_tokens :: "context_builder \<Rightarrow> build \<Rightarrow> int" where
  "persona_tokens B s = bu_estimate B (render_persona B (br_persona (bs_request s)) (bs_files s))"

fun cap_files :: "context_builder \<Rightarrow> int \<Rightarrow> string list \<Rightarrow> build \<Rightarrow> build" where
  "cap_files B soft [] s = s"
| "cap_files B soft (f # fs) s =
     (if persona_tokens B s \<le> soft then s else cap_files B soft fs (drop_file B ''section_cap'' f s))"

definition select_files :: "context_builder \<Rightarrow> build \<Rightarrow> build" where
  "select_files B s =
     (let U = bu_unicode B; soft = bd_persona (br_budget (bs_request s));
          others = filter (\<lambda>f. \<not> critical_file U f) (bs_files s);
          s1 = s\<lparr>bs_files := filter (critical_file U) (bs_files s) @ others\<rparr>
      in if 0 < soft then cap_files B soft (rev others) s1 else s1)"

text \<open>Equal redacted texts are kept once, across sections.\<close>

fun dedupe_memories ::
  "context_builder \<Rightarrow> memory_hit list \<Rightarrow> string list \<times> build \<Rightarrow> memory_hit list \<times> string list \<times> build" where
  "dedupe_memories B [] st = ([], st)"
| "dedupe_memories B (m # ms) (seen, s) =
     (let redacted = bu_redact B (memory_body m) in
      if memory_body m = []
      then (case dedupe_memories B ms (seen, s) of (kept, st) \<Rightarrow> (m # kept, st))
      else if redacted \<in> set seen
      then dedupe_memories B ms (seen, drop_item (dropped_memory B m ''duplicate'') s)
      else (case dedupe_memories B ms (redacted # seen, s) of (kept, st) \<Rightarrow> (m # kept, st)))"

fun dedupe_indexed ::
  "context_builder \<Rightarrow> section_kind \<Rightarrow> string \<Rightarrow> (nat \<times> string) list \<Rightarrow> string list \<times> build
   \<Rightarrow> (nat \<times> string) list \<times> string list \<times> build" where
  "dedupe_indexed B k ref [] st = ([], st)"
| "dedupe_indexed B k ref ((i, v) # vs) (seen, s) =
     (let redacted = bu_redact B v in
      if redacted \<in> set seen
      then dedupe_indexed B k ref vs
             (seen, drop_item (dropped_text B k (ref @ '':'' @ str_of_nat i) ''duplicate'' redacted) s)
      else (case dedupe_indexed B k ref vs (redacted # seen, s) of (kept, st) \<Rightarrow> ((i, v) # kept, st)))"

definition dedupe_tuple ::
  "context_builder \<Rightarrow> section_kind \<Rightarrow> string \<Rightarrow> string list \<Rightarrow> string list \<times> build \<Rightarrow> string list \<times> string list \<times> build" where
  "dedupe_tuple B k ref vs st =
     (case dedupe_indexed B k ref (enumerate 0 vs) st of (kept, st') \<Rightarrow> (map snd kept, st'))"

definition dedupe_optional ::
  "context_builder \<Rightarrow> section_kind \<Rightarrow> string \<Rightarrow> string option \<Rightarrow> string list \<times> build
   \<Rightarrow> string option \<times> string list \<times> build" where
  "dedupe_optional B k ref v st = (case st of (seen, s) \<Rightarrow>
     if \<not> truthy v then (v, seen, s)
     else (let redacted = bu_redact B (the v) in
       if redacted \<in> set seen then (None, seen, drop_item (dropped_text B k ref ''duplicate'' redacted) s)
       else (v, redacted # seen, s)))"

definition dedupe_project :: "context_builder \<Rightarrow> string list \<times> build \<Rightarrow> string list \<times> build" where
  "dedupe_project B st = (case br_project (bs_request (snd st)) of None \<Rightarrow> st
     | Some p \<Rightarrow>
       (case dedupe_indexed B SkProject ''project:history'' (bs_project_history (snd st)) st of (history, st1) \<Rightarrow>
        case dedupe_optional B SkProject ''project:goal'' (pc_goal p) st1 of (goal, st2) \<Rightarrow>
        case dedupe_optional B SkProject ''project:current_phase'' (pc_phase p) st2 of (phase, st3) \<Rightarrow>
        case dedupe_tuple B SkProject ''project:architecture_constraint'' (pc_constraints p) st3 of (constraints, st4) \<Rightarrow>
        case dedupe_tuple B SkProject ''project:decision'' (pc_decisions p) st4 of (decisions, st5) \<Rightarrow>
        case dedupe_optional B SkProject ''project:status'' (pc_status p) st5 of (status, seen, s) \<Rightarrow>
          (seen, s\<lparr>bs_project_history := history, bs_request := (bs_request s)\<lparr>br_project :=
             Some (p\<lparr>pc_goal := goal, pc_phase := phase, pc_constraints := constraints, pc_decisions := decisions,
                     pc_status := status, pc_history := map snd history\<rparr>)\<rparr>\<rparr>)))"

definition dedupe_task :: "context_builder \<Rightarrow> string list \<times> build \<Rightarrow> string list \<times> build" where
  "dedupe_task B st = (case br_task (bs_request (snd st)) of None \<Rightarrow> st
     | Some t \<Rightarrow>
       (case dedupe_indexed B SkTask ''task:history'' (bs_task_history (snd st)) st of (history, st1) \<Rightarrow>
        case dedupe_optional B SkTask ''task:status'' (tc_status t) st1 of (status, st2) \<Rightarrow>
        case dedupe_tuple B SkTask ''task:constraint'' (tc_constraints t) st2 of (constraints, st3) \<Rightarrow>
        case dedupe_tuple B SkTask ''task:acceptance_criterion'' (tc_criteria t) st3 of (criteria, st4) \<Rightarrow>
        case dedupe_tuple B SkTask ''task:blocker'' (tc_blockers t) st4 of (blockers, st5) \<Rightarrow>
        case dedupe_optional B SkTask ''task:next_action'' (tc_next_action t) st5 of (next_action, seen, s) \<Rightarrow>
          (seen, s\<lparr>bs_task_history := history, bs_request := (bs_request s)\<lparr>br_task :=
             Some (t\<lparr>tc_status := status, tc_constraints := constraints, tc_criteria := criteria,
                     tc_blockers := blockers, tc_next_action := next_action, tc_history := map snd history\<rparr>)\<rparr>\<rparr>)))"

definition select_unique :: "context_builder \<Rightarrow> build \<Rightarrow> build" where
  "select_unique B s =
     (case dedupe_memories B (bs_memories s) ([], s) of (kept, seen, s1) \<Rightarrow>
       snd (dedupe_task B (dedupe_project B (seen, s1\<lparr>bs_memories := kept\<rparr>))))"

text \<open>Memories by relevance, scope, recency and importance; the last ones dropped over the soft cap.\<close>

definition memory_rank :: "string option \<Rightarrow> memory_hit \<Rightarrow> rat \<times> rat \<times> rat \<times> rat \<times> string" where
  "memory_rank scope m =
     (- hm_score m, - (if scope = Some (hm_scope m) then 1 else 0), - hm_recency m, - hm_importance m, hm_id m)"

definition memories_tokens :: "context_builder \<Rightarrow> build \<Rightarrow> int" where
  "memories_tokens B s = sum_list (map (\<lambda>m. block_tokens B m (memory_body m)) (bs_memories s))"

lemma pop_memory_shorter: "1 < length (bs_memories s) \<Longrightarrow> length (bs_memories (pop_memory B reason s)) < length (bs_memories s)"
  by (cases "bs_memories s") (auto simp: pop_memory_def drop_item_def)

function cap_memories :: "context_builder \<Rightarrow> int \<Rightarrow> build \<Rightarrow> build" where
  "cap_memories B soft s =
     (if soft < memories_tokens B s \<and> 1 < length (bs_memories s) then cap_memories B soft (pop_memory B ''low_relevance'' s)
      else s)"
  by pat_completeness auto
termination
  by (relation "measure (\<lambda>(B, soft, s). length (bs_memories s))") (auto simp: pop_memory_shorter)

declare cap_memories.simps [simp del]

definition rank_memories :: "context_builder \<Rightarrow> build \<Rightarrow> build" where
  "rank_memories B s =
     (let r = bs_request s; s1 = s\<lparr>bs_memories := sort_key (memory_rank (br_scope r)) (bs_memories s)\<rparr>;
          soft = bd_memory (br_budget r)
      in if 0 < soft \<and> 1 < length (bs_memories s1) then cap_memories B soft s1 else s1)"

definition select_candidates :: "context_builder \<Rightarrow> build \<Rightarrow> build" where
  "select_candidates B s = rank_memories B (select_unique B (select_files B (compact_direct B s)))"

section \<open>Soft caps\<close>

text \<open>The binary search for the longest prefix that passes a test.\<close>

function bisect :: "(int \<Rightarrow> bool) \<Rightarrow> int \<Rightarrow> int \<Rightarrow> int option \<Rightarrow> int option" where
  "bisect ok low high best =
     (if low \<le> high
      then (let mid = (low + high) div 2 in
            if ok mid then bisect ok (mid + 1) high (Some mid) else bisect ok low (mid - 1) best)
      else best)"
  by pat_completeness auto
termination
  by (relation "measure (\<lambda>(ok, low, high, best). nat (high - low + 1))") auto

declare bisect.simps [simp del]

definition soften_memory :: "context_builder \<Rightarrow> build \<Rightarrow> build" where
  "soften_memory B s =
     (let soft = bd_memory (br_budget (bs_request s)); m = hd (bs_memories s); body = memory_body m in
      if 0 < soft \<and> bs_memories s \<noteq> [] \<and> soft < memories_tokens B s
      then (case bisect (\<lambda>k. block_tokens B m (truncated_text body k) \<le> soft) 0 (int (py_len body)) None of
          None \<Rightarrow> pop_memory B ''memory_soft_cap'' s
        | Some k \<Rightarrow>
            truncate_item SkMemory (''memory:'' @ hm_id m) ''memory_soft_cap'' (block_tokens B m body)
              (block_tokens B m (truncated_text body k))
              (s\<lparr>bs_bodies := (bs_bodies s)(hm_id m \<mapsto> truncated_text body k)\<rparr>))
      else s)"

definition with_file :: "string \<Rightarrow> string \<Rightarrow> build \<Rightarrow> build" where
  "with_file f content s =
     (let r = bs_request s; p = br_persona r in
      s\<lparr>bs_request := r\<lparr>br_persona := p\<lparr>pn_files := dict_set f content (pn_files p)\<rparr>\<rparr>\<rparr>)"

fun soften_files :: "context_builder \<Rightarrow> int \<Rightarrow> string list \<Rightarrow> build \<Rightarrow> build" where
  "soften_files B soft [] s = s"
| "soften_files B soft (f # fs) s =
     (let original = persona_file (br_persona (bs_request s)) f in
      if persona_tokens B s \<le> soft then s
      else if original = [] then soften_files B soft fs s
      else (case bisect (\<lambda>k. persona_tokens B (with_file f (truncated_text original k) s) \<le> soft) 0
                   (int (py_len original)) None of
          None \<Rightarrow> soften_files B soft fs s
        | Some k \<Rightarrow> soften_files B soft fs
            (truncate_item SkPersona (''persona-file:'' @ f) ''persona_soft_cap'' (bu_estimate B original)
               (bu_estimate B (truncated_text original k)) (with_file f (truncated_text original k) s))))"

definition soften_persona :: "context_builder \<Rightarrow> build \<Rightarrow> build" where
  "soften_persona B s =
     (let soft = bd_persona (br_budget (bs_request s)) in
      if 0 < soft \<and> soft < persona_tokens B s then soften_files B soft (rev (bs_files s)) s else s)"

definition select :: "context_builder \<Rightarrow> build \<Rightarrow> build" where
  "select B s =
     (if bd_selection (br_budget (bs_request s)) then soften_persona B (soften_memory B (select_candidates B s))
      else s)"

section \<open>The hard budget\<close>

definition fits :: "context_builder \<Rightarrow> build \<Rightarrow> bool" where
  "fits B s \<longleftrightarrow> build_tokens B s \<le> usable_tokens (br_budget (bs_request s))"

function trim_memories :: "context_builder \<Rightarrow> build \<Rightarrow> build" where
  "trim_memories B s =
     (if \<not> fits B s \<and> 1 < length (bs_memories s) then trim_memories B (mark SkMemory (pop_memory B ''memory_budget'' s))
      else s)"
  by pat_completeness auto
termination
  by (relation "measure (\<lambda>(B, s). length (bs_memories s))") (auto simp: mark_def pop_memory_shorter)

declare trim_memories.simps [simp del]

definition trim_body :: "context_builder \<Rightarrow> build \<Rightarrow> build" where
  "trim_body B s =
     (let m = hd (bs_memories s); body = memory_body m;
          shown = (\<lambda>k. s\<lparr>bs_bodies := (bs_bodies s)(hm_id m \<mapsto> truncated_text body k)\<rparr>) in
      if \<not> fits B s \<and> bs_memories s \<noteq> []
      then (case bisect (\<lambda>k. fits B (shown k)) 0 (max (int (py_len body) - 1) 0) None of
          None \<Rightarrow> mark SkMemory (pop_memory B ''memory_budget'' (s\<lparr>bs_bodies := (bs_bodies s)(hm_id m := None)\<rparr>))
        | Some k \<Rightarrow> truncate_item SkMemory (''memory:'' @ hm_id m) ''memory_body_budget'' (block_tokens B m body)
            (block_tokens B m (truncated_text body k)) (shown k))
      else s)"

function trim_project :: "context_builder \<Rightarrow> build \<Rightarrow> build" where
  "trim_project B s =
     (if fits B s then s
      else (case bs_project_history s of [] \<Rightarrow> s
        | (i, v) # rest \<Rightarrow> trim_project B (mark SkProject
            (drop_item (dropped_text B SkProject (''project:history:'' @ str_of_nat i) ''project_history_budget''
               (''- '' @ v)) (s\<lparr>bs_project_history := rest\<rparr>)))))"
  by pat_completeness auto
termination
  by (relation "measure (\<lambda>(B, s). length (bs_project_history s))") (auto simp: mark_def drop_item_def)

declare trim_project.simps [simp del]

function trim_task :: "context_builder \<Rightarrow> build \<Rightarrow> build" where
  "trim_task B s =
     (if fits B s then s
      else (case bs_task_history s of [] \<Rightarrow> s
        | (i, v) # rest \<Rightarrow> trim_task B (mark SkTask
            (drop_item (dropped_text B SkTask (''task:history:'' @ str_of_nat i) ''task_history_budget''
               (''- '' @ v)) (s\<lparr>bs_task_history := rest\<rparr>)))))"
  by pat_completeness auto
termination
  by (relation "measure (\<lambda>(B, s). length (bs_task_history s))") (auto simp: mark_def drop_item_def)

declare trim_task.simps [simp del]

fun trim_examples :: "context_builder \<Rightarrow> string list \<Rightarrow> build \<Rightarrow> build" where
  "trim_examples B [] s = s"
| "trim_examples B (f # fs) s =
     (if fits B s then s else trim_examples B fs (mark SkPersona (drop_file B ''persona_example_budget'' f s)))"

definition example_files :: "context_builder \<Rightarrow> build \<Rightarrow> string list" where
  "example_files B s = filter (\<lambda>f. py_in ''example'' (casefold (bu_unicode B) f)) (bs_files s)"

definition trim :: "context_builder \<Rightarrow> build \<Rightarrow> build" where
  "trim B s0 = (let s = trim_task B (trim_project B (trim_body B (trim_memories B s0))) in
     trim_examples B (rev (example_files B s)) s)"

section \<open>The bundle\<close>

definition package_of :: "context_builder \<Rightarrow> string list \<Rightarrow> int \<Rightarrow> build \<Rightarrow> context_package" where
  "package_of B warnings candidate s =
     (let sections = assembled B s; tokens = build_tokens B s in
      \<lparr>bn_sections = sections, bn_rendered = rendered B s, bn_budget = br_budget (bs_request s), bn_tokens = tokens,
       bn_remaining = usable_tokens (br_budget (bs_request s)) - tokens,
       bn_dropped = bs_dropped s, bn_truncated = bs_truncated s, bn_warnings = warnings,
       bn_provenance = map (\<lambda>x. (cs_kind x, cs_refs x)) sections,
       bn_candidate = candidate, bn_dropped_tokens = sum_list (map ic_original (bs_dropped s)),
       bn_reduction = (if 0 < candidate then of_int (candidate - tokens) / of_int candidate else 0),
       bn_by_section = map (\<lambda>x. (cs_kind x, cs_tokens x)) sections, bn_by_reason = bs_by_reason s\<rparr>)"

definition build_from :: "context_builder \<Rightarrow> build_request \<Rightarrow> string list \<Rightarrow> memory_hit list \<Rightarrow> context_package res" where
  "build_from B r warnings hits =
     (let s0 = start_build B r hits; s = trim B (select B s0); out = package_of B warnings (candidate_tokens B s0) s in
      if \<not> fits B s then Inl (ContextBudgetExceeded (build_tokens B s) (usable_tokens (br_budget (bs_request s))))
      else bindE (package_validate out) (\<lambda>_. Inr out))"

definition build_impl :: "context_builder \<Rightarrow> build_request \<Rightarrow> context_package res" where
  "build_impl B r = (case bu_retrieve B (retrieval_query B r) (br_scope r) (bu_limit B) of
       Found hits \<Rightarrow> build_from B r [] hits
     | Unavailable name \<Rightarrow> build_from B r [''memory_retrieval_failed: '' @ name] []
     | Broken e \<Rightarrow> Inl e)"

text \<open>The public builder: source references are redacted.\<close>

definition sanitize_change :: "context_builder \<Rightarrow> item_change \<Rightarrow> item_change" where
  "sanitize_change B c = c\<lparr>ic_ref := bu_redact B (ic_ref c)\<rparr>"

definition sanitize_section :: "context_builder \<Rightarrow> bool \<Rightarrow> context_section \<Rightarrow> context_section" where
  "sanitize_section B truncated_memory x =
     x\<lparr>cs_refs := map (bu_redact B) (cs_refs x),
       cs_truncated := (if cs_kind x = SkMemory \<and> cs_content x = ''none'' \<and> \<not> truncated_memory then False
                        else cs_truncated x)\<rparr>"

definition context_build :: "context_builder \<Rightarrow> build_request \<Rightarrow> context_package res" where
  "context_build B r =
     bindE (build_impl B r) (\<lambda>b.
       let truncated = map (sanitize_change B) (bn_truncated b);
           sections = map (sanitize_section B (list_ex (\<lambda>c. ic_section c = SkMemory) truncated)) (bn_sections b)
       in Inr (b\<lparr>bn_sections := sections, bn_dropped := map (sanitize_change B) (bn_dropped b),
                bn_truncated := truncated, bn_provenance := map (\<lambda>x. (cs_kind x, cs_refs x)) sections\<rparr>))"

section \<open>The builder in the pipeline\<close>

text \<open>What \<open>prepare\<close> gives the builder, with the default budget, and what it reads of the bundle.\<close>

definition project_context_of :: "project_snapshot \<Rightarrow> project_context" where
  "project_context_of p = \<lparr>pc_identity = ss_project p, pc_goal = ss_goal p, pc_phase = ss_phase p,
     pc_constraints = ss_constraints p, pc_decisions = [], pc_status = Some (ss_status p), pc_history = []\<rparr>"

definition task_context_of :: "task_snapshot \<Rightarrow> task_context" where
  "task_context_of t = \<lparr>tc_identity = sk_task t, tc_goal = sk_goal t, tc_status = Some (sk_status t), tc_constraints = [],
     tc_criteria = [], tc_blockers = sk_blockers t, tc_next_action = sk_next_action t, tc_history = sk_history t\<rparr>"

definition build_request_of :: "persona \<Rightarrow> context_request \<Rightarrow> build_request res" where
  "build_request_of p x =
     bindE (ensureE (py_strip (xq_text x) \<noteq> [] \<and> opt_max 13000 (xq_referent x)
        \<and> (case xq_project x of None \<Rightarrow> True | Some y \<Rightarrow> ss_project y \<noteq> [])
        \<and> (case xq_task x of None \<Rightarrow> True | Some y \<Rightarrow> sk_task y \<noteq> [] \<and> sk_goal y \<noteq> [])
        \<and> (case xq_policy x of None \<Rightarrow> True | Some y \<Rightarrow> sized 128 (sy_rule y) \<and> sized 2000 (sy_reason y)))
        ValidationError) (\<lambda>_.
      Inr \<lparr>br_text = py_strip (xq_text x), br_referent = xq_referent x, br_persona = p, br_route = xq_route x,
        br_capability = xq_capability x, br_project = map_option project_context_of (xq_project x),
        br_task = map_option task_context_of (xq_task x), br_policy = xq_policy x, br_budget = default_context_budget,
        br_scope = xq_memory_scope x\<rparr>)"

definition pipeline_context :: "context_builder \<Rightarrow> persona \<Rightarrow> context_request \<Rightarrow> context_bundle res" where
  "pipeline_context B p x =
     bindE (build_request_of p x) (\<lambda>r. bindE (context_build B r) (\<lambda>b.
       Inr \<lparr>cb_warnings = bn_warnings b, cb_source_refs = concat (map snd (bn_provenance b)), cb_tokens = bn_tokens b\<rparr>))"

end
