(* ===== verification/ContextProperties.thy ===== *)
theory ContextProperties
  imports ContextBuilder "HOL-Library.Multiset"
begin

text \<open>
  What a built context guarantees: it fits the budget and keeps what is required, every item that
  is left out is accounted for, and a build is refused for three reasons only. Each step of a build refines one relation, \<open>accounts\<close>: the required part of the
  request stays, and what leaves the context is recorded.
\<close>

named_theorems acc "steps of a build that account for what they drop"

section \<open>What is accounted for\<close>

text \<open>The part of a request that no step of a build changes.\<close>

definition project_core :: "project_context \<Rightarrow> project_context" where
  "project_core p = p\<lparr>pc_goal := None, pc_phase := None, pc_constraints := [], pc_decisions := [], pc_status := None,
     pc_history := []\<rparr>"

definition task_core :: "task_context \<Rightarrow> task_context" where
  "task_core t = t\<lparr>tc_status := None, tc_constraints := [], tc_criteria := [], tc_blockers := [],
     tc_next_action := None, tc_history := []\<rparr>"

definition core :: "build_request \<Rightarrow> build_request" where
  "core r = r\<lparr>br_persona := (br_persona r)\<lparr>pn_files := []\<rparr>, br_project := map_option project_core (br_project r),
     br_task := map_option task_core (br_task r)\<rparr>"

definition memory_ref :: "memory_hit \<Rightarrow> string" where
  "memory_ref m = ''memory:'' @ hm_id m"

definition file_ref :: "string \<Rightarrow> string" where
  "file_ref f = ''persona-file:'' @ f"

definition drops :: "section_kind \<Rightarrow> item_change list \<Rightarrow> string multiset" where
  "drops k cs = mset (map ic_ref (filter (\<lambda>c. ic_section c = k) cs))"

text \<open>Everything there is: what the context has and what was dropped from it.\<close>

definition all_memories :: "build \<Rightarrow> string multiset" where
  "all_memories s = mset (map memory_ref (bs_memories s)) + drops SkMemory (bs_dropped s)"

definition all_files :: "build \<Rightarrow> string multiset" where
  "all_files s = mset (map file_ref (bs_files s)) + drops SkPersona (bs_dropped s)"

text \<open>The tally of a list of changes.\<close>

definition tallied :: "item_change list \<Rightarrow> (string \<times> int) list \<Rightarrow> bool" where
  "tallied cs d \<longleftrightarrow> distinct (map fst d)
     \<and> (\<forall>x. (case map_of d x of None \<Rightarrow> 0 | Some n \<Rightarrow> n)
          = sum_list (map ic_original (filter (\<lambda>c. ic_reason c = x) cs)))
     \<and> sum_list (map snd d) = sum_list (map ic_original cs)"

text \<open>What a change says was lost is an estimate of the builder.\<close>

definition measured :: "context_builder \<Rightarrow> item_change list \<Rightarrow> bool" where
  "measured B cs \<longleftrightarrow> (\<forall>c\<in>set cs. ic_original c \<in> range (bu_estimate B))"

lemma measured_simps [simp]:
  "measured B []" "measured B (c # cs) \<longleftrightarrow> ic_original c \<in> range (bu_estimate B) \<and> measured B cs"
  "measured B (cs @ ds) \<longleftrightarrow> measured B cs \<and> measured B ds"
  by (auto simp: measured_def)

lemma measured_changes [simp]:
  "ic_original (dropped_memory B m x) \<in> range (bu_estimate B)" "ic_original (dropped_text B k r x t) \<in> range (bu_estimate B)"
  by (simp_all add: dropped_memory_def dropped_text_def block_tokens_def)

definition accounts :: "context_builder \<Rightarrow> build \<Rightarrow> build \<Rightarrow> bool" where
  "accounts B s s' \<longleftrightarrow> core (bs_request s') = core (bs_request s) \<and> all_memories s' = all_memories s
     \<and> all_files s' = all_files s
     \<and> (tallied (bs_dropped s) (bs_by_reason s) \<longrightarrow> tallied (bs_dropped s') (bs_by_reason s'))
     \<and> (measured B (bs_dropped s) \<longrightarrow> measured B (bs_dropped s'))"

lemma accounts_refl [acc]: "accounts B s s"
  by (simp add: accounts_def)

lemma accounts_trans: "accounts B s t \<Longrightarrow> accounts B t u \<Longrightarrow> accounts B s u"
  by (simp add: accounts_def)

section \<open>Tallies\<close>

lemma sum_dict_set:
  "distinct (map fst d) \<Longrightarrow>
   sum_list (map snd (dict_set k v d)) = sum_list (map snd d) - (case map_of d k of None \<Rightarrow> 0 | Some n \<Rightarrow> n) + (v::int)"
proof (induction d)
  case (Cons x d)
  then show ?case by (cases x) simp
qed simp

lemma keys_dict_set: "distinct (map fst d) \<Longrightarrow> distinct (map fst (dict_set k v d))"
proof -
  have keys: "fst ` set (dict_set k v d) = insert k (fst ` set d)" for d :: "(string \<times> 'a) list"
    by (simp add: dom_map_of_conv_image_fst [symmetric])
  show "distinct (map fst d) \<Longrightarrow> distinct (map fst (dict_set k v d))"
  proof (induction d)
    case (Cons x d)
    then show ?case using keys [of d] by (cases x) auto
  qed simp
qed

lemma tallied_tally: "tallied cs d \<Longrightarrow> tallied (cs @ [c]) (tally c d)"
  unfolding tallied_def tally_def by (auto simp: keys_dict_set sum_dict_set split: option.splits)

lemma tallied_fold: "tallied cs d \<Longrightarrow> tallied (cs @ xs) (fold tally xs d)"
proof (induction xs arbitrary: cs d)
  case (Cons x xs)
  from Cons.IH [OF tallied_tally [OF Cons.prems, of x]] show ?case by simp
qed simp

section \<open>Steps\<close>

lemma drops_simps [simp]:
  "drops k [] = {#}" "drops k (cs @ ds) = drops k cs + drops k ds"
  "drops k [c] = (if ic_section c = k then {#ic_ref c#} else {#})"
  by (simp_all add: drops_def)

lemma change_simps [simp]:
  "ic_section (dropped_memory B m x) = SkMemory" "ic_ref (dropped_memory B m x) = memory_ref m"
  "ic_section (dropped_text B k r x t) = k" "ic_ref (dropped_text B k r x t) = r"
  by (simp_all add: dropped_memory_def dropped_text_def memory_ref_def)

lemma drop_simps [simp]:
  "bs_request (drop_item c s) = bs_request s" "bs_memories (drop_item c s) = bs_memories s"
  "bs_files (drop_item c s) = bs_files s" "bs_dropped (drop_item c s) = bs_dropped s @ [c]"
  "bs_by_reason (drop_item c s) = tally c (bs_by_reason s)" "bs_bodies (drop_item c s) = bs_bodies s"
  "bs_project_history (drop_item c s) = bs_project_history s" "bs_task_history (drop_item c s) = bs_task_history s"
  by (simp_all add: drop_item_def)

lemma mark_simps [simp]:
  "bs_request (mark k s) = bs_request s" "bs_memories (mark k s) = bs_memories s"
  "bs_files (mark k s) = bs_files s" "bs_dropped (mark k s) = bs_dropped s"
  "bs_by_reason (mark k s) = bs_by_reason s" "bs_bodies (mark k s) = bs_bodies s"
  "bs_project_history (mark k s) = bs_project_history s" "bs_task_history (mark k s) = bs_task_history s"
  by (simp_all add: mark_def)

lemma truncate_simps [simp]:
  "bs_request (truncate_item k r x a b s) = bs_request s" "bs_memories (truncate_item k r x a b s) = bs_memories s"
  "bs_files (truncate_item k r x a b s) = bs_files s" "bs_dropped (truncate_item k r x a b s) = bs_dropped s"
  "bs_by_reason (truncate_item k r x a b s) = bs_by_reason s" "bs_bodies (truncate_item k r x a b s) = bs_bodies s"
  "bs_project_history (truncate_item k r x a b s) = bs_project_history s"
  "bs_task_history (truncate_item k r x a b s) = bs_task_history s"
  by (simp_all add: truncate_item_def)

text \<open>A step that changes nothing counted, and one that records a dropped fact.\<close>

lemma accounts_same:
  "bs_request s' = bs_request s \<Longrightarrow> bs_memories s' = bs_memories s \<Longrightarrow> bs_files s' = bs_files s \<Longrightarrow>
   bs_dropped s' = bs_dropped s \<Longrightarrow> bs_by_reason s' = bs_by_reason s \<Longrightarrow> accounts B s s'"
  by (simp add: accounts_def all_memories_def all_files_def)

lemma accounts_fact:
  "k \<notin> {SkMemory, SkPersona} \<Longrightarrow> accounts B s (drop_item (dropped_text B k r x t) s)"
  by (auto simp: accounts_def all_memories_def all_files_def tallied_tally)

lemma accounts_pop: "bs_memories s \<noteq> [] \<Longrightarrow> accounts B s (pop_memory B x s)"
  by (cases "bs_memories s" rule: rev_cases)
    (auto simp: accounts_def all_memories_def all_files_def pop_memory_def tallied_tally)

lemma accounts_drop_file: "f \<in> set (bs_files s) \<Longrightarrow> accounts B s (drop_file B x f s)"
proof -
  assume f: "f \<in> set (bs_files s)"
  then have "mset (bs_files s) = mset (remove1 f (bs_files s)) + {#f#}" by (simp add: insert_DiffM2)
  then have "mset (map file_ref (bs_files s)) = mset (map file_ref (remove1 f (bs_files s))) + {#file_ref f#}"
    by (metis image_mset_single image_mset_union mset_map)
  then show ?thesis
    by (simp add: accounts_def all_memories_def all_files_def drop_file_def tallied_tally file_ref_def)
qed

section \<open>Selection accounts\<close>

lemma drop_facts_accounts: "k \<notin> {SkMemory, SkPersona} \<Longrightarrow> accounts B s (drop_facts B k w facts s)"
  by (induction B k w facts s rule: drop_facts.induct)
    (auto simp: accounts_refl intro: accounts_trans accounts_fact)

lemma drop_history_accounts: "k \<notin> {SkMemory, SkPersona} \<Longrightarrow> accounts B s (drop_history B k w hs s)"
  by (induction B k w hs s rule: drop_history.induct)
    (auto simp: accounts_refl intro: accounts_trans accounts_fact)

lemma drop_facts_request [simp]: "bs_request (drop_facts B k w facts s) = bs_request s"
  by (induction B k w facts s rule: drop_facts.induct) auto

lemma drop_history_request [simp]: "bs_request (drop_history B k w hs s) = bs_request s"
  by (induction B k w hs s rule: drop_history.induct) auto

lemma accounts_request:
  "core r = core (bs_request s) \<Longrightarrow> accounts B s t \<Longrightarrow> accounts B s (t\<lparr>bs_request := r\<rparr>)"
  by (simp add: accounts_def all_memories_def all_files_def)

lemma accounts_history:
  "accounts B s t \<Longrightarrow> accounts B s (t\<lparr>bs_project_history := h\<rparr>)" "accounts B s t \<Longrightarrow> accounts B s (t\<lparr>bs_task_history := h\<rparr>)"
  by (simp_all add: accounts_def all_memories_def all_files_def)

lemma compact_project_accounts: "accounts B s (compact_project B s)"
proof (cases "br_project (bs_request s)")
  case (Some p)
  show ?thesis
    unfolding compact_project_def Some option.case
    by (rule accounts_request, simp add: core_def project_core_def Some) (rule drop_facts_accounts, simp)
qed (simp add: compact_project_def accounts_refl)

lemma compact_task_accounts: "accounts B s (compact_task B s)"
proof (cases "br_task (bs_request s)")
  case (Some t)
  show ?thesis
    unfolding compact_task_def Some option.case
    by (rule accounts_request, simp add: core_def task_core_def Some) (rule drop_facts_accounts, simp)
qed (simp add: compact_task_def accounts_refl)

lemma compact_direct_accounts: "accounts B s (compact_direct B s)"
proof (cases "is_direct_conversational (bs_request s)")
  case True
  have k: "SkProject \<notin> {SkMemory, SkPersona}" "SkTask \<notin> {SkMemory, SkPersona}" by simp_all
  note first = accounts_trans [OF compact_project_accounts compact_task_accounts]
  note second = accounts_history(1) [OF accounts_trans [OF first drop_history_accounts [OF k(1)]]]
  show ?thesis
    unfolding compact_direct_def Let_def if_P [OF True]
    by (rule accounts_history(2) [OF accounts_trans [OF second drop_history_accounts [OF k(2)]]])
qed (simp add: compact_direct_def accounts_refl)

lemma cap_files_accounts:
  "mset fs \<subseteq># mset (bs_files s) \<Longrightarrow> accounts B s (cap_files B soft fs s)"
proof (induction B soft fs s rule: cap_files.induct)
  case (2 B soft f fs s)
  then have f: "f \<in> set (bs_files s)" by (simp add: insert_subset_eq_iff)
  have "mset fs \<subseteq># mset (bs_files (drop_file B ''section_cap'' f s))"
    using 2(2) by (simp add: drop_file_def insert_subset_eq_iff)
  with 2(1) accounts_drop_file [OF f] show ?case by (auto simp: accounts_refl intro: accounts_trans)
qed (simp add: accounts_refl)

lemma mset_split: "mset (map f (filter P xs)) + mset (map f (filter (\<lambda>x. \<not> P x) xs)) = mset (map f xs)"
  by (induction xs) auto

lemma select_files_accounts: "accounts B s (select_files B s)"
proof -
  let ?P = "critical_file (bu_unicode B)"
  let ?s = "s\<lparr>bs_files := filter ?P (bs_files s) @ filter (\<lambda>f. \<not> ?P f) (bs_files s)\<rparr>"
  have "mset (map file_ref (bs_files ?s)) = mset (map file_ref (bs_files s))"
    using mset_split [of file_ref ?P "bs_files s"] by simp
  then have s: "accounts B s ?s" by (simp add: accounts_def all_memories_def all_files_def)
  have "accounts B ?s (cap_files B soft (rev (filter (\<lambda>f. \<not> ?P f) (bs_files s))) ?s)" for soft
    by (rule cap_files_accounts) simp
  with s show ?thesis unfolding select_files_def Let_def by (auto intro: accounts_trans)
qed

text \<open>A step of the deduplication leaves the request alone as well.\<close>

definition dedupes :: "context_builder \<Rightarrow> string list \<times> build \<Rightarrow> string list \<times> build \<Rightarrow> bool" where
  "dedupes B st st' \<longleftrightarrow> accounts B (snd st) (snd st') \<and> bs_request (snd st') = bs_request (snd st)"

lemma dedupes_trans: "dedupes B st st' \<Longrightarrow> dedupes B st' st'' \<Longrightarrow> dedupes B st st''"
  by (auto simp: dedupes_def intro: accounts_trans)

lemma dedupes_fact: "k \<notin> {SkMemory, SkPersona} \<Longrightarrow> dedupes B (seen, s) (seen', drop_item (dropped_text B k r x t) s)"
  by (simp add: dedupes_def accounts_fact)

lemma dedupe_indexed_dedupes: "k \<notin> {SkMemory, SkPersona} \<Longrightarrow> dedupes B st (snd (dedupe_indexed B k ref vs st))"
proof (induction vs arbitrary: st)
  case Nil
  then show ?case by (simp add: dedupes_def accounts_refl)
next
  case (Cons iv vs)
  obtain i v seen s where x: "iv = (i, v)" "st = (seen, s)" by (cases iv; cases st) auto
  note IH = Cons.IH [OF Cons.prems]
  show ?case
  proof (cases "bu_redact B v \<in> set seen")
    case True
    then show ?thesis using dedupes_trans [OF dedupes_fact [OF Cons.prems] IH] by (simp add: x Let_def)
  next
    case False
    then show ?thesis using IH [of "(bu_redact B v # seen, s)"]
      by (cases "dedupe_indexed B k ref vs (bu_redact B v # seen, s)") (simp add: x Let_def dedupes_def)
  qed
qed

lemma dedupe_tuple_dedupes: "k \<notin> {SkMemory, SkPersona} \<Longrightarrow> dedupes B st (snd (dedupe_tuple B k ref vs st))"
  using dedupe_indexed_dedupes [where k = k and st = st and B = B and ref = ref and vs = "enumerate 0 vs"] by (auto simp: dedupe_tuple_def split: prod.splits)

lemma dedupe_optional_dedupes: "k \<notin> {SkMemory, SkPersona} \<Longrightarrow> dedupes B st (snd (dedupe_optional B k ref v st))"
  using accounts_fact [of k] by (cases st) (auto simp: dedupe_optional_def Let_def dedupes_def accounts_refl)

lemma accounts_pair: "dedupes B st st' \<Longrightarrow> core r = core (bs_request (snd st)) \<Longrightarrow>
    accounts B (snd st) ((snd st')\<lparr>bs_project_history := h, bs_request := r\<rparr>)
    \<and> accounts B (snd st) ((snd st')\<lparr>bs_task_history := h, bs_request := r\<rparr>)"
  by (simp add: dedupes_def accounts_request accounts_history)

lemma dedupe_project_accounts: "accounts B (snd st) (snd (dedupe_project B st))"
proof (cases "br_project (bs_request (snd st))")
  case (Some p)
  obtain h st1 where 1: "dedupe_indexed B SkProject ''project:history'' (bs_project_history (snd st)) st = (h, st1)"
    by (rule prod.exhaust)
  obtain g st2 where 2: "dedupe_optional B SkProject ''project:goal'' (pc_goal p) st1 = (g, st2)" by (rule prod.exhaust)
  obtain ph st3 where 3: "dedupe_optional B SkProject ''project:current_phase'' (pc_phase p) st2 = (ph, st3)"
    by (rule prod.exhaust)
  obtain c st4 where 4: "dedupe_tuple B SkProject ''project:architecture_constraint'' (pc_constraints p) st3 = (c, st4)"
    by (rule prod.exhaust)
  obtain e st5 where 5: "dedupe_tuple B SkProject ''project:decision'' (pc_decisions p) st4 = (e, st5)"
    by (rule prod.exhaust)
  obtain u seen t where 6: "dedupe_optional B SkProject ''project:status'' (pc_status p) st5 = (u, seen, t)"
    by (metis prod.exhaust)
  have k: "SkProject \<notin> {SkMemory, SkPersona}" by simp
  have "dedupes B st st1" "dedupes B st1 st2" "dedupes B st2 st3" "dedupes B st3 st4" "dedupes B st4 st5" "dedupes B st5 (seen, t)"
    using dedupe_indexed_dedupes [OF k, where st = st] dedupe_optional_dedupes [OF k, where st = st1] dedupe_optional_dedupes [OF k, where st = st2]
      dedupe_tuple_dedupes [OF k, where st = st3] dedupe_tuple_dedupes [OF k, where st = st4] dedupe_optional_dedupes [OF k, where st = st5]
      1 2 3 4 5 6 by (metis snd_conv)+
  then have d: "dedupes B st (seen, t)" by (blast intro: dedupes_trans)
  then have "bs_request t = bs_request (snd st)" by (simp add: dedupes_def)
  with accounts_pair [OF d] show ?thesis
    by (simp add: dedupe_project_def Some 1 2 3 4 5 6 core_def project_core_def)
qed (simp add: dedupe_project_def accounts_refl)

lemma dedupe_task_accounts: "accounts B (snd st) (snd (dedupe_task B st))"
proof (cases "br_task (bs_request (snd st))")
  case (Some p)
  obtain h st1 where 1: "dedupe_indexed B SkTask ''task:history'' (bs_task_history (snd st)) st = (h, st1)"
    by (rule prod.exhaust)
  obtain g st2 where 2: "dedupe_optional B SkTask ''task:status'' (tc_status p) st1 = (g, st2)" by (rule prod.exhaust)
  obtain ph st3 where 3: "dedupe_tuple B SkTask ''task:constraint'' (tc_constraints p) st2 = (ph, st3)"
    by (rule prod.exhaust)
  obtain c st4 where 4: "dedupe_tuple B SkTask ''task:acceptance_criterion'' (tc_criteria p) st3 = (c, st4)"
    by (rule prod.exhaust)
  obtain e st5 where 5: "dedupe_tuple B SkTask ''task:blocker'' (tc_blockers p) st4 = (e, st5)"
    by (rule prod.exhaust)
  obtain u seen t where 6: "dedupe_optional B SkTask ''task:next_action'' (tc_next_action p) st5 = (u, seen, t)"
    by (metis prod.exhaust)
  have k: "SkTask \<notin> {SkMemory, SkPersona}" by simp
  have "dedupes B st st1" "dedupes B st1 st2" "dedupes B st2 st3" "dedupes B st3 st4" "dedupes B st4 st5" "dedupes B st5 (seen, t)"
    using dedupe_indexed_dedupes [OF k, where st = st] dedupe_optional_dedupes [OF k, where st = st1] dedupe_tuple_dedupes [OF k, where st = st2]
      dedupe_tuple_dedupes [OF k, where st = st3] dedupe_tuple_dedupes [OF k, where st = st4] dedupe_optional_dedupes [OF k, where st = st5]
      1 2 3 4 5 6 by (metis snd_conv)+
  then have d: "dedupes B st (seen, t)" by (blast intro: dedupes_trans)
  then have "bs_request t = bs_request (snd st)" by (simp add: dedupes_def)
  with accounts_pair [OF d] show ?thesis
    by (simp add: dedupe_task_def Some 1 2 3 4 5 6 core_def task_core_def)
qed (simp add: dedupe_task_def accounts_refl)

text \<open>The memories that the deduplication keeps, with those it drops, are the ones it was given.\<close>

lemma dedupe_memories_result:
  "dedupe_memories B ms (seen, s) = (kept, seen', s') \<Longrightarrow>
   bs_request s' = bs_request s \<and> bs_memories s' = bs_memories s \<and> bs_files s' = bs_files s
   \<and> mset (map memory_ref kept) + drops SkMemory (bs_dropped s') = mset (map memory_ref ms) + drops SkMemory (bs_dropped s)
   \<and> drops SkPersona (bs_dropped s') = drops SkPersona (bs_dropped s)
   \<and> (tallied (bs_dropped s) (bs_by_reason s) \<longrightarrow> tallied (bs_dropped s') (bs_by_reason s'))
   \<and> (measured B (bs_dropped s) \<longrightarrow> measured B (bs_dropped s'))"
  by (induction ms arbitrary: seen s kept)
    (auto simp: Let_def tallied_tally split: if_splits prod.splits)

lemma select_unique_accounts: "accounts B s (select_unique B s)"
proof -
  obtain kept seen t where d: "dedupe_memories B (bs_memories s) ([], s) = (kept, seen, t)" by (metis prod.exhaust)
  have "accounts B s (t\<lparr>bs_memories := kept\<rparr>)"
    using dedupe_memories_result [OF d] by (simp add: accounts_def all_memories_def all_files_def)
  moreover have "accounts B (t\<lparr>bs_memories := kept\<rparr>) (snd (dedupe_task B (dedupe_project B (seen, t\<lparr>bs_memories := kept\<rparr>))))"
    using accounts_trans [OF dedupe_project_accounts [of B "(seen, t\<lparr>bs_memories := kept\<rparr>)"] dedupe_task_accounts [of B]]
    by simp
  ultimately show ?thesis by (auto simp: select_unique_def d intro: accounts_trans)
qed

lemma cap_memories_accounts: "accounts B s (cap_memories B soft s)"
proof (induction B soft s rule: cap_memories.induct)
  case (1 B soft s)
  show ?case
  proof (cases "soft < memories_tokens B s \<and> 1 < length (bs_memories s)")
    case True
    then have "bs_memories s \<noteq> []" by auto
    from accounts_trans [OF accounts_pop [OF this] 1 [OF True]] True show ?thesis by (subst cap_memories.simps) simp
  qed (subst cap_memories.simps, auto simp: accounts_refl)
qed

lemma accounts_sorted: "mset ms = mset (bs_memories s) \<Longrightarrow> accounts B s (s\<lparr>bs_memories := ms\<rparr>)"
  by (simp add: accounts_def all_memories_def all_files_def)

lemma rank_memories_accounts: "accounts B s (rank_memories B s)"
  unfolding rank_memories_def Let_def
  by (auto intro: accounts_trans [OF accounts_sorted cap_memories_accounts] accounts_sorted)

lemma select_candidates_accounts: "accounts B s (select_candidates B s)"
  unfolding select_candidates_def
  by (rule accounts_trans [OF accounts_trans [OF accounts_trans [OF compact_direct_accounts select_files_accounts]
        select_unique_accounts] rank_memories_accounts])

section \<open>Soft caps and trimming account\<close>

lemma accounts_truncate: "accounts B s t \<Longrightarrow> accounts B s (truncate_item k ref x a b t)"
  by (simp add: accounts_def all_memories_def all_files_def)

lemma accounts_mark: "accounts B s t \<Longrightarrow> accounts B s (mark k t)"
  by (simp add: accounts_def all_memories_def all_files_def)

lemma accounts_bodies: "accounts B s (s\<lparr>bs_bodies := b\<rparr>)"
  by (simp add: accounts_def all_memories_def all_files_def)

lemma accounts_with_file: "accounts B s (with_file f t s)"
  by (simp add: with_file_def Let_def accounts_def all_memories_def all_files_def core_def)

lemma soften_memory_accounts: "accounts B s (soften_memory B s)"
  unfolding soften_memory_def Let_def
  by (auto simp: accounts_refl split: option.split intro!: accounts_pop accounts_truncate accounts_bodies)

lemma soften_files_accounts: "accounts B s (soften_files B soft fs s)"
proof (induction fs arbitrary: s)
  case (Cons f fs)
  have step: "accounts B s (soften_files B soft fs (truncate_item k ref x a b (with_file f t s)))" for k ref x a b t
    by (rule accounts_trans [OF accounts_truncate [OF accounts_with_file] Cons.IH])
  show ?case
    by (simp add: Let_def accounts_refl Cons.IH step split: option.split)
qed (simp add: accounts_refl)

lemma select_accounts: "accounts B s (select B s)"
proof -
  have p: "accounts B t (soften_persona B t)" for t
    by (simp add: soften_persona_def Let_def accounts_refl soften_files_accounts)
  have "accounts B s (soften_persona B (soften_memory B (select_candidates B s)))"
    by (rule accounts_trans [OF accounts_trans [OF select_candidates_accounts soften_memory_accounts] p])
  then show ?thesis by (simp add: select_def accounts_refl)
qed

lemma trim_memories_accounts: "accounts B s (trim_memories B s)"
proof (induction B s rule: trim_memories.induct)
  case (1 B s)
  show ?case
  proof (cases "\<not> fits B s \<and> 1 < length (bs_memories s)")
    case True
    then have "bs_memories s \<noteq> []" by auto
    from accounts_trans [OF accounts_mark [OF accounts_pop [OF this]] 1 [OF True]] True show ?thesis
      by (subst trim_memories.simps) simp
  qed (subst trim_memories.simps, auto simp: accounts_refl)
qed

lemma trim_body_accounts: "accounts B s (trim_body B s)"
proof -
  have pop: "accounts B s (mark SkMemory (pop_memory B x (s\<lparr>bs_bodies := b\<rparr>)))" if "bs_memories s \<noteq> []" for x b
    using that by (auto intro!: accounts_mark accounts_trans [OF accounts_bodies accounts_pop])
  show ?thesis
    unfolding trim_body_def Let_def
    by (auto simp: accounts_refl pop split: option.split intro!: accounts_truncate accounts_bodies)
qed

lemma trim_project_accounts: "accounts B s (trim_project B s)"
proof (induction B s rule: trim_project.induct)
  case (1 B s)
  show ?case
  proof (cases "fits B s \<or> bs_project_history s = []")
    case False
    then obtain i v rest where h: "bs_project_history s = (i, v) # rest" "\<not> fits B s"
      by (cases "bs_project_history s") auto
    have step: "accounts B s (mark SkProject (drop_item (dropped_text B SkProject r x t) (s\<lparr>bs_project_history := rest\<rparr>)))" for r x t
      by (intro accounts_mark accounts_trans [OF accounts_history(1) [OF accounts_refl] accounts_fact]) simp
    from accounts_trans [OF step 1 [OF h(2) h(1) refl]] h show ?thesis by (subst trim_project.simps) simp
  qed (subst trim_project.simps, auto simp: accounts_refl)
qed

lemma trim_task_accounts: "accounts B s (trim_task B s)"
proof (induction B s rule: trim_task.induct)
  case (1 B s)
  show ?case
  proof (cases "fits B s \<or> bs_task_history s = []")
    case False
    then obtain i v rest where h: "bs_task_history s = (i, v) # rest" "\<not> fits B s"
      by (cases "bs_task_history s") auto
    have step: "accounts B s (mark SkTask (drop_item (dropped_text B SkTask r x t) (s\<lparr>bs_task_history := rest\<rparr>)))" for r x t
      by (intro accounts_mark accounts_trans [OF accounts_history(2) [OF accounts_refl] accounts_fact]) simp
    from accounts_trans [OF step 1 [OF h(2) h(1) refl]] h show ?thesis by (subst trim_task.simps) simp
  qed (subst trim_task.simps, auto simp: accounts_refl)
qed

lemma trim_examples_accounts: "mset fs \<subseteq># mset (bs_files s) \<Longrightarrow> accounts B s (trim_examples B fs s)"
proof (induction B fs s rule: trim_examples.induct)
  case (2 B f fs s)
  then have f: "f \<in> set (bs_files s)" by (simp add: insert_subset_eq_iff)
  have "mset fs \<subseteq># mset (bs_files (mark SkPersona (drop_file B ''persona_example_budget'' f s)))"
    using 2(2) by (simp add: drop_file_def insert_subset_eq_iff)
  with 2(1) accounts_mark [OF accounts_drop_file [OF f]] show ?case by (auto simp: accounts_refl intro: accounts_trans)
qed (simp add: accounts_refl)

lemma trim_accounts: "accounts B s (trim B s)"
proof -
  let ?t = "trim_task B (trim_project B (trim_body B (trim_memories B s)))"
  have "accounts B s ?t"
    by (rule accounts_trans [OF accounts_trans [OF accounts_trans [OF trim_memories_accounts trim_body_accounts]
          trim_project_accounts] trim_task_accounts])
  moreover have "accounts B ?t (trim_examples B (rev (example_files B ?t)) ?t)"
    by (rule trim_examples_accounts) (simp add: example_files_def)
  ultimately show ?thesis unfolding trim_def Let_def by (rule accounts_trans)
qed

section \<open>The start of a build\<close>

lemma unique_hits_result:
  "unique_hits B seen ms = (us, cs) \<Longrightarrow>
   mset (map memory_ref us) + mset (map ic_ref cs) = mset (map memory_ref ms) \<and> (\<forall>c\<in>set cs. ic_section c = SkMemory)
   \<and> distinct (map hm_id us) \<and> (\<forall>m\<in>set us. hm_id m \<notin> set seen)"
  by (induction ms arbitrary: seen us cs) (force split: if_splits prod.splits)+

lemma start_simps [simp]:
  "bs_request (start_build B r hits) = r" "bs_files (start_build B r hits) = pn_order (br_persona r)"
  by (simp_all add: start_build_def split: prod.split)

lemma start_accounts:
  "all_memories (start_build B r hits) = mset (map memory_ref hits)"
  "all_files (start_build B r hits) = mset (map file_ref (pn_order (br_persona r)))"
  "tallied (bs_dropped (start_build B r hits)) (bs_by_reason (start_build B r hits))"
  "measured B (bs_dropped (start_build B r hits))"
proof -
  obtain us cs where u: "prepare_memories B hits = (us, cs)" by (rule prod.exhaust)
  then have r: "mset (map memory_ref us) + mset (map ic_ref cs) = mset (map memory_ref hits)"
    "\<forall>c\<in>set cs. ic_section c = SkMemory"
    using unique_hits_result [of B "[]" _ us cs] by (simp_all add: prepare_memories_def)
  then have "filter (\<lambda>c. ic_section c = SkMemory) cs = cs" "filter (\<lambda>c. ic_section c = SkPersona) cs = []"
    by (auto simp: filter_empty_conv)
  with r show "all_memories (start_build B r hits) = mset (map memory_ref hits)"
    "all_files (start_build B r hits) = mset (map file_ref (pn_order (br_persona r)))"
    by (simp_all add: all_memories_def all_files_def start_build_def u drops_def)
  have "tallied [] []" by (simp add: tallied_def)
  from tallied_fold [OF this, of cs] show "tallied (bs_dropped (start_build B r hits)) (bs_by_reason (start_build B r hits))"
    by (simp add: start_build_def u)
  have "unique_hits B seen ms = (vs, ds) \<Longrightarrow> measured B ds" for seen ms vs ds
    by (induction ms arbitrary: seen vs ds) (force split: if_splits prod.splits)+
  with u show "measured B (bs_dropped (start_build B r hits))" by (simp add: start_build_def prepare_memories_def)
qed

lemma build_accounts: "accounts B (start_build B r hits) (trim B (select B (start_build B r hits)))"
  by (rule accounts_trans [OF select_accounts trim_accounts])

section \<open>What is left when nothing fits\<close>

lemma rendered_contents:
  "rendered B s = py_join (newline @ newline) (map (\<lambda>k. render_chunk k (section_content B s k)) all_kinds)"
  by (simp add: rendered_def render_sections_def assembled_def context_section_of_def comp_def)

lemma content_cong:
  "bs_request s' = bs_request s \<Longrightarrow> bs_memories s' = bs_memories s \<Longrightarrow> bs_bodies s' = bs_bodies s \<Longrightarrow>
   bs_files s' = bs_files s \<Longrightarrow> bs_project_history s' = bs_project_history s \<Longrightarrow>
   bs_task_history s' = bs_task_history s \<Longrightarrow> fits B s' = fits B s"
proof -
  assume a: "bs_request s' = bs_request s" "bs_memories s' = bs_memories s" "bs_bodies s' = bs_bodies s"
    "bs_files s' = bs_files s" "bs_project_history s' = bs_project_history s" "bs_task_history s' = bs_task_history s"
  have "section_content B s' k = section_content B s k" for k by (cases k) (simp_all add: a)
  then show ?thesis by (simp add: fits_def build_tokens_def rendered_contents a)
qed

lemma fits_simps [simp]:
  "fits B (mark k s) = fits B s" "fits B (truncate_item k r x a b s) = fits B s" "fits B (drop_item c s) = fits B s"
  by (rule content_cong; simp)+

lemma bisect_sound: "bisect ok low high best = Some k \<Longrightarrow> ok k \<or> best = Some k"
proof (induction ok low high best rule: bisect.induct)
  case (1 ok low high best)
  then show ?case by (auto simp: bisect.simps [of ok low high best] Let_def split: if_splits)
qed

lemma trim_memories_done: "fits B (trim_memories B s) \<or> length (bs_memories (trim_memories B s)) \<le> 1"
proof (induction B s rule: trim_memories.induct)
  case (1 B s)
  then show ?case by (subst (1 2) trim_memories.simps) auto
qed

lemma trim_body_done:
  assumes "fits B s \<or> length (bs_memories s) \<le> 1"
  shows "fits B (trim_body B s) \<or> bs_memories (trim_body B s) = []"
proof (cases "\<not> fits B s \<and> bs_memories s \<noteq> []")
  case True
  then obtain m where m: "bs_memories s = [m]" using assms by (cases "bs_memories s") auto
  let ?shown = "\<lambda>k. s\<lparr>bs_bodies := (bs_bodies s)(hm_id m \<mapsto> truncated_text (memory_body m) k)\<rparr>"
  let ?b = "bisect (\<lambda>k. fits B (?shown k)) 0 (max (int (py_len (memory_body m)) - 1) 0) None"
  show ?thesis
  proof (cases ?b)
    case None
    then show ?thesis using True by (simp add: trim_body_def Let_def m pop_memory_def)
  next
    case (Some k)
    with bisect_sound [OF Some] True show ?thesis by (simp add: trim_body_def Let_def m)
  qed
qed (auto simp: trim_body_def Let_def)

lemma trim_project_done:
  "(fits B (trim_project B s) \<or> bs_project_history (trim_project B s) = [])
   \<and> bs_memories (trim_project B s) = bs_memories s \<and> bs_task_history (trim_project B s) = bs_task_history s
   \<and> (fits B s \<longrightarrow> trim_project B s = s)"
proof (induction B s rule: trim_project.induct)
  case (1 B s)
  show ?case
  proof (cases "fits B s \<or> bs_project_history s = []")
    case False
    then obtain i v rest where h: "bs_project_history s = (i, v) # rest" "\<not> fits B s"
      by (cases "bs_project_history s") auto
    from 1 [OF h(2) h(1) refl] h show ?thesis by (subst (1 2 3 4 5) trim_project.simps) simp
  qed (subst (1 2 3 4 5) trim_project.simps, auto)
qed

lemma trim_task_done:
  "(fits B (trim_task B s) \<or> bs_task_history (trim_task B s) = [])
   \<and> bs_memories (trim_task B s) = bs_memories s \<and> bs_project_history (trim_task B s) = bs_project_history s
   \<and> (fits B s \<longrightarrow> trim_task B s = s)"
proof (induction B s rule: trim_task.induct)
  case (1 B s)
  show ?case
  proof (cases "fits B s \<or> bs_task_history s = []")
    case False
    then obtain i v rest where h: "bs_task_history s = (i, v) # rest" "\<not> fits B s"
      by (cases "bs_task_history s") auto
    from 1 [OF h(2) h(1) refl] h show ?thesis by (subst (1 2 3 4 5) trim_task.simps) simp
  qed (subst (1 2 3 4 5) trim_task.simps, auto)
qed

lemma trim_examples_done:
  "bs_memories (trim_examples B fs s) = bs_memories s
   \<and> bs_project_history (trim_examples B fs s) = bs_project_history s
   \<and> bs_task_history (trim_examples B fs s) = bs_task_history s
   \<and> (fits B s \<longrightarrow> trim_examples B fs s = s)
   \<and> (\<not> fits B (trim_examples B fs s) \<longrightarrow> mset (bs_files (trim_examples B fs s)) = mset (bs_files s) - mset fs)"
proof (induction B fs s rule: trim_examples.induct)
  case (2 B f fs s)
  have "\<not> fits B s \<Longrightarrow> bs_memories (mark SkPersona (drop_file B ''persona_example_budget'' f s)) = bs_memories s"
    "bs_project_history (mark SkPersona (drop_file B ''persona_example_budget'' f s)) = bs_project_history s"
    "bs_task_history (mark SkPersona (drop_file B ''persona_example_budget'' f s)) = bs_task_history s"
    "mset (bs_files (mark SkPersona (drop_file B ''persona_example_budget'' f s))) = mset (bs_files s) - {#f#}"
    by (simp_all add: drop_file_def)
  with 2 show ?case by (auto simp: diff_diff_add_mset)
qed simp

lemma no_examples_left:
  "mset t = mset fs - mset (rev (filter P fs)) \<Longrightarrow> f \<in> set t \<Longrightarrow> \<not> P f"
proof -
  assume m: "mset t = mset fs - mset (rev (filter P fs))" and f: "f \<in> set t"
  have "mset fs = filter_mset P (mset fs) + filter_mset (\<lambda>x. \<not> P x) (mset fs)" by (simp add: multiset_partition)
  then have "mset t = filter_mset (\<lambda>x. \<not> P x) (mset fs)" using m by (metis add_diff_cancel_left' mset_filter mset_rev)
  then show ?thesis using f by (metis (no_types, lifting) filter_mset_eq_conv set_mset_mset)
qed

lemma trim_done:
  assumes "\<not> fits B (trim B s)"
  shows "bs_memories (trim B s) = []" "bs_project_history (trim B s) = []" "bs_task_history (trim B s) = []"
    "example_files B (trim B s) = []"
proof -
  define s2 where "s2 = trim_body B (trim_memories B s)"
  define s4 where "s4 = trim_task B (trim_project B s2)"
  have t: "trim B s = trim_examples B (rev (example_files B s4)) s4"
    by (simp add: trim_def Let_def s4_def s2_def)
  note ex = trim_examples_done [of B "rev (example_files B s4)" s4]
  have n4: "\<not> fits B s4" using assms ex unfolding t by metis
  then have n3: "\<not> fits B (trim_project B s2)" using trim_task_done unfolding s4_def by metis
  then have n2: "\<not> fits B s2" using trim_project_done by metis
  then have "bs_memories s2 = []" using trim_body_done [OF trim_memories_done] unfolding s2_def by blast
  then have m: "bs_memories s4 = []" using trim_project_done trim_task_done unfolding s4_def by metis
  have "bs_project_history s4 = []" using trim_project_done trim_task_done n3 unfolding s4_def by metis
  moreover have "bs_task_history s4 = []" using trim_task_done n4 unfolding s4_def by metis
  ultimately show "bs_memories (trim B s) = []" "bs_project_history (trim B s) = []" "bs_task_history (trim B s) = []"
    using m ex unfolding t by simp_all
  have "mset (bs_files (trim B s)) = mset (bs_files s4) - mset (rev (filter (\<lambda>f. py_in ''example'' (casefold (bu_unicode B) f)) (bs_files s4)))"
    using ex assms unfolding t by (simp add: example_files_def)
  from no_examples_left [OF this] show "example_files B (trim B s) = []"
    by (auto simp: example_files_def filter_empty_conv)
qed

section \<open>Built contexts\<close>

lemma core_fields:
  assumes "core r' = core r"
  shows "br_text r' = br_text r" "br_referent r' = br_referent r" "br_route r' = br_route r"
    "br_capability r' = br_capability r" "br_policy r' = br_policy r" "br_budget r' = br_budget r"
    "map_option task_core (br_task r') = map_option task_core (br_task r)"
  using arg_cong [OF assms, of br_text] arg_cong [OF assms, of br_referent] arg_cong [OF assms, of br_route]
    arg_cong [OF assms, of br_capability] arg_cong [OF assms, of br_policy] arg_cong [OF assms, of br_budget]
    arg_cong [OF assms, of br_task]
  by (simp_all add: core_def)

lemma core_contents:
  assumes "core (bs_request s) = core r"
  shows "section_content B s SkRouting = render_routing B r" "section_content B s SkRequest = render_current_request B r"
  unfolding section_content.simps render_routing_def render_runtime_policy_def render_current_request_def
    core_fields [OF assms] by (rule refl)+

lemma core_task_content:
  assumes "core (bs_request s) = core r" "br_task r = Some t"
  shows "\<exists>rest. section_content B s SkTask = py_join newline
    ([''identity: '' @ bu_redact B (tc_identity t), ''active_goal: '' @ bu_redact B (tc_goal t)] @ rest)"
proof -
  obtain t' where t: "br_task (bs_request s) = Some t'" "task_core t' = task_core t"
    using core_fields(7) [OF assms(1)] assms(2) by (cases "br_task (bs_request s)") auto
  have "tc_identity t' = tc_identity t" "tc_goal t' = tc_goal t"
    using arg_cong [OF t(2), of tc_identity] arg_cong [OF t(2), of tc_goal] by (simp_all add: task_core_def)
  then show ?thesis by (auto simp: render_task_def t(1))
qed

lemma built_from:
  assumes "build_impl B r = Inr b"
  obtains hits ws s where "s = trim B (select B (start_build B r hits))" "fits B s"
    "b = package_of B ws (candidate_tokens B (start_build B r hits)) s" "core (bs_request s) = core r"
    "\<And>xs. bu_retrieve B (retrieval_query B r) (br_scope r) (bu_limit B) = Found xs \<Longrightarrow> hits = xs"
proof -
  obtain hits ws where f: "build_from B r ws hits = Inr b"
    "\<And>xs. bu_retrieve B (retrieval_query B r) (br_scope r) (bu_limit B) = Found xs \<Longrightarrow> hits = xs"
    using assms by (auto simp: build_impl_def split: retrieval.splits)
  show ?thesis
  proof (rule that [OF refl _ _ _ f(2)])
    let ?s = "trim B (select B (start_build B r hits))"
    show "fits B ?s" using f(1) by (auto simp: build_from_def Let_def split: if_splits)
    show "b = package_of B ws (candidate_tokens B (start_build B r hits)) ?s"
      using f(1) by (auto simp: build_from_def Let_def bindE_Inr_iff split: if_splits)
    show "core (bs_request ?s) = core r" using build_accounts [of B r hits] by (simp add: accounts_def)
  qed
qed

lemma context_build_Inr:
  assumes "context_build B r = Inr b"
  obtains c where "build_impl B r = Inr c" "bn_rendered b = bn_rendered c" "bn_tokens b = bn_tokens c"
    "bn_remaining b = bn_remaining c" "bn_budget b = bn_budget c"
    "map cs_kind (bn_sections b) = map cs_kind (bn_sections c)"
    "map cs_content (bn_sections b) = map cs_content (bn_sections c)"
  using assms by (auto simp: context_build_def bindE_Inr_iff Let_def comp_def sanitize_section_def intro!: that)

lemma sections_of:
  "map cs_kind (assembled B s) = all_kinds" "map cs_content (assembled B s) = map (section_content B s) all_kinds"
  by (simp_all add: assembled_def context_section_of_def comp_def)

text \<open>C34. A built context fits and keeps what is required. Whatever the retriever, the redactor and the
  token estimator do, the rendered text of a returned bundle is the six sections in their order, its
  estimated tokens and what remains make up the usable budget of the request, and the routing
  decision with the runtime policy, the current request with its referent, and the identity and goal of
  the active task are in it uncut.\<close>

theorem context_within_budget:
  assumes "context_build B r = Inr b"
  shows "bn_tokens b = bu_estimate B (bn_rendered b) \<and> 0 \<le> bn_remaining b
    \<and> bn_tokens b + bn_remaining b = usable_tokens (br_budget r) \<and> bn_budget b = br_budget r
    \<and> map cs_kind (bn_sections b) = all_kinds
    \<and> bn_rendered b = py_join (newline @ newline) (map (\<lambda>(k, c). render_chunk k c) (zip all_kinds (map cs_content (bn_sections b))))
    \<and> map cs_content (bn_sections b) ! 1 = render_routing B r
    \<and> map cs_content (bn_sections b) ! 5 = render_current_request B r
    \<and> (case br_task r of None \<Rightarrow> True
       | Some t \<Rightarrow> \<exists>rest. map cs_content (bn_sections b) ! 3 = py_join newline
          ([''identity: '' @ bu_redact B (tc_identity t), ''active_goal: '' @ bu_redact B (tc_goal t)] @ rest))"
proof -
  obtain c where c: "build_impl B r = Inr c" "bn_rendered b = bn_rendered c" "bn_tokens b = bn_tokens c"
    "bn_remaining b = bn_remaining c" "bn_budget b = bn_budget c"
    "map cs_kind (bn_sections b) = map cs_kind (bn_sections c)"
    "map cs_content (bn_sections b) = map cs_content (bn_sections c)"
    using context_build_Inr [OF assms] .
  obtain s hits ws where s: "fits B s" "c = package_of B ws (candidate_tokens B (start_build B r hits)) s"
    "core (bs_request s) = core r"
    using built_from [OF c(1)] by metis
  note core = core_contents [OF s(3)] core_fields(6) [OF s(3)]
  have contents: "map cs_content (bn_sections b) = map (section_content B s) all_kinds"
    by (simp add: c(7) s(2) package_of_def Let_def sections_of)
  have shown: "bn_rendered b = rendered B s" and tokens: "bn_tokens b = build_tokens B s"
    and left: "bn_remaining b = usable_tokens (br_budget r) - build_tokens B s" "bn_budget b = br_budget r"
    and kinds: "map cs_kind (bn_sections b) = all_kinds"
    using c core by (simp_all add: s(2) package_of_def Let_def sections_of)
  have "rendered B s = py_join (newline @ newline) (map (\<lambda>(k, c). render_chunk k c) (zip all_kinds (map (section_content B s) all_kinds)))"
    by (simp only: rendered_contents) (simp add: all_kinds_def)
  moreover have "0 \<le> bn_remaining b" using s(1) core by (simp add: left fits_def)
  moreover have "case br_task r of None \<Rightarrow> True | Some t \<Rightarrow> \<exists>rest. section_content B s SkTask = py_join newline
      ([''identity: '' @ bu_redact B (tc_identity t), ''active_goal: '' @ bu_redact B (tc_goal t)] @ rest)"
    using core_task_content [OF s(3)] by (auto split: option.split)
  moreover have nth: "map (section_content B s) all_kinds ! 1 = render_routing B r"
    "map (section_content B s) all_kinds ! 5 = render_current_request B r"
    "map (section_content B s) all_kinds ! 3 = section_content B s SkTask"
    using core by (simp_all add: all_kinds_def del: section_content.simps)
  moreover have "bn_tokens b = bu_estimate B (bn_rendered b)" "bn_tokens b + bn_remaining b = usable_tokens (br_budget r)"
    by (simp_all add: shown tokens left build_tokens_def)
  ultimately show ?thesis unfolding contents nth by (simp only: shown left(2) kinds simp_thms)
qed

text \<open>C35. Every item is accounted for. Each retrieved memory and each persona file is either in the built
  context or among the dropped items, as often as it was given; no two memories of the context share an id;
  and the tally by reason adds up to the dropped items, reason by reason and in total.\<close>

theorem context_items_accounted:
  assumes "build_impl B r = Inr b" "bu_retrieve B (retrieval_query B r) (br_scope r) (bu_limit B) = Found hits"
  shows "\<exists>s. bn_sections b = assembled B s
    \<and> mset (map memory_ref hits) = mset (map memory_ref (bs_memories s)) + drops SkMemory (bn_dropped b)
    \<and> mset (map file_ref (pn_order (br_persona r))) = mset (map file_ref (bs_files s)) + drops SkPersona (bn_dropped b)
    \<and> tallied (bn_dropped b) (bn_by_reason b) \<and> bn_dropped_tokens b = sum_list (map snd (bn_by_reason b))"
proof -
  obtain s ws where s: "s = trim B (select B (start_build B r hits))"
    "b = package_of B ws (candidate_tokens B (start_build B r hits)) s"
    using built_from [OF assms(1)] assms(2) by metis
  have "accounts B (start_build B r hits) s" unfolding s(1) by (rule build_accounts)
  then show ?thesis
    using start_accounts [where B = B and r = r and hits = hits]
    by (auto simp: s(2) package_of_def Let_def accounts_def all_memories_def all_files_def tallied_def intro!: exI [of _ s])
qed

text \<open>With an estimator that does not answer with negative numbers, nothing measured is negative.\<close>

definition counts_up :: "context_builder \<Rightarrow> bool" where
  "counts_up B \<longleftrightarrow> (\<forall>t. 0 \<le> bu_estimate B t)"

lemma measured_nonneg:
  assumes "measured B cs" "counts_up B"
  shows "0 \<le> sum_list (map ic_original (filter P cs))"
  using assms by (intro sum_list_nonneg) (auto simp: measured_def counts_up_def)

lemma package_refused:
  assumes "package_validate (package_of B ws c s) = Inl e" "fits B s" "counts_up B" "measured B (bs_dropped s)" "0 \<le> c"
  shows "e = ValidationError \<and> 0 < c \<and> c < build_tokens B s"
proof -
  let ?t = "build_tokens B s"
  have t: "0 \<le> ?t" "0 \<le> sum_list (map ic_original (bs_dropped s))"
    using assms(3) measured_nonneg [OF assms(4,3), of "\<lambda>_. True"] by (simp_all add: build_tokens_def counts_up_def)
  have r: "0 < c \<Longrightarrow> 0 \<le> ?t \<Longrightarrow> ?t \<le> c \<Longrightarrow> 0 \<le> rat_of_int (c - ?t) / of_int c \<and> rat_of_int (c - ?t) / of_int c \<le> 1"
    by simp
  from assms(1) have "e = ValidationError" by (auto simp: package_validate_def ensureE_def split: if_splits)
  moreover have "package_validate (package_of B ws c s) = Inr ()" if "\<not> (0 < c \<and> c < ?t)"
    using that t assms(2,5) r by (auto simp: package_validate_def package_of_def Let_def ensureE_def fits_def)
  ultimately show ?thesis using assms(1) by force
qed

lemma candidate_nonneg: "counts_up B \<Longrightarrow> 0 \<le> candidate_tokens B (start_build B r hits)"
  using measured_nonneg [OF start_accounts(4)]
  by (simp add: candidate_tokens_def build_tokens_def counts_up_def)

text \<open>C36. A build is refused for three reasons only, when token estimates are not negative. When building
  raises, the retriever raised; or the text that is over the usable budget has no memory, no history
  and no example file of the persona left, and the request's required part unchanged; or the bundle
  is not valid (a ValidationError) because a text that fits is estimated larger than all that was
  offered before anything was left out.\<close>

theorem context_refused_minimal:
  assumes "build_impl B r = Inl e" "\<forall>t. 0 \<le> bu_estimate B t"
  shows "bu_retrieve B (retrieval_query B r) (br_scope r) (bu_limit B) = Broken e
    \<or> (\<exists>s hits. e = ValidationError \<and> fits B s \<and> core (bs_request s) = core r
         \<and> (case bu_retrieve B (retrieval_query B r) (br_scope r) (bu_limit B) of Found hs \<Rightarrow> hits = hs | _ \<Rightarrow> hits = [])
         \<and> candidate_tokens B (start_build B r hits) < build_tokens B s)
    \<or> (\<exists>s. e = ContextBudgetExceeded (build_tokens B s) (usable_tokens (br_budget r))
         \<and> usable_tokens (br_budget r) < build_tokens B s \<and> core (bs_request s) = core r
         \<and> bs_memories s = [] \<and> bs_project_history s = [] \<and> bs_task_history s = [] \<and> example_files B s = [])"
proof (cases "bu_retrieve B (retrieval_query B r) (br_scope r) (bu_limit B) = Broken e")
  case False
  then obtain ws hits where f: "build_from B r ws hits = Inl e"
    and h: "case bu_retrieve B (retrieval_query B r) (br_scope r) (bu_limit B) of Found hs \<Rightarrow> hits = hs | _ \<Rightarrow> hits = []"
    using assms(1) by (auto simp: build_impl_def split: retrieval.splits)
  let ?s = "trim B (select B (start_build B r hits))"
  have up: "counts_up B" using assms(2) by (simp add: counts_up_def)
  have core: "core (bs_request ?s) = core r" and m: "measured B (bs_dropped ?s)"
    using build_accounts [of B r hits] start_accounts(4) [of B r hits] by (simp_all add: accounts_def)
  show ?thesis
  proof (cases "fits B ?s")
    case True
    then have "package_validate (package_of B ws (candidate_tokens B (start_build B r hits)) ?s) = Inl e"
      using f by (auto simp: build_from_def Let_def bindE_Inl_iff)
    from package_refused [OF this True up m candidate_nonneg [OF up]] True core h show ?thesis by blast
  next
    case False
    then have "e = ContextBudgetExceeded (build_tokens B ?s) (usable_tokens (br_budget r))"
      "usable_tokens (br_budget r) < build_tokens B ?s"
      using f core_fields(6) [OF core] by (auto simp: build_from_def Let_def fits_def split: if_splits)
    with trim_done [OF False] core show ?thesis by blast
  qed
qed simp

section \<open>Concrete builds\<close>

lemma trim_fits:
  assumes "fits B s"
  shows "trim B s = s"
proof -
  have "trim_examples B fs s = s" for fs using assms by (cases fs) auto
  then show ?thesis
    using assms by (simp add: trim_def Let_def trim_memories.simps trim_body_def trim_project.simps trim_task.simps)
qed

definition demo_hit :: memory_hit where
  "demo_hit = \<lparr>hm_id = ''m1'', hm_title = ''note'', hm_content = ''keep it short'', hm_summary = None, hm_source = Some ''chat'',
     hm_scope = ''p'', hm_score = 1/2, hm_recency = 0, hm_importance = 1\<rparr>"

definition demo_persona :: persona where
  "demo_persona = \<lparr>pn_version = ''1'', pn_language = ''vi'', pn_relationship = ''r'', pn_tone = ''t'', pn_hash = ''h'',
     pn_order = [''rules.md''], pn_files = [(''rules.md'', ''be kind'')], pn_combined = ''be kind''\<rparr>"

definition demo_build_request :: build_request where
  "demo_build_request = \<lparr>br_text = ''hi'', br_referent = None, br_persona = demo_persona,
     br_route = \<lparr>rd_route = RDirect, rd_rule = ''x'', rd_reason = ''y''\<rparr>,
     br_capability = \<lparr>cd_capability = ConversationalResponse, cd_route = RDirect, cd_reason = ''z'', cd_signals = []\<rparr>,
     br_project = None, br_task = None, br_policy = None,
     br_budget = default_context_budget\<lparr>bd_selection := False\<rparr>, br_scope = None\<rparr>"


definition demo_builder :: "(string \<Rightarrow> string) \<Rightarrow> context_builder" where
  "demo_builder f = \<lparr>bu_retrieve = \<lambda>_ _ _. Found [demo_hit, demo_hit], bu_estimate = \<lambda>_. 9, bu_redact = f,
     bu_unicode = ascii_unicode, bu_limit = 5\<rparr>"

lemma demo_prepared_memories: "prepare_memories (demo_builder f) [demo_hit, demo_hit]
   = ([demo_hit], [dropped_memory (demo_builder f) demo_hit ''duplicate_memory''])"
  by (simp add: prepare_memories_def demo_hit_def)

definition demo_start :: "(string \<Rightarrow> string) \<Rightarrow> build" where
  "demo_start f = start_build (demo_builder f) demo_build_request [demo_hit, demo_hit]"

lemma demo_start_fits: "fits (demo_builder f) s \<longleftrightarrow> 9 \<le> usable_tokens (br_budget (bs_request s))"
  by (simp add: fits_def build_tokens_def demo_builder_def)

lemma demo_start_simps [simp]: "bs_request (demo_start f) = demo_build_request" "bs_memories (demo_start f) = [demo_hit]"
 "bs_files (demo_start f) = [''rules.md'']" "bs_project_history (demo_start f) = []" "bs_task_history (demo_start f) = []"
 "bs_dropped (demo_start f) = [dropped_memory (demo_builder f) demo_hit ''duplicate_memory'']" 
  by (simp_all add: demo_start_def start_build_def demo_prepared_memories demo_build_request_def demo_persona_def)

lemma demo_built: "build_impl (demo_builder f) demo_build_request
   = Inr (package_of (demo_builder f) [] 18 (demo_start f))"
proof -
  have ft: "fits (demo_builder f) (demo_start f)" by (simp add: demo_start_fits demo_build_request_def usable_tokens_def default_context_budget_def)
  have c: "candidate_tokens (demo_builder f) (demo_start f) = 18"
    by (simp add: candidate_tokens_def build_tokens_def) (simp add: demo_builder_def dropped_memory_def block_tokens_def)
  have v: "package_validate (package_of (demo_builder f) [] 18 (demo_start f)) = Inr ()"
    by (simp add: package_validate_def package_of_def Let_def ensureE_def build_tokens_def dropped_memory_def block_tokens_def)
       (simp add: demo_builder_def demo_build_request_def usable_tokens_def default_context_budget_def)
  have "select (demo_builder f) (demo_start f) = (demo_start f)"
    by (simp add: select_def demo_build_request_def)
  then have "build_from (demo_builder f) demo_build_request [] [demo_hit, demo_hit] = Inr (package_of (demo_builder f) [] 18 (demo_start f))"
    using ft c v trim_fits [OF ft] by (simp add: build_from_def Let_def demo_start_def [symmetric] bindE_def)
  moreover have "bu_retrieve (demo_builder f) x y z = Found [demo_hit, demo_hit]" for x y z by (simp add: demo_builder_def)
  ultimately show ?thesis by (simp add: build_impl_def)
qed

theorem context_within_budget_witness:
  "\<exists>b. context_build (demo_builder id) demo_build_request = Inr b \<and> bn_tokens b + bn_remaining b = 12000
     \<and> map cs_kind (bn_sections b) = all_kinds"
proof -
  obtain b where b: "context_build (demo_builder id) demo_build_request = Inr b"
    by (simp add: context_build_def demo_built bindE_def Let_def)
  have u: "usable_tokens (br_budget demo_build_request) = 12000"
    by (simp add: demo_build_request_def default_context_budget_def usable_tokens_def)
  show ?thesis using context_within_budget [OF b] b u by auto
qed

theorem context_items_accounted_witness:
  "\<exists>b s. build_impl (demo_builder id) demo_build_request = Inr b \<and> bn_sections b = assembled (demo_builder id) s
     \<and> mset (map memory_ref [demo_hit, demo_hit]) = mset (map memory_ref (bs_memories s)) + drops SkMemory (bn_dropped b)"
proof -
  have "bu_retrieve (demo_builder id) x y z = Found [demo_hit, demo_hit]" for x y z by (simp add: demo_builder_def)
  from context_items_accounted [OF demo_built [of id] this] demo_built [of id] show ?thesis by blast
qed

text \<open>A request whose usable budget of five tokens is less than what is required.\<close>

definition demo_small_request :: build_request where
  "demo_small_request = demo_build_request\<lparr>br_budget := default_context_budget\<lparr>bd_window := 4005, bd_selection := False\<rparr>,
     br_persona := demo_persona\<lparr>pn_order := []\<rparr>\<rparr>"

lemma trim_exhausted:
  assumes "bs_memories s = []" "bs_project_history s = []" "bs_task_history s = []" "bs_files s = []"
  shows "trim B s = s"
  using assms
  by (simp add: trim_def Let_def trim_memories.simps [of B s] trim_body_def trim_project.simps [of B s]
      trim_task.simps [of B s] example_files_def)

lemma demo_over_budget: "build_from ((demo_builder id)\<lparr>bu_retrieve := \<lambda>_ _ _. Found []\<rparr>) demo_small_request [] [] = Inl (ContextBudgetExceeded 9 5)"
proof -
  let ?B = "(demo_builder id)\<lparr>bu_retrieve := \<lambda>_ _ _. Found []\<rparr>"
  let ?s = "start_build ?B demo_small_request []"
  have s: "bs_memories ?s = []" "bs_project_history ?s = []" "bs_task_history ?s = []" "bs_files ?s = []"
    "bs_request ?s = demo_small_request"
    by (simp_all add: start_build_def prepare_memories_def demo_small_request_def demo_build_request_def demo_persona_def)
  have u: "usable_tokens (br_budget demo_small_request) = 5" "\<not> bd_selection (br_budget demo_small_request)"
    by (simp_all add: demo_small_request_def default_context_budget_def usable_tokens_def)
  have "build_tokens ?B t = 9" for t by (simp add: build_tokens_def demo_builder_def)
  then show ?thesis using trim_exhausted [OF s(1-4)] by (simp add: build_from_def Let_def select_def s(5) u fits_def)
qed

theorem context_refused_minimal_witness:
  "\<exists>s. build_tokens ((demo_builder id)\<lparr>bu_retrieve := \<lambda>_ _ _. Found []\<rparr>) s = 9
     \<and> core (bs_request s) = core demo_small_request \<and> bs_memories s = []"
proof -
  let ?B = "(demo_builder id)\<lparr>bu_retrieve := \<lambda>_ _ _. Found []\<rparr>"
  have "build_impl ?B demo_small_request = Inl (ContextBudgetExceeded 9 5)"
    using demo_over_budget by (simp add: build_impl_def)
  moreover have "\<forall>t. 0 \<le> bu_estimate ?B t" by (simp add: demo_builder_def)
  ultimately have "bu_retrieve ?B (retrieval_query ?B demo_small_request) (br_scope demo_small_request) (bu_limit ?B)
      = Broken (ContextBudgetExceeded 9 5)
    \<or> (\<exists>s. ContextBudgetExceeded 9 5 = ContextBudgetExceeded (build_tokens ?B s) (usable_tokens (br_budget demo_small_request))
         \<and> core (bs_request s) = core demo_small_request \<and> bs_memories s = [])"
    using context_refused_minimal [of ?B demo_small_request "ContextBudgetExceeded 9 5"] by auto
  then show ?thesis by auto
qed

section \<open>A text that is kept nowhere\<close>

text \<open>A constraint of the project that equals a memory's text is dropped as a duplicate of it; the memory
  is then dropped over the soft cap, so the constraint is in neither section.\<close>

definition demo_constraint :: project_context where
  "demo_constraint = \<lparr>pc_identity = ''p'', pc_goal = None, pc_phase = None, pc_constraints = [''keep it short''],
     pc_decisions = [], pc_status = None, pc_history = []\<rparr>"

definition demo_constrained :: build where
  "demo_constrained = \<lparr>bs_request = demo_build_request\<lparr>br_project := Some demo_constraint, br_budget := default_context_budget\<lparr>bd_memory := 10\<rparr>\<rparr>,
     bs_memories = [demo_hit\<lparr>hm_id := ''m0'', hm_content := ''likes tea'', hm_score := 1\<rparr>, demo_hit],
     bs_bodies = Map.empty, bs_files = [], bs_project_history = [], bs_task_history = [], bs_dropped = [], bs_truncated = [],
     bs_marked = [], bs_by_reason = []\<rparr>"

lemma constraint_kept_nowhere:
  "let s = rank_memories (demo_builder id) (select_unique (demo_builder id) demo_constrained) in
     map hm_content (bs_memories s) = [''likes tea'']
     \<and> map_option pc_constraints (br_project (bs_request s)) = Some []"
proof -
  have e: "block_tokens (demo_builder id) m x = 9" "bu_redact (demo_builder id) y = y" for m x y
    by (simp_all add: block_tokens_def demo_builder_def)
  show ?thesis
    by (simp add: rank_memories_def select_unique_def Let_def e demo_constrained_def demo_hit_def memory_body_def
        dedupe_project_def dedupe_task_def demo_build_request_def demo_constraint_def dedupe_optional_def dedupe_tuple_def
        cap_memories.simps memories_tokens_def pop_memory_def drop_item_def memory_rank_def default_context_budget_def truthy_def)
qed

end
