(* ===== verification/RegexLang.thy ===== *)
theory RegexLang
  imports TextNormal
begin

text \<open>
  What the matcher of \<open>Regex\<close> finds, as languages. \<open>lang\<close> gives the words of a pattern that
  looks at nothing but the characters it consumes; the matcher finds exactly the parts of the text
  that are such words, whatever its order of trying and its bound on repetitions. For patterns
  between two word boundaries this decides where they occur, and what is left of them after
  \<open>sub\<close>.
\<close>

section \<open>The words of a pattern\<close>

abbreviation part :: "'a list \<Rightarrow> nat \<Rightarrow> nat \<Rightarrow> 'a list" where
  "part cs i j \<equiv> take (j - i) (drop i cs)"

inductive lang :: "unicode \<Rightarrow> bool \<Rightarrow> rx \<Rightarrow> string list \<Rightarrow> bool" for U ci where
  lang_lit: "c \<in> set (stands_for U ci ch) \<Longrightarrow> lang U ci (Lit c) [ch]"
| lang_cls: "cls_ok U ci pos items ch \<Longrightarrow> lang U ci (Cls pos items) [ch]"
| lang_seq: "list_all2 (lang U ci) rs ws \<Longrightarrow> lang U ci (Seq rs) (concat ws)"
| lang_alt: "r \<in> set rs \<Longrightarrow> lang U ci r w \<Longrightarrow> lang U ci (Alt rs) w"
| lang_rep: "list_all (lang U ci r) ws \<Longrightarrow> lo \<le> length ws
    \<Longrightarrow> (case hi of None \<Rightarrow> True | Some h \<Rightarrow> length ws \<le> max lo h) \<Longrightarrow> [] \<notin> set (drop lo ws)
    \<Longrightarrow> lang U ci (Rep greedy lo hi r) (concat ws)"
| lang_grp: "lang U ci r w \<Longrightarrow> lang U ci (Grp n r) w"

inductive_simps lang_simps:
  "lang U ci (Lit c) w" "lang U ci (Cls pos items) w" "lang U ci (Seq rs) w" "lang U ci (Alt rs) w"
  "lang U ci (Rep greedy lo hi r) w" "lang U ci (Grp n r) w"

fun consuming :: "rx \<Rightarrow> bool" where
  "consuming (Lit c) = True"
| "consuming (Cls pos items) = True"
| "consuming (Seq rs) = list_all consuming rs"
| "consuming (Alt rs) = list_all consuming rs"
| "consuming (Rep greedy lo hi r) = consuming r"
| "consuming (Grp n r) = consuming r"
| "consuming _ = False"

lemma part_append: "i \<le> m \<Longrightarrow> m \<le> j \<Longrightarrow> part cs i j = part cs i m @ part cs m j"
proof -
  assume "i \<le> m" "m \<le> j"
  then have j: "j - i = (m - i) + (j - m)" by simp
  show ?thesis unfolding j take_add drop_drop using \<open>i \<le> m\<close> by simp
qed

lemma part_split:
  assumes "part cs i j = x @ y" "i \<le> j" "j \<le> length cs"
  shows "i + length x \<le> j" "part cs i (i + length x) = x" "part cs (i + length x) j = y"
proof -
  have "length (x @ y) = j - i" unfolding assms(1) [symmetric] using assms(2,3) by simp
  then have l: "length x + length y = j - i" by simp
  then show le: "i + length x \<le> j" using assms(2) by linarith
  have "part cs i j = part cs i (i + length x) @ part cs (i + length x) j"
    using le by (intro part_append) simp_all
  moreover have "length (part cs i (i + length x)) = length x" using le assms(3) by simp
  ultimately show "part cs i (i + length x) = x" "part cs (i + length x) j = y"
    using assms(1) by (metis append_eq_append_conv)+
qed

text \<open>A matcher of single steps that finds exactly the words of \<open>L\<close>.\<close>

definition finds :: "string list \<Rightarrow> (nat \<times> caps \<Rightarrow> (nat \<times> caps) list) \<Rightarrow> (string list \<Rightarrow> bool) \<Rightarrow> bool" where
  "finds cs f L \<longleftrightarrow> (\<forall>i g j. i \<le> length cs \<longrightarrow>
     (\<exists>g'. (j, g') \<in> set (f (i, g))) = (i \<le> j \<and> j \<le> length cs \<and> L (part cs i j)))"

lemma findsD:
  assumes "finds cs f L" "i \<le> length cs"
  shows "(j, g') \<in> set (f (i, g)) \<Longrightarrow> i \<le> j \<and> j \<le> length cs \<and> L (part cs i j)"
    and "i \<le> j \<Longrightarrow> j \<le> length cs \<Longrightarrow> L (part cs i j) \<Longrightarrow> \<exists>g'. (j, g') \<in> set (f (i, g))"
  using assms unfolding finds_def by blast+

lemma iter_sound:
  assumes "finds cs f L"
  shows "(j, g') \<in> set (rx_iter f greedy lo hi k (i, g)) \<Longrightarrow> i \<le> length cs \<Longrightarrow>
    i \<le> j \<and> j \<le> length cs \<and> (\<exists>ws. part cs i j = concat ws \<and> list_all L ws \<and> lo \<le> length ws
      \<and> (case hi of None \<Rightarrow> True | Some h \<Rightarrow> length ws \<le> max lo h) \<and> [] \<notin> set (drop lo ws))"
proof (induction k arbitrary: lo hi i g)
  case 0
  then show ?case by (auto split: if_splits option.splits intro!: exI [of _ "[]"])
next
  case (Suc k)
  show ?case
  proof (cases "lo = 0 \<and> (j, g') = (i, g)")
    case True
    then show ?thesis using Suc.prems by (auto split: option.splits intro!: exI [of _ "[]"])
  next
    case False
    then obtain m g1 where m: "(m, g1) \<in> set (f (i, g))" "lo = 0 \<longrightarrow> i < m \<and> hi \<noteq> Some 0"
      "(j, g') \<in> set (rx_iter f greedy (lo - 1) (map_option (\<lambda>h. h - 1) hi) k (m, g1))"
      using Suc.prems(1) by (cases lo) (auto simp: Let_def split: if_splits)
    have im: "i \<le> m" "m \<le> length cs" "L (part cs i m)" using findsD(1) [OF assms Suc.prems(2) m(1)] by auto
    obtain ws where ws: "part cs m j = concat ws" "list_all L ws" "lo - 1 \<le> length ws" "m \<le> j" "j \<le> length cs"
      "case map_option (\<lambda>h. h - 1) hi of None \<Rightarrow> True | Some h \<Rightarrow> length ws \<le> max (lo - 1) h"
      "[] \<notin> set (drop (lo - 1) ws)" using Suc.IH [OF m(3) im(2)] by blast
    have "part cs i j = concat (part cs i m # ws)" 
      by (simp only: part_append [OF im(1) ws(4), where cs = cs] ws(1) concat.simps)
    moreover have "[] \<notin> set (drop lo (part cs i m # ws))"
      using ws(7) m(2) im by (cases lo) auto
    moreover have "case hi of None \<Rightarrow> True | Some h \<Rightarrow> length (part cs i m # ws) \<le> max lo h"
      using ws(6) m(2) by (cases hi; cases lo) (auto simp: max_def split: if_splits)
    ultimately show ?thesis using im ws(2-5) by (intro conjI exI [of _ "part cs i m # ws"]) auto
  qed
qed

lemma iter_complete:
  assumes "finds cs f L"
  shows "part cs i j = concat ws \<Longrightarrow> list_all L ws \<Longrightarrow> lo \<le> length ws
    \<Longrightarrow> (case hi of None \<Rightarrow> True | Some h \<Rightarrow> length ws \<le> max lo h) \<Longrightarrow> [] \<notin> set (drop lo ws)
    \<Longrightarrow> i \<le> j \<Longrightarrow> j \<le> length cs \<Longrightarrow> lo + (j - i) < k
    \<Longrightarrow> \<exists>g'. (j, g') \<in> set (rx_iter f greedy lo hi k (i, g))"
proof (induction ws arbitrary: lo hi k i g)
  case Nil
  then have "i = j" "lo = 0" by auto
  with Nil.prems(8) obtain k' where "k = Suc k'" by (cases k) auto
  then show ?case using \<open>i = j\<close> \<open>lo = 0\<close> by (auto simp: Let_def)
next
  case (Cons w ws)
  then obtain k' where k: "k = Suc k'" by (cases k) auto
  let ?m = "i + length w"
  have p: "?m \<le> j" "part cs i ?m = w" "part cs ?m j = concat ws"
    using part_split [where cs = cs and i = i and j = j and x = w and y = "concat ws"] Cons.prems by auto
  obtain g1 where g1: "(?m, g1) \<in> set (f (i, g))"
    using findsD(2) [OF assms, of i ?m g] p Cons.prems by auto
  have nz: "0 < length w" "hi \<noteq> Some 0" if "lo = 0" using Cons.prems that by auto
  have hi: "case map_option (\<lambda>h. h - 1) hi of None \<Rightarrow> True | Some h \<Rightarrow> length ws \<le> max (lo - 1) h"
    using Cons.prems(4) by (cases hi; cases lo) auto
  have d: "[] \<notin> set (drop (lo - 1) ws)" using Cons.prems(5) by (cases lo) auto
  have "lo - 1 + (j - ?m) < k'" 
    using Cons.prems(8) p(1) nz(1) unfolding k by (cases "lo = 0") linarith+
  from Cons.IH [OF p(3) _ _ hi d p(1) _ this] Cons.prems
  obtain g' where g': "(j, g') \<in> set (rx_iter f greedy (lo - 1) (map_option (\<lambda>h. h - 1) hi) k' (?m, g1))"
    by (cases lo) auto
  show ?case
  proof (cases lo)
    case 0
    with nz g1 g' show ?thesis unfolding k by (auto simp: Let_def intro!: exI [of _ g'] bexI [OF _ g1])
  next
    case (Suc lo')
    with g1 g' show ?thesis unfolding k by (auto intro!: exI [of _ g'] bexI [OF _ g1])
  qed
qed

lemma seq_finds:
  "\<forall>r\<in>set rs. finds cs (rx_match U ci cs r) (lang U ci r) \<Longrightarrow>
   finds cs (rx_seq U ci cs rs) (\<lambda>w. \<exists>ws. list_all2 (lang U ci) rs ws \<and> w = concat ws)"
proof (induction rs)
  case Nil
  then show ?case by (auto simp: finds_def)
next
  case (Cons r rs)
  let ?L = "\<lambda>rs w. \<exists>ws. list_all2 (lang U ci) rs ws \<and> w = concat ws"
  have r: "finds cs (rx_match U ci cs r) (lang U ci r)" and rs: "finds cs (rx_seq U ci cs rs) (?L rs)"
    using Cons by auto
  show ?case unfolding finds_def
  proof (intro allI impI iffI)
    fix i g j assume i: "i \<le> length cs" and "\<exists>g'. (j, g') \<in> set (rx_seq U ci cs (r # rs) (i, g))"
    then obtain m g1 g' where m: "(m, g1) \<in> set (rx_match U ci cs r (i, g))" "(j, g') \<in> set (rx_seq U ci cs rs (m, g1))"
      by auto
    note a = findsD(1) [OF r i m(1)]
    then have b: "m \<le> j \<and> j \<le> length cs \<and> ?L rs (part cs m j)" using findsD(1) [OF rs _ m(2)] by blast
    then obtain ws where "list_all2 (lang U ci) rs ws" "part cs m j = concat ws" by blast
    then show "i \<le> j \<and> j \<le> length cs \<and> ?L (r # rs) (part cs i j)"
      using a b part_append [where cs = cs and i = i and m = m and j = j] by (intro conjI exI [of _ "part cs i m # ws"]) auto
  next
    fix i g j assume i: "i \<le> length cs" and j: "i \<le> j \<and> j \<le> length cs \<and> ?L (r # rs) (part cs i j)"
    then obtain w ws where w: "part cs i j = w @ concat ws" "lang U ci r w" "list_all2 (lang U ci) rs ws"
      by (auto simp: list_all2_Cons1)
    let ?m = "i + length w"
    have p: "?m \<le> j" "part cs i ?m = w" "part cs ?m j = concat ws" using part_split [OF w(1)] j by auto
    obtain g1 where "(?m, g1) \<in> set (rx_match U ci cs r (i, g))" using findsD(2) [OF r i, of ?m g] p j w(2) by auto
    moreover obtain g' where "(j, g') \<in> set (rx_seq U ci cs rs (?m, g1))"
      using findsD(2) [OF rs, of ?m j g1] p j w(3) by auto
    ultimately show "\<exists>g'. (j, g') \<in> set (rx_seq U ci cs (r # rs) (i, g))" by auto
  qed
qed

lemma set_rx_alt: "set (rx_alt U ci cs rs st) = (\<Union>r\<in>set rs. set (rx_match U ci cs r st))"
  by (induction rs) auto

lemma part_one: "i \<le> j \<Longrightarrow> j \<le> length cs \<Longrightarrow> part cs i j = [c] \<longleftrightarrow> j = Suc i \<and> cs ! i = c"
proof -
  assume a: "i \<le> j" "j \<le> length cs"
  show ?thesis
  proof (cases "j = Suc i")
    case True
    then show ?thesis using a by (simp add: Cons_nth_drop_Suc [symmetric])
  next
    case False
    have "length (part cs i j) \<noteq> 1" using a False by simp
    then show ?thesis using False by (metis One_nat_def length_Cons list.size(3))
  qed
qed

lemma step_finds:
  assumes "\<And>i g. f (i, g) = (if at_char cs i P then [(i + 1, g)] else [])" "\<And>w. L w \<longleftrightarrow> (\<exists>ch. w = [ch] \<and> P ch)"
  shows "finds cs f L"
proof -
  have one: "take (Suc 0) (drop i cs) = [cs ! i]" if "i < length cs" for i
    using that by (simp add: take_Suc hd_drop_conv_nth)
  show ?thesis unfolding finds_def assms by (auto simp: at_char_def part_one one split: if_splits)
qed

lemma alt_finds:
  assumes "\<forall>r\<in>set rs. finds cs (rx_match U ci cs r) (lang U ci r)"
  shows "finds cs (rx_match U ci cs (Alt rs)) (lang U ci (Alt rs))"
  unfolding finds_def rx_match.simps set_rx_alt lang_simps
proof (intro allI impI iffI)
  fix i g j assume i: "i \<le> length cs" and "\<exists>g'. (j, g') \<in> (\<Union>r\<in>set rs. set (rx_match U ci cs r (i, g)))"
  then obtain r g' where r: "r \<in> set rs" "(j, g') \<in> set (rx_match U ci cs r (i, g))" by blast
  have "finds cs (rx_match U ci cs r) (lang U ci r)" using assms r(1) by blast
  from findsD(1) [OF this i r(2)] r(1)
  show "i \<le> j \<and> j \<le> length cs \<and> (\<exists>r. r \<in> set rs \<and> lang U ci r (part cs i j))" by blast
next
  fix i g j assume i: "i \<le> length cs" and "i \<le> j \<and> j \<le> length cs \<and> (\<exists>r. r \<in> set rs \<and> lang U ci r (part cs i j))"
  then obtain r where r: "r \<in> set rs" "i \<le> j" "j \<le> length cs" "lang U ci r (part cs i j)" by blast
  have "finds cs (rx_match U ci cs r) (lang U ci r)" using assms r(1) by blast
  from findsD(2) [OF this i r(2-4)] r(1) show "\<exists>g'. (j, g') \<in> (\<Union>r\<in>set rs. set (rx_match U ci cs r (i, g)))" by blast
qed

lemma rep_finds:
  assumes f: "finds cs (rx_match U ci cs r) (lang U ci r)"
  shows "finds cs (rx_match U ci cs (Rep greedy lo hi r)) (lang U ci (Rep greedy lo hi r))"
  unfolding finds_def
proof (intro allI impI iffI)
  fix i g j assume i: "i \<le> length cs" and "\<exists>g'. (j, g') \<in> set (rx_match U ci cs (Rep greedy lo hi r) (i, g))"
  then obtain g' where "(j, g') \<in> set (rx_iter (rx_match U ci cs r) greedy lo hi (lo + (length cs - i) + 1) (i, g))"
    by auto
  from iter_sound [OF f this i] show "i \<le> j \<and> j \<le> length cs \<and> lang U ci (Rep greedy lo hi r) (part cs i j)"
    unfolding lang_simps by blast
next
  fix i g j assume "i \<le> length cs" and j: "i \<le> j \<and> j \<le> length cs \<and> lang U ci (Rep greedy lo hi r) (part cs i j)"
  then obtain ws where ws: "part cs i j = concat ws" "list_all (lang U ci r) ws" "lo \<le> length ws"
    "case hi of None \<Rightarrow> True | Some h \<Rightarrow> length ws \<le> max lo h" "[] \<notin> set (drop lo ws)"
    unfolding lang_simps by blast
  have "lo + (j - i) < lo + (length cs - i) + 1" using j by linarith
  from iter_complete [OF f ws _ _ this] j show "\<exists>g'. (j, g') \<in> set (rx_match U ci cs (Rep greedy lo hi r) (i, g))"
    unfolding rx_match.simps by blast
qed

lemma seq_lang: "lang U ci (Seq rs) = (\<lambda>w. \<exists>ws. list_all2 (lang U ci) rs ws \<and> w = concat ws)"
  by (rule ext) (simp add: lang_simps conj_commute)

lemma grp_match: "(\<exists>g'. (j, g') \<in> set (rx_match U ci cs (Grp n r) (i, g))) \<longleftrightarrow> (\<exists>g'. (j, g') \<in> set (rx_match U ci cs r (i, g)))"
proof
  assume "\<exists>g'. (j, g') \<in> set (rx_match U ci cs r (i, g))"
  then obtain g' where "(j, g') \<in> set (rx_match U ci cs r (i, g))" by blast
  then have "(j, (n, i, j) # g') \<in> set (rx_match U ci cs (Grp n r) (i, g))" by force
  then show "\<exists>g'. (j, g') \<in> set (rx_match U ci cs (Grp n r) (i, g))" by blast
qed auto

lemma grp_finds:
  "finds cs (rx_match U ci cs r) (lang U ci r) \<Longrightarrow> finds cs (rx_match U ci cs (Grp n r)) (lang U ci (Grp n r))"
  unfolding finds_def lang_simps grp_match .

theorem match_finds: "consuming r \<Longrightarrow> finds cs (rx_match U ci cs r) (lang U ci r)"
proof (induction r)
  case (Lit c)
  show ?case by (rule step_finds [where P = "\<lambda>ch. list_ex (\<lambda>v. v = c) (stands_for U ci ch)"]) (auto simp: lang_simps list_ex_iff)
next
  case (Cls pos items)
  show ?case by (rule step_finds [where P = "cls_ok U ci pos items"]) (auto simp: lang_simps)
next
  case (Seq rs)
  then have f: "\<forall>r\<in>set rs. finds cs (rx_match U ci cs r) (lang U ci r)" by (simp add: list_all_iff)
  have "rx_match U ci cs (Seq rs) = rx_seq U ci cs rs" by (rule ext) simp
  then show ?case using seq_finds [OF f] by (simp only: seq_lang)
next
  case (Alt rs)
  show ?case by (rule alt_finds) (use Alt in \<open>simp add: list_all_iff\<close>)
next
  case (Rep greedy lo hi r)
  show ?case by (rule rep_finds) (use Rep in simp)
next
  case (Grp n r)
  show ?case by (rule grp_finds) (use Grp in simp)
qed simp_all

end
