(* ===== verification/RegexGuarded.thy ===== *)
theory RegexGuarded
  imports RegexLang
begin

text \<open>
  Patterns between two word boundaries: where they occur in a text, that an occurrence is never
  split by a character outside their alphabet, and that replacing the matches by a text in brackets
  leaves none, and makes none of another such pattern.
\<close>

definition guarded :: "rx list \<Rightarrow> rx" where
  "guarded rs = Seq (Bnd # rs @ [Bnd])"

definition bnd :: "unicode \<Rightarrow> string list \<Rightarrow> nat \<Rightarrow> bool" where
  "bnd U cs i \<longleftrightarrow> before_char cs i (is_word U) \<noteq> at_char cs i (is_word U)"

definition key_at :: "unicode \<Rightarrow> rx list \<Rightarrow> string list \<Rightarrow> nat \<Rightarrow> nat \<Rightarrow> bool" where
  "key_at U rs cs i j \<longleftrightarrow> i \<le> j \<and> j \<le> length cs \<and> bnd U cs i \<and> bnd U cs j \<and> lang U False (Seq rs) (part cs i j)"

definition has_key :: "unicode \<Rightarrow> rx list \<Rightarrow> string list \<Rightarrow> bool" where
  "has_key U rs cs \<longleftrightarrow> (\<exists>i j. key_at U rs cs i j)"

lemma set_rx_seq_append:
  "set (rx_seq U ci cs (rs @ ss) st) = (\<Union>st'\<in>set (rx_seq U ci cs rs st). set (rx_seq U ci cs ss st'))"
  by (induction rs arbitrary: st) auto

lemma guarded_match:
  assumes "list_all consuming rs" "i \<le> length cs"
  shows "(\<exists>g. (j, g) \<in> set (rx_match U False cs (guarded rs) (i, []))) \<longleftrightarrow> key_at U rs cs i j"
proof -
  have "consuming (Seq rs)" using assms(1) by simp
  from match_finds [OF this] assms(2)
  have "(\<exists>g. (j, g) \<in> set (rx_seq U False cs rs (i, []))) \<longleftrightarrow> i \<le> j \<and> j \<le> length cs \<and> lang U False (Seq rs) (part cs i j)"
    by (simp add: finds_def)
  moreover have "set (rx_match U False cs (guarded rs) (i, []))
      = (if bnd U cs i then {(k, g). (k, g) \<in> set (rx_seq U False cs rs (i, [])) \<and> bnd U cs k} else {})"
    by (auto simp: guarded_def set_rx_seq_append bnd_def split: if_splits)
  ultimately show ?thesis by (auto simp: key_at_def)
qed

text \<open>The leftmost match.\<close>

lemma rx_from_Some:
  "rx_from U ci r cs [i..<n] = Some m \<Longrightarrow>
   i \<le> sp_from m \<and> sp_from m < n \<and> (\<exists>g. (sp_to m, g) \<in> set (rx_match U ci cs r (sp_from m, [])))
   \<and> (\<forall>p. i \<le> p \<and> p < sp_from m \<longrightarrow> rx_match U ci cs r (p, []) = [])"
proof (induction "n - i" arbitrary: i)
  case (Suc k)
  then have u: "[i..<n] = i # [Suc i..<n]" by (simp add: upt_conv_Cons)
  show ?case
  proof (cases "rx_match U ci cs r (i, [])")
    case Nil
    then have "rx_from U ci r cs [Suc i..<n] = Some m" using Suc.prems u by (simp add: rx_at_def)
    moreover have "k = n - Suc i" using Suc.hyps(2) by simp
    ultimately have "Suc i \<le> sp_from m \<and> sp_from m < n \<and> (\<exists>g. (sp_to m, g) \<in> set (rx_match U ci cs r (sp_from m, [])))
      \<and> (\<forall>p. Suc i \<le> p \<and> p < sp_from m \<longrightarrow> rx_match U ci cs r (p, []) = [])" using Suc.hyps(1) by blast
    with Nil show ?thesis by (metis Suc_le_eq le_less less_imp_le_nat)
  next
    case (Cons a as)
    then have "m = \<lparr>sp_from = i, sp_to = fst a, sp_caps = snd a\<rparr>" using Suc.prems u by (cases a) (simp add: rx_at_def)
    with Cons Suc.hyps(2) show ?thesis by (cases a) auto
  qed
qed simp

lemma rx_from_None: "rx_from U ci r cs is = None \<Longrightarrow> p \<in> set is \<Longrightarrow> rx_match U ci cs r (p, []) = []"
  by (induction "is") (auto simp: rx_at_def split: list.splits option.splits)

lemma guarded_find:
  assumes "list_all consuming rs"
  shows "rx_find U False (guarded rs) cs i = None \<Longrightarrow> i \<le> p \<Longrightarrow> \<not> key_at U rs cs p j"
    and "rx_find U False (guarded rs) cs i = Some m \<Longrightarrow>
      i \<le> sp_from m \<and> key_at U rs cs (sp_from m) (sp_to m) \<and> (\<forall>p j. i \<le> p \<longrightarrow> p < sp_from m \<longrightarrow> \<not> key_at U rs cs p j)"
proof -
  have none: "\<not> key_at U rs cs p j" if "rx_match U False cs (guarded rs) (p, []) = []" "p \<le> length cs" for p j
    using guarded_match [OF assms that(2), where j = j and U = U] that(1) by simp
  have le: "p \<le> length cs" if "key_at U rs cs p j" for p j using that by (simp add: key_at_def)
  show "\<not> key_at U rs cs p j" if "rx_find U False (guarded rs) cs i = None" "i \<le> p"
  proof
    assume k: "key_at U rs cs p j"
    have "p < length cs + 1" using le [OF k] by simp
    then have "p \<in> set [i..<length cs + 1]" using that(2) by (simp only: set_upt atLeastLessThan_iff simp_thms)
    from none [OF rx_from_None [OF that(1) [unfolded rx_find_def] this] le [OF k]] k show False by blast
  qed
  assume "rx_find U False (guarded rs) cs i = Some m"
  note m = rx_from_Some [OF this [unfolded rx_find_def]]
  then have "sp_from m \<le> length cs" by simp
  with m guarded_match [OF assms this] none
  show "i \<le> sp_from m \<and> key_at U rs cs (sp_from m) (sp_to m) \<and> (\<forall>p j. i \<le> p \<longrightarrow> p < sp_from m \<longrightarrow> \<not> key_at U rs cs p j)"
    by (meson le)
qed

lemma guarded_search:
  assumes "list_all consuming rs"
  shows "rx_search U False (guarded rs) s \<longleftrightarrow> has_key U rs (py_chars s)"
  using guarded_find [OF assms, of U "py_chars s" 0]
  by (cases "rx_find U False (guarded rs) (py_chars s) 0") (auto simp: rx_search_def has_key_def)

section \<open>Alphabet and length\<close>

text \<open>Patterns that consume none of the characters \<open>ds\<close>, and the least length of a word.\<close>

fun avoids :: "unicode \<Rightarrow> string list \<Rightarrow> rx \<Rightarrow> bool" where
  "avoids U ds (Lit c) = (c \<notin> set ds)"
| "avoids U ds (Cls pos items) = (pos \<and> list_all (\<lambda>d. \<not> list_ex (in_cls U d) items) ds)"
| "avoids U ds (Seq rs) = list_all (avoids U ds) rs"
| "avoids U ds (Alt rs) = list_all (avoids U ds) rs"
| "avoids U ds (Rep greedy lo hi r) = avoids U ds r"
| "avoids U ds (Grp n r) = avoids U ds r"
| "avoids U ds _ = False"

fun least :: "rx \<Rightarrow> nat" where
  "least (Lit c) = 1"
| "least (Cls pos items) = 1"
| "least (Seq rs) = sum_list (map least rs)"
| "least (Rep greedy lo hi r) = lo * least r"
| "least (Grp n r) = least r"
| "least _ = 0"

lemma avoids_consuming: "avoids U ds r \<Longrightarrow> consuming r"
  by (induction r) (auto simp: list_all_iff)

lemma avoids_lang: "lang U False r w \<Longrightarrow> avoids U ds r \<Longrightarrow> set w \<inter> set ds = {}"
proof (induction rule: lang.induct)
  case (lang_cls pos items ch)
  then show ?case by (auto simp: cls_ok_def stands_for_def list_all_iff list_ex_iff)
next
  case (lang_seq rs ws)
  then have "list_all2 (\<lambda>r w. avoids U ds r \<longrightarrow> set w \<inter> set ds = {}) rs ws" "list_all (avoids U ds) rs"
    by (auto elim: list_all2_mono)
  then have "\<forall>w\<in>set ws. set w \<inter> set ds = {}" by (induction rule: list_all2_induct) auto
  then show ?case by auto
next
  case (lang_rep r ws lo hi greedy)
  then show ?case by (auto simp: list_all_iff)
qed (auto simp: stands_for_def list_all_iff)

lemma sum_least:
  "list_all2 (\<lambda>r w. least r \<le> length w) rs ws \<Longrightarrow> sum_list (map least rs) \<le> length (concat ws)"
  by (induction rule: list_all2_induct) auto

lemma mult_least: "list_all (\<lambda>w. n \<le> length w) ws \<Longrightarrow> length ws * n \<le> length (concat ws)"
  by (induction ws) auto

lemma least_lang: "lang U ci r w \<Longrightarrow> least r \<le> length w"
proof (induction rule: lang.induct)
  case (lang_seq rs ws)
  have "list_all2 (\<lambda>r w. least r \<le> length w) rs ws" using lang_seq by (rule list_all2_mono) simp
  then show ?case by (simp only: least.simps sum_least)
next
  case (lang_rep r ws lo hi greedy)
  then have "length ws * least r \<le> length (concat ws)" by (intro mult_least) (simp add: list_all_iff)
  with lang_rep(2) show ?case by (metis least.simps(4) mult_le_mono1 order_trans)
qed auto

section \<open>Parts of a text\<close>

lemma before_shift: "0 < p \<Longrightarrow> p \<le> e - i \<Longrightarrow> e \<le> length cs \<Longrightarrow> i \<le> e \<Longrightarrow>
   before_char (part cs i e) p P = before_char cs (i + p) P"
  by (auto simp: before_char_def)

lemma at_shift: "p < e - i \<Longrightarrow> e \<le> length cs \<Longrightarrow> i \<le> e \<Longrightarrow> at_char (part cs i e) p P = at_char cs (i + p) P"
  by (auto simp: at_char_def)

lemma bnd_shift:
  assumes "i \<le> e" "e \<le> length cs" "p \<le> e - i" "i = 0 \<or> bnd U cs i" "e = length cs \<or> bnd U cs e" "bnd U (part cs i e) p"
  shows "bnd U cs (i + p)"
proof (cases "p = 0")
  case True
  then have "i = 0 \<Longrightarrow> ?thesis"
    using assms(2,6) by (cases "e = 0") (auto simp: bnd_def before_char_def at_char_def)
  with True assms(4) show ?thesis by auto
next
  case False
  show ?thesis
  proof (cases "p = e - i")
    case True
    then have e: "i + p = e" using assms(1) by simp
    have "e = length cs \<Longrightarrow> ?thesis"
      using assms(6) before_shift [of p e i cs "is_word U"] False True assms(1,2) by (auto simp: bnd_def at_char_def)
    with e assms(5) show ?thesis by auto
  next
    case f: False
    then show ?thesis
      using assms(6) before_shift [of p e i cs "is_word U"] at_shift [of p e i cs "is_word U"] False assms(1-3)
      by (simp add: bnd_def)
  qed
qed

lemma key_shift:
  assumes "i \<le> e" "e \<le> length cs" "i = 0 \<or> bnd U cs i" "e = length cs \<or> bnd U cs e" "key_at U rs (part cs i e) p q"
  shows "key_at U rs cs (i + p) (i + q)"
proof -
  have q: "p \<le> q" "q \<le> e - i" using assms(5) assms(1,2) by (auto simp: key_at_def)
  have "part (part cs i e) p q = part cs (i + p) (i + q)"
    using q by (simp add: take_drop add.commute min_def)
  then show ?thesis
    using assms q bnd_shift [OF assms(1,2) _ assms(3,4)] by (auto simp: key_at_def)
qed

section \<open>Separators\<close>

text \<open>A character outside the alphabet that is no word character separates the occurrences.\<close>

lemma part_left: "j \<le> length x \<Longrightarrow> part (x @ y) i j = part x i j"
  by simp

lemma part_right: "length x \<le> i \<Longrightarrow> part (x @ y) i j = part y (i - length x) (j - length x)"
  by simp

lemma key_separated:
  assumes "avoids U [d] (Seq rs)" "\<not> is_word U d"
  shows "has_key U rs (x @ d # y) \<longleftrightarrow> has_key U rs x \<or> has_key U rs y"
proof -
  let ?n = "length x" and ?cs = "x @ d # y"
  have left: "bnd U ?cs i \<longleftrightarrow> bnd U x i" if "i \<le> ?n" for i
    using that assms(2) by (cases "i = ?n") (auto simp: bnd_def before_char_def at_char_def nth_append)
  have right: "bnd U ?cs (Suc ?n + i) \<longleftrightarrow> bnd U y i" for i
    using assms(2) by (cases i) (auto simp: bnd_def before_char_def at_char_def nth_append)
  have l: "key_at U rs ?cs i j \<longleftrightarrow> key_at U rs x i j" if "j \<le> ?n" for i j
    using that left [of i] left [of j] by (auto simp: key_at_def)
  have r: "key_at U rs ?cs (Suc ?n + i) (Suc ?n + j) \<longleftrightarrow> key_at U rs y i j" for i j
    using right [of i] right [of j] by (auto simp: key_at_def)
  have "j \<le> ?n \<or> ?n < i" if "key_at U rs ?cs i j" for i j
  proof (rule ccontr)
    assume "\<not> (j \<le> ?n \<or> ?n < i)"
    then have ij: "i \<le> ?n" "?n < j" by auto
    from that have k: "lang U False (Seq rs) (part ?cs i j)" "j \<le> length ?cs" by (auto simp: key_at_def)
    have "part ?cs i j = part ?cs i ?n @ part ?cs ?n j" using ij by (intro part_append) auto
    moreover have "j - ?n = Suc (j - Suc ?n)" using ij by simp
    then have "part ?cs ?n j = d # take (j - Suc ?n) y" by simp
    ultimately have "d \<in> set (part ?cs i j)" by simp
    then show False using avoids_lang [OF k(1) assms(1)] by simp
  qed
  then show ?thesis unfolding has_key_def using l r
    by (metis Suc_leI le_add_diff_inverse key_at_def le_trans less_imp_le_nat)
qed

lemma short_no_key: "length x < least (Seq rs) \<Longrightarrow> \<not> has_key U rs x"
  by (auto simp: has_key_def key_at_def dest!: least_lang)

section \<open>Replacing the matches\<close>

fun replaced :: "string list \<Rightarrow> string list \<Rightarrow> nat \<Rightarrow> span list \<Rightarrow> string list" where
  "replaced new cs i [] = part cs i (length cs)"
| "replaced new cs i (m # ms) = part cs i (sp_from m) @ new @ replaced new cs (sp_to m) ms"

definition brackets :: "string list" where
  "brackets = [''['', '']'']"

text \<open>A key pattern: it consumes no bracket, and its words are longer than \<open>n\<close>.\<close>

definition key_pattern :: "unicode \<Rightarrow> nat \<Rightarrow> rx list \<Rightarrow> bool" where
  "key_pattern U n rs \<longleftrightarrow> list_all (\<lambda>d. avoids U [d] (Seq rs)) brackets \<and> n < least (Seq rs)"

lemma key_pattern_consuming: "key_pattern U n rs \<Longrightarrow> list_all consuming rs"
  using avoids_consuming [of U "[''['']" "Seq rs"] by (simp add: key_pattern_def brackets_def)

lemma key_in_brackets:
  assumes "key_pattern U (length body) rs" "\<not> has_key U rs x" "\<not> has_key U rs y"
  shows "\<not> has_key U rs (x @ (''['' # body @ ['']'']) @ y)"
proof -
  have a: "avoids U [''[''] (Seq rs)" "avoids U ['']''] (Seq rs)" "length body < least (Seq rs)"
    using assms(1) by (auto simp: key_pattern_def brackets_def)
  have w: "\<not> is_word U ''[''" "\<not> is_word U '']''" by (simp_all add: is_word_def ascii_in_def byte_def)
  show ?thesis
    using assms(2,3) short_no_key [OF a(3)] key_separated [OF a(1) w(1), of x "body @ '']'' # y"]
      key_separated [OF a(2) w(2), of body y] by simp
qed

lemma replaced_no_key:
  assumes "key_pattern U (length body) rs" "list_all consuming rs0" "0 < least (Seq rs0)"
    "rs = rs0 \<or> \<not> has_key U rs cs"
  shows "i \<le> length cs \<Longrightarrow> length cs - i < k \<Longrightarrow> i = 0 \<or> bnd U cs i \<Longrightarrow>
    \<not> has_key U rs (replaced (''['' # body @ ['']'']) cs i (rx_all U False (guarded rs0) cs k i))"
proof (induction k arbitrary: i)
  case (Suc k)
  note find = guarded_find [OF assms(2), where U = U and cs = cs and i = i]
  have here: "\<not> has_key U rs (part cs i e)"
    if "i \<le> e" "e \<le> length cs" "e = length cs \<or> bnd U cs e" "\<forall>p j. i \<le> p \<longrightarrow> p < e \<longrightarrow> \<not> key_at U rs0 cs p j" for e
  proof
    assume "has_key U rs (part cs i e)"
    then obtain p q where k: "key_at U rs (part cs i e) p q" by (auto simp: has_key_def)
    have key: "key_at U rs cs (i + p) (i + q)" by (rule key_shift [OF that(1,2) Suc.prems(3) that(3) k])
    then have "rs = rs0" using assms(4) by (auto simp: has_key_def)
    moreover from this have "p < q" using k assms(3) least_lang [of U False "Seq rs0"] by (force simp: key_at_def)
    moreover have "q \<le> e - i" using k that(1,2) by (auto simp: key_at_def)
    ultimately show False using key that(4) by auto
  qed
  show ?case
  proof (cases "rx_find U False (guarded rs0) cs i")
    case None
    then show ?thesis using find(1) here [of "length cs"] Suc.prems(1) by simp
  next
    case (Some m)
    from find(2) [OF this] have m: "i \<le> sp_from m" "key_at U rs0 cs (sp_from m) (sp_to m)"
      "\<forall>p j. i \<le> p \<longrightarrow> p < sp_from m \<longrightarrow> \<not> key_at U rs0 cs p j" by blast+
    from m(2) have b: "bnd U cs (sp_from m)" "bnd U cs (sp_to m)" "sp_from m \<le> sp_to m" "sp_to m \<le> length cs"
      "lang U False (Seq rs0) (part cs (sp_from m) (sp_to m))" by (auto simp: key_at_def)
    have "least (Seq rs0) \<le> sp_to m - sp_from m" using least_lang [OF b(5)] by (simp del: least.simps)
    then have lt: "sp_from m < sp_to m" using assms(3) by linarith
    have "\<not> has_key U rs (replaced (''['' # body @ ['']'']) cs (sp_to m) (rx_all U False (guarded rs0) cs k (sp_to m)))"
      using lt m(1) b Suc.prems by (intro Suc.IH) linarith+
    moreover have "max (sp_to m) (Suc (sp_from m)) = sp_to m" using lt by simp
    ultimately show ?thesis using key_in_brackets [OF assms(1) here [OF m(1) _ _ m(3)]] b lt by (simp add: Some)
  qed
qed simp

text \<open>The same on strings: the result is the concatenation of the characters that \<open>replaced\<close> gives.\<close>

definition clean :: "unicode \<Rightarrow> rx list \<Rightarrow> string \<Rightarrow> bool" where
  "clean U rs s \<longleftrightarrow> \<not> has_key U rs (py_chars s)"

lemma concat_replaced:
  "concat (replaced new cs i ms) = interleave (rx_pieces cs i ms) (map (\<lambda>_. concat new) ms)"
  by (induction ms arbitrary: i) (simp_all add: slice_def)

definition start_char :: "string \<Rightarrow> bool" where
  "start_char ch \<longleftrightarrow> ch \<noteq> [] \<and> list_all is_cont (tl ch) \<and> \<not> is_cont (hd ch)"

lemma char_list_start: "char_list cs \<Longrightarrow> ch \<in> set (drop (Suc i) cs) \<Longrightarrow> start_char ch"
  unfolding char_list_def start_char_def
  by (metis drop_Suc in_set_dropD list.set_sel(2) list.sel(2))

lemma char_list_append: "char_list xs \<Longrightarrow> list_all start_char ys \<Longrightarrow> char_list (xs @ ys)"
  unfolding char_list_def start_char_def list_all_iff by (cases xs; cases ys) auto

lemma replaced_start:
  assumes "char_list cs" "list_all start_char new"
  shows "0 < i \<Longrightarrow> list_all (\<lambda>m. 0 < sp_to m) ms \<Longrightarrow> list_all start_char (replaced new cs i ms)"
proof (induction ms arbitrary: i)
  case Nil
  then obtain n where "i = Suc n" by (cases i) auto
  then show ?case using char_list_start [OF assms(1)] by (auto simp: list_all_iff dest: in_set_takeD)
next
  case (Cons m ms)
  then obtain n where "i = Suc n" by (cases i) auto
  then show ?case using char_list_start [OF assms(1)] Cons assms(2) by (auto simp: list_all_iff dest: in_set_takeD)
qed

lemma guarded_spans:
  assumes "list_all consuming rs" "0 < least (Seq rs)"
  shows "list_all (\<lambda>m. 0 < sp_to m) (rx_all U False (guarded rs) cs k i)"
proof (induction k arbitrary: i)
  case (Suc k)
  have "0 < sp_to m" if "rx_find U False (guarded rs) cs i = Some m" for m
  proof -
    from guarded_find(2) [OF assms(1) that] have "sp_from m \<le> sp_to m" "lang U False (Seq rs) (part cs (sp_from m) (sp_to m))"
      by (auto simp: key_at_def)
    have "length (part cs (sp_from m) (sp_to m)) \<le> sp_to m" by simp
    with least_lang [OF \<open>lang U False (Seq rs) (part cs (sp_from m) (sp_to m))\<close>] assms(2) show ?thesis by linarith
  qed
  with Suc show ?case by (simp split: option.split)
qed simp

lemma char_list_replaced:
  assumes "char_list cs" "list_all start_char new" "list_all (\<lambda>m. 0 < sp_to m) ms"
  shows "char_list (replaced new cs 0 ms)"
proof (cases ms)
  case Nil
  then show ?thesis using assms(1) by simp
next
  case (Cons m ms')
  have "char_list (part cs 0 (sp_from m))"
    using assms(1) char_list_sub [of "[]" "take (sp_from m) cs" "drop (sp_from m) cs"] by simp
  moreover have "list_all start_char (new @ replaced new cs (sp_to m) ms')"
    using replaced_start [OF assms(1,2), of "sp_to m" ms'] assms(2,3) Cons by simp
  ultimately show ?thesis unfolding Cons replaced.simps by (rule char_list_append)
qed

lemma rx_sub_clean:
  assumes "key_pattern U (length body) rs" "list_all consuming rs0" "0 < least (Seq rs0)"
    "rs = rs0 \<or> clean U rs s" "list_all (\<lambda>c. \<not> is_cont c) body"
  shows "clean U rs (rx_sub U False (guarded rs0) (CHR ''['' # body @ '']'') s)"
proof -
  let ?cs = "py_chars s" and ?b = "map (\<lambda>c. [c]) body"
  let ?new = "''['' # ?b @ ['']'']" and ?ms = "rx_all U False (guarded rs0) (py_chars s) (length (py_chars s) + 1) 0"
  have new: "list_all start_char ?new"
    using assms(5) by (auto simp: list_all_iff start_char_def is_cont_def)
  have "char_list (replaced ?new ?cs 0 ?ms)"
    by (rule char_list_replaced [OF char_list_py_chars new guarded_spans [OF assms(2,3)]])
  moreover have "concat ?new = CHR ''['' # body @ '']''" by (induction body) auto
  then have "concat (replaced ?new ?cs 0 ?ms) = rx_sub U False (guarded rs0) (CHR ''['' # body @ '']'') s"
    by (simp only: concat_replaced rx_sub_def rx_sub_with_def rx_split_def rx_finditer_def)
  moreover have "\<not> has_key U rs (replaced ?new ?cs 0 ?ms)"
    using replaced_no_key [of U ?b rs rs0 ?cs 0 "length ?cs + 1"] assms(1-4) by (simp add: clean_def del: least.simps rx_all.simps)
  ultimately show ?thesis unfolding clean_def by (metis py_chars_concat)
qed

text \<open>A separator between two texts.\<close>

lemma py_chars_separated:
  "\<not> is_cont d \<Longrightarrow>
   py_chars (x @ d # y) = py_chars x @ (d # takeWhile is_cont y) # py_chars (dropWhile is_cont y)"
proof (induction x rule: py_chars.induct)
  case (2 c cs)
  have t: "takeWhile is_cont (cs @ d # y) = takeWhile is_cont cs" "dropWhile is_cont (cs @ d # y) = dropWhile is_cont cs @ d # y"
    using 2(2) by (induction cs) auto
  show ?case using 2 by (simp add: t)
qed simp

text \<open>Patterns over ASCII characters and digits consume nothing that is foreign: no single byte beyond
  ASCII, and no sequence that starts with an ASCII or a continuation byte. The parts of text that are
  no code point are foreign, and so is white space beyond ASCII.\<close>

fun narrow_item :: "cls \<Rightarrow> bool" where
  "narrow_item (CChar c) = (case c of [b] \<Rightarrow> byte b < 128 | _ \<Rightarrow> False)"
| "narrow_item (CRange a b) = (case b of [c] \<Rightarrow> byte c < 128 | _ \<Rightarrow> False)"
| "narrow_item CDigit = True"
| "narrow_item _ = False"

fun narrow :: "rx \<Rightarrow> bool" where
  "narrow (Lit c) = (case c of [b] \<Rightarrow> byte b < 128 | _ \<Rightarrow> False)"
| "narrow (Cls pos items) = (pos \<and> list_all narrow_item items)"
| "narrow (Seq rs) = list_all narrow rs"
| "narrow (Alt rs) = list_all narrow rs"
| "narrow (Rep greedy lo hi r) = narrow r"
| "narrow (Grp n r) = narrow r"
| "narrow _ = False"

definition foreign :: "string \<Rightarrow> bool" where
  "foreign w \<longleftrightarrow> w \<noteq> [] \<and> \<not> beyond_ascii w \<and> (1 < length w \<or> 128 \<le> byte (hd w))"

lemma foreign_item: "foreign w \<Longrightarrow> narrow_item i \<Longrightarrow> \<not> in_cls U w i"
proof (cases i)
  case (CRange a b)
  assume w: "foreign w" and n: "narrow_item i"
  then obtain c where b: "b = [c]" "byte c < 128" using CRange by (auto split: list.splits)
  show ?thesis
  proof
    assume "in_cls U w i"
    then have "w \<le> [c]" "length w \<le> 1" using CRange b by auto
    moreover from this w obtain d where "w = [d]" "128 \<le> byte d" by (cases w) (auto simp: foreign_def)
    ultimately show False using b(2) by (auto simp: byte_def less_eq_char_def less_char_def le_less)
  qed
qed (auto simp: foreign_def is_digit_def ascii_in_def split: list.splits)

lemma foreign_avoided: "foreign w \<Longrightarrow> narrow r \<Longrightarrow> avoids U [w] r"
proof (induction r)
  case (Cls pos items)
  then show ?case by (auto simp: list_all_iff list_ex_iff dest: foreign_item)
qed (auto simp: list_all_iff foreign_def split: list.splits)

lemma foreign_not_word: "foreign w \<Longrightarrow> \<not> is_word U w"
  by (auto simp: foreign_def is_word_def ascii_in_def byte_def split: list.splits)

text \<open>A key pattern that white space and commas separate.\<close>

definition blanks :: "string list" where
  "blanks = [[CHR 0x09], [CHR 0x0A], [CHR 0x0B], [CHR 0x0C], [CHR 0x0D], [CHR 0x1C], [CHR 0x1D], [CHR 0x1E],
     [CHR 0x1F], '' '', '','']"

definition spaced :: "unicode \<Rightarrow> rx list \<Rightarrow> bool" where
  "spaced U rs \<longleftrightarrow> narrow (Seq rs) \<and> list_all (\<lambda>d. avoids U [d] (Seq rs)) blanks"

lemma separators:
  assumes "spaced U rs" "w \<in> set blanks \<or> foreign w"
  shows "avoids U [w] (Seq rs)" "\<not> is_word U w"
proof -
  have "\<not> is_word U b" if "b \<in> set blanks" for b
    using that by (auto simp: blanks_def is_word_def ascii_in_def byte_def)
  then show "\<not> is_word U w" using assms(2) foreign_not_word by blast
  show "avoids U [w] (Seq rs)"
    using assms foreign_avoided unfolding spaced_def list_all_iff by blast
qed

lemma byte_inj: "inj byte"
  by (rule injI) (simp add: byte_def)

lemma ws_separator: "is_ws ch \<Longrightarrow> ch \<in> set blanks \<or> foreign ch"
proof -
  assume w: "is_ws ch"
  show ?thesis
  proof (cases "\<exists>c. ch = [c]")
    case True
    then obtain c where c: "ch = [c]" by blast
    then have "byte c = 32 \<or> (9 \<le> byte c \<and> byte c \<le> 13) \<or> (28 \<le> byte c \<and> byte c \<le> 31)"
      using w by (simp add: is_ws_def byte_def)
    then have "byte c \<in> {9, 10, 11, 12, 13, 28, 29, 30, 31, 32}" by auto
    then have "byte c \<in> byte ` {CHR 0x09, CHR 0x0A, CHR 0x0B, CHR 0x0C, CHR 0x0D, CHR 0x1C, CHR 0x1D, CHR 0x1E, CHR 0x1F, CHR '' ''}"
      by (simp add: byte_def)
    then have "c \<in> {CHR 0x09, CHR 0x0A, CHR 0x0B, CHR 0x0C, CHR 0x0D, CHR 0x1C, CHR 0x1D, CHR 0x1E, CHR 0x1F, CHR '' ''}"
      by (simp only: inj_image_mem_iff [OF byte_inj])
    then show ?thesis by (auto simp: c blanks_def)
  next
    case False
    moreover have "ch \<noteq> []" using w by (auto simp: is_ws_def)
    ultimately have "1 < length ch" by (cases ch; cases "tl ch") auto
    then show ?thesis using w \<open>ch \<noteq> []\<close> by (simp add: foreign_def beyond_ascii_def)
  qed
qed

lemma clean_separated:
  assumes "spaced U rs" "[d] \<in> set blanks" "clean U rs x" "clean U rs y"
  shows "clean U rs (x @ d # y)"
proof -
  have d: "byte d < 128" using assms(2) by (auto simp: blanks_def byte_def)
  then have nc: "\<not> is_cont d" by (simp add: is_cont_def byte_def)
  let ?t = "takeWhile is_cont y" and ?z = "py_chars (dropWhile is_cont y)"
  have sep: "d # ?t = [d] \<or> foreign (d # ?t)" using d by (auto simp: foreign_def beyond_ascii_def)
  have "\<not> has_key U rs ?z"
  proof (cases ?t)
    case Nil
    then have "dropWhile is_cont y = y" by (metis append_Nil takeWhile_dropWhile_id)
    then show ?thesis using assms(4) by (simp add: clean_def)
  next
    case (Cons c t)
    then have y: "y = c # t @ dropWhile is_cont y" by (metis append_Cons takeWhile_dropWhile_id)
    have "list_all is_cont ?t" by (auto simp: list_all_iff dest: set_takeWhileD)
    then have c: "is_cont c" "list_all is_cont t" by (simp_all add: Cons)
    have "dropWhile is_cont y = [] \<or> \<not> is_cont (hd (dropWhile is_cont y))" using hd_dropWhile by blast
    from takeWhile_conts [OF c(2) this] have "py_chars y = (c # t) # ?z" by (subst y) simp
    moreover have "foreign (c # t)" using c(1) by (auto simp: foreign_def beyond_ascii_def is_cont_def byte_def)
    ultimately show ?thesis
      using assms(4) key_separated [OF separators [OF assms(1) disjI2], of "c # t" "[]" ?z] by (simp add: clean_def)
  qed
  with assms(3) show ?thesis
    unfolding clean_def py_chars_separated [OF nc]
    using key_separated [OF separators [OF assms(1)], of "d # ?t" "py_chars x" ?z] sep assms(2) by auto
qed

lemma clean_prefix:
  assumes "spaced U rs" "list_all is_ws ws" "\<not> has_key U rs (cs @ ws)"
  shows "\<not> has_key U rs cs"
proof (cases ws)
  case (Cons w ws')
  then have "w \<in> set blanks \<or> foreign w" using assms(2) ws_separator by simp
  from key_separated [OF separators [OF assms(1) this], of cs ws'] assms(3) Cons show ?thesis by simp
qed (use assms in simp)

end
