(* ===== verification/Spec2Isabelle.thy ===== *)
theory Spec2Isabelle
  imports System WorkerProperties QueueProperties RecoveryProperties ServiceProperties
    CacheProperties Vietnamese RoutingProperties ContextProperties RedactionProperties
begin

text \<open>
  The Core of Anh Duong AI Coworker: a verification library for the Python code under \<open>src/app\<close>.

  \<^bold>\<open>The program.\<close> A message arrives as a Core request. \<open>CoreRequestPipeline.prepare\<close> decides what
  it means (a semantic frame of a resolver, or the deterministic routers), finds its project and
  task, and builds a workflow envelope with a policy decision. An accepted workflow becomes a task
  and an async run (\<open>AsyncTaskService.create\<close>), with a plan and, where the policy asks for it, an
  approval. A worker claims due runs under a lease, executes their plan through an external
  executor, judges the outcome, replans within a budget and persists the result; a notification
  worker reports it; recovery at start-up settles the runs of a worker that died. Two tiers of
  cache serve the readers.

  \<^bold>\<open>Theories and sources.\<close>

    \<^item> \<open>Prelude\<close>: Python strings as UTF-8 bytes (\<open>py_chars\<close>, \<open>py_len\<close>, \<open>py_split\<close>, \<open>py_strip\<close>), JSON
      documents, times in microseconds, lists. \<open>Errors\<close>: the exceptions as values and the monad
      \<open>py_error + 'a\<close>. \<open>World\<close>: the database as a record of tables, the audit log, the state monad
      with \<open>session_scope\<close> (commit or roll back), the clock, \<open>uuid4\<close>, the executor and the notifier
      as streams of answers.
    \<^item> \<open>TaskModels\<close>, \<open>TaskService\<close>: \<open>tasks/\<close>. \<open>Approvals\<close>: \<open>approvals/\<close>. \<open>Privacy\<close>: \<open>privacy/\<close>.
      \<open>Policy\<close>: \<open>policy/\<close>.
    \<^item> \<open>AsyncModels\<close>, \<open>AsyncRepository\<close>, \<open>AsyncService\<close>, \<open>AsyncApi\<close>: \<open>async_tasks/\<close> without its
      workers, and \<open>api/async_tasks.py\<close>.
    \<^item> \<open>PlanModels\<close>, \<open>PlanGraph\<close>, \<open>Planning\<close>, \<open>Judging\<close>: \<open>planning/\<close> and the executor's results
      (\<open>openclaw/models.py\<close>).
    \<^item> \<open>WorkerPlan\<close>, \<open>Worker\<close>, \<open>Recovery\<close>: \<open>async_tasks/worker.py\<close>, \<open>recovery.py\<close> and
      \<open>notification.py\<close>.
    \<^item> \<open>Cache\<close> (keys and the memory tier), \<open>CacheStore\<close> (the SQLite tier), \<open>CacheService\<close>: \<open>cache/\<close>.
      \<open>CacheTier\<close> is the interface of a tier.
    \<^item> \<open>Regex\<close>: Python's matcher, for the patterns of the classifiers. \<open>TextNormal\<close>, \<open>SafetyIntent\<close>:
      \<open>safety_intent.py\<close>. \<open>VisualInteraction\<close>: \<open>visual_interaction.py\<close>. \<open>FastRouting\<close>: \<open>routing/\<close>.
      \<open>IntentContract\<close>, \<open>CapabilityRouting\<close>: \<open>capabilities/\<close>. \<open>SemanticIntent\<close>:
      \<open>semantic_intent.py\<close>. \<open>WorkflowResolution\<close>, \<open>Pipeline\<close>: \<open>orchestration/\<close>.
    \<^item> \<open>ContextRender\<close> (data and text of the sections), \<open>ContextBuilder\<close> (selection and trimming):
      \<open>context_builder/\<close>.
    \<^item> \<open>Redaction\<close>: the patterns of \<open>audit/redaction.py\<close>; \<open>World\<close> has its recursion over documents.
    \<^item> \<open>Demo\<close>, \<open>DemoJson\<close>, \<open>Vietnamese\<close>: concrete instances of the parameters.

  Every function, method or handler is one definition with its guards, early returns and raises as
  branches; tables and pattern lists are lists in the source's order. A record keeps the fields of
  its class, with a prefix for the class.

  \<^bold>\<open>Groups of lemmas.\<close>

    \<^item> \<open>WorkerSafety\<close>, \<open>WorkerBudget\<close>, \<open>WorkerOutcome\<close>, \<open>WorkerTermination\<close>, \<open>Success\<close>, collected in
      \<open>WorkerProperties\<close>: completion needs a satisfied judgement, gates need an approval, the budget
      bounds the executor's calls, the plan's contract is kept, results and errors are recorded.
    \<^item> \<open>QueueProperties\<close>, \<open>RecoveryProperties\<close>, \<open>ServiceProperties\<close>: claims, transitions, recovery,
      notification, idempotent acceptance, approvals, validation of plans and requests, the stored
      request document.
    \<^item> \<open>System\<close>: the invariant of the tables in every state that the calls of the API and the workers
      reach in any order; each call refines one step of \<open>system_step\<close>.
    \<^item> \<open>CacheProperties\<close>: each tier refines a map that may forget, capacities, and where a hit comes
      from.
    \<^item> \<open>SafetyProperties\<close>, \<open>RoutingProperties\<close>: what a read-only boundary, a route, an envelope and a
      prepared request guarantee.
    \<^item> \<open>ContextProperties\<close>: a built context fits its budget, what is required is in it, and each item
      is kept or recorded as dropped, through one relation \<open>accounts\<close> that every step keeps.
    \<^item> \<open>RegexLang\<close>: the matcher finds exactly the parts of a text that are words of the pattern's
      language. \<open>RegexGuarded\<close>: patterns between word boundaries, and what replacing their matches
      leaves. \<open>RedactionProperties\<close>: no provider key is left in a redacted text or a built context.
      \<open>RedactionPlain\<close>: texts and field names that the redactor leaves alone.

  Interfaces are locales (the state monad's relations in \<open>World\<close>, the frame of a plan in
  \<open>WorkerBudget\<close>, the tier of a cache in \<open>CacheTier\<close>), each interpreted on the model's own
  operations in the theory of their component.

  \<^bold>\<open>Loops.\<close> The loop of \<open>_execute_planned_run\<close> runs over the source's bound of 256 rounds;
  \<open>WorkerTermination\<close> shows that 204 are enough. Graph search, LRU eviction and the clause scanners
  recurse on measures. A repetition of a regular expression stops, as Python's does, at an empty
  match, so that the length of the text bounds its rounds.

  \<^bold>\<open>Parameters.\<close> What is not under \<open>src/\<close> is an argument: SHA-256 and \<open>json\<close>
  (\<open>e_codecs\<close>, \<open>cache_lib\<close>), path resolution (\<open>filesystem\<close>), the Unicode tables (\<open>unicode\<close>), the
  executor, the notifier, the semantic resolver's model, the faults of the cache's database. The
  persona, the context bundle and the redactor's patterns are arguments of the pipeline, and the
  capability, the status report and the classification of a run's text are arguments of the service and the
  worker. Laws that a property needs of them are hypotheses of the property, applied to a concrete
  instance in its witness.

  \<^bold>\<open>Not modelled.\<close> Network and process I/O (the OpenClaw client, the image generator, the
  notifier's transport, the HTTP call and the answer's parsing of the semantic resolver, the
  VisualForge client), the declarative schema and the migrations (the tables appear as row
  records), the wiring of the application, metrics and latencies, the audit event of a prepared
  request, the retrieval of memories and context, the persona files, and the developer tools under
  \<open>src/scripts\<close>.
\<close>

end
